(* ===== verification/Prelude.thy ===== *)
theory Prelude
  imports Complex_Main "HOL-Library.Word" "HOL-Library.Monad_Syntax"
begin

text \<open>
  Shared vocabulary of the development: byte strings, big-endian numbers, the built-in
  slice operations of Go (\<open>copy\<close>, slicing with its panics) and truncating division.
  A Go panic is the value \<^term>\<open>None\<close>; a returned \<open>error\<close> is \<^term>\<open>Inl\<close> of an error value.
  Go's \<open>int\<close> is 64 bits wide; lengths and offsets stay far below \<open>2^63\<close>, so they are
  \<^typ>\<open>nat\<close> or \<^typ>\<open>int\<close>. Sized integers whose wrap-around matters are words.
\<close>

unbundle bit_operations_syntax

named_theorems be_simps \<open>big-endian encoding and decoding\<close>

type_synonym byte = "8 word"
type_synonym bytes = "byte list"
type_synonym u16 = "16 word"
type_synonym u32 = "32 word"
type_synonym u64 = "64 word"

text \<open>A Go string literal is its bytes.\<close>

definition str :: "string \<Rightarrow> bytes" where
  "str s = map of_char s"

lemma length_str [simp]: "length (str s) = length s"
  by (simp add: str_def)

section \<open>Failure\<close>

text \<open>\<open>check c\<close> stops a computation in the option monad unless \<open>c\<close> holds.\<close>

definition check :: "bool \<Rightarrow> unit option" where
  "check c = (if c then Some () else None)"

lemma check_simps [simp]: "check True = Some ()" "check False = None"
  by (simp_all add: check_def)

lemma check_eq_Some [simp]: "check c = Some u \<longleftrightarrow> c"
  by (simp add: check_def)

lemma bind_check_Some [simp]:
  "(Option.bind (check c) f = Some r) \<longleftrightarrow> c \<and> f () = Some r"
  by (simp add: check_def)

section \<open>Big-endian numbers\<close>

text \<open>
  \<open>be_enc k n\<close> are the \<open>k\<close> low bytes of \<open>n\<close>, most significant first: what
  \<open>byte(n>>8), byte(n)\<close> and \<open>binary.BigEndian\<close> produce.
\<close>

primrec be_enc :: "nat \<Rightarrow> nat \<Rightarrow> bytes" where
  "be_enc 0 n = []"
| "be_enc (Suc k) n = word_of_nat (n div 256 ^ k) # be_enc k n"

primrec be_dec :: "bytes \<Rightarrow> nat" where
  "be_dec [] = 0"
| "be_dec (b # bs) = unat b * 256 ^ length bs + be_dec bs"

lemma length_be_enc [simp]: "length (be_enc k n) = k"
  by (induction k) simp_all

lemma be_enc_eq_Nil [simp]: "be_enc k n = [] \<longleftrightarrow> k = 0"
  by (cases k) simp_all

lemma unat_byte_of_nat [simp]: "unat (word_of_nat n :: byte) = n mod 256"
  by (simp add: unat_of_nat)

lemma be_dec_enc [be_simps]: "be_dec (be_enc k n) = n mod 256 ^ k"
proof (induction k)
  case 0
  show ?case by simp
next
  case (Suc k)
  have "be_dec (be_enc (Suc k) n) = (n div 256 ^ k) mod 256 * 256 ^ k + n mod 256 ^ k"
    by (simp add: Suc.IH)
  also have "\<dots> = n mod (256 ^ k * 256)"
    by (simp only: mod_mult2_eq mult.commute [of "_ mod 256"])
  finally show ?case by (simp only: power_Suc mult.commute)
qed

lemma be_dec_less: "be_dec bs < 256 ^ length bs"
proof (induction bs)
  case Nil
  show ?case by simp
next
  case (Cons b bs)
  have "unat b \<le> 255" using unsigned_less [where ?'a = nat, of b] by simp
  then have "unat b * 256 ^ length bs \<le> 255 * 256 ^ length bs" by simp
  with Cons.IH have "unat b * 256 ^ length bs + be_dec bs < 255 * 256 ^ length bs + 256 ^ length bs"
    by linarith
  then show ?case by simp
qed

lemma be_enc_dec: "be_enc (length bs) (be_dec bs) = bs"
proof (induction bs)
  case Nil
  show ?case by simp
next
  case (Cons b bs)
  have low: "be_enc k (m * 256 ^ k + n) = be_enc k n" for k m n :: nat
  proof -
    have "be_enc j (m * 256 ^ (j + i) + n) = be_enc j n" for i j :: nat
    proof (induction j arbitrary: i)
      case (Suc j)
      have "(m * 256 ^ (Suc j + i) + n) div 256 ^ j = m * 256 ^ Suc i + n div 256 ^ j"
        by (simp only: power_add mult.left_commute [of m "256 ^ Suc j"])
          (simp add: mult.assoc mult.left_commute [of _ "256 ^ j"])
      moreover have "(word_of_nat (m * 256 ^ Suc i + n div 256 ^ j) :: byte) = word_of_nat (n div 256 ^ j)"
        by (simp only: word_of_nat_eq_iff take_bit_eq_mod) (simp add: mult.left_commute [of m])
      ultimately show ?case using Suc.IH [of "Suc i"] by simp
    qed simp
    from this [of k 0] show ?thesis by simp
  qed
  have "be_dec bs div 256 ^ length bs = 0"
    using be_dec_less [of bs] by simp
  then have "(unat b * 256 ^ length bs + be_dec bs) div 256 ^ length bs = unat b"
    by simp
  then show ?case by (simp add: low Cons.IH)
qed

lemma be_enc_1: "be_enc 1 n = [word_of_nat n]"
  by simp

lemma be_enc_2: "be_enc 2 n = [word_of_nat (n div 256), word_of_nat n]"
  by (simp add: numeral_2_eq_2)

lemma be_enc_3: "be_enc 3 n = [word_of_nat (n div 65536), word_of_nat (n div 256), word_of_nat n]"
  by (simp add: numeral_3_eq_3)

lemma be_enc_numeral:
  "be_enc (numeral k) n = word_of_nat (n div 256 ^ pred_numeral k) # be_enc (pred_numeral k) n"
  by (simp add: numeral_eq_Suc)

lemma unat_u16 [simp]: "unat (w :: u16) mod 65536 = unat w"
  using unsigned_less [where ?'a = nat, of w] by simp

lemma unat_u32 [simp]: "unat (w :: u32) mod 4294967296 = unat w"
  using unsigned_less [where ?'a = nat, of w] by simp

lemma unat_u64 [simp]: "unat (w :: u64) mod 18446744073709551616 = unat w"
  using unsigned_less [where ?'a = nat, of w] by simp

lemma be_dec_enc_u16 [simp]: "be_dec (be_enc 2 (unat (w :: u16))) = unat w"
  by (simp add: be_dec_enc)

lemma be_dec_enc_u32 [simp]: "be_dec (be_enc 4 (unat (w :: u32))) = unat w"
  by (simp add: be_dec_enc)

lemma be_dec_enc_u64 [simp]: "be_dec (be_enc 8 (unat (w :: u64))) = unat w"
  by (simp add: be_dec_enc)

section \<open>Slices\<close>

text \<open>
  \<open>copy(dst, src)\<close> overwrites a prefix of \<open>dst\<close>; \<open>copy_at off dst src\<close> is
  \<open>copy(dst[off:], src)\<close>, which panics when \<open>off\<close> is beyond the end.
\<close>

definition go_copy :: "'a list \<Rightarrow> 'a list \<Rightarrow> 'a list" where
  "go_copy dst src = take (length dst) src @ drop (length src) dst"

definition copy_at :: "nat \<Rightarrow> 'a list \<Rightarrow> 'a list \<Rightarrow> 'a list option" where
  "copy_at off dst src =
     (if off \<le> length dst then Some (take off dst @ go_copy (drop off dst) src) else None)"

text \<open>\<open>s[lo:hi]\<close> on a slice whose capacity is its length.\<close>

definition go_slice :: "'a list \<Rightarrow> nat \<Rightarrow> nat \<Rightarrow> 'a list option" where
  "go_slice s lo hi = (if lo \<le> hi \<and> hi \<le> length s then Some (take (hi - lo) (drop lo s)) else None)"

lemma length_go_copy [simp]: "length (go_copy dst src) = length dst"
  by (simp add: go_copy_def)

lemma length_copy_at: "copy_at off dst src = Some r \<Longrightarrow> length r = length dst"
  by (auto simp: copy_at_def split: if_splits)

lemma go_copy_exact: "length src = length dst \<Longrightarrow> go_copy dst src = src"
  by (simp add: go_copy_def)

lemma go_slice_eq_Some [simp]:
  "go_slice s lo hi = Some r \<longleftrightarrow> lo \<le> hi \<and> hi \<le> length s \<and> r = take (hi - lo) (drop lo s)"
  by (auto simp: go_slice_def)

section \<open>Integer arithmetic of Go\<close>

text \<open>Division truncates toward zero.\<close>

definition go_quot :: "int \<Rightarrow> int \<Rightarrow> int" where
  "go_quot a b = sgn a * sgn b * (\<bar>a\<bar> div \<bar>b\<bar>)"

lemma go_quot_nonneg: "0 \<le> a \<Longrightarrow> 0 < b \<Longrightarrow> go_quot a b = a div b"
  by (cases "a = 0") (simp_all add: go_quot_def)

end
