(* ===== verification/Profile.thy ===== *)
theory Profile
  imports Prelude
begin

text \<open>
  Traffic profiles (\<open>disguise/profile/profile.go\<close>) and the outside world they draw from.

  A \<open>float64\<close> is an element of an ordered field \<open>'f\<close> with a floor function (class
  \<open>floor_ceiling\<close>; the rationals evaluate, the reals are another instance). Infinities and NaN are not
  modelled. Theory Float64 has the rounding, which the classifier applies to all that it stores; here and in
  the scheduler it is left out, as no bound below depends on the value of a sample.
  The profile's mutex is not part of the state: every operation is one atomic step.
\<close>

section \<open>Randomness, clock and the math library\<close>

text \<open>
  The results of \<open>crypto/rand.Read\<close>, \<open>math/rand\<close>, \<open>time.Now\<close> and the order in which
  \<open>range\<close> visits a map are inputs: arbitrary functions of the number of draws made so far
  (\<open>tick\<close>). \<open>m_pow\<close> and \<open>m_log\<close> are \<open>math.Pow\<close> and \<open>math.Log\<close>.
\<close>

datatype TrafficType = WebBrowsing | VideoStreaming | FileDownload | Dynamic

record 'f world =
  tick :: nat
  w_bytes :: "nat \<Rightarrow> nat \<Rightarrow> byte"
  w_fail :: "nat \<Rightarrow> bool"
  w_intn :: "nat \<Rightarrow> nat"
  w_float :: "nat \<Rightarrow> 'f"
  w_norm :: "nat \<Rightarrow> 'f"
  w_clock :: "nat \<Rightarrow> int"
  w_order :: "nat \<Rightarrow> TrafficType list"
  m_pow :: "'f \<Rightarrow> 'f \<Rightarrow> 'f"
  m_log :: "'f \<Rightarrow> 'f"

definition step :: "'f world \<Rightarrow> 'f world" where
  "step w = w\<lparr>tick := Suc (tick w)\<rparr>"

text \<open>\<open>crypto_read n\<close> fills an \<open>n\<close>-byte buffer, or fails and leaves it alone (\<^term>\<open>None\<close>).\<close>

definition crypto_read :: "nat \<Rightarrow> 'f world \<Rightarrow> bytes option \<times> 'f world" where
  "crypto_read n w =
     ((if w_fail w (tick w) then None else Some (map (w_bytes w (tick w)) [0..<n])), step w)"

text \<open>\<open>rand.Intn(n)\<close> panics for \<open>n <= 0\<close> and is below \<open>n\<close> otherwise.\<close>

definition rand_Intn :: "int \<Rightarrow> 'f world \<Rightarrow> (int \<times> 'f world) option" where
  "rand_Intn n w = (if n \<le> 0 then None else Some (int (w_intn w (tick w)) mod n, step w))"

definition rand_Float64 :: "'f world \<Rightarrow> 'f \<times> 'f world" where
  "rand_Float64 w = (w_float w (tick w), step w)"

definition rand_NormFloat64 :: "'f world \<Rightarrow> 'f \<times> 'f world" where
  "rand_NormFloat64 w = (w_norm w (tick w), step w)"

text \<open>\<open>time.Now().UnixNano()\<close>.\<close>

definition UnixNano :: "'f world \<Rightarrow> int \<times> 'f world" where
  "UnixNano w = (w_clock w (tick w), step w)"

lemma rand_Intn_range: "rand_Intn n w = Some (r, w') \<Longrightarrow> 0 \<le> r \<and> r < n"
  by (auto simp: rand_Intn_def split: if_splits)

lemma rand_Intn_pos: "0 < n \<Longrightarrow> \<exists>r w'. rand_Intn n w = Some (r, w') \<and> 0 \<le> r \<and> r < n"
  by (simp add: rand_Intn_def)

lemma crypto_read_length: "crypto_read n w = (Some bs, w') \<Longrightarrow> length bs = n"
  by (auto simp: crypto_read_def split: if_splits)

section \<open>Profiles\<close>

datatype 'f distribution =
    bimodalDistribution (mode1Mean: 'f) (mode1StdDev: 'f) (mode1Weight: 'f) (mode2Mean: 'f) (mode2StdDev: 'f)
  | paretoDistribution (alpha: 'f) (xm: 'f)

record 'f profile =
  MinCellSize :: int
  MaxCellSize :: int
  ProbingInterval :: int
  LatencyJitter :: int
  EWMAAlpha :: 'f
  TrafficWeights :: "TrafficType \<rightharpoonup> 'f"
  PayloadDistributions :: "TrafficType \<rightharpoonup> 'f distribution"
  CurrentLoad :: 'f

abbreviation second :: int where "second \<equiv> 1000000000"
abbreviation millisecond :: int where "millisecond \<equiv> 1000000"

definition profile_CellHeaderLen :: int where
  "profile_CellHeaderLen = 20"

text \<open>\<open>int(f)\<close> for \<open>f \<ge> 1\<close> drops the fraction.\<close>

definition bimodal_Sample :: "'f::floor_ceiling distribution \<Rightarrow> 'f world \<Rightarrow> int \<times> 'f world" where
  "bimodal_Sample d w =
     (let (u, w1) = rand_Float64 w; (z, w2) = rand_NormFloat64 w1
      in if u < mode1Weight d then (\<lfloor>max 1 (z * mode1StdDev d + mode1Mean d)\<rfloor>, w2)
         else (\<lfloor>max 1 (z * mode2StdDev d + mode2Mean d)\<rfloor>, w2))"

definition pareto_Sample :: "'f::floor_ceiling distribution \<Rightarrow> 'f world \<Rightarrow> int \<times> 'f world" where
  "pareto_Sample d w =
     (let (u, w1) = rand_Float64 w in (\<lfloor>max 1 (xm d / m_pow w u (1 / alpha d))\<rfloor>, w1))"

fun Sample :: "'f::floor_ceiling distribution \<Rightarrow> 'f world \<Rightarrow> int \<times> 'f world" where
  "Sample (bimodalDistribution a b c d e) w = bimodal_Sample (bimodalDistribution a b c d e) w"
| "Sample (paretoDistribution a b) w = pareto_Sample (paretoDistribution a b) w"

fun GetProfile :: "TrafficType \<Rightarrow> 'f::floor_ceiling profile" where
  "GetProfile WebBrowsing =
     \<lparr>MinCellSize = 64, MaxCellSize = 1400, ProbingInterval = 15 * second,
      LatencyJitter = 20 * millisecond, EWMAAlpha = 1 / 10,
      TrafficWeights = [WebBrowsing \<mapsto> 1],
      PayloadDistributions = [WebBrowsing \<mapsto> bimodalDistribution 100 20 (8 / 10) 1000 150],
      CurrentLoad = 0\<rparr>"
| "GetProfile VideoStreaming =
     \<lparr>MinCellSize = 64, MaxCellSize = 1400, ProbingInterval = 10 * second,
      LatencyJitter = 10 * millisecond, EWMAAlpha = 2 / 10,
      TrafficWeights = [VideoStreaming \<mapsto> 1],
      PayloadDistributions = [VideoStreaming \<mapsto> bimodalDistribution 64 10 (2 / 10) 1300 50],
      CurrentLoad = 0\<rparr>"
| "GetProfile FileDownload =
     \<lparr>MinCellSize = 64, MaxCellSize = 1400, ProbingInterval = 30 * second,
      LatencyJitter = 50 * millisecond, EWMAAlpha = 5 / 100,
      TrafficWeights = [FileDownload \<mapsto> 1],
      PayloadDistributions = [FileDownload \<mapsto> paretoDistribution (15 / 10) 500],
      CurrentLoad = 0\<rparr>"
| "GetProfile Dynamic =
     \<lparr>MinCellSize = 64, MaxCellSize = 1400, ProbingInterval = 15 * second,
      LatencyJitter = 20 * millisecond, EWMAAlpha = 1 / 10,
      TrafficWeights = [WebBrowsing \<mapsto> 7 / 10, VideoStreaming \<mapsto> 2 / 10, FileDownload \<mapsto> 1 / 10],
      PayloadDistributions =
        [WebBrowsing \<mapsto> bimodalDistribution 100 20 (8 / 10) 1000 150,
         VideoStreaming \<mapsto> bimodalDistribution 64 10 (2 / 10) 1300 50,
         FileDownload \<mapsto> paretoDistribution (15 / 10) 500],
      CurrentLoad = 0\<rparr>"

text \<open>The keys of a Go map, and \<open>len\<close>; \<open>range\<close> visits them in the world's order.\<close>

definition has_key :: "('k \<rightharpoonup> 'v) \<Rightarrow> 'k \<Rightarrow> bool" where
  "has_key m k \<longleftrightarrow> m k \<noteq> None"

lemma has_key_simps [simp]:
  "has_key Map.empty k = False"
  "has_key (m(j \<mapsto> v)) k = (k = j \<or> has_key m k)"
  by (auto simp: has_key_def)

definition map_keys :: "(TrafficType \<rightharpoonup> 'v) \<Rightarrow> TrafficType list" where
  "map_keys m = filter (has_key m) [WebBrowsing, VideoStreaming, FileDownload, Dynamic]"

definition range_keys :: "'f world \<Rightarrow> (TrafficType \<rightharpoonup> 'v) \<Rightarrow> TrafficType list" where
  "range_keys w m = filter (has_key m) (w_order w (tick w))"

definition GetProfileType :: "'f::floor_ceiling profile \<Rightarrow> TrafficType" where
  "GetProfileType p =
     (case map_keys (TrafficWeights p) of [t] \<Rightarrow> t | _ \<Rightarrow> Dynamic)"

fun select_loop :: "'f::floor_ceiling \<Rightarrow> 'f \<Rightarrow> (TrafficType \<rightharpoonup> 'f) \<Rightarrow> TrafficType list \<Rightarrow> TrafficType" where
  "select_loop r cumulativeWeight m [] = WebBrowsing"
| "select_loop r cumulativeWeight m (typ # ts) =
     (let c = cumulativeWeight + (case m typ of Some weight \<Rightarrow> weight | None \<Rightarrow> 0)
      in if r \<le> c then typ else select_loop r c m ts)"

definition selectTrafficType :: "'f::floor_ceiling profile \<Rightarrow> 'f world \<Rightarrow> TrafficType \<times> 'f world" where
  "selectTrafficType p w =
     (case map_keys (TrafficWeights p) of
        [t] \<Rightarrow> (t, w)
      | _ \<Rightarrow> let (r, w1) = rand_Float64 w
             in (select_loop r 0 (TrafficWeights p) (range_keys w1 (TrafficWeights p)), step w1))"

definition updateLoad :: "int \<Rightarrow> 'f::floor_ceiling profile \<Rightarrow> 'f profile" where
  "updateLoad latest p =
     (let normalized = of_int latest / of_int (MaxCellSize p)
      in p\<lparr>CurrentLoad := CurrentLoad p * (1 - EWMAAlpha p) + normalized * EWMAAlpha p\<rparr>)"

text \<open>A traffic type without a distribution is a nil interface: calling \<open>Sample\<close> panics.\<close>

definition GetNextPayloadLength ::
  "'f::floor_ceiling profile \<Rightarrow> 'f world \<Rightarrow> (int \<times> 'f profile \<times> 'f world) option" where
  "GetNextPayloadLength p w =
     (let (trafficType, w1) = selectTrafficType p w
      in case PayloadDistributions p trafficType of
           None \<Rightarrow> None
         | Some d \<Rightarrow>
             (let (len0, w2) = Sample d w1;
                  len1 = (if len0 > MaxCellSize p - profile_CellHeaderLen
                          then MaxCellSize p - profile_CellHeaderLen else len0);
                  len2 = (if len1 < 1 then 1 else len1)
              in Some (len2, updateLoad len2 p, w2)))"

definition GetNextCellSize :: "'f::floor_ceiling profile \<Rightarrow> 'f world \<Rightarrow> (int \<times> 'f world) option" where
  "GetNextCellSize p w =
     (case rand_Intn (MaxCellSize p - MinCellSize p) w of
        None \<Rightarrow> None
      | Some (n, w') \<Rightarrow> Some (n + MinCellSize p, w'))"

section \<open>Well-formed profiles\<close>

text \<open>
  What the four built-in profiles satisfy and every operation keeps: a non-empty range of cell
  sizes above the header that fits a \<open>uint16\<close>, a smoothing factor in \<open>[0, 1]\<close>, a distribution for every weighted
  type (and for the fallback \<open>WebBrowsing\<close> when several types compete), and a load in
  \<open>[0, 1]\<close>.
\<close>

definition profile_ok :: "'f::floor_ceiling profile \<Rightarrow> bool" where
  "profile_ok p \<longleftrightarrow>
     profile_CellHeaderLen < MinCellSize p \<and> MinCellSize p < MaxCellSize p \<and>
     MaxCellSize p \<le> 65535 \<and> 0 \<le> EWMAAlpha p \<and> EWMAAlpha p \<le> 1 \<and>
     0 \<le> CurrentLoad p \<and> CurrentLoad p \<le> 1 \<and>
     list_all (\<lambda>t. PayloadDistributions p t \<noteq> None) (map_keys (TrafficWeights p)) \<and>
     (length (map_keys (TrafficWeights p)) = 1 \<or> PayloadDistributions p WebBrowsing \<noteq> None)"

lemma profile_ok_GetProfile: "profile_ok (GetProfile t :: 'f::floor_ceiling profile)"
  by (cases t) (simp_all add: profile_ok_def profile_CellHeaderLen_def map_keys_def)

lemma GetProfileType_GetProfile: "GetProfileType (GetProfile t :: 'f::floor_ceiling profile) = t"
  by (cases t) (simp_all add: GetProfileType_def map_keys_def)

lemma set_map_keys: "t \<in> set (map_keys m) \<longleftrightarrow> m t \<noteq> None"
  by (cases t) (auto simp: map_keys_def has_key_def)

lemma select_loop_mem: "select_loop r c m ts \<in> insert WebBrowsing (set ts)"
  by (induction ts arbitrary: c) (auto simp: Let_def)

lemma selectTrafficType_dist:
  assumes "profile_ok p" and "selectTrafficType p w = (t, w')"
  shows "\<exists>d. PayloadDistributions p t = Some d"
proof (cases "\<exists>t0. map_keys (TrafficWeights p) = [t0]")
  case True
  with assms show ?thesis by (auto simp: profile_ok_def selectTrafficType_def)
next
  case False
  then have single: "length (map_keys (TrafficWeights p)) \<noteq> 1"
    by (auto simp: length_Suc_conv)
  have all: "PayloadDistributions p t \<noteq> None" if "TrafficWeights p t \<noteq> None" for t
    using assms(1) that by (simp add: profile_ok_def list_all_iff set_map_keys)
  have "t \<in> insert WebBrowsing (set (range_keys (step w) (TrafficWeights p)))"
    using assms(2) False select_loop_mem
    by (auto simp: selectTrafficType_def rand_Float64_def split: list.splits)
  with all single assms(1) show ?thesis
    by (auto simp: profile_ok_def range_keys_def has_key_def)
qed

lemma updateLoad_ok:
  assumes "profile_ok p" and "0 \<le> n" and "n \<le> MaxCellSize p"
  shows "profile_ok (updateLoad n p)"
proof -
  let ?a = "EWMAAlpha p" and ?x = "of_int n / of_int (MaxCellSize p) :: 'a" and ?l = "CurrentLoad p"
  have pos: "0 < MaxCellSize p" and a: "0 \<le> ?a" "?a \<le> 1" and l: "0 \<le> ?l" "?l \<le> 1"
    using assms(1) by (simp_all add: profile_ok_def profile_CellHeaderLen_def)
  have x: "0 \<le> ?x" "?x \<le> 1" using pos assms(2,3) by simp_all
  have "?l * (1 - ?a) + ?x * ?a \<le> 1 * (1 - ?a) + 1 * ?a"
    by (intro add_mono mult_right_mono) (use a l x in simp_all)
  then have "?l * (1 - ?a) + ?x * ?a \<le> 1" by simp
  moreover have "0 \<le> ?l * (1 - ?a) + ?x * ?a"
    by (intro add_nonneg_nonneg mult_nonneg_nonneg) (use a l x in simp_all)
  ultimately show ?thesis
    using assms(1) by (simp add: profile_ok_def updateLoad_def Let_def)
qed

lemma GetNextPayloadLength_ok:
  assumes "profile_ok p"
  shows "\<exists>n p' w'. GetNextPayloadLength p w = Some (n, p', w') \<and> 1 \<le> n \<and>
           n \<le> MaxCellSize p - profile_CellHeaderLen \<and> profile_ok p' \<and>
           MaxCellSize p' = MaxCellSize p \<and> MinCellSize p' = MinCellSize p"
proof -
  obtain t w1 where sel: "selectTrafficType p w = (t, w1)" by fastforce
  from selectTrafficType_dist [OF assms sel] obtain d where d: "PayloadDistributions p t = Some d" ..
  obtain n0 w2 where s: "Sample d w1 = (n0, w2)" by fastforce
  define lim where "lim = MaxCellSize p - profile_CellHeaderLen"
  define n where "n = (let m = (if n0 > lim then lim else n0) in if m < 1 then 1 else m)"
  have "1 \<le> lim" using assms by (simp add: profile_ok_def lim_def)
  then have n: "1 \<le> n" "n \<le> lim" by (simp_all add: n_def Let_def)
  have "GetNextPayloadLength p w = Some (n, updateLoad n p, w2)"
    by (simp add: GetNextPayloadLength_def sel d s n_def lim_def Let_def)
  moreover have "profile_ok (updateLoad n p)"
    by (rule updateLoad_ok [OF assms]) (use n in \<open>simp_all add: lim_def profile_CellHeaderLen_def\<close>)
  ultimately show ?thesis using n by (simp add: lim_def updateLoad_def Let_def)
qed

lemma GetNextCellSize_range:
  assumes "profile_ok p"
  shows "\<exists>n w'. GetNextCellSize p w = Some (n, w') \<and> MinCellSize p \<le> n \<and> n < MaxCellSize p"
proof -
  have "0 < MaxCellSize p - MinCellSize p" using assms by (simp add: profile_ok_def)
  from rand_Intn_pos [OF this, of w] obtain r w' where
    "rand_Intn (MaxCellSize p - MinCellSize p) w = Some (r, w')" "0 \<le> r" "r < MaxCellSize p - MinCellSize p"
    by blast
  then show ?thesis by (simp add: GetNextCellSize_def)
qed

end
