(* ===== verification/Framing.thy ===== *)
theory Framing
  imports Profile
begin

text \<open>
  Cells of the Disguise protocol (\<open>disguise/framing/framing.go\<close>): fragmentation of a
  message into cells, padding, and the byte format. The framer's mutex makes \<open>Fragment\<close> one
  atomic step. \<open>EncodeCell\<close> and \<open>DecodeCell\<close> return \<^term>\<open>None\<close> where the code panics
  on a slice bound, and \<^term>\<open>Inl\<close> for a returned error.
\<close>

definition CellHeaderLen :: nat where "CellHeaderLen = 20"
definition TypeData :: byte where "TypeData = 1"
definition TypeHandshake :: byte where "TypeHandshake = 2"
definition TypeControl :: byte where "TypeControl = 3"
definition TypeDummy :: byte where "TypeDummy = 4"

record cell =
  CellID :: u16
  Type :: byte
  Flags :: byte
  Seq :: u32
  Timestamp :: u64
  PayloadLen :: u16
  PaddingLen :: u16
  RandOffset :: u16
  Payload :: bytes
  Padding :: bytes

record 'f framer =
  fr_profile :: "'f profile"
  fr_seq :: u32

definition NewFramer :: "'f profile \<Rightarrow> 'f framer" where
  "NewFramer p = \<lparr>fr_profile = p, fr_seq = 0\<rparr>"

definition Framer_SetProfile :: "'f profile \<Rightarrow> 'f framer \<Rightarrow> 'f framer" where
  "Framer_SetProfile p f = f\<lparr>fr_profile := p\<rparr>"

section \<open>Padding\<close>

text \<open>\<open>base64.StdEncoding.Encode\<close>.\<close>

definition b64_alphabet :: bytes where
  "b64_alphabet = str ''ABCDEFGHIJKLMNOPQRSTUVWXYZabcdefghijklmnopqrstuvwxyz0123456789+/''"

definition b64_char :: "nat \<Rightarrow> byte" where
  "b64_char n = b64_alphabet ! (n mod 64)"

fun b64_encode :: "bytes \<Rightarrow> bytes" where
  "b64_encode [] = []"
| "b64_encode [a] = (let n = be_dec [a, 0, 0] in
     [b64_char (n div 262144), b64_char (n div 4096), 61, 61])"
| "b64_encode [a, b] = (let n = be_dec [a, b, 0] in
     [b64_char (n div 262144), b64_char (n div 4096), b64_char (n div 64), 61])"
| "b64_encode (a # b # c # bs) = (let n = be_dec [a, b, c] in
     b64_char (n div 262144) # b64_char (n div 4096) # b64_char (n div 64) # b64_char n #
     b64_encode bs)"

lemma length_b64_encode: "length (b64_encode bs) = (length bs + 2) div 3 * 4"
proof (induction bs rule: b64_encode.induct)
  case (4 a b c bs)
  have "(length (a # b # c # bs) + 2) div 3 = (length bs + 2) div 3 + 1" by simp
  then show ?case using 4 by (simp add: Let_def)
qed (simp_all add: Let_def)

text \<open>A buffer of zeros after \<open>crypto_rand.Read\<close>, whose error the code ignores.\<close>

definition crypto_fill :: "nat \<Rightarrow> 'f world \<Rightarrow> bytes \<times> 'f world" where
  "crypto_fill n w =
     (case crypto_read n w of
        (None, w') \<Rightarrow> (replicate n 0, w')
      | (Some bs, w') \<Rightarrow> (bs, w'))"

lemma length_crypto_fill: "crypto_fill n w = (bs, w') \<Longrightarrow> length bs = n"
  by (auto simp: crypto_fill_def crypto_read_def split: if_splits)

text \<open>The loop \<open>for i := 0; i < len(padding); i += 10\<close>.\<close>

function zero_loop :: "nat \<Rightarrow> bytes \<Rightarrow> bytes" where
  "zero_loop i padding =
     (if i < length padding then zero_loop (i + 10) (padding[i := 0]) else padding)"
  by pat_completeness auto
termination by (relation "measure (\<lambda>(i, padding). length padding - i)") auto

declare zero_loop.simps [simp del]

lemma length_zero_loop [simp]: "length (zero_loop i padding) = length padding"
  by (induction i padding rule: zero_loop.induct) (simp add: zero_loop.simps)

definition generatePadding :: "int \<Rightarrow> TrafficType \<Rightarrow> 'f world \<Rightarrow> (bytes \<times> 'f world) option" where
  "generatePadding len profileType w =
     (if len \<le> 0 then Some ([], w)
      else let n = nat len in
        if profileType = WebBrowsing then
          (case rand_Intn 2 w of
             None \<Rightarrow> None
           | Some (k, w1) \<Rightarrow>
               if k = 0 then
                 (let (data, w2) = crypto_fill (n div 4 * 3) w1;
                      encoded = b64_encode data
                  in if length encoded > n then Some (take n encoded, w2)
                     else let (rest, w3) = crypto_fill (n - length encoded) w2
                          in Some (encoded @ rest, w3))
               else
                 (let (padding, w2) = crypto_fill n w1 in Some (zero_loop 0 padding, w2)))
        else let (padding, w1) = crypto_fill n w in Some (padding, w1))"

lemma generatePadding_length:
  "\<exists>pad w'. generatePadding len t w = Some (pad, w') \<and> length pad = nat len"
proof -
  have enc: "length (b64_encode data) = n div 4 * 4"
    if "length data = n div 4 * 3" for data and n :: nat
    using that by (simp add: length_b64_encode)
  have le: "n div 4 * 4 \<le> n" for n :: nat by simp
  show ?thesis
  proof (cases "len \<le> 0")
    case True
    then show ?thesis by (simp add: generatePadding_def)
  next
    case False
    let ?n = "nat len"
    from rand_Intn_pos [of 2 w] obtain k w1 where k: "rand_Intn 2 w = Some (k, w1)" by auto
    obtain data w2 where d: "crypto_fill (?n div 4 * 3) w1 = (data, w2)" by fastforce
    obtain rest w3 where r: "crypto_fill (?n - length (b64_encode data)) w2 = (rest, w3)" by fastforce
    obtain p4 w4 where p4: "crypto_fill ?n w1 = (p4, w4)" by fastforce
    obtain p5 w5 where p5: "crypto_fill ?n w = (p5, w5)" by fastforce
    note lens = length_crypto_fill [OF d] length_crypto_fill [OF r] length_crypto_fill [OF p4]
      length_crypto_fill [OF p5] enc [OF length_crypto_fill [OF d]]
    show ?thesis using False k d r p4 p5 lens
      by (simp add: generatePadding_def Let_def not_less [THEN iffD2, OF le [of ?n]])
  qed
qed

section \<open>Cells\<close>

definition generateCellID :: "'f world \<Rightarrow> u16 \<times> 'f world" where
  "generateCellID w =
     (case crypto_read 2 w of
        (None, w') \<Rightarrow> (0, w')
      | (Some ident, w') \<Rightarrow> (word_of_nat (be_dec ident), w'))"

definition generateRandomOffset :: "u16 \<Rightarrow> 'f world \<Rightarrow> (u16 \<times> 'f world) option" where
  "generateRandomOffset m w =
     (if m \<le> 1 then Some (0, w)
      else case rand_Intn (int (unat (m - 1))) w of
             None \<Rightarrow> None
           | Some (n, w') \<Rightarrow> Some (word_of_int n, w'))"

definition currentProfileType :: "'f profile \<Rightarrow> TrafficType" where
  "currentProfileType p = (case map_keys (TrafficWeights p) of [t] \<Rightarrow> t | _ \<Rightarrow> WebBrowsing)"

lemma GetNextPayloadLength_pos: "GetNextPayloadLength p w = Some (n, p', w') \<Longrightarrow> 1 \<le> n"
  by (auto simp: GetNextPayloadLength_def Let_def split: prod.splits option.splits if_splits)

text \<open>
  One turn of the loop of \<open>Fragment\<close>: the next cell and the length of its payload. The last
  payload is cut to the rest of the data, and only a payload that had to be cut sets the
  end-of-stream flag.
\<close>

definition fragment_cell ::
  "'f::floor_ceiling framer \<Rightarrow> bytes \<Rightarrow> u16 \<Rightarrow> nat \<Rightarrow> 'f world \<Rightarrow>
     (cell \<times> nat \<times> 'f framer \<times> 'f world) option" where
  "fragment_cell f data cellID payloadOffset w =
     (let (now, w1) = UnixNano w in
      case GetNextPayloadLength (fr_profile f) w1 of
        None \<Rightarrow> None
      | Some (len, p', w2) \<Rightarrow>
          (let last = int payloadOffset + len > int (length data);
               payloadLen = (if last then length data - payloadOffset else nat len)
           in case GetNextCellSize p' w2 of
                None \<Rightarrow> None
              | Some (totalCellSize, w3) \<Rightarrow>
                  (let pl = totalCellSize - int CellHeaderLen - int payloadLen;
                       paddingLen = (if pl < 0 then 0 else pl)
                   in case generatePadding paddingLen (currentProfileType p') w3 of
                        None \<Rightarrow> None
                      | Some (pad, w4) \<Rightarrow>
                          (case generateRandomOffset (word_of_int totalCellSize) w4 of
                             None \<Rightarrow> None
                           | Some (ro, w5) \<Rightarrow>
                               Some (\<lparr>CellID = cellID, Type = TypeData,
                                      Flags = (if last then 0 OR 1 else 0),
                                      Seq = fr_seq f,
                                      Timestamp = word_of_int (go_quot now 1000000),
                                      PayloadLen = word_of_nat payloadLen,
                                      PaddingLen = word_of_int paddingLen,
                                      RandOffset = ro,
                                      Payload = take payloadLen (drop payloadOffset data),
                                      Padding = pad\<rparr>,
                                     payloadLen,
                                     f\<lparr>fr_profile := p', fr_seq := fr_seq f + 1\<rparr>, w5)))))"

lemma fragment_cell_pos:
  "off < length data \<Longrightarrow> fragment_cell f data cid off w = Some (c, n, f', w') \<Longrightarrow> 0 < n"
  by (auto simp: fragment_cell_def Let_def split: prod.splits option.splits if_splits
      dest: GetNextPayloadLength_pos)

function fragment_loop ::
  "'f::floor_ceiling framer \<Rightarrow> bytes \<Rightarrow> u16 \<Rightarrow> nat \<Rightarrow> 'f world \<Rightarrow>
     (cell list \<times> 'f framer \<times> 'f world) option" where
  "fragment_loop f data cellID payloadOffset w =
     (if payloadOffset < length data then
        (case fragment_cell f data cellID payloadOffset w of
           None \<Rightarrow> None
         | Some (c, payloadLen, f', w') \<Rightarrow>
             (case fragment_loop f' data cellID (payloadOffset + payloadLen) w' of
                None \<Rightarrow> None
              | Some (cells, f'', w'') \<Rightarrow> Some (c # cells, f'', w'')))
      else Some ([], f, w))"
  by pat_completeness auto
termination
  by (relation "measure (\<lambda>(f, data, cellID, off, w). length data - off)")
    (simp, clarsimp, frule (1) fragment_cell_pos, simp)

declare fragment_loop.simps [simp del]

definition Fragment ::
  "bytes \<Rightarrow> 'f::floor_ceiling framer \<Rightarrow> 'f world \<Rightarrow> (cell list \<times> 'f framer \<times> 'f world) option" where
  "Fragment data f w =
     (let (cellID, w1) = generateCellID w in fragment_loop f data cellID 0 w1)"

definition CreateDummyCell :: "'f::floor_ceiling framer \<Rightarrow> 'f world \<Rightarrow> (cell \<times> 'f world) option" where
  "CreateDummyCell f w =
     (case GetNextCellSize (fr_profile f) w of
        None \<Rightarrow> None
      | Some (totalCellSize, w1) \<Rightarrow>
          (let paddingLen = totalCellSize - int CellHeaderLen
           in case generatePadding paddingLen (currentProfileType (fr_profile f)) w1 of
                None \<Rightarrow> None
              | Some (padding, w2) \<Rightarrow>
                  (let (now, w3) = UnixNano w2
                   in case generateRandomOffset (word_of_int totalCellSize) w3 of
                        None \<Rightarrow> None
                      | Some (ro, w4) \<Rightarrow>
                          Some (\<lparr>CellID = 0, Type = TypeDummy, Flags = 0, Seq = 0,
                                 Timestamp = word_of_int (go_quot now 1000000),
                                 PayloadLen = 0, PaddingLen = word_of_int paddingLen,
                                 RandOffset = ro, Payload = [], Padding = padding\<rparr>, w4))))"

section \<open>The byte format\<close>

definition cell_header :: "cell \<Rightarrow> bytes" where
  "cell_header c =
     be_enc 2 (unat (CellID c)) @ [Type c] @ [Flags c] @ be_enc 4 (unat (Seq c)) @
     be_enc 8 (unat (Timestamp c)) @ be_enc 2 (unat (PayloadLen c)) @
     be_enc 2 (unat (PaddingLen c)) @ be_enc 2 (unat (RandOffset c))"

text \<open>
  Lengths and offsets are \<open>uint16\<close>, so their sums wrap. The padding buffers this package makes
  have no spare capacity, so \<open>cell.Padding[:cell.RandOffset]\<close> panics beyond their length.
\<close>

definition EncodeCell :: "cell \<Rightarrow> bytes option" where
  "EncodeCell c =
     (let totalContent = replicate (unat (PayloadLen c + PaddingLen c)) 0;
          off = unat (RandOffset c)
      in do {
        t1 \<leftarrow> copy_at off totalContent (Payload c);
        front \<leftarrow> go_slice (Padding c) 0 off;
        t2 \<leftarrow> copy_at 0 t1 front;
        back \<leftarrow> go_slice (Padding c) off (length (Padding c));
        t3 \<leftarrow> copy_at (unat (RandOffset c + PayloadLen c)) t2 back;
        Some (cell_header c @ t3)
      })"

datatype framing_error = CellTooShort | CellReadError | ContentLengthMismatch

text \<open>\<open>binary.Read\<close> of a \<open>k\<close>-byte big-endian number.\<close>

definition binary_Read :: "nat \<Rightarrow> bytes \<Rightarrow> framing_error + nat \<times> bytes" where
  "binary_Read k bs =
     (if length bs < k then Inl CellReadError else Inr (be_dec (take k bs), drop k bs))"

text \<open>Error-returning reads in sequence.\<close>

definition bind_err :: "'e + 'a \<Rightarrow> ('a \<Rightarrow> ('e + 'b) option) \<Rightarrow> ('e + 'b) option" where
  "bind_err r k = (case r of Inl e \<Rightarrow> Some (Inl e) | Inr x \<Rightarrow> k x)"

text \<open>The part of \<open>DecodeCell\<close> after the header: \<open>c\<close> holds the header fields.\<close>

definition decode_content :: "cell \<Rightarrow> bytes \<Rightarrow> (framing_error + cell) option" where
  "decode_content c payloadAndPadding =
     (if length payloadAndPadding \<noteq> unat (PayloadLen c + PaddingLen c)
      then Some (Inl ContentLengthMismatch)
      else
        (let off = unat (RandOffset c);
             hi = unat (RandOffset c + PayloadLen c)
         in do {
           payload \<leftarrow> go_slice payloadAndPadding off hi;
           front \<leftarrow> go_slice payloadAndPadding 0 off;
           p1 \<leftarrow> copy_at 0 (replicate (unat (PaddingLen c)) 0) front;
           back \<leftarrow> go_slice payloadAndPadding hi (length payloadAndPadding);
           p2 \<leftarrow> copy_at off p1 back;
           Some (Inr (c\<lparr>Payload := go_copy (replicate (unat (PayloadLen c)) 0) payload,
                        Padding := p2\<rparr>))
         }))"

definition DecodeCell :: "bytes \<Rightarrow> (framing_error + cell) option" where
  "DecodeCell data =
     (if length data < CellHeaderLen then Some (Inl CellTooShort)
      else
        bind_err (binary_Read 2 data) (\<lambda>(cid, r1).
        bind_err (binary_Read 1 r1) (\<lambda>(typ, r2).
        bind_err (binary_Read 1 r2) (\<lambda>(flags, r3).
        bind_err (binary_Read 4 r3) (\<lambda>(seq, r4).
        bind_err (binary_Read 8 r4) (\<lambda>(ts, r5).
        bind_err (binary_Read 2 r5) (\<lambda>(plen, r6).
        bind_err (binary_Read 2 r6) (\<lambda>(padlen, r7).
        bind_err (binary_Read 2 r7) (\<lambda>(ro, r8).
          decode_content
            \<lparr>CellID = word_of_nat cid, Type = word_of_nat typ, Flags = word_of_nat flags,
             Seq = word_of_nat seq, Timestamp = word_of_nat ts, PayloadLen = word_of_nat plen,
             PaddingLen = word_of_nat padlen, RandOffset = word_of_nat ro,
             Payload = [], Padding = []\<rparr>
            (drop CellHeaderLen data))))))))))"

end
