(* ===== verification/Heap.thy ===== *)
theory Heap
  imports Framing "HOL-Library.Multiset"
begin

text \<open>
  The priority queue of the scheduler (\<open>disguise/scheduler/scheduler.go\<close>, lines 12-66) run by
  the algorithms of \<open>container/heap\<close>: an array of items ordered as a binary heap on
  \<open>priority\<close>, each item knowing its own position. The queue holds pointers to distinct items,
  so an item is stored once and updated in place.
\<close>

section \<open>A priority queue as its clients see it\<close>

locale priority_queue =
  fixes push :: "'a \<Rightarrow> 'q \<Rightarrow> 'q"
    and pop :: "'q \<Rightarrow> 'a \<times> 'q"
    and top :: "'q \<Rightarrow> 'a"
    and entries :: "'q \<Rightarrow> 'a multiset"
    and key :: "'a \<Rightarrow> int"
    and valid :: "'q \<Rightarrow> bool"
  assumes valid_push: "valid q \<Longrightarrow> valid (push x q)"
    and entries_push: "valid q \<Longrightarrow> entries (push x q) = add_mset x (entries q)"
    and valid_pop: "valid q \<Longrightarrow> entries q \<noteq> {#} \<Longrightarrow> valid (snd (pop q))"
    and entries_pop: "valid q \<Longrightarrow> entries q \<noteq> {#} \<Longrightarrow> add_mset (fst (pop q)) (entries (snd (pop q))) = entries q"
    and fst_pop: "valid q \<Longrightarrow> entries q \<noteq> {#} \<Longrightarrow> fst (pop q) = top q"
    and top_least: "valid q \<Longrightarrow> x \<in># entries q \<Longrightarrow> key (top q) \<le> key x"
begin

text \<open>A pop returns an entry with the least key and removes just that one.\<close>

lemma pop_least:
  assumes "valid q" and "entries q \<noteq> {#}"
  shows "fst (pop q) \<in># entries q" and "\<forall>x \<in># entries q. key (fst (pop q)) \<le> key x"
    and "entries (snd (pop q)) = entries q - {#fst (pop q)#}"
proof -
  have e: "entries q = add_mset (fst (pop q)) (entries (snd (pop q)))"
    using entries_pop [OF assms] by simp
  show "fst (pop q) \<in># entries q" by (subst e) simp
  show "\<forall>x \<in># entries q. key (fst (pop q)) \<le> key x"
    using fst_pop [OF assms] top_least [OF assms(1)] by simp
  show "entries (snd (pop q)) = entries q - {#fst (pop q)#}"
    by (subst e) simp
qed

text \<open>Emptying the queue pops the entries in the order of their keys.\<close>

fun drain :: "nat \<Rightarrow> 'q \<Rightarrow> 'a list" where
  "drain 0 q = []"
| "drain (Suc n) q = fst (pop q) # drain n (snd (pop q))"

lemma mset_drain: "valid q \<Longrightarrow> size (entries q) = n \<Longrightarrow> mset (drain n q) = entries q"
proof (induction n arbitrary: q)
  case (Suc n)
  then have ne: "entries q \<noteq> {#}" by auto
  note e = entries_pop [OF Suc.prems(1) ne]
  then have "size (entries (snd (pop q))) = n" using Suc.prems(2) by (metis add_diff_cancel_left' plus_1_eq_Suc size_add_mset)
  with Suc.IH [OF valid_pop [OF Suc.prems(1) ne]] e show ?case by simp
qed simp

lemma sorted_drain: "valid q \<Longrightarrow> size (entries q) = n \<Longrightarrow> sorted (map key (drain n q))"
proof (induction n arbitrary: q)
  case (Suc n)
  then have ne: "entries q \<noteq> {#}" by auto
  note e = entries_pop [OF Suc.prems(1) ne]
  then have n: "size (entries (snd (pop q))) = n" using Suc.prems(2) by (metis add_diff_cancel_left' plus_1_eq_Suc size_add_mset)
  note v = valid_pop [OF Suc.prems(1) ne]
  have "\<forall>x \<in> set (drain n (snd (pop q))). key (fst (pop q)) \<le> key x"
  proof
    fix x assume "x \<in> set (drain n (snd (pop q)))"
    then have "x \<in># entries (snd (pop q))" using mset_drain [OF v n] by (metis set_mset_mset)
    then have "x \<in># entries q" by (subst e [symmetric]) simp
    then show "key (fst (pop q)) \<le> key x" using pop_least(2) [OF Suc.prems(1) ne] by blast
  qed
  with Suc.IH [OF v n] show ?case by simp
qed simp

end

section \<open>The queue of the code\<close>

record cellItem =
  ci_cell :: cell
  ci_priority :: int
  ci_index :: int

type_synonym cellPriorityQueue = "cellItem list"

definition pq_Less :: "cellPriorityQueue \<Rightarrow> nat \<Rightarrow> nat \<Rightarrow> bool" where
  "pq_Less pq i j \<longleftrightarrow> ci_priority (pq ! i) < ci_priority (pq ! j)"

definition pq_Swap :: "cellPriorityQueue \<Rightarrow> nat \<Rightarrow> nat \<Rightarrow> cellPriorityQueue" where
  "pq_Swap pq i j = pq[i := (pq ! j)\<lparr>ci_index := int i\<rparr>, j := (pq ! i)\<lparr>ci_index := int j\<rparr>]"

definition pq_Push :: "cellItem \<Rightarrow> cellPriorityQueue \<Rightarrow> cellPriorityQueue" where
  "pq_Push item pq = pq @ [item\<lparr>ci_index := int (length pq)\<rparr>]"

definition pq_Pop :: "cellPriorityQueue \<Rightarrow> cellItem \<times> cellPriorityQueue" where
  "pq_Pop old =
     (let n = length old in ((old ! (n - 1))\<lparr>ci_index := -1\<rparr>, take (n - 1) old))"

text \<open>The sift loops of \<open>container/heap\<close>.\<close>

function heap_up :: "cellPriorityQueue \<Rightarrow> nat \<Rightarrow> cellPriorityQueue" where
  "heap_up h j =
     (let i = (j - 1) div 2
      in if i = j \<or> \<not> pq_Less h j i then h else heap_up (pq_Swap h i j) i)"
  by pat_completeness auto
termination by (relation "measure snd") auto

function heap_down :: "cellPriorityQueue \<Rightarrow> nat \<Rightarrow> nat \<Rightarrow> cellPriorityQueue" where
  "heap_down h i n =
     (let j1 = 2 * i + 1
      in if j1 \<ge> n then h
         else let j2 = j1 + 1; j = (if j2 < n \<and> pq_Less h j2 j1 then j2 else j1)
              in if \<not> pq_Less h j i then h else heap_down (pq_Swap h i j) j n)"
  by pat_completeness auto
termination by (relation "measure (\<lambda>(h, i, n). n - i)") (auto simp: Let_def)

declare heap_up.simps [simp del] heap_down.simps [simp del]

definition heap_Init :: "cellPriorityQueue \<Rightarrow> cellPriorityQueue" where
  "heap_Init h = foldl (\<lambda>h i. heap_down h i (length h)) h (rev [0..<length h div 2])"

definition heap_Push :: "cellItem \<Rightarrow> cellPriorityQueue \<Rightarrow> cellPriorityQueue" where
  "heap_Push x h = (let h' = pq_Push x h in heap_up h' (length h' - 1))"

definition heap_Pop :: "cellPriorityQueue \<Rightarrow> cellItem \<times> cellPriorityQueue" where
  "heap_Pop h = (let n = length h - 1 in pq_Pop (heap_down (pq_Swap h 0 n) 0 n))"

section \<open>Swaps\<close>

abbreviation prio :: "cellPriorityQueue \<Rightarrow> nat \<Rightarrow> int" where
  "prio h i \<equiv> ci_priority (h ! i)"

text \<open>What an item carries apart from its position.\<close>

definition entry :: "cellItem \<Rightarrow> cell \<times> int" where
  "entry it = (ci_cell it, ci_priority it)"

lemma entry_index [simp]: "entry (it\<lparr>ci_index := k\<rparr>) = entry it"
  by (simp add: entry_def)

lemma length_pq_Swap [simp]: "length (pq_Swap h i j) = length h"
  by (simp add: pq_Swap_def)

lemma nth_pq_Swap:
  "i < length h \<Longrightarrow> j < length h \<Longrightarrow> k < length h \<Longrightarrow>
     pq_Swap h i j ! k = (if k = j then (h ! i)\<lparr>ci_index := int j\<rparr>
                          else if k = i then (h ! j)\<lparr>ci_index := int i\<rparr> else h ! k)"
  by (auto simp: pq_Swap_def nth_list_update)

lemma mset_pq_Swap:
  assumes "i < length h" and "j < length h"
  shows "image_mset entry (mset (pq_Swap h i j)) = image_mset entry (mset h)"
proof -
  have "map entry (pq_Swap h i j) = (map entry h)[i := map entry h ! j, j := map entry h ! i]"
    using assms by (simp add: pq_Swap_def map_update)
  then have "mset (map entry (pq_Swap h i j)) = mset (map entry h)"
    using assms by (simp only: mset_swap length_map)
  then show ?thesis by simp
qed

definition indexed :: "cellPriorityQueue \<Rightarrow> bool" where
  "indexed h \<longleftrightarrow> (\<forall>i < length h. ci_index (h ! i) = int i)"

lemma indexed_pq_Swap:
  "indexed h \<Longrightarrow> i < length h \<Longrightarrow> j < length h \<Longrightarrow> indexed (pq_Swap h i j)"
  by (simp add: indexed_def nth_pq_Swap)

text \<open>The sift loop keeps the length, so a pop removes exactly one item.\<close>

lemma length_heap_down [simp]: "length (heap_down h i n) = length h"
  by (induction h i n rule: heap_down.induct)
    (simp add: heap_down.simps [of _ _ _] Let_def pq_Swap_def)

lemma length_heap_Pop: "length (snd (heap_Pop h)) = length h - 1"
  by (simp add: heap_Pop_def pq_Pop_def Let_def pq_Swap_def)

text \<open>Rearranging: same items, positions kept up to date.\<close>

definition rearranged :: "cellPriorityQueue \<Rightarrow> cellPriorityQueue \<Rightarrow> bool" where
  "rearranged h h' \<longleftrightarrow>
     length h' = length h \<and> image_mset entry (mset h') = image_mset entry (mset h) \<and>
     (indexed h \<longrightarrow> indexed h')"

lemma rearranged_refl [simp]: "rearranged h h"
  by (simp add: rearranged_def)

lemma rearranged_trans: "rearranged h h' \<Longrightarrow> rearranged h' h'' \<Longrightarrow> rearranged h h''"
  by (simp add: rearranged_def)

lemma rearranged_pq_Swap: "i < length h \<Longrightarrow> j < length h \<Longrightarrow> rearranged h (pq_Swap h i j)"
  by (simp add: rearranged_def mset_pq_Swap indexed_pq_Swap)

section \<open>The heap order\<close>

definition par :: "nat \<Rightarrow> nat" where
  "par k = (k - 1) div 2"

lemma par_less: "0 < k \<Longrightarrow> par k < k"
  by (simp add: par_def)

lemma par_le: "par k \<le> k"
  by (simp add: par_def)

lemma par_eq_iff: "0 < k \<Longrightarrow> par k = i \<longleftrightarrow> k = 2 * i + 1 \<or> k = 2 * i + 2"
  unfolding par_def by presburger

definition heap_ok :: "cellPriorityQueue \<Rightarrow> nat \<Rightarrow> bool" where
  "heap_ok h n \<longleftrightarrow> (\<forall>k < n. 0 < k \<longrightarrow> prio h (par k) \<le> prio h k)"

lemma heap_ok_least: "heap_ok h n \<Longrightarrow> k < n \<Longrightarrow> prio h 0 \<le> prio h k"
proof (induction k rule: less_induct)
  case (less k)
  show ?case
  proof (cases "k = 0")
    case False
    then have "par k < k" by (simp add: par_less)
    with less have "prio h 0 \<le> prio h (par k)" by simp
    also have "\<dots> \<le> prio h k" using less.prems False by (simp add: heap_ok_def)
    finally show ?thesis .
  qed simp
qed

text \<open>The order holds except at \<open>j\<close>, which may be too small for its place.\<close>

definition up_ok :: "cellPriorityQueue \<Rightarrow> nat \<Rightarrow> bool" where
  "up_ok h j \<longleftrightarrow>
     (\<forall>k < length h. 0 < k \<longrightarrow> k \<noteq> j \<longrightarrow> prio h (par k) \<le> prio h k) \<and>
     (\<forall>k < length h. 0 < k \<longrightarrow> par k = j \<longrightarrow> 0 < j \<longrightarrow> prio h (par j) \<le> prio h k)"

lemma up_ok_swap:
  assumes ok: "up_ok h j" and j: "j < length h" "0 < j" and less: "prio h j < prio h (par j)"
  shows "up_ok (pq_Swap h (par j) j) (par j)"
proof -
  let ?i = "par j" and ?h = "pq_Swap h (par j) j"
  have ij: "?i < j" "?i < length h" using j par_less [OF j(2)] by simp_all
  have p: "prio ?h k = (if k = j then prio h ?i else if k = ?i then prio h j else prio h k)"
    if "k < length h" for k using that ij j by (simp add: nth_pq_Swap)
  have pk: "par k < length h" if "k < length h" for k using that par_le [of k] by simp
  have 1: "prio ?h (par k) \<le> prio ?h k" if k: "k < length h" "0 < k" "k \<noteq> ?i" for k
  proof -
    have "prio h (par k) \<le> prio h k" if "k \<noteq> j" using ok k that by (simp add: up_ok_def)
    moreover have "prio h ?i \<le> prio h k" if "par k = j" using ok k that j by (auto simp: up_ok_def)
    moreover have "par k \<noteq> k" using par_less [OF k(2)] by simp
    ultimately show ?thesis using less k ij by (auto simp: p pk)
  qed
  have 2: "prio ?h (par ?i) \<le> prio ?h k" if k: "k < length h" "0 < k" "par k = ?i" "0 < ?i" for k
  proof -
    have pi: "par ?i < ?i" using k(4) by (rule par_less)
    have "prio h (par ?i) \<le> prio h ?i" using ok k(4) ij by (simp add: up_ok_def)
    moreover have "prio h ?i \<le> prio h k" if "k \<noteq> j" using ok k that by (auto simp: up_ok_def)
    moreover have "k \<noteq> ?i" using k pi by auto
    ultimately show ?thesis using pi ij k by (auto simp: p)
  qed
  from 1 2 show ?thesis by (simp add: up_ok_def)
qed

lemma heap_up_correct:
  assumes "j < length h"
  shows "rearranged h (heap_up h j)" and "up_ok h j \<Longrightarrow> heap_ok (heap_up h j) (length h)"
proof -
  have "rearranged h (heap_up h j) \<and> (up_ok h j \<longrightarrow> heap_ok (heap_up h j) (length h))"
    using assms
  proof (induction h j rule: heap_up.induct)
    case (1 h j)
    show ?case
    proof (cases "par j = j \<or> \<not> pq_Less h j (par j)")
      case True
      then have eq: "heap_up h j = h" by (subst heap_up.simps) (simp add: Let_def par_def)
      have "heap_ok h (length h)" if "up_ok h j"
        unfolding heap_ok_def
      proof (intro allI impI)
        fix k assume k: "k < length h" "0 < k"
        show "prio h (par k) \<le> prio h k"
          using that True k by (cases "k = j") (auto simp: up_ok_def pq_Less_def)
      qed
      with eq show ?thesis by simp
    next
      case False
      let ?h = "pq_Swap h (par j) j"
      have eq: "heap_up h j = heap_up ?h (par j)"
        using False by (subst heap_up.simps) (simp add: Let_def par_def)
      have j: "0 < j" using False by (cases j) (auto simp: par_def)
      have i: "par j < length h" using 1(2) par_le [of j] by simp
      have IH: "rearranged ?h (heap_up ?h (par j))" "up_ok ?h (par j) \<longrightarrow> heap_ok (heap_up ?h (par j)) (length h)"
        using 1(1) [OF par_def [symmetric, THEN sym] False] i by simp_all
      have "rearranged h (heap_up h j)"
        unfolding eq by (rule rearranged_trans [OF rearranged_pq_Swap IH(1)]) (use i 1(2) in auto)
      moreover have "up_ok ?h (par j)" if "up_ok h j"
        using up_ok_swap [OF that 1(2) j] False by (simp add: pq_Less_def)
      ultimately show ?thesis using IH(2) eq by simp
    qed
  qed
  then show "rearranged h (heap_up h j)" and "up_ok h j \<Longrightarrow> heap_ok (heap_up h j) (length h)"
    by simp_all
qed

text \<open>Sifting down: the order holds except at \<open>i\<close>, which may be too large for its place.\<close>

definition down_ok :: "cellPriorityQueue \<Rightarrow> nat \<Rightarrow> nat \<Rightarrow> bool" where
  "down_ok h i n \<longleftrightarrow>
     (\<forall>k < n. 0 < k \<longrightarrow> par k \<noteq> i \<longrightarrow> prio h (par k) \<le> prio h k) \<and>
     (\<forall>k < n. 0 < k \<longrightarrow> par k = i \<longrightarrow> 0 < i \<longrightarrow> prio h (par i) \<le> prio h k)"

definition small_child :: "cellPriorityQueue \<Rightarrow> nat \<Rightarrow> nat \<Rightarrow> nat" where
  "small_child h i n =
     (if 2 * i + 1 + 1 < n \<and> pq_Less h (2 * i + 1 + 1) (2 * i + 1) then 2 * i + 1 + 1 else 2 * i + 1)"

lemma heap_down_eq:
  "heap_down h i n =
     (if n \<le> 2 * i + 1 \<or> \<not> pq_Less h (small_child h i n) i then h
      else heap_down (pq_Swap h i (small_child h i n)) (small_child h i n) n)"
  by (subst heap_down.simps) (simp add: Let_def small_child_def)

lemma small_child:
  assumes "2 * i + 1 < n"
  shows "small_child h i n < n" and "i < small_child h i n" and "par (small_child h i n) = i"
    and "\<And>k. k < n \<Longrightarrow> 0 < k \<Longrightarrow> par k = i \<Longrightarrow> prio h (small_child h i n) \<le> prio h k"
  using assms by (auto simp: small_child_def par_eq_iff pq_Less_def)

lemma down_ok_swap:
  assumes ok: "down_ok h i n" and n: "n \<le> length h" "2 * i + 1 < n"
    and less: "prio h (small_child h i n) < prio h i"
  shows "down_ok (pq_Swap h i (small_child h i n)) (small_child h i n) n"
proof -
  let ?j = "small_child h i n" and ?h = "pq_Swap h i (small_child h i n)"
  note sc = small_child [OF n(2), where h = h]
  have p: "prio ?h k = (if k = ?j then prio h i else if k = i then prio h ?j else prio h k)"
    if "k < n" for k using that sc n by (subst nth_pq_Swap) auto
  have pk: "par k < n" if "k < n" for k using that par_le [of k] by simp
  have i: "i < n" using n(2) by simp
  have j0: "0 < ?j" using sc(2) by simp
  have 1: "prio ?h (par k) \<le> prio ?h k" if k: "k < n" "0 < k" "par k \<noteq> ?j" for k
  proof (cases "par k = i")
    case True
    then have "prio h ?j \<le> prio h k" using sc(4) k by simp
    moreover have "k \<noteq> i" using True par_less [OF k(2)] by simp
    ultimately show ?thesis using True less sc(2) k i by (simp add: p)
  next
    case False
    then have le: "prio h (par k) \<le> prio h k" using ok k by (simp add: down_ok_def)
    have "k \<noteq> ?j" using False sc(3) by auto
    moreover have "prio h (par i) \<le> prio h ?j" if "k = i"
      using ok that k sc j0 by (simp add: down_ok_def)
    ultimately show ?thesis using False k le pk by (auto simp: p)
  qed
  have 2: "prio ?h (par ?j) \<le> prio ?h k" if k: "k < n" "0 < k" "par k = ?j" for k
  proof -
    have "prio h ?j \<le> prio h k" using ok k sc(2) by (auto simp: down_ok_def)
    moreover have "k \<noteq> ?j" "k \<noteq> i" using k par_less [OF k(2)] sc(2) by auto
    ultimately show ?thesis using k sc i by (simp add: p)
  qed
  from 1 2 show ?thesis by (simp add: down_ok_def)
qed

lemma heap_down_correct:
  assumes "n \<le> length h" and "i < n \<or> n = 0 \<and> i = 0"
  shows "rearranged h (heap_down h i n)" and "down_ok h i n \<Longrightarrow> heap_ok (heap_down h i n) n"
    and "\<And>k. n \<le> k \<Longrightarrow> k < length h \<Longrightarrow> heap_down h i n ! k = h ! k"
proof -
  have "rearranged h (heap_down h i n) \<and> (down_ok h i n \<longrightarrow> heap_ok (heap_down h i n) n) \<and>
    (\<forall>k. n \<le> k \<longrightarrow> k < length h \<longrightarrow> heap_down h i n ! k = h ! k)"
    using assms
  proof (induction "n - i" arbitrary: h i rule: less_induct)
    case less
    let ?j = "small_child h i n"
    show ?case
    proof (cases "n \<le> 2 * i + 1 \<or> \<not> pq_Less h ?j i")
      case True
      have "heap_ok h n" if ok: "down_ok h i n"
        unfolding heap_ok_def
      proof (intro allI impI)
        fix k assume k: "k < n" "0 < k"
        show "prio h (par k) \<le> prio h k"
        proof (cases "par k = i")
          case i: True
          then have n: "2 * i + 1 < n" using k par_eq_iff [OF k(2), of i] by auto
          with True have "prio h i \<le> prio h ?j" by (simp add: pq_Less_def)
          also have "\<dots> \<le> prio h k" using small_child(4) [OF n k i] .
          finally show ?thesis using i by simp
        next
          case False
          then show ?thesis using ok k by (simp add: down_ok_def)
        qed
      qed
      moreover have "heap_down h i n = h" using True by (subst heap_down_eq) simp
      ultimately show ?thesis by simp
    next
      case False
      let ?h = "pq_Swap h i ?j"
      have n: "2 * i + 1 < n" and lt: "prio h ?j < prio h i" using False by (simp_all add: pq_Less_def)
      note sc = small_child [OF n, where h = h]
      have eq: "heap_down h i n = heap_down ?h ?j n" using False by (subst heap_down_eq) simp
      have ij: "i < length h" "?j < length h" using sc n less.prems by auto
      have "n - ?j < n - i" using sc by simp
      then have IH: "rearranged ?h (heap_down ?h ?j n)" "down_ok ?h ?j n \<longrightarrow> heap_ok (heap_down ?h ?j n) n"
        "\<forall>k. n \<le> k \<longrightarrow> k < length h \<longrightarrow> heap_down ?h ?j n ! k = ?h ! k"
        using less.hyps [of ?j ?h] sc less.prems by simp_all
      have "?h ! k = h ! k" if "n \<le> k" "k < length h" for k
        using that ij sc n by (simp add: nth_pq_Swap)
      moreover have "rearranged h (heap_down h i n)"
        unfolding eq by (rule rearranged_trans [OF rearranged_pq_Swap IH(1)]) (use ij in auto)
      moreover have "down_ok ?h ?j n" if "down_ok h i n"
        using down_ok_swap [OF that less.prems(1) n lt] .
      ultimately show ?thesis using IH eq by simp
    qed
  qed
  then show "rearranged h (heap_down h i n)" and "down_ok h i n \<Longrightarrow> heap_ok (heap_down h i n) n"
    and "\<And>k. n \<le> k \<Longrightarrow> k < length h \<Longrightarrow> heap_down h i n ! k = h ! k"
    by simp_all
qed

section \<open>The queue operations\<close>

definition queue_ok :: "cellPriorityQueue \<Rightarrow> bool" where
  "queue_ok h \<longleftrightarrow> heap_ok h (length h) \<and> indexed h"

definition queue_entries :: "cellPriorityQueue \<Rightarrow> (cell \<times> int) multiset" where
  "queue_entries h = image_mset entry (mset h)"

lemma queue_ok_Nil: "queue_ok []"
  by (simp add: queue_ok_def heap_ok_def indexed_def)

lemma heap_Init_Nil: "heap_Init [] = []"
  by (simp add: heap_Init_def)

lemma heap_Push_correct:
  assumes "queue_ok h"
  shows "queue_ok (heap_Push x h)" and "queue_entries (heap_Push x h) = add_mset (entry x) (queue_entries h)"
proof -
  let ?h = "pq_Push x h" and ?n = "length h"
  have len: "length ?h = Suc ?n" by (simp add: pq_Push_def)
  have nth: "prio ?h k = prio h k" if "k < ?n" for k
    using that by (simp add: pq_Push_def nth_append)
  have idx: "indexed ?h"
    using assms by (simp add: queue_ok_def indexed_def pq_Push_def nth_append)
  have "up_ok ?h ?n"
    unfolding up_ok_def
  proof (intro conjI allI impI)
    fix k assume k: "k < length ?h" "0 < k" "k \<noteq> ?n"
    then have "k < ?n" "par k < ?n" using par_less [of k] len by auto
    then show "prio ?h (par k) \<le> prio ?h k"
      using assms k by (simp add: nth queue_ok_def heap_ok_def)
  next
    fix k assume k: "k < length ?h" "0 < k" "par k = ?n" "0 < ?n"
    then show "prio ?h (par ?n) \<le> prio ?h k" using par_less [of k] len by simp
  qed
  then have ok: "heap_ok (heap_up ?h ?n) (length ?h)" and re: "rearranged ?h (heap_up ?h ?n)"
    using heap_up_correct [of ?n ?h] len by simp_all
  have eq: "heap_Push x h = heap_up ?h ?n"
    by (simp add: heap_Push_def Let_def len)
  show "queue_ok (heap_Push x h)"
    using ok re idx by (simp add: eq queue_ok_def rearranged_def)
  show "queue_entries (heap_Push x h) = add_mset (entry x) (queue_entries h)"
    using re by (simp add: eq queue_entries_def rearranged_def pq_Push_def)
qed

lemma heap_Pop_correct:
  assumes "queue_ok h" and "h \<noteq> []"
  shows "queue_ok (snd (heap_Pop h))" and "entry (fst (heap_Pop h)) = entry (h ! 0)"
    and "add_mset (entry (fst (heap_Pop h))) (queue_entries (snd (heap_Pop h))) = queue_entries h"
    and "length (snd (heap_Pop h)) = length h - 1"
proof -
  define n where "n = length h - 1"
  let ?h = "pq_Swap h 0 n"
  let ?d = "heap_down ?h 0 n"
  have n: "n < length h" "0 < length h" "length h = Suc n" using assms(2) by (simp_all add: n_def)
  have p: "prio ?h k = prio h k" if "0 < k" "k < n" for k
    using that n by (simp add: nth_pq_Swap)
  have "down_ok ?h 0 n"
    unfolding down_ok_def
  proof (intro conjI allI impI)
    fix k assume k: "k < n" "0 < k" "par k \<noteq> 0"
    then have "0 < par k" "par k < n" using par_less [of k] by auto
    then show "prio ?h (par k) \<le> prio ?h k"
      using assms(1) k n by (simp add: p queue_ok_def heap_ok_def)
  qed simp
  moreover have "n \<le> length ?h" "0 < n \<or> n = 0 \<and> (0::nat) = 0" using n by auto
  note down = heap_down_correct [OF this]
  ultimately have ok: "heap_ok ?d n" by blast
  have re: "rearranged h ?d"
    by (rule rearranged_trans [OF rearranged_pq_Swap down(1)]) (use n in simp_all)
  then have len: "length ?d = length h" and idx: "indexed ?d"
    using assms(1) by (simp_all add: rearranged_def queue_ok_def)
  have last: "entry (?d ! n) = entry (h ! 0)"
    using down(3) [of n] n by (simp add: nth_pq_Swap)
  have eq: "heap_Pop h = ((?d ! n)\<lparr>ci_index := -1\<rparr>, take n ?d)"
    by (simp only: heap_Pop_def pq_Pop_def Let_def n_def [symmetric] len)
  have "take n ?d ! par k = ?d ! par k" if "k < n" for k
    using that par_le [of k] by simp
  then show "queue_ok (snd (heap_Pop h))"
    using ok idx len n by (auto simp: eq queue_ok_def heap_ok_def indexed_def)
  show "entry (fst (heap_Pop h)) = entry (h ! 0)"
    by (simp add: eq last)
  have "?d = take n ?d @ [?d ! n]"
    using len n by (metis lessI take_Suc_conv_app_nth take_all_iff order_refl)
  then have "mset ?d = add_mset (?d ! n) (mset (take n ?d))"
    by (metis add.right_neutral mset.simps mset_append union_mset_add_mset_right)
  then show "add_mset (entry (fst (heap_Pop h))) (queue_entries (snd (heap_Pop h))) = queue_entries h"
    using re by (simp add: eq queue_entries_def rearranged_def)
  show "length (snd (heap_Pop h)) = length h - 1" using len n by (simp add: eq)
qed

interpretation pq: priority_queue
  "\<lambda>(c, p) h. heap_Push \<lparr>ci_cell = c, ci_priority = p, ci_index = 0\<rparr> h"
  "\<lambda>h. (entry (fst (heap_Pop h)), snd (heap_Pop h))"
  "\<lambda>h. entry (h ! 0)" queue_entries snd queue_ok
proof unfold_locales
  fix q :: cellPriorityQueue and x :: "cell \<times> int"
  assume q: "queue_ok q"
  show "queue_ok ((\<lambda>(c, p) h. heap_Push \<lparr>ci_cell = c, ci_priority = p, ci_index = 0\<rparr> h) x q)"
    using q by (simp add: case_prod_unfold heap_Push_correct)
  show "queue_entries ((\<lambda>(c, p) h. heap_Push \<lparr>ci_cell = c, ci_priority = p, ci_index = 0\<rparr> h) x q)
      = add_mset x (queue_entries q)"
    using q by (simp add: case_prod_unfold heap_Push_correct entry_def)
  assume "x \<in># queue_entries q"
  then obtain k where "k < length q" "x = entry (q ! k)"
    by (auto simp: queue_entries_def in_set_conv_nth)
  then show "snd (entry (q ! 0)) \<le> snd x"
    using q heap_ok_least [of q "length q" k] by (simp add: queue_ok_def entry_def)
next
  fix q :: cellPriorityQueue
  assume q: "queue_ok q" and "queue_entries q \<noteq> {#}"
  then have "q \<noteq> []" by (auto simp: queue_entries_def)
  note pop = heap_Pop_correct [OF q this]
  show "queue_ok (snd (entry (fst (heap_Pop q)), snd (heap_Pop q)))" using pop by simp
  show "add_mset (fst (entry (fst (heap_Pop q)), snd (heap_Pop q)))
      (queue_entries (snd (entry (fst (heap_Pop q)), snd (heap_Pop q)))) = queue_entries q"
    using pop by simp
  show "fst (entry (fst (heap_Pop q)), snd (heap_Pop q)) = entry (q ! 0)" using pop by simp
qed

section \<open>Sorting with the queue\<close>

text \<open>Entries pushed one after the other, and the first \<open>n\<close> pops.\<close>

definition push_all :: "(cell \<times> int) list \<Rightarrow> cellPriorityQueue \<Rightarrow> cellPriorityQueue" where
  "push_all xs h = foldl (\<lambda>h (c, p). heap_Push \<lparr>ci_cell = c, ci_priority = p, ci_index = 0\<rparr> h) h xs"

primrec pop_all :: "nat \<Rightarrow> cellPriorityQueue \<Rightarrow> (cell \<times> int) list" where
  "pop_all 0 h = []"
| "pop_all (Suc n) h = entry (fst (heap_Pop h)) # pop_all n (snd (heap_Pop h))"

lemma pop_all_drain: "pop_all n h = pq.drain n h"
  by (induction n arbitrary: h) simp_all

lemma push_all_ok:
  "queue_ok h \<Longrightarrow> queue_ok (push_all xs h) \<and> queue_entries (push_all xs h) = queue_entries h + mset xs"
proof (induction xs arbitrary: h)
  case (Cons x xs)
  obtain c p where x: "x = (c, p)" by fastforce
  let ?h = "heap_Push \<lparr>ci_cell = c, ci_priority = p, ci_index = 0\<rparr> h"
  have "queue_ok ?h" "queue_entries ?h = add_mset (c, p) (queue_entries h)"
    using pq.valid_push [of h x] pq.entries_push [of h x] Cons.prems x by simp_all
  with Cons.IH [of ?h] x show ?case by (simp add: push_all_def)
qed (simp add: push_all_def)

lemma pop_all_push_all:
  "mset (pop_all (length xs) (push_all xs [])) = mset xs"
  "sorted (map snd (pop_all (length xs) (push_all xs [])))"
proof -
  have ok: "queue_ok (push_all xs [])" and e: "queue_entries (push_all xs []) = mset xs"
    using push_all_ok [OF queue_ok_Nil, of xs] by (simp_all add: queue_entries_def)
  then have sz: "size (queue_entries (push_all xs [])) = length xs" by simp
  show "mset (pop_all (length xs) (push_all xs [])) = mset xs"
    using pq.mset_drain [OF ok sz] e by (simp add: pop_all_drain)
  show "sorted (map snd (pop_all (length xs) (push_all xs [])))"
    using pq.sorted_drain [OF ok sz] by (simp add: pop_all_drain)
qed

end
