(* ===== verification/Scheduler.thy ===== *)
theory Scheduler
  imports Heap
begin

text \<open>
  The transmission scheduler (\<open>disguise/scheduler/scheduler.go\<close>, from line 53): cells wait in
  the priority queue of theory Heap, ordered by the time they may be sent. Times are
  nanoseconds; \<open>UnixNano\<close> fits an \<open>int64\<close> until the year 2262 and is an \<^typ>\<open>int\<close> here.
\<close>

record 'f Scheduler =
  sc_profile :: "'f profile"
  sc_queue :: cellPriorityQueue
  lastSendTime :: int

definition NewScheduler :: "'f::floor_ceiling world \<Rightarrow> 'f Scheduler \<times> 'f world" where
  "NewScheduler w =
     (let (now, w1) = UnixNano w
      in (\<lparr>sc_profile = GetProfile WebBrowsing, sc_queue = heap_Init [], lastSendTime = now\<rparr>, w1))"

definition Scheduler_SetProfile :: "'f profile \<Rightarrow> 'f Scheduler \<Rightarrow> 'f Scheduler" where
  "Scheduler_SetProfile p s = s\<lparr>sc_profile := p\<rparr>"

text \<open>A dummy cell reads the clock a second time.\<close>

definition ScheduleCell :: "cell \<Rightarrow> 'f Scheduler \<Rightarrow> 'f world \<Rightarrow> 'f Scheduler \<times> 'f world" where
  "ScheduleCell c s w =
     (let (now, w1) = UnixNano w;
          (priority, w2) =
            (if Type c = TypeDummy
             then let (now', w') = UnixNano w1 in (now' + ProbingInterval (sc_profile s), w')
             else (now, w1))
      in (s\<lparr>sc_queue := heap_Push \<lparr>ci_cell = c, ci_priority = priority, ci_index = 0\<rparr> (sc_queue s)\<rparr>, w2))"

definition GetNextCell :: "'f Scheduler \<Rightarrow> 'f world \<Rightarrow> cell option \<times> 'f Scheduler \<times> 'f world" where
  "GetNextCell s w =
     (if sc_queue s = [] then (None, s, w)
      else let item = sc_queue s ! 0; (now, w1) = UnixNano w
           in if now < ci_priority item then (None, s, w1)
              else let (_, queue') = heap_Pop (sc_queue s)
                   in (Some (ci_cell item), s\<lparr>sc_queue := queue'\<rparr>, w1))"

definition scheduler_ok :: "'f Scheduler \<Rightarrow> bool" where
  "scheduler_ok s \<longleftrightarrow> queue_ok (sc_queue s)"

abbreviation scheduled :: "'f Scheduler \<Rightarrow> (cell \<times> int) multiset" where
  "scheduled s \<equiv> queue_entries (sc_queue s)"

lemma scheduler_ok_New: "scheduler_ok (fst (NewScheduler w))"
  by (simp add: NewScheduler_def UnixNano_def scheduler_ok_def heap_Init_Nil queue_ok_Nil)

text \<open>Scheduling adds the cell with its due time.\<close>

lemma ScheduleCell_entries:
  assumes "scheduler_ok s"
  shows "scheduler_ok (fst (ScheduleCell c s w))"
    and "scheduled (fst (ScheduleCell c s w)) = add_mset
      (c, if Type c = TypeDummy then w_clock w (Suc (tick w)) + ProbingInterval (sc_profile s)
          else w_clock w (tick w)) (scheduled s)"
  using pq.valid_push [of "sc_queue s" "(c, _)"] pq.entries_push [of "sc_queue s" "(c, _)"] assms
  by (auto simp: ScheduleCell_def scheduler_ok_def UnixNano_def step_def Let_def)

lemma ScheduleCell_profile [simp]: "sc_profile (fst (ScheduleCell c s w)) = sc_profile s"
  by (simp add: ScheduleCell_def UnixNano_def Let_def)

text \<open>What \<open>GetNextCell\<close> sends: an entry that is due and has the earliest due time.\<close>

lemma GetNextCell_Some:
  assumes "scheduler_ok s" and "GetNextCell s w = (Some c, s', w')"
  shows "\<exists>p. (c, p) \<in># scheduled s \<and> p \<le> w_clock w (tick w) \<and>
           (\<forall>(d, q) \<in># scheduled s. p \<le> q) \<and>
           scheduled s' = scheduled s - {#(c, p)#} \<and> scheduler_ok s'"
proof -
  let ?q = "sc_queue s"
  have ne: "?q \<noteq> []" using assms(2) by (auto simp: GetNextCell_def)
  then have ne': "queue_entries ?q \<noteq> {#}" by (simp add: queue_entries_def)
  have ok: "queue_ok ?q" using assms(1) by (simp add: scheduler_ok_def)
  from assms(2) ne have due: "ci_priority (?q ! 0) \<le> w_clock w (tick w)"
    and c: "c = ci_cell (?q ! 0)" and s': "s' = s\<lparr>sc_queue := snd (heap_Pop ?q)\<rparr>"
    by (auto simp: GetNextCell_def UnixNano_def Let_def case_prod_unfold split: if_splits)
  have e: "entry (fst (heap_Pop ?q)) = (c, ci_priority (?q ! 0))"
    using heap_Pop_correct(2) [OF ok ne] c by (simp add: entry_def)
  show ?thesis
    using pq.pop_least [OF ok ne'] pq.valid_pop [OF ok ne'] due s' e
    by (intro exI [of _ "ci_priority (?q ! 0)"]) (auto simp: scheduler_ok_def)
qed

text \<open>Nothing is sent only when nothing is due.\<close>

lemma GetNextCell_None:
  assumes "scheduler_ok s" and "GetNextCell s w = (None, s', w')"
  shows "s' = s" and "\<forall>(d, q) \<in># scheduled s. w_clock w (tick w) < q"
proof -
  have "s' = s \<and> (\<forall>x \<in># scheduled s. w_clock w (tick w) < snd x)"
  proof (cases "sc_queue s = []")
    case True
    then show ?thesis using assms(2) by (simp add: GetNextCell_def queue_entries_def)
  next
    case False
    with assms(2) have "s' = s" and lt: "w_clock w (tick w) < ci_priority (sc_queue s ! 0)"
      by (auto simp: GetNextCell_def UnixNano_def Let_def case_prod_unfold split: if_splits)
    moreover have "\<forall>x \<in># scheduled s. ci_priority (sc_queue s ! 0) \<le> snd x"
      using pq.top_least [of "sc_queue s"] assms(1) by (simp add: scheduler_ok_def entry_def)
    ultimately show ?thesis by fastforce
  qed
  then show "s' = s" and "\<forall>(d, q) \<in># scheduled s. w_clock w (tick w) < q"
    by auto
qed

end
