(* ===== verification/FramingLemmas.thy ===== *)
theory FramingLemmas
  imports Framing
begin

text \<open>
  What the cell format and the fragmentation loop guarantee. A cell is \<^emph>\<open>laid out\<close> when its
  length fields are the lengths of its contents and the contents fit a \<open>uint16\<close>.
\<close>

definition cell_ok :: "cell \<Rightarrow> bool" where
  "cell_ok c \<longleftrightarrow>
     length (Payload c) = unat (PayloadLen c) \<and> length (Padding c) = unat (PaddingLen c) \<and>
     unat (PayloadLen c) + unat (PaddingLen c) < 65536"

lemma length_cell_header [simp]: "length (cell_header c) = 22"
  by (simp add: cell_header_def)

lemma unat_u16_add: "unat (a + b :: u16) = (unat a + unat b) mod 65536"
  by (simp add: unat_word_ariths)

text \<open>\<open>EncodeCell\<close> on a laid-out cell: the offset splits the padding around the payload.\<close>

lemma EncodeCell_layout:
  assumes "cell_ok c" and "unat (RandOffset c) \<le> length (Padding c)"
  shows "EncodeCell c = Some (cell_header c @ take (unat (RandOffset c)) (Padding c) @ Payload c @
           drop (unat (RandOffset c)) (Padding c))"
proof -
  let ?o = "unat (RandOffset c)"
  have n: "unat (PayloadLen c + PaddingLen c) = length (Payload c) + length (Padding c)"
    using assms(1) by (simp add: cell_ok_def unat_u16_add)
  have k: "unat (RandOffset c + PayloadLen c) = ?o + length (Payload c)"
    using assms by (simp add: cell_ok_def unat_u16_add)
  show ?thesis using assms(2)
    by (simp add: EncodeCell_def Let_def n k copy_at_def go_copy_def go_slice_def)
qed

lemma EncodeCell_panics:
  assumes "cell_ok c" and "length (Padding c) < unat (RandOffset c)"
  shows "EncodeCell c = None"
  using assms(2) by (simp add: EncodeCell_def Let_def go_slice_def bind_eq_None_conv)

lemma EncodeCell_shape:
  assumes "EncodeCell c = Some bs"
  shows "\<exists>body. bs = cell_header c @ body \<and> length body = unat (PayloadLen c + PaddingLen c)"
  using assms
  by (auto simp: EncodeCell_def Let_def bind_eq_Some_conv dest!: length_copy_at)

text \<open>Reading back the header of an encoded cell.\<close>

lemma binary_Read_enc [simp]:
  "binary_Read k (be_enc k n @ r) = Inr (n mod 256 ^ k, r)"
  by (simp add: binary_Read_def be_dec_enc)

lemma binary_Read_byte [simp]: "binary_Read (Suc 0) (b # r) = Inr (unat b, r)"
  by (simp add: binary_Read_def)

lemma DecodeCell_header:
  "DecodeCell (cell_header c @ body) =
     decode_content (c\<lparr>Payload := [], Padding := []\<rparr>) (be_enc 2 (unat (RandOffset c)) @ body)"
proof -
  have 1: "length (cell_header c @ body) < CellHeaderLen \<longleftrightarrow> False"
    by (simp add: CellHeaderLen_def)
  have 2: "drop CellHeaderLen (cell_header c @ body) = be_enc 2 (unat (RandOffset c)) @ body"
    by (simp add: CellHeaderLen_def cell_header_def)
  show ?thesis
    unfolding DecodeCell_def 1 2
    by (cases c) (simp add: cell_header_def bind_err_def)
qed

text \<open>
  The header written is 22 bytes, the reader takes the content from byte 20 on: it sees two
  bytes too many and refuses every cell the framer can produce.
\<close>

lemma DecodeCell_rejects:
  assumes "EncodeCell c = Some bs"
  shows "DecodeCell bs = Some (Inl ContentLengthMismatch)"
proof -
  from EncodeCell_shape [OF assms] obtain body where
    bs: "bs = cell_header c @ body" "length body = unat (PayloadLen c + PaddingLen c)" by blast
  then show ?thesis
    by (simp add: DecodeCell_header decode_content_def)
qed

text \<open>What an accepted cell looks like.\<close>

lemma bind_err_InrE:
  assumes "bind_err r k = Some (Inr y)"
  obtains x where "r = Inr x" "k x = Some (Inr y)"
  using assms by (auto simp: bind_err_def split: sum.splits)

lemma binary_Read_Inr: "binary_Read k bs = Inr (n, r) \<longleftrightarrow>
    k \<le> length bs \<and> n = be_dec (take k bs) \<and> r = drop k bs"
  by (auto simp: binary_Read_def)

lemma decode_content_accepts:
  assumes "decode_content c body = Some (Inr d)"
  shows "length body = unat (PayloadLen c + PaddingLen c)"
    and "unat (RandOffset c) \<le> unat (RandOffset c + PayloadLen c)"
    and "unat (RandOffset c + PayloadLen c) \<le> length body"
    and "unat (RandOffset c) \<le> unat (PaddingLen c)"
    and "length (Payload d) = unat (PayloadLen c) \<and> length (Padding d) = unat (PaddingLen c)"
  using assms
  by (auto simp: decode_content_def Let_def bind_eq_Some_conv copy_at_def split: if_splits)

section \<open>Fragmentation\<close>

text \<open>What one turn of the loop emits: a non-empty piece of the data in a laid-out cell.\<close>

definition frag_cell :: "'f::floor_ceiling profile \<Rightarrow> u16 \<Rightarrow> u32 \<Rightarrow> bytes \<Rightarrow> cell \<Rightarrow> bool" where
  "frag_cell p cid seq rest c \<longleftrightarrow>
     cell_ok c \<and> CellID c = cid \<and> Type c = TypeData \<and> Seq c = seq \<and>
     Payload c \<noteq> [] \<and> int (length (Payload c)) \<le> MaxCellSize p - profile_CellHeaderLen \<and>
     Payload c = take (length (Payload c)) rest \<and>
     (Flags c = 0 \<or> Flags c = 1 \<and> Payload c = rest)"

lemma generateRandomOffset_total: "\<exists>ro w'. generateRandomOffset m w = Some (ro, w')"
proof (cases "m \<le> 1")
  case True
  then show ?thesis by (simp add: generateRandomOffset_def)
next
  case False
  then have "unat (m - 1) \<noteq> 0" by (auto simp: unat_eq_zero)
  then have "0 < int (unat (m - 1))" by (simp only: of_nat_0_less_iff)
  from rand_Intn_pos [OF this, of w] False show ?thesis
    by (auto simp: generateRandomOffset_def)
qed

lemma fragment_cell_total:
  assumes p: "profile_ok (fr_profile f)" and off: "off < length data"
  obtains c p' w' where
    "fragment_cell f data cid off w =
       Some (c, length (Payload c), f\<lparr>fr_profile := p', fr_seq := fr_seq f + 1\<rparr>, w')"
    "frag_cell (fr_profile f) cid (fr_seq f) (drop off data) c"
    "profile_ok p'" "MaxCellSize p' = MaxCellSize (fr_profile f)"
proof -
  obtain now w1 where w1: "UnixNano w = (now, w1)" by fastforce
  from GetNextPayloadLength_ok [OF p, of w1] obtain n p' w2 where
    n: "GetNextPayloadLength (fr_profile f) w1 = Some (n, p', w2)" "1 \<le> n"
      "n \<le> MaxCellSize (fr_profile f) - profile_CellHeaderLen"
    and p': "profile_ok p'" "MaxCellSize p' = MaxCellSize (fr_profile f)"
    by blast
  define lst where "lst = (int off + n > int (length data))"
  define pl where "pl = (if lst then length data - off else nat n)"
  from GetNextCellSize_range [OF p'(1), of w2] obtain total w3 where
    t: "GetNextCellSize p' w2 = Some (total, w3)" "total < MaxCellSize p'" by blast
  define pd where "pd = (let x = total - int CellHeaderLen - int pl in if x < 0 then 0 else x)"
  from generatePadding_length [of pd "currentProfileType p'" w3] obtain pad w4 where
    pad: "generatePadding pd (currentProfileType p') w3 = Some (pad, w4)" "length pad = nat pd" by blast
  from generateRandomOffset_total obtain ro w5 where
    ro: "generateRandomOffset (word_of_int total) w4 = Some (ro, w5)" by blast
  define c where "c = \<lparr>CellID = cid, Type = TypeData, Flags = (if lst then 0 OR 1 else 0),
    Seq = fr_seq f, Timestamp = word_of_int (go_quot now 1000000), PayloadLen = word_of_nat pl,
    PaddingLen = word_of_int pd, RandOffset = ro, Payload = take pl (drop off data), Padding = pad\<rparr>"
  have max: "MaxCellSize p' \<le> 65535" using p'(1) by (simp add: profile_ok_def)
  have pl: "0 < pl" "pl \<le> length data - off" "int pl \<le> n"
    using off n(2) by (auto simp: pl_def lst_def)
  have len: "length (Payload c) = pl" using pl by (simp add: c_def)
  have bound: "int pl \<le> MaxCellSize (fr_profile f) - profile_CellHeaderLen" using pl n by linarith
  have pd: "0 \<le> pd" "int pl + pd \<le> 65535"
    using t(2) bound max p'(2) by (auto simp: pd_def Let_def CellHeaderLen_def profile_CellHeaderLen_def)
  have ok: "cell_ok c"
  proof -
    have u1: "unat (word_of_nat pl :: u16) = pl" using pd by (simp add: unat_of_nat)
    have u2: "unat (word_of_int pd :: u16) = nat pd"
      using pd by (simp add: unsigned_of_int take_bit_int_eq_self)
    show ?thesis using pd pad(2) len u1 u2 by (simp add: cell_ok_def c_def)
  qed
  have fl: "frag_cell (fr_profile f) cid (fr_seq f) (drop off data) c"
    using ok bound pl len n(2) by (auto simp: frag_cell_def c_def pl_def)
  have "fragment_cell f data cid off w =
      Some (c, length (Payload c), f\<lparr>fr_profile := p', fr_seq := fr_seq f + 1\<rparr>, w5)"
    unfolding fragment_cell_def len
    using pad(1) by (simp add: w1 n(1) t(1) Let_def ro c_def pl_def pd_def lst_def split del: if_split)
  then show thesis using fl p' by (rule that)
qed

text \<open>The cells a fragmentation emits, one after the other.\<close>

fun frag_cells :: "u16 \<Rightarrow> int \<Rightarrow> u32 \<Rightarrow> bytes \<Rightarrow> cell list \<Rightarrow> bool" where
  "frag_cells cid m seq rest [] \<longleftrightarrow> rest = []"
| "frag_cells cid m seq rest (c # cs) \<longleftrightarrow>
     cell_ok c \<and> CellID c = cid \<and> Type c = TypeData \<and> Seq c = seq \<and>
     Payload c \<noteq> [] \<and> int (length (Payload c)) \<le> m - profile_CellHeaderLen \<and>
     Payload c = take (length (Payload c)) rest \<and>
     (Flags c = 0 \<or> Flags c = 1 \<and> cs = []) \<and>
     frag_cells cid m (seq + 1) (drop (length (Payload c)) rest) cs"

lemma fragment_loop_frag_cells:
  assumes "profile_ok (fr_profile f)"
  shows "\<exists>cells f' w'. fragment_loop f data cid off w = Some (cells, f', w') \<and>
           frag_cells cid (MaxCellSize (fr_profile f)) (fr_seq f) (drop off data) cells \<and>
           profile_ok (fr_profile f') \<and> MaxCellSize (fr_profile f') = MaxCellSize (fr_profile f) \<and>
           fr_seq f' = fr_seq f + of_nat (length cells)"
  using assms
proof (induction f data cid off w rule: fragment_loop.induct)
  case (1 f data cid off w)
  show ?case
  proof (cases "off < length data")
    case False
    with 1(2) show ?thesis by (simp add: fragment_loop.simps)
  next
    case True
    from fragment_cell_total [OF 1(2) True, of cid w] obtain c p' w' where
      c: "fragment_cell f data cid off w =
            Some (c, length (Payload c), f\<lparr>fr_profile := p', fr_seq := fr_seq f + 1\<rparr>, w')"
      and fc: "frag_cell (fr_profile f) cid (fr_seq f) (drop off data) c"
      and p': "profile_ok p'" "MaxCellSize p' = MaxCellSize (fr_profile f)" by blast
    from 1(1) [OF True c refl refl refl] p' obtain cells f' w'' where
      r: "fragment_loop (f\<lparr>fr_profile := p', fr_seq := fr_seq f + 1\<rparr>) data cid
            (off + length (Payload c)) w' = Some (cells, f', w'')"
        "frag_cells cid (MaxCellSize (fr_profile f)) (fr_seq f + 1)
           (drop (off + length (Payload c)) data) cells"
        "profile_ok (fr_profile f')" "MaxCellSize (fr_profile f') = MaxCellSize (fr_profile f)"
        "fr_seq f' = fr_seq f + 1 + of_nat (length cells)" by fastforce
    have last: "cells = []" if "Payload c = drop off data"
      using r(2) that by (cases cells) auto
    have "fragment_loop f data cid off w = Some (c # cells, f', w'')"
      by (simp add: fragment_loop.simps [of f data cid off w] True c r(1))
    with r fc last show ?thesis
      by (auto simp: frag_cell_def add.commute)
  qed
qed

lemma frag_cells_concat: "frag_cells cid m seq rest cs \<Longrightarrow> concat (map Payload cs) = rest"
  by (induction cs arbitrary: seq rest) (simp_all, metis append_take_drop_id)

lemma frag_cells_nth:
  "frag_cells cid m seq rest cs \<Longrightarrow> i < length cs \<Longrightarrow>
     Seq (cs ! i) = seq + of_nat i \<and> CellID (cs ! i) = cid \<and> cell_ok (cs ! i) \<and>
     Type (cs ! i) = TypeData \<and> Payload (cs ! i) \<noteq> [] \<and>
     int (length (Payload (cs ! i))) \<le> m - profile_CellHeaderLen \<and>
     (Suc i < length cs \<longrightarrow> Flags (cs ! i) = 0)"
proof (induction cs arbitrary: seq rest i)
  case (Cons c cs)
  then show ?case by (cases i) auto
qed simp

lemma Fragment_frag_cells:
  assumes "profile_ok (fr_profile f)"
  shows "\<exists>cells f' w'. Fragment data f w = Some (cells, f', w') \<and>
           frag_cells (fst (generateCellID w)) (MaxCellSize (fr_profile f)) (fr_seq f) data cells \<and>
           profile_ok (fr_profile f') \<and> MaxCellSize (fr_profile f') = MaxCellSize (fr_profile f) \<and>
           fr_seq f' = fr_seq f + of_nat (length cells)"
  using fragment_loop_frag_cells [OF assms, of data "fst (generateCellID w)" 0 "snd (generateCellID w)"]
  by (simp add: Fragment_def case_prod_unfold Let_def)

end
