(* ===== verification/Reassembler.thy ===== *)
theory Reassembler
  imports FramingLemmas "HOL-Library.Sublist"
begin

text \<open>
  Reassembly of cells into messages (\<open>disguise/framing/reassembler.go\<close>): one buffer per cell
  ID, in-order delivery inside a stream. The map of streams is a partial function; the mutex
  makes \<open>ProcessCell\<close> one atomic step.
\<close>

record ReassemblyStream =
  buffer :: bytes
  lastSeq :: u32

type_synonym Reassembler = "u16 \<rightharpoonup> ReassemblyStream"

definition NewReassembler :: Reassembler where
  "NewReassembler = Map.empty"

datatype reassembly_error = OutOfOrderCell

text \<open>The result is \<open>(payload, err)\<close>: \<open>Inr None\<close> is \<open>(nil, nil)\<close>.\<close>

definition ProcessCell :: "cell \<Rightarrow> Reassembler \<Rightarrow> (reassembly_error + bytes option) \<times> Reassembler" where
  "ProcessCell c streams =
     (let (stream, streams1) =
            (case streams (CellID c) of
               Some st \<Rightarrow> (st, streams)
             | None \<Rightarrow>
                 (let st = \<lparr>buffer = [], lastSeq = Seq c - 1\<rparr> in (st, streams(CellID c \<mapsto> st))))
      in if Seq c \<noteq> lastSeq stream + 1 then (Inl OutOfOrderCell, streams1)
         else
           let stream' = \<lparr>buffer = buffer stream @ Payload c, lastSeq = Seq c\<rparr>;
               streams2 = streams1(CellID c \<mapsto> stream')
           in if Flags c AND 1 \<noteq> 0
              then (Inr (Some (buffer stream')), streams2(CellID c := None))
              else (Inr None, streams2))"

text \<open>A sequence of incoming cells: the messages delivered, in order, until the first error.\<close>

fun process_cells :: "cell list \<Rightarrow> Reassembler \<Rightarrow> (reassembly_error + bytes list) \<times> Reassembler" where
  "process_cells [] r = (Inr [], r)"
| "process_cells (c # cs) r =
     (case ProcessCell c r of
        (Inl e, r') \<Rightarrow> (Inl e, r')
      | (Inr out, r') \<Rightarrow>
          (case process_cells cs r' of
             (Inl e, r'') \<Rightarrow> (Inl e, r'')
           | (Inr ms, r'') \<Rightarrow> (Inr ((case out of None \<Rightarrow> [] | Some m \<Rightarrow> [m]) @ ms), r'')))"

section \<open>One cell\<close>

lemma ProcessCell_new:
  "r (CellID c) = None \<Longrightarrow> Flags c AND 1 = 0 \<Longrightarrow>
     ProcessCell c r = (Inr None, r(CellID c \<mapsto> \<lparr>buffer = Payload c, lastSeq = Seq c\<rparr>))"
  by (simp add: ProcessCell_def Let_def)

lemma ProcessCell_new_last:
  "r (CellID c) = None \<Longrightarrow> Flags c AND 1 \<noteq> 0 \<Longrightarrow> ProcessCell c r = (Inr (Some (Payload c)), r)"
  by (simp add: ProcessCell_def Let_def fun_upd_idem)

lemma ProcessCell_next:
  "r (CellID c) = Some st \<Longrightarrow> Seq c = lastSeq st + 1 \<Longrightarrow> Flags c AND 1 = 0 \<Longrightarrow>
     ProcessCell c r = (Inr None, r(CellID c \<mapsto> \<lparr>buffer = buffer st @ Payload c, lastSeq = Seq c\<rparr>))"
  by (simp add: ProcessCell_def Let_def)

lemma ProcessCell_last:
  "r (CellID c) = Some st \<Longrightarrow> Seq c = lastSeq st + 1 \<Longrightarrow> Flags c AND 1 \<noteq> 0 \<Longrightarrow>
     ProcessCell c r = (Inr (Some (buffer st @ Payload c)), r(CellID c := None))"
  by (simp add: ProcessCell_def Let_def)

lemma ProcessCell_out_of_order:
  "r (CellID c) = Some st \<Longrightarrow> Seq c \<noteq> lastSeq st + 1 \<Longrightarrow> ProcessCell c r = (Inl OutOfOrderCell, r)"
  by (simp add: ProcessCell_def Let_def)

lemma ProcessCell_error_iff:
  "fst (ProcessCell c r) = Inl e \<longleftrightarrow> (\<exists>st. r (CellID c) = Some st \<and> Seq c \<noteq> lastSeq st + 1)"
proof -
  have "e = OutOfOrderCell" by (cases e)
  then show ?thesis by (auto simp: ProcessCell_def Let_def split: option.splits)
qed

lemma ProcessCell_frame: "i \<noteq> CellID c \<Longrightarrow> snd (ProcessCell c r) i = r i"
  by (auto simp: ProcessCell_def Let_def split: option.splits)

text \<open>Only the stream of the cell matters, so cells of different streams commute.\<close>

lemma ProcessCell_local:
  "r (CellID c) = r' (CellID c) \<Longrightarrow>
     fst (ProcessCell c r) = fst (ProcessCell c r') \<and>
     snd (ProcessCell c r) (CellID c) = snd (ProcessCell c r') (CellID c)"
  by (auto simp: ProcessCell_def Let_def split: option.splits)

lemma ProcessCell_commute:
  assumes "CellID c \<noteq> CellID d"
  shows "fst (ProcessCell d (snd (ProcessCell c r))) = fst (ProcessCell d r)"
    and "snd (ProcessCell d (snd (ProcessCell c r))) = snd (ProcessCell c (snd (ProcessCell d r)))"
proof -
  have d: "snd (ProcessCell c r) (CellID d) = r (CellID d)"
    using assms by (simp add: ProcessCell_frame)
  have c: "snd (ProcessCell d r) (CellID c) = r (CellID c)"
    using assms by (simp add: ProcessCell_frame)
  show "fst (ProcessCell d (snd (ProcessCell c r))) = fst (ProcessCell d r)"
    using ProcessCell_local [of "snd (ProcessCell c r)" d r, OF d] by simp
  show "snd (ProcessCell d (snd (ProcessCell c r))) = snd (ProcessCell c (snd (ProcessCell d r)))"
  proof
    fix i
    show "snd (ProcessCell d (snd (ProcessCell c r))) i = snd (ProcessCell c (snd (ProcessCell d r))) i"
      using ProcessCell_local [of "snd (ProcessCell c r)" d r, OF d]
        ProcessCell_local [of "snd (ProcessCell d r)" c r, OF c] assms
      by (cases "i = CellID c"; cases "i = CellID d") (simp_all add: ProcessCell_frame)
  qed
qed

section \<open>A fragmented message\<close>

text \<open>Feeding the rest of a fragmentation into a stream that already holds a prefix.\<close>

lemma process_frag_cells_open:
  assumes "frag_cells cid m (lastSeq st + 1) rest cs" and "r cid = Some st" and "cs \<noteq> []"
  shows "process_cells cs r =
     (if Flags (last cs) = 1 then (Inr [buffer st @ rest], r(cid := None))
      else (Inr [], r(cid \<mapsto> \<lparr>buffer = buffer st @ rest, lastSeq = Seq (last cs)\<rparr>)))"
  using assms
proof (induction cs arbitrary: st rest r)
  case Nil
  then show ?case by simp
next
  case (Cons c cs)
  let ?n = "length (Payload c)"
  from Cons.prems have c: "CellID c = cid" "Seq c = lastSeq st + 1" "Payload c = take ?n rest"
    and fl: "Flags c = 0 \<or> Flags c = 1 \<and> cs = []"
    and tl: "frag_cells cid m (Seq c + 1) (drop ?n rest) cs" by simp_all
  show ?case
  proof (cases "cs = []")
    case True
    with tl have "drop ?n rest = []" by simp
    then have "Payload c = rest" using c(3) by simp
    with fl True c Cons.prems(2) show ?thesis
      by (auto simp: ProcessCell_next ProcessCell_last)
  next
    case False
    let ?st = "\<lparr>buffer = buffer st @ Payload c, lastSeq = Seq c\<rparr>"
    from fl False have "Flags c = 0" by simp
    then have p: "ProcessCell c r = (Inr None, r(cid \<mapsto> ?st))"
      using c Cons.prems(2) by (simp add: ProcessCell_next)
    have "process_cells cs (r(cid \<mapsto> ?st)) =
      (if Flags (last cs) = 1 then (Inr [buffer ?st @ drop ?n rest], (r(cid \<mapsto> ?st))(cid := None))
      else (Inr [], (r(cid \<mapsto> ?st))(cid \<mapsto> \<lparr>buffer = buffer ?st @ drop ?n rest, lastSeq = Seq (last cs)\<rparr>)))"
      using tl False by (intro Cons.IH) simp_all
    moreover have "Payload c @ drop ?n rest = rest"
      using c(3) by (metis append_take_drop_id)
    ultimately show ?thesis using False by (simp add: p, simp add: fun_upd_def)
  qed
qed

lemma process_frag_cells:
  assumes "frag_cells cid m seq data cs" and "r cid = None" and "cs \<noteq> []"
  shows "process_cells cs r =
     (if Flags (last cs) = 1 then (Inr [data], r)
      else (Inr [], r(cid \<mapsto> \<lparr>buffer = data, lastSeq = Seq (last cs)\<rparr>)))"
proof -
  let ?st = "\<lparr>buffer = [], lastSeq = seq - 1\<rparr>"
  from assms obtain c cs' where cs: "cs = c # cs'" "CellID c = cid" "Seq c = seq"
    by (cases cs) auto
  have "ProcessCell c r = ProcessCell c (r(cid \<mapsto> ?st))"
    using cs assms(2) by (simp add: ProcessCell_def Let_def)
  then have "process_cells cs r = process_cells cs (r(cid \<mapsto> ?st))"
    using cs by simp
  also have "\<dots> = (if Flags (last cs) = 1 then (Inr [buffer ?st @ data], (r(cid \<mapsto> ?st))(cid := None))
      else (Inr [], (r(cid \<mapsto> ?st))(cid \<mapsto> \<lparr>buffer = buffer ?st @ data, lastSeq = Seq (last cs)\<rparr>)))"
    by (rule process_frag_cells_open) (use assms in simp_all)
  finally show ?thesis using assms(2) by (simp add: fun_upd_idem)
qed

section \<open>Interleaved streams\<close>

text \<open>
  When a mix of cells of several streams is accepted, each stream ends in the state its own
  cells lead to, and delivers the same messages.
\<close>

lemma process_cells_stream:
  assumes "process_cells cs r = (Inr ms, r')" and "r i = q i"
  shows "\<exists>ms' q'. process_cells (filter (\<lambda>c. CellID c = i) cs) q = (Inr ms', q') \<and>
           q' i = r' i \<and> subseq ms' ms"
  using assms
proof (induction cs arbitrary: r q ms)
  case (Cons c cs)
  from Cons.prems(1) obtain out r1 ms1 where
    p: "ProcessCell c r = (Inr out, r1)" and l: "process_cells cs r1 = (Inr ms1, r')"
    and ms: "ms = (case out of None \<Rightarrow> [] | Some m \<Rightarrow> [m]) @ ms1"
    by (auto split: prod.splits sum.splits)
  show ?case
  proof (cases "CellID c = i")
    case True
    then have eq: "r (CellID c) = q (CellID c)" using Cons.prems(2) by simp
    obtain q1 where q: "ProcessCell c q = (Inr out, q1)" "r1 i = q1 i"
      using ProcessCell_local [of r c q, OF eq] p True by (cases "ProcessCell c q") auto
    from Cons.IH [where r = r1 and q = q1, OF l q(2)] obtain ms' q' where
      "process_cells (filter (\<lambda>c. CellID c = i) cs) q1 = (Inr ms', q')" "q' i = r' i" "subseq ms' ms1" by blast
    with q True ms show ?thesis by (auto intro: list_emb_append_mono)
  next
    case False
    then have "r1 i = q i" using ProcessCell_frame [of i c r] p Cons.prems(2) by simp
    from Cons.IH [where r = r1 and q = q, OF l this] ms False show ?thesis by (auto intro: list_emb_append2)
  qed
qed simp

end
