(* ===== verification/Float64.thy ===== *)
theory Float64
  imports Prelude "HOL-Library.Log_Nat"
begin

text \<open>
  Rounding to \<open>float64\<close>: to the nearest number of 53 significant bits, a tie to the even one, with
  the exponents of normal and subnormal numbers. A \<open>float64\<close> operation is the exact operation in
  an Archimedean field followed by \<open>float64\<close>. Overflow to infinity, NaN and the sign of zero are not
  modelled. The lemmas are the ones the classifier needs: monotonicity, exact integers, and the
  relative error.
\<close>

section \<open>Rounding to an integer\<close>

definition round_even :: "'f::floor_ceiling \<Rightarrow> int" where
  "round_even x =
     (let n = \<lfloor>x\<rfloor>; d = x - of_int n
      in if d < 1 / 2 then n else if d > 1 / 2 then n + 1 else if even n then n else n + 1)"

lemma round_even_of_int [simp]: "round_even (of_int n) = n"
  by (simp add: round_even_def)

lemma round_even_error: "\<bar>of_int (round_even x) - x\<bar> \<le> 1 / 2"
proof -
  have "of_int \<lfloor>x\<rfloor> \<le> x" "x < of_int \<lfloor>x\<rfloor> + 1" using floor_correct [of x] by simp_all
  then show ?thesis by (simp add: round_even_def Let_def abs_le_iff)
qed

lemma round_even_mono:
  assumes "x \<le> y"
  shows "round_even x \<le> round_even y"
proof (cases "\<lfloor>x\<rfloor> = \<lfloor>y\<rfloor>")
  case True
  with assms show ?thesis by (auto simp: round_even_def Let_def)
next
  case False
  with floor_mono [OF assms] have "\<lfloor>x\<rfloor> + 1 \<le> \<lfloor>y\<rfloor>" by simp
  moreover have "round_even x \<le> \<lfloor>x\<rfloor> + 1" and "\<lfloor>y\<rfloor> \<le> round_even y" by (simp_all add: round_even_def Let_def)
  ultimately show ?thesis by linarith
qed

section \<open>The binary exponent\<close>

definition exponent :: "'f::floor_ceiling \<Rightarrow> int" where
  "exponent x =
     (if 1 \<le> x then int (floorlog 2 (nat \<lfloor>x\<rfloor>)) - 1 else - int (floorlog 2 (nat (\<lceil>1 / x\<rceil> - 1))))"

lemma two_power_le: "2 ^ k \<le> n \<Longrightarrow> (2 :: 'f::floor_ceiling) ^ k \<le> of_nat n"
  by (metis of_nat_le_iff of_nat_numeral of_nat_power)

lemma two_power_gt: "n < 2 ^ k \<Longrightarrow> of_nat n + 1 \<le> (2 :: 'f::floor_ceiling) ^ k"
proof -
  assume "n < 2 ^ k"
  then have "of_nat (Suc n) \<le> (of_nat (2 ^ k) :: 'f)" by (intro of_nat_mono) simp
  then show ?thesis by (simp add: add.commute)
qed

lemma exponent_bounds:
  fixes x :: "'f::floor_ceiling"
  assumes "0 < x"
  shows "2 powi exponent x \<le> x" and "x < 2 powi (exponent x + 1)"
proof -
  have "2 powi exponent x \<le> x \<and> x < 2 powi (exponent x + 1)"
  proof (cases "1 \<le> x")
    case True
    define n where "n = nat \<lfloor>x\<rfloor>"
    define l where "l = floorlog 2 n"
    have n: "0 < n" "of_nat n \<le> x" "x < of_nat n + 1"
      using True floor_correct [of x] by (simp_all add: n_def)
    from floorlog_bounds [of n 2] n(1) have l: "2 ^ (l - 1) \<le> n" "n < 2 ^ l" by (simp_all add: l_def)
    then have "0 < l" using n(1) by (cases l) auto
    have "(2 :: 'f) ^ (l - 1) \<le> of_nat n" by (rule two_power_le [OF l(1)])
    moreover have "of_nat n + 1 \<le> (2 :: 'f) ^ l"  by (rule two_power_gt [OF l(2)])
    moreover have e: "exponent x = int (l - 1)" "exponent x + 1 = int l"
      using True \<open>0 < l\<close> by (simp_all add: exponent_def l_def n_def)
    moreover have "2 powi exponent x = (2 :: 'f) ^ (l - 1)" "2 powi (exponent x + 1) = (2 :: 'f) ^ l"
      unfolding e(2) by (simp_all only: e(1) power_int_of_nat)
    ultimately show ?thesis using n by linarith
  next
    case False
    define m where "m = nat (\<lceil>1 / x\<rceil> - 1)"
    define k where "k = floorlog 2 m"
    have "1 < 1 / x" using False assms by simp
    moreover define c where "c = \<lceil>1 / x\<rceil> - 1"
    ultimately have c: "0 < c" "of_int c < 1 / x" "1 / x \<le> of_int c + 1"
      using ceiling_correct [of "1 / x"] by simp_all
    moreover have mc: "m = nat c" by (simp add: m_def c_def)
    moreover have "of_nat m = (of_int c :: 'f)" unfolding mc using c(1) by (intro of_nat_nat) simp
    ultimately have m: "0 < m" "of_nat m < 1 / x" "1 / x \<le> of_nat m + 1" by simp_all
    from floorlog_bounds [of m 2] m(1) have k: "2 ^ (k - 1) \<le> m" "m < 2 ^ k" by (simp_all add: k_def)
    then have "0 < k" using m(1) by (cases k) auto
    have a: "(2 :: 'f) ^ (k - 1) < 1 / x" using two_power_le [OF k(1)] m(2) by (rule le_less_trans)
    have b: "1 / x \<le> (2 :: 'f) ^ k" using m(3) two_power_gt [OF k(2)] by (rule order_trans)
    have e: "exponent x = - int k" "exponent x + 1 = - int (k - 1)"
      using False \<open>0 < k\<close> by (simp_all add: exponent_def k_def m_def)
    have "1 / 2 ^ k \<le> x" using b assms by (simp add: field_simps)
    moreover have "x < 1 / 2 ^ (k - 1)" using a assms by (simp add: field_simps)
    moreover have "2 powi exponent x = 1 / (2 :: 'f) ^ k" "2 powi (exponent x + 1) = 1 / (2 :: 'f) ^ (k - 1)"
      unfolding e(2) by (simp_all only: e(1) power_int_minus power_int_of_nat inverse_eq_divide)
    ultimately show ?thesis by simp
  qed
  then show "2 powi exponent x \<le> x" and "x < 2 powi (exponent x + 1)" by simp_all
qed

lemma powi_less: "2 powi i < (2 powi j :: 'f::linordered_field) \<longleftrightarrow> i < j"
  using power_int_strict_increasing [of i j "2 :: 'f"] power_int_increasing [of j i "2 :: 'f"] by force

lemma powi_le: "2 powi i \<le> (2 powi j :: 'f::linordered_field) \<longleftrightarrow> i \<le> j"
  by (simp only: not_less [symmetric] powi_less)

lemma exponent_mono:
  fixes x y :: "'f::floor_ceiling"
  assumes "0 < x" and "x \<le> y"
  shows "exponent x \<le> exponent y"
proof -
  have "2 powi exponent x \<le> x" by (rule exponent_bounds [OF assms(1)])
  also have "x \<le> y" by (rule assms)
  also have "y < 2 powi (exponent y + 1)" by (rule exponent_bounds) (use assms in simp)
  finally show ?thesis by (simp add: powi_less)
qed

lemma exponent_less:
  fixes x :: "'f::floor_ceiling"
  assumes "0 < x" and "x < 2 powi i"
  shows "exponent x < i"
proof -
  have "2 powi exponent x < (2 powi i :: 'f)" using exponent_bounds(1) [OF assms(1)] assms(2) by simp
  then show ?thesis by (simp add: powi_less)
qed

section \<open>Rounding\<close>

text \<open>The distance of neighbouring \<open>float64\<close> numbers at \<open>x\<close>; below \<open>2^-1022\<close> it is that of the subnormal numbers.\<close>

definition ulp :: "'f::floor_ceiling \<Rightarrow> 'f" where
  "ulp x = 2 powi (max (exponent x) (- 1022) - 52)"

definition float64 :: "'f::floor_ceiling \<Rightarrow> 'f" where
  "float64 x = (if x = 0 then 0 else of_int (round_even (x / ulp \<bar>x\<bar>)) * ulp \<bar>x\<bar>)"

lemma ulp_pos [simp]: "0 < ulp x" and ulp_nonzero [simp]: "ulp x \<noteq> 0"
  by (simp_all add: ulp_def)

lemma float64_0 [simp]: "float64 0 = 0"
  by (simp add: float64_def)

text \<open>A multiple of the distance bounds the rounded number if it bounds the number.\<close>

lemma float64_le_multiple:
  assumes "0 < x" and "x \<le> of_int n * ulp x"
  shows "float64 x \<le> of_int n * ulp x"
proof -
  have "x / ulp x \<le> of_int n" using assms(2) by (simp add: pos_divide_le_eq)
  from round_even_mono [OF this] have "round_even (x / ulp x) \<le> n" by simp
  then show ?thesis using assms(1) by (simp add: float64_def)
qed

lemma float64_ge_multiple:
  assumes "0 < x" and "of_int n * ulp x \<le> x"
  shows "of_int n * ulp x \<le> float64 x"
proof -
  have "of_int n \<le> x / ulp x" using assms(2) by (simp add: pos_le_divide_eq)
  from round_even_mono [OF this] have "n \<le> round_even (x / ulp x)" by simp
  then show ?thesis using assms(1) by (simp add: float64_def)
qed

lemma power_multiple:
  fixes x :: "'f::floor_ceiling"
  assumes "max (exponent x) (- 1022) - 52 \<le> i"
  shows "\<exists>n. of_nat m * 2 powi i = of_int n * ulp x"
proof -
  let ?j = "max (exponent x) (- 1022) - 52"
  have "(2 :: 'f) powi i = 2 powi (i - ?j) * 2 powi ?j" by (subst power_int_add [symmetric]) simp_all
  also have "(2 :: 'f) powi (i - ?j) = of_int (2 ^ nat (i - ?j))" using assms by (simp add: power_int_def)
  finally have "of_nat m * 2 powi i = of_int (int m * 2 ^ nat (i - ?j)) * ulp x" by (simp add: ulp_def)
  then show ?thesis by blast
qed

lemma float64_nonneg: "0 \<le> x \<Longrightarrow> 0 \<le> float64 x"
  using float64_ge_multiple [of x 0] by (cases "x = 0") simp_all

lemma float64_mono:
  fixes x y :: "'f::floor_ceiling"
  assumes "0 \<le> x" and "x \<le> y"
  shows "float64 x \<le> float64 y"
proof (cases "x = 0 \<or> ulp x = ulp y")
  case True
  show ?thesis
  proof (cases "x = 0")
    case True
    with assms show ?thesis by (simp add: float64_nonneg)
  next
    case False
    with True have u: "ulp x = ulp y" by simp
    have "x / ulp y \<le> y / ulp y" using assms by (intro divide_right_mono) (simp_all add: less_imp_le)
    from round_even_mono [OF this] show ?thesis
      using False assms u by (simp add: float64_def mult_right_mono less_imp_le)
  qed
next
  case False
  with assms have x: "0 < x" and y: "0 < y" and u: "ulp x \<noteq> ulp y" by auto
  let ?e = "exponent y"
  have "exponent x \<le> ?e" by (rule exponent_mono [OF x assms(2)])
  with u have lt: "exponent x < ?e" "- 1022 < ?e" 
    by (cases "exponent x = ?e"; auto simp: ulp_def max_def split: if_splits)+
  have "max (exponent x) (- 1022) - 52 \<le> ?e" "max ?e (- 1022) - 52 \<le> ?e" using lt by simp_all
  from power_multiple [OF this(1), of 1] power_multiple [OF this(2), of 1]
  obtain n k :: int where n: "2 powi ?e = of_int n * ulp x" and k: "2 powi ?e = of_int k * ulp y" by auto
  have "x \<le> 2 powi (exponent x + 1)" using exponent_bounds(2) [OF x] by simp
  also have "\<dots> \<le> 2 powi ?e" using lt by (simp add: powi_le)
  finally have "float64 x \<le> 2 powi ?e" using float64_le_multiple [OF x, of n] n by simp
  also have "2 powi ?e \<le> float64 y" using float64_ge_multiple [OF y, of k] k exponent_bounds(1) [OF y] by simp
  finally show ?thesis .
qed

text \<open>Numbers of at most 53 bits are not rounded.\<close>

lemma float64_exact:
  fixes x :: "'f::floor_ceiling"
  assumes "x = of_nat m * 2 powi i" and "m \<le> 2 ^ 53" and "- 1074 \<le> i"
  shows "float64 x = x"
proof (cases "m = 0")
  case True
  with assms(1) show ?thesis by simp
next
  case False
  with assms(1) have x: "0 < x" by simp
  have fixed: "float64 x = x" if "x = of_int n * ulp x" for n
    using float64_le_multiple [OF x, of n] float64_ge_multiple [OF x, of n] that by (intro antisym) simp_all
  have m: "(of_nat m :: 'f) \<le> 2 ^ 53" using assms(2) by (metis of_nat_le_iff of_nat_numeral of_nat_power)
  have p: "(2 :: 'f) ^ 53 * 2 powi i = 2 powi (i + 53)" by (simp add: power_int_add)
  show ?thesis
  proof (cases "m = 2 ^ 53")
    case True
    with assms(1) p have "x = of_nat 1 * 2 powi (i + 53)" by simp
    moreover have "exponent x < i + 54"
      by (rule exponent_less [OF x]) (use calculation in \<open>simp add: powi_less\<close>)
    ultimately show ?thesis using power_multiple [of x "i + 53" 1] assms(3) fixed by auto
  next
    case False
    with assms(2) have "of_nat m < (2 :: 'f) ^ 53"
      by (metis of_nat_less_iff of_nat_numeral of_nat_power order_le_less)
    then have "x < 2 powi (i + 53)" using assms(1) p by (metis mult_strict_right_mono zero_less_power_int zero_less_numeral)
    from exponent_less [OF x this] have "max (exponent x) (- 1022) - 52 \<le> i" using assms(3) by simp
    from power_multiple [OF this, of m] assms(1) fixed show ?thesis by auto
  qed
qed

lemma float64_idem:
  fixes x :: "'f::floor_ceiling"
  assumes "0 \<le> x"
  shows "float64 (float64 x) = float64 x"
proof (cases "x = 0")
  case False
  with assms have x: "0 < x" by simp
  let ?j = "max (exponent x) (- 1022) - 52" and ?n = "round_even (x / ulp x)"
  have u: "ulp x = 2 powi ?j" by (simp add: ulp_def)
  have "x < 2 powi (exponent x + 1)" by (rule exponent_bounds [OF x])
  also have "\<dots> \<le> 2 powi (53 + ?j)" by (subst powi_le) simp
  also have "\<dots> = 2 ^ 53 * ulp x" by (subst u, subst power_int_add) simp_all
  finally have "x / ulp x \<le> of_int (2 ^ 53)" by (simp add: pos_divide_le_eq)
  from round_even_mono [OF this] have "?n \<le> 2 ^ 53" by (simp only: round_even_of_int)
  moreover have "0 \<le> ?n" using round_even_mono [of 0 "x / ulp x"] round_even_of_int [of 0, where 'a = 'f] x
      by (simp add: divide_nonneg_pos less_imp_le)
  moreover have "float64 x = of_int ?n * ulp x" using x by (simp add: float64_def)
  ultimately have "float64 x = of_nat (nat ?n) * 2 powi ?j" and "nat ?n \<le> 2 ^ 53" by (simp_all add: u nat_le_iff)
  then show ?thesis by (rule float64_exact) simp
qed simp

lemma float64_of_nat: "n \<le> 2 ^ 53 \<Longrightarrow> float64 (of_nat n) = of_nat n"
  by (rule float64_exact [of _ n 0]) simp_all

lemma float64_1 [simp]: "float64 1 = 1"
  using float64_of_nat [of 1] by simp

text \<open>The error of a rounding is at most half of the distance.\<close>

definition unit_roundoff :: "'f::floor_ceiling" where "unit_roundoff = 1 / 2 ^ 53"

definition least_normal :: "'f::floor_ceiling" where "least_normal = 2 powi - 1022"

lemma float64_error:
  fixes x :: "'f::floor_ceiling"
  assumes "0 \<le> x"
  shows "\<bar>float64 x - x\<bar> \<le> unit_roundoff * max x least_normal"
proof (cases "x = 0")
  case True
  then show ?thesis by (simp add: unit_roundoff_def least_normal_def max_def)
next
  case False
  with assms have x: "0 < x" by simp
  let ?q = "ulp x" and ?m = "max (exponent x) (- 1022)"
  have "float64 x - x = (of_int (round_even (x / ?q)) - x / ?q) * ?q"
    using x ulp_pos [of x] by (simp add: float64_def left_diff_distrib)
  then have "\<bar>float64 x - x\<bar> \<le> 1 / 2 * ?q"
    using mult_right_mono [OF round_even_error [of "x / ?q"], of ?q] by (simp add: abs_mult abs_of_pos less_imp_le)
  also have "1 / 2 * ?q = unit_roundoff * 2 powi ?m"
    by (simp add: ulp_def unit_roundoff_def power_int_diff)
  also have "\<dots> \<le> unit_roundoff * max x least_normal"
  proof (rule mult_left_mono)
    show "2 powi ?m \<le> max x least_normal"
      using exponent_bounds(1) [OF x] by (cases "exponent x \<le> - 1022") (auto simp: max_def least_normal_def)
  qed (simp add: unit_roundoff_def)
  finally show ?thesis .
qed

lemma float64_relative:
  fixes x :: "'f::floor_ceiling"
  assumes "least_normal \<le> x"
  shows "(1 - unit_roundoff) * x \<le> float64 x" and "float64 x \<le> (1 + unit_roundoff) * x"
proof -
  have "(0 :: 'f) \<le> least_normal" by (simp add: least_normal_def)
  then have "0 \<le> x" using assms by (rule order_trans)
  from float64_error [OF this] assms have "\<bar>float64 x - x\<bar> \<le> unit_roundoff * x" by (simp add: max_def)
  then show "(1 - unit_roundoff) * x \<le> float64 x" and "float64 x \<le> (1 + unit_roundoff) * x"
    by (simp_all add: abs_le_iff algebra_simps)
qed

end
