(* ===== verification/Classifier.thy ===== *)
theory Classifier
  imports Profile Float64
begin

text \<open>
  The hidden Markov model that guesses the traffic type (\<open>disguise/classifier.go\<close>).
  Probabilities are elements of the ordered field that stands for \<open>float64\<close> (theory Profile). What the
  model stores, its counts and its probabilities, is computed with the rounding of theory Float64
  after every operation; the scores that \<open>Predict\<close> compares are exact sums, and \<open>math.Log\<close> is the
  parameter \<open>lg\<close>. An index out of range and a write to a nil map panic (\<^term>\<open>None\<close>).
\<close>

record 'f HMMClassifier =
  States :: "TrafficType list"
  EmissionProbs :: "TrafficType \<rightharpoonup> 'f list"
  TransitionProbs :: "TrafficType \<rightharpoonup> (TrafficType \<rightharpoonup> 'f)"
  EmissionCounts :: "TrafficType \<rightharpoonup> 'f list"
  TransitionCounts :: "TrafficType \<rightharpoonup> (TrafficType \<rightharpoonup> 'f)"
  Epsilon :: 'f

definition hmm_states :: "TrafficType list" where
  "hmm_states = [WebBrowsing, VideoStreaming, FileDownload]"

definition on_states :: "'v \<Rightarrow> (TrafficType \<rightharpoonup> 'v)" where
  "on_states v = [WebBrowsing \<mapsto> v, VideoStreaming \<mapsto> v, FileDownload \<mapsto> v]"

definition sum_up :: "'f::floor_ceiling list \<Rightarrow> 'f" where
  "sum_up xs = foldl (\<lambda>s x. float64 (s + x)) 0 xs"

definition smooth :: "'f::floor_ceiling \<Rightarrow> 'f list \<Rightarrow> 'f list" where
  "smooth eps emissions =
     (let es = map (\<lambda>p. float64 (float64 p + eps)) emissions; s = sum_up es in map (\<lambda>e. float64 (e / s)) es)"

definition NewHMMClassifier :: "'f::floor_ceiling HMMClassifier" where
  "NewHMMClassifier =
     (let eps = float64 (1 / 1000000000)
      in \<lparr>States = hmm_states,
          EmissionProbs =
            [WebBrowsing \<mapsto> smooth eps [7 / 10, 25 / 100, 5 / 100],
             VideoStreaming \<mapsto> smooth eps [1 / 10, 3 / 10, 6 / 10],
             FileDownload \<mapsto> smooth eps [5 / 100, 5 / 100, 9 / 10]],
          TransitionProbs = on_states (on_states (float64 (1 / of_nat (length hmm_states)))),
          EmissionCounts = on_states [0, 0, 0],
          TransitionCounts = on_states (on_states 0),
          Epsilon = eps\<rparr>)"

section \<open>Predict\<close>

definition index :: "'a list \<Rightarrow> int \<Rightarrow> 'a option" where
  "index xs i = (if 0 \<le> i \<and> nat i < length xs then Some (xs ! nat i) else None)"

text \<open>\<open>h.EmissionProbs[s][obs]\<close>: a missing row is a nil slice. A missing transition is 0.\<close>

definition emission :: "'f HMMClassifier \<Rightarrow> TrafficType \<Rightarrow> int \<Rightarrow> 'f option" where
  "emission h s obs = index (case EmissionProbs h s of None \<Rightarrow> [] | Some row \<Rightarrow> row) obs"

definition transition :: "'f::floor_ceiling HMMClassifier \<Rightarrow> TrafficType \<Rightarrow> TrafficType \<Rightarrow> 'f" where
  "transition h s t =
     (case TransitionProbs h s of
        None \<Rightarrow> 0
      | Some row \<Rightarrow> (case row t of None \<Rightarrow> 0 | Some p \<Rightarrow> p))"

definition MaxFloat64 :: "'f::floor_ceiling" where
  "MaxFloat64 = (2 ^ 53 - 1) * 2 ^ 971"

text \<open>The loop that keeps the first largest value and its position.\<close>

fun argmax_loop :: "'f::linorder \<Rightarrow> nat \<Rightarrow> nat \<Rightarrow> 'f list \<Rightarrow> 'f \<times> nat" where
  "argmax_loop maxProb maxState j [] = (maxProb, maxState)"
| "argmax_loop maxProb maxState j (prob # ps) =
     (if prob > maxProb then argmax_loop prob j (Suc j) ps
      else argmax_loop maxProb maxState (Suc j) ps)"

definition argmax :: "'f::floor_ceiling list \<Rightarrow> 'f \<times> nat" where
  "argmax ps = argmax_loop (- MaxFloat64) 0 0 ps"

text \<open>The first column of the table, and one further column from the one before.\<close>

definition viterbi_init :: "('f::floor_ceiling \<Rightarrow> 'f) \<Rightarrow> 'f HMMClassifier \<Rightarrow> int \<Rightarrow> 'f list option" where
  "viterbi_init lg h obs =
     those (map (\<lambda>state. map_option (\<lambda>e. lg (1 / of_nat (length (States h))) + lg e)
       (emission h state obs)) (States h))"

definition viterbi_cell ::
  "('f::floor_ceiling \<Rightarrow> 'f) \<Rightarrow> 'f HMMClassifier \<Rightarrow> 'f list \<Rightarrow> int \<Rightarrow> TrafficType \<Rightarrow> ('f \<times> nat) option" where
  "viterbi_cell lg h col obs currentState =
     (let (maxProb, maxState) =
            argmax (map2 (\<lambda>v prevState. v + lg (transition h prevState currentState)) col (States h))
      in map_option (\<lambda>e. (maxProb + lg e, maxState)) (emission h currentState obs))"

definition viterbi_step ::
  "('f::floor_ceiling \<Rightarrow> 'f) \<Rightarrow> 'f HMMClassifier \<Rightarrow> 'f list \<Rightarrow> int \<Rightarrow> ('f \<times> nat) list option" where
  "viterbi_step lg h col obs = those (map (viterbi_cell lg h col obs) (States h))"

fun viterbi_loop ::
  "('f::floor_ceiling \<Rightarrow> 'f) \<Rightarrow> 'f HMMClassifier \<Rightarrow> 'f list \<Rightarrow> nat list list \<Rightarrow> int list \<Rightarrow>
     ('f list \<times> nat list list) option" where
  "viterbi_loop lg h col backpointer [] = Some (col, backpointer)"
| "viterbi_loop lg h col backpointer (obs # os) =
     (case viterbi_step lg h col obs of
        None \<Rightarrow> None
      | Some cells \<Rightarrow> viterbi_loop lg h (map fst cells) (backpointer @ [map snd cells]) os)"

datatype classifier_error = EmptyObservations

definition Predict ::
  "('f::floor_ceiling \<Rightarrow> 'f) \<Rightarrow> 'f HMMClassifier \<Rightarrow> int list \<Rightarrow> (classifier_error + TrafficType) option" where
  "Predict lg h observations =
     (case observations of
        [] \<Rightarrow> Some (Inl EmptyObservations)
      | o1 # os \<Rightarrow>
          (case viterbi_init lg h o1 of
             None \<Rightarrow> None
           | Some col \<Rightarrow>
               (case viterbi_loop lg h col [] os of
                  None \<Rightarrow> None
                | Some (lastcol, backpointer) \<Rightarrow>
                    map_option Inr (index (States h) (int (snd (argmax lastcol)))))))"

section \<open>Train\<close>

fun count_emissions :: "'f::floor_ceiling list \<Rightarrow> int list \<Rightarrow> 'f list option" where
  "count_emissions counts [] = Some counts"
| "count_emissions counts (obs # os) =
     (if obs \<ge> int (length counts) then count_emissions counts os
      else if obs < 0 then None
      else count_emissions (counts[nat obs := float64 (counts ! nat obs + 1)]) os)"

text \<open>The smoothed share of a count \<open>c\<close> in a row of \<open>n\<close> counts.\<close>

definition smoothed :: "'f::floor_ceiling \<Rightarrow> 'f \<Rightarrow> nat \<Rightarrow> 'f \<Rightarrow> 'f" where
  "smoothed eps tot n c = float64 (float64 (c + eps) / float64 (tot + float64 (of_nat n * eps)))"

definition emission_row :: "'f::floor_ceiling \<Rightarrow> 'f list \<Rightarrow> 'f list" where
  "emission_row eps counts =
     (let total0 = sum_up counts; total = (if total0 = 0 then 1 else total0)
      in map (smoothed eps total (length counts)) counts)"

definition transition_row :: "'f::floor_ceiling \<Rightarrow> (TrafficType \<rightharpoonup> 'f) \<Rightarrow> (TrafficType \<rightharpoonup> 'f)" where
  "transition_row eps row =
     (let total0 = sum_up (map (\<lambda>t. the (row t)) (map_keys row));
          total = (if total0 = 0 then 1 else total0)
      in (\<lambda>t. map_option (smoothed eps total (length (map_keys row))) (row t)))"

text \<open>
  The loops write into the existing rows: a row that is missing or too short panics. Rows are
  independent of each other, so the order in which \<open>range\<close> visits them does not matter; nor does it
  matter for the total of a row, since counts are integers and their sum is exact below \<open>2^53\<close>.
\<close>

definition reNormalizeProbabilities :: "'f::floor_ceiling HMMClassifier \<Rightarrow> 'f HMMClassifier option" where
  "reNormalizeProbabilities h =
     (if (\<forall>t \<in> set (map_keys (EmissionCounts h)).
            case EmissionProbs h t of
              None \<Rightarrow> the (EmissionCounts h t) = []
            | Some row \<Rightarrow> length (the (EmissionCounts h t)) \<le> length row) \<and>
         (\<forall>t \<in> set (map_keys (TransitionCounts h)).
            has_key (TransitionProbs h) t \<or> map_keys (the (TransitionCounts h t)) = [])
      then Some (h\<lparr>
        EmissionProbs := (\<lambda>t. case EmissionCounts h t of
            None \<Rightarrow> EmissionProbs h t
          | Some counts \<Rightarrow> map_option (\<lambda>row. emission_row (Epsilon h) counts @ drop (length counts) row)
                             (EmissionProbs h t)),
        TransitionProbs := (\<lambda>t. case TransitionCounts h t of
            None \<Rightarrow> TransitionProbs h t
          | Some row \<Rightarrow> map_option (\<lambda>old. old ++ transition_row (Epsilon h) row)
                          (TransitionProbs h t))\<rparr>)
      else None)"

definition Train ::
  "'f::floor_ceiling HMMClassifier \<Rightarrow> int list \<Rightarrow> TrafficType \<Rightarrow> (classifier_error + 'f HMMClassifier) option" where
  "Train h observations groundTruth =
     (if observations = [] then Some (Inl EmptyObservations)
      else
        (case count_emissions (case EmissionCounts h groundTruth of None \<Rightarrow> [] | Some c \<Rightarrow> c) observations of
           None \<Rightarrow> None
         | Some counts \<Rightarrow>
             (let h1 = (if has_key (EmissionCounts h) groundTruth
                        then h\<lparr>EmissionCounts := (EmissionCounts h)(groundTruth \<mapsto> counts)\<rparr> else h)
              in if length observations > 1
                 then (case TransitionCounts h1 groundTruth of
                         None \<Rightarrow> None
                       | Some row \<Rightarrow>
                           (let old = (case row groundTruth of None \<Rightarrow> 0 | Some c \<Rightarrow> c);
                                row' = row(groundTruth \<mapsto> float64 (old + of_nat (length observations - 1)))
                            in map_option Inr (reNormalizeProbabilities
                                 (h1\<lparr>TransitionCounts := (TransitionCounts h1)(groundTruth \<mapsto> row')\<rparr>))))
                 else map_option Inr (reNormalizeProbabilities h1))))"

definition DiscretizePayloadSize :: "int \<Rightarrow> int" where
  "DiscretizePayloadSize len = (if len < 200 then 0 else if len < 800 then 1 else 2)"

section \<open>The first maximum\<close>

lemma argmax_loop_spec:
  "argmax_loop m k j ps = (m', k') \<Longrightarrow>
     m \<le> m' \<and> (\<forall>p \<in> set ps. p \<le> m') \<and>
     (m' = m \<and> k' = k \<or> j \<le> k' \<and> k' < j + length ps \<and> m' = ps ! (k' - j) \<and> m < m')"
proof (induction ps arbitrary: m k j)
  case (Cons p ps)
  show ?case
  proof (cases "p > m")
    case True
    with Cons.prems have "argmax_loop p j (Suc j) ps = (m', k')" by simp
    from Cons.IH [OF this] True show ?thesis by (auto simp: nth_Cons')
  next
    case False
    with Cons.prems have "argmax_loop m k (Suc j) ps = (m', k')" by simp
    from Cons.IH [OF this] False show ?thesis by (auto simp: nth_Cons')
  qed
qed simp

lemma argmax_spec:
  fixes ps :: "'f::floor_ceiling list"
  assumes "argmax ps = (m, k)" and "ps \<noteq> []" and "\<forall>p \<in> set ps. - MaxFloat64 < p"
  shows "k < length ps" and "m = ps ! k" and "\<forall>p \<in> set ps. p \<le> m"
proof -
  note sp = argmax_loop_spec [OF assms(1) [unfolded argmax_def]]
  obtain p where p: "p \<in> set ps" using assms(2) by (cases ps) auto
  with assms(3) have "- MaxFloat64 < p" by blast
  also have "p \<le> m" using sp p by blast
  finally have "m \<noteq> - MaxFloat64" by simp
  with sp show "k < length ps" and "m = ps ! k" and "\<forall>p \<in> set ps. p \<le> m" by auto
qed

section \<open>The most likely path\<close>

text \<open>
  Paths and observations are written latest first. \<open>path_score\<close> is the logarithm of the joint
  probability of a path of state numbers and the observations.
\<close>

fun path_score :: "('f::floor_ceiling \<Rightarrow> 'f) \<Rightarrow> 'f HMMClassifier \<Rightarrow> int list \<Rightarrow> nat list \<Rightarrow> 'f" where
  "path_score lg h [obs] (i # is) =
     lg (1 / of_nat (length (States h))) + lg (the (emission h (States h ! i) obs))"
| "path_score lg h (obs # obs' # os) (i # j # is) =
     path_score lg h (obs' # os) (j # is) + lg (transition h (States h ! j) (States h ! i)) +
     lg (the (emission h (States h ! i) obs))"
| "path_score lg h os is = 0"

definition is_path :: "'f HMMClassifier \<Rightarrow> int list \<Rightarrow> nat list \<Rightarrow> bool" where
  "is_path h os is \<longleftrightarrow> length is = length os \<and> is \<noteq> [] \<and> (\<forall>i \<in> set is. i < length (States h))"

text \<open>No logarithm the computation uses is below \<open>- b\<close>, and \<open>b\<close> is far from overflow.\<close>

definition logs_bounded :: "('f::floor_ceiling \<Rightarrow> 'f) \<Rightarrow> 'f HMMClassifier \<Rightarrow> int list \<Rightarrow> 'f \<Rightarrow> bool" where
  "logs_bounded lg h os b \<longleftrightarrow>
     0 \<le> b \<and> b * of_nat (2 * length os) < MaxFloat64 \<and>
     - b \<le> lg (1 / of_nat (length (States h))) \<and>
     (\<forall>s \<in> set (States h). \<forall>t \<in> set (States h). - b \<le> lg (transition h s t)) \<and>
     (\<forall>s \<in> set (States h). \<forall>obs \<in> set os. - b \<le> lg (the (emission h s obs)))"

lemma logs_bounded_mono:
  assumes "logs_bounded lg h os b" and "set os' \<subseteq> set os" and "length os' \<le> length os"
  shows "logs_bounded lg h os' b"
proof -
  have "b * of_nat (2 * length os') \<le> b * of_nat (2 * length os)"
    using assms by (intro mult_left_mono) (auto simp: logs_bounded_def)
  with assms show ?thesis by (auto simp: logs_bounded_def intro: le_less_trans)
qed

lemma path_score_lower:
  assumes "logs_bounded lg h os b" and "is_path h os is"
  shows "- (b * of_nat (2 * length os)) \<le> path_score lg h os is"
  using assms
proof (induction lg h os "is" rule: path_score.induct)
  case (1 lg h obs i is')
  have "- b + - b \<le> lg (1 / of_nat (length (States h))) + lg (the (emission h (States h ! i) obs))"
    using 1 by (intro add_mono) (auto simp: logs_bounded_def is_path_def)
  then show ?case by simp
next
  case (2 lg h obs obs' os i j is')
  let ?os = "obs' # os"
  have bd: "logs_bounded lg h ?os b" by (rule logs_bounded_mono [OF 2(2)]) auto
  have "is_path h ?os (j # is')" using 2(3) by (simp add: is_path_def)
  with 2(1) bd have "- (b * of_nat (2 * length ?os)) \<le> path_score lg h ?os (j # is')" by blast
  moreover have "- b \<le> lg (transition h (States h ! j) (States h ! i))"
    and "- b \<le> lg (the (emission h (States h ! i) obs))"
    using 2(2,3) by (auto simp: logs_bounded_def is_path_def)
  ultimately have "- (b * of_nat (2 * length ?os)) + - b + - b \<le> path_score lg h (obs # ?os) (i # j # is')"
    unfolding path_score.simps by (intro add_mono)
  then show ?case by (simp add: algebra_simps)
qed (auto simp: is_path_def)

lemma logs_bounded_total:
  assumes "logs_bounded lg h os b" and "k \<le> 2 * length os"
  shows "- MaxFloat64 < - (b * of_nat k)"
proof -
  have "b * of_nat k \<le> b * of_nat (2 * length os)"
    using assms by (intro mult_left_mono) (auto simp: logs_bounded_def simp del: of_nat_mult)
  also have "\<dots> < MaxFloat64" using assms(1) by (simp add: logs_bounded_def)
  finally show ?thesis by simp
qed

text \<open>A column holds, for every state, the score of the best path that ends in it.\<close>

definition best_column :: "('f::floor_ceiling \<Rightarrow> 'f) \<Rightarrow> 'f HMMClassifier \<Rightarrow> int list \<Rightarrow> 'f list \<Rightarrow> bool" where
  "best_column lg h os col \<longleftrightarrow>
     length col = length (States h) \<and>
     (\<forall>i < length (States h).
        (\<exists>is. is_path h os is \<and> hd is = i \<and> col ! i = path_score lg h os is) \<and>
        (\<forall>is. is_path h os is \<longrightarrow> hd is = i \<longrightarrow> path_score lg h os is \<le> col ! i))"

lemma those_nth:
  "those xs = Some ys \<Longrightarrow> length ys = length xs \<and> (\<forall>i < length xs. xs ! i = Some (ys ! i))"
proof (induction xs arbitrary: ys)
  case (Cons x xs)
  then obtain y zs where "x = Some y" "those xs = Some zs" "ys = y # zs"
    by (auto split: option.splits)
  with Cons.IH [of zs] show ?case by (auto simp: nth_Cons')
qed simp

lemma those_all: "\<forall>x \<in> set xs. x \<noteq> None \<Longrightarrow> \<exists>ys. those xs = Some ys"
  by (induction xs) auto

lemma best_column_init:
  assumes "viterbi_init lg h obs = Some col"
  shows "best_column lg h [obs] col"
proof -
  note nth = those_nth [OF assms [unfolded viterbi_init_def]]
  have col: "col ! i = path_score lg h [obs] [i]" if "i < length (States h)" for i
    using nth that by (fastforce simp: map_option_case split: option.splits)
  have one: "is = [hd is]" if "is_path h [obs] is" for "is"
    using that by (cases "is") (auto simp: is_path_def)
  show ?thesis
    unfolding best_column_def
  proof (intro conjI allI impI)
    show "length col = length (States h)" using nth by simp
    fix i assume i: "i < length (States h)"
    then show "\<exists>is. is_path h [obs] is \<and> hd is = i \<and> col ! i = path_score lg h [obs] is"
      using col by (intro exI [of _ "[i]"]) (simp add: is_path_def)
    fix "is" assume "is_path h [obs] is" and "hd is = i"
    then show "path_score lg h [obs] is \<le> col ! i"
      using one [of "is"] col [OF i] by simp
  qed
qed

lemma best_column_step:
  assumes col: "best_column lg h os col" and st: "viterbi_step lg h col obs = Some cells"
    and bd: "logs_bounded lg h (obs # os) b" and os: "os \<noteq> []" and ne: "States h \<noteq> []"
  shows "best_column lg h (obs # os) (map fst cells)"
proof -
  let ?n = "length (States h)"
  note nth = those_nth [OF st [unfolded viterbi_step_def]]
  have len: "length col = ?n" using col by (simp add: best_column_def)
  obtain o' os' where o: "os = o' # os'" using os by (cases os) auto
  have sc: "path_score lg h (obs # os) (i # p) = path_score lg h os p +
      lg (transition h (States h ! hd p) (States h ! i)) + lg (the (emission h (States h ! i) obs))"
    if "is_path h os p" for i p
    using that o by (cases p) (auto simp: is_path_def)
  have bd': "logs_bounded lg h os b" by (rule logs_bounded_mono [OF bd]) auto
  have "(\<exists>p. is_path h (obs # os) p \<and> hd p = i \<and> fst (cells ! i) = path_score lg h (obs # os) p) \<and>
        (\<forall>p. is_path h (obs # os) p \<longrightarrow> hd p = i \<longrightarrow> path_score lg h (obs # os) p \<le> fst (cells ! i))"
    if i: "i < ?n" for i
  proof -
    let ?ps = "map2 (\<lambda>v s. v + lg (transition h s (States h ! i))) col (States h)"
    obtain m k where mk: "argmax ?ps = (m, k)" by fastforce
    from nth i have "viterbi_cell lg h col obs (States h ! i) = Some (cells ! i)" by auto
    then have ci: "fst (cells ! i) = m + lg (the (emission h (States h ! i) obs))"
      by (cases "cells ! i") (auto simp: viterbi_cell_def mk)
    have ps: "?ps ! j = col ! j + lg (transition h (States h ! j) (States h ! i))" if "j < ?n" for j
      using that len by simp
    have low: "\<forall>p \<in> set ?ps. - MaxFloat64 < p"
    proof
      fix p assume "p \<in> set ?ps"
      then obtain j where j: "j < ?n" "p = ?ps ! j"
        using len by (auto simp: in_set_conv_nth)
      from col j obtain q where q: "is_path h os q" "col ! j = path_score lg h os q"
        by (auto simp: best_column_def)
      have "- (b * of_nat (2 * length os)) + - b \<le> p"
        unfolding j(2) ps [OF j(1)] q(2)
        by (intro add_mono path_score_lower [OF bd' q(1)]) (use bd j i in \<open>simp add: logs_bounded_def\<close>)
      moreover have "- MaxFloat64 < - (b * of_nat (2 * length os + 1))"
        by (rule logs_bounded_total [OF bd]) simp
      ultimately show "- MaxFloat64 < p"
        by (simp add: distrib_left)
    qed
    have "length ?ps = ?n" using len by simp
    then have "?ps \<noteq> []" using ne by (metis length_0_conv)
    note am = argmax_spec [OF mk this low]
    have k: "k < ?n" using am(1) len by simp
    from col k obtain q where q: "is_path h os q" "hd q = k" "col ! k = path_score lg h os q"
      by (auto simp: best_column_def)
    have "is_path h (obs # os) (i # q)" using q i by (auto simp: is_path_def)
    moreover have "fst (cells ! i) = path_score lg h (obs # os) (i # q)"
      using ci am(2) ps [OF k] q sc [OF q(1)] by simp
    moreover have "path_score lg h (obs # os) p \<le> fst (cells ! i)"
      if p: "is_path h (obs # os) p" "hd p = i" for p
    proof -
      obtain r where pr: "p = i # r" using p by (cases p) (auto simp: is_path_def)
      then have "length r = length os" using p(1) by (simp add: is_path_def)
      then have "r \<noteq> []" using os by auto
      with pr p(1) have r: "p = i # r" "is_path h os r" by (simp_all add: is_path_def)
      then have j: "hd r < ?n" by (cases r) (auto simp: is_path_def)
      have "path_score lg h os r + lg (transition h (States h ! hd r) (States h ! i)) \<le> ?ps ! hd r"
        unfolding ps [OF j] by (intro add_right_mono) (use col r j in \<open>auto simp: best_column_def\<close>)
      also have "\<dots> \<le> m"
      proof -
        have "?ps ! hd r \<in> set ?ps" by (rule nth_mem) (use j len in simp)
        with am(3) show ?thesis by blast
      qed
      finally show ?thesis using ci sc [OF r(2)] r(1) by simp
    qed
    ultimately show ?thesis by (intro conjI exI [of _ "i # q"]) auto
  qed
  then show ?thesis using nth by (simp add: best_column_def)
qed

lemma best_column_loop:
  assumes "viterbi_loop lg h col bp os = Some (col', bp')" and "best_column lg h done col"
    and "logs_bounded lg h (rev os @ done) b" and "done \<noteq> []" and "States h \<noteq> []"
  shows "best_column lg h (rev os @ done) col'"
  using assms
proof (induction os arbitrary: col bp "done")
  case (Cons obs os)
  then obtain cells where st: "viterbi_step lg h col obs = Some cells"
    and lp: "viterbi_loop lg h (map fst cells) (bp @ [map snd cells]) os = Some (col', bp')"
    by (auto split: option.splits)
  have "logs_bounded lg h (obs # done) b"
    by (rule logs_bounded_mono [OF Cons.prems(3)]) auto
  from best_column_step [OF Cons.prems(2) st this] Cons.prems
  have "best_column lg h (obs # done) (map fst cells)" by simp
  from Cons.IH [OF lp this] Cons.prems show ?case by simp
qed simp

text \<open>\<open>Predict\<close> answers the state in which a most likely path ends.\<close>

lemma Predict_best:
  assumes "Predict lg h observations = Some (Inr t)" and "States h \<noteq> []"
    and "logs_bounded lg h (rev observations) b"
  shows "\<exists>is. is_path h (rev observations) is \<and> t = States h ! hd is \<and>
      (\<forall>js. is_path h (rev observations) js \<longrightarrow>
         path_score lg h (rev observations) js \<le> path_score lg h (rev observations) is)"
proof -
  obtain o1 os where obs: "observations = o1 # os" using assms(1) by (cases observations) (auto simp: Predict_def)
  with assms(1) obtain col lc bp where
    i: "viterbi_init lg h o1 = Some col" and l: "viterbi_loop lg h col [] os = Some (lc, bp)"
    and t: "index (States h) (int (snd (argmax lc))) = Some t"
    by (auto simp: Predict_def split: option.splits)
  let ?os = "rev os @ [o1]"
  have bd: "logs_bounded lg h ?os b" using assms(3) obs by simp
  have best: "best_column lg h ?os lc"
    by (rule best_column_loop [OF l best_column_init [OF i] bd _ assms(2)]) simp
  have len: "length lc = length (States h)" using best by (simp add: best_column_def)
  obtain m k where mk: "argmax lc = (m, k)" by fastforce
  have low: "\<forall>p \<in> set lc. - MaxFloat64 < p"
  proof
    fix p assume "p \<in> set lc"
    then obtain j where j: "j < length (States h)" "p = lc ! j" using len by (auto simp: in_set_conv_nth)
    with best obtain q where "is_path h ?os q" "p = path_score lg h ?os q"
      by (auto simp: best_column_def)
    with path_score_lower [OF bd] logs_bounded_total [OF bd, of "2 * length ?os"]
    show "- MaxFloat64 < p" by fastforce
  qed
  have "lc \<noteq> []" using len assms(2) by auto
  note am = argmax_spec [OF mk this low]
  have k: "k < length (States h)" using am(1) len by simp
  with best obtain "is" where best_path: "is_path h ?os is" "hd is = k" "lc ! k = path_score lg h ?os is"
    by (auto simp: best_column_def)
  have "path_score lg h ?os js \<le> path_score lg h ?os is" if js: "is_path h ?os js" for js
  proof -
    have j: "hd js < length (States h)" using js by (cases js) (auto simp: is_path_def)
    then have "path_score lg h ?os js \<le> lc ! hd js" using best js by (auto simp: best_column_def)
    also have "\<dots> \<le> m" using am(3) j len by simp
    finally show ?thesis using am(2) best_path(3) by simp
  qed
  moreover have "t = States h ! hd is" using t mk best_path(2) k by (simp add: index_def)
  ultimately show ?thesis using best_path obs by auto
qed

section \<open>Well-formed models\<close>

text \<open>The shape \<open>NewHMMClassifier\<close> sets up: three states, three buckets, every row present.\<close>

definition row_ok :: "(TrafficType \<rightharpoonup> 'f) \<Rightarrow> bool" where
  "row_ok row \<longleftrightarrow> dom row = set hmm_states"

definition hmm_ok :: "'f::floor_ceiling HMMClassifier \<Rightarrow> bool" where
  "hmm_ok h \<longleftrightarrow>
     States h = hmm_states \<and>
     dom (EmissionProbs h) = set hmm_states \<and> dom (EmissionCounts h) = set hmm_states \<and>
     dom (TransitionProbs h) = set hmm_states \<and> dom (TransitionCounts h) = set hmm_states \<and>
     (\<forall>r \<in> ran (EmissionProbs h) \<union> ran (EmissionCounts h). length r = 3) \<and>
     (\<forall>r \<in> ran (TransitionProbs h) \<union> ran (TransitionCounts h). row_ok r)"

definition bucket :: "int \<Rightarrow> bool" where
  "bucket obs \<longleftrightarrow> 0 \<le> obs \<and> obs < 3"

lemma bucket_DiscretizePayloadSize: "bucket (DiscretizePayloadSize n)"
  by (simp add: bucket_def DiscretizePayloadSize_def)

lemma emission_ok: "hmm_ok h \<Longrightarrow> s \<in> set (States h) \<Longrightarrow> bucket obs \<Longrightarrow> emission h s obs \<noteq> None"
proof -
  assume h: "hmm_ok h" and s: "s \<in> set (States h)" and b: "bucket obs"
  then have "s \<in> dom (EmissionProbs h)" by (simp add: hmm_ok_def)
  then obtain row where row: "EmissionProbs h s = Some row" by blast
  then have "length row = 3" using h by (auto simp: hmm_ok_def ran_def)
  with b row show ?thesis by (simp add: emission_def index_def bucket_def nat_less_iff)
qed

lemma viterbi_total:
  assumes "hmm_ok h" and "list_all bucket os"
  shows "\<exists>r. viterbi_loop lg h col bp os = Some r"
  using assms(2)
proof (induction os arbitrary: col bp)
  case (Cons obs os)
  have "\<forall>x \<in> set (map (viterbi_cell lg h col obs) (States h)). x \<noteq> None"
    using emission_ok [OF assms(1)] Cons.prems by (auto simp: viterbi_cell_def split: prod.splits)
  from those_all [OF this] obtain cells where "viterbi_step lg h col obs = Some cells"
    by (auto simp: viterbi_step_def)
  with Cons show ?case by simp
qed simp

lemma viterbi_loop_length:
  "viterbi_loop lg h col bp os = Some (col', bp') \<Longrightarrow> length col = length (States h) \<Longrightarrow>
     length col' = length (States h)"
proof (induction os arbitrary: col bp)
  case (Cons obs os)
  then obtain cells where st: "viterbi_step lg h col obs = Some cells"
    and lp: "viterbi_loop lg h (map fst cells) (bp @ [map snd cells]) os = Some (col', bp')"
    by (auto split: option.splits)
  have "length (map fst cells) = length (States h)"
    using those_nth [OF st [unfolded viterbi_step_def]] by simp
  with Cons.IH [OF lp] show ?case by simp
qed simp

lemma argmax_loop_bound: "snd (argmax_loop m k j ps) = k \<or> snd (argmax_loop m k j ps) < j + length ps"
  using argmax_loop_spec [of m k j ps "fst (argmax_loop m k j ps)" "snd (argmax_loop m k j ps)"] by auto

lemma Predict_total:
  assumes "hmm_ok h" and "list_all bucket observations" and "observations \<noteq> []"
  shows "\<exists>t \<in> set hmm_states. Predict lg h observations = Some (Inr t)"
proof -
  obtain o1 os where obs: "observations = o1 # os" using assms(3) by (cases observations) auto
  have st: "States h = hmm_states" using assms(1) by (simp add: hmm_ok_def)
  have "\<forall>x \<in> set (map (\<lambda>state. map_option (\<lambda>e. lg (1 / of_nat (length (States h))) + lg e)
      (emission h state o1)) (States h)). x \<noteq> None"
    using emission_ok [OF assms(1)] assms(2) obs by auto
  from those_all [OF this] obtain col where i: "viterbi_init lg h o1 = Some col"
    by (auto simp: viterbi_init_def)
  then have "length col = length (States h)"
    using those_nth [OF i [unfolded viterbi_init_def]] by simp
  moreover from viterbi_total [OF assms(1), of os lg col "[]"] assms(2) obs obtain lc bp where
    l: "viterbi_loop lg h col [] os = Some (lc, bp)" by fastforce
  ultimately have "length lc = 3" using viterbi_loop_length [OF l] st by (simp add: hmm_states_def)
  with argmax_loop_bound [of "- MaxFloat64" 0 0 lc] have "snd (argmax lc) < 3"
    by (auto simp: argmax_def)
  then have k: "snd (argmax lc) < length hmm_states" by (simp add: hmm_states_def)
  then have "index (States h) (int (snd (argmax lc))) = Some (hmm_states ! snd (argmax lc))"
    by (simp add: index_def st)
  moreover note nth_mem [OF k]
  ultimately
  show ?thesis by (auto simp: Predict_def obs i l)
qed

lemma dom_on_states [simp]: "dom (on_states v) = set hmm_states"
  by (auto simp: on_states_def hmm_states_def)

lemma ran_on_states [simp]: "ran (on_states v) = {v}"
  by (auto simp: on_states_def ran_def split: if_splits)

lemma length_smooth [simp]: "length (smooth eps xs) = length xs"
  by (simp add: smooth_def Let_def)

lemma hmm_ok_New: "hmm_ok NewHMMClassifier"
proof -
  have d: "dom [WebBrowsing \<mapsto> a, VideoStreaming \<mapsto> b, FileDownload \<mapsto> c] = set hmm_states"
    for a b c :: "'a list" by (auto simp: hmm_states_def)
  have r: "ran [WebBrowsing \<mapsto> a, VideoStreaming \<mapsto> b, FileDownload \<mapsto> c] = {a, b, c}"
    for a b c :: "'a list" by (auto simp: ran_def split: if_splits)
  show ?thesis
    by (simp only: hmm_ok_def NewHMMClassifier_def Let_def HMMClassifier.select_convs d r
      dom_on_states ran_on_states row_ok_def) simp
qed

text \<open>Training keeps the shape.\<close>

lemma length_emission_row [simp]: "length (emission_row eps counts) = length counts"
  by (simp add: emission_row_def Let_def)

lemma count_emissions_total:
  "list_all bucket os \<Longrightarrow> length counts = 3 \<Longrightarrow>
     \<exists>c. count_emissions counts os = Some c \<and> length c = 3"
  by (induction os arbitrary: counts) (auto simp: bucket_def)

lemma count_emissions_Nil: "list_all bucket os \<Longrightarrow> count_emissions [] os = Some []"
  by (induction os) (auto simp: bucket_def)

text \<open>
  Training on a state without a transition row (the dynamic profile is no state of the model)
  writes into a nil map.
\<close>

lemma Train_unknown_panics:
  assumes "hmm_ok h" and "g \<notin> set hmm_states" and "1 < length observations"
  shows "Train h observations g = None"
proof -
  have "TransitionCounts h g = None" "EmissionCounts h g = None"
    using assms(1,2) by (auto simp: hmm_ok_def)
  then show ?thesis
    using assms(3) by (auto simp: Train_def has_key_def split: option.splits)
qed

lemma reNormalize_ok:
  assumes "hmm_ok h"
  shows "\<exists>h'. reNormalizeProbabilities h = Some h' \<and> hmm_ok h' \<and>
    EmissionCounts h' = EmissionCounts h \<and> TransitionCounts h' = TransitionCounts h \<and>
    Epsilon h' = Epsilon h \<and>
    (\<forall>t counts. EmissionCounts h t = Some counts \<longrightarrow>
       EmissionProbs h' t = Some (emission_row (Epsilon h) counts)) \<and>
    (\<forall>t row. TransitionCounts h t = Some row \<longrightarrow>
       (\<exists>old. TransitionProbs h' t = Some (old ++ transition_row (Epsilon h) row)))"
proof -
  have key: "t \<in> set hmm_states \<longleftrightarrow> EmissionCounts h t \<noteq> None" 
    "t \<in> set hmm_states \<longleftrightarrow> EmissionProbs h t \<noteq> None"
    "t \<in> set hmm_states \<longleftrightarrow> TransitionCounts h t \<noteq> None"
    "t \<in> set hmm_states \<longleftrightarrow> TransitionProbs h t \<noteq> None" for t
    using assms by (auto simp: hmm_ok_def domIff [symmetric] simp del: domIff)
  have len: "length c = 3" if "EmissionCounts h t = Some c \<or> EmissionProbs h t = Some c" for t c
    using assms that by (auto simp: hmm_ok_def ran_def)
  have row: "row_ok r" if "TransitionCounts h t = Some r \<or> TransitionProbs h t = Some r" for t r
    using assms that by (auto simp: hmm_ok_def ran_def)
  define h' where "h' = h\<lparr>
        EmissionProbs := (\<lambda>t. case EmissionCounts h t of
            None \<Rightarrow> EmissionProbs h t
          | Some counts \<Rightarrow> map_option (\<lambda>row. emission_row (Epsilon h) counts @ drop (length counts) row)
                             (EmissionProbs h t)),
        TransitionProbs := (\<lambda>t. case TransitionCounts h t of
            None \<Rightarrow> TransitionProbs h t
          | Some row \<Rightarrow> map_option (\<lambda>old. old ++ transition_row (Epsilon h) row)
                          (TransitionProbs h t))\<rparr>"
  have g: "\<forall>t \<in> set (map_keys (EmissionCounts h)). case EmissionProbs h t of
              None \<Rightarrow> the (EmissionCounts h t) = []
            | Some row \<Rightarrow> length (the (EmissionCounts h t)) \<le> length row"
  proof
    fix t assume "t \<in> set (map_keys (EmissionCounts h))"
    then obtain c r where "EmissionCounts h t = Some c" "EmissionProbs h t = Some r"
      using key(1,2) [of t] by (auto simp: set_map_keys)
    then show "case EmissionProbs h t of None \<Rightarrow> the (EmissionCounts h t) = []
            | Some row \<Rightarrow> length (the (EmissionCounts h t)) \<le> length row"
      using len [of t c] len [of t r] by simp
  qed
  have g2: "\<forall>t \<in> set (map_keys (TransitionCounts h)).
            has_key (TransitionProbs h) t \<or> map_keys (the (TransitionCounts h t)) = []"
    using key(3,4) by (simp add: set_map_keys has_key_def)
  have eq: "reNormalizeProbabilities h = Some h'"
    unfolding reNormalizeProbabilities_def h'_def by (rule if_P) (intro conjI g g2)
  have em: "EmissionProbs h' t = Some (emission_row (Epsilon h) c)" if "EmissionCounts h t = Some c" for t c
  proof -
    have "t \<in> set hmm_states" using that key(1) [of t] by simp
    then obtain r where "EmissionProbs h t = Some r" using key(2) [of t] by blast
    then show ?thesis using that len [of t c] len [of t r] by (simp add: h'_def)
  qed
  have tp: "\<exists>old. TransitionProbs h' t = Some (old ++ transition_row (Epsilon h) r)" if "TransitionCounts h t = Some r" for t r
  proof -
    have "t \<in> set hmm_states" using that key(3) [of t] by simp
    then obtain old where "TransitionProbs h t = Some old" using key(4) [of t] by blast
    then have "TransitionProbs h' t = Some (old ++ transition_row (Epsilon h) r)" using that by (simp add: h'_def)
    then show ?thesis by blast
  qed
  have trow: "row_ok (old ++ transition_row eps r)" if "row_ok old" "row_ok r" for old r :: "TrafficType \<rightharpoonup> 'a" and eps
  proof -
    have "dom (transition_row eps r) = dom r" by (auto simp: transition_row_def Let_def)
    with that show ?thesis by (simp add: row_ok_def)
  qed
  have "dom (EmissionProbs h') = set hmm_states"
  proof (rule set_eqI)
    fix t
    show "t \<in> dom (EmissionProbs h') \<longleftrightarrow> t \<in> set hmm_states"
      using key(1,2) [of t] by (cases "EmissionCounts h t") (simp_all add: h'_def domIff)
  qed
  moreover have "dom (TransitionProbs h') = set hmm_states"
  proof (rule set_eqI)
    fix t
    show "t \<in> dom (TransitionProbs h') \<longleftrightarrow> t \<in> set hmm_states"
      using key(3,4) [of t] by (cases "TransitionCounts h t") (simp_all add: h'_def domIff)
  qed
  moreover have "length r = 3" if r: "EmissionProbs h' t = Some r" for t r
  proof -
    have "t \<in> set hmm_states" using that calculation(1) by blast
    then obtain c where "EmissionCounts h t = Some c" using key(1) [of t] by blast
    with em [OF this] r len show ?thesis by auto
  qed
  moreover have "row_ok r" if r: "TransitionProbs h' t = Some r" for t r
  proof -
    have "t \<in> set hmm_states" using that calculation(2) by blast
    then obtain c d where t: "TransitionCounts h t = Some c" "TransitionProbs h t = Some d"
      using key(3,4) [of t] by blast
    from t have "r = d ++ transition_row (Epsilon h) c" using r by (simp add: h'_def)
    moreover have "row_ok d" "row_ok c" by (rule row, use t in blast)+
    ultimately show ?thesis using trow by simp
  qed
  ultimately have "hmm_ok h'" using assms
    by (auto simp: hmm_ok_def ran_def) (auto simp: h'_def)
  moreover have "EmissionCounts h' = EmissionCounts h" "TransitionCounts h' = TransitionCounts h" "Epsilon h' = Epsilon h"
    by (simp_all add: h'_def)
  ultimately show ?thesis using eq em tp by blast
qed

text \<open>Every observation is counted in its bucket.\<close>

definition counted :: "int list \<Rightarrow> nat list \<Rightarrow> nat list" where
  "counted os ns = map (\<lambda>i. ns ! i + count_list os (int i)) [0..<length ns]"

lemma count_emissions_counted:
  assumes "list_all bucket os" and "length ns = 3" and "sum_list ns + length os \<le> 2 ^ 53"
  shows "count_emissions (map of_nat ns) os = Some (map (of_nat :: nat \<Rightarrow> 'f::floor_ceiling) (counted os ns))"
  using assms
proof (induction os arbitrary: ns)
  case Nil
  have "map (\<lambda>i. of_nat (ns ! i)) [0..<length ns] = (map of_nat ns :: 'f list)"
    using arg_cong [OF map_nth [of ns], of "map (of_nat :: nat \<Rightarrow> 'f)"] by (simp add: comp_def)
  then show ?case by (simp add: counted_def comp_def)
next
  case (Cons obs os)
  let ?i = "nat obs"
  let ?ns = "ns[?i := ns ! ?i + 1]"
  from Cons.prems have b: "0 \<le> obs" "?i < length ns" "\<not> 3 \<le> obs"
    by (auto simp: bucket_def nat_less_iff)
  have le: "ns ! ?i + 1 \<le> 2 ^ 53"
    using member_le_sum_list [of "ns ! ?i" ns] b(2) Cons.prems(3) by simp
  have "float64 ((map of_nat ns :: 'f list) ! ?i + 1) = of_nat (ns ! ?i + 1)"
    using float64_of_nat [OF le, where 'a = 'f] b(2) by (simp add: add.commute)
  then have u: "(map of_nat ns)[?i := float64 ((map of_nat ns :: 'f list) ! ?i + 1)] = map of_nat ?ns"
    by (simp add: map_update)
  have "sum_list ?ns = sum_list ns + 1" using b(2) by (simp add: sum_list_update)
  then have "count_emissions (map of_nat ?ns) os = Some (map (of_nat :: nat \<Rightarrow> 'f) (counted os ?ns))"
    using Cons.prems by (intro Cons.IH) simp_all
  moreover have "counted os ?ns = counted (obs # os) ns"
    using b by (auto simp: counted_def nth_list_update)
  ultimately show ?case using b Cons.prems(2) u by simp
qed

lemma sum_list_counted:
  "list_all bucket os \<Longrightarrow> length ns = 3 \<Longrightarrow> sum_list (counted os ns) = sum_list ns + length os"
proof -
  assume "length ns = 3"
  then have u: "[0..<length ns] = [0, 1, 2]" and s: "sum_list ns = ns ! 0 + ns ! 1 + ns ! 2"
    by (auto simp: upt_rec numeral_3_eq_3 length_Suc_conv)
  assume "list_all bucket os"
  then have "count_list os 0 + count_list os 1 + count_list os 2 = length os"
    by (induction os) (auto simp: bucket_def)
  then show ?thesis by (simp add: counted_def u s)
qed

lemma length_counted [simp]: "length (counted os ns) = length ns"
  by (simp add: counted_def)

lemma nth_counted: "i < length ns \<Longrightarrow> counted os ns ! i = ns ! i + count_list os (int i)"
  by (simp add: counted_def)

lemma Train_known:
  assumes "hmm_ok h" and "g \<in> set hmm_states" and "observations \<noteq> []" and "list_all bucket observations"
    and c: "EmissionCounts h g = Some c" and row: "TransitionCounts h g = Some row"
  shows "\<exists>h' c'. Train h observations g = Some (Inr h') \<and> hmm_ok h' \<and> count_emissions c observations = Some c' \<and>
    EmissionCounts h' = (EmissionCounts h)(g \<mapsto> c') \<and>
    TransitionCounts h' = (if length observations > 1
       then (TransitionCounts h)(g \<mapsto> row(g \<mapsto> float64 (the (row g) + of_nat (length observations - 1))))
       else TransitionCounts h) \<and>
    (\<forall>t counts. EmissionCounts h' t = Some counts \<longrightarrow>
       EmissionProbs h' t = Some (emission_row (Epsilon h) counts)) \<and>
    (\<forall>t r. TransitionCounts h' t = Some r \<longrightarrow>
       (\<exists>old. TransitionProbs h' t = Some (old ++ transition_row (Epsilon h) r)))"
proof -
  have len: "length c = 3" and ro: "row_ok row" using assms(1) c row by (auto simp: hmm_ok_def ran_def)
  from count_emissions_total [OF assms(4) len] obtain c' where
    c': "count_emissions c observations = Some c'" "length c' = 3" by blast
  from ro assms(2) obtain k where k: "row g = Some k" by (auto simp: row_ok_def)
  let ?h1 = "h\<lparr>EmissionCounts := (EmissionCounts h)(g \<mapsto> c')\<rparr>"
  let ?row = "row(g \<mapsto> float64 (k + of_nat (length observations - 1)))"
  let ?h2 = "?h1\<lparr>TransitionCounts := (TransitionCounts h)(g \<mapsto> ?row)\<rparr>"
  have "row_ok ?row" using ro assms(2) by (auto simp: row_ok_def)
  then have h2: "hmm_ok ?h2" and h1: "hmm_ok ?h1"
    using assms(1,2) c'(2) by (auto simp: hmm_ok_def ran_def split: if_splits)
  define hx where "hx = (if length observations > 1 then ?h2 else ?h1)"
  have T: "Train h observations g = map_option Inr (reNormalizeProbabilities hx)"
    using assms(3) by (simp add: Train_def c c' row k has_key_def Let_def hx_def)
  have ok: "hmm_ok hx" and ec: "EmissionCounts hx = (EmissionCounts h)(g \<mapsto> c')" and ep: "Epsilon hx = Epsilon h"
    and tc: "TransitionCounts hx = (if length observations > 1 then (TransitionCounts h)(g \<mapsto> ?row) else TransitionCounts h)"
    using h1 h2 by (simp_all add: hx_def del: of_nat_diff)
  from reNormalize_ok [OF ok] obtain h' where
    h': "reNormalizeProbabilities hx = Some h'" "hmm_ok h'" "EmissionCounts h' = EmissionCounts hx"
      "TransitionCounts h' = TransitionCounts hx"
      "\<forall>t counts. EmissionCounts hx t = Some counts \<longrightarrow> EmissionProbs h' t = Some (emission_row (Epsilon hx) counts)"
      "\<forall>t r. TransitionCounts hx t = Some r \<longrightarrow>
         (\<exists>old. TransitionProbs h' t = Some (old ++ transition_row (Epsilon hx) r))" by blast
  show ?thesis
    by (rule exI [of _ h'], rule exI [of _ c'], intro conjI)
      (use T h' c' ec ep tc k in \<open>simp_all del: fun_upd_apply of_nat_diff\<close>)
qed

lemma hmm_ok_rows:
  "hmm_ok h \<Longrightarrow> EmissionCounts h t = Some c \<Longrightarrow> length c = 3"
  "hmm_ok h \<Longrightarrow> TransitionCounts h t = Some r \<Longrightarrow> row_ok r"
  by (auto simp: hmm_ok_def ran_def)

lemma hmm_okD:
  assumes "hmm_ok h" and "g \<in> set hmm_states"
  obtains c row where "EmissionCounts h g = Some c" and "TransitionCounts h g = Some row"
proof -
  have "g \<in> dom (EmissionCounts h)" "g \<in> dom (TransitionCounts h)"
    using assms by (simp_all add: hmm_ok_def)
  then show thesis using that by blast
qed

lemma Train_unknown_single:
  assumes "hmm_ok h" and "g \<notin> set hmm_states" and "bucket obs"
  shows "\<exists>h'. Train h [obs] g = Some (Inr h') \<and> hmm_ok h'"
proof -
  have "EmissionCounts h g = None" using assms(1,2) by (auto simp: hmm_ok_def)
  then show ?thesis using reNormalize_ok [OF assms(1)] count_emissions_Nil [of "[obs]"] assms(3)
    by (auto simp: Train_def has_key_def bucket_def)
qed

text \<open>When training succeeds, and what it then keeps.\<close>

lemma Train_cases:
  assumes "hmm_ok h" and "list_all bucket observations" and "observations \<noteq> []"
  shows "if g \<in> set hmm_states \<or> length observations = 1
         then \<exists>h'. Train h observations g = Some (Inr h') \<and> hmm_ok h'
         else Train h observations g = None"
proof (cases "g \<in> set hmm_states")
  case True
  from assms(1) True obtain c row where "EmissionCounts h g = Some c" "TransitionCounts h g = Some row" by (rule hmm_okD)
  from Train_known [OF assms(1) True assms(3,2) this] True show ?thesis by (simp only: simp_thms if_True) blast
next
  case False
  show ?thesis
  proof (cases "length observations = 1")
    case True
    then obtain obs where "observations = [obs]" by (auto simp: length_Suc_conv)
    with Train_unknown_single [OF assms(1) False, of obs] assms(2) show ?thesis by simp
  next
    case len: False
    with assms(3) have "1 < length observations" by (cases observations) auto
    with Train_unknown_panics [OF assms(1) False] False len show ?thesis by simp
  qed
qed

section \<open>What a trained row is like\<close>

lemma smoothed_nonneg: "0 \<le> c \<Longrightarrow> 0 \<le> eps \<Longrightarrow> 0 \<le> tot \<Longrightarrow> 0 \<le> smoothed eps tot n c"
  by (simp add: smoothed_def float64_nonneg)

lemma smoothed_mono: "c \<le> d \<Longrightarrow> 0 \<le> c \<Longrightarrow> 0 \<le> eps \<Longrightarrow> 0 \<le> tot \<Longrightarrow> smoothed eps tot n c \<le> smoothed eps tot n d"
  by (simp add: smoothed_def float64_mono float64_nonneg divide_right_mono)

text \<open>Sums of counts are exact.\<close>

lemma sum_up_of_nat:
  assumes "sum_list ns \<le> 2 ^ 53"
  shows "sum_up (map of_nat ns) = (of_nat (sum_list ns) :: 'f::floor_ceiling)"
proof -
  have "foldl (\<lambda>s x. float64 (s + x)) (of_nat a) (map of_nat ns) = (of_nat (a + sum_list ns) :: 'f)"
    if "a + sum_list ns \<le> 2 ^ 53" for a
    using that
  proof (induction ns arbitrary: a)
    case (Cons n ns)
    have "float64 (of_nat a + of_nat n) = (of_nat (a + n) :: 'f)"
      using float64_of_nat [of "a + n", where 'a = 'f] Cons.prems by simp
    with Cons.IH [of "a + n"] Cons.prems show ?case by (simp add: add.assoc)
  qed simp
  from this [of 0] assms show ?thesis by (simp add: sum_up_def)
qed

text \<open>The smoothed share is the exact share up to a few roundings.\<close>

definition slack :: "'f::floor_ceiling" where
  "slack = (1 + unit_roundoff) ^ 2 / (1 - unit_roundoff) ^ 2"

definition least_epsilon :: "'f::floor_ceiling" where "least_epsilon = 2 powi - 900"

lemma least_epsilon: "least_normal \<le> (least_epsilon :: 'f::floor_ceiling)" "(0 :: 'f) < least_epsilon"
    "(least_normal :: 'f) * 2 ^ 100 \<le> least_epsilon"
  by (simp_all only: least_normal_def least_epsilon_def powi_le power_int_of_nat [symmetric]
      power_int_add [symmetric] zero_less_power_int zero_less_numeral) simp_all

lemma smoothed_share:
  fixes eps :: "'f::floor_ceiling"
  assumes "least_epsilon \<le> eps" and "eps \<le> 1" and "1 \<le> tot" and "tot \<le> 2 ^ 53" and "0 \<le> c"
  defines "share \<equiv> (c + eps) / (tot + 3 * eps)"
  shows "share / slack \<le> smoothed eps tot 3 c" and "smoothed eps tot 3 c \<le> slack * share"
proof -
  let ?u = "unit_roundoff :: 'f" and ?t = "float64 (3 * eps)" 
  let ?n = "float64 (c + eps)" and ?d = "float64 (tot + ?t)" and ?D = "tot + 3 * eps"
  have u: "0 < ?u" "?u < 1" by (simp_all add: unit_roundoff_def)
  note L = least_epsilon [where 'f = 'f]
  have e: "0 < eps" using L(2) assms(1) by (rule less_le_trans)
  have ln: "least_normal \<le> eps" using L(1) assms(1) by (rule order_trans)
  have n: "(1 - ?u) * (c + eps) \<le> ?n" "?n \<le> (1 + ?u) * (c + eps)"
    by (rule float64_relative, use ln assms(5) in simp)+
  have t: "(1 - ?u) * (3 * eps) \<le> ?t" "?t \<le> (1 + ?u) * (3 * eps)"
    by (rule float64_relative, use ln e in simp)+
  have "(1 - ?u) * tot \<le> tot" "tot \<le> (1 + ?u) * tot" using u assms(3) by (simp_all add: algebra_simps)
  then have s: "(1 - ?u) * ?D \<le> tot + ?t" "tot + ?t \<le> (1 + ?u) * ?D" using t by (simp_all add: distrib_left)
  have D: "1 \<le> ?D" "?D \<le> 2 ^ 54" using e assms(2-4) by simp_all
  have "1 \<le> tot + ?t" using assms(3) float64_nonneg [of "3 * eps"] e by simp
  then have "least_normal \<le> tot + ?t" using ln assms(2) by linarith
  note d0 = float64_relative [OF this]
  have d: "(1 - ?u) ^ 2 * ?D \<le> ?d" "?d \<le> (1 + ?u) ^ 2 * ?D"
    using order_trans [OF mult_left_mono [OF s(1), of "1 - ?u"] d0(1)]
      order_trans [OF d0(2) mult_left_mono [OF s(2), of "1 + ?u"]] u
    by (simp_all add: power2_eq_square mult.assoc)
  have pos: "0 < (1 - ?u) ^ 2 * ?D" "0 < ?d" "0 \<le> (1 - ?u) * (c + eps)"
    using u D(1) d(1) e assms(5) by (simp_all add: order.strict_trans2 [OF _ d(1)])
  have lo: "(1 - ?u) * (c + eps) / ((1 + ?u) ^ 2 * ?D) \<le> ?n / ?d"
    by (rule frac_le) (use pos n d u in \<open>simp_all\<close>)
  have hi: "?n / ?d \<le> (1 + ?u) * (c + eps) / ((1 - ?u) ^ 2 * ?D)"
    by (rule frac_le) (use pos n d u e assms(5) in \<open>simp_all\<close>)
  have "least_normal \<le> ?n / ?d"
  proof -
    have "(1 / 2) * eps \<le> (1 - ?u) * (c + eps)"
      by (rule mult_mono) (use e assms(5) in \<open>simp_all add: unit_roundoff_def\<close>)
    moreover have "(1 + ?u) ^ 2 * ?D \<le> 4 * 2 ^ 54"
      by (rule mult_mono) (use D in \<open>simp_all add: unit_roundoff_def power2_eq_square\<close>)
    ultimately have "(1 / 2) * eps / (4 * 2 ^ 54) \<le> ?n / ?d"
      by (intro frac_le) (use n d pos e in \<open>linarith+\<close>)
    moreover have "least_normal \<le> (1 / 2) * eps / (4 * 2 ^ 54)"
      using order_trans [OF L(3) assms(1)] L(2) by (simp add: least_normal_def)
    ultimately show ?thesis by (rule order_trans [rotated])
  qed
  note q = float64_relative [OF this]
  have "share / slack = (1 - ?u) * ((1 - ?u) * (c + eps) / ((1 + ?u) ^ 2 * ?D))"
    by (simp add: share_def slack_def power2_eq_square ac_simps)
  also have "\<dots> \<le> (1 - ?u) * (?n / ?d)" using u by (intro mult_left_mono [OF lo]) simp
  finally show "share / slack \<le> smoothed eps tot 3 c" using q(1) by (simp add: smoothed_def)
  have "(1 + ?u) * (?n / ?d) \<le> (1 + ?u) * ((1 + ?u) * (c + eps) / ((1 - ?u) ^ 2 * ?D))"
    using u by (intro mult_left_mono [OF hi]) simp
  also have "\<dots> = slack * share" by (simp add: share_def slack_def power2_eq_square ac_simps)
  finally show "smoothed eps tot 3 c \<le> slack * share" using q(2) by (simp add: smoothed_def)
qed

lemma smoothed_sum:
  fixes eps :: "'f::floor_ceiling"
  assumes "length ns = 3" and "0 < sum_list ns" and "sum_list ns \<le> 2 ^ 53" and "least_epsilon \<le> eps" and "eps \<le> 1"
  shows "\<bar>sum_list (map (smoothed eps (of_nat (sum_list ns)) 3) (map of_nat ns)) - 1\<bar> \<le> 1 / 2 ^ 50"
proof -
  let ?S = "of_nat (sum_list ns) :: 'f" and ?sm = "smoothed eps (of_nat (sum_list ns)) 3"
  let ?D = "?S + 3 * eps"
  from assms(1) obtain i j k where ns: "ns = [i, j, k]" by (auto simp: numeral_3_eq_3 length_Suc_conv)
  have S: "1 \<le> ?S" "?S \<le> 2 ^ 53"
    using of_nat_mono [of 1 "sum_list ns", where 'a = 'f] of_nat_mono [OF assms(3), where 'a = 'f] assms(2) by simp_all
  note sh = smoothed_share [OF assms(4,5) S]
  have "0 < eps" using least_epsilon(2) assms(4) by (rule less_le_trans)
  then have "0 < ?D" using S(1) by linarith
  then have one: "(of_nat i + eps) / ?D + (of_nat j + eps) / ?D + (of_nat k + eps) / ?D = 1"
    by (simp add: ns add_divide_distrib [symmetric])
  then have "slack * ((of_nat i + eps) / ?D) + slack * ((of_nat j + eps) / ?D) + slack * ((of_nat k + eps) / ?D) = slack"
    and "(of_nat i + eps) / ?D / slack + (of_nat j + eps) / ?D / slack + (of_nat k + eps) / ?D / slack = 1 / slack"
    by (simp_all only: distrib_left [symmetric] add_divide_distrib [symmetric] mult_1_right)
  then have "1 / slack \<le> sum_list (map ?sm (map of_nat ns))" "sum_list (map ?sm (map of_nat ns)) \<le> slack"
    using sh [of "of_nat i"] sh [of "of_nat j"] sh [of "of_nat k"] by (simp_all add: ns)
  moreover have "slack \<le> 1 + 1 / (2 :: 'f) ^ 50" "1 - 1 / 2 ^ 50 \<le> 1 / (slack :: 'f)"
    by (simp_all add: slack_def unit_roundoff_def power2_eq_square)
  ultimately show ?thesis unfolding abs_le_iff by (intro conjI) linarith+
qed

text \<open>The row of a state that was never observed.\<close>

lemma smoothed_zero:
  assumes "0 \<le> eps" and "float64 eps = eps"
  shows "smoothed eps 1 n 0 \<le> eps"
proof -
  have "1 \<le> float64 (1 + float64 (of_nat n * eps))"
    using float64_mono [of 1 "1 + float64 (of_nat n * eps)"] assms(1) by (simp add: float64_nonneg)
  then have "eps / float64 (1 + float64 (of_nat n * eps)) \<le> eps"
    using frac_le [of eps eps 1 "float64 (1 + float64 (of_nat n * eps))"] assms(1) by simp
  moreover have "0 \<le> eps / float64 (1 + float64 (of_nat n * eps))"
    using assms(1) by (simp add: float64_nonneg)
  ultimately have "float64 (eps / float64 (1 + float64 (of_nat n * eps))) \<le> float64 eps"
    by (intro float64_mono)
  with assms(2) show ?thesis by (simp add: smoothed_def)
qed

text \<open>
  A row of probabilities follows its counts: it sums to 1 up to rounding, no entry is negative, and
  what was counted more often is not less likely.
\<close>

definition row_follows :: "nat list \<Rightarrow> 'f::floor_ceiling list \<Rightarrow> bool" where
  "row_follows ns p \<longleftrightarrow> length p = length ns \<and> \<bar>sum_list p - 1\<bar> \<le> 1 / 2 ^ 50 \<and>
     (\<forall>i < length ns. 0 \<le> p ! i \<and> (\<forall>j < length ns. ns ! i \<le> ns ! j \<longrightarrow> p ! i \<le> p ! j))"

lemma smoothed_follows:
  assumes "length ns = 3" and "0 < sum_list ns" and "sum_list ns \<le> 2 ^ 53" and "least_epsilon \<le> eps" and "eps \<le> 1"
  shows "row_follows ns (map (smoothed eps (of_nat (sum_list ns)) 3) (map of_nat ns))"
proof -
  have "0 \<le> eps" using least_epsilon(2) assms(4) by (metis less_imp_le order_trans)
  then show ?thesis
    using smoothed_sum [OF assms] assms(1) by (simp add: row_follows_def smoothed_nonneg smoothed_mono)
qed

lemma emission_row_of_nat:
  fixes eps :: "'a::floor_ceiling"
  assumes "0 < sum_list ns" and "sum_list ns \<le> 2 ^ 53"
  shows "emission_row eps (map of_nat ns) = map (smoothed eps (of_nat (sum_list ns)) (length ns)) (map of_nat ns)"
proof -
  have "of_nat (sum_list ns) \<noteq> (0 :: 'a)" using assms(1) by (simp only: of_nat_eq_0_iff)
  then show ?thesis by (simp only: emission_row_def Let_def length_map sum_up_of_nat [OF assms(2)] if_False)
qed

lemma emission_row_zero:
  fixes eps :: "'f::floor_ceiling"
  assumes "0 \<le> eps" and "float64 eps = eps"
  shows "sum_list (emission_row eps [0, 0, 0]) \<le> 3 * eps"
proof -
  have "sum_up [0, 0, 0] = (0 :: 'f)" by (simp add: sum_up_def)
  then show ?thesis using smoothed_zero [OF assms, of 3] by (simp add: emission_row_def Let_def eval_nat_numeral)
qed

lemma map_keys_states: "dom m = set hmm_states \<Longrightarrow> map_keys m = hmm_states"
  by (auto simp: map_keys_def has_key_def hmm_states_def dom_def set_eq_iff)

lemma transition_row_of_nat:
  fixes eps :: "'a::floor_ceiling"
  assumes "dom row = set hmm_states" and "\<And>t. t \<in> set hmm_states \<Longrightarrow> row t = Some (of_nat (m t))"
    and "0 < sum_list (map m hmm_states)" and "sum_list (map m hmm_states) \<le> 2 ^ 53"
  shows "map (\<lambda>t. the ((old ++ transition_row eps row) t)) hmm_states =
    map (smoothed eps (of_nat (sum_list (map m hmm_states))) 3) (map of_nat (map m hmm_states))"
proof -
  let ?S = "sum_list (map m hmm_states)"
  have "map (\<lambda>t. the (row t)) hmm_states = map of_nat (map m hmm_states)" using assms(2) by simp
  then have "sum_up (map (\<lambda>t. the (row t)) (map_keys row)) = of_nat ?S"
    by (simp only: map_keys_states [OF assms(1)] sum_up_of_nat [OF assms(4)])
  moreover have "of_nat ?S \<noteq> (0 :: 'a)" using assms(3) by (simp only: of_nat_eq_0_iff)
  moreover have "length hmm_states = 3" by (simp add: hmm_states_def)
  ultimately have "transition_row eps row t = Some (smoothed eps (of_nat ?S) 3 (of_nat (m t)))"
    if "t \<in> set hmm_states" for t
    using assms(2) [OF that]
    by (simp only: transition_row_def Let_def map_keys_states [OF assms(1)] if_False option.map)
  then show ?thesis by (simp add: map_add_def)
qed

text \<open>The smoothing constant of a new model is a \<open>float64\<close> in range.\<close>

lemma Epsilon_New:
  "float64 (Epsilon NewHMMClassifier) = Epsilon NewHMMClassifier"
  "least_epsilon \<le> (Epsilon NewHMMClassifier :: 'f::floor_ceiling)" "Epsilon NewHMMClassifier \<le> (1 :: 'f)"
proof -
  have e: "Epsilon NewHMMClassifier = float64 (1 / 1000000000 :: 'f)" by (simp add: NewHMMClassifier_def Let_def)
  show "Epsilon NewHMMClassifier \<le> (1 :: 'f)" unfolding e using float64_mono [of "1 / 1000000000" "1 :: 'f"] by simp
  have "float64 (least_epsilon :: 'f) = least_epsilon" by (rule float64_exact [of _ 1 "- 900"]) (simp_all add: least_epsilon_def)
  moreover have "least_epsilon \<le> (2 powi - 30 :: 'f)" by (simp only: least_epsilon_def powi_le)
  then have "least_epsilon \<le> (1 / 1000000000 :: 'f)" by (rule order_trans) (simp add: power_int_def power_one_over)
  ultimately show "least_epsilon \<le> (Epsilon NewHMMClassifier :: 'f)"
    unfolding e using float64_mono [of least_epsilon "1 / 1000000000 :: 'f"] least_epsilon(2) [where 'f = 'f] by simp
  show "float64 (Epsilon NewHMMClassifier) = (Epsilon NewHMMClassifier :: 'a::floor_ceiling)"
    by (simp add: NewHMMClassifier_def Let_def float64_idem)
qed

text \<open>What training on traffic of a known type does to the model.\<close>

lemma Train_rows:
  fixes h :: "'f::floor_ceiling HMMClassifier"
  assumes ok: "hmm_ok h" and g: "g \<in> set hmm_states" and "observations \<noteq> []" and "list_all bucket observations"
    and "EmissionCounts h g = Some (map of_nat ns)" and "sum_list ns + length observations \<le> 2 ^ 53"
    and "TransitionCounts h g = Some row" and "\<forall>t \<in> set hmm_states. row t = Some (of_nat (m t))"
    and "sum_list (map m hmm_states) + length observations \<le> 2 ^ 53"
    and eps: "float64 (Epsilon h) = Epsilon h" "least_epsilon \<le> Epsilon h" "Epsilon h \<le> 1"
  defines "m' \<equiv> m(g := m g + (length observations - 1))"
  shows "\<exists>h' p r. Train h observations g = Some (Inr h') \<and> hmm_ok h' \<and>
    EmissionCounts h' = (EmissionCounts h)(g \<mapsto> map of_nat (counted observations ns)) \<and>
    TransitionCounts h' = (TransitionCounts h)(g \<mapsto> row(g \<mapsto> of_nat (m' g))) \<and>
    EmissionProbs h' g = Some p \<and> row_follows (counted observations ns) p \<and>
    TransitionProbs h' g = Some r \<and>
    (sum_list (map m' hmm_states) \<noteq> 0 \<longrightarrow> row_follows (map m' hmm_states) (map (\<lambda>t. the (r t)) hmm_states)) \<and>
    (\<forall>t q. t \<noteq> g \<longrightarrow> EmissionCounts h t = Some [0, 0, 0] \<longrightarrow> EmissionProbs h' t = Some q \<longrightarrow> sum_list q \<le> 3 * Epsilon h)"
proof -
  let ?ns = "counted observations ns" and ?k = "length observations - 1"
  have len: "length ns = 3" using hmm_ok_rows(1) [OF ok assms(5)] by simp
  have ro: "dom row = set hmm_states" using hmm_ok_rows(2) [OF ok assms(7)] by (simp add: row_ok_def)
  from Train_known [OF assms(1-5,7)] obtain h' c' where
    T: "Train h observations g = Some (Inr h')" "hmm_ok h'" "count_emissions (map of_nat ns) observations = Some c'"
      "EmissionCounts h' = (EmissionCounts h)(g \<mapsto> c')"
    and tc: "TransitionCounts h' = (if length observations > 1
       then (TransitionCounts h)(g \<mapsto> row(g \<mapsto> float64 (the (row g) + of_nat ?k))) else TransitionCounts h)"
    and ep: "\<forall>t counts. EmissionCounts h' t = Some counts \<longrightarrow> EmissionProbs h' t = Some (emission_row (Epsilon h) counts)"
    and tp: "\<forall>t r. TransitionCounts h' t = Some r \<longrightarrow>
       (\<exists>old. TransitionProbs h' t = Some (old ++ transition_row (Epsilon h) r))" by blast
  have c': "c' = map of_nat ?ns" using T(3) count_emissions_counted [OF assms(4) len assms(6), where 'f = 'f]
    by (metis option.inject)
  have mg: "m g \<le> sum_list (map m hmm_states)" using g by (intro member_le_sum_list) simp_all
  then have "float64 (the (row g) + of_nat ?k) = of_nat (m' g)"
    using float64_of_nat [of "m g + ?k", where 'a = 'f] assms(8,9) g by (simp add: m'_def)
  then have tc': "TransitionCounts h' = (TransitionCounts h)(g \<mapsto> row(g \<mapsto> of_nat (m' g)))"
    using tc assms(3,7,8) g by (cases "length observations > 1") (auto simp: m'_def fun_upd_idem)
  then obtain old where r: "TransitionProbs h' g = Some (old ++ transition_row (Epsilon h) (row(g \<mapsto> of_nat (m' g))))"
    using tp by fastforce
  have s: "sum_list ?ns = sum_list ns + length observations" using sum_list_counted [OF assms(4) len] .
  then have p: "row_follows ?ns (emission_row (Epsilon h) (map of_nat ?ns))"
    using emission_row_of_nat [of ?ns "Epsilon h"] smoothed_follows [of ?ns "Epsilon h"] len eps assms(3,6) by simp
  have sm: "sum_list (map m' hmm_states) = sum_list (map m hmm_states) + ?k"
    using g by (auto simp: m'_def hmm_states_def)
  then have le: "sum_list (map m' hmm_states) \<le> 2 ^ 53" using assms(9) by simp
  have row': "(row(g \<mapsto> of_nat (m' g))) t = Some (of_nat (m' t))" "dom (row(g \<mapsto> of_nat (m' g))) = set hmm_states"
    if "t \<in> set hmm_states" for t
    using that assms(8) ro g by (auto simp: m'_def)
  have "row_follows (map m' hmm_states)
      (map (\<lambda>t. the ((old ++ transition_row (Epsilon h) (row(g \<mapsto> of_nat (m' g)))) t)) hmm_states)"
    if "sum_list (map m' hmm_states) \<noteq> 0"
  proof -
    have pos: "0 < sum_list (map m' hmm_states)" using that by (simp only: neq0_conv)
    have "map (\<lambda>t. the ((old ++ transition_row (Epsilon h) (row(g \<mapsto> of_nat (m' g)))) t)) hmm_states =
      map (smoothed (Epsilon h) (of_nat (sum_list (map m' hmm_states))) 3) (map of_nat (map m' hmm_states))"
      by (rule transition_row_of_nat [OF row'(2) [OF g] row'(1) pos le])
    moreover have "row_follows (map m' hmm_states)
        (map (smoothed (Epsilon h) (of_nat (sum_list (map m' hmm_states))) 3) (map of_nat (map m' hmm_states)))"
      by (rule smoothed_follows [OF _ pos le eps(2,3)]) (simp add: hmm_states_def)
    ultimately show ?thesis by (simp only:)
  qed
  moreover have "sum_list q \<le> 3 * Epsilon h"
    if "t \<noteq> g" "EmissionCounts h t = Some [0, 0, 0]" "EmissionProbs h' t = Some q" for t q
    using ep T(4) that emission_row_zero [OF _ eps(1)] eps(2) least_epsilon(2)
    by (metis fun_upd_other less_imp_le option.inject order_trans)
  moreover have "EmissionProbs h' g = Some (emission_row (Epsilon h) (map of_nat ?ns))" using ep T(4) c' by simp
  moreover note T(1,2) T(4) [unfolded c'] tc' p r
  ultimately show ?thesis by blast
qed

end
