(* ===== verification/Manager.thy ===== *)
theory Manager
  imports Scheduler Reassembler Classifier
begin

text \<open>
  The Disguise manager (\<open>disguise/manager.go\<close>): it owns a framer, a reassembler, a scheduler
  and a classifier, and guards them with one mutex. The mutex is the flag \<open>m_locked\<close>: it is not
  reentrant, so \<open>Lock\<close> on a locked mutex blocks. An operation either returns, panics, or waits
  for the mutex in a given state. Every operation but \<open>startDynamicProfilingLoop\<close>, which calls
  \<open>SetProfile\<close> while it holds the mutex, gives it back before it returns.

  \<open>m.profile\<close> is the pointer the framer holds, so it is \<open>fr_profile\<close>. The scheduler reads only
  \<open>ProbingInterval\<close>, which nothing changes, so its copy is a value.
\<close>

section \<open>The inbound buffer\<close>

text \<open>
  A \<open>bytes.Buffer\<close> that is only written, read whole and reset: its read offset stays 0. The
  backing arrays it ever allocated are kept, because a slice \<open>Bytes\<close> returned may outlive the
  contents. The sizes are those of \<open>Buffer.grow\<close>, without the allocator's rounding.
\<close>

record Buffer =
  arrays :: "bytes list"
  buf_len :: nat

datatype slice = Slice (sl_array: nat) (sl_len: nat)

definition new_Buffer :: Buffer where
  "new_Buffer = \<lparr>arrays = [], buf_len = 0\<rparr>"

definition buf_cap :: "Buffer \<Rightarrow> nat" where
  "buf_cap b = (if arrays b = [] then 0 else length (last (arrays b)))"

definition Buffer_Write :: "bytes \<Rightarrow> Buffer \<Rightarrow> Buffer" where
  "Buffer_Write bs b =
     (let l = buf_len b; n = length bs
      in if l + n \<le> buf_cap b then
           (if arrays b = [] then b
            else b\<lparr>arrays := butlast (arrays b) @
                     [take l (last (arrays b)) @ go_copy (drop l (last (arrays b))) bs],
                   buf_len := l + n\<rparr>)
         else
           let old = (if arrays b = [] then [] else take l (last (arrays b)));
               c = (if arrays b = [] \<and> n \<le> 64 then 64 else max (l + n) (2 * buf_cap b))
           in b\<lparr>arrays := arrays b @ [old @ bs @ replicate (c - (l + n)) 0], buf_len := l + n\<rparr>)"

definition Buffer_Bytes :: "Buffer \<Rightarrow> slice" where
  "Buffer_Bytes b = Slice (length (arrays b) - 1) (buf_len b)"

definition Buffer_Reset :: "Buffer \<Rightarrow> Buffer" where
  "Buffer_Reset b = b\<lparr>buf_len := 0\<rparr>"

text \<open>What a slice shows in a given state of the buffer.\<close>

definition slice_contents :: "slice \<Rightarrow> Buffer \<Rightarrow> bytes" where
  "slice_contents s b = take (sl_len s) (arrays b ! sl_array s)"

definition buffer_ok :: "Buffer \<Rightarrow> bool" where
  "buffer_ok b \<longleftrightarrow> buf_len b \<le> buf_cap b"

abbreviation unread :: "Buffer \<Rightarrow> bytes" where
  "unread b \<equiv> (if arrays b = [] then [] else take (buf_len b) (last (arrays b)))"

lemma Buffer_Write_unread:
  assumes "buffer_ok b"
  shows "buffer_ok (Buffer_Write bs b)" and "unread (Buffer_Write bs b) = unread b @ bs"
  using assms
  by (auto simp: Buffer_Write_def buffer_ok_def buf_cap_def go_copy_def Let_def)

lemma unread_Bytes: "arrays b \<noteq> [] \<Longrightarrow> slice_contents (Buffer_Bytes b) b = unread b"
  by (simp add: slice_contents_def Buffer_Bytes_def last_conv_nth)

lemma Buffer_Reset_ok [simp]: "buffer_ok (Buffer_Reset b)" "unread (Buffer_Reset b) = []"
  by (simp_all add: buffer_ok_def Buffer_Reset_def)

text \<open>A write that fits after a reset overwrites what an earlier slice shows.\<close>

lemma Buffer_overwritten:
  assumes "buffer_ok b" and "arrays b \<noteq> []" and "length bs \<le> buf_cap b"
  shows "slice_contents (Buffer_Bytes b) (Buffer_Write bs (Buffer_Reset b)) =
           take (buf_len b) bs @ drop (length bs) (unread b)"
  using assms
  by (auto simp: slice_contents_def Buffer_Bytes_def Buffer_Write_def Buffer_Reset_def buffer_ok_def
      buf_cap_def go_copy_def nth_append drop_take Let_def)

section \<open>State\<close>

record 'f Manager =
  m_framer :: "'f framer"
  m_reassembler :: Reassembler
  m_scheduler :: "'f Scheduler"
  inboundQueue :: Buffer
  m_classifier :: "'f HMMClassifier"
  observationQueue :: "int list"
  lastProfileSwitch :: int
  m_locked :: bool
  m_world :: "'f world"

abbreviation m_profile :: "'f Manager \<Rightarrow> 'f profile" where
  "m_profile m \<equiv> fr_profile (m_framer m)"

datatype ('a, 'm) outcome = Returned 'a 'm | Panicked | Blocked 'm

text \<open>Code between \<open>Lock\<close> and a deferred \<open>Unlock\<close>; the body may itself wait for a mutex.\<close>

definition with_lock :: "('f Manager \<Rightarrow> ('a, 'f Manager) outcome) \<Rightarrow> 'f Manager \<Rightarrow> ('a, 'f Manager) outcome" where
  "with_lock body m =
     (if m_locked m then Blocked m
      else (case body (m\<lparr>m_locked := True\<rparr>) of
              Returned x m' \<Rightarrow> Returned x (m'\<lparr>m_locked := False\<rparr>)
            | Panicked \<Rightarrow> Panicked
            | Blocked m' \<Rightarrow> Blocked m'))"

definition NewManager :: "'f::floor_ceiling world \<Rightarrow> 'f Manager" where
  "NewManager w =
     (let p = GetProfile Dynamic; (s, w1) = NewScheduler w; (now, w2) = UnixNano w1
      in \<lparr>m_framer = NewFramer p, m_reassembler = NewReassembler, m_scheduler = s,
          inboundQueue = new_Buffer, m_classifier = NewHMMClassifier, observationQueue = [],
          lastProfileSwitch = now, m_locked = False, m_world = w2\<rparr>)"

section \<open>Operations\<close>

text \<open>\<open>SetProfile\<close> ignores the error of \<open>Train\<close>.\<close>

definition SetProfile_body :: "'f::floor_ceiling profile \<Rightarrow> 'f Manager \<Rightarrow> (unit, 'f Manager) outcome" where
  "SetProfile_body p m =
     (let switch = (\<lambda>m. let (now, w') = UnixNano (m_world m)
                        in Returned () (m\<lparr>m_framer := Framer_SetProfile p (m_framer m),
                                          m_scheduler := Scheduler_SetProfile p (m_scheduler m),
                                          lastProfileSwitch := now, m_world := w'\<rparr>))
      in if observationQueue m = [] then switch m
         else (case Train (m_classifier m) (observationQueue m) (GetProfileType (m_profile m)) of
                 None \<Rightarrow> Panicked
               | Some (Inl e) \<Rightarrow> switch (m\<lparr>observationQueue := []\<rparr>)
               | Some (Inr h) \<Rightarrow> switch (m\<lparr>m_classifier := h, observationQueue := []\<rparr>)))"

definition SetProfile :: "'f::floor_ceiling profile \<Rightarrow> 'f Manager \<Rightarrow> (unit, 'f Manager) outcome" where
  "SetProfile p = with_lock (SetProfile_body p)"

text \<open>One turn of the loop over the cells of a message.\<close>

definition queue_cell :: "cell \<Rightarrow> 'f Manager \<Rightarrow> 'f Manager" where
  "queue_cell c m =
     (let (s', w') = ScheduleCell c (m_scheduler m) (m_world m)
      in m\<lparr>observationQueue := observationQueue m @ [DiscretizePayloadSize (int (length (Payload c)))],
           m_scheduler := s', m_world := w'\<rparr>)"

definition QueueApplicationData :: "bytes \<Rightarrow> 'f::floor_ceiling Manager \<Rightarrow> (unit, 'f Manager) outcome" where
  "QueueApplicationData data = with_lock (\<lambda>m.
     case Fragment data (m_framer m) (m_world m) of
       None \<Rightarrow> Panicked
     | Some (cells, f', w') \<Rightarrow>
         Returned () (foldl (\<lambda>m c. queue_cell c m) (m\<lparr>m_framer := f', m_world := w'\<rparr>) cells))"

datatype manager_error = NoOutboundTraffic | DecodeFailed framing_error | ReassembleFailed reassembly_error

definition GetOutboundTraffic :: "'f Manager \<Rightarrow> (manager_error + bytes, 'f Manager) outcome" where
  "GetOutboundTraffic = with_lock (\<lambda>m.
     case GetNextCell (m_scheduler m) (m_world m) of
       (None, s', w') \<Rightarrow> Returned (Inl NoOutboundTraffic) (m\<lparr>m_scheduler := s', m_world := w'\<rparr>)
     | (Some c, s', w') \<Rightarrow>
         (case EncodeCell c of
            None \<Rightarrow> Panicked
          | Some encodedCell \<Rightarrow> Returned (Inr encodedCell) (m\<lparr>m_scheduler := s', m_world := w'\<rparr>)))"

definition ProcessInboundTraffic :: "bytes \<Rightarrow> 'f Manager \<Rightarrow> (manager_error + unit, 'f Manager) outcome" where
  "ProcessInboundTraffic data = with_lock (\<lambda>m.
     case DecodeCell data of
       None \<Rightarrow> Panicked
     | Some (Inl e) \<Rightarrow> Returned (Inl (DecodeFailed e)) m
     | Some (Inr c) \<Rightarrow>
         if Type c = TypeData then
           let m1 = m\<lparr>observationQueue :=
                 observationQueue m @ [DiscretizePayloadSize (int (length (Payload c)))]\<rparr>
           in (case ProcessCell c (m_reassembler m1) of
                 (Inl e, r') \<Rightarrow> Returned (Inl (ReassembleFailed e)) (m1\<lparr>m_reassembler := r'\<rparr>)
               | (Inr None, r') \<Rightarrow> Returned (Inr ()) (m1\<lparr>m_reassembler := r'\<rparr>)
               | (Inr (Some reassembled), r') \<Rightarrow>
                   Returned (Inr ()) (m1\<lparr>m_reassembler := r',
                     inboundQueue := Buffer_Write reassembled (inboundQueue m1)\<rparr>))
         else Returned (Inr ()) m)"

text \<open>The result is the slice itself; \<^term>\<open>None\<close> is \<open>(nil, nil)\<close>.\<close>

definition ReadApplicationData :: "'f Manager \<Rightarrow> (slice option, 'f Manager) outcome" where
  "ReadApplicationData = with_lock (\<lambda>m.
     if buf_len (inboundQueue m) = 0 then Returned None m
     else Returned (Some (Buffer_Bytes (inboundQueue m)))
            (m\<lparr>inboundQueue := Buffer_Reset (inboundQueue m)\<rparr>))"

section \<open>The background loops\<close>

text \<open>One tick of each loop.\<close>

definition coverTraffic_tick :: "'f::floor_ceiling Manager \<Rightarrow> (unit, 'f Manager) outcome" where
  "coverTraffic_tick = with_lock (\<lambda>m.
     case CreateDummyCell (m_framer m) (m_world m) of
       None \<Rightarrow> Panicked
     | Some (c, w') \<Rightarrow>
         let (s', w'') = ScheduleCell c (m_scheduler m) w'
         in Returned () (m\<lparr>m_scheduler := s', m_world := w''\<rparr>))"

definition dynamicProfiling_tick :: "'f::floor_ceiling Manager \<Rightarrow> (unit, 'f Manager) outcome" where
  "dynamicProfiling_tick = with_lock (\<lambda>m.
     if length (observationQueue m) < 10 then Returned () m
     else
       (case Predict (m_log (m_world m)) (m_classifier m) (observationQueue m) of
          None \<Rightarrow> Panicked
        | Some (Inl e) \<Rightarrow> Returned () m
        | Some (Inr predictedType) \<Rightarrow>
            if predictedType \<noteq> GetProfileType (m_profile m)
            then (case SetProfile (GetProfile predictedType) m of
                    Returned _ m' \<Rightarrow> Returned () (m'\<lparr>observationQueue := []\<rparr>)
                  | Panicked \<Rightarrow> Panicked
                  | Blocked m' \<Rightarrow> Blocked m')
            else Returned () (m\<lparr>observationQueue := []\<rparr>)))"

end
