(* ===== verification/ManagerLemmas.thy ===== *)
theory ManagerLemmas
  imports Manager
begin

text \<open>
  The manager's invariant, the step relation of its clients and loops, and what its operations
  do to the parts. The mutex gives every step the whole state.
\<close>

section \<open>Locking\<close>

lemma with_lock_locked [simp]: "m_locked m \<Longrightarrow> with_lock body m = Blocked m"
  by (simp add: with_lock_def)

lemma with_lock_Returned:
  "with_lock body m = Returned x m' \<longleftrightarrow>
     \<not> m_locked m \<and> (\<exists>m1. body (m\<lparr>m_locked := True\<rparr>) = Returned x m1 \<and> m' = m1\<lparr>m_locked := False\<rparr>)"
  by (auto simp: with_lock_def split: outcome.splits)

lemma with_lock_Blocked:
  "with_lock body m = Blocked m' \<longleftrightarrow>
     m_locked m \<and> m' = m \<or> \<not> m_locked m \<and> body (m\<lparr>m_locked := True\<rparr>) = Blocked m'"
  by (auto simp: with_lock_def split: outcome.splits)

lemma with_lock_Panicked:
  "with_lock body m = Panicked \<longleftrightarrow> \<not> m_locked m \<and> body (m\<lparr>m_locked := True\<rparr>) = Panicked"
  by (auto simp: with_lock_def split: outcome.splits)

lemmas with_lock_iffs = with_lock_Returned with_lock_Blocked with_lock_Panicked

text \<open>Inside the critical section \<open>SetProfile\<close> waits for its own caller.\<close>

lemma SetProfile_locked [simp]: "m_locked m \<Longrightarrow> SetProfile p m = Blocked m"
  by (simp add: SetProfile_def)

section \<open>The invariant\<close>

definition manager_ok :: "'f::floor_ceiling Manager \<Rightarrow> bool" where
  "manager_ok m \<longleftrightarrow>
     profile_ok (m_profile m) \<and> scheduler_ok (m_scheduler m) \<and> hmm_ok (m_classifier m) \<and>
     list_all bucket (observationQueue m) \<and> buffer_ok (inboundQueue m)"

lemma manager_ok_locked [simp]: "manager_ok (m\<lparr>m_locked := b\<rparr>) = manager_ok m"
  by (simp add: manager_ok_def)

lemma manager_ok_New: "manager_ok (NewManager w)" and m_locked_New: "\<not> m_locked (NewManager w)"
  and profile_New: "GetProfileType (m_profile (NewManager w)) = Dynamic"
  using scheduler_ok_New [of w] hmm_ok_New profile_ok_GetProfile [of Dynamic]
    GetProfileType_GetProfile [of Dynamic]
  by (simp_all add: NewManager_def NewFramer_def manager_ok_def case_prod_unfold Let_def
      buffer_ok_def new_Buffer_def)

lemma queue_cell_ok:
  assumes "manager_ok m"
  shows "manager_ok (queue_cell c m)" and "m_framer (queue_cell c m) = m_framer m"
    and "m_locked (queue_cell c m) = m_locked m"
  using assms ScheduleCell_entries(1) [of "m_scheduler m" c "m_world m"] bucket_DiscretizePayloadSize
  by (simp_all add: queue_cell_def manager_ok_def case_prod_unfold Let_def)

lemma queue_cells_ok:
  assumes "manager_ok m"
  shows "manager_ok (foldl (\<lambda>m c. queue_cell c m) m cells) \<and>
    m_framer (foldl (\<lambda>m c. queue_cell c m) m cells) = m_framer m \<and>
    m_locked (foldl (\<lambda>m c. queue_cell c m) m cells) = m_locked m"
  using assms
proof (induction cells arbitrary: m)
  case (Cons c cells)
  from Cons.IH [OF queue_cell_ok(1) [OF Cons.prems]] queue_cell_ok [OF Cons.prems]
  show ?case by simp
qed simp

text \<open>Drawing payload lengths changes a profile's load, not its type.\<close>

lemma GetProfileType_updateLoad [simp]: "GetProfileType (updateLoad n p) = GetProfileType p"
  by (simp add: GetProfileType_def updateLoad_def Let_def)

lemma fragment_cell_type:
  "fragment_cell f data cid off w = Some (c, n, f', w') \<Longrightarrow>
     GetProfileType (fr_profile f') = GetProfileType (fr_profile f)"
  by (auto simp: fragment_cell_def GetNextPayloadLength_def Let_def
      split: prod.splits option.splits if_splits)

lemma fragment_loop_type:
  "fragment_loop f data cid off w = Some (cells, f', w') \<Longrightarrow>
     GetProfileType (fr_profile f') = GetProfileType (fr_profile f)"
proof (induction f data cid off w arbitrary: cells f' w' rule: fragment_loop.induct)
  case (1 f data cid off w)
  show ?case
  proof (cases "off < length data")
    case False
    with 1(2) show ?thesis by (simp add: fragment_loop.simps)
  next
    case True
    with 1(2) obtain c n f1 w1 cs where
      s: "fragment_cell f data cid off w = Some (c, n, f1, w1)"
         "fragment_loop f1 data cid (off + n) w1 = Some (cs, f', w')"
      by (auto simp: fragment_loop.simps [of f data cid off w] split: option.splits)
    from 1(1) [OF True s(1) refl refl refl s(2)] fragment_cell_type [OF s(1)] show ?thesis by simp
  qed
qed

lemma Fragment_type:
  "Fragment data f w = Some (cells, f', w') \<Longrightarrow>
     GetProfileType (fr_profile f') = GetProfileType (fr_profile f)"
  by (auto simp: Fragment_def split: prod.splits dest: fragment_loop_type)

section \<open>The operations\<close>

lemma QueueApplicationData_ok:
  assumes "manager_ok m" and "\<not> m_locked m"
  shows "\<exists>m'. QueueApplicationData data m = Returned () m' \<and> manager_ok m' \<and> \<not> m_locked m' \<and>
    GetProfileType (m_profile m') = GetProfileType (m_profile m)"
proof -
  let ?m = "m\<lparr>m_locked := True\<rparr>"
  have "profile_ok (fr_profile (m_framer m))" using assms(1) by (simp add: manager_ok_def)
  from Fragment_frag_cells [OF this, of data "m_world m"] obtain cells f' w' where
    fr: "Fragment data (m_framer m) (m_world m) = Some (cells, f', w')" and p: "profile_ok (fr_profile f')"
    by blast
  have "manager_ok (?m\<lparr>m_framer := f', m_world := w'\<rparr>)"
    using assms(1) p by (simp add: manager_ok_def)
  from queue_cells_ok [OF this, of cells] Fragment_type [OF fr] fr assms(2) show ?thesis
    by (simp add: QueueApplicationData_def with_lock_Returned)
qed

text \<open>What queueing adds: one due-now entry per cell, and one observation.\<close>

lemma queue_cells_effect:
  assumes "manager_ok m" and "\<forall>c \<in> set cells. Type c = TypeData"
  shows "image_mset fst (scheduled (m_scheduler (foldl (\<lambda>m c. queue_cell c m) m cells))) =
           image_mset fst (scheduled (m_scheduler m)) + mset cells"
    and "observationQueue (foldl (\<lambda>m c. queue_cell c m) m cells) =
           observationQueue m @ map (\<lambda>c. DiscretizePayloadSize (int (length (Payload c)))) cells"
  using assms
proof (induction cells arbitrary: m)
  case (Cons c cells)
  {
    case 1
    have s: "scheduler_ok (m_scheduler m)" using 1(1) by (simp add: manager_ok_def)
    from Cons.IH(1) [OF queue_cell_ok(1) [OF 1(1)]] 1(2) ScheduleCell_entries(2) [OF s, of c "m_world m"]
    show ?case by (simp add: queue_cell_def case_prod_unfold Let_def)
  next
    case 2
    from Cons.IH(2) [OF queue_cell_ok(1) [OF 2(1)]] 2(2) show ?case
      by (simp add: queue_cell_def case_prod_unfold Let_def)
  }
qed simp_all

lemma GetOutboundTraffic_ok:
  assumes "manager_ok m" and "GetOutboundTraffic m = Returned r m'"
  shows "manager_ok m' \<and> \<not> m_locked m' \<and> m_framer m' = m_framer m"
proof -
  from assms(2) obtain oc s' w' where g: "GetNextCell (m_scheduler m) (m_world m) = (oc, s', w')"
    and m': "m' = m\<lparr>m_locked := False, m_scheduler := s', m_world := w'\<rparr>"
    by (auto simp: GetOutboundTraffic_def with_lock_Returned split: option.splits prod.splits)
  have s: "scheduler_ok (m_scheduler m)" using assms(1) by (simp add: manager_ok_def)
  have "scheduler_ok s'"
  proof (cases oc)
    case None
    with GetNextCell_None(1) [OF s, of "m_world m" s' w'] g s show ?thesis by simp
  next
    case (Some c)
    with GetNextCell_Some [OF s] g show ?thesis by blast
  qed
  with assms(1) m' show ?thesis by (simp add: manager_ok_def)
qed

lemma ProcessInboundTraffic_ok:
  assumes "manager_ok m" and "ProcessInboundTraffic data m = Returned r m'"
  shows "manager_ok m' \<and> \<not> m_locked m' \<and> m_framer m' = m_framer m"
  using assms bucket_DiscretizePayloadSize
  by (auto simp: ProcessInboundTraffic_def with_lock_Returned manager_ok_def Let_def Buffer_Write_unread(1)
      split: option.splits sum.splits prod.splits if_splits)

lemma ReadApplicationData_ok:
  assumes "manager_ok m" and "ReadApplicationData m = Returned r m'"
  shows "manager_ok m' \<and> \<not> m_locked m' \<and> m_framer m' = m_framer m"
  using assms by (auto simp: ReadApplicationData_def with_lock_Returned manager_ok_def split: if_splits)

lemma coverTraffic_tick_ok:
  assumes "manager_ok m" and "coverTraffic_tick m = Returned r m'"
  shows "manager_ok m' \<and> \<not> m_locked m' \<and> m_framer m' = m_framer m"
  using assms ScheduleCell_entries(1) [of "m_scheduler m"]
  by (auto simp: coverTraffic_tick_def with_lock_Returned manager_ok_def Let_def case_prod_unfold
      split: option.splits)

lemma SetProfile_cases:
  assumes "manager_ok m" and "profile_ok p" and "\<not> m_locked m"
  shows "if observationQueue m = [] \<or> length (observationQueue m) = 1 \<or> GetProfileType (m_profile m) \<in> set hmm_states
         then \<exists>m'. SetProfile p m = Returned () m' \<and> manager_ok m' \<and> \<not> m_locked m' \<and>
                   m_profile m' = p \<and> observationQueue m' = []
         else SetProfile p m = Panicked"
proof -
  let ?obs = "observationQueue m" and ?t = "GetProfileType (m_profile m)"
  have h: "hmm_ok (m_classifier m)" and b: "list_all bucket ?obs"
    using assms(1) by (simp_all add: manager_ok_def)
  note defs = SetProfile_def SetProfile_body_def with_lock_iffs manager_ok_def Let_def
        case_prod_unfold Framer_SetProfile_def Scheduler_SetProfile_def scheduler_ok_def
  show ?thesis
  proof (cases "?obs = []")
    case True
    then show ?thesis using assms by (simp add: defs)
  next
    case False
    show ?thesis
    proof (cases "?t \<in> set hmm_states \<or> length ?obs = 1")
      case True
      then obtain h' where "Train (m_classifier m) ?obs ?t = Some (Inr h')" "hmm_ok h'"
        using Train_cases [OF h b False, of ?t] by auto
      then show ?thesis using True False assms by (auto simp: defs)
    next
      case unknown: False
      then have "Train (m_classifier m) ?obs ?t = None"
        using Train_cases [OF h b False, of ?t] by simp
      then show ?thesis using unknown False assms(3) by (simp add: defs)
    qed
  qed
qed

section \<open>The profiling loop\<close>

text \<open>
  Ten observations suffice: the classifier then predicts one of its three states, and unless
  that is the current type the loop waits for the mutex it holds.
\<close>

lemma Predict_queue:
  assumes "manager_ok m" and "10 \<le> length (observationQueue m)"
  obtains t where "t \<in> set hmm_states" "Predict lg (m_classifier m) (observationQueue m) = Some (Inr t)"
proof -
  have "observationQueue m \<noteq> []" using assms(2) by auto
  with Predict_total [of "m_classifier m" "observationQueue m" lg] assms(1) that show thesis
    by (auto simp: manager_ok_def)
qed

lemma dynamicProfiling_tick_cases:
  assumes "manager_ok m" and "\<not> m_locked m"
  shows "dynamicProfiling_tick m =
    (if length (observationQueue m) < 10 then Returned () m
     else if Predict (m_log (m_world m)) (m_classifier m) (observationQueue m) =
               Some (Inr (GetProfileType (m_profile m)))
     then Returned () (m\<lparr>observationQueue := []\<rparr>)
     else Blocked (m\<lparr>m_locked := True\<rparr>))"
proof (cases "length (observationQueue m) < 10")
  case True
  then show ?thesis using assms(2) by (simp add: dynamicProfiling_tick_def with_lock_def)
next
  case False
  then obtain t where "Predict (m_log (m_world m)) (m_classifier m) (observationQueue m) = Some (Inr t)"
    using Predict_queue [OF assms(1)] by (metis not_less)
  with False assms(2) show ?thesis by (simp add: dynamicProfiling_tick_def with_lock_def)
qed

section \<open>Runs of the manager\<close>

text \<open>
  One step of any client or loop that does not panic. Clients switch to built-in profiles.
\<close>

inductive manager_step :: "'f::floor_ceiling Manager \<Rightarrow> 'f Manager \<Rightarrow> bool" where
  st_set: "SetProfile (GetProfile t) m = Returned () m' \<Longrightarrow> manager_step m m'"
| st_queue: "QueueApplicationData data m = Returned () m' \<Longrightarrow> manager_step m m'"
| st_out: "GetOutboundTraffic m = Returned r m' \<Longrightarrow> manager_step m m'"
| st_in: "ProcessInboundTraffic data m = Returned r' m' \<Longrightarrow> manager_step m m'"
| st_read: "ReadApplicationData m = Returned r'' m' \<Longrightarrow> manager_step m m'"
| st_cover: "coverTraffic_tick m = Returned () m' \<Longrightarrow> manager_step m m'"
| st_profile: "dynamicProfiling_tick m = Returned () m' \<Longrightarrow> manager_step m m'"
| st_profile_stuck: "dynamicProfiling_tick m = Blocked m' \<Longrightarrow> manager_step m m'"

inductive_cases manager_stepE: "manager_step m m'"

text \<open>States reachable from \<open>NewManager\<close>; \<open>switched\<close> tells whether a client called \<open>SetProfile\<close>.\<close>

inductive reachable :: "'f::floor_ceiling world \<Rightarrow> 'f Manager \<Rightarrow> bool" where
  r_new: "reachable w (NewManager w)"
| r_step: "reachable w m \<Longrightarrow> manager_step m m' \<Longrightarrow> reachable w m'"

lemma locked_final:
  assumes "m_locked m"
  shows "manager_step m m' \<longleftrightarrow> m' = m"
proof
  show "m' = m" if "manager_step m m'"
    using that assms
    by (cases rule: manager_stepE) (auto simp: SetProfile_def QueueApplicationData_def GetOutboundTraffic_def
      ProcessInboundTraffic_def ReadApplicationData_def coverTraffic_tick_def dynamicProfiling_tick_def)
  show "manager_step m m'" if "m' = m"
    using that assms by (auto intro!: st_profile_stuck simp: dynamicProfiling_tick_def)
qed

lemma manager_step_ok:
  assumes "manager_step m m'" and "manager_ok m"
  shows "manager_ok m'"
proof (cases "m_locked m")
  case True
  with assms(1) have "m' = m" by (simp add: locked_final)
  with assms(2) show ?thesis by simp
next
  case False
  from assms(1) show ?thesis
  proof (cases rule: manager_step.cases)
    case (st_set t)
    with SetProfile_cases [OF assms(2) profile_ok_GetProfile False, of t] show ?thesis
      by (auto split: if_splits)
  next
    case (st_queue data)
    with QueueApplicationData_ok [OF assms(2) False, of data] show ?thesis by auto
  next
    case (st_out r)
    with GetOutboundTraffic_ok [OF assms(2)] show ?thesis by blast
  next
    case (st_in data r)
    with ProcessInboundTraffic_ok [OF assms(2)] show ?thesis by blast
  next
    case (st_read r)
    with ReadApplicationData_ok [OF assms(2)] show ?thesis by blast
  next
    case st_cover
    with coverTraffic_tick_ok [OF assms(2)] show ?thesis by blast
  next
    case st_profile
    with dynamicProfiling_tick_cases [OF assms(2) False] assms(2) show ?thesis
      by (auto simp: manager_ok_def split: if_splits)
  next
    case st_profile_stuck
    with dynamicProfiling_tick_cases [OF assms(2) False] assms(2) show ?thesis
      by (auto split: if_splits)
  qed
qed

lemma reachable_ok: "reachable w m \<Longrightarrow> manager_ok m"
  by (induction rule: reachable.induct) (auto intro: manager_ok_New manager_step_ok)

section \<open>A deadlock is reachable\<close>

lemma QueueApplicationData_effect:
  assumes "manager_ok m" and "\<not> m_locked m"
  shows "\<exists>cells f' w' m'. Fragment data (m_framer m) (m_world m) = Some (cells, f', w') \<and>
    QueueApplicationData data m = Returned () m' \<and> concat (map Payload cells) = data \<and>
    image_mset fst (scheduled (m_scheduler m')) = image_mset fst (scheduled (m_scheduler m)) + mset cells \<and>
    observationQueue m' = observationQueue m @
      map (\<lambda>c. DiscretizePayloadSize (int (length (Payload c)))) cells"
proof -
  have "profile_ok (fr_profile (m_framer m))" using assms(1) by (simp add: manager_ok_def)
  from Fragment_frag_cells [OF this, of data "m_world m"] obtain cells f' w' cid mx where
    fr: "Fragment data (m_framer m) (m_world m) = Some (cells, f', w')"
    and fc: "frag_cells cid mx (fr_seq (m_framer m)) data cells" and p: "profile_ok (fr_profile f')" by blast
  let ?m = "m\<lparr>m_locked := True, m_framer := f', m_world := w'\<rparr>"
  have "manager_ok ?m" using assms(1) p by (simp add: manager_ok_def)
  moreover have "\<forall>c \<in> set cells. Type c = TypeData"
    using frag_cells_nth [OF fc] by (auto simp: in_set_conv_nth)
  ultimately show ?thesis
    using queue_cells_effect [of ?m cells] fr frag_cells_concat [OF fc] assms(2)
    by (simp add: QueueApplicationData_def with_lock_Returned)
qed

text \<open>Every queued byte string leaves an observation, so any number of them can be queued.\<close>

lemma reachable_observations:
  "\<exists>m. reachable w m \<and> \<not> m_locked m \<and> n \<le> length (observationQueue m) \<and>
     GetProfileType (m_profile m) = Dynamic"
proof (induction n)
  case 0
  show ?case using reachable.r_new m_locked_New profile_New by blast
next
  case (Suc n)
  then obtain m where m: "reachable w m" "\<not> m_locked m" "n \<le> length (observationQueue m)"
    "GetProfileType (m_profile m) = Dynamic" by blast
  note ok = reachable_ok [OF m(1)]
  from QueueApplicationData_effect [OF ok m(2), of "[0]"] obtain cells :: "cell list" and m' where
    q: "QueueApplicationData [0] m = Returned () m'" "concat (map Payload cells) = [0]"
       "observationQueue m' = observationQueue m @
          map (\<lambda>c. DiscretizePayloadSize (int (length (Payload c)))) cells" by blast
  have "cells \<noteq> []" using q(2) by auto
  then have "Suc n \<le> length (observationQueue m')" using q(3) m(3) by (cases cells) auto
  moreover have "reachable w m'" using m(1) st_queue [OF q(1)] by (rule r_step)
  moreover have "\<not> m_locked m' \<and> GetProfileType (m_profile m') = Dynamic"
    using QueueApplicationData_ok [OF ok m(2), of "[0]"] q(1) m(4) by simp
  ultimately show ?case by blast
qed

lemma reachable_deadlock:
  "\<exists>m. reachable w m \<and> \<not> m_locked m \<and> dynamicProfiling_tick m = Blocked (m\<lparr>m_locked := True\<rparr>)"
proof -
  from reachable_observations [of w 10] obtain m where
    m: "reachable w m" "\<not> m_locked m" "10 \<le> length (observationQueue m)"
    "GetProfileType (m_profile m) = Dynamic" by blast
  note ok = reachable_ok [OF m(1)]
  from Predict_queue [OF ok m(3)] obtain t where
    "t \<in> set hmm_states" "Predict (m_log (m_world m)) (m_classifier m) (observationQueue m) = Some (Inr t)" .
  then show ?thesis
    using dynamicProfiling_tick_cases [OF ok m(2)] m by (auto simp: hmm_states_def)
qed

end
