(* ===== verification/DisguiseProperties.thy ===== *)
theory DisguiseProperties
  imports ManagerLemmas
begin

text \<open>
  The properties of the Disguise layer: framing, reassembly, scheduling, profiles, the
  classifier and the manager that ties them together. Every property with a hypothesis is
  followed by its instance on \<open>sample_world\<close>, a world over the rational numbers.
\<close>

definition sample_world :: "rat world" where
  "sample_world = \<lparr>tick = 0, w_bytes = (\<lambda>t i. of_nat (7 * t + i)), w_fail = (\<lambda>_. False),
     w_intn = (\<lambda>t. 11 * t), w_float = (\<lambda>_. 1 / 2), w_norm = (\<lambda>_. 1), w_clock = (\<lambda>t. int t * 1000000),
     w_order = (\<lambda>_. [WebBrowsing, VideoStreaming, FileDownload]),
     m_pow = (\<lambda>x _. x), m_log = (\<lambda>x. x)\<rparr>"

section \<open>Framing\<close>

text \<open>
  C1. \<open>Fragment\<close> never fails on a well-formed profile, and the cells it returns split the message: payloads
  in order concatenate to the data, none is empty or longer than the largest cell allows, all
  carry one cell ID and consecutive sequence numbers (which continue the framer's counter and
  wrap at \<open>2^32\<close>), the length fields describe the contents, and no cell but the last is flagged.
\<close>

theorem Fragment_splits:
  fixes f :: "'f::floor_ceiling framer"
  assumes "profile_ok (fr_profile f)"
  shows "\<exists>cells f' w'. Fragment data f w = Some (cells, f', w') \<and>
    concat (map Payload cells) = data \<and>
    (\<forall>i < length cells. let c = cells ! i in
       CellID c = fst (generateCellID w) \<and> Seq c = fr_seq f + of_nat i \<and> Type c = TypeData \<and>
       cell_ok c \<and> 0 < length (Payload c) \<and>
       int (length (Payload c)) \<le> MaxCellSize (fr_profile f) - profile_CellHeaderLen \<and>
       (Suc i < length cells \<longrightarrow> Flags c = 0)) \<and>
    fr_seq f' = fr_seq f + of_nat (length cells) \<and> profile_ok (fr_profile f')"
proof -
  from Fragment_frag_cells [OF assms, of data w] obtain cells f' w' where
    f: "Fragment data f w = Some (cells, f', w')"
      "frag_cells (fst (generateCellID w)) (MaxCellSize (fr_profile f)) (fr_seq f) data cells"
      "profile_ok (fr_profile f')" "fr_seq f' = fr_seq f + of_nat (length cells)" by blast
  show ?thesis
    using f frag_cells_concat [OF f(2)] frag_cells_nth [OF f(2)]
    by (intro exI [of _ cells] exI [of _ f'] exI [of _ w']) (simp add: Let_def)
qed

theorem Fragment_splits_witness:
  "\<exists>cells f' w'. Fragment [1, 2, 3] (NewFramer (GetProfile VideoStreaming)) sample_world = Some (cells, f', w') \<and>
    concat (map Payload cells) = [1, 2, 3]"
  using Fragment_splits [of "NewFramer (GetProfile VideoStreaming)" "[1, 2, 3]" sample_world]
    profile_ok_GetProfile [of VideoStreaming] by (auto simp: NewFramer_def)

text \<open>
  C2. A fragmented message that reaches a reassembler with no stream of that ID open is delivered,
  once and unchanged, exactly when the last cell carries the end-of-stream flag; otherwise it
  stays in the buffer and nothing is delivered.
\<close>

theorem Fragment_reassembles:
  fixes f :: "'f::floor_ceiling framer"
  assumes "profile_ok (fr_profile f)" and "data \<noteq> []" and "r (fst (generateCellID w)) = None"
  shows "\<exists>cells f' w'. Fragment data f w = Some (cells, f', w') \<and>
    process_cells cells r =
      (if Flags (last cells) = 1 then (Inr [data], r)
       else (Inr [], r(fst (generateCellID w) \<mapsto> \<lparr>buffer = data, lastSeq = Seq (last cells)\<rparr>)))"
proof -
  from Fragment_frag_cells [OF assms(1), of data w] obtain cells f' w' where
    f: "Fragment data f w = Some (cells, f', w')"
      "frag_cells (fst (generateCellID w)) (MaxCellSize (fr_profile f)) (fr_seq f) data cells" by blast
  then have "cells \<noteq> []" using assms(2) by auto
  from process_frag_cells [where r = r, OF f(2) assms(3) this] f(1) show ?thesis by blast
qed

theorem Fragment_reassembles_witness:
  "\<exists>cells f' w'. Fragment [1, 2, 3] (NewFramer (GetProfile WebBrowsing)) sample_world = Some (cells, f', w') \<and>
     fst (process_cells cells NewReassembler) = (if Flags (last cells) = 1 then Inr [[1, 2, 3]] else Inr [])"
proof -
  have "profile_ok (fr_profile (NewFramer (GetProfile WebBrowsing :: rat profile)))"
    using profile_ok_GetProfile [of WebBrowsing] by (simp only: NewFramer_def framer.select_convs)
  from Fragment_reassembles [OF this, of "[1, 2, 3]" NewReassembler sample_world] obtain cells f' w' where
    "Fragment [1, 2, 3] (NewFramer (GetProfile WebBrowsing)) sample_world = Some (cells, f', w')"
    "process_cells cells NewReassembler = (if Flags (last cells) = 1 then (Inr [[1, 2, 3]], NewReassembler)
       else (Inr [], NewReassembler(fst (generateCellID sample_world) \<mapsto> \<lparr>buffer = [1, 2, 3], lastSeq = Seq (last cells)\<rparr>)))"
    by (auto simp: NewReassembler_def)
  then show ?thesis by (intro exI [of _ cells] exI [of _ f'] exI [of _ w']) simp
qed


definition sample_cell :: "u16 \<Rightarrow> u32 \<Rightarrow> byte \<Rightarrow> bytes \<Rightarrow> cell" where
  "sample_cell cid seq fl pl = \<lparr>CellID = cid, Type = TypeData, Flags = fl, Seq = seq, Timestamp = 0,
     PayloadLen = of_nat (length pl), PaddingLen = 0, RandOffset = 0, Payload = pl, Padding = []\<rparr>"


text \<open>
  C4. \<open>EncodeCell\<close> on a cell whose length fields are right: it writes the 22-byte header and the
  payload inside the padding at the random offset; when the offset lies beyond the padding the
  slice \<open>cell.Padding[:cell.RandOffset]\<close> panics.
\<close>

theorem EncodeCell_result:
  assumes "cell_ok c"
  shows "EncodeCell c =
    (if unat (RandOffset c) \<le> length (Padding c)
     then Some (cell_header c @ take (unat (RandOffset c)) (Padding c) @ Payload c @
                drop (unat (RandOffset c)) (Padding c))
     else None)"
  using EncodeCell_layout [OF assms] EncodeCell_panics [OF assms] by simp

theorem EncodeCell_result_witness:
  "EncodeCell (sample_cell 1 2 1 [7, 8]) =
     Some ([0, 1, 1, 1, 0, 0, 0, 2, 0, 0, 0, 0, 0, 0, 0, 0, 0, 2, 0, 0, 0, 0] @ [7, 8])"
proof -
  have "cell_ok (sample_cell 1 2 1 [7, 8])" by (simp add: sample_cell_def cell_ok_def)
  moreover have "cell_header (sample_cell 1 2 1 [7, 8]) =
    [0, 1, 1, 1, 0, 0, 0, 2, 0, 0, 0, 0, 0, 0, 0, 0, 0, 2, 0, 0, 0, 0]"
    by (simp add: cell_header_def sample_cell_def TypeData_def be_enc_numeral)
  ultimately show ?thesis
    using EncodeCell_result [of "sample_cell 1 2 1 [7, 8]"] by (simp add: sample_cell_def)
qed

text \<open>
  C5. \<open>DecodeCell\<close> refuses the bytes of every cell \<open>EncodeCell\<close> writes: \<open>CellHeaderLen\<close> is 20, the
  header is 22 bytes, so the content is two bytes longer than the length fields say.
\<close>

theorem DecodeCell_refuses_encoded:
  assumes "EncodeCell c = Some bs"
  shows "DecodeCell bs = Some (Inl ContentLengthMismatch)"
  by (rule DecodeCell_rejects [OF assms])

theorem DecodeCell_refuses_encoded_witness:
  "\<exists>bs. EncodeCell (sample_cell 1 2 1 [7, 8]) = Some bs \<and> DecodeCell bs = Some (Inl ContentLengthMismatch)"
proof -
  have "cell_ok (sample_cell 1 2 1 [7, 8])" by (simp add: sample_cell_def cell_ok_def)
  from EncodeCell_layout [OF this] obtain bs where "EncodeCell (sample_cell 1 2 1 [7, 8]) = Some bs"
    by (simp add: sample_cell_def)
  with DecodeCell_refuses_encoded show ?thesis by blast
qed

section \<open>Scheduling\<close>

text \<open>
  C6. The queue of the scheduler sorts: whatever cells and due times are pushed, popping them all
  returns each exactly once, in the order of the due times.
\<close>

theorem queue_sorts:
  "mset (pop_all (length xs) (push_all xs [])) = mset xs \<and>
   sorted (map snd (pop_all (length xs) (push_all xs [])))"
  using pop_all_push_all by blast

text \<open>
  C7. \<open>GetNextCell\<close> sends an entry that is due and has the earliest due time, and removes only that
  entry; it returns nil, changing nothing, exactly when no entry is due.
\<close>

theorem GetNextCell_earliest_due:
  assumes "scheduler_ok s"
  shows "case GetNextCell s w of
      (Some c, s', w') \<Rightarrow>
        \<exists>p. (c, p) \<in># scheduled s \<and> p \<le> w_clock w (tick w) \<and>
            (\<forall>(d, q) \<in># scheduled s. p \<le> q) \<and>
            scheduled s' = scheduled s - {#(c, p)#} \<and> scheduler_ok s'
    | (None, s', w') \<Rightarrow> s' = s \<and> (\<forall>(d, q) \<in># scheduled s. w_clock w (tick w) < q)"
proof -
  obtain oc s' w' where g: "GetNextCell s w = (oc, s', w')" by (cases "GetNextCell s w") auto
  show ?thesis
  proof (cases oc)
    case None
    with GetNextCell_None [OF assms, of w s' w'] g show ?thesis by simp
  next
    case (Some c)
    with GetNextCell_Some [OF assms, of w c s' w'] g show ?thesis by simp
  qed
qed

theorem GetNextCell_earliest_due_witness:
  "scheduler_ok (fst (NewScheduler sample_world)) \<and>
   fst (snd (GetNextCell (fst (NewScheduler sample_world)) sample_world)) = fst (NewScheduler sample_world)"
proof -
  note s = scheduler_ok_New [of sample_world]
  have "sc_queue (fst (NewScheduler sample_world)) = []"
    by (simp add: NewScheduler_def UnixNano_def heap_Init_Nil)
  then have "fst (GetNextCell (fst (NewScheduler sample_world)) sample_world) = None"
    by (simp add: GetNextCell_def)
  with GetNextCell_earliest_due [OF s, of sample_world] s show ?thesis
    by (cases "GetNextCell (fst (NewScheduler sample_world)) sample_world") simp
qed

section \<open>Profiles and the classifier\<close>

text \<open>
  C8. Drawing a payload length never panics on a well-formed profile; the length is between 1 and the largest cell
  less its header, the exponential average of the load stays in \<open>[0, 1]\<close>, and the size of the next
  cell is in \<open>[MinCellSize, MaxCellSize)\<close>.
\<close>

theorem profile_draws_in_bounds:
  fixes p :: "'f::floor_ceiling profile"
  assumes "profile_ok p"
  shows "\<exists>n p' w' size w''. GetNextPayloadLength p w = Some (n, p', w') \<and>
     1 \<le> n \<and> n \<le> MaxCellSize p - profile_CellHeaderLen \<and>
     profile_ok p' \<and> 0 \<le> CurrentLoad p' \<and> CurrentLoad p' \<le> 1 \<and>
     GetNextCellSize p' w' = Some (size, w'') \<and> MinCellSize p \<le> size \<and> size < MaxCellSize p"
proof -
  from GetNextPayloadLength_ok [OF assms, of w] obtain n p' w' where
    n: "GetNextPayloadLength p w = Some (n, p', w')" "1 \<le> n" "n \<le> MaxCellSize p - profile_CellHeaderLen"
      "profile_ok p'" "MaxCellSize p' = MaxCellSize p" "MinCellSize p' = MinCellSize p" by blast
  from GetNextCellSize_range [OF n(4), of w'] obtain size w'' where
    "GetNextCellSize p' w' = Some (size, w'')" "MinCellSize p' \<le> size" "size < MaxCellSize p'" by blast
  moreover have "0 \<le> CurrentLoad p'" "CurrentLoad p' \<le> 1" using n(4) by (simp_all add: profile_ok_def)
  ultimately show ?thesis using n by auto
qed

theorem profile_draws_in_bounds_witness:
  "\<exists>n p' w'. GetNextPayloadLength (GetProfile FileDownload) sample_world = Some (n, p', w') \<and>
     1 \<le> n \<and> n \<le> 1380"
  using profile_draws_in_bounds [of "GetProfile FileDownload" sample_world] profile_ok_GetProfile [of FileDownload]
  by (auto simp: profile_CellHeaderLen_def)

text \<open>
  C9. \<open>Predict\<close> is the Viterbi algorithm: the state it returns is the last one of a path whose joint
  log-probability with the observations is the largest of all paths, as long as no logarithm it
  adds is low enough to reach \<open>-math.MaxFloat64\<close>.
\<close>

theorem Predict_most_likely:
  fixes h :: "'f::floor_ceiling HMMClassifier"
  assumes "Predict lg h observations = Some (Inr t)" and "States h \<noteq> []"
    and "logs_bounded lg h (rev observations) b"
  shows "\<exists>is. is_path h (rev observations) is \<and> t = States h ! hd is \<and>
      (\<forall>js. is_path h (rev observations) js \<longrightarrow>
         path_score lg h (rev observations) js \<le> path_score lg h (rev observations) is)"
  by (rule Predict_best [OF assms])

theorem Predict_most_likely_witness:
  "\<exists>t. Predict (\<lambda>x. x - 1) (NewHMMClassifier :: rat HMMClassifier) [2, 2] = Some (Inr t) \<and>
     (\<exists>is. is_path (NewHMMClassifier :: rat HMMClassifier) [2, 2] is \<and> t = hmm_states ! hd is)"
proof -
  let ?h = "NewHMMClassifier :: rat HMMClassifier"
  have ok: "hmm_ok ?h" by (rule hmm_ok_New)
  from Predict_total [OF ok, of "[2, 2]" "\<lambda>x. x - 1"] obtain t where
    t: "Predict (\<lambda>x. x - 1) ?h [2, 2] = Some (Inr t)" by (auto simp: bucket_def)
  have st: "States ?h = hmm_states" using ok by (simp add: hmm_ok_def)
  have b: "logs_bounded (\<lambda>x. x - 1) ?h [2, 2] 1"
    by (simp add: logs_bounded_def MaxFloat64_def NewHMMClassifier_def Let_def hmm_states_def
        transition_def on_states_def emission_def index_def smooth_def sum_up_def float64_nonneg)
  from Predict_most_likely [OF t] b st t show ?thesis by (auto simp: hmm_states_def)
qed



section \<open>The manager\<close>

text \<open>
  C11. In every state the manager can reach, its invariant holds, and a tick of the profiling loop
  does one of three things: nothing (fewer than ten observations), drop the observations (the
  classifier confirms the current type), or wait for the mutex it holds. It never changes the
  profile.
\<close>

theorem profiling_tick_outcome:
  assumes "reachable w m" and "\<not> m_locked m"
  shows "manager_ok m \<and> dynamicProfiling_tick m =
    (if length (observationQueue m) < 10 then Returned () m
     else if Predict (m_log (m_world m)) (m_classifier m) (observationQueue m) =
               Some (Inr (GetProfileType (m_profile m)))
     then Returned () (m\<lparr>observationQueue := []\<rparr>)
     else Blocked (m\<lparr>m_locked := True\<rparr>))"
  using dynamicProfiling_tick_cases [OF reachable_ok [OF assms(1)] assms(2)] reachable_ok [OF assms(1)]
  by simp

theorem profiling_tick_outcome_witness:
  "dynamicProfiling_tick (NewManager sample_world) = Returned () (NewManager sample_world)"
proof -
  have "observationQueue (NewManager sample_world) = []"
    by (simp add: NewManager_def Let_def case_prod_unfold)
  with profiling_tick_outcome [OF reachable.r_new [of sample_world] m_locked_New] show ?thesis by simp
qed

text \<open>
  C12. From every new manager a state is reachable in which the profiling loop waits for its own
  mutex, and from then on no operation and no loop makes a step any more.
\<close>

theorem profiling_deadlock:
  "\<exists>m m'. reachable w m \<and> \<not> m_locked m \<and> dynamicProfiling_tick m = Blocked m' \<and>
     (\<forall>m''. manager_step m' m'' \<longleftrightarrow> m'' = m') \<and>
     (\<forall>data. QueueApplicationData data m' = Blocked m') \<and> GetOutboundTraffic m' = Blocked m'"
proof -
  from reachable_deadlock [of w] obtain m where
    m: "reachable w m" "\<not> m_locked m" "dynamicProfiling_tick m = Blocked (m\<lparr>m_locked := True\<rparr>)" by blast
  have l: "m_locked (m\<lparr>m_locked := True\<rparr>)" by simp
  show ?thesis
    using m locked_final [OF l] l
    by (intro exI [of _ m] exI [of _ "m\<lparr>m_locked := True\<rparr>"])
      (simp add: QueueApplicationData_def GetOutboundTraffic_def)
qed

text \<open>
  C13. A client's \<open>SetProfile\<close> installs the profile and clears the observations, except that it panics
  (the classifier writes to a nil map) when two or more observations were made under a profile
  that is no state of the classifier: the dynamic one the manager starts with.
\<close>

theorem SetProfile_outcome:
  assumes "manager_ok m" and "profile_ok p" and "\<not> m_locked m"
  shows "if observationQueue m = [] \<or> length (observationQueue m) = 1 \<or>
            GetProfileType (m_profile m) \<in> set hmm_states
         then \<exists>m'. SetProfile p m = Returned () m' \<and> manager_ok m' \<and> \<not> m_locked m' \<and>
                   m_profile m' = p \<and> observationQueue m' = []
         else SetProfile p m = Panicked"
  by (rule SetProfile_cases [OF assms])

theorem SetProfile_outcome_witness:
  "SetProfile (GetProfile WebBrowsing) ((NewManager sample_world)\<lparr>observationQueue := [0, 2]\<rparr>) = Panicked"
proof -
  let ?m = "(NewManager sample_world)\<lparr>observationQueue := [0, 2]\<rparr>"
  have "manager_ok ?m" using manager_ok_New [of sample_world] by (simp add: manager_ok_def bucket_def)
  from SetProfile_outcome [OF this profile_ok_GetProfile [of WebBrowsing]] m_locked_New [of sample_world]
    profile_New [of sample_world] show ?thesis
    by (simp add: hmm_states_def del: GetProfile.simps)
qed

definition sample_sender :: "rat Manager" where
  "sample_sender = (NewManager sample_world)\<lparr>m_scheduler := \<lparr>sc_profile = GetProfile WebBrowsing,
     sc_queue = [\<lparr>ci_cell = sample_cell 1 2 1 [7, 8], ci_priority = 0, ci_index = 0\<rparr>],
     lastSendTime = 0\<rparr>, m_world := sample_world\<rparr>"

lemma sample_sender_sends: "\<exists>bs m'. GetOutboundTraffic sample_sender = Returned (Inr bs) m'"
proof -
  have "cell_ok (sample_cell 1 2 1 [7, 8])" by (simp add: sample_cell_def cell_ok_def)
  from EncodeCell_layout [OF this] obtain bs where "EncodeCell (sample_cell 1 2 1 [7, 8]) = Some bs"
    by (simp add: sample_cell_def)
  then show ?thesis
    using m_locked_New [of sample_world]
    by (simp add: GetOutboundTraffic_def with_lock_Returned sample_sender_def GetNextCell_def UnixNano_def
        sample_world_def Let_def case_prod_unfold)
qed

text \<open>
  C14. What one manager sends no other manager accepts: the bytes \<open>GetOutboundTraffic\<close> returns make
  \<open>ProcessInboundTraffic\<close> return the length error and leave the receiver as it was.
\<close>

theorem outbound_refused:
  assumes "GetOutboundTraffic m = Returned (Inr bs) m'" and "\<not> m_locked peer"
  shows "ProcessInboundTraffic bs peer = Returned (Inl (DecodeFailed ContentLengthMismatch)) peer"
proof -
  from assms(1) obtain c where "EncodeCell c = Some bs"
    by (auto simp: GetOutboundTraffic_def with_lock_Returned split: option.splits prod.splits)
  from DecodeCell_rejects [OF this] show ?thesis
    using assms(2) by (simp add: ProcessInboundTraffic_def with_lock_def)
qed

theorem outbound_refused_witness:
  "\<exists>bs m'. GetOutboundTraffic sample_sender = Returned (Inr bs) m' \<and>
     ProcessInboundTraffic bs (NewManager sample_world) =
       Returned (Inl (DecodeFailed ContentLengthMismatch)) (NewManager sample_world)"
  using sample_sender_sends outbound_refused [OF _ m_locked_New] by blast

text \<open>
  C15. Queueing application data schedules cells whose payloads, in order, are the data, next to
  whatever was scheduled before, and records one observation per cell.
\<close>

theorem QueueApplicationData_schedules:
  assumes "manager_ok m" and "\<not> m_locked m"
  shows "\<exists>cells f' w' m'. Fragment data (m_framer m) (m_world m) = Some (cells, f', w') \<and>
    QueueApplicationData data m = Returned () m' \<and> concat (map Payload cells) = data \<and>
    image_mset fst (scheduled (m_scheduler m')) = image_mset fst (scheduled (m_scheduler m)) + mset cells \<and>
    observationQueue m' = observationQueue m @
      map (\<lambda>c. DiscretizePayloadSize (int (length (Payload c)))) cells"
  by (rule QueueApplicationData_effect [OF assms])

theorem QueueApplicationData_schedules_witness:
  "\<exists>(cells :: cell list) m'. QueueApplicationData [1, 2] (NewManager sample_world) = Returned () m' \<and>
     concat (map Payload cells) = [1, 2] \<and>
     mset cells \<subseteq># image_mset fst (scheduled (m_scheduler m'))"
proof -
  from QueueApplicationData_schedules [OF manager_ok_New m_locked_New, of "[1, 2]" sample_world]
  obtain cells :: "cell list" and m' where
    "QueueApplicationData [1, 2] (NewManager sample_world) = Returned () m'"
    "concat (map Payload cells) = [1, 2]"
    "image_mset fst (scheduled (m_scheduler m')) =
       image_mset fst (scheduled (m_scheduler (NewManager sample_world))) + mset cells" by blast
  then show ?thesis by (intro exI [of _ cells] exI [of _ m']) simp
qed

text \<open>
  C16. The bytes \<open>ReadApplicationData\<close> returns are a view of the inbound buffer, which is reset at once:
  when the next inbound cell completes a message that fits the buffer, the caller's bytes are
  overwritten by it.
\<close>

theorem read_data_overwritten:
  assumes "\<not> m_locked m" and "buffer_ok (inboundQueue m)" and "arrays (inboundQueue m) \<noteq> []"
    and "0 < buf_len (inboundQueue m)"
    and "DecodeCell data = Some (Inr c)" and "Type c = TypeData"
    and "ProcessCell c (m_reassembler m) = (Inr (Some msg), r)"
    and "length msg \<le> buf_cap (inboundQueue m)"
  shows "\<exists>s m1 m2. ReadApplicationData m = Returned (Some s) m1 \<and>
    slice_contents s (inboundQueue m1) = unread (inboundQueue m) \<and>
    ProcessInboundTraffic data m1 = Returned (Inr ()) m2 \<and>
    slice_contents s (inboundQueue m2) =
      take (buf_len (inboundQueue m)) msg @ drop (length msg) (unread (inboundQueue m))"
proof -
  let ?b = "inboundQueue m"
  let ?m1 = "m\<lparr>inboundQueue := Buffer_Reset ?b\<rparr>"
  let ?m2 = "?m1\<lparr>observationQueue := observationQueue m @ [DiscretizePayloadSize (int (length (Payload c)))],
    m_reassembler := r, inboundQueue := Buffer_Write msg (Buffer_Reset ?b)\<rparr>"
  have "ReadApplicationData m = Returned (Some (Buffer_Bytes ?b)) ?m1"
    using assms(1,4) by (simp add: ReadApplicationData_def with_lock_def)
  moreover have "ProcessInboundTraffic data ?m1 = Returned (Inr ()) ?m2"
    using assms(1,5-7) by (simp add: ProcessInboundTraffic_def with_lock_def Let_def)
  moreover have "slice_contents (Buffer_Bytes ?b) (inboundQueue ?m1) = unread ?b"
    using unread_Bytes [OF assms(3)] by (simp add: slice_contents_def Buffer_Reset_def)
  moreover have "slice_contents (Buffer_Bytes ?b) (inboundQueue ?m2) =
      take (buf_len ?b) msg @ drop (length msg) (unread ?b)"
    using Buffer_overwritten [OF assms(2,3,8)] by simp
  ultimately show ?thesis by blast
qed

theorem read_data_overwritten_witness:
  "\<exists>s m1 m2. ReadApplicationData ((NewManager sample_world)\<lparr>inboundQueue := Buffer_Write [5, 6, 7] new_Buffer\<rparr>)
      = Returned (Some s) m1 \<and>
    slice_contents s (inboundQueue m1) = [5, 6, 7] \<and>
    ProcessInboundTraffic [0, 1, 1, 1, 0, 0, 0, 0, 0, 0, 0, 0, 0, 0, 0, 0, 0, 2, 0, 0, 0, 0] m1 =
      Returned (Inr ()) m2 \<and>
    slice_contents s (inboundQueue m2) = [0, 0, 7]"
proof -
  let ?m = "(NewManager sample_world)\<lparr>inboundQueue := Buffer_Write [5, 6, 7] new_Buffer\<rparr>"
  let ?d = "[0, 1, 1, 1, 0, 0, 0, 0, 0, 0, 0, 0, 0, 0, 0, 0, 0, 2, 0, 0, 0, 0] :: bytes"
  define c where "c = \<lparr>CellID = 1, Type = TypeData, Flags = 1, Seq = 0, Timestamp = 0,
     PayloadLen = 2, PaddingLen = 0, RandOffset = 0, Payload = [0, 0], Padding = []\<rparr>"
  have d: "DecodeCell ?d = Some (Inr c)"
    by (simp add: DecodeCell_def CellHeaderLen_def bind_err_def binary_Read_def decode_content_def
        copy_at_def go_copy_def c_def TypeData_def go_slice_def Let_def)
  have b: "inboundQueue ?m = \<lparr>arrays = [[5, 6, 7] @ replicate 61 0], buf_len = 3\<rparr>"
    by (simp add: Buffer_Write_def new_Buffer_def buf_cap_def)
  have r: "m_reassembler ?m = NewReassembler" by (simp add: NewManager_def Let_def case_prod_unfold)
  have p: "ProcessCell c (m_reassembler ?m) = (Inr (Some [0, 0]), NewReassembler)"
    unfolding r by (subst ProcessCell_new_last) (simp_all add: c_def NewReassembler_def)
  show ?thesis
    using read_data_overwritten [OF _ _ _ _ d _ p] m_locked_New [of sample_world]
    unfolding b by (simp add: buffer_ok_def buf_cap_def c_def)
qed

end
