(* ===== verification/Common.thy ===== *)
theory Common
  imports Prelude
begin

text \<open>
  The protocol constants of \<open>common.go\<close>, \<open>alert.go\<close> and \<open>cipher_suites.go\<close> at their Go
  types: \<open>uint16\<close> code points, \<open>uint8\<close> message types and alerts. The bundles at the end unfold
  them by group.
\<close>

section \<open>Versions, sizes and code points (\<open>common.go\<close>)\<close>

definition VersionTLS10 :: u16 where "VersionTLS10 = 0x0301"
definition VersionTLS11 :: u16 where "VersionTLS11 = 0x0302"
definition VersionTLS12 :: u16 where "VersionTLS12 = 0x0303"
definition VersionTLS13 :: u16 where "VersionTLS13 = 0x0304"
definition VersionSSL30 :: u16 where "VersionSSL30 = 0x0300"

definition maxPlaintext :: nat where "maxPlaintext = 16384"
definition maxCiphertext :: nat where "maxCiphertext = 18432"
definition maxCiphertextTLS13 :: nat where "maxCiphertextTLS13 = 16640"
definition recordHeaderLen :: nat where "recordHeaderLen = 5"
definition maxHandshake :: nat where "maxHandshake = 65536"
definition maxUselessRecords :: nat where "maxUselessRecords = 16"

text \<open>Record types and handshake message types.\<close>

definition recordTypeChangeCipherSpec :: byte where "recordTypeChangeCipherSpec = 20"
definition recordTypeAlert :: byte where "recordTypeAlert = 21"
definition recordTypeHandshake :: byte where "recordTypeHandshake = 22"
definition recordTypeApplicationData :: byte where "recordTypeApplicationData = 23"

definition typeHelloRequest :: byte where "typeHelloRequest = 0"
definition typeClientHello :: byte where "typeClientHello = 1"
definition typeServerHello :: byte where "typeServerHello = 2"
definition typeNewSessionTicket :: byte where "typeNewSessionTicket = 4"
definition typeEndOfEarlyData :: byte where "typeEndOfEarlyData = 5"
definition typeEncryptedExtensions :: byte where "typeEncryptedExtensions = 8"
definition typeCertificate :: byte where "typeCertificate = 11"
definition typeServerKeyExchange :: byte where "typeServerKeyExchange = 12"
definition typeCertificateRequest :: byte where "typeCertificateRequest = 13"
definition typeServerHelloDone :: byte where "typeServerHelloDone = 14"
definition typeCertificateVerify :: byte where "typeCertificateVerify = 15"
definition typeClientKeyExchange :: byte where "typeClientKeyExchange = 16"
definition typeFinished :: byte where "typeFinished = 20"
definition typeCertificateStatus :: byte where "typeCertificateStatus = 22"
definition typeKeyUpdate :: byte where "typeKeyUpdate = 24"
definition typeNextProtocol :: byte where "typeNextProtocol = 67"
definition typeMessageHash :: byte where "typeMessageHash = 254"
definition compressionNone :: byte where "compressionNone = 0"

text \<open>Extension numbers, groups and the other registries.\<close>

definition extensionServerName :: u16 where "extensionServerName = 0"
definition extensionStatusRequest :: u16 where "extensionStatusRequest = 5"
definition extensionSupportedCurves :: u16 where "extensionSupportedCurves = 10"
definition extensionSupportedPoints :: u16 where "extensionSupportedPoints = 11"
definition extensionSignatureAlgorithms :: u16 where "extensionSignatureAlgorithms = 13"
definition extensionALPN :: u16 where "extensionALPN = 16"
definition extensionSCT :: u16 where "extensionSCT = 18"
definition extensionSessionTicket :: u16 where "extensionSessionTicket = 35"
definition extensionPreSharedKey :: u16 where "extensionPreSharedKey = 41"
definition extensionEarlyData :: u16 where "extensionEarlyData = 42"
definition extensionSupportedVersions :: u16 where "extensionSupportedVersions = 43"
definition extensionCookie :: u16 where "extensionCookie = 44"
definition extensionPSKModes :: u16 where "extensionPSKModes = 45"
definition extensionCertificateAuthorities :: u16 where "extensionCertificateAuthorities = 47"
definition extensionSignatureAlgorithmsCert :: u16 where "extensionSignatureAlgorithmsCert = 50"
definition extensionKeyShare :: u16 where "extensionKeyShare = 51"
definition extensionRenegotiationInfo :: u16 where "extensionRenegotiationInfo = 0xff01"
definition CurveP256 :: u16 where "CurveP256 = 23"
definition CurveP384 :: u16 where "CurveP384 = 24"
definition CurveP521 :: u16 where "CurveP521 = 25"
definition X25519 :: u16 where "X25519 = 29"
definition pskModePlain :: byte where "pskModePlain = 0"
definition pskModeDHE :: byte where "pskModeDHE = 1"
definition pointFormatUncompressed :: byte where "pointFormatUncompressed = 0"
definition statusTypeOCSP :: byte where "statusTypeOCSP = 1"
definition certTypeRSASign :: byte where "certTypeRSASign = 1"
definition certTypeECDSASign :: byte where "certTypeECDSASign = 64"
definition signaturePKCS1v15 :: byte where "signaturePKCS1v15 = 225"
definition signatureRSAPSS :: byte where "signatureRSAPSS = 226"
definition signatureECDSA :: byte where "signatureECDSA = 227"
definition signatureEd25519 :: byte where "signatureEd25519 = 228"

section \<open>Alerts (\<open>alert.go\<close>)\<close>

definition alertLevelWarning :: byte where "alertLevelWarning = 1"
definition alertLevelError :: byte where "alertLevelError = 2"
definition alertCloseNotify :: byte where "alertCloseNotify = 0"
definition alertUnexpectedMessage :: byte where "alertUnexpectedMessage = 10"
definition alertBadRecordMAC :: byte where "alertBadRecordMAC = 20"
definition alertDecryptionFailed :: byte where "alertDecryptionFailed = 21"
definition alertRecordOverflow :: byte where "alertRecordOverflow = 22"
definition alertDecompressionFailure :: byte where "alertDecompressionFailure = 30"
definition alertHandshakeFailure :: byte where "alertHandshakeFailure = 40"
definition alertBadCertificate :: byte where "alertBadCertificate = 42"
definition alertUnsupportedCertificate :: byte where "alertUnsupportedCertificate = 43"
definition alertCertificateRevoked :: byte where "alertCertificateRevoked = 44"
definition alertCertificateExpired :: byte where "alertCertificateExpired = 45"
definition alertCertificateUnknown :: byte where "alertCertificateUnknown = 46"
definition alertIllegalParameter :: byte where "alertIllegalParameter = 47"
definition alertUnknownCA :: byte where "alertUnknownCA = 48"
definition alertAccessDenied :: byte where "alertAccessDenied = 49"
definition alertDecodeError :: byte where "alertDecodeError = 50"
definition alertDecryptError :: byte where "alertDecryptError = 51"
definition alertExportRestriction :: byte where "alertExportRestriction = 60"
definition alertProtocolVersion :: byte where "alertProtocolVersion = 70"
definition alertInsufficientSecurity :: byte where "alertInsufficientSecurity = 71"
definition alertInternalError :: byte where "alertInternalError = 80"
definition alertInappropriateFallback :: byte where "alertInappropriateFallback = 86"
definition alertUserCanceled :: byte where "alertUserCanceled = 90"
definition alertNoRenegotiation :: byte where "alertNoRenegotiation = 100"
definition alertMissingExtension :: byte where "alertMissingExtension = 109"
definition alertUnsupportedExtension :: byte where "alertUnsupportedExtension = 110"
definition alertCertificateUnobtainable :: byte where "alertCertificateUnobtainable = 111"
definition alertUnrecognizedName :: byte where "alertUnrecognizedName = 112"
definition alertBadCertificateStatusResponse :: byte where "alertBadCertificateStatusResponse = 113"
definition alertBadCertificateHashValue :: byte where "alertBadCertificateHashValue = 114"
definition alertUnknownPSKIdentity :: byte where "alertUnknownPSKIdentity = 115"
definition alertCertificateRequired :: byte where "alertCertificateRequired = 116"
definition alertNoApplicationProtocol :: byte where "alertNoApplicationProtocol = 120"

text \<open>\<open>alertText\<close> and \<open>String\<close>: an unknown alert shows its number.\<close>

definition alertText :: "(byte \<times> string) list" where
  "alertText = [
    (alertCloseNotify, ''close notify''),
    (alertUnexpectedMessage, ''unexpected message''),
    (alertBadRecordMAC, ''bad record MAC''),
    (alertDecryptionFailed, ''decryption failed''),
    (alertRecordOverflow, ''record overflow''),
    (alertDecompressionFailure, ''decompression failure''),
    (alertHandshakeFailure, ''handshake failure''),
    (alertBadCertificate, ''bad certificate''),
    (alertUnsupportedCertificate, ''unsupported certificate''),
    (alertCertificateRevoked, ''revoked certificate''),
    (alertCertificateExpired, ''expired certificate''),
    (alertCertificateUnknown, ''unknown certificate''),
    (alertIllegalParameter, ''illegal parameter''),
    (alertUnknownCA, ''unknown certificate authority''),
    (alertAccessDenied, ''access denied''),
    (alertDecodeError, ''error decoding message''),
    (alertDecryptError, ''error decrypting message''),
    (alertExportRestriction, ''export restriction''),
    (alertProtocolVersion, ''protocol version not supported''),
    (alertInsufficientSecurity, ''insufficient security level''),
    (alertInternalError, ''internal error''),
    (alertInappropriateFallback, ''inappropriate fallback''),
    (alertUserCanceled, ''user canceled''),
    (alertNoRenegotiation, ''no renegotiation''),
    (alertMissingExtension, ''missing extension''),
    (alertUnsupportedExtension, ''unsupported extension''),
    (alertCertificateUnobtainable, ''certificate unobtainable''),
    (alertUnrecognizedName, ''unrecognized name''),
    (alertBadCertificateStatusResponse, ''bad certificate status response''),
    (alertBadCertificateHashValue, ''bad certificate hash value''),
    (alertUnknownPSKIdentity, ''unknown PSK identity''),
    (alertCertificateRequired, ''certificate required''),
    (alertNoApplicationProtocol, ''no application protocol'')]"

fun itoa_rev :: "nat \<Rightarrow> string" where
  "itoa_rev n = (if n < 10 then [char_of (48 + n)] else char_of (48 + n mod 10) # itoa_rev (n div 10))"

declare itoa_rev.simps [simp del]

definition alert_String :: "byte \<Rightarrow> string" where
  "alert_String e =
     (case map_of alertText e of
        Some s \<Rightarrow> ''tls: '' @ s
      | None \<Rightarrow> ''tls: alert('' @ rev (itoa_rev (unat e)) @ '')'')"

section \<open>Cipher suite numbers (\<open>cipher_suites.go\<close>)\<close>

definition TLS_RSA_WITH_RC4_128_SHA :: u16 where "TLS_RSA_WITH_RC4_128_SHA = 0x0005"
definition TLS_RSA_WITH_3DES_EDE_CBC_SHA :: u16 where "TLS_RSA_WITH_3DES_EDE_CBC_SHA = 0x000a"
definition TLS_RSA_WITH_AES_128_CBC_SHA :: u16 where "TLS_RSA_WITH_AES_128_CBC_SHA = 0x002f"
definition TLS_RSA_WITH_AES_256_CBC_SHA :: u16 where "TLS_RSA_WITH_AES_256_CBC_SHA = 0x0035"
definition TLS_RSA_WITH_AES_128_CBC_SHA256 :: u16 where "TLS_RSA_WITH_AES_128_CBC_SHA256 = 0x003c"
definition TLS_RSA_WITH_AES_128_GCM_SHA256 :: u16 where "TLS_RSA_WITH_AES_128_GCM_SHA256 = 0x009c"
definition TLS_RSA_WITH_AES_256_GCM_SHA384 :: u16 where "TLS_RSA_WITH_AES_256_GCM_SHA384 = 0x009d"
definition TLS_ECDHE_ECDSA_WITH_RC4_128_SHA :: u16 where "TLS_ECDHE_ECDSA_WITH_RC4_128_SHA = 0xc007"
definition TLS_ECDHE_ECDSA_WITH_AES_128_CBC_SHA :: u16 where "TLS_ECDHE_ECDSA_WITH_AES_128_CBC_SHA = 0xc009"
definition TLS_ECDHE_ECDSA_WITH_AES_256_CBC_SHA :: u16 where "TLS_ECDHE_ECDSA_WITH_AES_256_CBC_SHA = 0xc00a"
definition TLS_ECDHE_RSA_WITH_RC4_128_SHA :: u16 where "TLS_ECDHE_RSA_WITH_RC4_128_SHA = 0xc011"
definition TLS_ECDHE_RSA_WITH_3DES_EDE_CBC_SHA :: u16 where "TLS_ECDHE_RSA_WITH_3DES_EDE_CBC_SHA = 0xc012"
definition TLS_ECDHE_RSA_WITH_AES_128_CBC_SHA :: u16 where "TLS_ECDHE_RSA_WITH_AES_128_CBC_SHA = 0xc013"
definition TLS_ECDHE_RSA_WITH_AES_256_CBC_SHA :: u16 where "TLS_ECDHE_RSA_WITH_AES_256_CBC_SHA = 0xc014"
definition TLS_ECDHE_ECDSA_WITH_AES_128_CBC_SHA256 :: u16 where "TLS_ECDHE_ECDSA_WITH_AES_128_CBC_SHA256 = 0xc023"
definition TLS_ECDHE_RSA_WITH_AES_128_CBC_SHA256 :: u16 where "TLS_ECDHE_RSA_WITH_AES_128_CBC_SHA256 = 0xc027"
definition TLS_ECDHE_RSA_WITH_AES_128_GCM_SHA256 :: u16 where "TLS_ECDHE_RSA_WITH_AES_128_GCM_SHA256 = 0xc02f"
definition TLS_ECDHE_ECDSA_WITH_AES_128_GCM_SHA256 :: u16 where "TLS_ECDHE_ECDSA_WITH_AES_128_GCM_SHA256 = 0xc02b"
definition TLS_ECDHE_RSA_WITH_AES_256_GCM_SHA384 :: u16 where "TLS_ECDHE_RSA_WITH_AES_256_GCM_SHA384 = 0xc030"
definition TLS_ECDHE_ECDSA_WITH_AES_256_GCM_SHA384 :: u16 where "TLS_ECDHE_ECDSA_WITH_AES_256_GCM_SHA384 = 0xc02c"
definition TLS_ECDHE_RSA_WITH_CHACHA20_POLY1305_SHA256 :: u16 where "TLS_ECDHE_RSA_WITH_CHACHA20_POLY1305_SHA256 = 0xcca8"
definition TLS_ECDHE_ECDSA_WITH_CHACHA20_POLY1305_SHA256 :: u16 where "TLS_ECDHE_ECDSA_WITH_CHACHA20_POLY1305_SHA256 = 0xcca9"
definition TLS_AES_128_GCM_SHA256 :: u16 where "TLS_AES_128_GCM_SHA256 = 0x1301"
definition TLS_AES_256_GCM_SHA384 :: u16 where "TLS_AES_256_GCM_SHA384 = 0x1302"
definition TLS_CHACHA20_POLY1305_SHA256 :: u16 where "TLS_CHACHA20_POLY1305_SHA256 = 0x1303"
definition TLS_FALLBACK_SCSV :: u16 where "TLS_FALLBACK_SCSV = 0x5600"
definition TLS_ECDHE_RSA_WITH_CHACHA20_POLY1305 :: u16 where "TLS_ECDHE_RSA_WITH_CHACHA20_POLY1305 = TLS_ECDHE_RSA_WITH_CHACHA20_POLY1305_SHA256"
definition TLS_ECDHE_ECDSA_WITH_CHACHA20_POLY1305 :: u16 where "TLS_ECDHE_ECDSA_WITH_CHACHA20_POLY1305 = TLS_ECDHE_ECDSA_WITH_CHACHA20_POLY1305_SHA256"

section \<open>Bundles\<close>

lemmas version_defs =
  VersionTLS10_def VersionTLS11_def VersionTLS12_def VersionTLS13_def VersionSSL30_def

lemmas size_defs =
  maxPlaintext_def maxCiphertext_def maxCiphertextTLS13_def recordHeaderLen_def maxHandshake_def 
  maxUselessRecords_def

lemmas record_type_defs =
  recordTypeChangeCipherSpec_def recordTypeAlert_def recordTypeHandshake_def 
  recordTypeApplicationData_def

lemmas handshake_type_defs =
  typeHelloRequest_def typeClientHello_def typeServerHello_def typeNewSessionTicket_def 
  typeEndOfEarlyData_def typeEncryptedExtensions_def typeCertificate_def 
  typeServerKeyExchange_def typeCertificateRequest_def typeServerHelloDone_def 
  typeCertificateVerify_def typeClientKeyExchange_def typeFinished_def typeCertificateStatus_def 
  typeKeyUpdate_def typeNextProtocol_def typeMessageHash_def compressionNone_def

lemmas extension_defs =
  extensionServerName_def extensionStatusRequest_def extensionSupportedCurves_def 
  extensionSupportedPoints_def extensionSignatureAlgorithms_def extensionALPN_def 
  extensionSCT_def extensionSessionTicket_def extensionPreSharedKey_def extensionEarlyData_def 
  extensionSupportedVersions_def extensionCookie_def extensionPSKModes_def 
  extensionCertificateAuthorities_def extensionSignatureAlgorithmsCert_def extensionKeyShare_def 
  extensionRenegotiationInfo_def

lemmas registry_defs =
  CurveP256_def CurveP384_def CurveP521_def X25519_def pskModePlain_def pskModeDHE_def 
  pointFormatUncompressed_def statusTypeOCSP_def certTypeRSASign_def certTypeECDSASign_def 
  signaturePKCS1v15_def signatureRSAPSS_def signatureECDSA_def signatureEd25519_def

lemmas alert_defs =
  alertLevelWarning_def alertLevelError_def alertCloseNotify_def alertUnexpectedMessage_def 
  alertBadRecordMAC_def alertDecryptionFailed_def alertRecordOverflow_def 
  alertDecompressionFailure_def alertHandshakeFailure_def alertBadCertificate_def 
  alertUnsupportedCertificate_def alertCertificateRevoked_def alertCertificateExpired_def 
  alertCertificateUnknown_def alertIllegalParameter_def alertUnknownCA_def alertAccessDenied_def 
  alertDecodeError_def alertDecryptError_def alertExportRestriction_def alertProtocolVersion_def 
  alertInsufficientSecurity_def alertInternalError_def alertInappropriateFallback_def 
  alertUserCanceled_def alertNoRenegotiation_def alertMissingExtension_def 
  alertUnsupportedExtension_def alertCertificateUnobtainable_def alertUnrecognizedName_def 
  alertBadCertificateStatusResponse_def alertBadCertificateHashValue_def 
  alertUnknownPSKIdentity_def alertCertificateRequired_def alertNoApplicationProtocol_def

lemmas suite_defs =
  TLS_RSA_WITH_RC4_128_SHA_def TLS_RSA_WITH_3DES_EDE_CBC_SHA_def 
  TLS_RSA_WITH_AES_128_CBC_SHA_def TLS_RSA_WITH_AES_256_CBC_SHA_def 
  TLS_RSA_WITH_AES_128_CBC_SHA256_def TLS_RSA_WITH_AES_128_GCM_SHA256_def 
  TLS_RSA_WITH_AES_256_GCM_SHA384_def TLS_ECDHE_ECDSA_WITH_RC4_128_SHA_def 
  TLS_ECDHE_ECDSA_WITH_AES_128_CBC_SHA_def TLS_ECDHE_ECDSA_WITH_AES_256_CBC_SHA_def 
  TLS_ECDHE_RSA_WITH_RC4_128_SHA_def TLS_ECDHE_RSA_WITH_3DES_EDE_CBC_SHA_def 
  TLS_ECDHE_RSA_WITH_AES_128_CBC_SHA_def TLS_ECDHE_RSA_WITH_AES_256_CBC_SHA_def 
  TLS_ECDHE_ECDSA_WITH_AES_128_CBC_SHA256_def TLS_ECDHE_RSA_WITH_AES_128_CBC_SHA256_def 
  TLS_ECDHE_RSA_WITH_AES_128_GCM_SHA256_def TLS_ECDHE_ECDSA_WITH_AES_128_GCM_SHA256_def 
  TLS_ECDHE_RSA_WITH_AES_256_GCM_SHA384_def TLS_ECDHE_ECDSA_WITH_AES_256_GCM_SHA384_def 
  TLS_ECDHE_RSA_WITH_CHACHA20_POLY1305_SHA256_def 
  TLS_ECDHE_ECDSA_WITH_CHACHA20_POLY1305_SHA256_def TLS_AES_128_GCM_SHA256_def 
  TLS_AES_256_GCM_SHA384_def TLS_CHACHA20_POLY1305_SHA256_def TLS_FALLBACK_SCSV_def 
  TLS_ECDHE_RSA_WITH_CHACHA20_POLY1305_def TLS_ECDHE_ECDSA_WITH_CHACHA20_POLY1305_def

end
