(* ===== verification/Ciphers.thy ===== *)
theory Ciphers
  imports Common
begin

text \<open>
  The cipher objects of the record layer (\<open>cipher_suites.go\<close>): stream ciphers, the two AEAD
  wrappers that build a nonce, and CBC. The primitives of Go's crypto packages are records of
  functions: an arbitrary keystream, an arbitrary block permutation, an arbitrary AEAD and an
  arbitrary keyed hash. What the code relies on is stated by \<open>aead_ok\<close>, \<open>block_ok\<close> and \<open>mac_ok\<close>.
\<close>

section \<open>Primitives\<close>

record aead_prim =
  aead_seal :: "bytes \<Rightarrow> bytes \<Rightarrow> bytes \<Rightarrow> bytes"
  aead_open :: "bytes \<Rightarrow> bytes \<Rightarrow> bytes \<Rightarrow> bytes option"
  aead_overhead :: nat

record block_prim =
  block_size :: nat
  block_enc :: "bytes \<Rightarrow> bytes"
  block_dec :: "bytes \<Rightarrow> bytes"

record mac_prim =
  mac_size :: nat
  mac_sum :: "bytes \<Rightarrow> bytes"

text \<open>The arguments of \<open>aead_seal\<close> are nonce, plaintext and additional data.\<close>

definition aead_ok :: "aead_prim \<Rightarrow> bool" where
  "aead_ok a \<longleftrightarrow> (\<forall>nonce p ad.
     aead_open a nonce (aead_seal a nonce p ad) ad = Some p \<and>
     length (aead_seal a nonce p ad) = length p + aead_overhead a)"

definition block_ok :: "block_prim \<Rightarrow> bool" where
  "block_ok b \<longleftrightarrow> 0 < block_size b \<and> block_size b \<le> 256 \<and>
     (\<forall>x. length x = block_size b \<longrightarrow>
        block_dec b (block_enc b x) = x \<and> length (block_enc b x) = block_size b)"

definition mac_ok :: "mac_prim \<Rightarrow> bool" where
  "mac_ok m \<longleftrightarrow> mac_size m \<le> 64 \<and> (\<forall>x. length (mac_sum m x) = mac_size m)"

section \<open>Nonces\<close>

definition aeadNonceLength :: nat where "aeadNonceLength = 12"
definition noncePrefixLength :: nat where "noncePrefixLength = 4"

text \<open>\<open>copy(f.nonce[4:], nonce)\<close> leaves the nonce in the buffer.\<close>

definition prefix_nonce :: "bytes \<Rightarrow> bytes \<Rightarrow> bytes" where
  "prefix_nonce buf nonce = take noncePrefixLength buf @ go_copy (drop noncePrefixLength buf) nonce"

text \<open>XOR into the mask from byte 4 on; the second loop takes it out again.\<close>

definition xor_bytes :: "bytes \<Rightarrow> bytes \<Rightarrow> bytes" where
  "xor_bytes xs ys = map2 (XOR) xs ys"

definition xor_nonce :: "bytes \<Rightarrow> bytes \<Rightarrow> bytes" where
  "xor_nonce msk nonce =
     take 4 msk @ xor_bytes (take (length nonce) (drop 4 msk)) nonce @ drop (4 + length nonce) msk"

section \<open>Cipher objects\<close>

text \<open>
  What \<open>hc.cipher\<close> holds: a stream cipher with its position, a \<open>prefixNonceAEAD\<close>, an
  \<open>xorNonceAEAD\<close>, or a CBC encrypter or decrypter with its current IV.
\<close>

datatype cipher_state =
    StreamCipher "nat \<Rightarrow> byte" nat
  | PrefixNonceAEAD bytes aead_prim
  | XorNonceAEAD bytes aead_prim
  | CBCEncrypter block_prim bytes
  | CBCDecrypter block_prim bytes

definition XORKeyStream :: "(nat \<Rightarrow> byte) \<Rightarrow> nat \<Rightarrow> bytes \<Rightarrow> bytes" where
  "XORKeyStream ks pos src = map2 (XOR) src (map ks [pos..<pos + length src])"

text \<open>Cipher block chaining over \<open>n\<close> blocks: output and last ciphertext block.\<close>

primrec cbc_encrypt :: "block_prim \<Rightarrow> nat \<Rightarrow> bytes \<Rightarrow> bytes \<Rightarrow> bytes \<times> bytes" where
  "cbc_encrypt b 0 iv src = ([], iv)"
| "cbc_encrypt b (Suc n) iv src =
     (let c = block_enc b (xor_bytes (take (block_size b) src) iv);
          (out, iv') = cbc_encrypt b n c (drop (block_size b) src)
      in (c @ out, iv'))"

primrec cbc_decrypt :: "block_prim \<Rightarrow> nat \<Rightarrow> bytes \<Rightarrow> bytes \<Rightarrow> bytes \<times> bytes" where
  "cbc_decrypt b 0 iv src = ([], iv)"
| "cbc_decrypt b (Suc n) iv src =
     (let c = take (block_size b) src;
          (out, iv') = cbc_decrypt b n c (drop (block_size b) src)
      in (xor_bytes (block_dec b c) iv @ out, iv'))"

section \<open>Properties of the primitives' use\<close>

lemma length_xor_bytes [simp]: "length (xor_bytes xs ys) = min (length xs) (length ys)"
  by (simp add: xor_bytes_def)

lemma xor_bytes_cancel: "length xs \<le> length ys \<Longrightarrow> xor_bytes (xor_bytes xs ys) ys = xs"
proof (induction xs arbitrary: ys)
  case (Cons x xs)
  then show ?case by (cases ys) (simp_all add: xor_bytes_def xor.assoc)
qed (simp add: xor_bytes_def)

text \<open>The second loop of \<open>Seal\<close> and \<open>Open\<close> restores the mask.\<close>

lemma xor_nonce_cancel:
  assumes "length nonce + 4 \<le> length msk"
  shows "xor_nonce (xor_nonce msk nonce) nonce = msk"
proof -
  let ?n = "length nonce"
  let ?mid = "take ?n (drop 4 msk)"
  have x: "length (xor_bytes ?mid nonce) = ?n" using assms by simp
  have "xor_nonce (xor_nonce msk nonce) nonce =
      take 4 msk @ xor_bytes (xor_bytes ?mid nonce) nonce @ drop (4 + ?n) msk"
    unfolding xor_nonce_def [of "xor_nonce msk nonce"] using assms x
    by (simp add: xor_nonce_def)
  also have "xor_bytes (xor_bytes ?mid nonce) nonce = ?mid"
    by (rule xor_bytes_cancel) simp
  finally show ?thesis
    by (metis append_assoc append_take_drop_id drop_drop add.commute)
qed

lemma length_XORKeyStream [simp]: "length (XORKeyStream ks pos src) = length src"
  by (simp add: XORKeyStream_def)

lemma XORKeyStream_cancel: "XORKeyStream ks pos (XORKeyStream ks pos src) = src"
proof -
  have "xor_bytes (xor_bytes src (map ks [pos..<pos + length src])) (map ks [pos..<pos + length src]) = src"
    by (rule xor_bytes_cancel) simp
  then show ?thesis by (simp add: XORKeyStream_def xor_bytes_def)
qed

lemma XORKeyStream_append:
  "XORKeyStream ks pos (xs @ ys) = XORKeyStream ks pos xs @ XORKeyStream ks (pos + length xs) ys"
  by (simp add: XORKeyStream_def add.assoc [symmetric] upt_add_eq_append [of pos "pos + length xs"])

lemma length_cbc_block:
  assumes "length src = Suc n * k" and "length iv = k"
  shows "length (xor_bytes (take k src) iv) = k"
proof -
  have "k \<le> length src" using assms(1) by simp
  then show ?thesis using assms(2) by (simp add: min_absorb2)
qed

lemma cbc_inverse:
  assumes "block_ok b" and "length src = n * block_size b" and "length iv = block_size b"
  shows "cbc_decrypt b n iv (fst (cbc_encrypt b n iv src)) = (src, snd (cbc_encrypt b n iv src)) \<and>
    length (fst (cbc_encrypt b n iv src)) = length src \<and>
    length (snd (cbc_encrypt b n iv src)) = block_size b"
  using assms(2,3)
proof (induction n arbitrary: iv src)
  case (Suc n)
  let ?bs = "block_size b"
  let ?p = "take ?bs src"
  let ?c = "block_enc b (xor_bytes ?p iv)"
  have "length (xor_bytes ?p iv) = ?bs" using Suc.prems by (rule length_cbc_block)
  then have c: "length ?c = ?bs" "block_dec b ?c = xor_bytes ?p iv"
    using assms(1) by (simp_all add: block_ok_def)
  have x: "xor_bytes (xor_bytes ?p iv) iv = ?p" using Suc.prems by (intro xor_bytes_cancel) simp
  have "length (drop ?bs src) = n * ?bs" using Suc.prems by simp
  from Suc.IH [OF this c(1)] Suc.prems show ?case
    by (simp add: c x Let_def case_prod_unfold)
qed simp_all

end
