(* ===== verification/HalfConn.thy ===== *)
theory HalfConn
  imports Ciphers
begin

text \<open>
  One direction of the record layer (\<open>conn.go\<close>, type \<open>halfConn\<close>): sequence numbers, padding,
  protection and unprotection of a record. \<^term>\<open>None\<close> is a panic (index or slice out of range,
  nil interface, unknown cipher, sequence number wrap-around), \<^term>\<open>Inl\<close> a returned error. The
  new state is returned in every case: the ciphers advance even when the record is refused.
\<close>

text \<open>Errors of the connection; \<open>AlertErr\<close> is an alert used as an error value.\<close>

datatype conn_error =
    AlertErr byte
  | RandError
  | NetError nat
  | EOF
  | UnexpectedEOF
  | RemoteError byte
  | LocalError byte
  | RecordHeaderError string
  | OtherError string

record halfConn =
  hc_err :: "conn_error option"
  hc_version :: u16
  hc_cipher :: "cipher_state option"
  hc_mac :: "mac_prim option"
  hc_seq :: bytes
  hc_nextCipher :: "cipher_state option"
  hc_nextMac :: "mac_prim option"
  hc_trafficSecret :: bytes

definition seq_zero :: bytes where "seq_zero = replicate 8 0"

section \<open>Changing keys\<close>

text \<open>A network error is wrapped as permanent; the wrapping is not visible in \<open>conn_error\<close>.\<close>

definition setErrorLocked :: "conn_error \<Rightarrow> halfConn \<Rightarrow> conn_error \<times> halfConn" where
  "setErrorLocked err hc = (err, hc\<lparr>hc_err := Some err\<rparr>)"

definition prepareCipherSpec ::
  "u16 \<Rightarrow> cipher_state \<Rightarrow> mac_prim option \<Rightarrow> halfConn \<Rightarrow> halfConn" where
  "prepareCipherSpec version cip mac hc =
     hc\<lparr>hc_version := version, hc_nextCipher := Some cip, hc_nextMac := mac\<rparr>"

definition changeCipherSpec :: "halfConn \<Rightarrow> (byte + halfConn)" where
  "changeCipherSpec hc =
     (if hc_nextCipher hc = None \<or> hc_version hc = VersionTLS13 then Inl alertInternalError
      else Inr (hc\<lparr>hc_cipher := hc_nextCipher hc, hc_mac := hc_nextMac hc,
                   hc_nextCipher := None, hc_nextMac := None, hc_seq := seq_zero\<rparr>))"

section \<open>Sequence numbers\<close>

text \<open>The loop counts \<open>i\<close> down from 7; \<open>k\<close> is \<open>i + 1\<close>.\<close>

primrec incSeq_loop :: "nat \<Rightarrow> bytes \<Rightarrow> bytes option" where
  "incSeq_loop 0 s = None"
| "incSeq_loop (Suc i) s =
     (let s' = s[i := s ! i + 1] in if s' ! i \<noteq> 0 then Some s' else incSeq_loop i s')"

definition incSeq :: "halfConn \<Rightarrow> halfConn option" where
  "incSeq hc = map_option (\<lambda>s. hc\<lparr>hc_seq := s\<rparr>) (incSeq_loop 8 (hc_seq hc))"

definition explicitNonceLen :: "halfConn \<Rightarrow> nat" where
  "explicitNonceLen hc =
     (case hc_cipher hc of
        None \<Rightarrow> 0
      | Some (StreamCipher _ _) \<Rightarrow> 0
      | Some (PrefixNonceAEAD _ _) \<Rightarrow> aeadNonceLength - noncePrefixLength
      | Some (XorNonceAEAD _ _) \<Rightarrow> 0
      | Some (CBCEncrypter b _) \<Rightarrow> if hc_version hc \<ge> VersionTLS11 then block_size b else 0
      | Some (CBCDecrypter b _) \<Rightarrow> if hc_version hc \<ge> VersionTLS11 then block_size b else 0)"

section \<open>Padding\<close>

text \<open>\<open>byte(int32(^t) >> 31)\<close> for a 64-bit \<open>t\<close>.\<close>

definition sign_mask :: "64 word \<Rightarrow> byte" where
  "sign_mask t = ucast (signed_drop_bit 31 (ucast (NOT t) :: 32 word))"

primrec padding_loop :: "nat \<Rightarrow> bytes \<Rightarrow> byte \<Rightarrow> byte \<Rightarrow> byte" where
  "padding_loop 0 payload paddingLen good = good"
| "padding_loop (Suc i) payload paddingLen good =
     (let good' = padding_loop i payload paddingLen good;
          msk = sign_mask (ucast paddingLen - of_nat i);
          b = payload ! (length payload - 1 - i)
      in good' AND NOT ((msk AND paddingLen) XOR (msk AND b)))"

definition extractPadding :: "bytes \<Rightarrow> nat \<times> byte" where
  "extractPadding payload =
     (if length payload < 1 then (0, 0)
      else
        let paddingLen = payload ! (length payload - 1);
            good0 = sign_mask (of_nat (length payload - 1) - ucast paddingLen);
            toCheck = (if 256 > length payload then length payload else 256);
            good1 = padding_loop toCheck payload paddingLen good0;
            good2 = good1 AND push_bit 4 good1;
            good3 = good2 AND push_bit 2 good2;
            good4 = good3 AND push_bit 1 good3;
            good = signed_drop_bit 7 good4;
            paddingLen' = paddingLen AND good
        in (unat paddingLen' + 1, good))"

definition roundUp :: "nat \<Rightarrow> nat \<Rightarrow> nat" where
  "roundUp a b = a + (b - a mod b) mod b"

section \<open>Decryption\<close>

text \<open>
  The result of unprotecting a payload: plaintext (nil for the MAC ciphers), remaining payload,
  and the padding found.
\<close>

record opened =
  op_plaintext :: bytes
  op_payload :: bytes
  op_paddingLen :: nat
  op_paddingGood :: byte

text \<open>\<open>byte(n>>8), byte(n)\<close> of an \<open>int\<close> that may be negative.\<close>

definition int_bytes :: "int \<Rightarrow> bytes" where
  "int_bytes n = [word_of_int (n div 256), word_of_int n]"

definition additionalData :: "halfConn \<Rightarrow> bytes \<Rightarrow> bytes \<Rightarrow> nat \<Rightarrow> bytes" where
  "additionalData hc hdr payload overhead =
     (if hc_version hc = VersionTLS13 then hdr
      else hc_seq hc @ take 3 hdr @ int_bytes (int (length payload) - int overhead))"

definition open_aead ::
  "halfConn \<Rightarrow> bytes \<Rightarrow> bytes \<Rightarrow> (bytes \<Rightarrow> bytes \<Rightarrow> bytes \<Rightarrow> bytes option) \<Rightarrow> nat \<Rightarrow> (byte + opened)" where
  "open_aead hc hdr payload aopen overhead =
     (let enl = explicitNonceLen hc
      in if length payload < enl then Inl alertBadRecordMAC
         else
           let nonce = (if take enl payload = [] then hc_seq hc else take enl payload);
               payload' = drop enl payload
           in (case aopen nonce payload' (additionalData hc hdr payload' overhead) of
                 None \<Rightarrow> Inl alertBadRecordMAC
               | Some plaintext \<Rightarrow> Inr \<lparr>op_plaintext = plaintext, op_payload = payload',
                                        op_paddingLen = 0, op_paddingGood = 255\<rparr>))"

definition aead_nonce :: "halfConn \<Rightarrow> bytes \<Rightarrow> bytes" where
  "aead_nonce hc payload =
     (let n = take (explicitNonceLen hc) payload in if n = [] then hc_seq hc else n)"

definition open_cbc ::
  "halfConn \<Rightarrow> (nat \<Rightarrow> bytes \<Rightarrow> bytes \<Rightarrow> bytes \<times> bytes) \<Rightarrow> (bytes \<Rightarrow> cipher_state) \<Rightarrow> nat \<Rightarrow> bytes \<Rightarrow> bytes \<Rightarrow>
     ((byte + opened) \<times> halfConn) option" where
  "open_cbc hc crypt mk bs iv payload =
     (case hc_mac hc of
        None \<Rightarrow> None
      | Some m \<Rightarrow>
          (let enl = explicitNonceLen hc; minPayload = enl + roundUp (mac_size m + 1) bs
           in if length payload mod bs \<noteq> 0 \<or> length payload < minPayload
              then Some (Inl alertBadRecordMAC, hc)
              else
                let iv' = (if enl > 0 then take enl payload else iv);
                    payload' = drop enl payload;
                    (out, iv'') = crypt (length payload' div bs) iv' payload';
                    (toRemove, good) = extractPadding out
                in Some (Inr \<lparr>op_plaintext = [], op_payload = out, op_paddingLen = toRemove,
                              op_paddingGood = good\<rparr>,
                         hc\<lparr>hc_cipher := Some (mk iv'')\<rparr>)))"

definition unprotect ::
  "halfConn \<Rightarrow> cipher_state \<Rightarrow> bytes \<Rightarrow> bytes \<Rightarrow> ((byte + opened) \<times> halfConn) option" where
  "unprotect hc c hdr payload =
     (case c of
        StreamCipher ks pos \<Rightarrow>
          Some (Inr \<lparr>op_plaintext = [], op_payload = XORKeyStream ks pos payload,
                     op_paddingLen = 0, op_paddingGood = 255\<rparr>,
                hc\<lparr>hc_cipher := Some (StreamCipher ks (pos + length payload))\<rparr>)
      | PrefixNonceAEAD buf a \<Rightarrow>
          Some (open_aead hc hdr payload (\<lambda>nonce. aead_open a (prefix_nonce buf nonce)) (aead_overhead a),
                if length payload < explicitNonceLen hc then hc
                else hc\<lparr>hc_cipher := Some (PrefixNonceAEAD (prefix_nonce buf (aead_nonce hc payload)) a)\<rparr>)
      | XorNonceAEAD msk a \<Rightarrow>
          Some (open_aead hc hdr payload (\<lambda>nonce. aead_open a (xor_nonce msk nonce)) (aead_overhead a), hc)
      | CBCEncrypter b iv \<Rightarrow>
          open_cbc hc (cbc_encrypt b) (CBCEncrypter b) (block_size b) iv payload
      | CBCDecrypter b iv \<Rightarrow>
          open_cbc hc (cbc_decrypt b) (CBCDecrypter b) (block_size b) iv payload)"

text \<open>
  The scan for the TLS 1.3 content type from the end: \<open>k\<close> is \<open>i + 1\<close>. An empty plaintext never
  enters the loop and keeps the outer type.
\<close>

primrec content_type_loop :: "nat \<Rightarrow> bytes \<Rightarrow> byte \<Rightarrow> (byte + bytes \<times> byte)" where
  "content_type_loop 0 plaintext typ = Inr (plaintext, typ)"
| "content_type_loop (Suc i) plaintext typ =
     (if plaintext ! i \<noteq> 0 then Inr (take i plaintext, plaintext ! i)
      else if i = 0 then Inl alertUnexpectedMessage
      else content_type_loop i plaintext typ)"

definition inner_type :: "bytes \<Rightarrow> byte \<Rightarrow> (byte + bytes \<times> byte)" where
  "inner_type plaintext typ =
     (if typ \<noteq> recordTypeApplicationData then Inl alertUnexpectedMessage
      else if length plaintext > maxPlaintext + 1 then Inl alertRecordOverflow
      else content_type_loop (length plaintext) plaintext typ)"

text \<open>
  The MAC check. The header's length bytes are overwritten with the length of the data. A
  negative length becomes 0, as \<open>ConstantTimeSelect\<close> does for \<open>int\<close> values in 32 bits.
\<close>

definition check_mac :: "halfConn \<Rightarrow> bytes \<Rightarrow> opened \<Rightarrow> (byte + bytes)" where
  "check_mac hc hdr op =
     (case hc_mac hc of
        None \<Rightarrow> Inr (op_plaintext op)
      | Some m \<Rightarrow>
          (let payload = op_payload op; macSize = mac_size m
           in if length payload < macSize then Inl alertBadRecordMAC
              else
                let n0 = int (length payload) - int macSize - int (op_paddingLen op);
                    n = (if n0 < 0 then 0 else nat n0);
                    hdr' = take 3 hdr @ int_bytes (int n);
                    remoteMAC = take macSize (drop n payload);
                    localMAC = mac_sum m (hc_seq hc @ hdr' @ take n payload);
                    macAndPaddingGood = (if localMAC = remoteMAC then 1 else 0) AND op_paddingGood op
                in if macAndPaddingGood \<noteq> 1 then Inl alertBadRecordMAC
                   else Inr (take n payload)))"

text \<open>The two checks after the cipher, and the step to the next sequence number.\<close>

definition finish_record ::
  "halfConn \<Rightarrow> bytes \<Rightarrow> byte \<Rightarrow> opened \<Rightarrow> ((byte + bytes \<times> byte) \<times> halfConn) option" where
  "finish_record hc hdr typ op =
     (case check_mac hc hdr op of
        Inl e \<Rightarrow> Some (Inl e, hc)
      | Inr plaintext \<Rightarrow>
          (case incSeq hc of
             None \<Rightarrow> None
           | Some hc' \<Rightarrow> Some (Inr (plaintext, typ), hc')))"

definition decrypt :: "halfConn \<Rightarrow> bytes \<Rightarrow> ((byte + bytes \<times> byte) \<times> halfConn) option" where
  "decrypt hc rec =
     (if length rec < recordHeaderLen then None
      else
        let typ = rec ! 0; hdr = take recordHeaderLen rec; payload = drop recordHeaderLen rec
        in if hc_version hc = VersionTLS13 \<and> typ = recordTypeChangeCipherSpec
           then Some (Inr (payload, typ), hc)
           else
             (case hc_cipher hc of
                None \<Rightarrow> finish_record hc hdr typ
                  \<lparr>op_plaintext = payload, op_payload = payload, op_paddingLen = 0, op_paddingGood = 255\<rparr>
              | Some c \<Rightarrow>
                  (case unprotect hc c hdr payload of
                     None \<Rightarrow> None
                   | Some (Inl e, hc') \<Rightarrow> Some (Inl e, hc')
                   | Some (Inr op, hc') \<Rightarrow>
                       if hc_version hc = VersionTLS13 then
                         (case inner_type (op_plaintext op) typ of
                            Inl e \<Rightarrow> Some (Inl e, hc')
                          | Inr (plaintext, typ') \<Rightarrow>
                              finish_record hc' hdr typ' (op\<lparr>op_plaintext := plaintext\<rparr>))
                       else finish_record hc' hdr typ op)))"

section \<open>Encryption\<close>

text \<open>\<open>io.ReadFull(rand, buf)\<close>: the random source gives the requested bytes or fails.\<close>

type_synonym rand_source = "nat \<Rightarrow> bytes option"

definition tls10MAC :: "mac_prim \<Rightarrow> bytes \<Rightarrow> bytes \<Rightarrow> bytes \<Rightarrow> bytes" where
  "tls10MAC m seq header data = mac_sum m (seq @ header @ data)"

definition is_CBC :: "cipher_state \<Rightarrow> bool" where
  "is_CBC c = (case c of CBCEncrypter _ _ \<Rightarrow> True | CBCDecrypter _ _ \<Rightarrow> True | _ \<Rightarrow> False)"

definition explicitNonce :: "halfConn \<Rightarrow> cipher_state \<Rightarrow> rand_source \<Rightarrow> bytes option" where
  "explicitNonce hc c rnd =
     (let enl = explicitNonceLen hc
      in if enl = 0 then Some []
         else if \<not> is_CBC c \<and> enl < 16 then Some (go_copy (replicate enl 0) (hc_seq hc))
         else rnd enl)"

text \<open>\<open>record[3]\<close>, \<open>record[4]\<close>: the length field.\<close>

definition set_length :: "bytes \<Rightarrow> nat \<Rightarrow> bytes" where
  "set_length rec n = rec[3 := word_of_nat (n div 256), 4 := word_of_nat n]"

text \<open>
  Appending the protected payload to the record, which starts with the header and, if there is one, the explicit
  nonce. A record of fewer than five bytes panics in every branch.
\<close>

definition seal_aead ::
  "halfConn \<Rightarrow> bytes \<Rightarrow> bytes \<Rightarrow> bytes \<Rightarrow> (bytes \<Rightarrow> bytes \<Rightarrow> bytes \<Rightarrow> bytes) \<Rightarrow> nat \<Rightarrow> bytes option" where
  "seal_aead hc rec eNonce payload aseal overhead =
     (let nonce = (if eNonce = [] then hc_seq hc else eNonce)
      in if hc_version hc = VersionTLS13 then
           (let r1 = rec @ payload in
            if length r1 < recordHeaderLen - 1 then None
            else let r2 = r1 @ [r1 ! 0];
                     r3 = set_length (r2[0 := recordTypeApplicationData]) (length payload + 1 + overhead);
                     hdr = take recordHeaderLen r3
                 in Some (hdr @ aseal nonce (drop recordHeaderLen r3) hdr))
         else if length rec < recordHeaderLen then None
         else Some (rec @ aseal nonce payload (hc_seq hc @ take recordHeaderLen rec)))"

definition seal_cbc ::
  "halfConn \<Rightarrow> (nat \<Rightarrow> bytes \<Rightarrow> bytes \<Rightarrow> bytes \<times> bytes) \<Rightarrow> nat \<Rightarrow> bytes \<Rightarrow> bytes \<Rightarrow> bytes \<Rightarrow> bytes \<Rightarrow>
     (bytes \<times> bytes) option" where
  "seal_cbc hc crypt bs iv rec eNonce payload =
     (case hc_mac hc of
        None \<Rightarrow> None
      | Some m \<Rightarrow>
          if length rec < recordHeaderLen then None
          else
            let mac = tls10MAC m (hc_seq hc) (take recordHeaderLen rec) payload;
                plaintextLen = length payload + length mac;
                paddingLen = bs - plaintextLen mod bs;
                dst = payload @ mac @ replicate paddingLen (word_of_nat (paddingLen - 1));
                (out, iv') = crypt (length dst div bs) (if eNonce = [] then iv else eNonce) dst
            in Some (rec @ out, iv'))"

definition protect ::
  "halfConn \<Rightarrow> cipher_state \<Rightarrow> bytes \<Rightarrow> bytes \<Rightarrow> bytes \<Rightarrow> (bytes \<times> cipher_state) option" where
  "protect hc c rec eNonce payload =
     (case c of
        StreamCipher ks pos \<Rightarrow>
          (case hc_mac hc of
             None \<Rightarrow> None
           | Some m \<Rightarrow>
               if length rec < recordHeaderLen then None
               else
                 let mac = tls10MAC m (hc_seq hc) (take recordHeaderLen rec) payload;
                     dst1 = XORKeyStream ks pos payload;
                     dst2 = XORKeyStream ks (pos + length payload) mac
                 in Some (rec @ dst1 @ dst2, StreamCipher ks (pos + length payload + length mac)))
      | PrefixNonceAEAD buf a \<Rightarrow>
          (let nonce = (if eNonce = [] then hc_seq hc else eNonce)
           in map_option (\<lambda>r. (r, PrefixNonceAEAD (prefix_nonce buf nonce) a))
                (seal_aead hc rec eNonce payload (\<lambda>nonce. aead_seal a (prefix_nonce buf nonce)) (aead_overhead a)))
      | XorNonceAEAD msk a \<Rightarrow>
          map_option (\<lambda>r. (r, c))
            (seal_aead hc rec eNonce payload (\<lambda>nonce. aead_seal a (xor_nonce msk nonce)) (aead_overhead a))
      | CBCEncrypter b iv \<Rightarrow>
          map_option (\<lambda>(r, iv'). (r, CBCEncrypter b iv'))
            (seal_cbc hc (cbc_encrypt b) (block_size b) iv rec eNonce payload)
      | CBCDecrypter b iv \<Rightarrow>
          map_option (\<lambda>(r, iv'). (r, CBCDecrypter b iv'))
            (seal_cbc hc (cbc_decrypt b) (block_size b) iv rec eNonce payload))"

definition encrypt ::
  "halfConn \<Rightarrow> bytes \<Rightarrow> bytes \<Rightarrow> rand_source \<Rightarrow> ((conn_error + bytes) \<times> halfConn) option" where
  "encrypt hc rec payload rnd =
     (case hc_cipher hc of
        None \<Rightarrow> Some (Inr (rec @ payload), hc)
      | Some c \<Rightarrow>
          (case explicitNonce hc c rnd of
             None \<Rightarrow> Some (Inl RandError, hc)
           | Some eNonce \<Rightarrow>
               (case protect hc c (rec @ eNonce) eNonce payload of
                  None \<Rightarrow> None
                | Some (r, c') \<Rightarrow>
                    map_option (\<lambda>hc'. (Inr (set_length r (length r - recordHeaderLen)), hc'))
                      (incSeq (hc\<lparr>hc_cipher := Some c'\<rparr>)))))"

end
