(* ===== verification/Conn.thy ===== *)
theory Conn
  imports HalfConn Manager
begin

text \<open>
  The connection (\<open>conn.go\<close>, type \<open>Conn\<close>): writing and reading records, alerts, closing, and the
  \<open>Read\<close> and \<open>Write\<close> that go through the Disguise manager. One call runs at a time: the mutexes
  of the two directions are not part of the state. \<^term>\<open>None\<close> is a panic.

  The peer is a sequence of byte chunks, the results of the successive \<open>Read\<close> calls on the network
  connection, then an error (\<open>EOF\<close> or a network error). Writing may fail at any call. The random
  source is a function of the number of draws.
\<close>

record network =
  nw_chunks :: "bytes list"
  nw_end :: conn_error
  nw_temporary :: "nat \<Rightarrow> bool"
  nw_sent :: "bytes list"
  nw_writes :: nat
  nw_fail :: "nat \<Rightarrow> (nat \<times> conn_error) option"
  nw_rand :: "nat \<Rightarrow> rand_source"
  nw_draws :: nat
  nw_closed :: nat
  nw_close_err :: "conn_error option"

record conn =
  c_isClient :: bool
  c_complete :: bool
  c_handshakeErr :: "conn_error option"
  c_handshakes :: nat
  c_vers :: u16
  c_haveVers :: bool
  c_sizingDisabled :: bool
  c_cipherSuite :: u16
  c_in :: halfConn
  c_out :: halfConn
  c_rawInput :: bytes
  c_input :: bytes
  c_hand :: bytes
  c_buffering :: bool
  c_sendBuf :: bytes
  c_bytesSent :: int
  c_packetsSent :: int
  c_retryCount :: nat
  c_closeNotifySent :: bool
  c_closeNotifyErr :: "conn_error option"
  c_activeCall :: "32 word"
  c_net :: network

section \<open>Writing\<close>

definition tcpMSSEstimate :: int where "tcpMSSEstimate = 1208"
definition recordSizeBoostThreshold :: int where "recordSizeBoostThreshold = 128 * 1024"

text \<open>\<open>c.conn.Write\<close>: all bytes, or a prefix and an error.\<close>

definition net_Write :: "bytes \<Rightarrow> network \<Rightarrow> (nat \<times> conn_error option) \<times> network" where
  "net_Write data nw =
     (let nw' = nw\<lparr>nw_writes := Suc (nw_writes nw)\<rparr>
      in case nw_fail nw (nw_writes nw) of
           None \<Rightarrow> ((length data, None), nw'\<lparr>nw_sent := nw_sent nw @ [data]\<rparr>)
         | Some (k, e) \<Rightarrow>
             ((min k (length data), Some e), nw'\<lparr>nw_sent := nw_sent nw @ [take k data]\<rparr>))"

text \<open>The record payload that fits one TCP segment under the current cipher.\<close>

definition payloadBytes :: "conn \<Rightarrow> int option" where
  "payloadBytes c =
     (let p = tcpMSSEstimate - int recordHeaderLen - int (explicitNonceLen (c_out c));
          msize = map_option (int \<circ> mac_size) (hc_mac (c_out c));
          p1 = (case hc_cipher (c_out c) of
                  None \<Rightarrow> Some p
                | Some (StreamCipher _ _) \<Rightarrow> map_option (\<lambda>s. p - s) msize
                | Some (PrefixNonceAEAD _ a) \<Rightarrow> Some (p - int (aead_overhead a))
                | Some (XorNonceAEAD _ a) \<Rightarrow> Some (p - int (aead_overhead a))
                | Some (CBCEncrypter b _) \<Rightarrow> map_option (\<lambda>s. (p AND NOT (int (block_size b) - 1)) - 1 - s) msize
                | Some (CBCDecrypter b _) \<Rightarrow> map_option (\<lambda>s. (p AND NOT (int (block_size b) - 1)) - 1 - s) msize)
      in map_option (\<lambda>p. if c_vers c = VersionTLS13 then p - 1 else p) p1)"

definition maxPayloadSizeForWrite :: "byte \<Rightarrow> conn \<Rightarrow> (int \<times> conn) option" where
  "maxPayloadSizeForWrite typ c =
     (if c_sizingDisabled c \<or> typ \<noteq> recordTypeApplicationData then Some (int maxPlaintext, c)
      else if c_bytesSent c \<ge> recordSizeBoostThreshold then Some (int maxPlaintext, c)
      else case payloadBytes c of
             None \<Rightarrow> None
           | Some p \<Rightarrow>
               (let pkt = c_packetsSent c; c' = c\<lparr>c_packetsSent := pkt + 1\<rparr>
                in if pkt > 1000 then Some (int maxPlaintext, c')
                   else let n = p * (pkt + 1)
                        in Some ((if n > int maxPlaintext then int maxPlaintext else n), c')))"

definition conn_write :: "bytes \<Rightarrow> conn \<Rightarrow> (nat \<times> conn_error option) \<times> conn" where
  "conn_write data c =
     (if c_buffering c then ((length data, None), c\<lparr>c_sendBuf := c_sendBuf c @ data\<rparr>)
      else let ((n, err), nw) = net_Write data (c_net c)
           in ((n, err), c\<lparr>c_bytesSent := c_bytesSent c + int n, c_net := nw\<rparr>))"

definition flush :: "conn \<Rightarrow> (nat \<times> conn_error option) \<times> conn" where
  "flush c =
     (if length (c_sendBuf c) = 0 then ((0, None), c)
      else let ((n, err), nw) = net_Write (c_sendBuf c) (c_net c)
           in ((n, err), c\<lparr>c_bytesSent := c_bytesSent c + int n, c_sendBuf := [],
                         c_buffering := False, c_net := nw\<rparr>))"

text \<open>The version bytes of a record header.\<close>

definition record_version :: "conn \<Rightarrow> u16" where
  "record_version c =
     (if c_vers c = 0 then VersionTLS10
      else if c_vers c = VersionTLS13 then VersionTLS12 else c_vers c)"

definition record_header :: "byte \<Rightarrow> u16 \<Rightarrow> nat \<Rightarrow> bytes" where
  "record_header typ vers m =
     [typ, ucast (drop_bit 8 vers), ucast vers, word_of_nat (m div 256), word_of_nat m]"

definition encrypt_out :: "bytes \<Rightarrow> bytes \<Rightarrow> conn \<Rightarrow> ((conn_error + bytes) \<times> conn) option" where
  "encrypt_out rec payload c =
     (let nw = c_net c
      in map_option (\<lambda>(r, hc). (r, c\<lparr>c_out := hc, c_net := nw\<lparr>nw_draws := Suc (nw_draws nw)\<rparr>\<rparr>))
           (encrypt (c_out c) rec payload (nw_rand nw (nw_draws nw))))"

text \<open>
  The loop of \<open>writeRecordLocked\<close>. A payload size that is not positive would panic (negative) or
  loop for ever (zero): both are \<^term>\<open>None\<close>; \<open>payloadBytes\<close> is positive for every cipher of the
  package.
\<close>

function write_records ::
  "byte \<Rightarrow> nat \<Rightarrow> bytes \<Rightarrow> conn \<Rightarrow> ((nat \<times> conn_error option) \<times> conn) option" where
  "write_records typ n data c =
     (if data = [] then Some ((n, None), c)
      else case maxPayloadSizeForWrite typ c of
             None \<Rightarrow> None
           | Some (maxPayload, c1) \<Rightarrow>
               (let m = (if int (length data) > maxPayload then maxPayload else int (length data))
                in if m \<le> 0 then None
                   else case encrypt_out (record_header typ (record_version c1) (nat m)) (take (nat m) data) c1 of
                          None \<Rightarrow> None
                        | Some (Inl e, c2) \<Rightarrow> Some ((n, Some e), c2)
                        | Some (Inr outBuf, c2) \<Rightarrow>
                            (case conn_write outBuf c2 of
                               ((_, Some e), c3) \<Rightarrow> Some ((n, Some e), c3)
                             | ((_, None), c3) \<Rightarrow> write_records typ (n + nat m) (drop (nat m) data) c3)))"
  by pat_completeness auto
termination by (relation "measure (\<lambda>(typ, n, data, c). length data)") auto

declare write_records.simps [simp del]

definition set_out_err :: "conn_error \<Rightarrow> conn \<Rightarrow> conn" where
  "set_out_err e c = c\<lparr>c_out := snd (setErrorLocked e (c_out c))\<rparr>"

definition set_in_err :: "conn_error \<Rightarrow> conn \<Rightarrow> conn_error \<times> conn" where
  "set_in_err e c = (let (e', hc) = setErrorLocked e (c_in c) in (e', c\<lparr>c_in := hc\<rparr>))"

text \<open>
  \<open>sendAlertLocked\<close> writes an alert record, which cannot be a change of cipher spec, so the
  mutual recursion with \<open>writeRecordLocked\<close> ends here.
\<close>

definition alert_level :: "byte \<Rightarrow> byte" where
  "alert_level e =
     (if e = alertNoRenegotiation \<or> e = alertCloseNotify then alertLevelWarning else alertLevelError)"

definition sendAlertLocked :: "byte \<Rightarrow> conn \<Rightarrow> (conn_error option \<times> conn) option" where
  "sendAlertLocked e c =
     (case write_records recordTypeAlert 0 [alert_level e, e] c of
        None \<Rightarrow> None
      | Some ((_, writeErr), c') \<Rightarrow>
          if e = alertCloseNotify then Some (writeErr, c')
          else Some (Some (LocalError e), set_out_err (LocalError e) c'))"

definition writeRecordLocked ::
  "byte \<Rightarrow> bytes \<Rightarrow> conn \<Rightarrow> ((nat \<times> conn_error option) \<times> conn) option" where
  "writeRecordLocked typ data c =
     (case write_records typ 0 data c of
        None \<Rightarrow> None
      | Some ((n, Some e), c') \<Rightarrow> Some ((n, Some e), c')
      | Some ((n, None), c') \<Rightarrow>
          if typ = recordTypeChangeCipherSpec \<and> c_vers c' \<noteq> VersionTLS13 then
            (case changeCipherSpec (c_out c') of
               Inl a \<Rightarrow> map_option (\<lambda>(e, c''). ((n, e), c'')) (sendAlertLocked a c')
             | Inr hc \<Rightarrow> Some ((n, None), c'\<lparr>c_out := hc\<rparr>))
          else Some ((n, None), c'))"

section \<open>Closing\<close>

text \<open>The write deadlines of \<open>closeNotify\<close> are left to the network.\<close>

definition closeNotify :: "conn \<Rightarrow> (conn_error option \<times> conn) option" where
  "closeNotify c =
     (if \<not> c_closeNotifySent c then
        (case sendAlertLocked alertCloseNotify c of
           None \<Rightarrow> None
         | Some (e, c') \<Rightarrow> Some (e, c'\<lparr>c_closeNotifyErr := e, c_closeNotifySent := True\<rparr>))
      else Some (c_closeNotifyErr c, c))"

definition CloseWrite :: "conn \<Rightarrow> (conn_error option \<times> conn) option" where
  "CloseWrite c =
     (if \<not> c_complete c then Some (Some (OtherError ''CloseWrite called before handshake complete''), c)
      else closeNotify c)"

definition net_Close :: "conn \<Rightarrow> conn_error option \<times> conn" where
  "net_Close c = (nw_close_err (c_net c), c\<lparr>c_net := (c_net c)\<lparr>nw_closed := Suc (nw_closed (c_net c))\<rparr>\<rparr>)"

text \<open>
  \<open>Close\<close>: the low bit of \<open>activeCall\<close> marks the connection as closed. Without concurrent callers
  the compare-and-swap succeeds at once.
\<close>

definition Close :: "conn \<Rightarrow> (conn_error option \<times> conn) option" where
  "Close c =
     (let x = c_activeCall c
      in if x AND 1 \<noteq> 0 then Some (Some (OtherError ''use of closed network connection''), c)
         else
           let c1 = c\<lparr>c_activeCall := x OR 1\<rparr>
           in if x \<noteq> 0 then Some (net_Close c1)
              else
                (case (if c_complete c1 then closeNotify c1 else Some (None, c1)) of
                   None \<Rightarrow> None
                 | Some (alertErr, c2) \<Rightarrow>
                     (case net_Close c2 of
                        (Some e, c3) \<Rightarrow> Some (Some e, c3)
                      | (None, c3) \<Rightarrow>
                          Some (map_option (\<lambda>_. OtherError ''failed to send closeNotify alert'') alertErr, c3))))"

section \<open>Reading records\<close>

text \<open>
  \<open>readFromUntil\<close>: read until \<open>n\<close> bytes are buffered. A chunk may bring more than needed; an early
  end of the input is \<open>ErrUnexpectedEOF\<close>. What was read stays in the buffer.
\<close>

fun read_until :: "nat \<Rightarrow> bytes \<Rightarrow> bytes list \<Rightarrow> conn_error \<Rightarrow> conn_error option \<times> bytes \<times> bytes list" where
  "read_until n raw chunks e =
     (if n \<le> length raw then (None, raw, chunks)
      else case chunks of
             [] \<Rightarrow> (Some (if e = EOF then UnexpectedEOF else e), raw, [])
           | ch # rest \<Rightarrow> read_until n (raw @ ch) rest e)"

declare read_until.simps [simp del]

definition readFromUntil :: "nat \<Rightarrow> conn \<Rightarrow> conn_error option \<times> conn" where
  "readFromUntil n c =
     (let (e, raw, chunks) = read_until n (c_rawInput c) (nw_chunks (c_net c)) (nw_end (c_net c))
      in (e, c\<lparr>c_rawInput := raw, c_net := (c_net c)\<lparr>nw_chunks := chunks\<rparr>\<rparr>))"

text \<open>A failed read: permanent, unless it is a temporary network error.\<close>

definition temporary :: "network \<Rightarrow> conn_error \<Rightarrow> bool" where
  "temporary nw e = (case e of NetError k \<Rightarrow> nw_temporary nw k | _ \<Rightarrow> False)"

definition read_failed :: "conn_error \<Rightarrow> conn \<Rightarrow> conn_error option \<times> conn" where
  "read_failed e c =
     (if temporary (c_net c) e then (Some e, c) else let (e', c') = set_in_err e c in (Some e, c'))"

text \<open>\<open>return c.in.setErrorLocked(c.sendAlert(a))\<close>.\<close>

definition fail_alert :: "byte \<Rightarrow> conn \<Rightarrow> (conn_error option \<times> conn) option" where
  "fail_alert a c =
     (case sendAlertLocked a c of
        None \<Rightarrow> None
      | Some (None, c') \<Rightarrow> Some (None, c'\<lparr>c_in := (c_in c')\<lparr>hc_err := None\<rparr>\<rparr>)
      | Some (Some e, c') \<Rightarrow> (let (e', c'') = set_in_err e c' in Some (Some e', c'')))"

text \<open>\<open>c.sendAlert(a); return c.in.setErrorLocked(err)\<close>.\<close>

definition alert_then_fail :: "byte \<Rightarrow> conn_error \<Rightarrow> conn \<Rightarrow> (conn_error option \<times> conn) option" where
  "alert_then_fail a e c =
     (case sendAlertLocked a c of
        None \<Rightarrow> None
      | Some (_, c') \<Rightarrow> (let (e', c'') = set_in_err e c' in Some (Some e', c'')))"

definition fail_with :: "conn_error \<Rightarrow> conn \<Rightarrow> (conn_error option \<times> conn) option" where
  "fail_with e c = (let (e', c') = set_in_err e c in Some (Some e', c'))"

text \<open>
  One record: either the call ends with an error or with success (\<open>Done None\<close>), or the record is
  dropped and the next one is read (\<open>Retry\<close>).
\<close>

datatype read_outcome = Done "conn_error option" | Retry

abbreviation done_with :: "(conn_error option \<times> conn) option \<Rightarrow> (read_outcome \<times> conn) option" where
  "done_with r \<equiv> map_option (\<lambda>(e, c). (Done e, c)) r"

definition process_alert :: "bytes \<Rightarrow> conn \<Rightarrow> (read_outcome \<times> conn) option" where
  "process_alert data c =
     (if length data \<noteq> 2 then done_with (fail_alert alertUnexpectedMessage c)
      else if data ! 1 = alertCloseNotify then done_with (fail_with EOF c)
      else if c_vers c = VersionTLS13 then done_with (fail_with (RemoteError (data ! 1)) c)
      else if data ! 0 = alertLevelWarning then Some (Retry, c)
      else if data ! 0 = alertLevelError then done_with (fail_with (RemoteError (data ! 1)) c)
      else done_with (fail_alert alertUnexpectedMessage c))"

definition process_ccs :: "bool \<Rightarrow> bytes \<Rightarrow> conn \<Rightarrow> (read_outcome \<times> conn) option" where
  "process_ccs expectCCS data c =
     (if length data \<noteq> 1 \<or> data ! 0 \<noteq> 1 then done_with (fail_alert alertDecodeError c)
      else if length (c_hand c) > 0 then done_with (fail_alert alertUnexpectedMessage c)
      else if c_vers c = VersionTLS13 then Some (Retry, c)
      else if \<not> expectCCS then done_with (fail_alert alertUnexpectedMessage c)
      else (case changeCipherSpec (c_in c) of
              Inl a \<Rightarrow> done_with (fail_alert a c)
            | Inr hc \<Rightarrow> Some (Done None, c\<lparr>c_in := hc\<rparr>)))"

text \<open>The code after decryption.\<close>

definition process_record :: "bool \<Rightarrow> bytes \<Rightarrow> byte \<Rightarrow> conn \<Rightarrow> (read_outcome \<times> conn) option" where
  "process_record expectCCS data typ c0 =
     (if length data > maxPlaintext then done_with (fail_alert alertRecordOverflow c0)
      else if hc_cipher (c_in c0) = None \<and> typ = recordTypeApplicationData
      then done_with (fail_alert alertUnexpectedMessage c0)
      else
        let c = (if typ \<noteq> recordTypeAlert \<and> typ \<noteq> recordTypeChangeCipherSpec \<and> length data > 0
                 then c0\<lparr>c_retryCount := 0\<rparr> else c0)
        in if c_vers c = VersionTLS13 \<and> typ \<noteq> recordTypeHandshake \<and> length (c_hand c) > 0
           then done_with (fail_alert alertUnexpectedMessage c)
           else if typ = recordTypeAlert then process_alert data c
           else if typ = recordTypeChangeCipherSpec then process_ccs expectCCS data c
           else if typ = recordTypeApplicationData then
             (if \<not> c_complete c \<or> expectCCS then done_with (fail_alert alertUnexpectedMessage c)
              else if length data = 0 then Some (Retry, c)
              else Some (Done None, c\<lparr>c_input := data\<rparr>))
           else if typ = recordTypeHandshake then
             (if length data = 0 \<or> expectCCS then done_with (fail_alert alertUnexpectedMessage c)
              else Some (Done None, c\<lparr>c_hand := c_hand c @ data\<rparr>))
           else done_with (fail_alert alertUnexpectedMessage c))"

text \<open>The body of a record of length \<open>n\<close>, and the checks on its header before.\<close>

definition read_payload :: "bool \<Rightarrow> nat \<Rightarrow> conn \<Rightarrow> (read_outcome \<times> conn) option" where
  "read_payload expectCCS n c =
     (case readFromUntil (recordHeaderLen + n) c of
        (Some e, c1) \<Rightarrow> (let (e', c2) = read_failed e c1 in Some (Done e', c2))
      | (None, c1) \<Rightarrow>
          (let rec = take (recordHeaderLen + n) (c_rawInput c1);
               c2 = c1\<lparr>c_rawInput := drop (recordHeaderLen + n) (c_rawInput c1)\<rparr>
           in case decrypt (c_in c2) rec of
                None \<Rightarrow> None
              | Some (Inl a, hc) \<Rightarrow> done_with (fail_alert a (c2\<lparr>c_in := hc\<rparr>))
              | Some (Inr (data, typ'), hc) \<Rightarrow> process_record expectCCS data typ' (c2\<lparr>c_in := hc\<rparr>)))"

definition read_body :: "bool \<Rightarrow> conn \<Rightarrow> (read_outcome \<times> conn) option" where
  "read_body expectCCS c =
     (let hdr = take recordHeaderLen (c_rawInput c); typ = hdr ! 0;
          vers = word_of_nat (be_dec [hdr ! 1, hdr ! 2]) :: u16; n = be_dec [hdr ! 3, hdr ! 4]
      in if \<not> c_complete c \<and> typ = 0x80
         then done_with (alert_then_fail alertProtocolVersion (RecordHeaderError ''unsupported SSLv2 handshake received'') c)
         else if c_haveVers c \<and> c_vers c \<noteq> VersionTLS13 \<and> vers \<noteq> c_vers c
         then done_with (alert_then_fail alertProtocolVersion (RecordHeaderError ''received record with wrong version'') c)
         else if \<not> c_haveVers c \<and> (typ \<noteq> recordTypeAlert \<and> typ \<noteq> recordTypeHandshake \<or> vers \<ge> 0x1000)
         then done_with (fail_with (RecordHeaderError ''first record does not look like a TLS handshake'') c)
         else if c_vers c = VersionTLS13 \<and> n > maxCiphertextTLS13 \<or> n > maxCiphertext
         then done_with (alert_then_fail alertRecordOverflow (RecordHeaderError ''oversized record received'') c)
         else read_payload expectCCS n c)"

definition read_one :: "bool \<Rightarrow> conn \<Rightarrow> (read_outcome \<times> conn) option" where
  "read_one expectCCS c =
     (case hc_err (c_in c) of
        Some e \<Rightarrow> Some (Done (Some e), c)
      | None \<Rightarrow>
          if length (c_input c) \<noteq> 0
          then done_with (fail_with (OtherError ''attempted to read record with pending application data'') c)
          else
            (case readFromUntil recordHeaderLen c of
               (Some e, c1) \<Rightarrow>
                 (let e1 = (if e = UnexpectedEOF \<and> length (c_rawInput c1) = 0 then EOF else e);
                      (e', c2) = read_failed e1 c1
                  in Some (Done e', c2))
             | (None, c1) \<Rightarrow> read_body expectCCS c1))"

text \<open>A dropped record leaves the retry counter to \<open>retryReadRecord\<close>.\<close>

lemma done_with_Retry [simp]: "done_with r \<noteq> Some (Retry, c')"
  by (auto split: prod.splits)

lemma process_alert_Retry: "process_alert data c = Some (Retry, c') \<Longrightarrow> c' = c"
  by (auto simp: process_alert_def split: if_splits)

lemma process_ccs_Retry: "process_ccs e data c = Some (Retry, c') \<Longrightarrow> c' = c"
  by (auto simp: process_ccs_def split: if_splits sum.splits)

lemma process_record_Retry:
  "process_record e data typ c = Some (Retry, c') \<Longrightarrow> c_retryCount c' = c_retryCount c"
  by (auto simp: process_record_def Let_def split: if_splits
      dest!: process_alert_Retry process_ccs_Retry)

lemma readFromUntil_retryCount: "readFromUntil n c = (e, c') \<Longrightarrow> c_retryCount c' = c_retryCount c"
  by (auto simp: readFromUntil_def case_prod_unfold Let_def)

lemma read_payload_Retry:
  "read_payload e n c = Some (Retry, c') \<Longrightarrow> c_retryCount c' = c_retryCount c"
  by (auto simp: read_payload_def Let_def split: option.splits sum.splits prod.splits
      dest!: process_record_Retry readFromUntil_retryCount)

lemma read_body_Retry: "read_body e c = Some (Retry, c') \<Longrightarrow> c_retryCount c' = c_retryCount c"
  by (auto simp: read_body_def Let_def split: if_splits dest!: read_payload_Retry)

lemma read_one_Retry: "read_one e c = Some (Retry, c') \<Longrightarrow> c_retryCount c' = c_retryCount c"
  by (auto simp: read_one_def Let_def split: if_splits option.splits prod.splits
      dest!: read_body_Retry readFromUntil_retryCount)

text \<open>
  \<open>readRecordOrCCS\<close> and \<open>retryReadRecord\<close>: at most \<open>maxUselessRecords\<close> records in a row are
  dropped, which also bounds the recursion.
\<close>

function readRecordOrCCS :: "bool \<Rightarrow> conn \<Rightarrow> (conn_error option \<times> conn) option" where
  "readRecordOrCCS expectCCS c =
     (case read_one expectCCS c of
        None \<Rightarrow> None
      | Some (Done e, c') \<Rightarrow> Some (e, c')
      | Some (Retry, c') \<Rightarrow>
          if c_retryCount c' + 1 > maxUselessRecords
          then alert_then_fail alertUnexpectedMessage (OtherError ''too many ignored records'')
                 (c'\<lparr>c_retryCount := c_retryCount c' + 1\<rparr>)
          else readRecordOrCCS expectCCS (c'\<lparr>c_retryCount := c_retryCount c' + 1\<rparr>))"
  by pat_completeness auto
termination by (relation "measure (\<lambda>(e, c). maxUselessRecords + 1 - c_retryCount c)")
    (auto dest!: read_one_Retry)

declare readRecordOrCCS.simps [simp del]

definition readRecord :: "conn \<Rightarrow> (conn_error option \<times> conn) option" where
  "readRecord = readRecordOrCCS False"

definition readChangeCipherSpec :: "conn \<Rightarrow> (conn_error option \<times> conn) option" where
  "readChangeCipherSpec = readRecordOrCCS True"

end
