(* ===== verification/ConnIO.thy ===== *)
theory ConnIO
  imports Conn ManagerLemmas
begin

text \<open>
  The loops of the connection: how much input a read consumes, the handshake buffer, and the
  application's \<open>Read\<close> and \<open>Write\<close> through the Disguise manager (\<open>conn.go\<close>, from line 1018).
\<close>

section \<open>Input that is still to be read\<close>

definition pending :: "conn \<Rightarrow> nat" where
  "pending c = length (c_rawInput c) + sum_list (map length (nw_chunks (c_net c)))"

lemma pending_simps [simp]:
  "pending (c\<lparr>c_in := h\<rparr>) = pending c" "pending (c\<lparr>c_out := h\<rparr>) = pending c"
  "pending (c\<lparr>c_retryCount := k\<rparr>) = pending c" "pending (c\<lparr>c_input := i\<rparr>) = pending c"
  "pending (c\<lparr>c_hand := i\<rparr>) = pending c"
  by (simp_all add: pending_def)

text \<open>Writing does not touch what reading depends on.\<close>

definition read_side :: "conn \<Rightarrow> _" where
  "read_side c = (c_in c, c_rawInput c, c_input c, c_hand c, c_retryCount c, c_complete c, c_vers c,
     c_activeCall c, c_closeNotifySent c, c_handshakeErr c, nw_chunks (c_net c), nw_temporary (c_net c),
     nw_closed (c_net c))"

lemma read_side_simps [simp]:
  "read_side (c\<lparr>c_out := h\<rparr>) = read_side c" "read_side (c\<lparr>c_packetsSent := i\<rparr>) = read_side c"
  by (simp_all add: read_side_def)

lemma pending_cong:
  "c_rawInput c' = c_rawInput c \<Longrightarrow> nw_chunks (c_net c') = nw_chunks (c_net c) \<Longrightarrow> pending c' = pending c"
  by (simp add: pending_def)

lemma read_side_pending: "read_side c' = read_side c \<Longrightarrow> pending c' = pending c"
  by (simp add: read_side_def pending_def)

lemma net_Write_chunks [simp]: "nw_chunks (snd (net_Write data nw)) = nw_chunks nw"
  "nw_temporary (snd (net_Write data nw)) = nw_temporary nw"
  "nw_closed (snd (net_Write data nw)) = nw_closed nw"
  by (auto simp: net_Write_def Let_def split: option.splits)

lemma conn_write_read_side: "conn_write data c = (r, c') \<Longrightarrow> read_side c' = read_side c"
  by (auto simp: conn_write_def case_prod_unfold Let_def read_side_def split: if_splits)

lemma encrypt_out_read_side: "encrypt_out rec p c = Some (r, c') \<Longrightarrow> read_side c' = read_side c"
  by (auto simp: encrypt_out_def Let_def read_side_def)

lemma maxPayload_read_side: "maxPayloadSizeForWrite t c = Some (n, c') \<Longrightarrow> read_side c' = read_side c"
  by (auto simp: maxPayloadSizeForWrite_def Let_def split: if_splits option.splits)

text \<open>One round of the loop.\<close>

lemma write_records_round:
  assumes "write_records t n data c = Some (r, c')" and "data \<noteq> []"
  obtains (round) mp c1 m er c2 where "maxPayloadSizeForWrite t c = Some (mp, c1)"
    and "m = (if int (length data) > mp then mp else int (length data))" and "\<not> m \<le> 0"
    and "encrypt_out (record_header t (record_version c1) (nat m)) (take (nat m) data) c1 = Some (er, c2)"
    and "(\<exists>e. er = Inl e \<and> r = (n, Some e) \<and> c' = c2) \<or>
      (\<exists>outBuf k e c3. er = Inr outBuf \<and> conn_write outBuf c2 = ((k, e), c3) \<and>
         (case e of Some x \<Rightarrow> r = (n, Some x) \<and> c' = c3
          | None \<Rightarrow> write_records t (n + nat m) (drop (nat m) data) c3 = Some (r, c')))"
proof -
  from assms obtain mp c1 where mp: "maxPayloadSizeForWrite t c = Some (mp, c1)"
    by (auto simp: write_records.simps [of t n data c] split: option.splits)
  obtain m where m: "m = (if int (length data) > mp then mp else int (length data))" by blast
  have eq: "(if m \<le> 0 then None
     else case encrypt_out (record_header t (record_version c1) (nat m)) (take (nat m) data) c1 of
            None \<Rightarrow> None
          | Some (Inl e, c2) \<Rightarrow> Some ((n, Some e), c2)
          | Some (Inr outBuf, c2) \<Rightarrow>
              (case conn_write outBuf c2 of
                 ((_, Some e), c3) \<Rightarrow> Some ((n, Some e), c3)
               | ((_, None), c3) \<Rightarrow> write_records t (n + nat m) (drop (nat m) data) c3)) = Some (r, c')"
    using assms by (simp only: write_records.simps [of t n data c] mp if_False option.case prod.case Let_def m)
  then have pos: "\<not> m \<le> 0" by (auto split: if_splits)
  with eq obtain er c2 where
    en: "encrypt_out (record_header t (record_version c1) (nat m)) (take (nat m) data) c1 = Some (er, c2)"
    by (auto split: option.splits)
  from eq pos en have "(\<exists>e. er = Inl e \<and> r = (n, Some e) \<and> c' = c2) \<or>
      (\<exists>outBuf k e c3. er = Inr outBuf \<and> conn_write outBuf c2 = ((k, e), c3) \<and>
         (case e of Some x \<Rightarrow> r = (n, Some x) \<and> c' = c3
          | None \<Rightarrow> write_records t (n + nat m) (drop (nat m) data) c3 = Some (r, c')))"
    by (auto split: sum.splits prod.splits option.splits)
  with mp m pos en show ?thesis by (rule round)
qed

lemma write_records_read_side:
  "write_records t n data c = Some (r, c') \<Longrightarrow> read_side c' = read_side c"
proof (induction "length data" arbitrary: data n c rule: less_induct)
  case less
  show ?case
  proof (cases "data = []")
    case True
    with less.prems show ?thesis by (simp add: write_records.simps)
  next
    case False
    from less.prems False show ?thesis
    proof (cases rule: write_records_round)
      case (round mp c1 m er c2)
      have "length (drop (nat m) data) < length data" using round(3) False by (cases data) auto
      with round(5) less.hyps [of "drop (nat m) data"] maxPayload_read_side [OF round(1)] encrypt_out_read_side [OF round(4)]
      show ?thesis by (auto dest!: conn_write_read_side split: option.splits)
    qed
  qed
qed

lemma sendAlert_read_side: "sendAlertLocked a c = Some (e, c') \<Longrightarrow> read_side c' = read_side c"
  by (auto simp: sendAlertLocked_def set_out_err_def setErrorLocked_def dest!: write_records_read_side
      split: option.splits if_splits)

lemma sendAlert_input: "sendAlertLocked a c = Some (e, c') \<Longrightarrow> pending c' = pending c"
  by (rule read_side_pending) (rule sendAlert_read_side)

lemma fail_alert_input: "fail_alert a c = Some (e, c') \<Longrightarrow> pending c' = pending c"
  by (auto simp: fail_alert_def set_in_err_def setErrorLocked_def Let_def dest!: sendAlert_input
      split: option.splits)

lemma alert_then_fail_input: "alert_then_fail a e0 c = Some (e, c') \<Longrightarrow> pending c' = pending c \<and> e \<noteq> None"
  by (auto simp: alert_then_fail_def set_in_err_def setErrorLocked_def Let_def dest!: sendAlert_input
      split: option.splits)

lemma fail_with_input: "fail_with e0 c = Some (e, c') \<Longrightarrow> pending c' = pending c \<and> e \<noteq> None"
  by (auto simp: fail_with_def set_in_err_def setErrorLocked_def pending_def)

lemma read_failed_input: "read_failed e0 c = (e, c') \<Longrightarrow> pending c' = pending c \<and> e \<noteq> None"
  by (auto simp: read_failed_def set_in_err_def setErrorLocked_def pending_def Let_def split: if_splits)

lemma read_until_pending:
  "read_until n raw chunks e0 = (e, raw', chunks') \<Longrightarrow>
     length raw' + sum_list (map length chunks') = length raw + sum_list (map length chunks) \<and>
     (e = None \<longrightarrow> n \<le> length raw')"
proof (induction chunks arbitrary: raw)
  case Nil
  then show ?case by (auto simp: read_until.simps [of n raw] split: if_splits)
next
  case (Cons ch chunks)
  show ?case
  proof (cases "n \<le> length raw")
    case True
    with Cons.prems show ?thesis by (simp add: read_until.simps)
  next
    case False
    with Cons.prems have "read_until n (raw @ ch) chunks e0 = (e, raw', chunks')"
      by (simp add: read_until.simps [of n raw])
    from Cons.IH [OF this] show ?thesis by simp
  qed
qed

lemma readFromUntil_pending:
  assumes "readFromUntil n c = (e, c')"
  shows "pending c' = pending c" and "e = None \<Longrightarrow> n \<le> length (c_rawInput c')"
  using assms read_until_pending [of n "c_rawInput c" "nw_chunks (c_net c)" "nw_end (c_net c)"]
  by (cases "read_until n (c_rawInput c) (nw_chunks (c_net c)) (nw_end (c_net c))";
      auto simp: readFromUntil_def pending_def Let_def case_prod_unfold)+

lemma process_pending:
  "process_alert data c = Some (r, c') \<Longrightarrow> pending c' = pending c"
  "process_ccs x data c = Some (r, c') \<Longrightarrow> pending c' = pending c"
  by (auto simp: process_alert_def process_ccs_def dest!: fail_alert_input fail_with_input
      split: if_splits sum.splits)

lemma process_record_pending: "process_record x data t c = Some (r, c') \<Longrightarrow> pending c' = pending c"
  by (auto simp: process_record_def Let_def split: if_splits dest!: fail_alert_input process_pending)

lemma read_payload_pending:
  assumes "read_payload x n c = Some (r, c')"
  shows "pending c' \<le> pending c \<and> (r = Done None \<or> r = Retry \<longrightarrow> pending c' < pending c)"
proof -
  obtain e c1 where rf: "readFromUntil (recordHeaderLen + n) c = (e, c1)" by fastforce
  note p = readFromUntil_pending [OF rf]
  show ?thesis
  proof (cases e)
    case (Some err)
    with assms p(1) rf show ?thesis
      by (auto simp: read_payload_def split: prod.splits dest!: read_failed_input)
  next
    case None
    let ?c2 = "c1\<lparr>c_rawInput := drop (recordHeaderLen + n) (c_rawInput c1)\<rparr>"
    have lt: "pending ?c2 < pending c"
      using p None by (simp add: pending_def recordHeaderLen_def)
    have hc: "pending (?c2\<lparr>c_in := h\<rparr>) = pending ?c2" for h by (rule pending_simps)
    from assms None rf obtain res hc2 where
      "decrypt (c_in ?c2) (take (recordHeaderLen + n) (c_rawInput c1)) = Some (res, hc2)"
      "(case res of Inl a \<Rightarrow> done_with (fail_alert a (?c2\<lparr>c_in := hc2\<rparr>))
        | Inr (data, t) \<Rightarrow> process_record x data t (?c2\<lparr>c_in := hc2\<rparr>)) = Some (r, c')"
      by (auto simp: read_payload_def Let_def split: option.splits prod.splits sum.splits)
    then have "pending c' = pending ?c2"
      using hc [of hc2] by (auto split: sum.splits prod.splits dest!: fail_alert_input process_record_pending)
    with lt show ?thesis by simp
  qed
qed

lemma read_body_pending:
  "read_body x c = Some (r, c') \<Longrightarrow> pending c' \<le> pending c \<and> (r = Done None \<or> r = Retry \<longrightarrow> pending c' < pending c)"
  by (auto simp: read_body_def Let_def simp del: be_dec.simps split: if_splits
      dest!: alert_then_fail_input fail_with_input read_payload_pending)

lemma read_one_pending:
  assumes "read_one x c = Some (r, c')"
  shows "pending c' \<le> pending c \<and> (r = Done None \<or> r = Retry \<longrightarrow> pending c' < pending c)"
proof (cases "hc_err (c_in c)")
  case (Some e)
  with assms show ?thesis by (auto simp: read_one_def)
next
  case None
  obtain e c1 where rf: "readFromUntil recordHeaderLen c = (e, c1)" by fastforce
  note p = readFromUntil_pending(1) [OF rf]
  from assms None rf p show ?thesis
    by (auto simp: read_one_def Let_def split: if_splits option.splits prod.splits
        dest!: fail_with_input read_failed_input read_body_pending)
qed

text \<open>A read that succeeds has consumed input.\<close>

lemma readRecordOrCCS_pending:
  "readRecordOrCCS x c = Some (e, c') \<Longrightarrow> pending c' \<le> pending c \<and> (e = None \<longrightarrow> pending c' < pending c)"
proof (induction x c arbitrary: e c' rule: readRecordOrCCS.induct)
  case (1 x c)
  from 1(2) obtain r c1 where r: "read_one x c = Some (r, c1)"
    by (auto simp: readRecordOrCCS.simps [of x c] split: option.splits)
  note p = read_one_pending [OF r]
  show ?case
  proof (cases r)
    case (Done e1)
    with 1(2) r p show ?thesis by (auto simp: readRecordOrCCS.simps [of x c])
  next
    case Retry
    let ?c = "c1\<lparr>c_retryCount := c_retryCount c1 + 1\<rparr>"
    have q: "pending ?c = pending c1" by (simp add: pending_def)
    show ?thesis
    proof (cases "c_retryCount c1 + 1 > maxUselessRecords")
      case True
      with 1(2) r Retry p q show ?thesis
        by (auto simp: readRecordOrCCS.simps [of x c] dest!: alert_then_fail_input)
    next
      case False
      with 1(2) r Retry have "readRecordOrCCS x ?c = Some (e, c')"
        by (simp add: readRecordOrCCS.simps [of x c])
      from 1(1) [OF r refl Retry False this] p q Retry show ?thesis by auto
    qed
  qed
qed

section \<open>Handshake data\<close>

lemma readRecord_pending: "readRecord c = Some (None, c') \<Longrightarrow> pending c' < pending c"
  using readRecordOrCCS_pending by (auto simp: readRecord_def)

text \<open>\<open>for c.hand.Len() < n { c.readRecord() }\<close>.\<close>

function read_hand :: "nat \<Rightarrow> conn \<Rightarrow> (conn_error option \<times> conn) option" where
  "read_hand n c =
     (if length (c_hand c) \<ge> n then Some (None, c)
      else case readRecord c of
             None \<Rightarrow> None
           | Some (Some e, c') \<Rightarrow> Some (Some e, c')
           | Some (None, c') \<Rightarrow> read_hand n c')"
  by pat_completeness auto
termination by (relation "measure (\<lambda>(n, c). pending c)") (auto dest: readRecord_pending)

declare read_hand.simps [simp del]

text \<open>The bytes of the next handshake message, header included, taken out of the buffer.\<close>

definition readHandshakeBytes :: "conn \<Rightarrow> ((conn_error option + bytes) \<times> conn) option" where
  "readHandshakeBytes c =
     (case read_hand 4 c of
        None \<Rightarrow> None
      | Some (Some e, c1) \<Rightarrow> Some (Inl (Some e), c1)
      | Some (None, c1) \<Rightarrow>
          (let data = c_hand c1; n = be_dec [data ! 1, data ! 2, data ! 3]
           in if n > maxHandshake then
                map_option (\<lambda>(e, c2). (Inl e, c2))
                  (alert_then_fail alertInternalError (OtherError ''handshake message too long'') c1)
              else
                (case read_hand (4 + n) c1 of
                   None \<Rightarrow> None
                 | Some (Some e, c2) \<Rightarrow> Some (Inl (Some e), c2)
                 | Some (None, c2) \<Rightarrow>
                     Some (Inr (take (4 + n) (c_hand c2)), c2\<lparr>c_hand := drop (4 + n) (c_hand c2)\<rparr>))))"

section \<open>The handshake call\<close>

text \<open>
  \<open>handshakeContext\<close> with the background context: \<open>hs\<close> is \<open>c.handshakeFn\<close>. The last test is the
  explicit panic of the code.
\<close>

definition handshakeContext ::
  "(conn \<Rightarrow> (conn_error option \<times> conn) option) \<Rightarrow> conn \<Rightarrow> (conn_error option \<times> conn) option" where
  "handshakeContext hs c =
     (if c_complete c then Some (None, c)
      else case c_handshakeErr c of
             Some e \<Rightarrow> Some (Some e, c)
           | None \<Rightarrow>
               (case hs c of
                  None \<Rightarrow> None
                | Some (e, c1) \<Rightarrow>
                    (let c2 = (case e of None \<Rightarrow> c1\<lparr>c_handshakes := c_handshakes c1 + 1\<rparr>
                               | Some _ \<Rightarrow> snd (flush c1));
                         err = (if e = None \<and> \<not> c_complete c2
                                then Some (OtherError ''handshake should have had a result'') else e)
                     in if err \<noteq> None \<and> c_complete c2 then None
                        else Some (err, c2\<lparr>c_handshakeErr := err\<rparr>))))"

section \<open>Read\<close>

text \<open>
  \<open>readAndDecryptRecord\<close> returns \<open>(record, typ, err)\<close>. It decrypts what is left in \<open>c.rawInput\<close> after
  \<open>readRecord\<close> has already taken and decrypted a record; and it replaces the error of \<open>readRecord\<close>
  by \<open>c.handshakeErr\<close>, which is nil after a successful handshake.
\<close>

definition readAndDecryptRecord :: "conn \<Rightarrow> ((bytes \<times> byte \<times> conn_error option) \<times> conn) option" where
  "readAndDecryptRecord c =
     (case readRecord c of
        None \<Rightarrow> None
      | Some (Some e, c1) \<Rightarrow>
          if e = EOF then Some (([], 0, Some EOF), c1)
          else Some (([], 0, c_handshakeErr c1), c1\<lparr>c_in := (c_in c1)\<lparr>hc_err := c_handshakeErr c1\<rparr>\<rparr>)
      | Some (None, c1) \<Rightarrow>
          (let c2 = c1\<lparr>c_rawInput := []\<rparr>
           in case decrypt (c_in c2) (c_rawInput c1) of
                None \<Rightarrow> None
              | Some (Inl a, hc) \<Rightarrow>
                  map_option (\<lambda>(_, c3). (([], 0, Some (AlertErr a)), c3)) (sendAlertLocked a (c2\<lparr>c_in := hc\<rparr>))
              | Some (Inr (rec, typ), hc) \<Rightarrow>
                  (let c3 = c2\<lparr>c_in := hc\<rparr>
                   in if typ = recordTypeAlert then
                        (if length rec = 2 \<and> rec ! 1 = alertCloseNotify \<or> length rec \<noteq> 2
                         then Some (([], 0, Some EOF), c3)
                         else Some (([], 0, Some (RecordHeaderError ''unexpected alert'')), c3))
                      else if typ = recordTypeChangeCipherSpec
                      then Some (([], 0, Some (RecordHeaderError ''unexpected ChangeCipherSpec record'')), c3)
                      else if typ = recordTypeApplicationData then Some ((rec, typ, None), c3)
                      else Some (([], 0, Some (RecordHeaderError ''unexpected record type'')), c3))))"

text \<open>
  A record of another type ends \<open>Read\<close> with an error; only the type 0 that comes with the swallowed
  error above can get here. A short alert counts as \<open>alertCloseNotify\<close>, which is 0.
\<close>

definition read_other :: "bytes \<Rightarrow> byte \<Rightarrow> conn \<Rightarrow> (conn_error option \<times> conn) option" where
  "read_other rec typ c =
     (if typ = recordTypeAlert \<and> (length rec \<noteq> 2 \<or> rec ! 1 = alertCloseNotify)
      then fail_with EOF c
      else
        let e = RecordHeaderError (if typ = recordTypeAlert then ''unexpected alert''
              else if typ = recordTypeChangeCipherSpec then ''unexpected ChangeCipherSpec record''
              else ''unexpected record type'');
            (_, c1) = set_in_err e c
        in map_option (\<lambda>(_, c2). (hc_err (c_in c2), c2)) (sendAlertLocked alertUnexpectedMessage c1))"

lemma readAndDecryptRecord_pending:
  assumes "readAndDecryptRecord c = Some ((rec, recordTypeApplicationData, None), c')"
  shows "pending c' < pending c"
proof -
  have z: "recordTypeApplicationData \<noteq> 0" by (simp add: record_type_defs)
  from assms obtain c1 hc where c1: "readRecord c = Some (None, c1)" and
    c': "c' = c1\<lparr>c_rawInput := [], c_in := hc\<rparr>"
    by (auto simp: readAndDecryptRecord_def Let_def z z [symmetric] split: option.splits prod.splits if_splits sum.splits)
  have "pending c' \<le> pending c1" by (simp add: c' pending_def)
  with readRecord_pending [OF c1] show ?thesis by simp
qed

text \<open>
  The loop of \<open>Read\<close> into a buffer of \<open>n\<close> bytes. A nil manager panics, as \<open>m.mu\<close> is behind it.
\<close>

function read_loop ::
  "nat \<Rightarrow> 'f Manager \<Rightarrow> conn \<Rightarrow> (bytes \<times> conn_error option, conn \<times> 'f Manager) outcome" where
  "read_loop n m c =
     (case ReadApplicationData m of
        Panicked \<Rightarrow> Panicked
      | Blocked m1 \<Rightarrow> Blocked (c, m1)
      | Returned sl m1 \<Rightarrow>
          (let plaintext = (case sl of None \<Rightarrow> [] | Some s \<Rightarrow> slice_contents s (inboundQueue m1))
           in if length plaintext > 0 then Returned (take n plaintext, None) (c, m1)
              else
                (case readAndDecryptRecord c of
                   None \<Rightarrow> Panicked
                 | Some ((rec, typ, Some e), c1) \<Rightarrow> Returned ([], Some e) (c1, m1)
                 | Some ((rec, typ, None), c1) \<Rightarrow>
                     if typ = recordTypeApplicationData then
                       (case ProcessInboundTraffic rec m1 of
                          Panicked \<Rightarrow> Panicked
                        | Blocked m2 \<Rightarrow> Blocked (c1, m2)
                        | Returned (Inl e) m2 \<Rightarrow>
                            (case sendAlertLocked alertBadRecordMAC c1 of
                               None \<Rightarrow> Panicked
                             | Some (_, c2) \<Rightarrow> Returned ([], Some (OtherError ''failed to process inbound traffic'')) (c2, m2))
                        | Returned (Inr _) m2 \<Rightarrow> read_loop n m2 c1)
                     else
                       (case read_other rec typ c1 of
                          None \<Rightarrow> Panicked
                        | Some (e, c2) \<Rightarrow> Returned ([], e) (c2, m1)))))"
  by pat_completeness auto
termination
  by (relation "measure (\<lambda>(n, m, c). pending c)") (auto dest: readAndDecryptRecord_pending)

declare read_loop.simps [simp del]

definition Read ::
  "(conn \<Rightarrow> (conn_error option \<times> conn) option) \<Rightarrow> nat \<Rightarrow> 'f Manager option \<Rightarrow> conn \<Rightarrow>
     (bytes \<times> conn_error option, conn \<times> 'f Manager option) outcome" where
  "Read hs n mo c =
     (case handshakeContext hs c of
        None \<Rightarrow> Panicked
      | Some (Some e, c1) \<Rightarrow> Returned ([], Some e) (c1, mo)
      | Some (None, c1) \<Rightarrow>
          if \<not> c_complete c1 then Returned ([], c_handshakeErr c1) (c1, mo)
          else (case mo of
                  None \<Rightarrow> Panicked
                | Some m \<Rightarrow>
                    (case read_loop n m c1 of
                       Panicked \<Rightarrow> Panicked
                     | Blocked (c2, m') \<Rightarrow> Blocked (c2, Some m')
                     | Returned r (c2, m') \<Rightarrow> Returned r (c2, Some m'))))"

section \<open>Write\<close>

lemma GetOutboundTraffic_shrinks:
  "GetOutboundTraffic m = Returned (Inr packet) m' \<Longrightarrow>
     length (sc_queue (m_scheduler m')) < length (sc_queue (m_scheduler m))"
  using length_heap_Pop [of "sc_queue (m_scheduler m)"]
  by (auto simp: GetOutboundTraffic_def with_lock_Returned GetNextCell_def Let_def case_prod_unfold
      split: option.splits prod.splits if_splits)

text \<open>
  The loop of \<open>Write\<close>. Each packet is encrypted with a nil record: there is no header, and
  \<open>encrypt\<close> takes the first bytes of the packet for one.
\<close>

function write_loop ::
  "'f Manager \<Rightarrow> conn \<Rightarrow> (conn_error option, conn \<times> 'f Manager) outcome" where
  "write_loop m c =
     (case GetOutboundTraffic m of
        Panicked \<Rightarrow> Panicked
      | Blocked m1 \<Rightarrow> Blocked (c, m1)
      | Returned (Inl e) m1 \<Rightarrow>
          Returned (if e = NoOutboundTraffic then None else Some (OtherError ''failed to encode cell'')) (c, m1)
      | Returned (Inr packet) m1 \<Rightarrow>
          (case encrypt_out [] packet c of
             None \<Rightarrow> Panicked
           | Some (Inl e, c1) \<Rightarrow> Returned (Some e) (c1, m1)
           | Some (Inr rec, c1) \<Rightarrow>
               (case net_Write rec (c_net c1) of
                  ((_, Some e), nw) \<Rightarrow> Returned (Some e) (c1\<lparr>c_net := nw\<rparr>, m1)
                | ((_, None), nw) \<Rightarrow> write_loop m1 (c1\<lparr>c_net := nw\<rparr>))))"
  by pat_completeness auto
termination
  by (relation "measure (\<lambda>(m, c). length (sc_queue (m_scheduler m)))") (auto dest: GetOutboundTraffic_shrinks)

declare write_loop.simps [simp del]

definition Write ::
  "(conn \<Rightarrow> (conn_error option \<times> conn) option) \<Rightarrow> bytes \<Rightarrow> 'f::floor_ceiling Manager option \<Rightarrow> conn \<Rightarrow>
     (nat \<times> conn_error option, conn \<times> 'f Manager option) outcome" where
  "Write hs b mo c =
     (case handshakeContext hs c of
        None \<Rightarrow> Panicked
      | Some (Some e, c1) \<Rightarrow> Returned (0, Some e) (c1, mo)
      | Some (None, c1) \<Rightarrow>
          if \<not> c_complete c1 then Returned (0, c_handshakeErr c1) (c1, mo)
          else (case mo of
                  None \<Rightarrow> Panicked
                | Some m \<Rightarrow>
                    (case QueueApplicationData b m of
                       Panicked \<Rightarrow> Panicked
                     | Blocked m1 \<Rightarrow> Blocked (c1, Some m1)
                     | Returned _ m1 \<Rightarrow>
                         (case write_loop m1 c1 of
                            Panicked \<Rightarrow> Panicked
                          | Blocked (c2, m2) \<Rightarrow> Blocked (c2, Some m2)
                          | Returned None (c2, m2) \<Rightarrow> Returned (length b, None) (c2, Some m2)
                          | Returned (Some e) (c2, m2) \<Rightarrow> Returned (0, Some e) (c2, Some m2)))))"

end
