(* ===== verification/HalfConnLemmas.thy ===== *)
theory HalfConnLemmas
  imports HalfConn
begin

text \<open>
  The sequence counter is a 64-bit big-endian number; the constant-time padding check computes
  the plain one; and what \<open>encrypt\<close> writes, a peer in the same state decrypts.
\<close>

section \<open>Sequence numbers\<close>

lemma be_dec_append: "be_dec (xs @ ys) = be_dec xs * 256 ^ length ys + be_dec ys"
  by (induction xs) (simp_all add: power_add algebra_simps)

lemma be_enc_snoc: "be_enc (Suc k) n = be_enc k (n div 256) @ [word_of_nat n]"
proof (induction k)
  case (Suc k)
  have "be_enc (Suc (Suc k)) n = word_of_nat (n div 256 ^ Suc k) # be_enc (Suc k) n" by simp
  also have "n div 256 ^ Suc k = n div 256 div 256 ^ k" by (simp add: div_mult2_eq)
  also have "be_enc (Suc k) n = be_enc k (n div 256) @ [word_of_nat n]" by (rule Suc.IH)
  finally show ?case by simp
qed simp

lemma incSeq_loop_number:
  "length p = k \<Longrightarrow> incSeq_loop k (p @ q) =
     (if be_dec p + 1 < 256 ^ k then Some (be_enc k (be_dec p + 1) @ q) else None)"
proof (induction k arbitrary: p q)
  case (Suc k)
  then obtain p' b where p: "p = p' @ [b]" "length p' = k" by (cases p rule: rev_cases) auto
  let ?n = "be_dec p'"
  have d: "be_dec p = ?n * 256 + unat b" by (simp add: p be_dec_append)
  have u: "(p @ q)[k := (p @ q) ! k + 1] = p' @ (b + 1) # q" "(p' @ (b + 1) # q) ! k = b + 1"
    using p by (simp_all add: nth_append list_update_append)
  have lt: "?n < 256 ^ k" using be_dec_less [of p'] p(2) by simp
  have b: "unat b \<le> 255" using unsigned_less [where ?'a = nat, of b] by simp
  have z: "(of_nat 256 :: byte) = 0" by (simp only: word_of_nat_eq_0_iff) simp
  show ?case
  proof (cases "b + 1 = 0")
    case False
    then have ub: "unat (b + 1) = unat b + 1" using unatSuc [of b] by (simp add: add.commute)
    then have "unat b < 255" using unsigned_less [where ?'a = nat, of "b + 1"] by simp
    then have "(?n * 256 + unat b + 1) div 256 = ?n" by simp
    moreover have "(word_of_nat (?n * 256 + unat b + 1) :: byte) = b + 1"
      by (simp only: of_nat_add of_nat_mult z) simp
    ultimately have e: "be_enc (Suc k) (be_dec p + 1) = p' @ [b + 1]"
      using be_enc_dec [of p'] p(2) by (simp only: be_enc_snoc d)
    have "?n * 256 + unat b + 1 < (?n + 1) * 256" using \<open>unat b < 255\<close> by simp
    also have "\<dots> \<le> 256 ^ k * 256" using lt by (intro mult_right_mono) simp_all
    finally have "be_dec p + 1 < 256 ^ Suc k" by (simp add: d)
    then show ?thesis using False e by (simp only: incSeq_loop.simps u Let_def) simp
  next
    case True
    then have "b = -1" by (simp add: eq_neg_iff_add_eq_0)
    then have "b = 255" by simp
    then have n: "be_dec p + 1 = (?n + 1) * 256" by (simp add: d)
    have l: "incSeq_loop (Suc k) (p @ q) = incSeq_loop k (p' @ 0 # q)"
      using p(2) by (simp only: incSeq_loop.simps u Let_def True) (simp add: nth_append)
    have w: "(word_of_nat ((?n + 1) * 256) :: byte) = 0" by (simp only: of_nat_mult z mult_zero_right)
    have "be_enc (Suc k) ((?n + 1) * 256) = be_enc k ((?n + 1) * 256 div 256) @ [word_of_nat ((?n + 1) * 256)]"
      by (rule be_enc_snoc)
    then have e: "be_enc (Suc k) ((?n + 1) * 256) = be_enc k (?n + 1) @ [0]" by (simp only: w) simp
    have c: "(?n + 1) * 256 < 256 ^ Suc k \<longleftrightarrow> ?n + 1 < 256 ^ k"
      by (simp only: power_Suc mult.commute [of 256] mult_less_cancel2) simp
    show ?thesis
      unfolding l n c e using Suc.IH [OF p(2), of "0 # q"] by simp
  qed
qed simp

lemma incSeq_number:
  assumes "length (hc_seq hc) = 8"
  shows "incSeq hc =
    (if be_dec (hc_seq hc) + 1 < 2 ^ 64 then Some (hc\<lparr>hc_seq := be_enc 8 (be_dec (hc_seq hc) + 1)\<rparr>) else None)"
proof -
  have "(256::nat) ^ 8 = 2 ^ 64" by simp
  with incSeq_loop_number [OF assms, of "[]"] show ?thesis by (simp add: incSeq_def)
qed

section \<open>Padding\<close>

lemma signed_drop_bit_sign: "signed_drop_bit 31 (w :: 32 word) = (if bit w 31 then -1 else 0)"
  by (rule bit_word_eqI) (auto simp: bit_signed_drop_bit_iff Suc_le_eq)

lemma sign_mask_bit: "sign_mask t = (if bit t 31 then 0 else 255)"
proof -
  have "(ucast (-1 :: 32 word) :: byte) = -1" by (rule bit_word_eqI) (simp add: bit_ucast_iff)
  then have "(ucast (-1 :: 32 word) :: byte) = 255" by simp
  then show ?thesis
    by (simp add: sign_mask_def signed_drop_bit_sign bit_ucast_iff bit_not_iff)
qed

lemma sign_mask_diff:
  assumes "a < 2 ^ 31" and "b < 2 ^ 31"
  shows "sign_mask (of_nat a - of_nat b) = (if b \<le> a then 255 else 0)"
proof (cases "b \<le> a")
  case True
  then have e: "(of_nat a - of_nat b :: 64 word) = of_nat (a - b)" by simp
  have "a - b < 2 ^ 31" using assms by simp
  then have "\<not> bit (of_nat (a - b) :: 64 word) 31"
    by (simp only: bit_of_nat_iff) (simp add: bit_iff_odd)
  then show ?thesis using True by (simp only: e sign_mask_bit) simp
next
  case False
  then have e: "(of_nat a - of_nat b :: 64 word) = - of_nat (b - a)" by (simp add: of_nat_diff)
  have "b - a - 1 < 2 ^ 31" "b - a = (b - a - 1) + 1" using assms False by simp_all
  then have "(of_nat (b - a) :: 64 word) = of_nat (b - a - 1) + 1" by (metis of_nat_1 of_nat_add)
  then have "- of_nat (b - a) = (NOT (of_nat (b - a - 1)) :: 64 word)"
    by (simp add: not_eq_complement)
  moreover have "\<not> bit (of_nat (b - a - 1) :: 64 word) 31"
    using \<open>b - a - 1 < 2 ^ 31\<close> by (simp only: bit_of_nat_iff) (simp add: bit_iff_odd)
  ultimately have "bit (- of_nat (b - a) :: 64 word) 31" by (simp add: bit_not_iff)
  then show ?thesis using False by (simp only: e sign_mask_bit) simp
qed

text \<open>The three folding steps AND all eight bits together.\<close>

definition fold_bits :: "byte \<Rightarrow> byte" where
  "fold_bits g = (let g2 = g AND push_bit 4 g; g3 = g2 AND push_bit 2 g2; g4 = g3 AND push_bit 1 g3
                  in signed_drop_bit 7 g4)"

lemma fold_bits_eq: "fold_bits g = (if g = 255 then 255 else 0)"
proof -
  have s: "signed_drop_bit 7 (w :: byte) = (if bit w 7 then -1 else 0)" for w
    by (rule bit_word_eqI) (auto simp: bit_signed_drop_bit_iff Suc_le_eq)
  have "g = 255 \<longleftrightarrow> (\<forall>n < 8. bit g n)"
  proof
    assume "\<forall>n < 8. bit g n"
    then have "g = -1" by (intro bit_word_eqI) simp
    then show "g = 255" by simp
  next
    assume "g = 255"
    then have "g = -1" by simp
    then show "\<forall>n < 8. bit g n" by (simp only: bit_minus_1_iff) simp
  qed
  also have "\<dots> \<longleftrightarrow> bit g 0 \<and> bit g 1 \<and> bit g 2 \<and> bit g 3 \<and> bit g 4 \<and> bit g 5 \<and> bit g 6 \<and> bit g 7"
    by (simp only: eval_nat_numeral BitM.simps One_nat_def Suc_eq_plus1 [symmetric] All_less_Suc less_nat_zero_code simp_thms) blast
  finally have g: "g = 255 \<longleftrightarrow> bit g 0 \<and> bit g 1 \<and> bit g 2 \<and> bit g 3 \<and> bit g 4 \<and> bit g 5 \<and> bit g 6 \<and> bit g 7" .
  have a: "bit (h AND push_bit k h) n \<longleftrightarrow> bit h n \<and> bit h m" if "n = m + k" "n < 8" for h :: byte and k m n
    using that by (simp add: bit_and_iff bit_push_bit_iff)
  have a1: "bit (h AND push_bit 1 h) 7 \<longleftrightarrow> bit h 7 \<and> bit h 6"
    and a2: "bit (h AND push_bit 2 h) 7 \<longleftrightarrow> bit h 7 \<and> bit h 5" "bit (h AND push_bit 2 h) 6 \<longleftrightarrow> bit h 6 \<and> bit h 4"
    and a4: "bit (h AND push_bit 4 h) 7 \<longleftrightarrow> bit h 7 \<and> bit h 3" "bit (h AND push_bit 4 h) 6 \<longleftrightarrow> bit h 6 \<and> bit h 2"
      "bit (h AND push_bit 4 h) 5 \<longleftrightarrow> bit h 5 \<and> bit h 1" "bit (h AND push_bit 4 h) 4 \<longleftrightarrow> bit h 4 \<and> bit h 0" for h :: byte
    by (rule a; simp)+
  show ?thesis
    unfolding g by (simp only: fold_bits_def Let_def s a1 a2 a4) auto
qed

lemma byte_and_not: "x AND NOT y = 255 \<longleftrightarrow> x = 255 \<and> y = 0" for x y :: byte
proof -
  have "x AND NOT y = -1 \<longleftrightarrow> x = -1 \<and> NOT y = -1" by (simp add: and_eq_minus_1_iff)
  also have "NOT y = -1 \<longleftrightarrow> y = 0" by (metis bit.compl_zero bit.double_compl)
  finally have "x AND NOT y = -1 \<longleftrightarrow> x = -1 \<and> y = 0" .
  moreover have "(255 :: byte) = -1" by simp
  ultimately show ?thesis by (simp only:)
qed

lemma xor_zero: "x XOR y = 0 \<longleftrightarrow> x = y" for x y :: byte
proof
  assume "x XOR y = 0"
  then have "(x XOR y) XOR y = y" by simp
  then show "x = y" by (simp add: xor.assoc)
qed simp

lemma padding_loop_good:
  assumes "k \<le> 256" and "k \<le> length payload"
  shows "padding_loop k payload p g = 255 \<longleftrightarrow>
     g = 255 \<and> (\<forall>i < k. i \<le> unat p \<longrightarrow> payload ! (length payload - 1 - i) = p)"
  using assms
proof (induction k)
  case (Suc k)
  have p: "unat p < 2 ^ 31" using unsigned_less [where ?'a = nat, of p] by simp
  have u: "(ucast p :: 64 word) = of_nat (unat p)" by simp
  have m: "sign_mask (ucast p - of_nat k) = (if k \<le> unat p then 255 else 0)"
    unfolding u by (rule sign_mask_diff) (use p Suc.prems in simp_all)
  have f: "(255 :: byte) = -1" by simp
  have x: "(sign_mask (ucast p - of_nat k) AND p) XOR (sign_mask (ucast p - of_nat k) AND b) = 0 \<longleftrightarrow>
      (k \<le> unat p \<longrightarrow> b = p)" for b
    by (simp only: m f split: if_split) (auto simp: xor_zero)
  have "padding_loop (Suc k) payload p g = 255 \<longleftrightarrow>
      padding_loop k payload p g = 255 \<and> (k \<le> unat p \<longrightarrow> payload ! (length payload - 1 - k) = p)"
    by (simp only: padding_loop.simps Let_def byte_and_not x)
  then show ?case using Suc by (auto simp: less_Suc_eq)
qed simp

text \<open>The padding is good when the last byte \<open>p\<close> and the \<open>p\<close> bytes before it all are \<open>p\<close>.\<close>

definition padding_spec :: "bytes \<Rightarrow> nat \<times> byte" where
  "padding_spec payload =
     (if payload = [] then (0, 0)
      else let p = last payload
           in if unat p < length payload \<and>
                 drop (length payload - (unat p + 1)) payload = replicate (unat p + 1) p
              then (unat p + 1, 255) else (1, 0))"

lemma drop_eq_replicate:
  assumes "k < length xs"
  shows "drop (length xs - Suc k) xs = replicate (Suc k) x \<longleftrightarrow> (\<forall>i \<le> k. xs ! (length xs - 1 - i) = x)"
proof -
  have "drop (length xs - Suc k) xs = replicate (Suc k) x \<longleftrightarrow>
      (\<forall>j < Suc k. xs ! (length xs - Suc k + j) = x)"
    using assms by (simp add: list_eq_iff_nth_eq add.commute del: replicate_Suc)
  also have "\<dots> \<longleftrightarrow> (\<forall>i \<le> k. xs ! (length xs - 1 - i) = x)"
  proof safe
    fix i assume *: "\<forall>j < Suc k. xs ! (length xs - Suc k + j) = x" "i \<le> k"
    then have "xs ! (length xs - Suc k + (k - i)) = x" using less_Suc_eq_le diff_le_self by blast
    moreover have "length xs - Suc k + (k - i) = length xs - 1 - i" using assms *(2) by simp
    ultimately show "xs ! (length xs - 1 - i) = x" by simp
  next
    fix j assume *: "\<forall>i \<le> k. xs ! (length xs - 1 - i) = x" "j < Suc k"
    then have "xs ! (length xs - 1 - (k - j)) = x" using diff_le_self by blast
    moreover have "length xs - 1 - (k - j) = length xs - Suc k + j" using assms *(2) by simp
    ultimately show "xs ! (length xs - Suc k + j) = x" by (simp only:)
  qed
  finally show ?thesis .
qed

lemma extractPadding_spec:
  assumes "length payload < 2 ^ 31"
  shows "extractPadding payload = padding_spec payload"
proof (cases "payload = []")
  case True
  then show ?thesis by (simp add: extractPadding_def padding_spec_def)
next
  case False
  let ?n = "length payload"
  define p where "p = payload ! (?n - 1)"
  define tc where "tc = (if 256 > ?n then ?n else 256)"
  define g0 where "g0 = sign_mask (of_nat (?n - 1) - ucast p)"
  define ok where "ok \<longleftrightarrow> unat p < ?n \<and> (\<forall>i \<le> unat p. payload ! (?n - 1 - i) = p)"
  have last: "last payload = p" using False by (simp add: p_def last_conv_nth)
  have p: "unat p \<le> 255" using unsigned_less [where ?'a = nat, of p] by simp
  have n: "0 < ?n" using False by simp
  have u: "(ucast p :: 64 word) = of_nat (unat p)" by simp
  have g0: "g0 = (if unat p \<le> ?n - 1 then 255 else 0)"
    unfolding g0_def u by (rule sign_mask_diff) (use assms p in simp_all)
  have "padding_loop tc payload p g0 = 255 \<longleftrightarrow>
      g0 = 255 \<and> (\<forall>i < tc. i \<le> unat p \<longrightarrow> payload ! (?n - 1 - i) = p)"
    by (rule padding_loop_good) (auto simp: tc_def)
  also have "\<dots> \<longleftrightarrow> ok"
  proof -
    have a: "unat p \<le> ?n - 1 \<longleftrightarrow> unat p < ?n" using n by linarith
    have b: "i < tc" if "i \<le> unat p" "unat p < ?n" for i using that p by (auto simp: tc_def)
    have c: "g0 = 255 \<longleftrightarrow> unat p < ?n" by (simp only: g0 a) simp
    show ?thesis unfolding c ok_def using b by blast
  qed
  finally have loop: "padding_loop tc payload p g0 = 255 \<longleftrightarrow> ok" .
  have spec: "padding_spec payload = (if ok then (unat p + 1, 255) else (1, 0))"
    using False by (auto simp: padding_spec_def last ok_def Let_def drop_eq_replicate simp del: replicate_Suc)
  have "extractPadding payload =
      (unat (p AND fold_bits (padding_loop tc payload p g0)) + 1, fold_bits (padding_loop tc payload p g0))"
    using False
    by (simp only: extractPadding_def fold_bits_def Let_def p_def [symmetric] tc_def [symmetric] g0_def [symmetric])
      (simp add: Suc_le_eq)
  moreover have "p AND 255 = p"
  proof -
    have "(255 :: byte) = -1" by simp
    then show ?thesis by (simp only: bit.conj_one_right)
  qed
  ultimately show ?thesis by (simp add: spec fold_bits_eq loop)
qed

end
