(* ===== verification/RecordChannel.thy ===== *)
theory RecordChannel
  imports HalfConnLemmas
begin

text \<open>
  Two half connections in step: the sender's \<open>encrypt\<close> and the receiver's \<open>decrypt\<close> are inverse,
  record by record, for every cipher the package uses. The interface \<open>record_channel\<close> says what
  a channel promises for one record; its lemmas carry the promise over to sequences of records.
\<close>

section \<open>The interface\<close>

locale record_channel =
  fixes send :: "'s \<Rightarrow> 'm \<Rightarrow> ('r \<times> 's) option"
    and recv :: "'s \<Rightarrow> 'r \<Rightarrow> ('m \<times> 's) option"
    and in_step :: "'s \<Rightarrow> 's \<Rightarrow> bool"
  assumes delivers: "in_step a b \<Longrightarrow> send a m = Some (r, a') \<Longrightarrow>
      \<exists>b'. recv b r = Some (m, b') \<and> in_step a' b'"
begin

fun send_all :: "'s \<Rightarrow> 'm list \<Rightarrow> ('r list \<times> 's) option" where
  "send_all a [] = Some ([], a)"
| "send_all a (m # ms) =
     (case send a m of
        None \<Rightarrow> None
      | Some (r, a') \<Rightarrow> map_option (\<lambda>(rs, a''). (r # rs, a'')) (send_all a' ms))"

fun recv_all :: "'s \<Rightarrow> 'r list \<Rightarrow> ('m list \<times> 's) option" where
  "recv_all b [] = Some ([], b)"
| "recv_all b (r # rs) =
     (case recv b r of
        None \<Rightarrow> None
      | Some (m, b') \<Rightarrow> map_option (\<lambda>(ms, b''). (m # ms, b'')) (recv_all b' rs))"

lemma delivers_all:
  "in_step a b \<Longrightarrow> send_all a ms = Some (rs, a') \<Longrightarrow>
     \<exists>b'. recv_all b rs = Some (ms, b') \<and> in_step a' b'"
proof (induction ms arbitrary: a b rs)
  case (Cons m ms)
  from Cons.prems(2) obtain r a1 rs' where
    s: "send a m = Some (r, a1)" "send_all a1 ms = Some (rs', a')" "rs = r # rs'"
    by (auto split: option.splits)
  from delivers [OF Cons.prems(1) s(1)] obtain b1 where "recv b r = Some (m, b1)" "in_step a1 b1" by blast
  with Cons.IH [OF _ s(2)] s(3) show ?case by fastforce
qed simp

end

section \<open>Cipher objects in step\<close>

fun cipher_pair :: "u16 \<Rightarrow> mac_prim option \<Rightarrow> cipher_state \<Rightarrow> cipher_state \<Rightarrow> bool" where
  "cipher_pair v mac (StreamCipher ks p) (StreamCipher ks' p') \<longleftrightarrow>
     ks = ks' \<and> p = p' \<and> v \<noteq> VersionTLS13 \<and> (case mac of None \<Rightarrow> False | Some m \<Rightarrow> mac_ok m)"
| "cipher_pair v mac (PrefixNonceAEAD buf a) (PrefixNonceAEAD buf' a') \<longleftrightarrow>
     a = a' \<and> aead_ok a \<and> length buf = 12 \<and> length buf' = 12 \<and> take 4 buf = take 4 buf' \<and>
     mac = None \<and> v \<noteq> VersionTLS13"
| "cipher_pair v mac (XorNonceAEAD msk a) (XorNonceAEAD msk' a') \<longleftrightarrow>
     a = a' \<and> aead_ok a \<and> msk = msk' \<and> mac = None"
| "cipher_pair v mac (CBCEncrypter b iv) (CBCDecrypter b' iv') \<longleftrightarrow>
     b = b' \<and> block_ok b \<and> iv = iv' \<and> length iv = block_size b \<and> v \<noteq> VersionTLS13 \<and>
     (case mac of None \<Rightarrow> False | Some m \<Rightarrow> mac_ok m)"
| "cipher_pair v mac _ _ \<longleftrightarrow> False"

definition in_step :: "halfConn \<Rightarrow> halfConn \<Rightarrow> bool" where
  "in_step ou inp \<longleftrightarrow>
     hc_version ou = hc_version inp \<and> hc_mac ou = hc_mac inp \<and> hc_seq ou = hc_seq inp \<and>
     length (hc_seq ou) = 8 \<and>
     (case (hc_cipher ou, hc_cipher inp) of
        (Some c, Some d) \<Rightarrow> cipher_pair (hc_version ou) (hc_mac ou) c d
      | _ \<Rightarrow> False)"

lemma in_stepD:
  assumes "in_step ou inp"
  shows "hc_version ou = hc_version inp" and "hc_mac inp = hc_mac ou" and "hc_seq inp = hc_seq ou"
    and "length (hc_seq ou) = 8"
    and "hc_cipher ou = Some c \<Longrightarrow> hc_cipher inp = Some d \<Longrightarrow> cipher_pair (hc_version ou) (hc_mac ou) c d"
proof -
  show "hc_version ou = hc_version inp" "hc_mac inp = hc_mac ou" "hc_seq inp = hc_seq ou" "length (hc_seq ou) = 8"
    using assms unfolding in_step_def by (elim conjE, simp)+
  show "cipher_pair (hc_version ou) (hc_mac ou) c d" if "hc_cipher ou = Some c" "hc_cipher inp = Some d"
    using assms that unfolding in_step_def by (elim conjE) (simp only: prod.case option.case)
qed

definition rec_header :: "byte \<Rightarrow> byte \<Rightarrow> byte \<Rightarrow> nat \<Rightarrow> bytes" where
  "rec_header typ v1 v2 n = [typ, v1, v2] @ be_enc 2 n"

lemma length_rec_header [simp]: "length (rec_header typ v1 v2 n) = 5"
  by (simp add: rec_header_def)

lemma take_3_header [simp]: "take 3 (rec_header typ v1 v2 n @ r) = [typ, v1, v2]"
  "take 3 (rec_header typ v1 v2 n) = [typ, v1, v2]"
  by (simp_all add: rec_header_def)

lemma int_bytes_nat: "int_bytes (int n) = be_enc 2 n"
proof -
  have "int n div 256 = int (n div 256)" by simp
  moreover have "word_of_int (int j) = (word_of_nat j :: byte)" for j by simp
  ultimately show ?thesis by (simp only: int_bytes_def be_enc_2)
qed

lemma set_length_header:
  "set_length (rec_header typ v1 v2 m @ body) n = rec_header typ v1 v2 n @ body"
  by (simp add: set_length_def rec_header_def be_enc_2)

lemma explicitNonceLen_pair:
  assumes "cipher_pair v mac c d" and "hc_cipher ou = Some c" and "hc_cipher inp = Some d"
    and "hc_version ou = hc_version inp"
  shows "explicitNonceLen ou = explicitNonceLen inp"
  using assms by (cases c; cases d) (simp_all add: explicitNonceLen_def)

section \<open>Each cipher\<close>

text \<open>The MAC of a record protected under the same header is accepted.\<close>

lemma check_mac_accepts:
  assumes "hc_mac hc = Some m" and "mac_ok m"
    and "mac = tls10MAC m (hc_seq hc) (rec_header typ v1 v2 (length payload)) payload"
    and "op_payload op = payload @ mac @ pad" and "op_paddingLen op = length pad" and "op_paddingGood op = 255"
  shows "check_mac hc (rec_header typ v1 v2 k) op = Inr payload"
proof -
  have l: "length mac = mac_size m" using assms(2,3) by (simp add: mac_ok_def tls10MAC_def)
  have "int (length (payload @ mac @ pad)) - int (mac_size m) - int (length pad) = int (length payload)"
    using l by simp
  moreover have "take 3 (rec_header typ v1 v2 k) @ int_bytes (int (length payload)) = rec_header typ v1 v2 (length payload)"
    by (simp add: int_bytes_nat rec_header_def)
  moreover have "(1 :: byte) AND 255 = 1" by simp
  ultimately show ?thesis
    using assms l by (simp add: check_mac_def Let_def tls10MAC_def int_bytes_nat rec_header_def)
qed

lemma stream_step:
  assumes "hc_mac ou = Some m" and "mac_ok m" and "hc_mac inp = Some m" and "hc_seq inp = hc_seq ou"
    and hdr_def: "hdr = rec_header typ v1 v2 (length payload)"
  shows "\<exists>body pos'. protect ou (StreamCipher ks pos) hdr [] payload = Some (hdr @ body, StreamCipher ks pos') \<and>
    (\<forall>k. \<exists>op. unprotect inp (StreamCipher ks pos) (rec_header typ v1 v2 k) body =
         Some (Inr op, inp\<lparr>hc_cipher := Some (StreamCipher ks pos')\<rparr>) \<and>
       check_mac (inp\<lparr>hc_cipher := Some (StreamCipher ks pos')\<rparr>) (rec_header typ v1 v2 k) op = Inr payload)"
proof -
  let ?mac = "tls10MAC m (hc_seq ou) hdr payload"
  let ?body = "XORKeyStream ks pos (payload @ ?mac)"
  let ?pos = "pos + length payload + length ?mac"
  let ?inp = "inp\<lparr>hc_cipher := Some (StreamCipher ks ?pos)\<rparr>"
  let ?op = "\<lparr>op_plaintext = [], op_payload = payload @ ?mac, op_paddingLen = 0, op_paddingGood = 255\<rparr>"
  have "protect ou (StreamCipher ks pos) hdr [] payload = Some (hdr @ ?body, StreamCipher ks ?pos)"
    using assms(1) by (simp add: protect_def hdr_def recordHeaderLen_def Let_def XORKeyStream_append)
  moreover have "unprotect inp (StreamCipher ks pos) (rec_header typ v1 v2 k) ?body = Some (Inr ?op, ?inp)" for k
    by (simp add: unprotect_def XORKeyStream_cancel add.assoc)
  moreover have "check_mac ?inp (rec_header typ v1 v2 k) ?op = Inr payload" for k
    by (rule check_mac_accepts [where m = m and mac = ?mac and pad = "[]"])
      (use assms in \<open>simp_all add: hdr_def\<close>)
  ultimately show ?thesis by blast
qed

lemma aead_step12:
  assumes "hc_version ou = hc_version inp" and "hc_version inp \<noteq> VersionTLS13"
    and "hc_seq inp = hc_seq ou" and "explicitNonceLen inp = length eNonce"
    and "\<And>p ad. aopen (if eNonce = [] then hc_seq ou else eNonce) (aseal (if eNonce = [] then hc_seq ou else eNonce) p ad) ad = Some p"
    and "\<And>n p ad. length (aseal n p ad) = length p + overhead"
    and hdr_def: "hdr = rec_header typ v1 v2 (length payload)"
  shows "\<exists>ct. seal_aead ou (hdr @ eNonce) eNonce payload aseal overhead = Some (hdr @ eNonce @ ct) \<and>
    (\<forall>k. open_aead inp (rec_header typ v1 v2 k) (eNonce @ ct) aopen overhead =
      Inr \<lparr>op_plaintext = payload, op_payload = ct, op_paddingLen = 0, op_paddingGood = 255\<rparr>)"
proof -
  let ?n = "if eNonce = [] then hc_seq ou else eNonce"
  let ?ct = "aseal ?n payload (hc_seq ou @ hdr)"
  have "additionalData inp (rec_header typ v1 v2 k) ?ct overhead = hc_seq ou @ hdr" for k
    using assms by (simp add: additionalData_def int_bytes_nat) (simp add: rec_header_def)
  moreover have "seal_aead ou (hdr @ eNonce) eNonce payload aseal overhead = Some (hdr @ eNonce @ ?ct)"
    using assms(1,2) by (simp add: seal_aead_def recordHeaderLen_def Let_def hdr_def)
  ultimately show ?thesis
    using assms(3,4) assms(5) [of payload "hc_seq ou @ hdr"]
    by (intro exI [of _ ?ct], cases "eNonce = []") (simp_all add: open_aead_def Let_def)
qed

lemma xor_step13:
  assumes "hc_version ou = VersionTLS13" and "hc_version inp = VersionTLS13"
    and "hc_seq inp = hc_seq ou" and "explicitNonceLen inp = 0"
    and "\<And>p ad. aopen (hc_seq ou) (aseal (hc_seq ou) p ad) ad = Some p"
    and "\<And>n p ad. length (aseal n p ad) = length p + overhead"
    and "typ \<noteq> 0" and "length payload \<le> maxPlaintext"
    and hdr_def: "hdr = rec_header typ v1 v2 (length payload)"
  shows "\<exists>ct op. seal_aead ou hdr [] payload aseal overhead =
      Some (rec_header recordTypeApplicationData v1 v2 (length payload + 1 + overhead) @ ct) \<and>
    length ct = length payload + 1 + overhead \<and>
    open_aead inp (rec_header recordTypeApplicationData v1 v2 (length ct)) ct aopen overhead = Inr op \<and>
    inner_type (op_plaintext op) recordTypeApplicationData = Inr (payload, typ)"
proof -
  let ?h = "rec_header recordTypeApplicationData v1 v2 (length payload + 1 + overhead)"
  let ?ct = "aseal (hc_seq ou) (payload @ [typ]) ?h"
  let ?op = "\<lparr>op_plaintext = payload @ [typ], op_payload = ?ct, op_paddingLen = 0, op_paddingGood = 255\<rparr>"
  have l: "length ?ct = length payload + 1 + overhead" using assms(6) by simp
  have r: "set_length (((hdr @ payload) @ [(hdr @ payload) ! 0])[0 := recordTypeApplicationData])
      (length payload + 1 + overhead) = ?h @ payload @ [typ]"
    by (simp add: hdr_def rec_header_def set_length_def be_enc_2)
  have s: "seal_aead ou hdr [] payload aseal overhead = Some (?h @ ?ct)"
    unfolding seal_aead_def Let_def r using assms(1)
    by (simp add: recordHeaderLen_def hdr_def)
  have o: "open_aead inp (rec_header recordTypeApplicationData v1 v2 (length ?ct)) ?ct aopen overhead = Inr ?op"
    using assms(2-5) l by (simp add: open_aead_def additionalData_def Let_def)
  have "inner_type (payload @ [typ]) recordTypeApplicationData = Inr (payload, typ)"
    using assms(7,8) by (simp add: inner_type_def)
  with s l o show ?thesis by (intro exI [of _ ?ct] exI [of _ ?op]) simp
qed

lemma add_to_multiple: "0 < b \<Longrightarrow> a + (b - a mod b) = (a div b + 1) * b" for a b :: nat
proof -
  assume b: "0 < b"
  define q r where "q = a div b * b" and "r = a mod b"
  have "a = q + r" "r < b" using b by (simp_all add: q_def r_def)
  then have "a + (b - r) = q + b" by simp
  then show ?thesis by (simp add: q_def r_def)
qed

lemma roundUp_le:
  assumes "b dvd T" and "a \<le> T" and "0 < b"
  shows "roundUp a b \<le> T"
proof (cases "a mod b = 0")
  case True
  then show ?thesis using assms by (simp add: roundUp_def)
next
  case False
  then have "(b - a mod b) mod b = b - a mod b" using assms(3) by simp
  then have e: "roundUp a b = (a div b + 1) * b"
    using add_to_multiple [OF assms(3), of a] by (simp only: roundUp_def)
  obtain q where q: "T = b * q" using assms(1) by blast
  have "a \<noteq> T" using False assms(1) by auto
  then have "a < b * q" using assms(2) q by simp
  then have "a div b < q" using assms(3) by (simp add: less_mult_imp_div_less mult.commute)
  then have "(a div b + 1) * b \<le> q * b" by (intro mult_right_mono) simp_all
  then show ?thesis by (simp add: e q mult.commute)
qed

text \<open>The padding \<open>encrypt\<close> appends is the padding \<open>extractPadding\<close> finds.\<close>

lemma extractPadding_pad:
  assumes "0 < k" and "k \<le> 256" and "length xs < 2 ^ 30"
  shows "extractPadding (xs @ replicate k (word_of_nat (k - 1))) = (k, 255)"
proof -
  let ?p = "word_of_nat (k - 1) :: byte"
  let ?x = "xs @ replicate k ?p"
  have u: "unat ?p = k - 1" using assms by (simp only: unat_byte_of_nat) simp
  have l: "last ?x = ?p" using assms(1) by (cases k) simp_all
  have "length ?x < 2 ^ 31" using assms by simp
  moreover have "drop (length ?x - k) ?x = replicate k ?p" by simp
  ultimately show ?thesis
    using assms(1) by (simp only: extractPadding_spec padding_spec_def l u Let_def) simp
qed

lemma open_cbc_accepts:
  assumes "hc_mac hc = Some m" and "explicitNonceLen hc = length eNonce"
    and "length eNonce + roundUp (mac_size m + 1) bs \<le> length (eNonce @ out)"
    and "length (eNonce @ out) mod bs = 0"
    and "crypt (length out div bs) (if eNonce = [] then iv else eNonce) out = (dst, iv')"
    and "extractPadding dst = (toRemove, good)"
  shows "open_cbc hc crypt mk bs iv (eNonce @ out) =
    Some (Inr \<lparr>op_plaintext = [], op_payload = dst, op_paddingLen = toRemove, op_paddingGood = good\<rparr>,
          hc\<lparr>hc_cipher := Some (mk iv')\<rparr>)"
  using assms by (cases "eNonce = []") (simp_all add: open_cbc_def Let_def not_less)

lemma cbc_step:
  assumes "hc_mac ou = Some m" and "mac_ok m" and "hc_mac inp = Some m" and "hc_seq inp = hc_seq ou"
    and "block_ok b" and "length iv = block_size b"
    and "explicitNonceLen inp = length eNonce" and "eNonce = [] \<or> length eNonce = block_size b"
    and "length payload \<le> maxPlaintext"
    and hdr_def: "hdr = rec_header typ v1 v2 (length payload)"
  shows "\<exists>body iv'. protect ou (CBCEncrypter b iv) (hdr @ eNonce) eNonce payload =
      Some (hdr @ body, CBCEncrypter b iv') \<and> length iv' = block_size b \<and>
    (\<forall>k. \<exists>op. unprotect inp (CBCDecrypter b iv) (rec_header typ v1 v2 k) body =
         Some (Inr op, inp\<lparr>hc_cipher := Some (CBCDecrypter b iv')\<rparr>) \<and>
       check_mac (inp\<lparr>hc_cipher := Some (CBCDecrypter b iv')\<rparr>) (rec_header typ v1 v2 k) op = Inr payload)"
proof -
  let ?bs = "block_size b"
  let ?mac = "tls10MAC m (hc_seq ou) hdr payload"
  let ?pl = "length payload + length ?mac"
  let ?pad = "?bs - ?pl mod ?bs"
  let ?dst = "payload @ ?mac @ replicate ?pad (word_of_nat (?pad - 1))"
  let ?iv = "if eNonce = [] then iv else eNonce"
  let ?n = "length ?dst div ?bs"
  let ?e = "cbc_encrypt b ?n ?iv ?dst"
  have bs: "0 < ?bs" "?bs \<le> 256" using assms(5) by (simp_all add: block_ok_def)
  have ml: "length ?mac = mac_size m" "mac_size m \<le> 64" using assms(2) by (simp_all add: mac_ok_def tls10MAC_def)
  have pad: "0 < ?pad" "?pad \<le> 256" using bs by (simp_all add: le_diff_conv)
  have dvd: "?bs dvd length ?dst"
  proof -
    have "length ?dst = ?pl + ?pad" by simp
    then show ?thesis by (simp only: add_to_multiple [OF bs(1)] dvd_triv_right)
  qed
  then have n: "length ?dst = ?n * ?bs" by simp
  have iv: "length ?iv = ?bs" using assms(6,8) by auto
  note inv = cbc_inverse [OF assms(5) n iv]
  obtain out iv' where e: "?e = (out, iv')" by fastforce
  have out: "length out = length ?dst" "length iv' = ?bs" "cbc_decrypt b ?n ?iv out = (?dst, iv')"
    using inv e by simp_all
  have "protect ou (CBCEncrypter b iv) (hdr @ eNonce) eNonce payload =
      Some (hdr @ eNonce @ out, CBCEncrypter b iv')"
    using assms(1) e by (simp add: protect_def seal_cbc_def recordHeaderLen_def hdr_def Let_def)
  moreover have "extractPadding ?dst = (?pad, 255)"
    using extractPadding_pad [OF pad, of "payload @ ?mac"] ml assms(9) by (simp add: maxPlaintext_def)
  note ep = this
  have "roundUp (mac_size m + 1) ?bs \<le> length ?dst"
    by (rule roundUp_le [OF dvd _ bs(1)]) (use ml pad in simp)
  then have min: "length eNonce + roundUp (mac_size m + 1) ?bs \<le> length (eNonce @ out)" using out(1) by simp
  have md: "length (eNonce @ out) mod ?bs = 0" using assms(8) out(1) dvd by (auto simp: mod_add_eq)
  let ?op = "\<lparr>op_plaintext = [], op_payload = ?dst, op_paddingLen = ?pad, op_paddingGood = 255\<rparr>"
  let ?inp = "inp\<lparr>hc_cipher := Some (CBCDecrypter b iv')\<rparr>"
  have "unprotect inp (CBCDecrypter b iv) (rec_header typ v1 v2 k) (eNonce @ out) = Some (Inr ?op, ?inp)" for k
    unfolding unprotect_def cipher_state.case
    by (rule open_cbc_accepts [OF assms(3,7) min md _ ep]) (simp only: out)
  moreover have "check_mac ?inp (rec_header typ v1 v2 k) ?op = Inr payload" for k
    by (rule check_mac_accepts [where m = m and mac = ?mac and pad = "replicate ?pad (word_of_nat (?pad - 1))"])
      (use assms in \<open>simp_all add: hdr_def\<close>)
  ultimately show ?thesis using out(2) by blast
qed

section \<open>One record\<close>

definition rand_ok :: "rand_source \<Rightarrow> bool" where
  "rand_ok rnd \<longleftrightarrow> (\<forall>n. \<exists>bs. rnd n = Some bs \<and> length bs = n)"

lemma explicitNonce_ok:
  assumes "rand_ok rnd"
  shows "\<exists>eNonce. explicitNonce hc c rnd = Some eNonce \<and> length eNonce = explicitNonceLen hc"
  using assms by (auto simp: explicitNonce_def Let_def rand_ok_def)

text \<open>Before TLS 1.3: protection of one record is undone, and the states advance together.\<close>

lemma step12:
  assumes "in_step ou inp" and "hc_cipher ou = Some c" and "hc_cipher inp = Some d"
    and "hc_version ou \<noteq> VersionTLS13" and "length eNonce = explicitNonceLen ou"
    and "length payload \<le> maxPlaintext" and "hdr = rec_header typ v1 v2 (length payload)"
  shows "\<exists>body c' d'. protect ou c (hdr @ eNonce) eNonce payload = Some (hdr @ body, c') \<and>
    cipher_pair (hc_version ou) (hc_mac ou) c' d' \<and>
    (\<forall>k. \<exists>op. unprotect inp d (rec_header typ v1 v2 k) body = Some (Inr op, inp\<lparr>hc_cipher := Some d'\<rparr>) \<and>
       check_mac (inp\<lparr>hc_cipher := Some d'\<rparr>) (rec_header typ v1 v2 k) op = Inr payload)"
proof -
  have p: "cipher_pair (hc_version ou) (hc_mac ou) c d" and v: "hc_version ou = hc_version inp"
    and m: "hc_mac inp = hc_mac ou" and s: "hc_seq inp = hc_seq ou"
    using in_stepD [OF assms(1)] assms(2,3) by blast+
  have enl: "explicitNonceLen inp = length eNonce"
    using explicitNonceLen_pair [OF p assms(2,3) v] assms(5) by simp
  show ?thesis
  proof (cases c)
    case (StreamCipher ks pos)
    with p obtain mp where d: "d = StreamCipher ks pos" "hc_mac ou = Some mp" "mac_ok mp"
      by (cases d) (auto split: option.splits)
    have "eNonce = []" using assms(2,5) StreamCipher by (simp add: explicitNonceLen_def)
    moreover obtain body pos' where
      "protect ou (StreamCipher ks pos) hdr [] payload = Some (hdr @ body, StreamCipher ks pos')"
      "\<forall>k. \<exists>op. unprotect inp (StreamCipher ks pos) (rec_header typ v1 v2 k) body =
         Some (Inr op, inp\<lparr>hc_cipher := Some (StreamCipher ks pos')\<rparr>) \<and>
       check_mac (inp\<lparr>hc_cipher := Some (StreamCipher ks pos')\<rparr>) (rec_header typ v1 v2 k) op = Inr payload"
      using stream_step [OF d(2,3) _ s assms(7), of ks pos] d(2) m by auto
    ultimately show ?thesis
      using d assms(4) StreamCipher
      by (intro exI [of _ body] exI [of _ "StreamCipher ks pos'"]) simp
  next
    case (PrefixNonceAEAD buf a)
    with p obtain buf' where d: "d = PrefixNonceAEAD buf' a" "aead_ok a" "length buf = 12" "length buf' = 12"
      "take 4 buf = take 4 buf'" "hc_mac ou = None"
      by (cases d) auto
    let ?n = "if eNonce = [] then hc_seq ou else eNonce"
    have l: "length eNonce = 8" using assms(2,5) PrefixNonceAEAD
      by (simp add: explicitNonceLen_def aeadNonceLength_def noncePrefixLength_def)
    have b: "prefix_nonce buf n = prefix_nonce buf' n" if "length n = 8" for n
      using that d(3-5) by (simp add: prefix_nonce_def noncePrefixLength_def go_copy_exact)
    let ?seal = "\<lambda>nonce. aead_seal a (prefix_nonce buf nonce)" and ?open = "\<lambda>nonce. aead_open a (prefix_nonce buf' nonce)"
    have ne: "eNonce \<noteq> []" using l by auto
    from aead_step12 [OF v _ s enl, of ?open ?seal "aead_overhead a" hdr "typ" v1 v2 payload]
    obtain ct where ct: "seal_aead ou (hdr @ eNonce) eNonce payload ?seal (aead_overhead a) = Some (hdr @ eNonce @ ct)"
      "\<forall>k. open_aead inp (rec_header typ v1 v2 k) (eNonce @ ct) ?open (aead_overhead a) =
        Inr \<lparr>op_plaintext = payload, op_payload = ct, op_paddingLen = 0, op_paddingGood = 255\<rparr>"
      using assms(4,7) v d(2) b [OF l] ne by (auto simp: aead_ok_def)
    let ?c = "PrefixNonceAEAD (prefix_nonce buf eNonce) a" and ?d = "PrefixNonceAEAD (prefix_nonce buf' eNonce) a"
    have "cipher_pair (hc_version ou) (hc_mac ou) ?c ?d"
      using d l assms(4) by (simp add: prefix_nonce_def noncePrefixLength_def)
    moreover have "protect ou c (hdr @ eNonce) eNonce payload = Some (hdr @ eNonce @ ct, ?c)"
      using ct(1) ne by (simp add: protect_def PrefixNonceAEAD)
    moreover have "unprotect inp d (rec_header typ v1 v2 k) (eNonce @ ct) =
        Some (Inr \<lparr>op_plaintext = payload, op_payload = ct, op_paddingLen = 0, op_paddingGood = 255\<rparr>,
              inp\<lparr>hc_cipher := Some ?d\<rparr>)" for k
      using ct(2) enl ne by (simp add: unprotect_def d(1) aead_nonce_def)
    ultimately show ?thesis using m d(6)
      by (intro exI [of _ "eNonce @ ct"] exI [of _ ?c] exI [of _ ?d]) (simp add: check_mac_def)
  next
    case (XorNonceAEAD msk a)
    with p have d: "d = XorNonceAEAD msk a" "aead_ok a" "hc_mac ou = None" by (cases d; auto)+
    have e: "eNonce = []" using assms(2,5) XorNonceAEAD by (simp add: explicitNonceLen_def)
    let ?seal = "\<lambda>nonce. aead_seal a (xor_nonce msk nonce)" and ?open = "\<lambda>nonce. aead_open a (xor_nonce msk nonce)"
    from aead_step12 [OF v _ s enl, of ?open ?seal "aead_overhead a" hdr "typ" v1 v2 payload]
    obtain ct where ct: "seal_aead ou hdr [] payload ?seal (aead_overhead a) = Some (hdr @ ct)"
      "\<forall>k. open_aead inp (rec_header typ v1 v2 k) ct ?open (aead_overhead a) =
        Inr \<lparr>op_plaintext = payload, op_payload = ct, op_paddingLen = 0, op_paddingGood = 255\<rparr>"
      using assms(4,7) v d(2) e by (auto simp: aead_ok_def)
    have "cipher_pair (hc_version ou) (hc_mac ou) c d" by (rule p)
    moreover have "protect ou c (hdr @ eNonce) eNonce payload = Some (hdr @ ct, c)"
      using ct(1) e by (simp add: protect_def XorNonceAEAD)
    moreover have "unprotect inp d (rec_header typ v1 v2 k) ct =
        Some (Inr \<lparr>op_plaintext = payload, op_payload = ct, op_paddingLen = 0, op_paddingGood = 255\<rparr>,
              inp\<lparr>hc_cipher := Some d\<rparr>)" for k
      using ct(2) assms(3) by (simp add: unprotect_def d(1))
    ultimately show ?thesis using m d(3)
      by (intro exI [of _ ct] exI [of _ c] exI [of _ d]) (simp add: check_mac_def)
  next
    case (CBCEncrypter b iv)
    with p obtain mp where d: "d = CBCDecrypter b iv" "hc_mac ou = Some mp" "mac_ok mp" "block_ok b"
      "length iv = block_size b"
      by (cases d) (auto split: option.splits)
    have "eNonce = [] \<or> length eNonce = block_size b"
      using assms(2,5) CBCEncrypter by (auto simp: explicitNonceLen_def)
    then obtain body iv' where
      "protect ou (CBCEncrypter b iv) (hdr @ eNonce) eNonce payload = Some (hdr @ body, CBCEncrypter b iv')"
      "length iv' = block_size b"
      "\<forall>k. \<exists>op. unprotect inp (CBCDecrypter b iv) (rec_header typ v1 v2 k) body =
         Some (Inr op, inp\<lparr>hc_cipher := Some (CBCDecrypter b iv')\<rparr>) \<and>
       check_mac (inp\<lparr>hc_cipher := Some (CBCDecrypter b iv')\<rparr>) (rec_header typ v1 v2 k) op = Inr payload"
      using cbc_step [OF d(2,3) _ s d(4,5) enl _ assms(6,7)] d(2) m by auto
    then show ?thesis
      using d assms(4) CBCEncrypter
      by (intro exI [of _ body] exI [of _ "CBCEncrypter b iv'"] exI [of _ "CBCDecrypter b iv'"]) simp
  next
    case (CBCDecrypter b iv)
    with p show ?thesis by simp
  qed
qed

text \<open>TLS 1.3: the content type travels inside the ciphertext.\<close>

lemma step13:
  assumes "in_step ou inp" and "hc_cipher ou = Some c" and "hc_cipher inp = Some d"
    and "hc_version ou = VersionTLS13" and "length eNonce = explicitNonceLen ou"
    and "length payload \<le> maxPlaintext" and "typ \<noteq> 0" and "hdr = rec_header typ v1 v2 (length payload)"
  shows "\<exists>ct op n. protect ou c (hdr @ eNonce) eNonce payload =
      Some (rec_header recordTypeApplicationData v1 v2 n @ ct, c) \<and> length ct = n \<and> c = d \<and> hc_mac inp = None \<and>
    unprotect inp d (rec_header recordTypeApplicationData v1 v2 n) ct = Some (Inr op, inp) \<and>
    inner_type (op_plaintext op) recordTypeApplicationData = Inr (payload, typ)"
proof -
  have p: "cipher_pair (hc_version ou) (hc_mac ou) c d" and v: "hc_version ou = hc_version inp"
    and m: "hc_mac inp = hc_mac ou" and s: "hc_seq inp = hc_seq ou"
    using in_stepD [OF assms(1)] assms(2,3) by blast+
  have enl: "explicitNonceLen inp = length eNonce"
    using explicitNonceLen_pair [OF p assms(2,3) v] assms(5) by simp
  from p assms(4) obtain msk a where c: "c = XorNonceAEAD msk a" "d = c" "aead_ok a" "hc_mac ou = None"
    by (cases c; cases d) auto
  have e: "eNonce = []" using assms(2,5) c(1) by (simp add: explicitNonceLen_def)
  have enl0: "explicitNonceLen inp = 0" using enl e by simp
  have v13: "hc_version inp = VersionTLS13" using v assms(4) by simp
  from xor_step13 [OF assms(4) v13 s enl0, of "\<lambda>nonce. aead_open a (xor_nonce msk nonce)"
      "\<lambda>nonce. aead_seal a (xor_nonce msk nonce)" "aead_overhead a" "typ" payload hdr v1 v2]
    c(3) assms(6-8)
  obtain ct op where
    "seal_aead ou hdr [] payload (\<lambda>nonce. aead_seal a (xor_nonce msk nonce)) (aead_overhead a) =
      Some (rec_header recordTypeApplicationData v1 v2 (length payload + 1 + aead_overhead a) @ ct)"
    "length ct = length payload + 1 + aead_overhead a"
    "open_aead inp (rec_header recordTypeApplicationData v1 v2 (length ct)) ct
       (\<lambda>nonce. aead_open a (xor_nonce msk nonce)) (aead_overhead a) = Inr op"
    "inner_type (op_plaintext op) recordTypeApplicationData = Inr (payload, typ)"
    by (auto simp: aead_ok_def)
  then show ?thesis
    using e m c
    by (intro exI [of _ ct] exI [of _ op] exI [of _ "length ct"]) (simp add: protect_def unprotect_def)
qed

lemma in_step_next:
  assumes "in_step ou inp" and "be_dec (hc_seq ou) + 1 < 2 ^ 64"
    and "cipher_pair (hc_version ou) (hc_mac ou) c d"
  defines "s \<equiv> be_enc 8 (be_dec (hc_seq ou) + 1)"
  shows "incSeq (ou\<lparr>hc_cipher := Some c\<rparr>) = Some (ou\<lparr>hc_cipher := Some c, hc_seq := s\<rparr>)"
    and "incSeq (inp\<lparr>hc_cipher := Some d\<rparr>) = Some (inp\<lparr>hc_cipher := Some d, hc_seq := s\<rparr>)"
    and "in_step (ou\<lparr>hc_cipher := Some c, hc_seq := s\<rparr>) (inp\<lparr>hc_cipher := Some d, hc_seq := s\<rparr>)"
    and "be_dec s = be_dec (hc_seq ou) + 1"
proof -
  have l: "length (hc_seq ou) = 8" "hc_seq inp = hc_seq ou" using in_stepD [OF assms(1)] by blast+
  show "incSeq (ou\<lparr>hc_cipher := Some c\<rparr>) = Some (ou\<lparr>hc_cipher := Some c, hc_seq := s\<rparr>)"
    "incSeq (inp\<lparr>hc_cipher := Some d\<rparr>) = Some (inp\<lparr>hc_cipher := Some d, hc_seq := s\<rparr>)"
    using incSeq_number [of "ou\<lparr>hc_cipher := Some c\<rparr>"] incSeq_number [of "inp\<lparr>hc_cipher := Some d\<rparr>"] l assms(2)
    by (simp_all add: s_def)
  show "in_step (ou\<lparr>hc_cipher := Some c, hc_seq := s\<rparr>) (inp\<lparr>hc_cipher := Some d, hc_seq := s\<rparr>)"
    using assms(1,3) by (simp add: in_step_def s_def)
  show "be_dec s = be_dec (hc_seq ou) + 1" using assms(2) by (simp add: s_def be_dec_enc)
qed

lemma encrypt_decrypt:
  assumes step: "in_step ou inp" and rnd: "rand_ok rnd" and len: "length payload \<le> maxPlaintext"
    and tz: "typ \<noteq> 0" and seq: "be_dec (hc_seq ou) + 1 < 2 ^ 64"
  shows "\<exists>body ou' inp' typ'. let rec = rec_header typ' v1 v2 (length body) @ body in
    encrypt ou (rec_header typ v1 v2 (length payload)) payload rnd = Some (Inr rec, ou') \<and>
    decrypt inp rec = Some (Inr (payload, typ), inp') \<and>
    typ' = (if hc_version ou = VersionTLS13 then recordTypeApplicationData else typ) \<and>
    in_step ou' inp' \<and> be_dec (hc_seq ou') = be_dec (hc_seq ou) + 1"
proof -
  let ?hdr = "rec_header typ v1 v2 (length payload)"
  from step obtain c d where c: "hc_cipher ou = Some c" and d: "hc_cipher inp = Some d"
    by (auto simp: in_step_def split: option.splits)
  have p: "cipher_pair (hc_version ou) (hc_mac ou) c d" and v: "hc_version ou = hc_version inp"
    using in_stepD [OF step] c d by blast+
  from explicitNonce_ok [OF rnd, of ou c] obtain eNonce where
    e: "explicitNonce ou c rnd = Some eNonce" "length eNonce = explicitNonceLen ou" by blast
  have sl: "set_length (rec_header t v1 v2 k @ body) n = rec_header t v1 v2 n @ body" for t k body n
    by (rule set_length_header)
  have parts: "(rec_header t v1 v2 k @ body) ! 0 = t" "take recordHeaderLen (rec_header t v1 v2 k @ body) = rec_header t v1 v2 k"
    "drop recordHeaderLen (rec_header t v1 v2 k @ body) = body" "\<not> length (rec_header t v1 v2 k @ body) < recordHeaderLen"
    "length (rec_header t v1 v2 k @ body) - recordHeaderLen = length body" for t k body
    by (simp_all add: recordHeaderLen_def rec_header_def be_enc_2)
  show ?thesis
  proof (cases "hc_version ou = VersionTLS13")
    case False
    from step12 [OF step c d False e(2) len refl, of "typ" v1 v2] obtain body c' d' where
      pr: "protect ou c (?hdr @ eNonce) eNonce payload = Some (?hdr @ body, c')"
      and cp: "cipher_pair (hc_version ou) (hc_mac ou) c' d'"
      and un: "\<forall>k. \<exists>op. unprotect inp d (rec_header typ v1 v2 k) body = Some (Inr op, inp\<lparr>hc_cipher := Some d'\<rparr>) \<and>
         check_mac (inp\<lparr>hc_cipher := Some d'\<rparr>) (rec_header typ v1 v2 k) op = Inr payload" by blast
    from un [rule_format, of "length body"] obtain op where
      op: "unprotect inp d (rec_header typ v1 v2 (length body)) body = Some (Inr op, inp\<lparr>hc_cipher := Some d'\<rparr>)"
        "check_mac (inp\<lparr>hc_cipher := Some d'\<rparr>) (rec_header typ v1 v2 (length body)) op = Inr payload" by blast
    note nx = in_step_next [OF step seq cp]
    have "encrypt ou ?hdr payload rnd = Some (Inr (rec_header typ v1 v2 (length body) @ body),
        ou\<lparr>hc_cipher := Some c', hc_seq := be_enc 8 (be_dec (hc_seq ou) + 1)\<rparr>)"
      by (simp only: encrypt_def c e(1) pr nx(1) option.case prod.case option.map sl parts)
    moreover have "decrypt inp (rec_header typ v1 v2 (length body) @ body) = Some (Inr (payload, typ),
        inp\<lparr>hc_cipher := Some d', hc_seq := be_enc 8 (be_dec (hc_seq ou) + 1)\<rparr>)"
      using False v
      by (simp add: decrypt_def parts Let_def d op finish_record_def nx(2) del: length_append take_append drop_append)
    ultimately show ?thesis using nx(3,4) False by (auto simp: Let_def)
  next
    case True
    from step13 [OF step c d True e(2) len tz refl, of v1 v2] obtain ct op n where
      pr: "protect ou c (?hdr @ eNonce) eNonce payload = Some (rec_header recordTypeApplicationData v1 v2 n @ ct, c)"
      and n: "length ct = n" and cd: "c = d" and mac: "hc_mac inp = None"
      and un: "unprotect inp d (rec_header recordTypeApplicationData v1 v2 n) ct = Some (Inr op, inp)"
      and it: "inner_type (op_plaintext op) recordTypeApplicationData = Inr (payload, typ)" by blast
    note nx = in_step_next [OF step seq p]
    have "inp\<lparr>hc_cipher := Some d\<rparr> = inp" using d by (cases inp) simp
    note nx2 = nx(2) [unfolded this]
    have ne: "recordTypeApplicationData \<noteq> recordTypeChangeCipherSpec"
      by (simp add: recordTypeChangeCipherSpec_def recordTypeApplicationData_def)
    have "encrypt ou ?hdr payload rnd = Some (Inr (rec_header recordTypeApplicationData v1 v2 (length ct) @ ct),
        ou\<lparr>hc_cipher := Some c, hc_seq := be_enc 8 (be_dec (hc_seq ou) + 1)\<rparr>)"
      by (simp only: encrypt_def c e(1) pr nx(1) option.case prod.case option.map sl parts)
    moreover have "decrypt inp (rec_header recordTypeApplicationData v1 v2 (length ct) @ ct) = Some (Inr (payload, typ),
        inp\<lparr>hc_cipher := Some d, hc_seq := be_enc 8 (be_dec (hc_seq ou) + 1)\<rparr>)"
      using True v mac n ne
      by (simp add: decrypt_def parts Let_def d un it finish_record_def check_mac_def nx2 del: length_append take_append drop_append)
    ultimately show ?thesis using nx(3,4) True by (auto simp: Let_def)
  qed
qed

section \<open>Sequences of records\<close>

text \<open>
  The sender keeps, besides its half connection, the random sources of the coming records. A
  message is a content type and a payload.
\<close>

type_synonym endpoint = "halfConn \<times> rand_source list"

definition send_record :: "byte \<times> byte \<Rightarrow> endpoint \<Rightarrow> byte \<times> bytes \<Rightarrow> (bytes \<times> endpoint) option" where
  "send_record v ep m =
     (case (ep, m) of
        ((hc, []), _) \<Rightarrow> None
      | ((hc, rnd # rs), (typ, payload)) \<Rightarrow>
          if length payload \<le> maxPlaintext \<and> typ \<noteq> 0 then
            (case encrypt hc (rec_header typ (fst v) (snd v) (length payload)) payload rnd of
               Some (Inr rec, hc') \<Rightarrow> Some (rec, (hc', rs))
             | _ \<Rightarrow> None)
          else None)"

definition recv_record :: "endpoint \<Rightarrow> bytes \<Rightarrow> ((byte \<times> bytes) \<times> endpoint) option" where
  "recv_record ep rec =
     (case decrypt (fst ep) rec of
        Some (Inr (payload, typ), hc') \<Rightarrow> Some ((typ, payload), (hc', snd ep))
      | _ \<Rightarrow> None)"

definition ep_step :: "endpoint \<Rightarrow> endpoint \<Rightarrow> bool" where
  "ep_step a b \<longleftrightarrow> in_step (fst a) (fst b) \<and> list_all rand_ok (snd a)"

lemma encrypt_seq:
  assumes "in_step ou inp" and "rand_ok rnd" and "encrypt ou rec payload rnd = Some (Inr r, ou')"
  shows "be_dec (hc_seq ou) + 1 < 2 ^ 64"
proof -
  from assms(1) obtain c where c: "hc_cipher ou = Some c" by (auto simp: in_step_def split: option.splits)
  from assms(3) c obtain c' where "incSeq (ou\<lparr>hc_cipher := Some c'\<rparr>) \<noteq> None"
    by (auto simp: encrypt_def split: option.splits prod.splits)
  with incSeq_number [of "ou\<lparr>hc_cipher := Some c'\<rparr>"] in_stepD(4) [OF assms(1)] show ?thesis
    by (simp split: if_splits)
qed

interpretation tls: record_channel "send_record v" recv_record ep_step for v :: "byte \<times> byte"
proof unfold_locales
  fix a b a' :: endpoint and m r
  assume st: "ep_step a b" and s: "send_record v a m = Some (r, a')"
  obtain t payload where m: "m = (t, payload)" by fastforce
  obtain hc rs0 where a: "a = (hc, rs0)" by fastforce
  from s obtain rnd rs hc' where rs: "rs0 = rnd # rs" and
    e: "length payload \<le> maxPlaintext" "t \<noteq> 0"
      "encrypt hc (rec_header t (fst v) (snd v) (length payload)) payload rnd = Some (Inr r, hc')" "a' = (hc', rs)"
    by (auto simp: send_record_def m a split: list.splits if_splits option.splits prod.splits sum.splits)
  from st have i: "in_step hc (fst b)" "rand_ok rnd" "list_all rand_ok rs" by (simp_all add: ep_step_def a rs)
  from encrypt_decrypt [OF i(1,2) e(1,2) encrypt_seq [OF i(1,2) e(3)], of "fst v" "snd v"] e(3)
  obtain inp' where "decrypt (fst b) r = Some (Inr (payload, t), inp')" "in_step hc' inp'"
    by (auto simp: Let_def)
  then show "\<exists>b'. recv_record b r = Some (m, b') \<and> ep_step a' b'"
    using i(3) by (simp add: recv_record_def m e(4) ep_step_def)
qed

fun send_records :: "byte \<times> byte \<Rightarrow> endpoint \<Rightarrow> (byte \<times> bytes) list \<Rightarrow> (bytes list \<times> endpoint) option" where
  "send_records v a [] = Some ([], a)"
| "send_records v a (m # ms) =
     (case send_record v a m of
        None \<Rightarrow> None
      | Some (r, a') \<Rightarrow> map_option (\<lambda>(rs, a''). (r # rs, a'')) (send_records v a' ms))"

fun recv_records :: "endpoint \<Rightarrow> bytes list \<Rightarrow> ((byte \<times> bytes) list \<times> endpoint) option" where
  "recv_records b [] = Some ([], b)"
| "recv_records b (r # rs) =
     (case recv_record b r of
        None \<Rightarrow> None
      | Some (m, b') \<Rightarrow> map_option (\<lambda>(ms, b''). (m # ms, b'')) (recv_records b' rs))"

lemma send_records_eq: "send_records v a ms = tls.send_all v a ms"
  by (induction ms arbitrary: a) (auto split: option.splits)

lemma recv_records_eq: "recv_records b rs = tls.recv_all b rs"
  by (induction rs arbitrary: b) (auto split: option.splits)

end
