(* ===== verification/ConnLemmas.thy ===== *)
theory ConnLemmas
  imports ConnIO RecordChannel
begin

text \<open>
  What the connection's operations guarantee: a written byte string arrives as records the peer
  decrypts in order; errors are permanent; and what \<open>Write\<close> and \<open>Read\<close> do to the record layer
  when they go around it.
\<close>

section \<open>Writing records\<close>

fun decrypt_all :: "halfConn \<Rightarrow> bytes list \<Rightarrow> ((bytes \<times> byte) list \<times> halfConn) option" where
  "decrypt_all hc [] = Some ([], hc)"
| "decrypt_all hc (r # rs) =
     (case decrypt hc r of
        Some (Inr p, hc') \<Rightarrow> map_option (\<lambda>(ps, hc''). (p # ps, hc'')) (decrypt_all hc' rs)
      | _ \<Rightarrow> None)"

definition net_ok :: "network \<Rightarrow> bool" where
  "net_ok nw \<longleftrightarrow> (\<forall>n. nw_fail nw n = None) \<and> (\<forall>n. rand_ok (nw_rand nw n))"

lemma net_Write_ok: "net_ok nw \<Longrightarrow> net_Write data nw =
    ((length data, None), nw\<lparr>nw_writes := Suc (nw_writes nw), nw_sent := nw_sent nw @ [data]\<rparr>)"
  by (simp add: net_Write_def net_ok_def Let_def)

lemma record_header_eq:
  "record_header typ vers m = rec_header typ (ucast (drop_bit 8 vers)) (ucast vers) m"
  by (simp add: record_header_def rec_header_def be_enc_2)

text \<open>
  Every record but application data (and that too when dynamic sizing is off) may carry up to
  \<open>maxPlaintext\<close> bytes.
\<close>

definition record_shape :: "u16 \<Rightarrow> byte \<Rightarrow> bytes \<Rightarrow> bool" where
  "record_shape v t rec \<longleftrightarrow> (\<exists>body t'. rec = rec_header t' (ucast (drop_bit 8 v)) (ucast v) (length body) @ body \<and>
     (t' = t \<or> t' = recordTypeApplicationData))"

lemma write_records_delivers:
  assumes "in_step (c_out c) inp" and "\<not> c_buffering c" and "net_ok (c_net c)"
    and "t \<noteq> 0" and "t \<noteq> recordTypeApplicationData \<or> c_sizingDisabled c"
    and "be_dec (hc_seq (c_out c)) + length data < 2 ^ 64"
  shows "\<exists>recs pieces c' inp'. write_records t n data c = Some ((n + length data, None), c') \<and>
    nw_sent (c_net c') = nw_sent (c_net c) @ recs \<and>
    decrypt_all inp recs = Some (map (\<lambda>p. (p, t)) pieces, inp') \<and>
    concat pieces = data \<and> (\<forall>p \<in> set pieces. p \<noteq> [] \<and> length p \<le> maxPlaintext) \<and>
    in_step (c_out c') inp' \<and> c_vers c' = c_vers c \<and> \<not> c_buffering c' \<and> net_ok (c_net c') \<and>
    list_all (record_shape (record_version c) t) recs"
  using assms
proof (induction "length data" arbitrary: data n c inp rule: less_induct)
  case less
  show ?case
  proof (cases "data = []")
    case True
    with less.prems show ?thesis
      by (intro exI [of _ "[]"] exI [of _ "[]"] exI [of _ c] exI [of _ inp]) (simp add: write_records.simps)
  next
    case False
    define m where "m = min maxPlaintext (length data)"
    have m: "0 < m" "m \<le> maxPlaintext" "m \<le> length data" using False by (auto simp: m_def maxPlaintext_def)
    have mi: "(if int (length data) > int maxPlaintext then int maxPlaintext else int (length data)) = int m"
      by (simp add: m_def min_def)
    have mp: "maxPayloadSizeForWrite t c = Some (int maxPlaintext, c)"
      using less.prems(5) by (auto simp: maxPayloadSizeForWrite_def)
    define hdr where "hdr = rec_header t (ucast (drop_bit 8 (record_version c))) (ucast (record_version c)) m"
    let ?nw = "c_net c"
    let ?rnd = "nw_rand ?nw (nw_draws ?nw)"
    have lt: "length (take m data) = m" using m by simp
    have "rand_ok ?rnd" using less.prems(3) by (simp add: net_ok_def)
    moreover have "be_dec (hc_seq (c_out c)) + 1 < 2 ^ 64" using less.prems(6) False by (cases data) auto
    ultimately obtain rec ou' inp1 where e:
      "encrypt (c_out c) hdr (take m data) ?rnd = Some (Inr rec, ou')"
      "decrypt inp rec = Some (Inr (take m data, t), inp1)" "in_step ou' inp1"
      "be_dec (hc_seq ou') = be_dec (hc_seq (c_out c)) + 1" "record_shape (record_version c) t rec"
      using encrypt_decrypt [OF less.prems(1), of ?rnd "take m data" t] less.prems(4) m lt
      unfolding hdr_def Let_def record_shape_def by (metis lt)
    define c1 where "c1 = c\<lparr>c_out := ou', c_net := ?nw\<lparr>nw_draws := Suc (nw_draws ?nw)\<rparr>\<rparr>"
    define c2 where "c2 = snd (conn_write rec c1)"
    have eo: "encrypt_out (record_header t (record_version c) m) (take m data) c = Some (Inr rec, c1)"
      using e(1) by (simp add: encrypt_out_def c1_def record_header_eq hdr_def Let_def)
    have n1: "net_ok (c_net c1)" using less.prems(3) by (simp add: c1_def net_ok_def)
    have cw: "conn_write rec c1 = ((length rec, None), c2)"
      using net_Write_ok [OF n1, of rec] less.prems(2) by (simp add: conn_write_def c2_def c1_def)
    have c2: "c_out c2 = ou'" "\<not> c_buffering c2" "net_ok (c_net c2)" "c_sizingDisabled c2 = c_sizingDisabled c"
      "nw_sent (c_net c2) = nw_sent ?nw @ [rec]" "c_vers c2 = c_vers c"
      using net_Write_ok [OF n1, of rec] less.prems(2,3)
      by (simp_all add: c2_def c1_def conn_write_def net_ok_def)
    have w: "write_records t n data c = write_records t (n + m) (drop m data) c2"
    proof -
      have "int m \<le> 0 \<longleftrightarrow> False" "data = [] \<longleftrightarrow> False" using m(1) False by simp_all
      then show ?thesis
        by (simp only: write_records.simps [of t n data c] mp mi Let_def option.case prod.case sum.case nat_int eo cw if_False)
    qed
    have "length (drop m data) < length data" using m by simp
    moreover have "in_step (c_out c2) inp1" using e(3) c2(1) by simp
    moreover have "t \<noteq> recordTypeApplicationData \<or> c_sizingDisabled c2" using less.prems(5) c2(4) by simp
    moreover have "be_dec (hc_seq (c_out c2)) + length (drop m data) < 2 ^ 64"
      using less.prems(6) e(4) c2(1) m by simp
    moreover note c2(2,3) less.prems(4)
    ultimately
    obtain recs pieces c' inp' where r:
      "write_records t (n + m) (drop m data) c2 = Some ((n + m + length (drop m data), None), c')"
      "nw_sent (c_net c') = nw_sent (c_net c2) @ recs"
      "decrypt_all inp1 recs = Some (map (\<lambda>p. (p, t)) pieces, inp')"
      "concat pieces = drop m data" "\<forall>p \<in> set pieces. p \<noteq> [] \<and> length p \<le> maxPlaintext"
      "in_step (c_out c') inp'" "c_vers c' = c_vers c2" "\<not> c_buffering c'" "net_ok (c_net c')"
      "list_all (record_shape (record_version c2) t) recs"
      using less.hyps [of "drop m data" c2 inp1 "n + m"] by blast
    have p: "take m data \<noteq> []" "length (take m data) \<le> maxPlaintext" using m False by auto
    have rv: "record_version c2 = record_version c" using c2(6) by (simp add: record_version_def)
    show ?thesis
      using r w c2(5,6) e(2,5) p m(3) rv
      by (intro exI [of _ "rec # recs"] exI [of _ "take m data # pieces"] exI [of _ c'] exI [of _ inp']) simp
  qed
qed

section \<open>Going around the record layer\<close>

text \<open>An AEAD authenticates its additional data (of a record header's length).\<close>

definition aead_auth :: "aead_prim \<Rightarrow> bool" where
  "aead_auth a \<longleftrightarrow> (\<forall>nonce p ad ad'. length ad = 5 \<longrightarrow> length ad' = 5 \<longrightarrow> ad \<noteq> ad' \<longrightarrow>
     aead_open a nonce (aead_seal a nonce p ad) ad' = None)"

text \<open>
  \<open>encrypt\<close> with a nil record under TLS 1.3: the first five bytes of the packet become the header
  of the record, and the header that was authenticated is not the one that is sent.
\<close>

lemma four_cons:
  assumes "4 \<le> length xs"
  shows "\<exists>b0 b1 b2 b3 p. xs = b0 # b1 # b2 # b3 # p"
  using assms
  by (cases xs; cases "tl xs"; cases "tl (tl xs)"; cases "tl (tl (tl xs))") simp_all

lemma be_enc_2_shift: "be_enc 2 (n + 5) \<noteq> be_enc 2 n"
proof
  assume "be_enc 2 (n + 5) = be_enc 2 n"
  then have "be_dec (be_enc 2 (n + 5)) = be_dec (be_enc 2 n)" by (rule arg_cong)
  then have "(n + 5) mod 65536 = n mod 65536" by (simp only: be_dec_enc) simp
  then have "65536 dvd n + 5 - n" by (subst (asm) mod_eq_dvd_iff_nat) simp_all
  then show False by (auto dest: dvd_imp_le)
qed

lemma encrypt_headerless:
  assumes "hc_version hc = VersionTLS13" and "hc_cipher hc = Some (XorNonceAEAD msk a)" and "aead_ok a"
    and "length (hc_seq hc) = 8" and "be_dec (hc_seq hc) + 1 < 2 ^ 64" and "4 \<le> length packet"
  defines "ct \<equiv> aead_seal a (xor_nonce msk (hc_seq hc)) (drop 5 (packet @ [packet ! 0]))
      (rec_header recordTypeApplicationData (packet ! 1) (packet ! 2) (length packet + 1 + aead_overhead a))"
  shows "\<exists>hc'. encrypt hc [] packet rnd =
    Some (Inr (rec_header recordTypeApplicationData (packet ! 1) (packet ! 2) (length ct) @ ct), hc')"
    and "length ct = length packet - 4 + aead_overhead a"
proof -
  let ?n = "length packet + 1 + aead_overhead a"
  let ?r = "packet @ [packet ! 0]"
  obtain b0 b1 b2 b3 p where p: "packet = b0 # b1 # b2 # b3 # p"
    using four_cons [OF assms(6)] by blast
  obtain b4 q where q: "p @ [b0] = b4 # q" by (cases p) auto
  have sl: "set_length (?r[0 := recordTypeApplicationData]) ?n =
      rec_header recordTypeApplicationData (packet ! 1) (packet ! 2) ?n @ drop 5 ?r"
    using q by (simp add: p set_length_def rec_header_def be_enc_2)
  show len: "length ct = length packet - 4 + aead_overhead a"
    using assms(3,6) by (simp add: ct_def aead_ok_def)
  have e: "explicitNonce hc (XorNonceAEAD msk a) rnd = Some []"
    using assms(2) by (simp add: explicitNonce_def explicitNonceLen_def Let_def)
  let ?h = "rec_header recordTypeApplicationData (packet ! 1) (packet ! 2) ?n"
  have s: "seal_aead hc [] [] packet (\<lambda>nonce. aead_seal a (xor_nonce msk nonce)) (aead_overhead a) = Some (?h @ ct)"
    using assms(1,6) sl by (simp add: seal_aead_def Let_def recordHeaderLen_def ct_def)
  have pr: "protect hc (XorNonceAEAD msk a) [] [] packet = Some (?h @ ct, XorNonceAEAD msk a)"
    using s by (simp add: protect_def)
  have "incSeq (hc\<lparr>hc_cipher := Some (XorNonceAEAD msk a)\<rparr>) \<noteq> None"
    using incSeq_number [of "hc\<lparr>hc_cipher := Some (XorNonceAEAD msk a)\<rparr>"] assms(4,5) by simp
  then obtain hc' where hc': "incSeq (hc\<lparr>hc_cipher := Some (XorNonceAEAD msk a)\<rparr>) = Some hc'" by blast
  show "\<exists>hc'. encrypt hc [] packet rnd =
    Some (Inr (rec_header recordTypeApplicationData (packet ! 1) (packet ! 2) (length ct) @ ct), hc')"
    using assms(2) e pr hc' set_length_header
    by (simp add: encrypt_def recordHeaderLen_def)
qed

lemma headerless_refused:
  assumes "in_step ou inp" and "hc_version ou = VersionTLS13" and "hc_cipher ou = Some (XorNonceAEAD msk a)"
    and "aead_auth a" and "be_dec (hc_seq ou) + 1 < 2 ^ 64" and "4 \<le> length packet"
  shows "\<exists>rec ou'. encrypt ou [] packet rnd = Some (Inr rec, ou') \<and>
           decrypt inp rec = Some (Inl alertBadRecordMAC, inp)"
proof -
  obtain d where d: "hc_cipher inp = Some d" using assms(1,3) by (auto simp: in_step_def split: option.splits)
  with in_stepD(5) [OF assms(1) assms(3) d] have dd: "hc_cipher inp = Some (XorNonceAEAD msk a)" and ok: "aead_ok a"
    by (cases d; simp)+
  note st = in_stepD [OF assms(1)]
  define h0 where "h0 = rec_header recordTypeApplicationData (packet ! 1) (packet ! 2) (length packet + 1 + aead_overhead a)"
  define ct where "ct = aead_seal a (xor_nonce msk (hc_seq ou)) (drop 5 (packet @ [packet ! 0])) h0"
  define h1 where "h1 = rec_header recordTypeApplicationData (packet ! 1) (packet ! 2) (length ct)"
  note enc = encrypt_headerless [OF assms(2,3) ok st(4) assms(5,6), folded h0_def, folded ct_def, folded h1_def]
  from enc(1) [of rnd] obtain ou' where e: "encrypt ou [] packet rnd = Some (Inr (h1 @ ct), ou')" by blast
  have "length packet + 1 + aead_overhead a = length ct + 5" using enc(2) assms(6) by simp
  then have "be_enc 2 (length packet + 1 + aead_overhead a) \<noteq> be_enc 2 (length ct)"
    using be_enc_2_shift [of "length ct"] by (simp only: not_False_eq_True)
  then have "h0 \<noteq> h1" by (simp add: h0_def h1_def rec_header_def)
  then have op: "aead_open a (xor_nonce msk (hc_seq inp)) ct h1 = None"
    using assms(4) st(3) by (simp add: aead_auth_def ct_def h0_def h1_def)
  have "decrypt inp (h1 @ ct) = Some (Inl alertBadRecordMAC, inp)"
  proof -
    have t: "(h1 @ ct) ! 0 = recordTypeApplicationData" "take recordHeaderLen (h1 @ ct) = h1"
      "drop recordHeaderLen (h1 @ ct) = ct" "\<not> length (h1 @ ct) < recordHeaderLen"
      by (simp_all add: h1_def rec_header_def recordHeaderLen_def be_enc_2)
    have ne: "recordTypeApplicationData \<noteq> recordTypeChangeCipherSpec" by (simp add: record_type_defs)
    have enl: "explicitNonceLen inp = 0" using dd by (simp add: explicitNonceLen_def)
    have v: "hc_version inp = VersionTLS13" using st(1) assms(2) by simp
    have "unprotect inp (XorNonceAEAD msk a) h1 ct = Some (Inl alertBadRecordMAC, inp)"
      using op enl v by (simp add: unprotect_def open_aead_def additionalData_def Let_def)
    then show ?thesis
      using ne dd by (simp add: decrypt_def t Let_def del: length_append take_append drop_append)
  qed
  with e show ?thesis by blast
qed

section \<open>Errors of reading\<close>

lemma finish_record_Inl:
  "finish_record hc hdr t op = Some (Inl a, hc') \<Longrightarrow> a = alertBadRecordMAC"
  by (auto simp: finish_record_def check_mac_def Let_def split: option.splits sum.splits if_splits)

lemma content_type_loop_Inl: "content_type_loop n p t = Inl a \<Longrightarrow> a = alertUnexpectedMessage"
  by (induction n) (auto split: if_splits)

lemma unprotect_Inl: "unprotect hc c hdr p = Some (Inl a, hc') \<Longrightarrow> a = alertBadRecordMAC"
  by (cases c)
    (auto simp: unprotect_def open_aead_def open_cbc_def Let_def split: option.splits if_splits prod.splits)

lemma decrypt_alerts:
  "decrypt hc r = Some (Inl a, hc') \<Longrightarrow> a \<in> {alertBadRecordMAC, alertUnexpectedMessage, alertRecordOverflow}"
  by (auto simp: decrypt_def inner_type_def Let_def split: if_splits option.splits sum.splits prod.splits
      dest!: finish_record_Inl unprotect_Inl content_type_loop_Inl)

definition fatal :: "byte \<Rightarrow> bool" where "fatal a \<longleftrightarrow> a \<noteq> alertCloseNotify"

lemma fatal_alerts [simp]:
  "fatal alertBadRecordMAC" "fatal alertUnexpectedMessage" "fatal alertRecordOverflow" "fatal alertDecodeError"
  "fatal alertInternalError" "fatal alertProtocolVersion"
  by (simp_all add: fatal_def alert_defs)

text \<open>A failed read leaves its error in \<open>c.in.err\<close>, unless it is temporary.\<close>

definition stuck :: "read_outcome \<times> conn \<Rightarrow> bool" where
  "stuck rc \<longleftrightarrow> (case rc of (Done (Some e), c) \<Rightarrow> temporary (c_net c) e \<or> hc_err (c_in c) = Some e | _ \<Rightarrow> True)"

lemma set_in_err_eq: "set_in_err e c = (e, c\<lparr>c_in := (c_in c)\<lparr>hc_err := Some e\<rparr>\<rparr>)"
  by (simp add: set_in_err_def setErrorLocked_def)

lemma fail_alert_stuck:
  assumes "fail_alert a c = Some (e, c')" and "fatal a"
  shows "e = Some (LocalError a) \<and> hc_err (c_in c') = e"
  using assms by (auto simp: fail_alert_def sendAlertLocked_def set_in_err_eq fatal_def split: option.splits if_splits)

lemma alert_then_fail_stuck:
  "alert_then_fail a e0 c = Some (e, c') \<Longrightarrow> e = Some e0 \<and> hc_err (c_in c') = e"
  by (auto simp: alert_then_fail_def set_in_err_eq split: option.splits)

lemma fail_with_stuck: "fail_with e0 c = Some (e, c') \<Longrightarrow> e = Some e0 \<and> hc_err (c_in c') = e"
  by (auto simp: fail_with_def set_in_err_eq)

lemma read_failed_stuck: "read_failed e0 c = (e, c') \<Longrightarrow> stuck (Done e, c') \<and> e = Some e0"
  by (auto simp: read_failed_def set_in_err_eq stuck_def split: if_splits)

lemmas stuckD = fail_alert_stuck alert_then_fail_stuck fail_with_stuck

lemma process_alert_stuck: "process_alert d c = Some r \<Longrightarrow> stuck r \<and> fst r \<noteq> Done None"
  by (auto simp: process_alert_def stuck_def split: if_splits dest!: stuckD)

lemma changeCipherSpec_Inl: "changeCipherSpec hc = Inl a \<Longrightarrow> fatal a"
  by (auto simp: changeCipherSpec_def split: if_splits)

lemma process_ccs_stuck: "process_ccs x d c = Some r \<Longrightarrow> stuck r"
  by (auto simp: process_ccs_def stuck_def split: if_splits sum.splits option.splits
      dest!: stuckD changeCipherSpec_Inl)

lemma process_record_stuck: "process_record x d t c = Some r \<Longrightarrow> stuck r"
  by (auto simp: process_record_def Let_def split: if_splits dest!: stuckD process_alert_stuck process_ccs_stuck)
    (auto simp: stuck_def)

lemma read_payload_stuck: "read_payload x n c = Some r \<Longrightarrow> stuck r"
  by (auto simp: read_payload_def Let_def split: option.splits sum.splits prod.splits
      dest!: read_failed_stuck process_record_stuck decrypt_alerts stuckD)
    (auto simp: stuck_def)

lemma read_body_stuck: "read_body x c = Some r \<Longrightarrow> stuck r"
  by (auto simp: read_body_def Let_def split: if_splits dest!: stuckD read_payload_stuck)
    (auto simp: stuck_def)

lemma read_one_stuck: "read_one x c = Some r \<Longrightarrow> stuck r"
  by (auto simp: read_one_def Let_def split: if_splits option.splits prod.splits
      dest!: fail_with_stuck read_failed_stuck read_body_stuck)
    (auto simp: stuck_def)

lemma readRecordOrCCS_stuck: "readRecordOrCCS x c = Some (e, c') \<Longrightarrow> stuck (Done e, c')"
proof (induction x c arbitrary: e c' rule: readRecordOrCCS.induct)
  case (1 x c)
  from 1(2) obtain r c1 where r: "read_one x c = Some (r, c1)"
    by (auto simp: readRecordOrCCS.simps [of x c] split: option.splits)
  show ?case
  proof (cases r)
    case (Done e1)
    with 1(2) r read_one_stuck [OF r] show ?thesis by (simp add: readRecordOrCCS.simps [of x c])
  next
    case Retry
    show ?thesis
    proof (cases "c_retryCount c1 + 1 > maxUselessRecords")
      case True
      with 1(2) r Retry show ?thesis
        by (auto simp: readRecordOrCCS.simps [of x c] stuck_def dest!: alert_then_fail_stuck split: option.splits)
    next
      case False
      with 1(2) r Retry have "readRecordOrCCS x (c1\<lparr>c_retryCount := c_retryCount c1 + 1\<rparr>) = Some (e, c')"
        by (simp add: readRecordOrCCS.simps [of x c])
      from 1(1) [OF r refl Retry False this] show ?thesis .
    qed
  qed
qed

section \<open>What a successful read delivers\<close>

text \<open>
  Handshake data, application data, or the switch to the keys that were prepared before the call: the record with
  the ChangeCipherSpec message, and those dropped before it, are decrypted first, which changes nothing that
  \<open>changeCipherSpec\<close> keeps.
\<close>

definition delivered :: "bool \<Rightarrow> conn \<Rightarrow> conn \<Rightarrow> bool" where
  "delivered expectCCS c c' \<longleftrightarrow>
     (if expectCCS then c_hand c = [] \<and> c_hand c' = [] \<and> c_input c' = c_input c \<and>
        c_vers c \<noteq> VersionTLS13 \<and> changeCipherSpec (c_in c) = Inr (c_in c')
      else \<exists>d. d \<noteq> [] \<and> length d \<le> maxPlaintext \<and>
        (c_hand c' = c_hand c @ d \<and> c_input c' = c_input c \<or>
         c_complete c \<and> c_input c' = d \<and> c_hand c' = c_hand c))"

definition kept :: "conn \<Rightarrow> bytes \<times> bytes \<times> bool \<times> u16 \<times> (byte + halfConn)" where
  "kept c = (c_hand c, c_input c, c_complete c, c_vers c, changeCipherSpec (c_in c))"

definition outcome_ok :: "bool \<Rightarrow> conn \<Rightarrow> read_outcome \<times> conn \<Rightarrow> bool" where
  "outcome_ok x c rc \<longleftrightarrow> (case rc of
     (Done (Some e), _) \<Rightarrow> True | (Done None, c') \<Rightarrow> delivered x c c' | (Retry, c') \<Rightarrow> kept c' = kept c)"

lemma kept_simps [simp]:
  "kept (c\<lparr>c_retryCount := k\<rparr>) = kept c" "kept (c\<lparr>c_rawInput := b\<rparr>) = kept c"
  "changeCipherSpec h = changeCipherSpec (c_in c) \<Longrightarrow> kept (c\<lparr>c_in := h\<rparr>) = kept c"
  by (simp_all add: kept_def)

text \<open>Decryption touches the cipher in use and the sequence number only.\<close>

lemma incSeq_keys: "incSeq hc = Some hc' \<Longrightarrow> changeCipherSpec hc' = changeCipherSpec hc \<and> hc_mac hc' = hc_mac hc"
  by (auto simp: incSeq_def changeCipherSpec_def)

lemma unprotect_keys:
  "unprotect hc c hdr p = Some (r, hc') \<Longrightarrow> changeCipherSpec hc' = changeCipherSpec hc \<and> hc_mac hc' = hc_mac hc"
  by (cases c)
    (auto simp: unprotect_def open_cbc_def changeCipherSpec_def Let_def split: option.splits if_splits prod.splits)

lemma finish_record_keys:
  "finish_record hc hdr t op = Some (r, hc') \<Longrightarrow> changeCipherSpec hc' = changeCipherSpec hc \<and> hc_mac hc' = hc_mac hc"
  by (auto simp: finish_record_def dest: incSeq_keys split: sum.splits option.splits)

lemma decrypt_keys:
  "decrypt hc r = Some (x, hc') \<Longrightarrow> changeCipherSpec hc' = changeCipherSpec hc \<and> hc_mac hc' = hc_mac hc"
  by (auto simp: decrypt_def Let_def split: if_splits option.splits sum.splits prod.splits
      dest!: unprotect_keys finish_record_keys)

lemma delivered_kept: "kept c1 = kept c \<Longrightarrow> delivered x c1 c' = delivered x c c'"
  by (simp add: delivered_def kept_def)

lemma outcome_ok_kept:
  assumes "kept c1 = kept c"
  shows "outcome_ok x c1 r = outcome_ok x c r"
proof -
  have "delivered x c1 = delivered x c" using delivered_kept [OF assms] by blast
  then show ?thesis by (simp only: outcome_ok_def assms)
qed

lemma outcome_ok_Some [simp]: "outcome_ok x c (Done (Some e), c')"
  by (simp add: outcome_ok_def)

lemma readFromUntil_kept: "readFromUntil n c = (e, c') \<Longrightarrow> kept c' = kept c"
  by (auto simp: readFromUntil_def case_prod_unfold Let_def kept_def)

lemma fail_done:
  "fail_alert a c = Some (e, c') \<Longrightarrow> fatal a \<Longrightarrow> outcome_ok x c0 (Done e, c')"
  "alert_then_fail a e0 c = Some (e, c') \<Longrightarrow> outcome_ok x c0 (Done e, c')"
  "fail_with e0 c = Some (e, c') \<Longrightarrow> outcome_ok x c0 (Done e, c')"
  "read_failed e0 c = (e, c') \<Longrightarrow> outcome_ok x c0 (Done e, c')"
  by (auto dest: stuckD read_failed_stuck)

lemma outcome_ok_Retry [simp]: "outcome_ok x c (Retry, c)"
  by (simp add: outcome_ok_def)

lemma process_alert_outcome: "process_alert d c = Some r \<Longrightarrow> outcome_ok x c r"
  by (auto simp: process_alert_def split: if_splits elim: fail_done)

lemma process_ccs_outcome:
  assumes "process_ccs x d c = Some r"
  shows "outcome_ok x c r"
proof (cases "length d \<noteq> 1 \<or> d ! 0 \<noteq> 1 \<or> length (c_hand c) > 0 \<or> c_vers c = VersionTLS13 \<or> \<not> x")
  case True
  with assms show ?thesis
    by (auto simp: process_ccs_def split: if_splits elim: fail_done)
next
  case False
  then have r: "process_ccs x d c = (case changeCipherSpec (c_in c) of
      Inl a \<Rightarrow> done_with (fail_alert a c) | Inr hc \<Rightarrow> Some (Done None, c\<lparr>c_in := hc\<rparr>))"
    by (simp add: process_ccs_def)
  show ?thesis
  proof (cases "changeCipherSpec (c_in c)")
    case (Inl a)
    with assms r changeCipherSpec_Inl [OF Inl] show ?thesis by (auto elim: fail_done)
  next
    case (Inr hc)
    with assms r False show ?thesis by (auto simp: outcome_ok_def delivered_def)
  qed
qed

lemma got_hand: "d \<noteq> [] \<Longrightarrow> length d \<le> maxPlaintext \<Longrightarrow> outcome_ok False c (Done None, c\<lparr>c_hand := c_hand c @ d\<rparr>)"
  and got_input: "d \<noteq> [] \<Longrightarrow> length d \<le> maxPlaintext \<Longrightarrow> c_complete c \<Longrightarrow> outcome_ok False c (Done None, c\<lparr>c_input := d\<rparr>)"
  by (auto simp: outcome_ok_def delivered_def)

lemma process_record_outcome:
  assumes "process_record x d t c = Some r"
  shows "outcome_ok x c r"
proof -
  obtain c1 where c1: "c1 = (if t \<noteq> recordTypeAlert \<and> t \<noteq> recordTypeChangeCipherSpec \<and> length d > 0
      then c\<lparr>c_retryCount := 0\<rparr> else c)" by blast
  then have k: "kept c1 = kept c" by simp
  have "outcome_ok x c1 r"
    using assms unfolding process_record_def Let_def c1 [symmetric]
    by (auto simp: got_hand got_input split: if_splits
        elim: fail_done process_alert_outcome process_ccs_outcome)
  with outcome_ok_kept [OF k] show ?thesis by simp
qed

lemma read_payload_outcome:
  assumes "read_payload x n c = Some r"
  shows "outcome_ok x c r"
proof -
  obtain e c1 where rf: "readFromUntil (recordHeaderLen + n) c = (e, c1)" by fastforce
  note k = readFromUntil_kept [OF rf]
  show ?thesis
  proof (cases e)
    case (Some a)
    with assms rf show ?thesis by (auto simp: read_payload_def Let_def split: prod.splits elim: fail_done)
  next
    case None
    define c2 where "c2 = c1\<lparr>c_rawInput := drop (recordHeaderLen + n) (c_rawInput c1)\<rparr>"
    from assms rf None obtain y hc where
      d: "decrypt (c_in c1) (take (recordHeaderLen + n) (c_rawInput c1)) = Some (y, hc)"
      and r: "(case y of Inl a \<Rightarrow> done_with (fail_alert a (c2\<lparr>c_in := hc\<rparr>))
               | Inr (data, t) \<Rightarrow> process_record x data t (c2\<lparr>c_in := hc\<rparr>)) = Some r"
      by (auto simp: read_payload_def c2_def Let_def split: option.splits sum.splits)
    have "changeCipherSpec hc = changeCipherSpec (c_in c2)" using decrypt_keys [OF d] by (simp add: c2_def)
    then have k2: "kept (c2\<lparr>c_in := hc\<rparr>) = kept c" using k by (simp add: c2_def)
    from r d show ?thesis
      by (auto simp: outcome_ok_kept [OF k2, symmetric] split: sum.splits prod.splits
          dest!: decrypt_alerts process_record_outcome elim: fail_done)
  qed
qed

lemma read_body_outcome: "read_body x c = Some r \<Longrightarrow> outcome_ok x c r"
  by (auto simp: read_body_def Let_def split: if_splits
      elim: fail_done read_payload_outcome)

lemma read_one_outcome:
  assumes "read_one x c = Some r"
  shows "outcome_ok x c r"
proof (cases "hc_err (c_in c) = None \<and> c_input c = []")
  case False
  with assms show ?thesis by (auto simp: read_one_def split: option.splits dest!: stuckD)
next
  case True
  obtain e c1 where rf: "readFromUntil recordHeaderLen c = (e, c1)" by fastforce
  show ?thesis
  proof (cases e)
    case None
    with assms True rf have "read_body x c1 = Some r" by (simp add: read_one_def)
    with read_body_outcome outcome_ok_kept [OF readFromUntil_kept [OF rf]] show ?thesis by blast
  next
    case (Some a)
    with assms True rf show ?thesis
      by (auto simp: read_one_def Let_def split: prod.splits if_splits elim: fail_done)
  qed
qed

lemma readRecordOrCCS_delivered: "readRecordOrCCS x c = Some (None, c') \<Longrightarrow> delivered x c c'"
proof (induction x c arbitrary: c' rule: readRecordOrCCS.induct)
  case (1 x c)
  from 1(2) obtain r c1 where r: "read_one x c = Some (r, c1)"
    by (auto simp: readRecordOrCCS.simps [of x c] split: option.splits)
  note ok = read_one_outcome [OF r]
  show ?case
  proof (cases r)
    case (Done e1)
    with 1(2) r ok show ?thesis by (simp add: readRecordOrCCS.simps [of x c] outcome_ok_def)
  next
    case Retry
    let ?c2 = "c1\<lparr>c_retryCount := c_retryCount c1 + 1\<rparr>"
    have le: "\<not> c_retryCount c1 + 1 > maxUselessRecords"
      using 1(2) r Retry by (auto simp: readRecordOrCCS.simps [of x c] dest!: alert_then_fail_stuck split: if_splits)
    with 1(2) r Retry have "readRecordOrCCS x ?c2 = Some (None, c')"
      by (simp add: readRecordOrCCS.simps [of x c])
    with 1(1) [OF r refl Retry le] have "delivered x ?c2 c'" by blast
    moreover have "kept ?c2 = kept c" using ok Retry by (simp add: outcome_ok_def)
    ultimately show ?thesis using delivered_kept by blast
  qed
qed

section \<open>Closing\<close>

lemma sendAlert_closing:
  "sendAlertLocked a c = Some (e, c') \<Longrightarrow> c_activeCall c' = c_activeCall c \<and> c_complete c' = c_complete c \<and>
     nw_closed (c_net c') = nw_closed (c_net c)"
  by (drule sendAlert_read_side) (simp add: read_side_def)

lemma closeNotify_closing:
  "closeNotify c = Some (e, c') \<Longrightarrow> c_activeCall c' = c_activeCall c \<and>
     nw_closed (c_net c') = nw_closed (c_net c) \<and> c_closeNotifySent c' \<and> c_closeNotifyErr c' = e"
  by (auto simp: closeNotify_def split: if_splits option.splits dest: sendAlert_closing)

lemma Close_result:
  assumes "Close c = Some (e, c')"
  shows "c_activeCall c' AND 1 \<noteq> 0 \<and>
    nw_closed (c_net c') = nw_closed (c_net c) + (if c_activeCall c AND 1 \<noteq> 0 then 0 else 1) \<and>
    (c_complete c \<and> c_activeCall c = 0 \<longrightarrow> c_closeNotifySent c')"
proof -
  have one: "(x OR 1) AND 1 = (1 :: 32 word)" for x by (rule bit_word_eqI) (auto simp: bit_simps)
  show ?thesis
    using assms
    by (auto simp: Close_def Let_def net_Close_def one split: if_splits option.splits prod.splits
        dest!: closeNotify_closing)
qed

end
