(* ===== verification/ConnReads.thy ===== *)
theory ConnReads
  imports ConnLemmas
begin

text \<open>
  How one application data record travels: what \<open>readRecord\<close> does with it, and what \<open>Read\<close> and
  \<open>Write\<close> of the Disguise connection make of the records around it.
\<close>

section \<open>One record of application data\<close>

text \<open>An established connection that waits for a record, with an empty buffer.\<close>

definition idle :: "conn \<Rightarrow> bool" where
  "idle c \<longleftrightarrow> c_complete c \<and> c_haveVers c \<and> c_vers c \<noteq> 0 \<and> hc_version (c_in c) = c_vers c \<and>
     hc_err (c_in c) = None \<and> c_input c = [] \<and> c_hand c = [] \<and> c_rawInput c = []"

lemma header_fields:
  assumes "k < 65536"
  shows "be_dec [(rec_header t v1 v2 k @ body) ! 3, (rec_header t v1 v2 k @ body) ! 4] = k"
proof -
  have "be_dec (be_enc 2 k) = k" using assms by (simp only: be_dec_enc) simp
  then show ?thesis by (simp only: rec_header_def be_enc_2) simp
qed

lemma version_bytes: "[ucast (drop_bit 8 v :: u16), ucast v] = be_enc 2 (unat v)"
proof -
  have "unat v div 256 = unat (drop_bit 8 v)" by (simp add: drop_bit_eq_div unat_div_distrib)
  then show ?thesis by (simp only: be_enc_2 of_nat_unat)
qed

lemma version_field: "(word_of_nat (be_dec [ucast (drop_bit 8 v :: u16), ucast v]) :: u16) = v"
  by (simp only: version_bytes be_dec_enc_u16 of_nat_unat) simp

text \<open>
  A record the peer made from non-empty application data is decrypted into \<open>c.input\<close>; the rest
  of the input is left alone.
\<close>

lemma readRecord_data:
  assumes c: "idle c" and dec: "decrypt (c_in c) rec = Some (Inr (payload, recordTypeApplicationData), inp')"
    and rec: "rec = rec_header recordTypeApplicationData (ucast (drop_bit 8 (record_version c))) (ucast (record_version c)) (length body) @ body"
    and len: "length body \<le> maxCiphertextTLS13" and payload: "payload \<noteq> []" "length payload \<le> maxPlaintext"
    and inp: "hc_cipher inp' \<noteq> None" and chunks: "nw_chunks (c_net c) = (rec @ extra) # later"
  shows "readRecord c = Some (None, c\<lparr>c_in := inp', c_rawInput := extra, c_input := payload, c_retryCount := 0,
           c_net := (c_net c)\<lparr>nw_chunks := later\<rparr>\<rparr>)"
proof -
  let ?n = "length body"
  let ?c1 = "c\<lparr>c_rawInput := rec @ extra, c_net := (c_net c)\<lparr>nw_chunks := later\<rparr>\<rparr>"
  let ?c2 = "?c1\<lparr>c_rawInput := extra\<rparr>"
  have lr: "length rec = recordHeaderLen + ?n" using rec by (simp add: recordHeaderLen_def)
  have r1: "readFromUntil recordHeaderLen c = (None, ?c1)"
    using c chunks lr by (simp add: readFromUntil_def read_until.simps idle_def recordHeaderLen_def Let_def)
  have r2: "readFromUntil (recordHeaderLen + ?n) ?c1 = (None, ?c1)"
    using lr by (simp add: readFromUntil_def read_until.simps)
  have small: "?n < 65536" "?n \<le> maxCiphertext" using len by (simp_all add: size_defs)
  let ?hdr = "take recordHeaderLen (rec @ extra)"
  have h: "?hdr = rec_header recordTypeApplicationData (ucast (drop_bit 8 (record_version c))) (ucast (record_version c)) ?n"
    using rec by (simp add: recordHeaderLen_def)
  have h0: "?hdr ! 0 = recordTypeApplicationData" "?hdr ! 1 = ucast (drop_bit 8 (record_version c))" "?hdr ! 2 = ucast (record_version c)"
    "be_dec [?hdr ! 3, ?hdr ! 4] = ?n"
    using header_fields [OF small(1), where body = "[]"] unfolding h by (simp_all add: rec_header_def)
  have alert_ne: "recordTypeApplicationData \<noteq> recordTypeAlert" "recordTypeApplicationData \<noteq> recordTypeChangeCipherSpec"
    "recordTypeApplicationData \<noteq> recordTypeHandshake"
    by (simp_all add: record_type_defs)
  have p: "process_record False payload recordTypeApplicationData (?c2\<lparr>c_in := inp'\<rparr>) =
      Some (Done None, ?c2\<lparr>c_in := inp', c_retryCount := 0, c_input := payload\<rparr>)"
    using c inp payload alert_ne by (auto simp: process_record_def idle_def Let_def)
  have rp: "read_payload False ?n ?c1 = Some (Done None, ?c2\<lparr>c_in := inp', c_retryCount := 0, c_input := payload\<rparr>)"
    using dec p lr by (simp add: read_payload_def r2 Let_def)
  have "read_body False ?c1 = Some (Done None, ?c2\<lparr>c_in := inp', c_retryCount := 0, c_input := payload\<rparr>)"
    using rp c small(2) len h0
    by (simp add: read_body_def Let_def version_field idle_def record_version_def del: be_dec.simps take_append)
  then have "read_one False c = Some (Done None, ?c2\<lparr>c_in := inp', c_retryCount := 0, c_input := payload\<rparr>)"
    using c r1 by (simp add: read_one_def idle_def)
  then show ?thesis by (simp add: readRecord_def readRecordOrCCS.simps [of False c])
qed

section \<open>Read\<close>

lemma ReadApplicationData_empty:
  "\<not> m_locked m \<Longrightarrow> buf_len (inboundQueue m) = 0 \<Longrightarrow> ReadApplicationData m = Returned None m"
  by (simp add: ReadApplicationData_def with_lock_def)

lemma ReadApplicationData_data:
  assumes "\<not> m_locked m" and "buf_len (inboundQueue m) > 0"
  shows "ReadApplicationData m =
    Returned (Some (Buffer_Bytes (inboundQueue m))) (m\<lparr>inboundQueue := Buffer_Reset (inboundQueue m)\<rparr>)"
  using assms by (simp add: ReadApplicationData_def with_lock_def)

lemma handshakeContext_complete: "c_complete c \<Longrightarrow> handshakeContext hs c = Some (None, c)"
  by (simp add: handshakeContext_def)

lemma Read_complete:
  "c_complete c \<Longrightarrow> Read hs n (Some m) c =
     (case read_loop n m c of
        Panicked \<Rightarrow> Panicked
      | Blocked (c2, m') \<Rightarrow> Blocked (c2, Some m')
      | Returned r (c2, m') \<Rightarrow> Returned r (c2, Some m'))"
  by (simp add: Read_def handshakeContext_complete)

text \<open>After \<open>readRecord\<close> nothing is left to decrypt.\<close>

lemma readAndDecryptRecord_empty:
  assumes "readRecord c = Some (None, c1)" and "c_rawInput c1 = []"
  shows "readAndDecryptRecord c = None"
  using assms by (simp add: readAndDecryptRecord_def Let_def decrypt_def recordHeaderLen_def)

lemma read_loop_needs_record:
  assumes "\<not> m_locked m" and "buf_len (inboundQueue m) = 0" and "readAndDecryptRecord c = None"
  shows "read_loop n m c = Panicked"
  using assms by (simp add: read_loop.simps ReadApplicationData_empty)

lemma read_loop_data:
  assumes "\<not> m_locked m" and "buffer_ok (inboundQueue m)" and "unread (inboundQueue m) \<noteq> []"
  shows "read_loop n m c =
    Returned (take n (unread (inboundQueue m)), None) (c, m\<lparr>inboundQueue := Buffer_Reset (inboundQueue m)\<rparr>)"
proof -
  let ?b = "inboundQueue m"
  have a: "arrays ?b \<noteq> []" and l: "buf_len ?b > 0" using assms(3) by (auto split: if_splits)
  have "slice_contents (Buffer_Bytes ?b) (Buffer_Reset ?b) = unread ?b"
    using unread_Bytes [OF a] by (simp add: slice_contents_def Buffer_Reset_def Buffer_Bytes_def)
  moreover have "length (unread ?b) > 0" using assms(3) by blast
  ultimately show ?thesis
    by (simp only: read_loop.simps [of n m c] ReadApplicationData_data [OF assms(1) l]
        outcome.case option.case Let_def if_True) simp
qed

section \<open>Write\<close>

lemma EncodeCell_length: "EncodeCell c = Some bs \<Longrightarrow> 22 \<le> length bs"
  by (auto simp: cell_header_def dest!: EncodeCell_shape)

lemma GetOutboundTraffic_length:
  "GetOutboundTraffic m = Returned (Inr packet) m' \<Longrightarrow> 22 \<le> length packet"
  by (auto simp: GetOutboundTraffic_def with_lock_Returned case_prod_unfold split: option.splits prod.splits
      dest: EncodeCell_length)

lemma write_loop_round:
  assumes "GetOutboundTraffic m = Returned (Inr packet) m1" and "encrypt_out [] packet c = Some (Inr rec, c1)"
    and "net_ok (c_net c1)"
  shows "write_loop m c = write_loop m1 (c1\<lparr>c_net := snd (net_Write rec (c_net c1))\<rparr>)"
    and "nw_sent (snd (net_Write rec (c_net c1))) = nw_sent (c_net c1) @ [rec]"
  using assms by (simp_all add: write_loop.simps [of m c] net_Write_ok)

lemma encrypt_out_sent: "encrypt_out r p c = Some (x, c1) \<Longrightarrow>
    nw_sent (c_net c1) = nw_sent (c_net c) \<and> (net_ok (c_net c) \<longrightarrow> net_ok (c_net c1))"
  by (auto simp: encrypt_out_def Let_def net_ok_def)

end
