(* ===== verification/ReadTotal.thy ===== *)
theory ReadTotal
  imports ConnLemmas
begin

text \<open>
  Reading a record does not panic. What the two directions need for that: a MAC where the cipher has
  none of its own, and a sequence number that is far enough from its end, since one call may decrypt
  up to \<open>maxUselessRecords + 1\<close> records and send one alert.
\<close>

section \<open>Decrypting\<close>

definition readable :: "nat \<Rightarrow> halfConn \<Rightarrow> bool" where
  "readable n hc \<longleftrightarrow> length (hc_seq hc) = 8 \<and> be_dec (hc_seq hc) + n < 2 ^ 64 \<and>
     (case hc_cipher hc of Some c \<Rightarrow> is_CBC c \<longrightarrow> hc_mac hc \<noteq> None | None \<Rightarrow> True)"

lemma readable_mono: "readable n hc \<Longrightarrow> m \<le> n \<Longrightarrow> readable m hc"
  by (simp add: readable_def)

lemma incSeq_readable:
  assumes "readable (Suc n) hc"
  shows "\<exists>hc'. incSeq hc = Some hc' \<and> readable n hc'"
proof -
  let ?k = "be_dec (hc_seq hc) + 1"
  have l: "length (hc_seq hc) = 8" "?k + n < 2 ^ 64" using assms by (simp_all add: readable_def)
  then have "incSeq hc = Some (hc\<lparr>hc_seq := be_enc 8 ?k\<rparr>)" using incSeq_number [OF l(1)] by simp
  moreover have "be_dec (be_enc 8 ?k) = ?k" using l(2) by (simp only: be_dec_enc) simp
  ultimately show ?thesis using assms l(2) 
    by (auto simp: readable_def simp del: be_enc.simps be_dec.simps split: option.splits)
qed

lemma finish_record_total:
  "readable (Suc n) hc \<Longrightarrow> \<exists>r hc'. finish_record hc hdr t op = Some (r, hc') \<and> readable n hc'"
  using incSeq_readable [of n hc] readable_mono [of "Suc n" hc n]
  by (fastforce simp: finish_record_def split: sum.splits)

lemma unprotect_total:
  assumes "readable n hc" and "hc_cipher hc = Some c"
  shows "\<exists>r hc'. unprotect hc c hdr p = Some (r, hc') \<and> readable n hc'"
  using assms
  by (cases c; cases "hc_mac hc")
    (auto simp: unprotect_def open_cbc_def readable_def is_CBC_def Let_def split: prod.splits)

lemma decrypt_total:
  assumes "readable (Suc n) hc" and "recordHeaderLen \<le> length rec"
  shows "\<exists>r hc'. decrypt hc rec = Some (r, hc') \<and> readable n hc'"
proof (cases "hc_version hc = VersionTLS13 \<and> rec ! 0 = recordTypeChangeCipherSpec")
  case True
  with assms readable_mono [of "Suc n" hc n] show ?thesis by (simp add: decrypt_def Let_def)
next
  case False
  show ?thesis
  proof (cases "hc_cipher hc")
    case None
    with False assms finish_record_total [OF assms(1)] readable_mono [OF assms(1), of n]
    show ?thesis by (simp add: decrypt_def Let_def)
  next
    case (Some c)
    let ?hdr = "take recordHeaderLen rec"
    obtain r hc' where u: "unprotect hc c ?hdr (drop recordHeaderLen rec) = Some (r, hc')" "readable (Suc n) hc'"
      using unprotect_total [OF assms(1) Some] by blast
    show ?thesis
      using False assms(2) Some u finish_record_total [OF u(2)] readable_mono [OF u(2), of n]
      by (auto simp: decrypt_def Let_def split: sum.split)
  qed
qed

section \<open>Sending an alert\<close>

definition writable :: "halfConn \<Rightarrow> bool" where
  "writable hc \<longleftrightarrow> (case hc_cipher hc of
     None \<Rightarrow> True
   | Some c \<Rightarrow> length (hc_seq hc) = 8 \<and> be_dec (hc_seq hc) + 1 < 2 ^ 64 \<and>
       ((is_CBC c \<or> (\<exists>ks pos. c = StreamCipher ks pos)) \<longrightarrow> hc_mac hc \<noteq> None))"

lemma protect_total:
  assumes "is_CBC c \<or> (\<exists>ks pos. c = StreamCipher ks pos) \<longrightarrow> hc_mac hc \<noteq> None" and "recordHeaderLen \<le> length rec"
  shows "protect hc c rec eNonce p \<noteq> None"
  using assms
  by (cases c; cases "hc_mac hc")
    (auto simp: protect_def seal_cbc_def seal_aead_def is_CBC_def Let_def recordHeaderLen_def split: prod.splits)

lemma encrypt_total:
  assumes "writable hc" and "recordHeaderLen \<le> length rec"
  shows "\<exists>r hc'. encrypt hc rec p rnd = Some (r, hc')"
proof (cases "hc_cipher hc")
  case None
  then show ?thesis by (simp add: encrypt_def)
next
  case (Some c)
  show ?thesis
  proof (cases "explicitNonce hc c rnd")
    case None
    with Some show ?thesis by (simp add: encrypt_def)
  next
    case (Some eNonce)
    obtain r c' where "protect hc c (rec @ eNonce) eNonce p = Some (r, c')"
      using protect_total [of c hc "rec @ eNonce" eNonce p] assms \<open>hc_cipher hc = Some c\<close> by (auto simp: writable_def)
    moreover have "incSeq (hc\<lparr>hc_cipher := Some c'\<rparr>) \<noteq> None"
      using incSeq_number [of "hc\<lparr>hc_cipher := Some c'\<rparr>"] assms(1) \<open>hc_cipher hc = Some c\<close> by (simp add: writable_def)
    ultimately show ?thesis using Some \<open>hc_cipher hc = Some c\<close> by (auto simp: encrypt_def)
  qed
qed

lemma sendAlert_total:
  assumes "writable (c_out c)"
  shows "\<exists>e c'. sendAlertLocked a c = Some (e, c')"
proof -
  let ?p = "[alert_level a, a]"
  have m: "maxPayloadSizeForWrite recordTypeAlert c = Some (int maxPlaintext, c)"
    by (simp add: maxPayloadSizeForWrite_def record_type_defs)
  obtain r hc where e: "encrypt (c_out c) (record_header recordTypeAlert (record_version c) 2) ?p
      (nw_rand (c_net c) (nw_draws (c_net c))) = Some (r, hc)"
    using encrypt_total [OF assms] by (metis record_header_eq length_rec_header recordHeaderLen_def order_refl)
  have "\<exists>x c'. write_records recordTypeAlert 0 ?p c = Some (x, c')"
    using e m
    by (auto simp: write_records.simps [of _ _ _ c] write_records.simps [of _ _ "[]"] encrypt_out_def maxPlaintext_def Let_def
        split: sum.splits option.splits prod.splits)
  then show ?thesis by (auto simp: sendAlertLocked_def)
qed

lemma fail_total:
  assumes "writable (c_out c)"
  shows "\<exists>e c'. fail_alert a c = Some (e, c')" and "\<exists>e c'. alert_then_fail a e0 c = Some (e, c')"
    and "\<exists>e c'. fail_with e0 c = Some (e, c')"
  using sendAlert_total [OF assms, of a]
  by (auto simp: fail_alert_def alert_then_fail_def fail_with_def set_in_err_eq split: option.split)

section \<open>Reading\<close>

text \<open>A result; a dropped record leaves a connection that can go on.\<close>

definition goes_on :: "nat \<Rightarrow> (read_outcome \<times> conn) option \<Rightarrow> bool" where
  "goes_on n r \<longleftrightarrow> (case r of
     None \<Rightarrow> False | Some (Done _, _) \<Rightarrow> True | Some (Retry, c) \<Rightarrow> readable n (c_in c) \<and> writable (c_out c))"

lemma goes_on_simps [simp]:
  "goes_on n (Some (Done e, c))" "goes_on n (Some (Retry, c)) \<longleftrightarrow> readable n (c_in c) \<and> writable (c_out c)"
  by (simp_all add: goes_on_def)

lemma goes_on_fail [simp]:
  assumes "writable (c_out c)"
  shows "goes_on n (done_with (fail_alert a c))" and "goes_on n (done_with (alert_then_fail a e0 c))"
    and "goes_on n (done_with (fail_with e0 c))"
  using fail_total(1) [OF assms, of a] fail_total(2) [OF assms, of a e0] fail_total(3) [OF assms, of e0] by auto

lemma process_record_total:
  assumes "writable (c_out c)" and "readable n (c_in c)"
  shows "goes_on n (process_record x d t c)"
proof -
  have "goes_on n (process_alert d c1)" "goes_on n (process_ccs x d c1)"
    if "writable (c_out c1)" "readable n (c_in c1)" for c1 d
    using that by (simp_all add: process_alert_def process_ccs_def split: sum.split)
  with assms show ?thesis by (simp add: process_record_def Let_def)
qed

lemma readFromUntil_halves: "readFromUntil n c = (e, c') \<Longrightarrow> c_in c' = c_in c \<and> c_out c' = c_out c"
  by (auto simp: readFromUntil_def case_prod_unfold Let_def)

lemma read_payload_total:
  assumes "writable (c_out c)" and "readable (Suc n) (c_in c)"
  shows "goes_on n (read_payload x k c)"
proof -
  obtain e c1 where rf: "readFromUntil (recordHeaderLen + k) c = (e, c1)" by fastforce
  note h = readFromUntil_halves [OF rf]
  show ?thesis
  proof (cases e)
    case (Some a)
    with rf show ?thesis by (simp add: read_payload_def Let_def split: prod.split)
  next
    case None
    let ?rec = "take (recordHeaderLen + k) (c_rawInput c1)"
    have "recordHeaderLen \<le> length ?rec" using readFromUntil_pending(2) [OF rf None] by simp
    with decrypt_total [of n "c_in c1" ?rec] assms(2) h obtain r hc where
      d: "decrypt (c_in c1) ?rec = Some (r, hc)" "readable n hc" by auto
    then show ?thesis
      using rf None h assms(1) process_record_total by (simp add: read_payload_def Let_def split: sum.split prod.split)
  qed
qed

lemma read_one_total:
  assumes "writable (c_out c)" and "readable (Suc n) (c_in c)"
  shows "goes_on n (read_one x c)"
proof -
  obtain e c1 where rf: "readFromUntil recordHeaderLen c = (e, c1)" by fastforce
  note h = readFromUntil_halves [OF rf]
  have "goes_on n (read_body x c1)"
    using read_payload_total [of c1 n x] assms h by (simp add: read_body_def Let_def)
  with rf assms(1) show ?thesis by (simp add: read_one_def Let_def split: option.split prod.split)
qed

lemma readRecordOrCCS_total:
  "writable (c_out c) \<Longrightarrow> readable (Suc (maxUselessRecords - c_retryCount c)) (c_in c) \<Longrightarrow>
     \<exists>e c'. readRecordOrCCS x c = Some (e, c')"
proof (induction x c rule: readRecordOrCCS.induct)
  case (1 x c)
  let ?n = "maxUselessRecords - c_retryCount c"
  note g0 = read_one_total [OF 1(2,3), of x]
  then obtain r c1 where r: "read_one x c = Some (r, c1)" by (auto simp: goes_on_def split: option.splits)
  with g0 have g: "goes_on ?n (Some (r, c1))" by simp
  show ?case
  proof (cases r)
    case (Done e)
    with r show ?thesis by (simp add: readRecordOrCCS.simps [of x c])
  next
    case Retry
    with g have w: "writable (c_out c1)" "readable ?n (c_in c1)" by simp_all
    have k: "c_retryCount c1 = c_retryCount c" using read_one_Retry r Retry by blast
    let ?c2 = "c1\<lparr>c_retryCount := c_retryCount c1 + 1\<rparr>"
    show ?thesis
    proof (cases "c_retryCount c1 + 1 > maxUselessRecords")
      case True
      with r Retry fail_total(2) [of ?c2] w show ?thesis by (simp add: readRecordOrCCS.simps [of x c])
    next
      case False
      then have "Suc (maxUselessRecords - c_retryCount ?c2) = ?n" using k by simp
      then have "\<exists>e c'. readRecordOrCCS x ?c2 = Some (e, c')"
        using 1(1) [OF r refl Retry False] w by simp
      then show ?thesis using r Retry False by (simp add: readRecordOrCCS.simps [of x c])
    qed
  qed
qed

end
