(* ===== verification/RecordProperties.thy ===== *)
theory RecordProperties
  imports ConnReads ReadTotal DisguiseProperties
begin

text \<open>
  The properties of the record layer and of the connection: sequence numbers, padding,
  encryption, reading, writing, closing, and what the Disguise \<open>Read\<close> and \<open>Write\<close> do to records.
  The instances use a toy AEAD whose tag is its additional data, over a connection in TLS 1.3.
\<close>

section \<open>Sample objects\<close>

definition tag5 :: "bytes \<Rightarrow> bytes" where "tag5 ad = take 5 (ad @ replicate 5 0)"

definition sample_aead :: aead_prim where
  "sample_aead = \<lparr>aead_seal = (\<lambda>nonce p ad. p @ tag5 ad),
     aead_open = (\<lambda>nonce c ad. if drop (length c - 5) c = tag5 ad then Some (take (length c - 5) c) else None),
     aead_overhead = 5\<rparr>"

definition sample_half :: halfConn where
  "sample_half = \<lparr>hc_err = None, hc_version = VersionTLS13,
     hc_cipher = Some (XorNonceAEAD (replicate 12 0) sample_aead), hc_mac = None, hc_seq = seq_zero,
     hc_nextCipher = None, hc_nextMac = None, hc_trafficSecret = []\<rparr>"

definition sample_rand :: rand_source where "sample_rand n = Some (replicate n 0)"

definition sample_net :: "bytes list \<Rightarrow> network" where
  "sample_net chunks = \<lparr>nw_chunks = chunks, nw_end = EOF, nw_temporary = (\<lambda>_. False), nw_sent = [],
     nw_writes = 0, nw_fail = (\<lambda>_. None), nw_rand = (\<lambda>_. sample_rand), nw_draws = 0, nw_closed = 0,
     nw_close_err = None\<rparr>"

definition sample_conn :: "bytes list \<Rightarrow> conn" where
  "sample_conn chunks = \<lparr>c_isClient = True, c_complete = True, c_handshakeErr = None, c_handshakes = 1,
     c_vers = VersionTLS13, c_haveVers = True, c_sizingDisabled = True, c_cipherSuite = 0x1301,
     c_in = sample_half, c_out = sample_half, c_rawInput = [], c_input = [], c_hand = [],
     c_buffering = False, c_sendBuf = [], c_bytesSent = 0, c_packetsSent = 0, c_retryCount = 0,
     c_closeNotifySent = False, c_closeNotifyErr = None, c_activeCall = 0, c_net = sample_net chunks\<rparr>"

lemma length_tag5 [simp]: "length (tag5 ad) = 5"
  by (simp add: tag5_def)

lemma tag5_id: "length ad = 5 \<Longrightarrow> tag5 ad = ad"
  by (simp add: tag5_def)

lemma sample_aead_ok: "aead_ok sample_aead" "aead_auth sample_aead"
  by (simp_all add: aead_ok_def aead_auth_def sample_aead_def tag5_id)

lemma sample_in_step: "in_step sample_half sample_half"
  using sample_aead_ok by (simp add: in_step_def sample_half_def seq_zero_def)

lemma be_dec_zeros [simp]: "be_dec (replicate n 0) = 0"
  by (induction n) simp_all

lemma be_dec_ones: "Suc (be_dec (replicate n 255)) = 256 ^ n"
  by (induction n) simp_all

lemma sample_seq: "be_dec (hc_seq sample_half) = 0" "length (hc_seq sample_half) = 8"
  by (simp_all add: sample_half_def seq_zero_def)

lemma sample_rand_ok: "rand_ok sample_rand"
  by (simp add: rand_ok_def sample_rand_def)

lemma sample_net_ok: "net_ok (sample_net chunks)"
  using sample_rand_ok by (simp add: net_ok_def sample_net_def)

lemma sample_idle: "idle (sample_conn chunks)"
  by (simp add: idle_def sample_conn_def sample_half_def version_defs)

lemma two_copies: "replicate 2 x = [x, x]"
  by (simp add: numeral_2_eq_2)

section \<open>The half connection\<close>

text \<open>
  C17. The sequence number is an 8-byte big-endian counter: \<open>incSeq\<close> adds one, and panics instead of
  wrapping around.
\<close>

theorem incSeq_counts:
  assumes "length (hc_seq hc) = 8"
  shows "incSeq hc =
    (if be_dec (hc_seq hc) + 1 < 2 ^ 64 then Some (hc\<lparr>hc_seq := be_enc 8 (be_dec (hc_seq hc) + 1)\<rparr>) else None)"
  by (rule incSeq_number [OF assms])

theorem incSeq_counts_witness:
  "incSeq sample_half = Some (sample_half\<lparr>hc_seq := be_enc 8 1\<rparr>) \<and>
   incSeq (sample_half\<lparr>hc_seq := replicate 8 255\<rparr>) = None"
  using incSeq_counts [of sample_half] incSeq_counts [of "sample_half\<lparr>hc_seq := replicate 8 255\<rparr>"] sample_seq
    be_dec_ones [of 8]
  by simp

text \<open>
  C18. \<open>extractPadding\<close>, which only computes with masks, finds what the plain reading of CBC padding
  gives: if the last byte \<open>p\<close> fits and the last \<open>p + 1\<close> bytes are all \<open>p\<close>, then \<open>p + 1\<close> bytes are to
  be removed and the mask is 255; otherwise one byte and mask 0.
\<close>

theorem extractPadding_checks:
  assumes "length payload < 2 ^ 31"
  shows "extractPadding payload = padding_spec payload"
  by (rule extractPadding_spec [OF assms])

theorem extractPadding_checks_witness:
  "extractPadding [9, 2, 2, 2] = (3, 255) \<and> extractPadding [9, 1, 2] = (1, 0) \<and> extractPadding [7] = (1, 0)"
  using extractPadding_checks [of "[9, 2, 2, 2]"] extractPadding_checks [of "[9, 1, 2]"] extractPadding_checks [of "[7]"]
  by (simp add: padding_spec_def Let_def numeral_3_eq_3 two_copies)

text \<open>
  C19. For every cipher of the package (stream, CBC, both AEAD forms, TLS 1.3 inner types), what
  \<open>encrypt\<close> makes of a record \<open>decrypt\<close> on the other side turns back into the same payload and
  type; both sides stay in step and count one record. In TLS 1.3 the outer type is application
  data.
\<close>

theorem decrypt_encrypt:
  assumes "in_step ou inp" and "rand_ok rnd" and "length payload \<le> maxPlaintext" and "t \<noteq> 0"
    and "be_dec (hc_seq ou) + 1 < 2 ^ 64"
  shows "\<exists>body ou' inp' t'. let rec = rec_header t' v1 v2 (length body) @ body in
    encrypt ou (rec_header t v1 v2 (length payload)) payload rnd = Some (Inr rec, ou') \<and>
    decrypt inp rec = Some (Inr (payload, t), inp') \<and>
    t' = (if hc_version ou = VersionTLS13 then recordTypeApplicationData else t) \<and>
    in_step ou' inp' \<and> be_dec (hc_seq ou') = be_dec (hc_seq ou) + 1"
  by (rule encrypt_decrypt [OF assms])

theorem decrypt_encrypt_witness:
  "\<exists>rec ou' inp'. encrypt sample_half (rec_header 22 3 3 2) [8, 9] sample_rand = Some (Inr rec, ou') \<and>
    decrypt sample_half rec = Some (Inr ([8, 9], 22), inp')"
proof -
  have "length [8, 9 :: byte] \<le> maxPlaintext" "(22 :: byte) \<noteq> 0" "be_dec (hc_seq sample_half) + 1 < 2 ^ 64"
    by (simp_all add: size_defs sample_seq)
  from decrypt_encrypt [OF sample_in_step sample_rand_ok this, of 3 3] show ?thesis
    unfolding Let_def by (auto simp: numeral_2_eq_2)
qed

text \<open>
  C20. A sequence of records arrives complete, unchanged and in order, and the two ends remain in
  step after it.
\<close>

theorem records_in_order:
  assumes "ep_step a b" and "send_records v a ms = Some (rs, a')"
  shows "\<exists>b'. recv_records b rs = Some (ms, b') \<and> ep_step a' b'"
  using tls.delivers_all [OF assms(1), of v ms rs a'] assms(2)
  by (simp add: send_records_eq recv_records_eq)

definition sample_end :: endpoint where "sample_end = (sample_half, [sample_rand, sample_rand])"

lemma sample_encrypt:
  assumes "in_step ou inp" and "length payload \<le> maxPlaintext" and "t \<noteq> 0" and "be_dec (hc_seq ou) + 1 < 2 ^ 64"
  obtains r ou' inp' where "encrypt ou (rec_header t v1 v2 (length payload)) payload sample_rand = Some (Inr r, ou')"
    and "in_step ou' inp'" and "be_dec (hc_seq ou') = be_dec (hc_seq ou) + 1"
  using encrypt_decrypt [OF assms(1) sample_rand_ok assms(2-4), of v1 v2] unfolding Let_def by blast

lemma sample_sends: "\<exists>rs a'. send_records (3, 3) sample_end [(22, [1]), (23, [2, 3])] = Some (rs, a')"
proof -
  have l: "length [1 :: byte] \<le> maxPlaintext" "length [2, 3 :: byte] \<le> maxPlaintext" by (simp_all add: size_defs)
  from sample_encrypt [OF sample_in_step l(1), of 22 3 3] sample_seq obtain r ou inp where
    1: "encrypt sample_half (rec_header 22 3 3 (length [1 :: byte])) [1] sample_rand = Some (Inr r, ou)"
      "in_step ou inp" "be_dec (hc_seq ou) = 1" by auto
  have lt: "be_dec (hc_seq ou) + 1 < 2 ^ 64" using 1(3) by simp
  obtain r' ou' where
    2: "encrypt ou (rec_header 23 3 3 (length [2, 3 :: byte])) [2, 3] sample_rand = Some (Inr r', ou')"
    by (rule sample_encrypt [OF 1(2) l(2) _ lt, of 23 3 3]) simp_all
  show ?thesis
    using 1(1) 2 l by (simp add: sample_end_def send_record_def)
qed

theorem records_in_order_witness:
  "\<exists>rs a' b'. send_records (3, 3) sample_end [(22, [1]), (23, [2, 3])] = Some (rs, a') \<and>
     recv_records sample_end rs = Some ([(22, [1]), (23, [2, 3])], b')"
proof -
  have "ep_step sample_end sample_end"
    using sample_in_step sample_rand_ok by (simp add: ep_step_def sample_end_def)
  with sample_sends records_in_order [of sample_end sample_end "(3, 3)"] show ?thesis by metis
qed

section \<open>Writing, reading and closing\<close>

text \<open>
  C21. \<open>writeRecordLocked\<close> on a working network cuts the data into records of at most \<open>maxPlaintext\<close>
  bytes. The peer, in step, decrypts exactly these records, in order, with the given type; they
  concatenate to the data, and the two ends are in step again. (Application data may be cut
  smaller while record sizes still grow; a change of cipher spec switches the keys afterwards.)
\<close>

theorem writeRecord_delivers:
  assumes "in_step (c_out c) inp" and "\<not> c_buffering c" and "net_ok (c_net c)"
    and "t \<noteq> 0" and "t \<noteq> recordTypeChangeCipherSpec" and "t \<noteq> recordTypeApplicationData \<or> c_sizingDisabled c"
    and "be_dec (hc_seq (c_out c)) + length data < 2 ^ 64"
  shows "\<exists>recs pieces c' inp'. writeRecordLocked t data c = Some ((length data, None), c') \<and>
    nw_sent (c_net c') = nw_sent (c_net c) @ recs \<and>
    decrypt_all inp recs = Some (map (\<lambda>p. (p, t)) pieces, inp') \<and>
    concat pieces = data \<and> (\<forall>p \<in> set pieces. p \<noteq> [] \<and> length p \<le> maxPlaintext) \<and>
    in_step (c_out c') inp'"
proof -
  from write_records_delivers [OF assms(1-4,6,7), of 0] obtain recs pieces c' inp' where
    w: "write_records t 0 data c = Some ((length data, None), c')" and
    r: "nw_sent (c_net c') = nw_sent (c_net c) @ recs" "decrypt_all inp recs = Some (map (\<lambda>p. (p, t)) pieces, inp')"
      "concat pieces = data" "\<forall>p \<in> set pieces. p \<noteq> [] \<and> length p \<le> maxPlaintext" "in_step (c_out c') inp'"
    by auto
  from w assms(5) have "writeRecordLocked t data c = Some ((length data, None), c')"
    by (simp add: writeRecordLocked_def)
  with r show ?thesis by blast
qed

theorem writeRecord_delivers_witness:
  "\<exists>recs c' inp'. writeRecordLocked 23 [5, 6, 7] (sample_conn []) = Some ((3, None), c') \<and>
    nw_sent (c_net c') = recs \<and> (\<exists>ps. decrypt_all sample_half recs = Some (ps, inp') \<and> concat (map fst ps) = [5, 6, 7])"
proof -
  have "in_step (c_out (sample_conn [])) sample_half" "\<not> c_buffering (sample_conn [])" "net_ok (c_net (sample_conn []))"
    "(23 :: byte) \<noteq> 0" "23 \<noteq> recordTypeChangeCipherSpec" "23 \<noteq> recordTypeApplicationData \<or> c_sizingDisabled (sample_conn [])"
    "be_dec (hc_seq (c_out (sample_conn []))) + length [5, 6, 7 :: byte] < 2 ^ 64"
    using sample_in_step sample_net_ok sample_seq by (simp_all add: sample_conn_def record_type_defs)
  from writeRecord_delivers [OF this] obtain recs pieces c' inp' where
    "writeRecordLocked 23 [5, 6, 7] (sample_conn []) = Some ((3, None), c')"
    "nw_sent (c_net c') = nw_sent (c_net (sample_conn [])) @ recs"
    "decrypt_all sample_half recs = Some (map (\<lambda>p. (p, 23)) pieces, inp')" "concat pieces = [5, 6, 7]"
    by auto
  moreover have "concat (map fst (map (\<lambda>p. (p, 23)) pieces)) = concat pieces" by (simp add: comp_def)
  moreover have "nw_sent (c_net (sample_conn [])) = []" by (simp add: sample_conn_def sample_net_def)
  ultimately show ?thesis by (metis append_Nil)
qed

text \<open>
  C22. \<open>readRecordOrCCS\<close> comes to an end without a panic, however many records are dropped on the way and whatever they
  contain, if the sequence numbers are not used up (17 records to read, an alert to send) and a cipher that needs a MAC
  has one. When it succeeds it has consumed input and has delivered exactly one thing: with \<open>expectCCS\<close> the switch
  to the keys that were prepared in \<open>c.in\<close> (never in TLS 1.3, never with handshake data pending), otherwise between 1
  and \<open>maxPlaintext\<close> bytes, appended to the handshake buffer or, after the handshake, made the
  application data.
\<close>

theorem readRecord_returns:
  assumes "writable (c_out c)" and "readable (Suc maxUselessRecords) (c_in c)"
  shows "\<exists>e c'. readRecordOrCCS expectCCS c = Some (e, c') \<and>
    (e = None \<longrightarrow> pending c' < pending c \<and> delivered expectCCS c c')"
proof -
  have "readable (Suc (maxUselessRecords - c_retryCount c)) (c_in c)"
    by (rule readable_mono [OF assms(2)]) simp
  from readRecordOrCCS_total [OF assms(1) this, of expectCCS] obtain e c' where
    r: "readRecordOrCCS expectCCS c = Some (e, c')" by blast
  moreover have "pending c' < pending c \<and> delivered expectCCS c c'" if "e = None"
    using r readRecordOrCCS_pending readRecordOrCCS_delivered unfolding that by blast
  ultimately show ?thesis by blast
qed

text \<open>The record of the application data \<open>[65]\<close>, its type inside.\<close>

definition sample_record :: bytes where
  "sample_record = [23, 3, 3, 0, 7, 65, 23, 23, 3, 3, 0, 7]"

lemma sample_decrypts:
  "decrypt sample_half sample_record =
     Some (Inr ([65], recordTypeApplicationData), sample_half\<lparr>hc_seq := be_enc 8 1\<rparr>)"
proof -
  have "incSeq sample_half = Some (sample_half\<lparr>hc_seq := be_enc 8 1\<rparr>)"
    using incSeq_number [OF sample_seq(2)] sample_seq(1) by simp
  then show ?thesis
    by (simp add: decrypt_def unprotect_def open_aead_def additionalData_def explicitNonceLen_def inner_type_def
        finish_record_def check_mac_def sample_record_def sample_half_def sample_aead_def tag5_def
        recordHeaderLen_def record_type_defs version_defs size_defs Let_def)
qed

lemma sample_record_layout:
  "sample_record = rec_header recordTypeApplicationData (ucast (drop_bit 8 (record_version (sample_conn chunks))))
     (ucast (record_version (sample_conn chunks))) (length (drop 5 sample_record)) @ drop 5 sample_record"
proof -
  have v: "record_version (sample_conn chunks) = VersionTLS12"
    by (simp add: record_version_def sample_conn_def version_defs)
  show ?thesis
    unfolding v by (simp add: sample_record_def rec_header_def be_enc_2 record_type_defs version_defs)
qed

lemma sample_reads:
  "readRecord (sample_conn [sample_record]) = Some (None, (sample_conn [sample_record])
     \<lparr>c_in := sample_half\<lparr>hc_seq := be_enc 8 1\<rparr>, c_rawInput := [], c_input := [65], c_retryCount := 0,
      c_net := sample_net []\<rparr>)"
proof -
  have "length (drop 5 sample_record) \<le> maxCiphertextTLS13" "length [65 :: byte] \<le> maxPlaintext"
    by (simp_all add: sample_record_def size_defs)
  from readRecord_data [OF sample_idle _ sample_record_layout [of "[sample_record]"] this(1) _ this(2),
      of "sample_half\<lparr>hc_seq := be_enc 8 1\<rparr>" "[]" "[]"]
  show ?thesis
    using sample_decrypts by (simp add: sample_conn_def sample_net_def sample_half_def)
qed

theorem readRecord_returns_witness:
  "\<exists>c'. readRecordOrCCS False (sample_conn [sample_record]) = Some (None, c') \<and> c_input c' = [65] \<and>
     pending c' < pending (sample_conn [sample_record])"
proof -
  let ?c = "sample_conn [sample_record]"
  have "writable (c_out ?c)" "readable (Suc maxUselessRecords) (c_in ?c)"
    using sample_seq by (simp_all add: writable_def readable_def is_CBC_def sample_conn_def maxUselessRecords_def)
      (simp_all add: sample_half_def is_CBC_def)
  from readRecord_returns [OF this, of False] sample_reads show ?thesis by (auto simp: readRecord_def)
qed

text \<open>
  C23. Errors of reading are permanent: after \<open>readRecordOrCCS\<close> failed with an error that is not a
  temporary network error, every later call fails at once with the same error and changes
  nothing.
\<close>

theorem read_errors_stick:
  assumes "readRecordOrCCS expectCCS c = Some (Some e, c')" and "\<not> temporary (c_net c') e"
  shows "readRecordOrCCS b c' = Some (Some e, c')"
proof -
  from readRecordOrCCS_stuck [OF assms(1)] assms(2) have "hc_err (c_in c') = Some e" by (simp add: stuck_def)
  then show ?thesis by (simp add: readRecordOrCCS.simps [of b c'] read_one_def)
qed

theorem read_errors_stick_witness:
  "\<exists>c'. readRecordOrCCS False (sample_conn [[23, 3]]) = Some (Some UnexpectedEOF, c') \<and>
     readRecordOrCCS True c' = Some (Some UnexpectedEOF, c')"
proof -
  have "\<exists>c'. readRecordOrCCS False (sample_conn [[23, 3]]) = Some (Some UnexpectedEOF, c')"
    by (simp add: readRecordOrCCS.simps [of False] read_one_def sample_conn_def sample_half_def sample_net_def
        readFromUntil_def read_until.simps recordHeaderLen_def read_failed_def temporary_def set_in_err_eq)
  then obtain c' where "readRecordOrCCS False (sample_conn [[23, 3]]) = Some (Some UnexpectedEOF, c')" by blast
  moreover have "\<not> temporary (c_net c') UnexpectedEOF" by (simp add: temporary_def)
  ultimately show ?thesis using read_errors_stick [of False "sample_conn [[23, 3]]" UnexpectedEOF c' True] by blast
qed

text \<open>
  C24. \<open>Close\<close> closes the network connection once: it marks the connection, and a later call only
  returns \<open>net.ErrClosed\<close>. After a handshake, with no call in flight, the closing alert has been
  sent, and \<open>closeNotify\<close> will not send it again.
\<close>

theorem Close_once:
  assumes "Close c = Some (e, c')"
  shows "Close c' = Some (Some (OtherError ''use of closed network connection''), c') \<and>
    nw_closed (c_net c') = nw_closed (c_net c) + (if c_activeCall c AND 1 \<noteq> 0 then 0 else 1) \<and>
    (c_complete c \<and> c_activeCall c = 0 \<longrightarrow> closeNotify c' = Some (c_closeNotifyErr c', c'))"
  using Close_result [OF assms] by (auto simp: Close_def [of c'] closeNotify_def)

theorem Close_once_witness:
  "\<exists>e c'. Close ((sample_conn [])\<lparr>c_complete := False\<rparr>) = Some (e, c') \<and> nw_closed (c_net c') = 1 \<and>
     Close c' = Some (Some (OtherError ''use of closed network connection''), c')"
proof -
  let ?c = "(sample_conn [])\<lparr>c_complete := False\<rparr>"
  obtain e c' where c: "Close ?c = Some (e, c')"
    by (simp add: Close_def sample_conn_def net_Close_def sample_net_def)
  have "nw_closed (c_net ?c) = 0" "c_activeCall ?c AND 1 = 0" by (simp_all add: sample_conn_def sample_net_def)
  with Close_once [OF c] c show ?thesis by auto
qed

section \<open>Read and Write of the Disguise connection\<close>

text \<open>
  C25. In TLS 1.3 the packets \<open>Write\<close> sends cannot be received: it encrypts a packet with a nil record, so the first five
  bytes of the packet become the record header and the header that is authenticated is not the
  one that is sent. A peer in step with the connection refuses it with \<open>bad_record_mac\<close>.
\<close>

theorem Write_packet_refused:
  assumes "GetOutboundTraffic m = Returned (Inr packet) m1" and "in_step (c_out c) inp"
    and "hc_version (c_out c) = VersionTLS13" and "hc_cipher (c_out c) = Some (XorNonceAEAD msk a)" and "aead_auth a"
    and "be_dec (hc_seq (c_out c)) + 1 < 2 ^ 64" and "net_ok (c_net c)"
  shows "\<exists>rec c1. nw_sent (c_net c1) = nw_sent (c_net c) @ [rec] \<and> write_loop m c = write_loop m1 c1 \<and>
           decrypt inp rec = Some (Inl alertBadRecordMAC, inp)"
proof -
  have "4 \<le> length packet" using GetOutboundTraffic_length [OF assms(1)] by simp
  from headerless_refused [OF assms(2-6) this] obtain rec ou' where
    e: "encrypt (c_out c) [] packet (nw_rand (c_net c) (nw_draws (c_net c))) = Some (Inr rec, ou')" and
    d: "decrypt inp rec = Some (Inl alertBadRecordMAC, inp)" by blast
  from e obtain c1 where o: "encrypt_out [] packet c = Some (Inr rec, c1)" by (simp add: encrypt_out_def Let_def)
  note s = encrypt_out_sent [OF o]
  note r = write_loop_round [OF assms(1) o]
  show ?thesis using r s d assms(7)
    by (intro exI [of _ rec] exI [of _ "c1\<lparr>c_net := snd (net_Write rec (c_net c1))\<rparr>"]) simp
qed

theorem Write_packet_refused_witness:
  "\<exists>packet m1 rec c1. GetOutboundTraffic sample_sender = Returned (Inr packet) m1 \<and>
     write_loop sample_sender (sample_conn []) = write_loop m1 c1 \<and> nw_sent (c_net c1) = [rec] \<and>
     decrypt sample_half rec = Some (Inl alertBadRecordMAC, sample_half)"
proof -
  from sample_sender_sends obtain packet m1 where g: "GetOutboundTraffic sample_sender = Returned (Inr packet) m1"
    by blast
  have "in_step (c_out (sample_conn [])) sample_half" "hc_version (c_out (sample_conn [])) = VersionTLS13"
    "hc_cipher (c_out (sample_conn [])) = Some (XorNonceAEAD (replicate 12 0) sample_aead)"
    "be_dec (hc_seq (c_out (sample_conn []))) + 1 < 2 ^ 64" "net_ok (c_net (sample_conn []))"
    using sample_in_step sample_seq sample_net_ok by (simp_all add: sample_conn_def) (simp_all add: sample_half_def)
  moreover have "nw_sent (c_net (sample_conn [])) = []" by (simp add: sample_conn_def sample_net_def)
  ultimately show ?thesis
    using Write_packet_refused [OF g _ _ _ sample_aead_ok(2)] g by (metis append_Nil)
qed

text \<open>
  C26. \<open>Read\<close> never gets to the data of a single record: \<open>readRecord\<close> takes it out of the input and
  decrypts it into \<open>c.input\<close>, which \<open>Read\<close> ignores; then \<open>Read\<close> decrypts the rest of the input,
  which is empty, and the index into the empty record panics.
\<close>

theorem Read_panics_on_record:
  assumes "idle c" and "decrypt (c_in c) rec = Some (Inr (payload, recordTypeApplicationData), inp')"
    and "rec = rec_header recordTypeApplicationData (ucast (drop_bit 8 (record_version c))) (ucast (record_version c)) (length body) @ body"
    and "length body \<le> maxCiphertextTLS13" and "payload \<noteq> []" and "length payload \<le> maxPlaintext"
    and "hc_cipher inp' \<noteq> None" and "nw_chunks (c_net c) = rec # later"
    and "\<not> m_locked m" and "buf_len (inboundQueue m) = 0"
  shows "Read hs n (Some m) c = Panicked"
proof -
  from readRecord_data [OF assms(1-7), of "[]" later] assms(8) have
    "\<exists>c1. readRecord c = Some (None, c1) \<and> c_rawInput c1 = []" by auto
  then have "readAndDecryptRecord c = None" using readAndDecryptRecord_empty by blast
  from read_loop_needs_record [OF assms(9,10) this, of n] show ?thesis
    using assms(1) by (simp add: Read_complete idle_def)
qed

theorem Read_panics_on_record_witness:
  "Read (\<lambda>c. Some (None, c)) 10 (Some (NewManager sample_world)) (sample_conn [sample_record]) = Panicked"
proof (rule Read_panics_on_record [OF sample_idle _ sample_record_layout])
  show "decrypt (c_in (sample_conn [sample_record])) sample_record =
      Some (Inr ([65], recordTypeApplicationData), sample_half\<lparr>hc_seq := be_enc 8 1\<rparr>)"
    using sample_decrypts by (simp add: sample_conn_def)
qed (simp_all add: m_locked_New sample_record_def size_defs sample_half_def sample_conn_def sample_net_def,
    simp add: NewManager_def new_Buffer_def Let_def case_prod_unfold)

text \<open>
  C27. \<open>Read\<close> into a buffer shorter than what the manager holds returns its beginning and loses the
  rest: \<open>ReadApplicationData\<close> has already emptied the manager's buffer.
\<close>

theorem Read_drops_rest:
  assumes "c_complete c" and "\<not> m_locked m" and "buffer_ok (inboundQueue m)" and "unread (inboundQueue m) \<noteq> []"
  shows "\<exists>m'. Read hs n (Some m) c = Returned (take n (unread (inboundQueue m)), None) (c, Some m') \<and>
    unread (inboundQueue m') = []"
  using read_loop_data [OF assms(2-4), of n c] assms(1) by (simp add: Read_complete Buffer_Reset_def)

theorem Read_drops_rest_witness:
  "\<exists>m'. Read (\<lambda>c. Some (None, c)) 2
      (Some ((NewManager sample_world)\<lparr>inboundQueue := \<lparr>arrays = [[5, 6, 7, 0]], buf_len = 3\<rparr>\<rparr>)) (sample_conn []) =
    Returned ([5, 6], None) (sample_conn [], Some m') \<and> unread (inboundQueue m') = []"
  using Read_drops_rest [of "sample_conn []"
      "(NewManager sample_world)\<lparr>inboundQueue := \<lparr>arrays = [[5, 6, 7, 0]], buf_len = 3\<rparr>\<rparr>" "\<lambda>c. Some (None, c)" 2]
    m_locked_New [of sample_world]
  by (simp add: buffer_ok_def buf_cap_def sample_conn_def)

end
