(* ===== verification/Cryptobyte.thy ===== *)
theory Cryptobyte
  imports Prelude
begin

text \<open>
  The interface of \<open>golang.org/x/crypto/cryptobyte\<close>, which is not part of this repository: reading
  from a \<open>String\<close> and writing to a \<open>Builder\<close> are parameters of the model. \<open>reader_ok\<close> and
  \<open>builder_ok\<close> state what its documentation promises; \<open>plain_reader\<close> and \<open>plain_builder\<close> are
  byte-list implementations that keep the promises. The helpers of \<open>handshake_messages.go\<close> come last.
\<close>

section \<open>Reading\<close>

text \<open>
  \<open>r_uint k\<close> is \<open>ReadUint8\<close>, \<open>ReadUint16\<close>, \<open>ReadUint24\<close> or \<open>ReadUint32\<close> for \<open>k\<close> = 1, 2, 3 or 4 bytes, \<open>r_lp k\<close>
  the length-prefixed read with a prefix of \<open>k\<close> bytes. \<^term>\<open>None\<close> is the result false; otherwise the
  value and the rest of the string.
\<close>

record reader =
  r_skip :: "nat \<Rightarrow> bytes \<Rightarrow> bytes option"
  r_uint :: "nat \<Rightarrow> bytes \<Rightarrow> (nat \<times> bytes) option"
  r_bytes :: "nat \<Rightarrow> bytes \<Rightarrow> (bytes \<times> bytes) option"
  r_lp :: "nat \<Rightarrow> bytes \<Rightarrow> (bytes \<times> bytes) option"

definition split_at :: "nat \<Rightarrow> bytes \<Rightarrow> (bytes \<times> bytes) option" where
  "split_at n s = (if n \<le> length s then Some (take n s, drop n s) else None)"

definition plain_uint :: "nat \<Rightarrow> bytes \<Rightarrow> (nat \<times> bytes) option" where
  "plain_uint k s = map_option (\<lambda>(h, r). (be_dec h, r)) (split_at k s)"

definition plain_lp :: "nat \<Rightarrow> bytes \<Rightarrow> (bytes \<times> bytes) option" where
  "plain_lp k s = Option.bind (plain_uint k s) (\<lambda>(n, r). split_at n r)"

definition reader_ok :: "reader \<Rightarrow> bool" where
  "reader_ok R \<longleftrightarrow>
     (\<forall>n s. r_skip R n s = map_option snd (split_at n s)) \<and>
     (\<forall>k s. r_uint R k s = plain_uint k s) \<and>
     (\<forall>n s. r_bytes R n s = split_at n s) \<and>
     (\<forall>k s. r_lp R k s = plain_lp k s)"

definition plain_reader :: reader where
  "plain_reader = \<lparr>r_skip = (\<lambda>n s. map_option snd (split_at n s)), r_uint = plain_uint,
     r_bytes = split_at, r_lp = plain_lp\<rparr>"

lemma plain_reader_ok: "reader_ok plain_reader"
  by (simp add: reader_ok_def plain_reader_def)

text \<open>The documentation leaves no freedom.\<close>

lemma reader_unique: "reader_ok R \<Longrightarrow> R = plain_reader"
  by (cases R) (simp add: reader_ok_def plain_reader_def fun_eq_iff)

text \<open>Reading back what was written.\<close>

lemma split_at_append [simp]: "length x = n \<Longrightarrow> split_at n (x @ r) = Some (x, r)"
  by (auto simp: split_at_def)

lemma split_at_Some: "split_at n s = Some (x, r) \<longleftrightarrow> s = x @ r \<and> length x = n"
  by (auto simp: split_at_def)

lemma plain_uint_append [simp]: "n < 256 ^ k \<Longrightarrow> plain_uint k (be_enc k n @ r) = Some (n, r)"
  by (simp add: plain_uint_def be_dec_enc)

lemma plain_uint_exact [simp]: "n < 256 ^ k \<Longrightarrow> plain_uint k (be_enc k n) = Some (n, [])"
  using plain_uint_append [of n k "[]"] by simp

lemma plain_lp_append [simp]: "length x < 256 ^ k \<Longrightarrow> plain_lp k (be_enc k (length x) @ x @ r) = Some (x, r)"
  by (simp add: plain_lp_def)

lemma plain_lp_exact [simp]: "length x < 256 ^ k \<Longrightarrow> plain_lp k (be_enc k (length x) @ x) = Some (x, [])"
  using plain_lp_append [of x k "[]"] by simp

lemma plain_uint_consumes: "plain_uint k s = Some (v, r) \<Longrightarrow> length s = k + length r"
  by (auto simp: plain_uint_def split_at_def split: if_splits)

lemma plain_lp_consumes: "plain_lp k s = Some (x, r) \<Longrightarrow> length s = k + length x + length r"
  by (auto simp: plain_lp_def bind_eq_Some_conv plain_uint_def split_at_def split: if_splits prod.splits)

section \<open>Loops over a string\<close>

text \<open>
  \<open>for !s.Empty() { \<dots> }\<close>: the body takes the string and the variables it assigns. Every body of the
  package that goes on has read at least one byte, so the length of the string bounds the number
  of rounds.
\<close>

primrec rounds :: "nat \<Rightarrow> (bytes \<Rightarrow> 'a \<Rightarrow> ('a \<times> bytes) option) \<Rightarrow> bytes \<Rightarrow> 'a \<Rightarrow> 'a option" where
  "rounds 0 body s a = (if s = [] then Some a else None)"
| "rounds (Suc n) body s a =
     (if s = [] then Some a else Option.bind (body s a) (\<lambda>(a', s'). rounds n body s' a'))"

definition while_nonempty :: "(bytes \<Rightarrow> 'a \<Rightarrow> ('a \<times> bytes) option) \<Rightarrow> bytes \<Rightarrow> 'a \<Rightarrow> 'a option" where
  "while_nonempty body s a = rounds (length s) body s a"

definition consumes :: "(bytes \<Rightarrow> 'a \<Rightarrow> ('a \<times> bytes) option) \<Rightarrow> bool" where
  "consumes body \<longleftrightarrow> (\<forall>s a a' s'. body s a = Some (a', s') \<longrightarrow> length s' < length s)"

lemma rounds_more:
  assumes "consumes body" and "length s \<le> n"
  shows "rounds n body s a = rounds (length s) body s a"
  using assms(2)
proof (induction n arbitrary: s a rule: less_induct)
  case (less n)
  consider "n = length s" | "s = []" | m k where "n = Suc m" "length s = Suc k" "Suc k \<le> m"
  proof (cases "n = length s \<or> s = []")
    case False
    then have "length s < n" "0 < length s" using less.prems by auto
    then obtain m where m: "n = Suc m" by (cases n) auto
    obtain k where k: "length s = Suc k" using \<open>0 < length s\<close> by (cases "length s") auto
    show ?thesis using that(3) [OF m k] \<open>length s < n\<close> m k by simp
  qed (use that in blast)
  then show ?case
  proof cases
    case 3
    then have ne: "s \<noteq> []" by auto
    have "rounds m body s' a' = rounds k body s' a'" if "body s a = Some (a', s')" for a' s'
    proof -
      have l: "length s' \<le> k" using assms(1) that 3(2) by (fastforce simp: consumes_def)
      with less.IH [of m s' a'] less.IH [of k s' a'] 3 show ?thesis by simp
    qed
    with ne show ?thesis unfolding 3(1,2) by (cases "body s a") auto
  next
    case 2
    then show ?thesis by (cases n) simp_all
  qed simp
qed

text \<open>Enough rounds: the loop is the loop.\<close>

lemma while_nonempty_unfold:
  assumes "consumes body"
  shows "while_nonempty body s a =
    (if s = [] then Some a else Option.bind (body s a) (\<lambda>(a', s'). while_nonempty body s' a'))"
proof (cases "s = []")
  case False
  then obtain k where k: "length s = Suc k" by (cases "length s") auto
  have "rounds k body s' a' = while_nonempty body s' a'" if "body s a = Some (a', s')" for a' s'
  proof -
    have "length s' \<le> k" using assms that k by (fastforce simp: consumes_def)
    then show ?thesis using rounds_more [OF assms, of s' k a'] by (simp add: while_nonempty_def)
  qed
  with False k show ?thesis by (cases "body s a") (auto simp: while_nonempty_def)
qed (simp add: while_nonempty_def)

text \<open>A loop that appends what it reads to a list.\<close>

definition read_many :: "(bytes \<Rightarrow> ('a \<times> bytes) option) \<Rightarrow> bytes \<Rightarrow> 'a list \<Rightarrow> 'a list option" where
  "read_many p s acc = while_nonempty (\<lambda>s acc. map_option (\<lambda>(x, s'). (acc @ [x], s')) (p s)) s acc"

text \<open>What a loop needs of the element it reads: it parses what was written, and consumes something.\<close>

locale codec =
  fixes parse :: "bytes \<Rightarrow> ('a \<times> bytes) option"
    and enc :: "'a \<Rightarrow> bytes"
    and ok :: "'a \<Rightarrow> bool"
  assumes parse_enc: "ok x \<Longrightarrow> parse (enc x @ r) = Some (x, r)"
    and parse_consumes: "parse s = Some (x, r) \<Longrightarrow> length r < length s"
begin

lemma consumes_parse: "consumes (\<lambda>s acc. map_option (\<lambda>(x, s'). (acc @ [x], s')) (parse s))"
  using parse_consumes by (auto simp: consumes_def)

lemma enc_not_Nil: "ok x \<Longrightarrow> enc x \<noteq> []"
  using parse_enc [of x "[]"] parse_consumes [of "enc x" x "[]"] by auto

lemma read_many_Nil [simp]: "read_many parse [] acc = Some acc"
  by (simp add: read_many_def while_nonempty_def)

lemma read_many_enc: "list_all ok xs \<Longrightarrow> read_many parse (concat (map enc xs)) acc = Some (acc @ xs)"
proof (induction xs arbitrary: acc)
  case (Cons x xs)
  then have "read_many parse (enc x @ concat (map enc xs)) acc = read_many parse (concat (map enc xs)) (acc @ [x])"
    using enc_not_Nil [of x]
    by (simp add: read_many_def while_nonempty_unfold [OF consumes_parse, of "enc x @ concat (map enc xs)"] parse_enc)
  with Cons show ?case by simp
qed simp

end

section \<open>Writing\<close>

text \<open>
  \<open>b_uint k\<close> is \<open>AddUint8\<close>, \<open>AddUint16\<close>, \<open>AddUint24\<close>, \<open>AddUint32\<close>; \<open>b_error\<close> sets an error, as \<open>AddValue\<close> does when
  its function fails; \<open>b_fixed\<close> is \<open>NewFixedBuilder\<close> on a buffer that holds some bytes; \<open>b_result\<close> is \<open>BytesOrPanic\<close>, \<^term>\<open>None\<close> the panic. A length-prefixed write calls its
  function on a child builder (\<open>b_open\<close>), whose bytes start with room for the prefix, and then
  closes it (\<open>b_close\<close>), which is an error when the length does not fit.
\<close>

record 'b builder =
  b_new :: 'b
  b_fixed :: "bytes \<Rightarrow> 'b"
  b_uint :: "nat \<Rightarrow> nat \<Rightarrow> 'b \<Rightarrow> 'b"
  b_bytes :: "bytes \<Rightarrow> 'b \<Rightarrow> 'b"
  b_error :: "'b \<Rightarrow> 'b"
  b_open :: "nat \<Rightarrow> 'b \<Rightarrow> 'b"
  b_close :: "nat \<Rightarrow> 'b \<Rightarrow> 'b \<Rightarrow> 'b"
  b_result :: "'b \<Rightarrow> bytes option"

definition close_prefix :: "nat \<Rightarrow> bytes option \<Rightarrow> bytes option \<Rightarrow> bytes option" where
  "close_prefix k parent child =
     (case (parent, child) of
        (Some x, Some y) \<Rightarrow>
          if length y - k < 256 ^ k then Some (x @ be_enc k (length y - k) @ drop k y) else None
      | _ \<Rightarrow> None)"

definition builder_ok :: "'b builder \<Rightarrow> bool" where
  "builder_ok B \<longleftrightarrow>
     b_result B (b_new B) = Some [] \<and>
     (\<forall>x. b_result B (b_fixed B x) = Some x) \<and>
     (\<forall>k n b. b_result B (b_uint B k n b) = map_option (\<lambda>x. x @ be_enc k n) (b_result B b)) \<and>
     (\<forall>v b. b_result B (b_bytes B v b) = map_option (\<lambda>x. x @ v) (b_result B b)) \<and>
     (\<forall>b. b_result B (b_error B b) = None) \<and>
     (\<forall>k b. b_result B (b_open B k b) = map_option (\<lambda>_. replicate k 0) (b_result B b)) \<and>
     (\<forall>k b c. b_result B (b_close B k b c) = close_prefix k (b_result B b) (b_result B c))"

definition plain_builder :: "bytes option builder" where
  "plain_builder = \<lparr>b_new = Some [], b_fixed = Some, b_uint = (\<lambda>k n. map_option (\<lambda>x. x @ be_enc k n)),
     b_bytes = (\<lambda>v. map_option (\<lambda>x. x @ v)), b_error = (\<lambda>_. None),
     b_open = (\<lambda>k. map_option (\<lambda>_. replicate k 0)), b_close = close_prefix, b_result = id\<rparr>"

lemma plain_builder_ok: "builder_ok plain_builder"
  by (simp add: builder_ok_def plain_builder_def)

section \<open>Helpers of the package\<close>

text \<open>
  Statements that write to the builder one after the other; \<open>lp\<close> is a length-prefixed write,
  \<open>guarded\<close> an \<open>if\<close> without \<open>else\<close>.
\<close>

definition steps :: "('b \<Rightarrow> 'b) list \<Rightarrow> 'b \<Rightarrow> 'b" where
  "steps fs b = fold (\<lambda>f b. f b) fs b"

definition lp :: "'b builder \<Rightarrow> nat \<Rightarrow> ('b \<Rightarrow> 'b) \<Rightarrow> 'b \<Rightarrow> 'b" where
  "lp B k f b = b_close B k b (f (b_open B k b))"

definition guarded :: "bool \<Rightarrow> ('b \<Rightarrow> 'b) \<Rightarrow> 'b \<Rightarrow> 'b" where
  "guarded c f b = (if c then f b else b)"

definition addBytesWithLength :: "'b builder \<Rightarrow> bytes \<Rightarrow> nat \<Rightarrow> 'b \<Rightarrow> 'b" where
  "addBytesWithLength B v n b = (if length v \<noteq> n then b_error B b else b_bytes B v b)"

definition addUint64 :: "'b builder \<Rightarrow> u64 \<Rightarrow> 'b \<Rightarrow> 'b" where
  "addUint64 B v b = b_uint B 4 (unat (ucast v :: u32)) (b_uint B 4 (unat (ucast (drop_bit 32 v) :: u32)) b)"

definition readUint64 :: "reader \<Rightarrow> bytes \<Rightarrow> (u64 \<times> bytes) option" where
  "readUint64 R s =
     do {
       (hi, s) \<leftarrow> r_uint R 4 s;
       (lo, s) \<leftarrow> r_uint R 4 s;
       Some (push_bit 32 (word_of_nat hi) OR word_of_nat lo, s)
     }"

text \<open>Reading into a \<open>[]byte\<close>, and reading a \<open>uint16\<close> or a \<open>uint8\<close>.\<close>

definition readUintLengthPrefixed :: "reader \<Rightarrow> nat \<Rightarrow> bytes \<Rightarrow> (bytes \<times> bytes) option" where
  "readUintLengthPrefixed R k s = r_lp R k s"

definition read_u8 :: "reader \<Rightarrow> bytes \<Rightarrow> (byte \<times> bytes) option" where
  "read_u8 R s = map_option (\<lambda>(n, s). (word_of_nat n, s)) (r_uint R 1 s)"

definition read_u16 :: "reader \<Rightarrow> bytes \<Rightarrow> (u16 \<times> bytes) option" where
  "read_u16 R s = map_option (\<lambda>(n, s). (word_of_nat n, s)) (r_uint R 2 s)"

definition read_u32 :: "reader \<Rightarrow> bytes \<Rightarrow> (u32 \<times> bytes) option" where
  "read_u32 R s = map_option (\<lambda>(n, s). (word_of_nat n, s)) (r_uint R 4 s)"

section \<open>What a sequence of writes appends\<close>

text \<open>
  \<open>writes B f y\<close>: the action \<open>f\<close> appends the bytes \<open>y\<close>, or, for \<^term>\<open>None\<close>, leaves an error that makes
  \<open>BytesOrPanic\<close> panic.
\<close>

named_theorems writes_rules \<open>what an action on a builder appends\<close>

definition cat :: "bytes option \<Rightarrow> bytes option \<Rightarrow> bytes option" where
  "cat x y = (case (x, y) of (Some a, Some b) \<Rightarrow> Some (a @ b) | _ \<Rightarrow> None)"

definition lpb :: "nat \<Rightarrow> bytes option \<Rightarrow> bytes option" where
  "lpb k y = (case y of Some b \<Rightarrow> if length b < 256 ^ k then Some (be_enc k (length b) @ b) else None | None \<Rightarrow> None)"

definition writes :: "'b builder \<Rightarrow> ('b \<Rightarrow> 'b) \<Rightarrow> bytes option \<Rightarrow> bool" where
  "writes B f y \<longleftrightarrow> (\<forall>b. b_result B (f b) = cat (b_result B b) y)"

lemma cat_simps [simp]: "cat x None = None" "cat None x = None" "cat (Some a) (Some b) = Some (a @ b)"
  by (simp_all add: cat_def split: option.splits)

lemma cat_Nil [simp]: "cat x (Some []) = x" "cat (Some []) x = x"
  by (simp_all add: cat_def split: option.splits)

lemma cat_assoc: "cat (cat x y) z = cat x (cat y z)"
  by (simp add: cat_def split: option.splits)

lemma cat_eq_Some: "cat x y = Some z \<longleftrightarrow> (\<exists>a b. x = Some a \<and> y = Some b \<and> z = a @ b)"
  by (auto simp: cat_def split: option.splits)

lemma lpb_eq_Some: "lpb k y = Some z \<longleftrightarrow> (\<exists>b. y = Some b \<and> length b < 256 ^ k \<and> z = be_enc k (length b) @ b)"
  by (auto simp: lpb_def split: option.splits)

lemma writes_uint [writes_rules]: "builder_ok B \<Longrightarrow> writes B (b_uint B k n) (Some (be_enc k n))"
  by (simp add: writes_def builder_ok_def cat_def option.case_eq_if option.map_sel map_option_case split: option.splits)

lemma writes_bytes [writes_rules]: "builder_ok B \<Longrightarrow> writes B (b_bytes B v) (Some v)"
  by (simp add: writes_def builder_ok_def cat_def split: option.splits)

lemma writes_steps_Nil [writes_rules]: "writes B (steps []) (Some [])"
  by (simp add: writes_def steps_def)

lemma writes_steps_Cons [writes_rules]:
  "writes B f y \<Longrightarrow> writes B (steps fs) z \<Longrightarrow> writes B (steps (f # fs)) (cat y z)"
  by (simp add: writes_def steps_def cat_assoc)

lemma writes_steps_append [writes_rules]:
  "writes B (steps fs) y \<Longrightarrow> writes B (steps gs) z \<Longrightarrow> writes B (steps (fs @ gs)) (cat y z)"
  by (simp add: writes_def steps_def cat_assoc)

lemma writes_lp [writes_rules]: "builder_ok B \<Longrightarrow> writes B f y \<Longrightarrow> writes B (lp B k f) (lpb k y)"
  by (auto simp: writes_def builder_ok_def lp_def lpb_def close_prefix_def cat_def split: option.splits)

lemma writes_guarded [writes_rules]:
  "writes B f y \<Longrightarrow> writes B (guarded c f) (if c then y else Some [])"
  by (simp add: writes_def guarded_def)

lemma writes_addBytes [writes_rules]:
  "builder_ok B \<Longrightarrow> writes B (addBytesWithLength B v n) (if length v = n then Some v else None)"
  by (auto simp: writes_def builder_ok_def addBytesWithLength_def cat_def split: option.splits)

lemma writes_map:
  assumes "\<And>x. x \<in> set xs \<Longrightarrow> writes B (f x) (Some (e x))"
  shows "writes B (steps (map f xs)) (Some (concat (map e xs)))"
  using assms
proof (induction xs)
  case (Cons x xs)
  then have "writes B (f x) (Some (e x))" "writes B (steps (map f xs)) (Some (concat (map e xs)))" by simp_all
  from writes_steps_Cons [OF this] show ?case by simp
qed (simp add: writes_steps_Nil)

lemma writes_new: "builder_ok B \<Longrightarrow> writes B f y \<Longrightarrow> b_result B (f (b_new B)) = y"
  by (simp add: writes_def builder_ok_def)

lemma writes_fixed: "builder_ok B \<Longrightarrow> writes B f y \<Longrightarrow> b_result B (f (b_fixed B x)) = cat (Some x) y"
  by (simp add: writes_def builder_ok_def)

end
