(* ===== verification/Hello.thy ===== *)
theory Hello
  imports Cryptobyte Common
begin

text \<open>
  ClientHello and ServerHello (\<open>handshake_messages.go\<close>): the message records, how they are written
  and how they are read, extension by extension. Go strings are byte strings. \<open>raw\<close> is the cached
  encoding, \<^term>\<open>None\<close> for nil. \<open>marshal\<close> returns \<^term>\<open>None\<close> when \<open>BytesOrPanic\<close> panics, \<open>unmarshal\<close> when it
  returns false.
\<close>

definition scsvRenegotiation :: u16 where "scsvRenegotiation = 0x00ff"

record keyShare =
  ks_group :: u16
  ks_data :: bytes

record pskIdentity =
  psk_label :: bytes
  psk_age :: u32

record clientHelloMsg =
  ch_raw :: "bytes option"
  ch_vers :: u16
  ch_random :: bytes
  ch_sessionId :: bytes
  ch_cipherSuites :: "u16 list"
  ch_compressionMethods :: bytes
  ch_serverName :: bytes
  ch_ocspStapling :: bool
  ch_supportedCurves :: "u16 list"
  ch_supportedPoints :: bytes
  ch_ticketSupported :: bool
  ch_sessionTicket :: bytes
  ch_supportedSignatureAlgorithms :: "u16 list"
  ch_supportedSignatureAlgorithmsCert :: "u16 list"
  ch_secureRenegotiationSupported :: bool
  ch_secureRenegotiation :: bytes
  ch_alpnProtocols :: "bytes list"
  ch_scts :: bool
  ch_supportedVersions :: "u16 list"
  ch_cookie :: bytes
  ch_keyShares :: "keyShare list"
  ch_earlyData :: bool
  ch_pskModes :: bytes
  ch_pskIdentities :: "pskIdentity list"
  ch_pskBinders :: "bytes list"

record serverHelloMsg =
  sh_raw :: "bytes option"
  sh_vers :: u16
  sh_random :: bytes
  sh_sessionId :: bytes
  sh_cipherSuite :: u16
  sh_compressionMethod :: byte
  sh_ocspStapling :: bool
  sh_ticketSupported :: bool
  sh_secureRenegotiationSupported :: bool
  sh_secureRenegotiation :: bytes
  sh_alpnProtocol :: bytes
  sh_scts :: "bytes list"
  sh_supportedVersion :: u16
  sh_serverShare :: keyShare
  sh_selectedIdentityPresent :: bool
  sh_selectedIdentity :: u16
  sh_supportedPoints :: bytes
  sh_cookie :: bytes
  sh_selectedGroup :: u16

section \<open>Writing\<close>

definition write_u16s :: "'b builder \<Rightarrow> u16 list \<Rightarrow> 'b \<Rightarrow> 'b" where
  "write_u16s B xs = steps (map (\<lambda>x. b_uint B 2 (unat x)) xs)"

definition clientHello_extensions :: "'b builder \<Rightarrow> clientHelloMsg \<Rightarrow> ('b \<Rightarrow> 'b) list" where
  "clientHello_extensions B m = [
     guarded (length (ch_serverName m) > 0) (steps [
       b_uint B 2 (unat extensionServerName),
       lp B 2 (lp B 2 (steps [b_uint B 1 0, lp B 2 (b_bytes B (ch_serverName m))]))]),
     guarded (ch_ocspStapling m) (steps [
       b_uint B 2 (unat extensionStatusRequest),
       lp B 2 (steps [b_uint B 1 1, b_uint B 2 0, b_uint B 2 0])]),
     guarded (length (ch_supportedCurves m) > 0) (steps [
       b_uint B 2 (unat extensionSupportedCurves),
       lp B 2 (lp B 2 (write_u16s B (ch_supportedCurves m)))]),
     guarded (length (ch_supportedPoints m) > 0) (steps [
       b_uint B 2 (unat extensionSupportedPoints),
       lp B 2 (lp B 1 (b_bytes B (ch_supportedPoints m)))]),
     guarded (ch_ticketSupported m) (steps [
       b_uint B 2 (unat extensionSessionTicket),
       lp B 2 (b_bytes B (ch_sessionTicket m))]),
     guarded (length (ch_supportedSignatureAlgorithms m) > 0) (steps [
       b_uint B 2 (unat extensionSignatureAlgorithms),
       lp B 2 (lp B 2 (write_u16s B (ch_supportedSignatureAlgorithms m)))]),
     guarded (length (ch_supportedSignatureAlgorithmsCert m) > 0) (steps [
       b_uint B 2 (unat extensionSignatureAlgorithmsCert),
       lp B 2 (lp B 2 (write_u16s B (ch_supportedSignatureAlgorithmsCert m)))]),
     guarded (ch_secureRenegotiationSupported m) (steps [
       b_uint B 2 (unat extensionRenegotiationInfo),
       lp B 2 (lp B 1 (b_bytes B (ch_secureRenegotiation m)))]),
     guarded (length (ch_alpnProtocols m) > 0) (steps [
       b_uint B 2 (unat extensionALPN),
       lp B 2 (lp B 2 (steps (map (\<lambda>proto. lp B 1 (b_bytes B proto)) (ch_alpnProtocols m))))]),
     guarded (ch_scts m) (steps [b_uint B 2 (unat extensionSCT), b_uint B 2 0]),
     guarded (length (ch_supportedVersions m) > 0) (steps [
       b_uint B 2 (unat extensionSupportedVersions),
       lp B 2 (lp B 1 (write_u16s B (ch_supportedVersions m)))]),
     guarded (length (ch_cookie m) > 0) (steps [
       b_uint B 2 (unat extensionCookie),
       lp B 2 (lp B 2 (b_bytes B (ch_cookie m)))]),
     guarded (length (ch_keyShares m) > 0) (steps [
       b_uint B 2 (unat extensionKeyShare),
       lp B 2 (lp B 2 (steps (map (\<lambda>ks. steps [
         b_uint B 2 (unat (ks_group ks)), lp B 2 (b_bytes B (ks_data ks))]) (ch_keyShares m))))]),
     guarded (ch_earlyData m) (steps [b_uint B 2 (unat extensionEarlyData), b_uint B 2 0]),
     guarded (length (ch_pskModes m) > 0) (steps [
       b_uint B 2 (unat extensionPSKModes),
       lp B 2 (lp B 1 (b_bytes B (ch_pskModes m)))]),
     guarded (length (ch_pskIdentities m) > 0) (steps [
       b_uint B 2 (unat extensionPreSharedKey),
       lp B 2 (steps [
         lp B 2 (steps (map (\<lambda>psk. steps [
           lp B 2 (b_bytes B (psk_label psk)), b_uint B 4 (unat (psk_age psk))]) (ch_pskIdentities m))),
         lp B 2 (steps (map (\<lambda>binder. lp B 1 (b_bytes B binder)) (ch_pskBinders m)))])])]"

text \<open>
  The extensions are written to the child builder; if it holds no more than the room for its
  prefix, the builder from before takes its place. \<open>BytesOrPanic\<close> on the child may panic.
\<close>

definition omit_empty :: "'b builder \<Rightarrow> ('b \<Rightarrow> 'b) \<Rightarrow> 'b \<Rightarrow> 'b option" where
  "omit_empty B exts b =
     (let child = exts (b_open B 2 b)
      in case b_result B child of
           None \<Rightarrow> None
         | Some bs \<Rightarrow> let extensionsPresent = length bs > 2
                     in Some (if extensionsPresent then b_close B 2 b child else b))"

definition clientHello_fields :: "'b builder \<Rightarrow> clientHelloMsg \<Rightarrow> ('b \<Rightarrow> 'b) list" where
  "clientHello_fields B m = [
     b_uint B 2 (unat (ch_vers m)),
     addBytesWithLength B (ch_random m) 32,
     lp B 1 (b_bytes B (ch_sessionId m)),
     lp B 2 (write_u16s B (ch_cipherSuites m)),
     lp B 1 (b_bytes B (ch_compressionMethods m))]"

definition marshal_hello :: "'b builder \<Rightarrow> byte \<Rightarrow> ('b \<Rightarrow> 'b) \<Rightarrow> ('b \<Rightarrow> 'b) \<Rightarrow> bytes option" where
  "marshal_hello B t body exts =
     (let b = b_uint B 1 (unat t) (b_new B)
      in case omit_empty B exts (body (b_open B 3 b)) of
           None \<Rightarrow> None
         | Some child \<Rightarrow> b_result B (b_close B 3 b child))"

definition marshal_clientHello :: "'b builder \<Rightarrow> clientHelloMsg \<Rightarrow> (bytes \<times> clientHelloMsg) option" where
  "marshal_clientHello B m =
     (case ch_raw m of
        Some raw \<Rightarrow> Some (raw, m)
      | None \<Rightarrow> map_option (\<lambda>raw. (raw, m\<lparr>ch_raw := Some raw\<rparr>))
          (marshal_hello B typeClientHello (steps (clientHello_fields B m)) (steps (clientHello_extensions B m))))"

definition serverHello_extensions :: "'b builder \<Rightarrow> serverHelloMsg \<Rightarrow> ('b \<Rightarrow> 'b) list" where
  "serverHello_extensions B m = [
     guarded (sh_ocspStapling m) (steps [b_uint B 2 (unat extensionStatusRequest), b_uint B 2 0]),
     guarded (sh_ticketSupported m) (steps [b_uint B 2 (unat extensionSessionTicket), b_uint B 2 0]),
     guarded (sh_secureRenegotiationSupported m) (steps [
       b_uint B 2 (unat extensionRenegotiationInfo),
       lp B 2 (lp B 1 (b_bytes B (sh_secureRenegotiation m)))]),
     guarded (length (sh_alpnProtocol m) > 0) (steps [
       b_uint B 2 (unat extensionALPN),
       lp B 2 (lp B 2 (lp B 1 (b_bytes B (sh_alpnProtocol m))))]),
     guarded (length (sh_scts m) > 0) (steps [
       b_uint B 2 (unat extensionSCT),
       lp B 2 (lp B 2 (steps (map (\<lambda>sct. lp B 2 (b_bytes B sct)) (sh_scts m))))]),
     guarded (sh_supportedVersion m \<noteq> 0) (steps [
       b_uint B 2 (unat extensionSupportedVersions),
       lp B 2 (b_uint B 2 (unat (sh_supportedVersion m)))]),
     guarded (ks_group (sh_serverShare m) \<noteq> 0) (steps [
       b_uint B 2 (unat extensionKeyShare),
       lp B 2 (steps [
         b_uint B 2 (unat (ks_group (sh_serverShare m))),
         lp B 2 (b_bytes B (ks_data (sh_serverShare m)))])]),
     guarded (sh_selectedIdentityPresent m) (steps [
       b_uint B 2 (unat extensionPreSharedKey),
       lp B 2 (b_uint B 2 (unat (sh_selectedIdentity m)))]),
     guarded (length (sh_cookie m) > 0) (steps [
       b_uint B 2 (unat extensionCookie),
       lp B 2 (lp B 2 (b_bytes B (sh_cookie m)))]),
     guarded (sh_selectedGroup m \<noteq> 0) (steps [
       b_uint B 2 (unat extensionKeyShare),
       lp B 2 (b_uint B 2 (unat (sh_selectedGroup m)))]),
     guarded (length (sh_supportedPoints m) > 0) (steps [
       b_uint B 2 (unat extensionSupportedPoints),
       lp B 2 (lp B 1 (b_bytes B (sh_supportedPoints m)))])]"

definition serverHello_fields :: "'b builder \<Rightarrow> serverHelloMsg \<Rightarrow> ('b \<Rightarrow> 'b) list" where
  "serverHello_fields B m = [
     b_uint B 2 (unat (sh_vers m)),
     addBytesWithLength B (sh_random m) 32,
     lp B 1 (b_bytes B (sh_sessionId m)),
     b_uint B 2 (unat (sh_cipherSuite m)),
     b_uint B 1 (unat (sh_compressionMethod m))]"

definition marshal_serverHello :: "'b builder \<Rightarrow> serverHelloMsg \<Rightarrow> (bytes \<times> serverHelloMsg) option" where
  "marshal_serverHello B m =
     (case sh_raw m of
        Some raw \<Rightarrow> Some (raw, m)
      | None \<Rightarrow> map_option (\<lambda>raw. (raw, m\<lparr>sh_raw := Some raw\<rparr>))
          (marshal_hello B typeServerHello (steps (serverHello_fields B m)) (steps (serverHello_extensions B m))))"

section \<open>The binders of a ClientHello\<close>

definition bindersLen :: "bytes list \<Rightarrow> nat" where
  "bindersLen binders = 2 + sum_list (map (\<lambda>binder. 1 + length binder) binders)"

text \<open>The slice panics when the message is shorter than its binders.\<close>

definition marshalWithoutBinders :: "'b builder \<Rightarrow> clientHelloMsg \<Rightarrow> (bytes \<times> clientHelloMsg) option" where
  "marshalWithoutBinders B m =
     (case marshal_clientHello B m of
        None \<Rightarrow> None
      | Some (fullMessage, m') \<Rightarrow>
          if bindersLen (ch_pskBinders m) \<le> length fullMessage
          then Some (take (length fullMessage - bindersLen (ch_pskBinders m)) fullMessage, m') else None)"

text \<open>The fixed builder writes into the array of \<open>m.raw\<close>, which it must fill exactly.\<close>

definition updateBinders :: "'b builder \<Rightarrow> bytes list \<Rightarrow> clientHelloMsg \<Rightarrow> clientHelloMsg option" where
  "updateBinders B pskBinders m =
     (if map length pskBinders \<noteq> map length (ch_pskBinders m) then None
      else
        let m1 = m\<lparr>ch_pskBinders := pskBinders\<rparr>
        in case ch_raw m1 of
             None \<Rightarrow> Some m1
           | Some raw \<Rightarrow>
               (case marshalWithoutBinders B m1 of
                  None \<Rightarrow> None
                | Some (without, _) \<Rightarrow>
                    (case b_result B (lp B 2 (steps (map (\<lambda>binder. lp B 1 (b_bytes B binder)) pskBinders))
                            (b_fixed B (take (length without) raw))) of
                       None \<Rightarrow> None
                     | Some out \<Rightarrow> if length out \<noteq> length raw then None else Some (m1\<lparr>ch_raw := Some out\<rparr>))))"

section \<open>Reading extensions\<close>

text \<open>
  The loop over an extension block. \<open>ext e d rest m\<close> is the \<open>switch\<close>: extension \<open>e\<close> with data \<open>d\<close>, before
  the extensions \<open>rest\<close>; it returns the message and what is left of the data, which must be empty.
  An unknown extension is skipped, which the model writes as nothing left.
\<close>

type_synonym 'm extension_reader = "u16 \<Rightarrow> bytes \<Rightarrow> bytes \<Rightarrow> 'm \<Rightarrow> ('m \<times> bytes) option"

definition read_extension :: "reader \<Rightarrow> 'm extension_reader \<Rightarrow> bytes \<Rightarrow> 'm \<Rightarrow> ('m \<times> bytes) option" where
  "read_extension R ext s m =
     do {
       (e, s) \<leftarrow> read_u16 R s;
       (d, s) \<leftarrow> r_lp R 2 s;
       (m, d) \<leftarrow> ext e d s m;
       check (d = []);
       Some (m, s)
     }"

definition read_extensions :: "reader \<Rightarrow> 'm extension_reader \<Rightarrow> bytes \<Rightarrow> 'm \<Rightarrow> 'm option" where
  "read_extensions R ext s m = while_nonempty (read_extension R ext) s m"

text \<open>A list of \<open>uint16\<close> that must not be empty.\<close>

definition read_list16 :: "reader \<Rightarrow> nat \<Rightarrow> bytes \<Rightarrow> u16 list \<Rightarrow> (u16 list \<times> bytes) option" where
  "read_list16 R k d acc =
     do {
       (l, d) \<leftarrow> r_lp R k d;
       check (l \<noteq> []);
       xs \<leftarrow> read_many (read_u16 R) l acc;
       Some (xs, d)
     }"

text \<open>A byte string that must not be empty.\<close>

definition read_nonempty :: "reader \<Rightarrow> nat \<Rightarrow> bytes \<Rightarrow> (bytes \<times> bytes) option" where
  "read_nonempty R k d =
     do {
       (x, d) \<leftarrow> r_lp R k d;
       check (length x \<noteq> 0);
       Some (x, d)
     }"

text \<open>The name list; \<open>46\<close> is the dot.\<close>

definition read_serverName :: "reader \<Rightarrow> bytes \<Rightarrow> bytes \<Rightarrow> (bytes \<times> bytes) option" where
  "read_serverName R s name =
     do {
       (nameType, s) \<leftarrow> read_u8 R s;
       (serverName, s) \<leftarrow> r_lp R 2 s;
       check (serverName \<noteq> []);
       if nameType \<noteq> 0 then Some (name, s)
       else do {
         check (length name = 0);
         check (last serverName \<noteq> 46);
         Some (serverName, s)
       }
     }"

definition read_keyShare :: "reader \<Rightarrow> bytes \<Rightarrow> (keyShare \<times> bytes) option" where
  "read_keyShare R s =
     do {
       (g, s) \<leftarrow> read_u16 R s;
       (d, s) \<leftarrow> read_nonempty R 2 s;
       Some (\<lparr>ks_group = g, ks_data = d\<rparr>, s)
     }"

definition read_pskIdentity :: "reader \<Rightarrow> bytes \<Rightarrow> (pskIdentity \<times> bytes) option" where
  "read_pskIdentity R s =
     do {
       (l, s) \<leftarrow> r_lp R 2 s;
       (a, s) \<leftarrow> read_u32 R s;
       check (length l \<noteq> 0);
       Some (\<lparr>psk_label = l, psk_age = a\<rparr>, s)
     }"

section \<open>Reading a ClientHello\<close>

definition clientHello_extension :: "reader \<Rightarrow> clientHelloMsg extension_reader" where
  "clientHello_extension R e d rest m =
     (if e = extensionServerName then do {
        (nameList, d) \<leftarrow> r_lp R 2 d;
        check (nameList \<noteq> []);
        name \<leftarrow> while_nonempty (read_serverName R) nameList (ch_serverName m);
        Some (m\<lparr>ch_serverName := name\<rparr>, d)
      }
      else if e = extensionStatusRequest then do {
        (statusType, d) \<leftarrow> read_u8 R d;
        (ignored, d) \<leftarrow> r_lp R 2 d;
        (ignored, d) \<leftarrow> r_lp R 2 d;
        Some (m\<lparr>ch_ocspStapling := (statusType = statusTypeOCSP)\<rparr>, d)
      }
      else if e = extensionSupportedCurves then do {
        (curves, d) \<leftarrow> read_list16 R 2 d (ch_supportedCurves m);
        Some (m\<lparr>ch_supportedCurves := curves\<rparr>, d)
      }
      else if e = extensionSupportedPoints then do {
        (points, d) \<leftarrow> read_nonempty R 1 d;
        Some (m\<lparr>ch_supportedPoints := points\<rparr>, d)
      }
      else if e = extensionSessionTicket then
        (case r_bytes R (length d) d of
           Some (ticket, d) \<Rightarrow> Some (m\<lparr>ch_ticketSupported := True, ch_sessionTicket := ticket\<rparr>, d)
         | None \<Rightarrow> Some (m\<lparr>ch_ticketSupported := True\<rparr>, d))
      else if e = extensionSignatureAlgorithms then do {
        (algs, d) \<leftarrow> read_list16 R 2 d (ch_supportedSignatureAlgorithms m);
        Some (m\<lparr>ch_supportedSignatureAlgorithms := algs\<rparr>, d)
      }
      else if e = extensionSignatureAlgorithmsCert then do {
        (algs, d) \<leftarrow> read_list16 R 2 d (ch_supportedSignatureAlgorithmsCert m);
        Some (m\<lparr>ch_supportedSignatureAlgorithmsCert := algs\<rparr>, d)
      }
      else if e = extensionRenegotiationInfo then do {
        (info, d) \<leftarrow> r_lp R 1 d;
        Some (m\<lparr>ch_secureRenegotiation := info, ch_secureRenegotiationSupported := True\<rparr>, d)
      }
      else if e = extensionALPN then do {
        (protoList, d) \<leftarrow> r_lp R 2 d;
        check (protoList \<noteq> []);
        protos \<leftarrow> read_many (read_nonempty R 1) protoList (ch_alpnProtocols m);
        Some (m\<lparr>ch_alpnProtocols := protos\<rparr>, d)
      }
      else if e = extensionSCT then Some (m\<lparr>ch_scts := True\<rparr>, d)
      else if e = extensionSupportedVersions then do {
        (versions, d) \<leftarrow> read_list16 R 1 d (ch_supportedVersions m);
        Some (m\<lparr>ch_supportedVersions := versions\<rparr>, d)
      }
      else if e = extensionCookie then do {
        (cookie, d) \<leftarrow> read_nonempty R 2 d;
        Some (m\<lparr>ch_cookie := cookie\<rparr>, d)
      }
      else if e = extensionKeyShare then do {
        (clientShares, d) \<leftarrow> r_lp R 2 d;
        shares \<leftarrow> read_many (read_keyShare R) clientShares (ch_keyShares m);
        Some (m\<lparr>ch_keyShares := shares\<rparr>, d)
      }
      else if e = extensionEarlyData then Some (m\<lparr>ch_earlyData := True\<rparr>, d)
      else if e = extensionPSKModes then do {
        (modes, d) \<leftarrow> r_lp R 1 d;
        Some (m\<lparr>ch_pskModes := modes\<rparr>, d)
      }
      else if e = extensionPreSharedKey then do {
        check (rest = []);
        (identities, d) \<leftarrow> r_lp R 2 d;
        check (identities \<noteq> []);
        ids \<leftarrow> read_many (read_pskIdentity R) identities (ch_pskIdentities m);
        (binders, d) \<leftarrow> r_lp R 2 d;
        check (binders \<noteq> []);
        bs \<leftarrow> read_many (read_nonempty R 1) binders (ch_pskBinders m);
        Some (m\<lparr>ch_pskIdentities := ids, ch_pskBinders := bs\<rparr>, d)
      }
      else Some (m, []))"

definition empty_clientHello :: clientHelloMsg where
  "empty_clientHello = \<lparr>ch_raw = None, ch_vers = 0, ch_random = [], ch_sessionId = [], ch_cipherSuites = [],
     ch_compressionMethods = [], ch_serverName = [], ch_ocspStapling = False, ch_supportedCurves = [],
     ch_supportedPoints = [], ch_ticketSupported = False, ch_sessionTicket = [],
     ch_supportedSignatureAlgorithms = [], ch_supportedSignatureAlgorithmsCert = [],
     ch_secureRenegotiationSupported = False, ch_secureRenegotiation = [], ch_alpnProtocols = [],
     ch_scts = False, ch_supportedVersions = [], ch_cookie = [], ch_keyShares = [], ch_earlyData = False,
     ch_pskModes = [], ch_pskIdentities = [], ch_pskBinders = []\<rparr>"

text \<open>The suite loop also looks for the renegotiation signalling value.\<close>

definition unmarshal_clientHello :: "reader \<Rightarrow> bytes \<Rightarrow> clientHelloMsg option" where
  "unmarshal_clientHello R data =
     do {
       s \<leftarrow> r_skip R 4 data;
       (vers, s) \<leftarrow> read_u16 R s;
       (random, s) \<leftarrow> r_bytes R 32 s;
       (sessionId, s) \<leftarrow> r_lp R 1 s;
       (cipherSuites, s) \<leftarrow> r_lp R 2 s;
       suites \<leftarrow> read_many (read_u16 R) cipherSuites [];
       (compressionMethods, s) \<leftarrow> r_lp R 1 s;
       let m = empty_clientHello\<lparr>ch_raw := Some data, ch_vers := vers, ch_random := random,
                 ch_sessionId := sessionId, ch_cipherSuites := suites,
                 ch_secureRenegotiationSupported := scsvRenegotiation \<in> set suites,
                 ch_compressionMethods := compressionMethods\<rparr>;
       if s = [] then Some m
       else do {
         (extensions, s) \<leftarrow> r_lp R 2 s;
         check (s = []);
         read_extensions R (clientHello_extension R) extensions m
       }
     }"

section \<open>Reading a ServerHello\<close>

text \<open>A protocol list with exactly one name.\<close>

definition read_alpn :: "reader \<Rightarrow> bytes \<Rightarrow> (bytes \<times> bytes) option" where
  "read_alpn R d =
     do {
       (protoList, d) \<leftarrow> r_lp R 2 d;
       check (protoList \<noteq> []);
       (proto, protoList) \<leftarrow> r_lp R 1 protoList;
       check (proto \<noteq> []);
       check (protoList = []);
       Some (proto, d)
     }"

text \<open>A list of byte strings, none of them empty, that is not empty itself.\<close>

definition read_strings :: "reader \<Rightarrow> bytes \<Rightarrow> bytes list \<Rightarrow> (bytes list \<times> bytes) option" where
  "read_strings R d acc =
     do {
       (l, d) \<leftarrow> r_lp R 2 d;
       check (l \<noteq> []);
       xs \<leftarrow> read_many (read_nonempty R 2) l acc;
       Some (xs, d)
     }"

definition serverHello_extension :: "reader \<Rightarrow> serverHelloMsg extension_reader" where
  "serverHello_extension R e d rest m =
     (if e = extensionStatusRequest then Some (m\<lparr>sh_ocspStapling := True\<rparr>, d)
      else if e = extensionSessionTicket then Some (m\<lparr>sh_ticketSupported := True\<rparr>, d)
      else if e = extensionRenegotiationInfo then do {
        (info, d) \<leftarrow> r_lp R 1 d;
        Some (m\<lparr>sh_secureRenegotiation := info, sh_secureRenegotiationSupported := True\<rparr>, d)
      }
      else if e = extensionALPN then do {
        (proto, d) \<leftarrow> read_alpn R d;
        Some (m\<lparr>sh_alpnProtocol := proto\<rparr>, d)
      }
      else if e = extensionSCT then do {
        (scts, d) \<leftarrow> read_strings R d (sh_scts m);
        Some (m\<lparr>sh_scts := scts\<rparr>, d)
      }
      else if e = extensionSupportedVersions then do {
        (v, d) \<leftarrow> read_u16 R d;
        Some (m\<lparr>sh_supportedVersion := v\<rparr>, d)
      }
      else if e = extensionCookie then do {
        (cookie, d) \<leftarrow> read_nonempty R 2 d;
        Some (m\<lparr>sh_cookie := cookie\<rparr>, d)
      }
      else if e = extensionKeyShare then
        (if length d = 2 then do {
           (g, d) \<leftarrow> read_u16 R d;
           Some (m\<lparr>sh_selectedGroup := g\<rparr>, d)
         }
         else do {
           (g, d) \<leftarrow> read_u16 R d;
           (share, d) \<leftarrow> r_lp R 2 d;
           Some (m\<lparr>sh_serverShare := \<lparr>ks_group = g, ks_data = share\<rparr>\<rparr>, d)
         })
      else if e = extensionPreSharedKey then do {
        (i, d) \<leftarrow> read_u16 R d;
        Some (m\<lparr>sh_selectedIdentityPresent := True, sh_selectedIdentity := i\<rparr>, d)
      }
      else if e = extensionSupportedPoints then do {
        (points, d) \<leftarrow> read_nonempty R 1 d;
        Some (m\<lparr>sh_supportedPoints := points\<rparr>, d)
      }
      else Some (m, []))"

definition empty_serverHello :: serverHelloMsg where
  "empty_serverHello = \<lparr>sh_raw = None, sh_vers = 0, sh_random = [], sh_sessionId = [], sh_cipherSuite = 0,
     sh_compressionMethod = 0, sh_ocspStapling = False, sh_ticketSupported = False,
     sh_secureRenegotiationSupported = False, sh_secureRenegotiation = [], sh_alpnProtocol = [], sh_scts = [],
     sh_supportedVersion = 0, sh_serverShare = \<lparr>ks_group = 0, ks_data = []\<rparr>,
     sh_selectedIdentityPresent = False, sh_selectedIdentity = 0, sh_supportedPoints = [], sh_cookie = [],
     sh_selectedGroup = 0\<rparr>"

definition unmarshal_serverHello :: "reader \<Rightarrow> bytes \<Rightarrow> serverHelloMsg option" where
  "unmarshal_serverHello R data =
     do {
       s \<leftarrow> r_skip R 4 data;
       (vers, s) \<leftarrow> read_u16 R s;
       (random, s) \<leftarrow> r_bytes R 32 s;
       (sessionId, s) \<leftarrow> r_lp R 1 s;
       (cipherSuite, s) \<leftarrow> read_u16 R s;
       (compressionMethod, s) \<leftarrow> read_u8 R s;
       let m = empty_serverHello\<lparr>sh_raw := Some data, sh_vers := vers, sh_random := random,
                 sh_sessionId := sessionId, sh_cipherSuite := cipherSuite,
                 sh_compressionMethod := compressionMethod\<rparr>;
       if s = [] then Some m
       else do {
         (extensions, s) \<leftarrow> r_lp R 2 s;
         check (s = []);
         read_extensions R (serverHello_extension R) extensions m
       }
     }"

end
