(* ===== verification/Messages.thy ===== *)
theory Messages
  imports Hello
begin

text \<open>
  The other handshake messages (\<open>handshake_messages.go\<close>, from \<open>encryptedExtensionsMsg\<close> on). Messages
  written without a builder are laid out byte by byte as in the source; their length fields are
  the low bytes of the length, which nothing checks.
\<close>

text \<open>A message written with the builder: its type, and its body with a 24-bit length.\<close>

definition marshal_body :: "'b builder \<Rightarrow> byte \<Rightarrow> ('b \<Rightarrow> 'b) \<Rightarrow> bytes option" where
  "marshal_body B t f = b_result B (lp B 3 f (b_uint B 1 (unat t) (b_new B)))"

text \<open>A message laid out by hand.\<close>

definition message_bytes :: "byte \<Rightarrow> bytes \<Rightarrow> bytes" where
  "message_bytes t body = t # be_enc 3 (length body) @ body"

section \<open>EncryptedExtensions, EndOfEarlyData, KeyUpdate\<close>

record encryptedExtensionsMsg =
  ee_raw :: "bytes option"
  ee_alpnProtocol :: bytes

definition encryptedExtensions_body :: "'b builder \<Rightarrow> encryptedExtensionsMsg \<Rightarrow> 'b \<Rightarrow> 'b" where
  "encryptedExtensions_body B m = lp B 2 (steps [
     guarded (length (ee_alpnProtocol m) > 0) (steps [
       b_uint B 2 (unat extensionALPN),
       lp B 2 (lp B 2 (lp B 1 (b_bytes B (ee_alpnProtocol m))))])])"

definition marshal_encryptedExtensions ::
  "'b builder \<Rightarrow> encryptedExtensionsMsg \<Rightarrow> (bytes \<times> encryptedExtensionsMsg) option" where
  "marshal_encryptedExtensions B m =
     (case ee_raw m of
        Some raw \<Rightarrow> Some (raw, m)
      | None \<Rightarrow> map_option (\<lambda>raw. (raw, m\<lparr>ee_raw := Some raw\<rparr>))
          (marshal_body B typeEncryptedExtensions (encryptedExtensions_body B m)))"

definition encryptedExtensions_extension :: "reader \<Rightarrow> encryptedExtensionsMsg extension_reader" where
  "encryptedExtensions_extension R e d rest m =
     (if e = extensionALPN then do {
        (proto, d) \<leftarrow> read_alpn R d;
        Some (m\<lparr>ee_alpnProtocol := proto\<rparr>, d)
      }
      else Some (m, []))"

definition unmarshal_encryptedExtensions :: "reader \<Rightarrow> bytes \<Rightarrow> encryptedExtensionsMsg option" where
  "unmarshal_encryptedExtensions R data =
     do {
       s \<leftarrow> r_skip R 4 data;
       (extensions, s) \<leftarrow> r_lp R 2 s;
       check (s = []);
       read_extensions R (encryptedExtensions_extension R) extensions \<lparr>ee_raw = Some data, ee_alpnProtocol = []\<rparr>
     }"

definition marshal_endOfEarlyData :: bytes where
  "marshal_endOfEarlyData = [typeEndOfEarlyData, 0, 0, 0]"

definition unmarshal_endOfEarlyData :: "bytes \<Rightarrow> bool" where
  "unmarshal_endOfEarlyData data \<longleftrightarrow> length data = 4"

record keyUpdateMsg =
  ku_raw :: "bytes option"
  ku_updateRequested :: bool

definition marshal_keyUpdate :: "'b builder \<Rightarrow> keyUpdateMsg \<Rightarrow> (bytes \<times> keyUpdateMsg) option" where
  "marshal_keyUpdate B m =
     (case ku_raw m of
        Some raw \<Rightarrow> Some (raw, m)
      | None \<Rightarrow> map_option (\<lambda>raw. (raw, m\<lparr>ku_raw := Some raw\<rparr>))
          (marshal_body B typeKeyUpdate (if ku_updateRequested m then b_uint B 1 1 else b_uint B 1 0)))"

definition unmarshal_keyUpdate :: "reader \<Rightarrow> bytes \<Rightarrow> keyUpdateMsg option" where
  "unmarshal_keyUpdate R data =
     do {
       s \<leftarrow> r_skip R 4 data;
       (updateRequested, s) \<leftarrow> read_u8 R s;
       check (s = []);
       if updateRequested = 0 then Some \<lparr>ku_raw = Some data, ku_updateRequested = False\<rparr>
       else if updateRequested = 1 then Some \<lparr>ku_raw = Some data, ku_updateRequested = True\<rparr>
       else None
     }"

section \<open>NewSessionTicket\<close>

record newSessionTicketMsgTLS13 =
  nst_raw :: "bytes option"
  nst_lifetime :: u32
  nst_ageAdd :: u32
  nst_nonce :: bytes
  nst_label :: bytes
  nst_maxEarlyData :: u32

definition newSessionTicketTLS13_body :: "'b builder \<Rightarrow> newSessionTicketMsgTLS13 \<Rightarrow> 'b \<Rightarrow> 'b" where
  "newSessionTicketTLS13_body B m = steps [
     b_uint B 4 (unat (nst_lifetime m)),
     b_uint B 4 (unat (nst_ageAdd m)),
     lp B 1 (b_bytes B (nst_nonce m)),
     lp B 2 (b_bytes B (nst_label m)),
     lp B 2 (steps [
       guarded (nst_maxEarlyData m > 0) (steps [
         b_uint B 2 (unat extensionEarlyData),
         lp B 2 (b_uint B 4 (unat (nst_maxEarlyData m)))])])]"

definition marshal_newSessionTicketTLS13 ::
  "'b builder \<Rightarrow> newSessionTicketMsgTLS13 \<Rightarrow> (bytes \<times> newSessionTicketMsgTLS13) option" where
  "marshal_newSessionTicketTLS13 B m =
     (case nst_raw m of
        Some raw \<Rightarrow> Some (raw, m)
      | None \<Rightarrow> map_option (\<lambda>raw. (raw, m\<lparr>nst_raw := Some raw\<rparr>))
          (marshal_body B typeNewSessionTicket (newSessionTicketTLS13_body B m)))"

definition newSessionTicketTLS13_extension :: "reader \<Rightarrow> newSessionTicketMsgTLS13 extension_reader" where
  "newSessionTicketTLS13_extension R e d rest m =
     (if e = extensionEarlyData then do {
        (n, d) \<leftarrow> read_u32 R d;
        Some (m\<lparr>nst_maxEarlyData := n\<rparr>, d)
      }
      else Some (m, []))"

definition unmarshal_newSessionTicketTLS13 :: "reader \<Rightarrow> bytes \<Rightarrow> newSessionTicketMsgTLS13 option" where
  "unmarshal_newSessionTicketTLS13 R data =
     do {
       s \<leftarrow> r_skip R 4 data;
       (lifetime, s) \<leftarrow> read_u32 R s;
       (ageAdd, s) \<leftarrow> read_u32 R s;
       (nonce, s) \<leftarrow> r_lp R 1 s;
       (label, s) \<leftarrow> r_lp R 2 s;
       (extensions, s) \<leftarrow> r_lp R 2 s;
       check (s = []);
       read_extensions R (newSessionTicketTLS13_extension R) extensions
         \<lparr>nst_raw = Some data, nst_lifetime = lifetime, nst_ageAdd = ageAdd, nst_nonce = nonce,
          nst_label = label, nst_maxEarlyData = 0\<rparr>
     }"

record newSessionTicketMsg =
  st_raw :: "bytes option"
  st_ticket :: bytes

definition marshal_newSessionTicket :: "newSessionTicketMsg \<Rightarrow> bytes \<times> newSessionTicketMsg" where
  "marshal_newSessionTicket m =
     (case st_raw m of
        Some raw \<Rightarrow> (raw, m)
      | None \<Rightarrow>
          (let ticketLen = length (st_ticket m);
               x = message_bytes typeNewSessionTicket (replicate 4 0 @ be_enc 2 ticketLen @ st_ticket m)
           in (x, m\<lparr>st_raw := Some x\<rparr>)))"

definition unmarshal_newSessionTicket :: "bytes \<Rightarrow> newSessionTicketMsg option" where
  "unmarshal_newSessionTicket data =
     (if length data < 10 then None
      else if length data - 4 \<noteq> be_dec (take 3 (drop 1 data)) then None
      else if length data - 10 \<noteq> be_dec (take 2 (drop 8 data)) then None
      else Some \<lparr>st_raw = Some data, st_ticket = drop 10 data\<rparr>)"

section \<open>CertificateRequest\<close>

record certificateRequestMsgTLS13 =
  cr13_raw :: "bytes option"
  cr13_ocspStapling :: bool
  cr13_scts :: bool
  cr13_supportedSignatureAlgorithms :: "u16 list"
  cr13_supportedSignatureAlgorithmsCert :: "u16 list"
  cr13_certificateAuthorities :: "bytes list"

definition certificateRequestTLS13_extensions :: "'b builder \<Rightarrow> certificateRequestMsgTLS13 \<Rightarrow> ('b \<Rightarrow> 'b) list" where
  "certificateRequestTLS13_extensions B m = [
     guarded (cr13_ocspStapling m) (steps [b_uint B 2 (unat extensionStatusRequest), b_uint B 2 0]),
     guarded (cr13_scts m) (steps [b_uint B 2 (unat extensionSCT), b_uint B 2 0]),
     guarded (length (cr13_supportedSignatureAlgorithms m) > 0) (steps [
       b_uint B 2 (unat extensionSignatureAlgorithms),
       lp B 2 (lp B 2 (write_u16s B (cr13_supportedSignatureAlgorithms m)))]),
     guarded (length (cr13_supportedSignatureAlgorithmsCert m) > 0) (steps [
       b_uint B 2 (unat extensionSignatureAlgorithmsCert),
       lp B 2 (lp B 2 (write_u16s B (cr13_supportedSignatureAlgorithmsCert m)))]),
     guarded (length (cr13_certificateAuthorities m) > 0) (steps [
       b_uint B 2 (unat extensionCertificateAuthorities),
       lp B 2 (lp B 2 (steps (map (\<lambda>ca. lp B 2 (b_bytes B ca)) (cr13_certificateAuthorities m))))])]"

definition marshal_certificateRequestTLS13 ::
  "'b builder \<Rightarrow> certificateRequestMsgTLS13 \<Rightarrow> (bytes \<times> certificateRequestMsgTLS13) option" where
  "marshal_certificateRequestTLS13 B m =
     (case cr13_raw m of
        Some raw \<Rightarrow> Some (raw, m)
      | None \<Rightarrow> map_option (\<lambda>raw. (raw, m\<lparr>cr13_raw := Some raw\<rparr>))
          (marshal_body B typeCertificateRequest
             (steps [b_uint B 1 0, lp B 2 (steps (certificateRequestTLS13_extensions B m))])))"

definition certificateRequestTLS13_extension :: "reader \<Rightarrow> certificateRequestMsgTLS13 extension_reader" where
  "certificateRequestTLS13_extension R e d rest m =
     (if e = extensionStatusRequest then Some (m\<lparr>cr13_ocspStapling := True\<rparr>, d)
      else if e = extensionSCT then Some (m\<lparr>cr13_scts := True\<rparr>, d)
      else if e = extensionSignatureAlgorithms then do {
        (algs, d) \<leftarrow> read_list16 R 2 d (cr13_supportedSignatureAlgorithms m);
        Some (m\<lparr>cr13_supportedSignatureAlgorithms := algs\<rparr>, d)
      }
      else if e = extensionSignatureAlgorithmsCert then do {
        (algs, d) \<leftarrow> read_list16 R 2 d (cr13_supportedSignatureAlgorithmsCert m);
        Some (m\<lparr>cr13_supportedSignatureAlgorithmsCert := algs\<rparr>, d)
      }
      else if e = extensionCertificateAuthorities then do {
        (cas, d) \<leftarrow> read_strings R d (cr13_certificateAuthorities m);
        Some (m\<lparr>cr13_certificateAuthorities := cas\<rparr>, d)
      }
      else Some (m, []))"

definition unmarshal_certificateRequestTLS13 :: "reader \<Rightarrow> bytes \<Rightarrow> certificateRequestMsgTLS13 option" where
  "unmarshal_certificateRequestTLS13 R data =
     do {
       s \<leftarrow> r_skip R 4 data;
       (context, s) \<leftarrow> r_lp R 1 s;
       check (context = []);
       (extensions, s) \<leftarrow> r_lp R 2 s;
       check (s = []);
       read_extensions R (certificateRequestTLS13_extension R) extensions
         \<lparr>cr13_raw = Some data, cr13_ocspStapling = False, cr13_scts = False,
          cr13_supportedSignatureAlgorithms = [], cr13_supportedSignatureAlgorithmsCert = [],
          cr13_certificateAuthorities = []\<rparr>
     }"

record certificateRequestMsg =
  cr_raw :: "bytes option"
  cr_hasSignatureAlgorithm :: bool
  cr_certificateTypes :: bytes
  cr_supportedSignatureAlgorithms :: "u16 list"
  cr_certificateAuthorities :: "bytes list"

definition certificateRequest_body :: "certificateRequestMsg \<Rightarrow> bytes" where
  "certificateRequest_body m =
     (let casLength = sum_list (map (\<lambda>ca. 2 + length ca) (cr_certificateAuthorities m));
          n = length (cr_supportedSignatureAlgorithms m) * 2
      in be_enc 1 (length (cr_certificateTypes m)) @ cr_certificateTypes m @
         (if cr_hasSignatureAlgorithm m
          then be_enc 2 n @ concat (map (\<lambda>sigAlgo. be_enc 2 (unat sigAlgo)) (cr_supportedSignatureAlgorithms m))
          else []) @
         be_enc 2 casLength @ concat (map (\<lambda>ca. be_enc 2 (length ca) @ ca) (cr_certificateAuthorities m)))"

definition marshal_certificateRequest :: "certificateRequestMsg \<Rightarrow> bytes \<times> certificateRequestMsg" where
  "marshal_certificateRequest m =
     (case cr_raw m of
        Some raw \<Rightarrow> (raw, m)
      | None \<Rightarrow> (let x = message_bytes typeCertificateRequest (certificateRequest_body m)
                in (x, m\<lparr>cr_raw := Some x\<rparr>)))"

text \<open>The list of signature algorithms: two bytes each, from data known to be long enough.\<close>

primrec take_u16s :: "nat \<Rightarrow> bytes \<Rightarrow> u16 list \<times> bytes" where
  "take_u16s 0 data = ([], data)"
| "take_u16s (Suc n) data =
     (let (xs, rest) = take_u16s n (drop 2 data) in (word_of_nat (be_dec (take 2 data)) # xs, rest))"

definition read_sigAlgs :: "bytes \<Rightarrow> (u16 list \<times> bytes) option" where
  "read_sigAlgs data =
     (if length data < 2 then None
      else
        let sigAndHashLen = be_dec (take 2 data); data = drop 2 data
        in if odd sigAndHashLen then None
           else if length data < sigAndHashLen then None
           else Some (take_u16s (sigAndHashLen div 2) data))"

fun read_authorities :: "bytes \<Rightarrow> bytes list option" where
  "read_authorities cas =
     (if cas = [] then Some []
      else if length cas < 2 then None
      else
        let caLen = be_dec (take 2 cas); rest = drop 2 cas
        in if length rest < caLen then None
           else map_option (\<lambda>xs. take caLen rest # xs) (read_authorities (drop caLen rest)))"

declare read_authorities.simps [simp del]

definition unmarshal_certificateRequest :: "bool \<Rightarrow> bytes \<Rightarrow> certificateRequestMsg option" where
  "unmarshal_certificateRequest hasSignatureAlgorithm data =
     (if length data < 5 then None
      else if length data - 4 \<noteq> be_dec (take 3 (drop 1 data)) then None
      else
        let numCertTypes = unat (data ! 4); d = drop 5 data
        in if numCertTypes = 0 \<or> length d \<le> numCertTypes then None
           else do {
             (algs, d) \<leftarrow> (if hasSignatureAlgorithm then read_sigAlgs (drop numCertTypes d)
                          else Some ([], drop numCertTypes d));
             check (\<not> length d < 2);
             let casLength = be_dec (take 2 d);
             let d2 = drop 2 d;
             check (\<not> length d2 < casLength);
             cas \<leftarrow> read_authorities (take casLength d2);
             check (length (drop casLength d2) = 0);
             Some \<lparr>cr_raw = Some data, cr_hasSignatureAlgorithm = hasSignatureAlgorithm,
                   cr_certificateTypes = take numCertTypes (drop 5 data),
                   cr_supportedSignatureAlgorithms = algs, cr_certificateAuthorities = cas\<rparr>
           })"

section \<open>Certificate\<close>

record certificateMsg =
  cm_raw :: "bytes option"
  cm_certificates :: "bytes list"

definition marshal_certificate :: "certificateMsg \<Rightarrow> bytes \<times> certificateMsg" where
  "marshal_certificate m =
     (case cm_raw m of
        Some raw \<Rightarrow> (raw, m)
      | None \<Rightarrow>
          (let i = sum_list (map length (cm_certificates m));
               len = 3 + 3 * length (cm_certificates m) + i;
               x = [typeCertificate] @ be_enc 3 len @ be_enc 3 (len - 3) @
                   concat (map (\<lambda>slice. be_enc 3 (length slice) @ slice) (cm_certificates m))
           in (x, m\<lparr>cm_raw := Some x\<rparr>)))"

text \<open>The first loop counts the certificates, the second cuts them out.\<close>

function count_certs :: "nat \<Rightarrow> bytes \<Rightarrow> nat option" where
  "count_certs certsLen d =
     (if certsLen > 0 then
        if length d < 4 then None
        else let certLen = be_dec (take 3 d)
             in if length d < 3 + certLen then None
                else map_option Suc (count_certs (certsLen - (3 + certLen)) (drop (3 + certLen) d))
      else Some 0)"
  by pat_completeness auto
termination by (relation "measure (\<lambda>(certsLen, d). length d)") auto

declare count_certs.simps [simp del]

primrec cut_certs :: "nat \<Rightarrow> bytes \<Rightarrow> bytes list" where
  "cut_certs 0 d = []"
| "cut_certs (Suc n) d =
     (let certLen = be_dec (take 3 d) in take certLen (drop 3 d) # cut_certs n (drop (3 + certLen) d))"

definition unmarshal_certificate :: "bytes \<Rightarrow> certificateMsg option" where
  "unmarshal_certificate data =
     (if length data < 7 then None
      else
        let certsLen = be_dec (take 3 (drop 4 data))
        in if length data \<noteq> certsLen + 7 then None
           else map_option (\<lambda>numCerts. \<lparr>cm_raw = Some data, cm_certificates = cut_certs numCerts (drop 7 data)\<rparr>)
                  (count_certs certsLen (drop 7 data)))"

text \<open>The part of a \<open>Certificate\<close> that is sent. A nil staple differs from an empty one.\<close>

record Certificate =
  crt_Certificate :: "bytes list"
  crt_OCSPStaple :: "bytes option"
  crt_SCTs :: "bytes list option"

record certificateMsgTLS13 =
  c13_raw :: "bytes option"
  c13_certificate :: Certificate
  c13_ocspStapling :: bool
  c13_scts :: bool

definition leaf_extensions :: "'b builder \<Rightarrow> Certificate \<Rightarrow> ('b \<Rightarrow> 'b) list" where
  "leaf_extensions B c = [
     case crt_OCSPStaple c of
       None \<Rightarrow> id
     | Some staple \<Rightarrow> steps [
         b_uint B 2 (unat extensionStatusRequest),
         lp B 2 (steps [b_uint B 1 (unat statusTypeOCSP), lp B 3 (b_bytes B staple)])],
     case crt_SCTs c of
       None \<Rightarrow> id
     | Some scts \<Rightarrow> steps [
         b_uint B 2 (unat extensionSCT),
         lp B 2 (lp B 2 (steps (map (\<lambda>sct. lp B 2 (b_bytes B sct)) scts)))]]"

definition marshalCertificate :: "'b builder \<Rightarrow> Certificate \<Rightarrow> 'b \<Rightarrow> 'b" where
  "marshalCertificate B c =
     lp B 3 (steps (map (\<lambda>(i, cert). steps [
       lp B 3 (b_bytes B cert),
       lp B 2 (if i > 0 then steps [] else steps (leaf_extensions B c))]) (enumerate 0 (crt_Certificate c))))"

definition marshal_certificateTLS13 :: "'b builder \<Rightarrow> certificateMsgTLS13 \<Rightarrow> (bytes \<times> certificateMsgTLS13) option" where
  "marshal_certificateTLS13 B m =
     (case c13_raw m of
        Some raw \<Rightarrow> Some (raw, m)
      | None \<Rightarrow>
          (let c1 = (if \<not> c13_ocspStapling m then (c13_certificate m)\<lparr>crt_OCSPStaple := None\<rparr> else c13_certificate m);
               c2 = (if \<not> c13_scts m then c1\<lparr>crt_SCTs := None\<rparr> else c1)
           in map_option (\<lambda>raw. (raw, m\<lparr>c13_raw := Some raw\<rparr>))
                (marshal_body B typeCertificate (steps [b_uint B 1 0, marshalCertificate B c2]))))"

text \<open>Extensions of certificates after the first are read and ignored.\<close>

definition certificate_extension :: "reader \<Rightarrow> Certificate extension_reader" where
  "certificate_extension R e d rest c =
     (if length (crt_Certificate c) > 1 then Some (c, [])
      else if e = extensionStatusRequest then do {
        (statusType, d) \<leftarrow> read_u8 R d;
        check (statusType = statusTypeOCSP);
        (staple, d) \<leftarrow> read_nonempty R 3 d;
        Some (c\<lparr>crt_OCSPStaple := Some staple\<rparr>, d)
      }
      else if e = extensionSCT then do {
        (scts, d) \<leftarrow> read_strings R d (case crt_SCTs c of None \<Rightarrow> [] | Some l \<Rightarrow> l);
        Some (c\<lparr>crt_SCTs := Some scts\<rparr>, d)
      }
      else Some (c, []))"

definition read_certificate :: "reader \<Rightarrow> bytes \<Rightarrow> Certificate \<Rightarrow> (Certificate \<times> bytes) option" where
  "read_certificate R certList c =
     do {
       (cert, certList) \<leftarrow> r_lp R 3 certList;
       (extensions, certList) \<leftarrow> r_lp R 2 certList;
       c \<leftarrow> read_extensions R (certificate_extension R) extensions
              (c\<lparr>crt_Certificate := crt_Certificate c @ [cert]\<rparr>);
       Some (c, certList)
     }"

definition unmarshalCertificate :: "reader \<Rightarrow> bytes \<Rightarrow> (Certificate \<times> bytes) option" where
  "unmarshalCertificate R s =
     do {
       (certList, s) \<leftarrow> r_lp R 3 s;
       c \<leftarrow> while_nonempty (read_certificate R) certList
              \<lparr>crt_Certificate = [], crt_OCSPStaple = None, crt_SCTs = None\<rparr>;
       Some (c, s)
     }"

definition unmarshal_certificateTLS13 :: "reader \<Rightarrow> bytes \<Rightarrow> certificateMsgTLS13 option" where
  "unmarshal_certificateTLS13 R data =
     do {
       s \<leftarrow> r_skip R 4 data;
       (context, s) \<leftarrow> r_lp R 1 s;
       check (context = []);
       (c, s) \<leftarrow> unmarshalCertificate R s;
       check (s = []);
       Some \<lparr>c13_raw = Some data, c13_certificate = c, c13_ocspStapling = (crt_OCSPStaple c \<noteq> None),
             c13_scts = (crt_SCTs c \<noteq> None)\<rparr>
     }"

section \<open>The messages without structure\<close>

record serverKeyExchangeMsg =
  ske_raw :: "bytes option"
  ske_key :: bytes

definition marshal_serverKeyExchange :: "serverKeyExchangeMsg \<Rightarrow> bytes \<times> serverKeyExchangeMsg" where
  "marshal_serverKeyExchange m =
     (case ske_raw m of
        Some raw \<Rightarrow> (raw, m)
      | None \<Rightarrow> (let x = message_bytes typeServerKeyExchange (ske_key m) in (x, m\<lparr>ske_raw := Some x\<rparr>)))"

definition unmarshal_serverKeyExchange :: "bytes \<Rightarrow> serverKeyExchangeMsg option" where
  "unmarshal_serverKeyExchange data =
     (if length data < 4 then None else Some \<lparr>ske_raw = Some data, ske_key = drop 4 data\<rparr>)"

record certificateStatusMsg =
  cs_raw :: "bytes option"
  cs_response :: bytes

definition marshal_certificateStatus :: "'b builder \<Rightarrow> certificateStatusMsg \<Rightarrow> (bytes \<times> certificateStatusMsg) option" where
  "marshal_certificateStatus B m =
     (case cs_raw m of
        Some raw \<Rightarrow> Some (raw, m)
      | None \<Rightarrow> map_option (\<lambda>raw. (raw, m\<lparr>cs_raw := Some raw\<rparr>))
          (marshal_body B typeCertificateStatus
             (steps [b_uint B 1 (unat statusTypeOCSP), lp B 3 (b_bytes B (cs_response m))])))"

definition unmarshal_certificateStatus :: "reader \<Rightarrow> bytes \<Rightarrow> certificateStatusMsg option" where
  "unmarshal_certificateStatus R data =
     do {
       s \<leftarrow> r_skip R 4 data;
       (statusType, s) \<leftarrow> read_u8 R s;
       check (statusType = statusTypeOCSP);
       (response, s) \<leftarrow> read_nonempty R 3 s;
       check (s = []);
       Some \<lparr>cs_raw = Some data, cs_response = response\<rparr>
     }"

definition marshal_serverHelloDone :: bytes where
  "marshal_serverHelloDone = [typeServerHelloDone, 0, 0, 0]"

definition unmarshal_serverHelloDone :: "bytes \<Rightarrow> bool" where
  "unmarshal_serverHelloDone data \<longleftrightarrow> length data = 4"

record clientKeyExchangeMsg =
  cke_raw :: "bytes option"
  cke_ciphertext :: bytes

definition marshal_clientKeyExchange :: "clientKeyExchangeMsg \<Rightarrow> bytes \<times> clientKeyExchangeMsg" where
  "marshal_clientKeyExchange m =
     (case cke_raw m of
        Some raw \<Rightarrow> (raw, m)
      | None \<Rightarrow> (let x = message_bytes typeClientKeyExchange (cke_ciphertext m) in (x, m\<lparr>cke_raw := Some x\<rparr>)))"

definition unmarshal_clientKeyExchange :: "bytes \<Rightarrow> clientKeyExchangeMsg option" where
  "unmarshal_clientKeyExchange data =
     (if length data < 4 then None
      else if be_dec (take 3 (drop 1 data)) \<noteq> length data - 4 then None
      else Some \<lparr>cke_raw = Some data, cke_ciphertext = drop 4 data\<rparr>)"

record finishedMsg =
  fin_raw :: "bytes option"
  fin_verifyData :: bytes

definition marshal_finished :: "'b builder \<Rightarrow> finishedMsg \<Rightarrow> (bytes \<times> finishedMsg) option" where
  "marshal_finished B m =
     (case fin_raw m of
        Some raw \<Rightarrow> Some (raw, m)
      | None \<Rightarrow> map_option (\<lambda>raw. (raw, m\<lparr>fin_raw := Some raw\<rparr>))
          (marshal_body B typeFinished (b_bytes B (fin_verifyData m))))"

definition unmarshal_finished :: "reader \<Rightarrow> bytes \<Rightarrow> finishedMsg option" where
  "unmarshal_finished R data =
     do {
       s \<leftarrow> r_skip R 1 data;
       (verifyData, s) \<leftarrow> r_lp R 3 s;
       check (s = []);
       Some \<lparr>fin_raw = Some data, fin_verifyData = verifyData\<rparr>
     }"

record certificateVerifyMsg =
  cv_raw :: "bytes option"
  cv_hasSignatureAlgorithm :: bool
  cv_signatureAlgorithm :: u16
  cv_signature :: bytes

definition marshal_certificateVerify :: "'b builder \<Rightarrow> certificateVerifyMsg \<Rightarrow> (bytes \<times> certificateVerifyMsg) option" where
  "marshal_certificateVerify B m =
     (case cv_raw m of
        Some raw \<Rightarrow> Some (raw, m)
      | None \<Rightarrow> map_option (\<lambda>raw. (raw, m\<lparr>cv_raw := Some raw\<rparr>))
          (marshal_body B typeCertificateVerify (steps [
             guarded (cv_hasSignatureAlgorithm m) (b_uint B 2 (unat (cv_signatureAlgorithm m))),
             lp B 2 (b_bytes B (cv_signature m))])))"

definition unmarshal_certificateVerify :: "reader \<Rightarrow> bool \<Rightarrow> bytes \<Rightarrow> certificateVerifyMsg option" where
  "unmarshal_certificateVerify R hasSignatureAlgorithm data =
     do {
       s \<leftarrow> r_skip R 4 data;
       (alg, s) \<leftarrow> (if hasSignatureAlgorithm then read_u16 R s else Some (0, s));
       (signature, s) \<leftarrow> r_lp R 2 s;
       check (s = []);
       Some \<lparr>cv_raw = Some data, cv_hasSignatureAlgorithm = hasSignatureAlgorithm, cv_signatureAlgorithm = alg,
             cv_signature = signature\<rparr>
     }"

definition marshal_helloRequest :: bytes where
  "marshal_helloRequest = [typeHelloRequest, 0, 0, 0]"

definition unmarshal_helloRequest :: "bytes \<Rightarrow> bool" where
  "unmarshal_helloRequest data \<longleftrightarrow> length data = 4"

end
