(* ===== verification/ExtensionLemmas.thy ===== *)
theory ExtensionLemmas
  imports Hello
begin

text \<open>
  Extension blocks: what a sequence of guarded extensions writes, and what the reading loop makes
  of it. A block is described by a list of entries: whether the extension is present, its number,
  and its data.
\<close>

section \<open>Elements of lists\<close>

lemma be_enc_2_u16: "plain_uint 2 (be_enc 2 (unat (x :: u16)) @ r) = Some (unat x, r)"
  by (rule plain_uint_append) (use unsigned_less [where ?'a = nat, of x] in simp)

lemma read_u16_enc [simp]: "read_u16 plain_reader (be_enc 2 (unat x) @ r) = Some (x, r)"
  by (simp add: read_u16_def plain_reader_def be_enc_2_u16)

lemma read_u16_exact [simp]: "read_u16 plain_reader (be_enc 2 (unat x)) = Some (x, [])"
  using read_u16_enc [of x "[]"] by simp

lemma read_u32_enc [simp]: "read_u32 plain_reader (be_enc 4 (unat x) @ r) = Some (x, r)"
proof -
  have "unat x < 256 ^ 4" using unsigned_less [where ?'a = nat, of x] by simp
  then show ?thesis by (simp add: read_u32_def plain_reader_def del: power_numeral)
qed

lemma read_u8_enc [simp]: "read_u8 plain_reader (b # r) = Some (b, r)"
  by (simp add: read_u8_def plain_reader_def plain_uint_def split_at_def)

lemma plain_fields [simp]:
  "r_skip plain_reader n s = map_option snd (split_at n s)" "r_uint plain_reader = plain_uint"
  "r_bytes plain_reader = split_at" "r_lp plain_reader = plain_lp"
  by (simp_all add: plain_reader_def)

lemma read_u16_consumes: "read_u16 plain_reader s = Some (x, r) \<Longrightarrow> length r < length s"
  by (auto simp: read_u16_def dest: plain_uint_consumes)

lemma read_nonempty_consumes: "read_nonempty plain_reader k s = Some (x, r) \<Longrightarrow> length r < length s"
  by (auto simp: read_nonempty_def bind_eq_Some_conv dest!: plain_lp_consumes)

interpretation u16s: codec "read_u16 plain_reader" "\<lambda>x. be_enc 2 (unat x)" "\<lambda>_. True"
  by unfold_locales (auto dest: read_u16_consumes)

definition lps :: "nat \<Rightarrow> bytes \<Rightarrow> bytes" where
  "lps k x = be_enc k (length x) @ x"

lemma plain_lp_lps [simp]: "length x < 256 ^ k \<Longrightarrow> plain_lp k (lps k x @ r) = Some (x, r)"
  "length x < 256 ^ k \<Longrightarrow> plain_lp k (lps k x) = Some (x, [])"
  by (simp_all add: lps_def)

lemma lps_not_Nil [simp]: "0 < k \<Longrightarrow> lps k x \<noteq> []"
  by (simp add: lps_def)

interpretation strings: codec "read_nonempty plain_reader k" "lps k" "\<lambda>x. x \<noteq> [] \<and> length x < 256 ^ k" for k :: nat
proof unfold_locales
  show "read_nonempty plain_reader k (lps k x @ r) = Some (x, r)" if "x \<noteq> [] \<and> length x < 256 ^ k" for x r
    using that by (simp add: read_nonempty_def)
qed (rule read_nonempty_consumes)

definition keyShare_bytes :: "keyShare \<Rightarrow> bytes" where
  "keyShare_bytes ks = be_enc 2 (unat (ks_group ks)) @ lps 2 (ks_data ks)"

interpretation keyShares: codec "read_keyShare plain_reader" keyShare_bytes
  "\<lambda>ks. ks_data ks \<noteq> [] \<and> length (ks_data ks) < 65536"
proof unfold_locales
  fix x :: keyShare and r
  assume "ks_data x \<noteq> [] \<and> length (ks_data x) < 65536"
  then show "read_keyShare plain_reader (keyShare_bytes x @ r) = Some (x, r)"
    using strings.parse_enc [of "ks_data x" 2 r] by (simp add: read_keyShare_def keyShare_bytes_def)
next
  fix s x r
  assume "read_keyShare plain_reader s = Some (x, r)"
  then show "length r < length s"
    by (auto simp: read_keyShare_def bind_eq_Some_conv dest!: read_u16_consumes read_nonempty_consumes)
qed

definition pskIdentity_bytes :: "pskIdentity \<Rightarrow> bytes" where
  "pskIdentity_bytes p = lps 2 (psk_label p) @ be_enc 4 (unat (psk_age p))"

interpretation pskIdentities: codec "read_pskIdentity plain_reader" pskIdentity_bytes
  "\<lambda>p. psk_label p \<noteq> [] \<and> length (psk_label p) < 65536"
proof unfold_locales
  fix x :: pskIdentity and r
  assume "psk_label x \<noteq> [] \<and> length (psk_label x) < 65536"
  then show "read_pskIdentity plain_reader (pskIdentity_bytes x @ r) = Some (x, r)"
    by (simp add: read_pskIdentity_def pskIdentity_bytes_def)
next
  fix s x r
  assume "read_pskIdentity plain_reader s = Some (x, r)"
  then show "length r < length s"
    by (auto simp: read_pskIdentity_def read_u32_def bind_eq_Some_conv dest!: plain_lp_consumes plain_uint_consumes)
qed

section \<open>Blocks\<close>

type_synonym entry = "bool \<times> u16 \<times> bytes option"

fun entry_bytes :: "entry \<Rightarrow> bytes option" where
  "entry_bytes (c, e, y) = (if c then cat (Some (be_enc 2 (unat e))) (lpb 2 y) else Some [])"

primrec block_bytes :: "entry list \<Rightarrow> bytes option" where
  "block_bytes [] = Some []"
| "block_bytes (x # xs) = cat (entry_bytes x) (block_bytes xs)"

lemma writes_entry:
  assumes "builder_ok B" and "writes B f y"
  shows "writes B (guarded c (steps [b_uint B 2 (unat e), lp B 2 f])) (entry_bytes (c, e, y))"
proof -
  have "writes B (steps [b_uint B 2 (unat e), lp B 2 f]) (cat (Some (be_enc 2 (unat e))) (cat (lpb 2 y) (Some [])))"
    by (intro writes_rules assms)
  from writes_guarded [OF this, of c] show ?thesis by (cases c) simp_all
qed

lemma writes_empty_entry:
  assumes "builder_ok B"
  shows "writes B (guarded c (steps [b_uint B 2 (unat e), b_uint B 2 0])) (entry_bytes (c, e, Some []))"
proof -
  have "writes B (steps [b_uint B 2 (unat e), b_uint B 2 0]) (cat (Some (be_enc 2 (unat e))) (cat (Some (be_enc 2 0)) (Some [])))"
    by (intro writes_rules assms)
  from writes_guarded [OF this, of c] show ?thesis by (cases c) (simp_all add: lpb_def)
qed

lemma writes_block:
  "list_all2 (\<lambda>f x. writes B f (entry_bytes x)) fs xs \<Longrightarrow> writes B (steps fs) (block_bytes xs)"
proof (induction fs arbitrary: xs)
  case (Cons f fs)
  then obtain x ys where "xs = x # ys" "writes B f (entry_bytes x)" "writes B (steps fs) (block_bytes ys)"
    by (auto simp: list_all2_Cons1)
  then show ?case using writes_steps_Cons by simp
qed (simp add: writes_steps_Nil)

text \<open>What the loop does with a block: the present entries, one after the other.\<close>

fun run_block :: "'m extension_reader \<Rightarrow> entry list \<Rightarrow> 'm \<Rightarrow> 'm option" where
  "run_block ext [] m = Some m"
| "run_block ext ((c, e, y) # es) m =
     (if c then
        (case ext e (the y) (the (block_bytes es)) m of
           Some (m', d) \<Rightarrow> if d = [] then run_block ext es m' else None
         | None \<Rightarrow> None)
      else run_block ext es m)"

lemma consumes_extension: "consumes (read_extension plain_reader ext)"
  by (auto simp: consumes_def read_extension_def bind_eq_Some_conv dest!: read_u16_consumes plain_lp_consumes)

lemma read_extensions_block:
  "block_bytes es = Some bs \<Longrightarrow> read_extensions plain_reader ext bs m = run_block ext es m"
proof (induction es arbitrary: bs m)
  case Nil
  then show ?case by (simp add: read_extensions_def while_nonempty_def)
next
  case (Cons x es)
  obtain c e y where x: "x = (c, e, y)" by (cases x)
  show ?case
  proof (cases c)
    case False
    with Cons x show ?thesis by simp
  next
    case True
    with Cons.prems x obtain d r where d: "y = Some d" "length d < 65536" "block_bytes es = Some r"
      "bs = be_enc 2 (unat e) @ lps 2 d @ r"
      by (auto simp: cat_eq_Some lpb_eq_Some lps_def)
    have "bs \<noteq> []" using d(4) by (simp add: lps_def)
    moreover have "read_extension plain_reader ext bs m = Option.bind (ext e d r m) (\<lambda>(m', d'). Option.bind (check (d' = [])) (\<lambda>_. Some (m', r)))"
      using d(2) by (simp add: read_extension_def d(4))
    ultimately have "read_extensions plain_reader ext bs m =
        (case ext e d r m of Some (m', d') \<Rightarrow> if d' = [] then read_extensions plain_reader ext r m' else None | None \<Rightarrow> None)"
      unfolding read_extensions_def while_nonempty_unfold [OF consumes_extension, of ext bs m]
      by (simp add: check_def split: option.splits)
    with Cons.IH [OF d(3)] True x d show ?thesis by (auto split: option.splits)
  qed
qed

text \<open>One entry: its data sets the field, or it is absent and the field already has its value.\<close>

lemma run_entry:
  assumes "c \<Longrightarrow> ext e (the y) (the (block_bytes es)) m = Some (m', [])" and "\<not> c \<Longrightarrow> m' = m"
  shows "run_block ext ((c, e, y) # es) m = run_block ext es m'"
  using assms by simp

definition entry_ok :: "entry \<Rightarrow> bool" where
  "entry_ok x \<longleftrightarrow> (case x of (c, e, y) \<Rightarrow> c \<longrightarrow> (\<exists>d. y = Some d \<and> length d < 65536))"

lemma block_bytes_ok: "block_bytes es = Some bs \<Longrightarrow> list_all entry_ok es"
proof (induction es arbitrary: bs)
  case (Cons x es)
  then show ?case by (cases x) (auto simp: cat_eq_Some lpb_eq_Some entry_ok_def split: if_splits)
qed simp

lemma block_bytes_Nil: "block_bytes es = Some [] \<Longrightarrow> run_block ext es m = Some m"
proof (induction es)
  case (Cons x es)
  then show ?case by (cases x) (auto simp: cat_eq_Some split: if_splits)
qed simp

section \<open>Hello messages\<close>

text \<open>A block shorter than one extension is empty, and is left out.\<close>

definition hello_bytes :: "byte \<Rightarrow> bytes option \<Rightarrow> entry list \<Rightarrow> bytes option" where
  "hello_bytes t body es =
     cat (Some [t]) (lpb 3 (cat body
       (case block_bytes es of
          Some [] \<Rightarrow> Some []
        | y \<Rightarrow> lpb 2 y)))"

lemma marshal_hello_bytes:
  assumes B: "builder_ok B" and body: "writes B body y" and exts: "writes B exts (block_bytes es)"
  shows "marshal_hello B t body exts = hello_bytes t y es"
proof -
  let ?b = "body (b_open B 3 (b_uint B 1 (unat t) (b_new B)))"
  have t: "be_enc 1 (unat t) = [t]" by simp
  have r0: "b_result B (b_uint B 1 (unat t) (b_new B)) = Some [t]" using B t by (simp add: builder_ok_def)
  have rb: "b_result B ?b = cat (Some (replicate 3 0)) y" using B body r0 by (simp add: builder_ok_def writes_def)
  have rc: "b_result B (exts (b_open B 2 ?b)) = cat (map_option (\<lambda>_. replicate 2 0) (b_result B ?b)) (block_bytes es)"
    using B exts by (simp add: builder_ok_def writes_def)
  have cl: "b_result B (b_close B k b c) = close_prefix k (b_result B b) (b_result B c)" for k b c
    using B by (simp add: builder_ok_def)
  show ?thesis
  proof (cases y; cases "block_bytes es")
    fix yb z
    assume yz: "y = Some yb" "block_bytes es = Some z"
    have "marshal_hello B t body exts =
      (if z = [] then b_result B (b_close B 3 (b_uint B 1 (unat t) (b_new B)) ?b)
       else b_result B (b_close B 3 (b_uint B 1 (unat t) (b_new B)) (b_close B 2 ?b (exts (b_open B 2 ?b)))))"
      using rb rc yz by (simp add: marshal_hello_def omit_empty_def Let_def)
    also have "\<dots> = hello_bytes t y es"
      using rb rc r0 yz
      by (auto simp: cl hello_bytes_def close_prefix_def lpb_def split: list.splits option.splits)
    finally show ?thesis .
  next
    assume "y = None" "block_bytes es = None"
    with rb rc show ?thesis by (simp add: marshal_hello_def omit_empty_def Let_def hello_bytes_def lpb_def)
  next
    fix z assume "y = None" "block_bytes es = Some z"
    with rb rc show ?thesis by (simp add: marshal_hello_def omit_empty_def Let_def hello_bytes_def lpb_def)
  next
    fix yb assume "y = Some yb" "block_bytes es = None"
    with rb rc show ?thesis by (simp add: marshal_hello_def omit_empty_def Let_def hello_bytes_def lpb_def)
  qed
qed

end
