(* ===== verification/HelloLemmas.thy ===== *)
theory HelloLemmas
  imports ExtensionLemmas
begin

text \<open>
  Hello messages: what \<open>marshal\<close> returns, as an explicit layout, and the round trip with \<open>unmarshal\<close>.
\<close>

section \<open>The layout of a ClientHello\<close>

abbreviation u16s_bytes :: "u16 list \<Rightarrow> bytes" where
  "u16s_bytes xs \<equiv> concat (map (\<lambda>x. be_enc 2 (unat x)) xs)"

text \<open>Elements whose length may be too big: the sequence is an error then.\<close>

definition cats :: "('a \<Rightarrow> bytes option) \<Rightarrow> 'a list \<Rightarrow> bytes option" where
  "cats e xs = foldr (\<lambda>x. cat (e x)) xs (Some [])"

lemma writes_cats:
  "(\<And>x. writes B (f x) (e x)) \<Longrightarrow> writes B (steps (map f xs)) (cats e xs)"
proof (induction xs)
  case (Cons x xs)
  with writes_steps_Cons [of B "f x" "e x" "map f xs" "cats e xs"] show ?case by (simp add: cats_def)
qed (simp add: cats_def writes_steps_Nil)

lemma cats_eq_Some:
  "cats e xs = Some z \<longleftrightarrow> (\<forall>x \<in> set xs. e x \<noteq> None) \<and> z = concat (map (\<lambda>x. the (e x)) xs)"
  by (induction xs arbitrary: z) (auto simp: cats_def cat_eq_Some)

lemma cats_lpb:
  assumes "cats (\<lambda>x. lpb k (Some (g x))) xs = Some z"
  shows "z = concat (map (\<lambda>x. lps k (g x)) xs)" and "\<forall>x \<in> set xs. length (g x) < 256 ^ k"
  using assms by (auto simp: cats_eq_Some lpb_def lps_def cong: map_cong split: if_splits)

definition clientHello_entries :: "clientHelloMsg \<Rightarrow> entry list" where
  "clientHello_entries m = [
     (length (ch_serverName m) > 0, extensionServerName,
       lpb 2 (cat (Some (be_enc 1 0)) (lpb 2 (Some (ch_serverName m))))),
     (ch_ocspStapling m, extensionStatusRequest, Some (be_enc 1 1 @ be_enc 2 0 @ be_enc 2 0)),
     (length (ch_supportedCurves m) > 0, extensionSupportedCurves, lpb 2 (Some (u16s_bytes (ch_supportedCurves m)))),
     (length (ch_supportedPoints m) > 0, extensionSupportedPoints, lpb 1 (Some (ch_supportedPoints m))),
     (ch_ticketSupported m, extensionSessionTicket, Some (ch_sessionTicket m)),
     (length (ch_supportedSignatureAlgorithms m) > 0, extensionSignatureAlgorithms,
       lpb 2 (Some (u16s_bytes (ch_supportedSignatureAlgorithms m)))),
     (length (ch_supportedSignatureAlgorithmsCert m) > 0, extensionSignatureAlgorithmsCert,
       lpb 2 (Some (u16s_bytes (ch_supportedSignatureAlgorithmsCert m)))),
     (ch_secureRenegotiationSupported m, extensionRenegotiationInfo, lpb 1 (Some (ch_secureRenegotiation m))),
     (length (ch_alpnProtocols m) > 0, extensionALPN, lpb 2 (cats (\<lambda>x. lpb 1 (Some x)) (ch_alpnProtocols m))),
     (ch_scts m, extensionSCT, Some []),
     (length (ch_supportedVersions m) > 0, extensionSupportedVersions, lpb 1 (Some (u16s_bytes (ch_supportedVersions m)))),
     (length (ch_cookie m) > 0, extensionCookie, lpb 2 (Some (ch_cookie m))),
     (length (ch_keyShares m) > 0, extensionKeyShare,
       lpb 2 (cats (\<lambda>ks. cat (Some (be_enc 2 (unat (ks_group ks)))) (lpb 2 (Some (ks_data ks)))) (ch_keyShares m))),
     (ch_earlyData m, extensionEarlyData, Some []),
     (length (ch_pskModes m) > 0, extensionPSKModes, lpb 1 (Some (ch_pskModes m))),
     (length (ch_pskIdentities m) > 0, extensionPreSharedKey,
       cat (lpb 2 (cats (\<lambda>psk. cat (lpb 2 (Some (psk_label psk))) (Some (be_enc 4 (unat (psk_age psk))))) (ch_pskIdentities m)))
         (lpb 2 (cats (\<lambda>x. lpb 1 (Some x)) (ch_pskBinders m))))]"

lemma writes_u16s [writes_rules]: "builder_ok B \<Longrightarrow> writes B (write_u16s B xs) (Some (u16s_bytes xs))"
  unfolding write_u16s_def by (intro writes_map writes_uint)

lemma writes_two: "writes B f x \<Longrightarrow> writes B g y \<Longrightarrow> writes B (steps [f, g]) (cat x y)"
  using writes_steps_Cons [OF _ writes_steps_Cons [OF _ writes_steps_Nil], of B f x g y] by simp

lemma writes_ocsp: "builder_ok B \<Longrightarrow>
    writes B (steps [b_uint B 1 1, b_uint B 2 0, b_uint B 2 0]) (Some (be_enc 1 1 @ be_enc 2 0 @ be_enc 2 0))"
proof -
  assume B: "builder_ok B"
  have "writes B (steps [b_uint B 1 1, b_uint B 2 0, b_uint B 2 0])
      (cat (Some (be_enc 1 1)) (cat (Some (be_enc 2 0)) (cat (Some (be_enc 2 0)) (Some []))))"
    by (intro writes_rules B)
  then show ?thesis by simp
qed

lemma writes_clientHello_extensions:
  assumes B: "builder_ok B"
  shows "writes B (steps (clientHello_extensions B m)) (block_bytes (clientHello_entries m))"
  unfolding clientHello_extensions_def clientHello_entries_def
  by (rule writes_block, simp only: list_all2_Cons list.rel_inject(1) simp_thms, intro conjI)
    (intro writes_entry writes_empty_entry writes_two writes_ocsp writes_cats writes_u16s writes_lp writes_bytes writes_uint B)+

section \<open>Reading the extensions back\<close>

abbreviation (input) "CE \<equiv> clientHello_extension plain_reader"

text \<open>Each entry sets its field to what was written, or leaves the initial value.\<close>

lemma entry_lpb: "entry_ok (c, e, lpb k y) \<Longrightarrow> c \<Longrightarrow> \<exists>d. y = Some d \<and> length d < 256 ^ k \<and> lpb k y = Some (lps k d)"
  by (auto simp: entry_ok_def lpb_eq_Some lps_def)

lemma last_dot: "while_nonempty (read_serverName plain_reader) (0 # lps 2 name) [] =
    (if name \<noteq> [] \<and> last name \<noteq> 46 \<and> length name < 65536 then Some name else while_nonempty (read_serverName plain_reader) (0 # lps 2 name) [])"
proof -
  have c: "consumes (read_serverName plain_reader)"
    by (auto simp: consumes_def read_serverName_def read_u8_def bind_eq_Some_conv split: if_splits
        dest!: plain_lp_consumes plain_uint_consumes)
  show ?thesis
    by (auto simp: while_nonempty_unfold [OF c] read_serverName_def)
qed

lemma run_serverName:
  assumes "entry_ok (length (ch_serverName m) > 0, extensionServerName, lpb 2 (cat (Some (be_enc 1 0)) (lpb 2 (Some (ch_serverName m)))))"
    and "ch_serverName m \<noteq> [] \<longrightarrow> last (ch_serverName m) \<noteq> 46" and "ch_serverName a = []"
  shows "run_block CE ((length (ch_serverName m) > 0, extensionServerName, lpb 2 (cat (Some (be_enc 1 0)) (lpb 2 (Some (ch_serverName m))))) # es) a =
    run_block CE es (a\<lparr>ch_serverName := ch_serverName m\<rparr>)"
proof (rule run_entry)
  assume c: "length (ch_serverName m) > 0"
  from entry_lpb [OF assms(1) this] obtain d where
    d: "cat (Some (be_enc 1 0)) (lpb 2 (Some (ch_serverName m))) = Some d" "length d < 65536"
      "lpb 2 (cat (Some (be_enc 1 0)) (lpb 2 (Some (ch_serverName m)))) = Some (lps 2 d)" by auto
  from d(1) have n: "length (ch_serverName m) < 65536" "d = 0 # lps 2 (ch_serverName m)"
    by (auto simp: cat_eq_Some lpb_eq_Some lps_def)
  then have "while_nonempty (read_serverName plain_reader) d [] = Some (ch_serverName m)"
    using c assms(2) by (subst n(2), subst last_dot) auto
  with d(2) n(2) assms(3) show "CE extensionServerName (the (lpb 2 (cat (Some (be_enc 1 0)) (lpb 2 (Some (ch_serverName m))))))
      (the (block_bytes es)) a = Some (a\<lparr>ch_serverName := ch_serverName m\<rparr>, [])"
    unfolding d(3) by (simp add: clientHello_extension_def extension_defs)
next
  assume "\<not> length (ch_serverName m) > 0"
  with assms(3) show "a\<lparr>ch_serverName := ch_serverName m\<rparr> = a" by (cases a) simp
qed

lemma run_ocsp:
  assumes "ch_ocspStapling a = False"
  shows "run_block CE ((ch_ocspStapling m, extensionStatusRequest, Some (be_enc 1 1 @ be_enc 2 0 @ be_enc 2 0)) # es) a =
    run_block CE es (a\<lparr>ch_ocspStapling := ch_ocspStapling m\<rparr>)"
proof (rule run_entry)
  have "plain_lp 2 (be_enc 2 0 @ r) = Some ([], r)" "plain_lp 2 (be_enc 2 0) = Some ([], [])" for r
    using plain_lp_append [of "[]" 2 r] plain_lp_append [of "[]" 2 "[]"] by simp_all
  moreover assume "ch_ocspStapling m"
  ultimately show "CE extensionStatusRequest (the (Some (be_enc 1 1 @ be_enc 2 0 @ be_enc 2 0))) (the (block_bytes es)) a =
      Some (a\<lparr>ch_ocspStapling := ch_ocspStapling m\<rparr>, [])"
    by (simp add: clientHello_extension_def extension_defs statusTypeOCSP_def del: be_enc.simps) (simp add: read_u8_def plain_uint_def split_at_def)
next
  assume "\<not> ch_ocspStapling m"
  with assms show "a\<lparr>ch_ocspStapling := ch_ocspStapling m\<rparr> = a" by (cases a) simp
qed

lemma u16s_bytes_Nil [simp]: "u16s_bytes xs = [] \<longleftrightarrow> xs = []"
  by (cases xs) simp_all

lemma read_list16_lps [simp]:
  "xs \<noteq> [] \<Longrightarrow> length (u16s_bytes xs) < 256 ^ k \<Longrightarrow> read_list16 plain_reader k (lps k (u16s_bytes xs)) acc = Some (acc @ xs, [])"
  using u16s.read_many_enc [of xs acc] by (simp add: read_list16_def list.pred_True del: length_concat)

lemma read_nonempty_lps [simp]:
  "x \<noteq> [] \<Longrightarrow> length x < 256 ^ k \<Longrightarrow> read_nonempty plain_reader k (lps k x) = Some (x, [])"
  by (simp add: read_nonempty_def)

lemma run_lp:
  assumes "entry_ok (c, e, lpb k (Some x))"
    and "c \<Longrightarrow> length x < 256 ^ k \<Longrightarrow> ext e (lps k x) (the (block_bytes es)) a = Some (a', [])" and "\<not> c \<Longrightarrow> a' = a"
  shows "run_block ext ((c, e, lpb k (Some x)) # es) a = run_block ext es a'"
  using assms by (intro run_entry) (auto dest!: entry_lpb)

lemma run_curves:
  assumes "entry_ok (length x > 0, extensionSupportedCurves, lpb 2 (Some (u16s_bytes x)))" and "ch_supportedCurves a = []"
  shows "run_block CE ((length x > 0, extensionSupportedCurves, lpb 2 (Some (u16s_bytes x))) # es) a = run_block CE es (a\<lparr>ch_supportedCurves := x\<rparr>)"
  by (rule run_lp [OF assms(1)])
    (use assms(2) in \<open>simp add: clientHello_extension_def extension_defs del: length_concat\<close>, use assms(2) in \<open>cases a, simp\<close>)

lemma run_points:
  assumes "entry_ok (length x > 0, extensionSupportedPoints, lpb 1 (Some x))" and "ch_supportedPoints a = []"
  shows "run_block CE ((length x > 0, extensionSupportedPoints, lpb 1 (Some x)) # es) a = run_block CE es (a\<lparr>ch_supportedPoints := x\<rparr>)"
  by (rule run_lp [OF assms(1)])
    (use assms(2) in \<open>simp add: clientHello_extension_def extension_defs del: length_concat\<close>, use assms(2) in \<open>cases a, simp\<close>)

lemma run_algs:
  assumes "entry_ok (length x > 0, extensionSignatureAlgorithms, lpb 2 (Some (u16s_bytes x)))" and "ch_supportedSignatureAlgorithms a = []"
  shows "run_block CE ((length x > 0, extensionSignatureAlgorithms, lpb 2 (Some (u16s_bytes x))) # es) a = run_block CE es (a\<lparr>ch_supportedSignatureAlgorithms := x\<rparr>)"
  by (rule run_lp [OF assms(1)])
    (use assms(2) in \<open>simp add: clientHello_extension_def extension_defs del: length_concat\<close>, use assms(2) in \<open>cases a, simp\<close>)

lemma run_algsCert:
  assumes "entry_ok (length x > 0, extensionSignatureAlgorithmsCert, lpb 2 (Some (u16s_bytes x)))" and "ch_supportedSignatureAlgorithmsCert a = []"
  shows "run_block CE ((length x > 0, extensionSignatureAlgorithmsCert, lpb 2 (Some (u16s_bytes x))) # es) a = run_block CE es (a\<lparr>ch_supportedSignatureAlgorithmsCert := x\<rparr>)"
  by (rule run_lp [OF assms(1)])
    (use assms(2) in \<open>simp add: clientHello_extension_def extension_defs del: length_concat\<close>, use assms(2) in \<open>cases a, simp\<close>)

lemma run_versions:
  assumes "entry_ok (length x > 0, extensionSupportedVersions, lpb 1 (Some (u16s_bytes x)))" and "ch_supportedVersions a = []"
  shows "run_block CE ((length x > 0, extensionSupportedVersions, lpb 1 (Some (u16s_bytes x))) # es) a = run_block CE es (a\<lparr>ch_supportedVersions := x\<rparr>)"
  by (rule run_lp [OF assms(1)])
    (use assms(2) in \<open>simp add: clientHello_extension_def extension_defs del: length_concat\<close>, use assms(2) in \<open>cases a, simp\<close>)

lemma run_cookie:
  assumes "entry_ok (length x > 0, extensionCookie, lpb 2 (Some x))" and "ch_cookie a = []"
  shows "run_block CE ((length x > 0, extensionCookie, lpb 2 (Some x)) # es) a = run_block CE es (a\<lparr>ch_cookie := x\<rparr>)"
  by (rule run_lp [OF assms(1)])
    (use assms(2) in \<open>simp add: clientHello_extension_def extension_defs del: length_concat\<close>, use assms(2) in \<open>cases a, simp\<close>)

lemma run_pskModes:
  assumes "entry_ok (length x > 0, extensionPSKModes, lpb 1 (Some x))" and "ch_pskModes a = []"
  shows "run_block CE ((length x > 0, extensionPSKModes, lpb 1 (Some x)) # es) a = run_block CE es (a\<lparr>ch_pskModes := x\<rparr>)"
  by (rule run_lp [OF assms(1)])
    (use assms(2) in \<open>simp add: clientHello_extension_def extension_defs del: length_concat\<close>, use assms(2) in \<open>cases a, simp\<close>)

lemma run_ticket:
  assumes "ch_ticketSupported a = False" and "ch_sessionTicket a = []" and "x \<noteq> [] \<longrightarrow> c"
  shows "run_block CE ((c, extensionSessionTicket, Some x) # es) a =
    run_block CE es (a\<lparr>ch_ticketSupported := c, ch_sessionTicket := x\<rparr>)"
  by (rule run_entry)
    (simp add: clientHello_extension_def extension_defs split_at_def, use assms in \<open>cases a, simp\<close>)

lemma run_renegotiation:
  assumes "entry_ok (c, extensionRenegotiationInfo, lpb 1 (Some x))"
    and "x \<noteq> [] \<longrightarrow> c" and "ch_secureRenegotiation a = []" and "ch_secureRenegotiationSupported a \<longrightarrow> c"
  shows "run_block CE ((c, extensionRenegotiationInfo, lpb 1 (Some x)) # es) a =
    run_block CE es (a\<lparr>ch_secureRenegotiation := x, ch_secureRenegotiationSupported := c\<rparr>)"
  by (rule run_lp [OF assms(1)])
    (simp add: clientHello_extension_def extension_defs, use assms in \<open>cases a, auto\<close>)

lemma run_flags:
  "ch_scts a = False \<Longrightarrow> run_block CE ((c, extensionSCT, Some []) # es) a = run_block CE es (a\<lparr>ch_scts := c\<rparr>)"
  "ch_earlyData a = False \<Longrightarrow> run_block CE ((c, extensionEarlyData, Some []) # es) a = run_block CE es (a\<lparr>ch_earlyData := c\<rparr>)"
  by (rule run_entry, simp add: clientHello_extension_def extension_defs, cases a, simp)+

lemma run_alpn:
  assumes "entry_ok (length x > 0, extensionALPN, lpb 2 (cats (\<lambda>x. lpb 1 (Some x)) x))"
    and "\<forall>p \<in> set x. p \<noteq> []" and "ch_alpnProtocols a = []"
  shows "run_block CE ((length x > 0, extensionALPN, lpb 2 (cats (\<lambda>x. lpb 1 (Some x)) x)) # es) a =
    run_block CE es (a\<lparr>ch_alpnProtocols := x\<rparr>)"
proof (rule run_entry)
  assume ne: "length x > 0"
  from entry_lpb [OF assms(1) this] obtain d where
    d: "cats (\<lambda>x. lpb 1 (Some x)) x = Some d" "length d < 65536" "lpb 2 (cats (\<lambda>x. lpb 1 (Some x)) x) = Some (lps 2 d)"
    by auto
  from cats_lpb [OF d(1)] have c: "d = concat (map (lps 1) x)" "\<forall>p \<in> set x. length p < 256 ^ 1" by simp_all
  then have "d \<noteq> []" using ne by (cases x) auto
  moreover have "read_many (read_nonempty plain_reader 1) d [] = Some x"
    unfolding c(1) using c(2) assms(2) by (subst strings.read_many_enc) (auto simp: list_all_iff)
  ultimately show "CE extensionALPN (the (lpb 2 (cats (\<lambda>x. lpb 1 (Some x)) x))) (the (block_bytes es)) a =
      Some (a\<lparr>ch_alpnProtocols := x\<rparr>, [])"
    unfolding d(3) using d(2) assms(3) by (simp add: clientHello_extension_def extension_defs)
next
  assume "\<not> length x > 0"
  with assms(3) show "a\<lparr>ch_alpnProtocols := x\<rparr> = a" by (cases a) simp
qed

lemma cats_keyShares:
  assumes "cats (\<lambda>ks. cat (Some (be_enc 2 (unat (ks_group ks)))) (lpb 2 (Some (ks_data ks)))) x = Some d"
  shows "d = concat (map keyShare_bytes x)" and "\<forall>ks \<in> set x. length (ks_data ks) < 65536"
  using assms by (auto simp: cats_eq_Some lpb_def lps_def keyShare_bytes_def cong: map_cong split: if_splits)

lemma cats_pskIdentities:
  assumes "cats (\<lambda>psk. cat (lpb 2 (Some (psk_label psk))) (Some (be_enc 4 (unat (psk_age psk))))) x = Some d"
  shows "d = concat (map pskIdentity_bytes x)" and "\<forall>psk \<in> set x. length (psk_label psk) < 65536"
  using assms by (auto simp: cats_eq_Some lpb_def lps_def pskIdentity_bytes_def cong: map_cong split: if_splits)

lemma run_keyShares:
  fixes x :: "keyShare list"
  defines "y \<equiv> lpb 2 (cats (\<lambda>ks. cat (Some (be_enc 2 (unat (ks_group ks)))) (lpb 2 (Some (ks_data ks)))) x)"
  assumes "entry_ok (length x > 0, extensionKeyShare, y)"
    and "\<forall>ks \<in> set x. ks_data ks \<noteq> []" and "ch_keyShares a = []"
  shows "run_block CE ((length x > 0, extensionKeyShare, y) # es) a = run_block CE es (a\<lparr>ch_keyShares := x\<rparr>)"
proof (rule run_entry)
  assume ne: "length x > 0"
  from entry_lpb [OF assms(2) [unfolded y_def] this] obtain d where
    d: "cats (\<lambda>ks. cat (Some (be_enc 2 (unat (ks_group ks)))) (lpb 2 (Some (ks_data ks)))) x = Some d"
      "length d < 65536" "y = Some (lps 2 d)"
    by (auto simp: y_def)
  note c = cats_keyShares [OF d(1)]
  have "read_many (read_keyShare plain_reader) d [] = Some x"
    unfolding c(1) using c(2) assms(3) by (subst keyShares.read_many_enc) (auto simp: list_all_iff)
  then show "CE extensionKeyShare (the y) (the (block_bytes es)) a = Some (a\<lparr>ch_keyShares := x\<rparr>, [])"
    unfolding d(3) using d(2) assms(4) by (simp add: clientHello_extension_def extension_defs)
next
  assume "\<not> length x > 0"
  with assms(4) show "a\<lparr>ch_keyShares := x\<rparr> = a" by (cases a) simp
qed

lemma run_psk:
  fixes x :: "pskIdentity list" and z :: "bytes list"
  defines "y \<equiv> cat (lpb 2 (cats (\<lambda>psk. cat (lpb 2 (Some (psk_label psk))) (Some (be_enc 4 (unat (psk_age psk))))) x))
      (lpb 2 (cats (\<lambda>x. lpb 1 (Some x)) z))"
  assumes "entry_ok (length x > 0, extensionPreSharedKey, y)"
    and "\<forall>psk \<in> set x. psk_label psk \<noteq> []" and "\<forall>b \<in> set z. b \<noteq> []" and "x = [] \<longleftrightarrow> z = []"
    and "ch_pskIdentities a = []" and "ch_pskBinders a = []"
  shows "run_block CE [(length x > 0, extensionPreSharedKey, y)] a =
    Some (a\<lparr>ch_pskIdentities := x, ch_pskBinders := z\<rparr>)"
proof -
  have "run_block CE [(length x > 0, extensionPreSharedKey, y)] a =
    run_block CE [] (a\<lparr>ch_pskIdentities := x, ch_pskBinders := z\<rparr>)"
  proof (rule run_entry)
    assume ne: "length x > 0"
    with assms(2) obtain d1 d2 where
      d1: "cats (\<lambda>psk. cat (lpb 2 (Some (psk_label psk))) (Some (be_enc 4 (unat (psk_age psk))))) x = Some d1" "length d1 < 65536" and
      d2: "cats (\<lambda>x. lpb 1 (Some x)) z = Some d2" "length d2 < 65536" and d3: "y = Some (lps 2 d1 @ lps 2 d2)"
      by (auto simp: y_def entry_ok_def cat_eq_Some lpb_eq_Some lps_def)
    note c1 = cats_pskIdentities [OF d1(1)] and c2 = cats_lpb [OF d2(1)]
    have "z \<noteq> []" using ne assms(5) by auto
    then have n: "d1 \<noteq> []" "d2 \<noteq> []" using ne c1(1) c2(1)
      by (cases x; cases z; simp add: pskIdentity_bytes_def)+
    have "read_many (read_pskIdentity plain_reader) d1 [] = Some x"
      unfolding c1(1) using c1(2) assms(3) by (subst pskIdentities.read_many_enc) (auto simp: list_all_iff)
    moreover have "read_many (read_nonempty plain_reader 1) d2 [] = Some z"
      unfolding c2(1) using c2(2) assms(4) by (subst strings.read_many_enc) (auto simp: list_all_iff)
    ultimately show "CE extensionPreSharedKey (the y) (the (block_bytes [])) a =
        Some (a\<lparr>ch_pskIdentities := x, ch_pskBinders := z\<rparr>, [])"
      unfolding d3 using d1(2) d2(2) n assms(6,7) by (simp add: clientHello_extension_def extension_defs)
  next
    assume "\<not> length x > 0"
    with assms(5-7) show "a\<lparr>ch_pskIdentities := x, ch_pskBinders := z\<rparr> = a" by (cases a) simp
  qed
  then show ?thesis by simp
qed

section \<open>The round trip of a ClientHello\<close>

text \<open>
  The messages the format can carry: no trailing dot in the name, no empty protocol, key share,
  label or binder, binders exactly when there are identities; and the two ways to signal secure
  renegotiation agree.
\<close>

definition clientHello_ok :: "clientHelloMsg \<Rightarrow> bool" where
  "clientHello_ok m \<longleftrightarrow>
     (ch_serverName m \<noteq> [] \<longrightarrow> last (ch_serverName m) \<noteq> 46) \<and>
     (ch_sessionTicket m \<noteq> [] \<longrightarrow> ch_ticketSupported m) \<and>
     (ch_secureRenegotiation m \<noteq> [] \<longrightarrow> ch_secureRenegotiationSupported m) \<and>
     (scsvRenegotiation \<in> set (ch_cipherSuites m) \<longrightarrow> ch_secureRenegotiationSupported m) \<and>
     (\<forall>p \<in> set (ch_alpnProtocols m). p \<noteq> []) \<and>
     (\<forall>ks \<in> set (ch_keyShares m). ks_data ks \<noteq> []) \<and>
     (\<forall>psk \<in> set (ch_pskIdentities m). psk_label psk \<noteq> []) \<and>
     (\<forall>b \<in> set (ch_pskBinders m). b \<noteq> []) \<and>
     (ch_pskIdentities m = [] \<longleftrightarrow> ch_pskBinders m = [])"

lemma run_clientHello:
  assumes "block_bytes (clientHello_entries m) = Some z" and "clientHello_ok m"
    and a: "a = empty_clientHello\<lparr>ch_raw := r, ch_vers := ch_vers m, ch_random := ch_random m,
      ch_sessionId := ch_sessionId m, ch_cipherSuites := ch_cipherSuites m,
      ch_secureRenegotiationSupported := scsvRenegotiation \<in> set (ch_cipherSuites m),
      ch_compressionMethods := ch_compressionMethods m\<rparr>"
  shows "run_block CE (clientHello_entries m) a = Some (m\<lparr>ch_raw := r\<rparr>)"
proof -
  have ok: "list_all entry_ok (clientHello_entries m)" using block_bytes_ok [OF assms(1)] .
  note m = assms(2) [unfolded clientHello_ok_def]
  have i: "ch_serverName a = []" "ch_ocspStapling a = False" "ch_supportedCurves a = []" "ch_supportedPoints a = []"
    "ch_ticketSupported a = False" "ch_sessionTicket a = []"  "ch_supportedSignatureAlgorithms a = []"
    "ch_supportedSignatureAlgorithmsCert a = []" "ch_secureRenegotiation a = []" "ch_alpnProtocols a = []" "ch_scts a = False"
    "ch_supportedVersions a = []" "ch_cookie a = []" "ch_keyShares a = []" "ch_earlyData a = False" "ch_pskModes a = []"
    "ch_pskIdentities a = []" "ch_pskBinders a = []" 
    "ch_secureRenegotiationSupported a \<longrightarrow> ch_secureRenegotiationSupported m"
    using m by (simp_all add: a empty_clientHello_def)
  have fin: "a\<lparr>ch_serverName := ch_serverName m, ch_ocspStapling := ch_ocspStapling m, ch_supportedCurves := ch_supportedCurves m,
      ch_supportedPoints := ch_supportedPoints m, ch_ticketSupported := ch_ticketSupported m, ch_sessionTicket := ch_sessionTicket m,
      ch_supportedSignatureAlgorithms := ch_supportedSignatureAlgorithms m,
      ch_supportedSignatureAlgorithmsCert := ch_supportedSignatureAlgorithmsCert m,
      ch_secureRenegotiation := ch_secureRenegotiation m, ch_secureRenegotiationSupported := ch_secureRenegotiationSupported m,
      ch_alpnProtocols := ch_alpnProtocols m, ch_scts := ch_scts m, ch_supportedVersions := ch_supportedVersions m,
      ch_cookie := ch_cookie m, ch_keyShares := ch_keyShares m, ch_earlyData := ch_earlyData m, ch_pskModes := ch_pskModes m,
      ch_pskIdentities := ch_pskIdentities m, ch_pskBinders := ch_pskBinders m\<rparr> = m\<lparr>ch_raw := r\<rparr>"
    unfolding a empty_clientHello_def by (cases m) simp
  show ?thesis
    unfolding fin [symmetric] using ok m i unfolding clientHello_entries_def list.pred_inject
    apply (elim conjE)
    apply (subst run_serverName, assumption, assumption, assumption)
    apply (subst run_ocsp, simp, subst run_curves, assumption, simp, subst run_points, assumption, simp)
    apply (subst run_ticket, simp, simp, assumption, subst run_algs, assumption, simp, subst run_algsCert, assumption, simp)
    apply (subst run_renegotiation, assumption, assumption, simp, simp, subst run_alpn, assumption, assumption, simp)
    apply (subst run_flags(1), simp, subst run_versions, assumption, simp, subst run_cookie, assumption, simp)
    apply (subst run_keyShares, assumption, assumption, simp, subst run_flags(2), simp, subst run_pskModes, assumption, simp)
    apply (subst run_psk, assumption, assumption, assumption, assumption, simp, simp)
    apply (rule refl)
    done
qed
text \<open>The header of a message, and its fields before the extensions.\<close>

lemma hello_bytes_Some:
  assumes "hello_bytes t y es = Some data"
  obtains b z where "y = Some b" and "block_bytes es = Some z" and "length z < 65536"
    and "data = t # lps 3 (b @ (if z = [] then [] else lps 2 z))"
proof -
  from assms obtain c where c: "cat y (case block_bytes es of Some [] \<Rightarrow> Some [] | y \<Rightarrow> lpb 2 y) = Some c" "data = t # lps 3 c"
    by (auto simp: hello_bytes_def cat_eq_Some lpb_eq_Some lps_def)
  then obtain b x where b: "y = Some b" "(case block_bytes es of Some [] \<Rightarrow> Some [] | y \<Rightarrow> lpb 2 y) = Some x" "c = b @ x"
    by (auto simp: cat_eq_Some)
  then obtain z where z: "block_bytes es = Some z" by (auto simp: lpb_def split: option.splits)
  have "length z < 65536 \<and> x = (if z = [] then [] else lps 2 z)"
    using b(2) z by (auto simp: lpb_eq_Some lps_def split: list.splits)
  with that [OF b(1) z] b(3) c(2) show ?thesis by simp
qed

lemma skip_header: "r_skip plain_reader 4 (t # lps 3 x) = Some x"
  by (simp add: split_at_def lps_def)

lemma split_32 [simp]: "length x = 32 \<Longrightarrow> split_at 32 (x @ r) = Some (x, r)" "length x = 32 \<Longrightarrow> split_at 32 x = Some (x, [])"
  by (simp_all add: split_at_def)

definition clientHello_body :: "clientHelloMsg \<Rightarrow> bytes option" where
  "clientHello_body m = cat (Some (be_enc 2 (unat (ch_vers m))))
     (cat (if length (ch_random m) = 32 then Some (ch_random m) else None)
       (cat (lpb 1 (Some (ch_sessionId m)))
         (cat (lpb 2 (Some (u16s_bytes (ch_cipherSuites m)))) (cat (lpb 1 (Some (ch_compressionMethods m))) (Some [])))))"

lemma marshal_clientHello_bytes:
  assumes B: "builder_ok B" and "ch_raw m = None"
  shows "marshal_clientHello B m =
    map_option (\<lambda>raw. (raw, m\<lparr>ch_raw := Some raw\<rparr>)) (hello_bytes typeClientHello (clientHello_body m) (clientHello_entries m))"
proof -
  have "writes B (steps (clientHello_fields B m)) (clientHello_body m)"
    unfolding clientHello_fields_def clientHello_body_def by (intro writes_rules B)
  from marshal_hello_bytes [OF B this writes_clientHello_extensions [OF B]] assms(2) show ?thesis
    by (simp add: marshal_clientHello_def)
qed

lemma clientHello_round_trip:
  assumes "builder_ok B" and "reader_ok R" and ok: "clientHello_ok m" and raw: "ch_raw m = None"
    and "marshal_clientHello B m = Some (bs, m')"
  shows "m' = m\<lparr>ch_raw := Some bs\<rparr> \<and> unmarshal_clientHello R bs = Some m'"
proof -
  have R: "R = plain_reader" using reader_unique [OF assms(2)] .
  from assms(5) have h: "hello_bytes typeClientHello (clientHello_body m) (clientHello_entries m) = Some bs"
    and m': "m' = m\<lparr>ch_raw := Some bs\<rparr>"
    unfolding marshal_clientHello_bytes [OF assms(1) raw] by auto
  from hello_bytes_Some [OF h] obtain b z where
    b: "clientHello_body m = Some b" and z: "block_bytes (clientHello_entries m) = Some z" "length z < 65536"
    and bs: "bs = typeClientHello # lps 3 (b @ (if z = [] then [] else lps 2 z))" by blast
  from b have f: "length (ch_random m) = 32" "length (ch_sessionId m) < 256 ^ 1"
    "length (u16s_bytes (ch_cipherSuites m)) < 256 ^ 2" "length (ch_compressionMethods m) < 256 ^ 1"
    "b = be_enc 2 (unat (ch_vers m)) @ ch_random m @ lps 1 (ch_sessionId m) @ lps 2 (u16s_bytes (ch_cipherSuites m)) @
       lps 1 (ch_compressionMethods m)"
    by (auto simp: clientHello_body_def cat_eq_Some lpb_eq_Some lps_def simp del: length_concat split: if_splits)
  let ?a = "empty_clientHello\<lparr>ch_raw := Some bs, ch_vers := ch_vers m, ch_random := ch_random m,
      ch_sessionId := ch_sessionId m, ch_cipherSuites := ch_cipherSuites m,
      ch_secureRenegotiationSupported := scsvRenegotiation \<in> set (ch_cipherSuites m),
      ch_compressionMethods := ch_compressionMethods m\<rparr>"
  let ?ext = "if z = [] then [] else lps 2 z"
  have suites: "read_many (read_u16 plain_reader) (u16s_bytes (ch_cipherSuites m)) [] = Some (ch_cipherSuites m)"
    using u16s.read_many_enc [of "ch_cipherSuites m" "[]"] by (simp add: list.pred_True)
  have "unmarshal_clientHello plain_reader bs =
    (if ?ext = [] then Some ?a
     else Option.bind (plain_lp 2 ?ext) (\<lambda>(e, s). Option.bind (check (s = [])) (\<lambda>_. read_extensions plain_reader CE e ?a)))"
    unfolding bs unmarshal_clientHello_def skip_header bind.bind_lunit f(5) plain_fields(2-4)
    using f(1-4) by (cases "z = []") (simp_all add: suites Let_def del: length_concat)
  also have "\<dots> = run_block CE (clientHello_entries m) ?a"
    using z by (simp add: read_extensions_block block_bytes_Nil)
  also have "\<dots> = Some m'" unfolding m' by (rule run_clientHello [OF z(1) ok refl])
  finally show ?thesis using R m' by simp
qed

section \<open>The round trip of a ServerHello\<close>

abbreviation (input) "SE \<equiv> serverHello_extension plain_reader"

definition serverHello_entries :: "serverHelloMsg \<Rightarrow> entry list" where
  "serverHello_entries m = [
     (sh_ocspStapling m, extensionStatusRequest, Some []),
     (sh_ticketSupported m, extensionSessionTicket, Some []),
     (sh_secureRenegotiationSupported m, extensionRenegotiationInfo, lpb 1 (Some (sh_secureRenegotiation m))),
     (length (sh_alpnProtocol m) > 0, extensionALPN, lpb 2 (lpb 1 (Some (sh_alpnProtocol m)))),
     (length (sh_scts m) > 0, extensionSCT, lpb 2 (cats (\<lambda>x. lpb 2 (Some x)) (sh_scts m))),
     (sh_supportedVersion m \<noteq> 0, extensionSupportedVersions, Some (be_enc 2 (unat (sh_supportedVersion m)))),
     (ks_group (sh_serverShare m) \<noteq> 0, extensionKeyShare,
       cat (Some (be_enc 2 (unat (ks_group (sh_serverShare m))))) (lpb 2 (Some (ks_data (sh_serverShare m))))),
     (sh_selectedIdentityPresent m, extensionPreSharedKey, Some (be_enc 2 (unat (sh_selectedIdentity m)))),
     (length (sh_cookie m) > 0, extensionCookie, lpb 2 (Some (sh_cookie m))),
     (sh_selectedGroup m \<noteq> 0, extensionKeyShare, Some (be_enc 2 (unat (sh_selectedGroup m)))),
     (length (sh_supportedPoints m) > 0, extensionSupportedPoints, lpb 1 (Some (sh_supportedPoints m)))]"

lemma writes_serverHello_extensions:
  assumes B: "builder_ok B"
  shows "writes B (steps (serverHello_extensions B m)) (block_bytes (serverHello_entries m))"
  unfolding serverHello_extensions_def serverHello_entries_def
  by (rule writes_block, simp only: list_all2_Cons list.rel_inject(1) simp_thms, intro conjI)
    (intro writes_entry writes_empty_entry writes_two writes_cats writes_lp writes_bytes writes_uint B)+

definition serverHello_body :: "serverHelloMsg \<Rightarrow> bytes option" where
  "serverHello_body m = cat (Some (be_enc 2 (unat (sh_vers m))))
     (cat (if length (sh_random m) = 32 then Some (sh_random m) else None)
       (cat (lpb 1 (Some (sh_sessionId m)))
         (cat (Some (be_enc 2 (unat (sh_cipherSuite m)))) (cat (Some (be_enc 1 (unat (sh_compressionMethod m)))) (Some [])))))"

lemma marshal_serverHello_bytes:
  assumes B: "builder_ok B" and "sh_raw m = None"
  shows "marshal_serverHello B m =
    map_option (\<lambda>raw. (raw, m\<lparr>sh_raw := Some raw\<rparr>)) (hello_bytes typeServerHello (serverHello_body m) (serverHello_entries m))"
proof -
  have "writes B (steps (serverHello_fields B m)) (serverHello_body m)"
    unfolding serverHello_fields_def serverHello_body_def by (intro writes_rules B)
  from marshal_hello_bytes [OF B this writes_serverHello_extensions [OF B]] assms(2) show ?thesis
    by (simp add: marshal_serverHello_def)
qed

text \<open>A ServerHello the format can carry.\<close>

definition serverHello_ok :: "serverHelloMsg \<Rightarrow> bool" where
  "serverHello_ok m \<longleftrightarrow>
     (sh_secureRenegotiation m \<noteq> [] \<longrightarrow> sh_secureRenegotiationSupported m) \<and>
     (\<forall>sct \<in> set (sh_scts m). sct \<noteq> []) \<and>
     (ks_data (sh_serverShare m) \<noteq> [] \<longrightarrow> ks_group (sh_serverShare m) \<noteq> 0) \<and>
     (sh_selectedIdentity m \<noteq> 0 \<longrightarrow> sh_selectedIdentityPresent m)"

lemma sh_flags:
  "sh_ocspStapling a = False \<Longrightarrow> run_block SE ((c, extensionStatusRequest, Some []) # es) a = run_block SE es (a\<lparr>sh_ocspStapling := c\<rparr>)"
  "sh_ticketSupported a = False \<Longrightarrow> run_block SE ((c, extensionSessionTicket, Some []) # es) a = run_block SE es (a\<lparr>sh_ticketSupported := c\<rparr>)"
  by (rule run_entry, simp add: serverHello_extension_def extension_defs, cases a, simp)+

lemma sh_renegotiation:
  assumes "entry_ok (c, extensionRenegotiationInfo, lpb 1 (Some x))"
    and "x \<noteq> [] \<longrightarrow> c" and "sh_secureRenegotiation a = []" and "sh_secureRenegotiationSupported a = False"
  shows "run_block SE ((c, extensionRenegotiationInfo, lpb 1 (Some x)) # es) a =
    run_block SE es (a\<lparr>sh_secureRenegotiation := x, sh_secureRenegotiationSupported := c\<rparr>)"
  by (rule run_lp [OF assms(1)])
    (simp add: serverHello_extension_def extension_defs, use assms in \<open>cases a, auto\<close>)

lemma sh_cookie:
  assumes "entry_ok (length x > 0, extensionCookie, lpb 2 (Some x))" and "sh_cookie a = []"
  shows "run_block SE ((length x > 0, extensionCookie, lpb 2 (Some x)) # es) a = run_block SE es (a\<lparr>sh_cookie := x\<rparr>)"
  by (rule run_lp [OF assms(1)])
    (simp add: serverHello_extension_def extension_defs, use assms in \<open>cases a, auto\<close>)

lemma sh_points:
  assumes "entry_ok (length x > 0, extensionSupportedPoints, lpb 1 (Some x))" and "sh_supportedPoints a = []"
  shows "run_block SE ((length x > 0, extensionSupportedPoints, lpb 1 (Some x)) # es) a = run_block SE es (a\<lparr>sh_supportedPoints := x\<rparr>)"
  by (rule run_lp [OF assms(1)])
    (simp add: serverHello_extension_def extension_defs, use assms in \<open>cases a, auto\<close>)

lemma read_alpn_lps:
  "x \<noteq> [] \<Longrightarrow> length x < 256 \<Longrightarrow> length (lps 1 x) < 65536 \<Longrightarrow> read_alpn plain_reader (lps 2 (lps 1 x)) = Some (x, [])"
  by (simp add: read_alpn_def)

lemma sh_alpn:
  assumes "entry_ok (length x > 0, extensionALPN, lpb 2 (lpb 1 (Some x)))" and "sh_alpnProtocol a = []"
  shows "run_block SE ((length x > 0, extensionALPN, lpb 2 (lpb 1 (Some x))) # es) a = run_block SE es (a\<lparr>sh_alpnProtocol := x\<rparr>)"
proof (rule run_entry)
  assume ne: "length x > 0"
  from entry_lpb [OF assms(1) this] have d: "length x < 256" "length (lps 1 x) < 65536" "lpb 2 (lpb 1 (Some x)) = Some (lps 2 (lps 1 x))"
    by (auto simp: lpb_eq_Some lps_def)
  show "SE extensionALPN (the (lpb 2 (lpb 1 (Some x)))) (the (block_bytes es)) a = Some (a\<lparr>sh_alpnProtocol := x\<rparr>, [])"
    unfolding d(3) using ne read_alpn_lps [OF _ d(1,2)] by (simp add: serverHello_extension_def extension_defs)
qed (use assms(2) in \<open>cases a, simp\<close>)

lemma read_strings_lps:
  assumes "cats (\<lambda>x. lpb 2 (Some x)) x = Some d" and "x \<noteq> []" and "\<forall>y \<in> set x. y \<noteq> []" and "length d < 65536"
  shows "read_strings plain_reader (lps 2 d) [] = Some (x, [])"
proof -
  note c = cats_lpb [OF assms(1)]
  have "d \<noteq> []" using assms(2) c(1) by (cases x) auto
  moreover have "read_many (read_nonempty plain_reader 2) d [] = Some x"
    unfolding c(1) using c(2) assms(3) by (subst strings.read_many_enc) (auto simp: list_all_iff)
  ultimately show ?thesis using assms(4) by (simp add: read_strings_def)
qed

lemma sh_scts:
  assumes "entry_ok (length x > 0, extensionSCT, lpb 2 (cats (\<lambda>x. lpb 2 (Some x)) x))"
    and "\<forall>y \<in> set x. y \<noteq> []" and "sh_scts a = []"
  shows "run_block SE ((length x > 0, extensionSCT, lpb 2 (cats (\<lambda>x. lpb 2 (Some x)) x)) # es) a = run_block SE es (a\<lparr>sh_scts := x\<rparr>)"
proof (rule run_entry)
  assume ne: "length x > 0"
  from entry_lpb [OF assms(1) this] obtain d where
    d: "cats (\<lambda>x. lpb 2 (Some x)) x = Some d" "length d < 65536" "lpb 2 (cats (\<lambda>x. lpb 2 (Some x)) x) = Some (lps 2 d)"
    by auto
  from read_strings_lps [OF d(1) _ assms(2) d(2)] ne assms(3)
  show "SE extensionSCT (the (lpb 2 (cats (\<lambda>x. lpb 2 (Some x)) x))) (the (block_bytes es)) a = Some (a\<lparr>sh_scts := x\<rparr>, [])"
    unfolding d(3) by (simp add: serverHello_extension_def extension_defs)
qed (use assms(3) in \<open>cases a, simp\<close>)

lemma sh_u16:
  "sh_supportedVersion a = 0 \<Longrightarrow> run_block SE ((v \<noteq> 0, extensionSupportedVersions, Some (be_enc 2 (unat v))) # es) a =
     run_block SE es (a\<lparr>sh_supportedVersion := v\<rparr>)"
  "sh_selectedGroup a = 0 \<Longrightarrow> run_block SE ((v \<noteq> 0, extensionKeyShare, Some (be_enc 2 (unat v))) # es) a =
     run_block SE es (a\<lparr>sh_selectedGroup := v\<rparr>)"
  by (rule run_entry, simp add: serverHello_extension_def extension_defs, cases a, simp)+

lemma sh_psk:
  "(v \<noteq> 0 \<longrightarrow> c) \<Longrightarrow> sh_selectedIdentityPresent a = False \<Longrightarrow> sh_selectedIdentity a = 0 \<Longrightarrow>
   run_block SE ((c, extensionPreSharedKey, Some (be_enc 2 (unat v))) # es) a =
     run_block SE es (a\<lparr>sh_selectedIdentityPresent := c, sh_selectedIdentity := v\<rparr>)"
  by (rule run_entry, simp add: serverHello_extension_def extension_defs, cases a, simp)

lemma sh_share:
  assumes "entry_ok (ks_group x \<noteq> 0, extensionKeyShare, cat (Some (be_enc 2 (unat (ks_group x)))) (lpb 2 (Some (ks_data x))))"
    and "ks_data x \<noteq> [] \<longrightarrow> ks_group x \<noteq> 0" and "sh_serverShare a = \<lparr>ks_group = 0, ks_data = []\<rparr>"
  shows "run_block SE ((ks_group x \<noteq> 0, extensionKeyShare, cat (Some (be_enc 2 (unat (ks_group x)))) (lpb 2 (Some (ks_data x)))) # es) a =
    run_block SE es (a\<lparr>sh_serverShare := x\<rparr>)"
proof (rule run_entry)
  assume "ks_group x \<noteq> 0"
  with assms(1) have d: "length (ks_data x) < 65536"
    "cat (Some (be_enc 2 (unat (ks_group x)))) (lpb 2 (Some (ks_data x))) = Some (be_enc 2 (unat (ks_group x)) @ lps 2 (ks_data x))"
    by (auto simp: entry_ok_def cat_eq_Some lpb_eq_Some lps_def)
  have "length (be_enc 2 (unat (ks_group x)) @ lps 2 (ks_data x)) \<noteq> 2" by (simp add: lps_def)
  then show "SE extensionKeyShare (the (cat (Some (be_enc 2 (unat (ks_group x)))) (lpb 2 (Some (ks_data x))))) (the (block_bytes es)) a =
      Some (a\<lparr>sh_serverShare := x\<rparr>, [])"
    unfolding d(2) option.sel using d(1)
    by (simp add: serverHello_extension_def extension_defs del: length_append)
next
  assume "\<not> ks_group x \<noteq> 0"
  with assms(2,3) show "a\<lparr>sh_serverShare := x\<rparr> = a" by (cases a; cases x) simp
qed

lemma run_serverHello:
  assumes "block_bytes (serverHello_entries m) = Some z" and "serverHello_ok m"
    and a: "a = empty_serverHello\<lparr>sh_raw := r, sh_vers := sh_vers m, sh_random := sh_random m,
      sh_sessionId := sh_sessionId m, sh_cipherSuite := sh_cipherSuite m,
      sh_compressionMethod := sh_compressionMethod m\<rparr>"
  shows "run_block SE (serverHello_entries m) a = Some (m\<lparr>sh_raw := r\<rparr>)"
proof -
  have ok: "list_all entry_ok (serverHello_entries m)" using block_bytes_ok [OF assms(1)] .
  note m = assms(2) [unfolded serverHello_ok_def]
  have i: "sh_ocspStapling a = False" "sh_ticketSupported a = False" "sh_secureRenegotiation a = []"
    "sh_secureRenegotiationSupported a = False" "sh_alpnProtocol a = []" "sh_scts a = []" "sh_supportedVersion a = 0"
    "sh_serverShare a = \<lparr>ks_group = 0, ks_data = []\<rparr>" "sh_selectedIdentityPresent a = False" "sh_selectedIdentity a = 0"
    "sh_cookie a = []" "sh_selectedGroup a = 0" "sh_supportedPoints a = []"
    by (simp_all add: a empty_serverHello_def)
  have fin: "a\<lparr>sh_ocspStapling := sh_ocspStapling m, sh_ticketSupported := sh_ticketSupported m,
      sh_secureRenegotiation := sh_secureRenegotiation m, sh_secureRenegotiationSupported := sh_secureRenegotiationSupported m,
      sh_alpnProtocol := sh_alpnProtocol m, sh_scts := sh_scts m, sh_supportedVersion := sh_supportedVersion m,
      sh_serverShare := sh_serverShare m, sh_selectedIdentityPresent := sh_selectedIdentityPresent m,
      sh_selectedIdentity := sh_selectedIdentity m, sh_cookie := sh_cookie m, sh_selectedGroup := sh_selectedGroup m,
      sh_supportedPoints := sh_supportedPoints m\<rparr> = m\<lparr>sh_raw := r\<rparr>"
    unfolding a empty_serverHello_def by (cases m) simp
  show ?thesis
    unfolding fin [symmetric] using ok m i unfolding serverHello_entries_def list.pred_inject
    apply (elim conjE)
    apply (subst sh_flags(1), simp, subst sh_flags(2), simp, subst sh_renegotiation, assumption, assumption, simp, simp)
    apply (subst sh_alpn, assumption, simp, subst sh_scts, assumption, assumption, simp, subst sh_u16(1), simp)
    apply (subst sh_share, assumption, assumption, simp, subst sh_psk, assumption, simp, simp)
    apply (subst sh_cookie, assumption, simp, subst sh_u16(2), simp, subst sh_points, assumption, simp)
    apply simp
    done
qed

lemma serverHello_round_trip:
  assumes "builder_ok B" and "reader_ok R" and ok: "serverHello_ok m" and raw: "sh_raw m = None"
    and "marshal_serverHello B m = Some (bs, m')"
  shows "m' = m\<lparr>sh_raw := Some bs\<rparr> \<and> unmarshal_serverHello R bs = Some m'"
proof -
  have R: "R = plain_reader" using reader_unique [OF assms(2)] .
  from assms(5) have h: "hello_bytes typeServerHello (serverHello_body m) (serverHello_entries m) = Some bs"
    and m': "m' = m\<lparr>sh_raw := Some bs\<rparr>"
    unfolding marshal_serverHello_bytes [OF assms(1) raw] by auto
  from hello_bytes_Some [OF h] obtain b z where
    b: "serverHello_body m = Some b" and z: "block_bytes (serverHello_entries m) = Some z" "length z < 65536"
    and bs: "bs = typeServerHello # lps 3 (b @ (if z = [] then [] else lps 2 z))" by blast
  from b have f: "length (sh_random m) = 32" "length (sh_sessionId m) < 256 ^ 1"
    "b = be_enc 2 (unat (sh_vers m)) @ sh_random m @ lps 1 (sh_sessionId m) @ be_enc 2 (unat (sh_cipherSuite m)) @
       [sh_compressionMethod m]"
    by (auto simp: serverHello_body_def cat_eq_Some lpb_eq_Some lps_def split: if_splits)
  let ?a = "empty_serverHello\<lparr>sh_raw := Some bs, sh_vers := sh_vers m, sh_random := sh_random m,
      sh_sessionId := sh_sessionId m, sh_cipherSuite := sh_cipherSuite m,
      sh_compressionMethod := sh_compressionMethod m\<rparr>"
  let ?ext = "if z = [] then [] else lps 2 z"
  have "unmarshal_serverHello plain_reader bs =
    (if ?ext = [] then Some ?a
     else Option.bind (plain_lp 2 ?ext) (\<lambda>(e, s). Option.bind (check (s = [])) (\<lambda>_. read_extensions plain_reader SE e ?a)))"
    unfolding bs unmarshal_serverHello_def skip_header bind.bind_lunit f(3) plain_fields(2-4)
    using f(1-2) by (cases "z = []") (simp_all add: Let_def)
  also have "\<dots> = run_block SE (serverHello_entries m) ?a"
    using z by (simp add: read_extensions_block block_bytes_Nil)
  also have "\<dots> = Some m'" unfolding m' by (rule run_serverHello [OF z(1) ok refl])
  finally show ?thesis using R m' by simp
qed

end
