(* ===== verification/MessageLemmas.thy ===== *)
theory MessageLemmas
  imports Messages HelloLemmas
begin

text \<open>
  The messages other than the two hellos: reading back what was written. Each message has a
  predicate \<open>\<dots>_ok\<close> for the values its format can carry; for messages laid out by hand it also bounds
  the lengths, which the code does not check.
\<close>

lemma marshal_body_bytes:
  assumes B: "builder_ok B" and f: "writes B f y"
  shows "marshal_body B t f = cat (Some [t]) (lpb 3 y)"
proof -
  have "b_result B (b_uint B 1 (unat t) (b_new B)) = Some [t]" using B by (simp add: builder_ok_def)
  with writes_lp [OF B f] show ?thesis by (simp add: marshal_body_def writes_def)
qed

lemma marshal_body_Some:
  assumes "builder_ok B" and "writes B f y" and "marshal_body B t f = Some bs"
  obtains b where "y = Some b" and "length b < 256 ^ 3" and "bs = t # lps 3 b"
  using assms(3) unfolding marshal_body_bytes [OF assms(1,2)] by (auto simp: cat_eq_Some lpb_eq_Some lps_def)

text \<open>The block of extensions that ends a message.\<close>

lemma lpb_block_Some:
  assumes "lpb 2 (block_bytes es) = Some d"
  obtains z where "block_bytes es = Some z" and "length z < 65536" and "d = lps 2 z"
  using assms by (auto simp: lpb_eq_Some lps_def)

lemma writes_block1: "writes B f (entry_bytes x) \<Longrightarrow> writes B (steps [f]) (block_bytes [x])"
  using writes_block [of B "[f]" "[x]"] by simp

section \<open>EncryptedExtensions and KeyUpdate\<close>

definition encryptedExtensions_entries :: "encryptedExtensionsMsg \<Rightarrow> entry list" where
  "encryptedExtensions_entries m =
     [(length (ee_alpnProtocol m) > 0, extensionALPN, lpb 2 (lpb 1 (Some (ee_alpnProtocol m))))]"

lemma writes_encryptedExtensions:
  assumes B: "builder_ok B"
  shows "writes B (encryptedExtensions_body B m) (lpb 2 (block_bytes (encryptedExtensions_entries m)))"
  unfolding encryptedExtensions_body_def encryptedExtensions_entries_def
  by (intro writes_lp writes_block1 writes_entry writes_bytes B)

lemma run_alpn_entry:
  assumes "entry_ok (length x > 0, e, lpb 2 (lpb 1 (Some x)))"
    and "read_alpn plain_reader (lps 2 (lps 1 x)) = Some (x, []) \<Longrightarrow> x \<noteq> [] \<Longrightarrow>
           ext e (lps 2 (lps 1 x)) (the (block_bytes es)) a = Some (a', [])" and "x = [] \<Longrightarrow> a' = a"
  shows "run_block ext ((length x > 0, e, lpb 2 (lpb 1 (Some x))) # es) a = run_block ext es a'"
proof (rule run_entry)
  assume ne: "length x > 0"
  from entry_lpb [OF assms(1) this] have d: "length x < 256" "length (lps 1 x) < 65536" "lpb 2 (lpb 1 (Some x)) = Some (lps 2 (lps 1 x))"
    by (auto simp: lpb_eq_Some lps_def)
  show "ext e (the (lpb 2 (lpb 1 (Some x)))) (the (block_bytes es)) a = Some (a', [])"
    unfolding d(3) using ne read_alpn_lps [OF _ d(1,2)] assms(2) by simp
qed (use assms(3) in simp)

lemma encryptedExtensions_round_trip:
  assumes B: "builder_ok B" and "reader_ok R" and raw: "ee_raw m = None"
    and ms: "marshal_encryptedExtensions B m = Some (bs, m')"
  shows "m' = m\<lparr>ee_raw := Some bs\<rparr> \<and> unmarshal_encryptedExtensions R bs = Some m'"
proof -
  have R: "R = plain_reader" using reader_unique [OF assms(2)] .
  from ms raw have b: "marshal_body B typeEncryptedExtensions (encryptedExtensions_body B m) = Some bs"
    and m': "m' = m\<lparr>ee_raw := Some bs\<rparr>" by (auto simp: marshal_encryptedExtensions_def)
  from marshal_body_Some [OF B writes_encryptedExtensions [OF B] b] obtain d where
    d: "lpb 2 (block_bytes (encryptedExtensions_entries m)) = Some d" "bs = typeEncryptedExtensions # lps 3 d" by blast
  from lpb_block_Some [OF d(1)] obtain z where z: "block_bytes (encryptedExtensions_entries m) = Some z" "length z < 65536" "d = lps 2 z" .
  let ?a = "\<lparr>ee_raw = Some bs, ee_alpnProtocol = []\<rparr>"
  have "unmarshal_encryptedExtensions R bs = run_block (encryptedExtensions_extension plain_reader) (encryptedExtensions_entries m) ?a"
    unfolding R unmarshal_encryptedExtensions_def d(2) skip_header
    using z(2) by (simp add: z(3) read_extensions_block [OF z(1)])
  also have "\<dots> = run_block (encryptedExtensions_extension plain_reader) [] m'"
    unfolding encryptedExtensions_entries_def
  proof (rule run_alpn_entry)
    show "entry_ok (0 < length (ee_alpnProtocol m), extensionALPN, lpb 2 (lpb 1 (Some (ee_alpnProtocol m))))"
      using block_bytes_ok [OF z(1)] by (simp add: encryptedExtensions_entries_def)
  qed (use raw in \<open>simp_all add: encryptedExtensions_extension_def m'\<close>)
  finally show ?thesis using m' by simp
qed

lemma keyUpdate_round_trip:
  assumes B: "builder_ok B" and "reader_ok R" and raw: "ku_raw m = None"
    and ms: "marshal_keyUpdate B m = Some (bs, m')"
  shows "m' = m\<lparr>ku_raw := Some bs\<rparr> \<and> unmarshal_keyUpdate R bs = Some m'"
proof -
  have R: "R = plain_reader" using reader_unique [OF assms(2)] .
  let ?n = "if ku_updateRequested m then 1 else 0 :: nat"
  have n: "(if ku_updateRequested m then b_uint B 1 1 else b_uint B 1 0) = b_uint B 1 ?n" by simp
  from ms raw have b: "marshal_body B typeKeyUpdate (b_uint B 1 ?n) = Some bs"
    and m': "m' = m\<lparr>ku_raw := Some bs\<rparr>" unfolding marshal_keyUpdate_def n by auto
  obtain x where "Some (be_enc 1 ?n) = Some x" "bs = typeKeyUpdate # lps 3 x"
    by (rule marshal_body_Some [OF B writes_uint [OF B] b])
  then have bs: "bs = typeKeyUpdate # lps 3 (be_enc 1 ?n)" by simp
  have sk: "r_skip plain_reader 4 bs = Some [if ku_updateRequested m then 1 else 0]" unfolding bs skip_header by simp
  have "unmarshal_keyUpdate R bs = Some \<lparr>ku_raw = Some bs, ku_updateRequested = ku_updateRequested m\<rparr>"
    unfolding R unmarshal_keyUpdate_def sk by simp
  then show ?thesis unfolding m' by simp
qed

section \<open>NewSessionTicket\<close>

definition newSessionTicketTLS13_entries :: "newSessionTicketMsgTLS13 \<Rightarrow> entry list" where
  "newSessionTicketTLS13_entries m =
     [(nst_maxEarlyData m > 0, extensionEarlyData, Some (be_enc 4 (unat (nst_maxEarlyData m))))]"

definition newSessionTicketTLS13_bytes :: "newSessionTicketMsgTLS13 \<Rightarrow> bytes option" where
  "newSessionTicketTLS13_bytes m = cat (Some (be_enc 4 (unat (nst_lifetime m)))) (cat (Some (be_enc 4 (unat (nst_ageAdd m))))
     (cat (lpb 1 (Some (nst_nonce m))) (cat (lpb 2 (Some (nst_label m)))
       (cat (lpb 2 (block_bytes (newSessionTicketTLS13_entries m))) (Some [])))))"

lemma writes_newSessionTicketTLS13:
  assumes B: "builder_ok B"
  shows "writes B (newSessionTicketTLS13_body B m) (newSessionTicketTLS13_bytes m)"
proof -
  have e: "writes B (steps [guarded (nst_maxEarlyData m > 0) (steps [b_uint B 2 (unat extensionEarlyData),
      lp B 2 (b_uint B 4 (unat (nst_maxEarlyData m)))])]) (block_bytes (newSessionTicketTLS13_entries m))"
    unfolding newSessionTicketTLS13_entries_def
    by (intro writes_block1 writes_entry writes_uint B)
  show ?thesis unfolding newSessionTicketTLS13_body_def newSessionTicketTLS13_bytes_def
    by (intro writes_steps_Cons writes_steps_Nil writes_uint writes_lp writes_bytes e B)
qed

lemma newSessionTicketTLS13_round_trip:
  assumes B: "builder_ok B" and "reader_ok R" and raw: "nst_raw m = None"
    and ms: "marshal_newSessionTicketTLS13 B m = Some (bs, m')"
  shows "m' = m\<lparr>nst_raw := Some bs\<rparr> \<and> unmarshal_newSessionTicketTLS13 R bs = Some m'"
proof -
  have R: "R = plain_reader" using reader_unique [OF assms(2)] .
  from ms raw have b: "marshal_body B typeNewSessionTicket (newSessionTicketTLS13_body B m) = Some bs"
    and m': "m' = m\<lparr>nst_raw := Some bs\<rparr>" by (auto simp: marshal_newSessionTicketTLS13_def)
  from marshal_body_Some [OF B writes_newSessionTicketTLS13 [OF B] b] obtain d where
    d: "newSessionTicketTLS13_bytes m = Some d" "bs = typeNewSessionTicket # lps 3 d" by blast
  from d(1) obtain z where z: "block_bytes (newSessionTicketTLS13_entries m) = Some z" "length z < 65536"
    and l: "length (nst_nonce m) < 256 ^ 1" "length (nst_label m) < 256 ^ 2"
    and d': "d = be_enc 4 (unat (nst_lifetime m)) @ be_enc 4 (unat (nst_ageAdd m)) @ lps 1 (nst_nonce m) @ lps 2 (nst_label m) @ lps 2 z"
    by (auto simp: newSessionTicketTLS13_bytes_def cat_eq_Some lpb_eq_Some lps_def)
  let ?a = "\<lparr>nst_raw = Some bs, nst_lifetime = nst_lifetime m, nst_ageAdd = nst_ageAdd m, nst_nonce = nst_nonce m,
      nst_label = nst_label m, nst_maxEarlyData = 0\<rparr>"
  have "unmarshal_newSessionTicketTLS13 R bs =
      run_block (newSessionTicketTLS13_extension plain_reader) (newSessionTicketTLS13_entries m) ?a"
    unfolding R unmarshal_newSessionTicketTLS13_def d(2) skip_header d'
    using z(2) l by (simp add: read_extensions_block [OF z(1)] del: be_enc.simps)
  also have "\<dots> = run_block (newSessionTicketTLS13_extension plain_reader) [] m'"
    unfolding newSessionTicketTLS13_entries_def
  proof (rule run_entry)
    have "read_u32 plain_reader (be_enc 4 (unat x)) = Some (x, [])" for x :: u32
      using read_u32_enc [of x "[]"] by simp
    then show "newSessionTicketTLS13_extension plain_reader extensionEarlyData (the (Some (be_enc 4 (unat (nst_maxEarlyData m)))))
        (the (block_bytes [])) ?a = Some (m', [])"
      by (simp add: newSessionTicketTLS13_extension_def m')
  next
    assume "\<not> 0 < nst_maxEarlyData m"
    then have "nst_maxEarlyData m = 0" using word_neq_0_conv by blast
    then show "m' = ?a" unfolding m' by (cases m) simp
  qed
  finally show ?thesis using m' by simp
qed

text \<open>The ticket length has two bytes, whatever its value.\<close>

lemma message_bytes_header:
  "take 3 (drop 1 (message_bytes t x)) = be_enc 3 (length x)" "drop 4 (message_bytes t x) = x"
  "length (message_bytes t x) = 4 + length x"
  by (simp_all add: message_bytes_def)

lemma newSessionTicket_round_trip:
  assumes "st_raw m = None" and "length (st_ticket m) < 65536" and "marshal_newSessionTicket m = (bs, m')"
  shows "m' = m\<lparr>st_raw := Some bs\<rparr> \<and> unmarshal_newSessionTicket bs = Some m'"
proof -
  from assms have bs: "bs = message_bytes typeNewSessionTicket (replicate 4 0 @ be_enc 2 (length (st_ticket m)) @ st_ticket m)"
    and m': "m' = m\<lparr>st_raw := Some bs\<rparr>" by (auto simp: marshal_newSessionTicket_def Let_def)
  have d: "drop (Suc 7) bs = be_enc 2 (length (st_ticket m)) @ st_ticket m" "drop 10 bs = st_ticket m"
    unfolding bs message_bytes_def by (simp_all add: drop_Cons' del: be_enc.simps)
  have "take 3 (drop 1 bs) = be_enc 3 (length (st_ticket m) + 6)" "length bs = length (st_ticket m) + 10"
    unfolding bs message_bytes_header by (simp_all add: add.commute)
  then have "unmarshal_newSessionTicket bs = Some \<lparr>st_raw = Some bs, st_ticket = st_ticket m\<rparr>"
    using assms(2) d by (simp add: unmarshal_newSessionTicket_def be_dec_enc)
  then show ?thesis unfolding m' by simp
qed

section \<open>CertificateRequest of TLS 1.3\<close>

abbreviation (input) "RE \<equiv> certificateRequestTLS13_extension plain_reader"

definition certificateRequestTLS13_entries :: "certificateRequestMsgTLS13 \<Rightarrow> entry list" where
  "certificateRequestTLS13_entries m = [
     (cr13_ocspStapling m, extensionStatusRequest, Some []),
     (cr13_scts m, extensionSCT, Some []),
     (length (cr13_supportedSignatureAlgorithms m) > 0, extensionSignatureAlgorithms,
       lpb 2 (Some (u16s_bytes (cr13_supportedSignatureAlgorithms m)))),
     (length (cr13_supportedSignatureAlgorithmsCert m) > 0, extensionSignatureAlgorithmsCert,
       lpb 2 (Some (u16s_bytes (cr13_supportedSignatureAlgorithmsCert m)))),
     (length (cr13_certificateAuthorities m) > 0, extensionCertificateAuthorities,
       lpb 2 (cats (\<lambda>x. lpb 2 (Some x)) (cr13_certificateAuthorities m)))]"

lemma writes_certificateRequestTLS13:
  assumes B: "builder_ok B"
  shows "writes B (steps (certificateRequestTLS13_extensions B m)) (block_bytes (certificateRequestTLS13_entries m))"
  unfolding certificateRequestTLS13_extensions_def certificateRequestTLS13_entries_def
  by (rule writes_block, simp only: list_all2_Cons list.rel_inject(1) simp_thms, intro conjI)
    (intro writes_entry writes_empty_entry writes_cats writes_u16s writes_lp writes_bytes B)+

lemma cr13_flags:
  "cr13_ocspStapling a = False \<Longrightarrow>
     run_block RE ((c, extensionStatusRequest, Some []) # es) a = run_block RE es (a\<lparr>cr13_ocspStapling := c\<rparr>)"
  "cr13_scts a = False \<Longrightarrow> run_block RE ((c, extensionSCT, Some []) # es) a = run_block RE es (a\<lparr>cr13_scts := c\<rparr>)"
  by (rule run_entry, simp add: certificateRequestTLS13_extension_def extension_defs, cases a, simp)+

lemma cr13_algs:
  assumes "entry_ok (length x > 0, extensionSignatureAlgorithms, lpb 2 (Some (u16s_bytes x)))" and "cr13_supportedSignatureAlgorithms a = []"
  shows "run_block RE ((length x > 0, extensionSignatureAlgorithms, lpb 2 (Some (u16s_bytes x))) # es) a =
    run_block RE es (a\<lparr>cr13_supportedSignatureAlgorithms := x\<rparr>)"
  by (rule run_lp [OF assms(1)])
    (use assms(2) in \<open>simp add: certificateRequestTLS13_extension_def extension_defs del: length_concat\<close>, use assms(2) in \<open>cases a, simp\<close>)

lemma cr13_algsCert:
  assumes "entry_ok (length x > 0, extensionSignatureAlgorithmsCert, lpb 2 (Some (u16s_bytes x)))"
    and "cr13_supportedSignatureAlgorithmsCert a = []"
  shows "run_block RE ((length x > 0, extensionSignatureAlgorithmsCert, lpb 2 (Some (u16s_bytes x))) # es) a =
    run_block RE es (a\<lparr>cr13_supportedSignatureAlgorithmsCert := x\<rparr>)"
  by (rule run_lp [OF assms(1)])
    (use assms(2) in \<open>simp add: certificateRequestTLS13_extension_def extension_defs del: length_concat\<close>, use assms(2) in \<open>cases a, simp\<close>)

text \<open>A list of byte strings as the data of an extension.\<close>

lemma run_strings:
  assumes "entry_ok (c, e, lpb 2 (cats (\<lambda>x. lpb 2 (Some x)) x))" and "c \<longleftrightarrow> x \<noteq> []" and "\<forall>y \<in> set x. y \<noteq> []"
    and "\<And>d. read_strings plain_reader (lps 2 d) [] = Some (x, []) \<Longrightarrow> ext e (lps 2 d) (the (block_bytes es)) a = Some (a', [])"
    and "x = [] \<Longrightarrow> a' = a"
  shows "run_block ext ((c, e, lpb 2 (cats (\<lambda>x. lpb 2 (Some x)) x)) # es) a = run_block ext es a'"
proof (rule run_entry)
  assume c
  from entry_lpb [OF assms(1) this] obtain d where
    d: "cats (\<lambda>x. lpb 2 (Some x)) x = Some d" "length d < 65536" "lpb 2 (cats (\<lambda>x. lpb 2 (Some x)) x) = Some (lps 2 d)"
    by auto
  from \<open>c\<close> have "x \<noteq> []" using assms(2) by simp
  from assms(4) [OF read_strings_lps [OF d(1) this assms(3) d(2)]]
  show "ext e (the (lpb 2 (cats (\<lambda>x. lpb 2 (Some x)) x))) (the (block_bytes es)) a = Some (a', [])"
    unfolding d(3) by simp
qed (use assms(2,5) in simp)

definition certificateRequestTLS13_ok :: "certificateRequestMsgTLS13 \<Rightarrow> bool" where
  "certificateRequestTLS13_ok m \<longleftrightarrow> (\<forall>ca \<in> set (cr13_certificateAuthorities m). ca \<noteq> [])"

lemma run_certificateRequestTLS13:
  assumes "block_bytes (certificateRequestTLS13_entries m) = Some z" and "certificateRequestTLS13_ok m"
    and a: "a = \<lparr>cr13_raw = r, cr13_ocspStapling = False, cr13_scts = False, cr13_supportedSignatureAlgorithms = [],
      cr13_supportedSignatureAlgorithmsCert = [], cr13_certificateAuthorities = []\<rparr>"
  shows "run_block RE (certificateRequestTLS13_entries m) a = Some (m\<lparr>cr13_raw := r\<rparr>)"
proof -
  have ok: "list_all entry_ok (certificateRequestTLS13_entries m)" using block_bytes_ok [OF assms(1)] .
  let ?b = "a\<lparr>cr13_ocspStapling := cr13_ocspStapling m, cr13_scts := cr13_scts m,
      cr13_supportedSignatureAlgorithms := cr13_supportedSignatureAlgorithms m,
      cr13_supportedSignatureAlgorithmsCert := cr13_supportedSignatureAlgorithmsCert m\<rparr>"
  let ?e = "(length (cr13_certificateAuthorities m) > 0, extensionCertificateAuthorities,
      lpb 2 (cats (\<lambda>x. lpb 2 (Some x)) (cr13_certificateAuthorities m)))"
  have "run_block RE (certificateRequestTLS13_entries m) a = run_block RE [?e] ?b"
    using ok unfolding certificateRequestTLS13_entries_def list.pred_inject
    apply (elim conjE)
    apply (subst cr13_flags(1), simp add: a, subst cr13_flags(2), simp add: a)
    apply (subst cr13_algs, assumption, simp add: a, subst cr13_algsCert, assumption, simp add: a)
    apply (rule refl)
    done
  also have "\<dots> = run_block RE [] (m\<lparr>cr13_raw := r\<rparr>)"
  proof (rule run_strings)
    show "entry_ok ?e" using ok by (simp add: certificateRequestTLS13_entries_def)
    show "\<forall>y \<in> set (cr13_certificateAuthorities m). y \<noteq> []" using assms(2) by (simp add: certificateRequestTLS13_ok_def)
  next
    fix d
    assume "read_strings plain_reader (lps 2 d) [] = Some (cr13_certificateAuthorities m, [])"
    then show "RE extensionCertificateAuthorities (lps 2 d) (the (block_bytes [])) ?b = Some (m\<lparr>cr13_raw := r\<rparr>, [])"
      by (simp add: certificateRequestTLS13_extension_def extension_defs a)
  next
    assume "cr13_certificateAuthorities m = []"
    then show "m\<lparr>cr13_raw := r\<rparr> = ?b" by (cases m) (simp add: a)
  qed simp
  finally show ?thesis by simp
qed

lemma certificateRequestTLS13_round_trip:
  assumes B: "builder_ok B" and "reader_ok R" and ok: "certificateRequestTLS13_ok m" and raw: "cr13_raw m = None"
    and ms: "marshal_certificateRequestTLS13 B m = Some (bs, m')"
  shows "m' = m\<lparr>cr13_raw := Some bs\<rparr> \<and> unmarshal_certificateRequestTLS13 R bs = Some m'"
proof -
  have R: "R = plain_reader" using reader_unique [OF assms(2)] .
  from ms raw have b: "marshal_body B typeCertificateRequest
      (steps [b_uint B 1 0, lp B 2 (steps (certificateRequestTLS13_extensions B m))]) = Some bs"
    and m': "m' = m\<lparr>cr13_raw := Some bs\<rparr>" by (auto simp: marshal_certificateRequestTLS13_def)
  have w: "writes B (steps [b_uint B 1 0, lp B 2 (steps (certificateRequestTLS13_extensions B m))])
      (cat (Some (be_enc 1 0)) (lpb 2 (block_bytes (certificateRequestTLS13_entries m))))"
    by (intro writes_two writes_uint writes_lp writes_certificateRequestTLS13 B)
  from marshal_body_Some [OF B w b] obtain d where
    "cat (Some (be_enc 1 0)) (lpb 2 (block_bytes (certificateRequestTLS13_entries m))) = Some d"
    and d: "bs = typeCertificateRequest # lps 3 d" by blast
  then obtain z where z: "block_bytes (certificateRequestTLS13_entries m) = Some z" "length z < 65536" "d = be_enc 1 0 @ lps 2 z"
    by (auto simp: cat_eq_Some lpb_eq_Some lps_def)
  let ?a = "\<lparr>cr13_raw = Some bs, cr13_ocspStapling = False, cr13_scts = False, cr13_supportedSignatureAlgorithms = [],
      cr13_supportedSignatureAlgorithmsCert = [], cr13_certificateAuthorities = []\<rparr>"
  have "plain_lp 1 (be_enc 1 0 @ r) = Some ([], r)" for r using plain_lp_append [of "[]" 1 r] by simp
  then have "unmarshal_certificateRequestTLS13 R bs = run_block RE (certificateRequestTLS13_entries m) ?a"
    unfolding R unmarshal_certificateRequestTLS13_def d skip_header z(3)
    using z(2) by (simp add: read_extensions_block [OF z(1)] del: be_enc.simps)
  also have "\<dots> = Some m'" unfolding m' by (rule run_certificateRequestTLS13 [OF z(1) ok refl])
  finally show ?thesis using m' by simp
qed

section \<open>CertificateRequest before TLS 1.3\<close>

text \<open>
  The lengths written are the true ones only when they fit their fields; reading needs at least one
  certificate type and an even number of bytes of algorithms, which is always so.
\<close>

definition certificateRequest_ok :: "certificateRequestMsg \<Rightarrow> bool" where
  "certificateRequest_ok m \<longleftrightarrow>
     cr_certificateTypes m \<noteq> [] \<and> length (cr_certificateTypes m) < 256 \<and>
     (if cr_hasSignatureAlgorithm m then length (cr_supportedSignatureAlgorithms m) < 32768
      else cr_supportedSignatureAlgorithms m = []) \<and>
     sum_list (map (\<lambda>ca. 2 + length ca) (cr_certificateAuthorities m)) < 65536"

lemma take_u16s_bytes: "take_u16s (length xs) (u16s_bytes xs @ r) = (xs, r)"
  by (induction xs) (simp_all add: be_dec_enc del: be_enc.simps)

lemma read_sigAlgs_bytes:
  assumes "length xs < 32768"
  shows "read_sigAlgs (be_enc 2 (length xs * 2) @ u16s_bytes xs @ r) = Some (xs, r)"
proof -
  have "length (u16s_bytes xs) = length xs * 2" by (induction xs) simp_all
  with assms show ?thesis
    by (simp add: read_sigAlgs_def be_dec_enc take_u16s_bytes Let_def del: be_enc.simps length_concat)
qed

lemma read_authorities_bytes:
  "\<forall>ca \<in> set cas. length ca < 65536 \<Longrightarrow> read_authorities (concat (map (\<lambda>ca. be_enc 2 (length ca) @ ca) cas)) = Some cas"
proof (induction cas)
  case Nil
  show ?case by (subst read_authorities.simps) simp
next
  case (Cons ca cas)
  have "be_enc 2 (length ca) @ x \<noteq> []" for x by simp
  with Cons show ?case
    by (subst read_authorities.simps) (simp add: be_dec_enc Let_def del: be_enc.simps)
qed

lemma length_authorities:
  "length (concat (map (\<lambda>ca. be_enc 2 (length ca) @ ca) cas)) = sum_list (map (\<lambda>ca. 2 + length ca) cas)"
  by (induction cas) simp_all

lemma certificateRequest_round_trip:
  assumes ok: "certificateRequest_ok m" and raw: "cr_raw m = None"
    and len: "length (certificateRequest_body m) < 16777216" and ms: "marshal_certificateRequest m = (bs, m')"
  shows "m' = m\<lparr>cr_raw := Some bs\<rparr> \<and> unmarshal_certificateRequest (cr_hasSignatureAlgorithm m) bs = Some m'"
proof -
  let ?types = "cr_certificateTypes m" and ?algs = "cr_supportedSignatureAlgorithms m"
  let ?cas = "concat (map (\<lambda>ca. be_enc 2 (length ca) @ ca) (cr_certificateAuthorities m))"
  let ?mid = "if cr_hasSignatureAlgorithm m then be_enc 2 (length ?algs * 2) @ u16s_bytes ?algs else []"
  let ?n = "length ?cas"
  note m = ok [unfolded certificateRequest_ok_def, folded length_authorities]
  from ms raw have bs: "bs = message_bytes typeCertificateRequest (certificateRequest_body m)"
    and m': "m' = m\<lparr>cr_raw := Some bs\<rparr>" by (auto simp: marshal_certificateRequest_def Let_def)
  have body: "certificateRequest_body m = word_of_nat (length ?types) # ?types @ ?mid @ be_enc 2 ?n @ ?cas"
    by (simp add: certificateRequest_body_def Let_def length_authorities)
  have b4: "bs ! 4 = word_of_nat (length ?types)" "drop 5 bs = ?types @ ?mid @ be_enc 2 ?n @ ?cas"
    "length bs = 4 + length (certificateRequest_body m)" "take 3 (drop 1 bs) = be_enc 3 (length (certificateRequest_body m))"
    unfolding bs message_bytes_def by (simp_all add: body nth_Cons' nth_append)
  have lb: "length (certificateRequest_body m) = 1 + length ?types + length ?mid + 2 + ?n" by (simp add: body)
  have t: "0 < length ?types" "length ?types < 256" using m by auto
  have cas: "\<forall>ca \<in> set (cr_certificateAuthorities m). length ca < 65536"
  proof
    fix ca assume "ca \<in> set (cr_certificateAuthorities m)"
    from member_le_sum_list [of "2 + length ca" "map (\<lambda>ca. 2 + length ca) (cr_certificateAuthorities m)"] this
    have "2 + length ca \<le> sum_list (map (\<lambda>ca. 2 + length ca) (cr_certificateAuthorities m))" by auto
    with m show "length ca < 65536" by (simp add: length_authorities)
  qed
  have algs: "(if cr_hasSignatureAlgorithm m then read_sigAlgs (?mid @ be_enc 2 ?n @ ?cas)
      else Some ([], ?mid @ be_enc 2 ?n @ ?cas)) = Some (?algs, be_enc 2 ?n @ ?cas)"
    using m read_sigAlgs_bytes [of ?algs "be_enc 2 ?n @ ?cas"] by (cases "cr_hasSignatureAlgorithm m") auto
  have "unmarshal_certificateRequest (cr_hasSignatureAlgorithm m) bs =
      Some \<lparr>cr_raw = Some bs, cr_hasSignatureAlgorithm = cr_hasSignatureAlgorithm m, cr_certificateTypes = ?types,
        cr_supportedSignatureAlgorithms = ?algs, cr_certificateAuthorities = cr_certificateAuthorities m\<rparr>"
  proof -
    have n: "unat (bs ! 4) = length ?types" using t(2) by (simp add: b4(1))
    have d: "drop (length ?types) (drop 5 bs) = ?mid @ be_enc 2 ?n @ ?cas" "take (length ?types) (drop 5 bs) = ?types"
      unfolding b4(2) by simp_all
    have g: "\<not> length bs < 5" "length bs - 4 = be_dec (take 3 (drop 1 bs))"
      "\<not> (length ?types = 0 \<or> length (drop 5 bs) \<le> length ?types)"
      using t len lb unfolding b4 be_dec_enc by simp_all
    have c: "?n < 65536" using m by simp
    show ?thesis
      unfolding unmarshal_certificateRequest_def Let_def n d algs bind.bind_lunit prod.case
      using g c read_authorities_bytes [OF cas] by (simp add: be_dec_enc del: be_enc.simps length_concat)
  qed
  then show ?thesis unfolding m' by simp
qed

section \<open>Certificate before TLS 1.3\<close>

definition certificate_ok :: "certificateMsg \<Rightarrow> bool" where
  "certificate_ok m \<longleftrightarrow>
     (\<forall>c \<in> set (cm_certificates m). c \<noteq> []) \<and>
     3 * length (cm_certificates m) + sum_list (map length (cm_certificates m)) < 16777216"

abbreviation certs_bytes :: "bytes list \<Rightarrow> bytes" where
  "certs_bytes cs \<equiv> concat (map (\<lambda>slice. be_enc 3 (length slice) @ slice) cs)"

lemma length_certs_bytes: "length (certs_bytes cs) = 3 * length cs + sum_list (map length cs)"
  by (induction cs) simp_all

lemma count_certs_bytes:
  "\<forall>c \<in> set cs. c \<noteq> [] \<and> length c < 16777216 \<Longrightarrow> count_certs (length (certs_bytes cs)) (certs_bytes cs) = Some (length cs)"
proof (induction cs)
  case (Cons c cs)
  then have "0 < length c" by simp
  with Cons show ?case
    by (subst count_certs.simps) (simp add: be_dec_enc Let_def del: be_enc.simps length_concat)
qed (simp add: count_certs.simps)

lemma cut_certs_bytes: "\<forall>c \<in> set cs. length c < 16777216 \<Longrightarrow> cut_certs (length cs) (certs_bytes cs) = cs"
  by (induction cs) (simp_all add: be_dec_enc Let_def del: be_enc.simps)

lemma certificate_round_trip:
  assumes ok: "certificate_ok m" and raw: "cm_raw m = None" and ms: "marshal_certificate m = (bs, m')"
  shows "m' = m\<lparr>cm_raw := Some bs\<rparr> \<and> unmarshal_certificate bs = Some m'"
proof -
  let ?cs = "cm_certificates m"
  let ?n = "length (certs_bytes ?cs)"
  from ms raw have bs: "bs = [typeCertificate] @ be_enc 3 (3 + ?n) @ be_enc 3 ?n @ certs_bytes ?cs"
    and m': "m' = m\<lparr>cm_raw := Some bs\<rparr>" by (auto simp: marshal_certificate_def Let_def length_certs_bytes add.assoc)
  have l: "?n < 16777216" using ok unfolding certificate_ok_def length_certs_bytes by simp
  have c: "\<forall>c \<in> set ?cs. c \<noteq> [] \<and> length c < 16777216"
  proof
    fix c assume c: "c \<in> set ?cs"
    then have "length c \<le> sum_list (map length ?cs)" using member_le_sum_list [of "length c" "map length ?cs"] by auto
    with ok c show "c \<noteq> [] \<and> length c < 16777216" by (auto simp: certificate_ok_def)
  qed
  have d: "drop 4 bs = be_enc 3 ?n @ certs_bytes ?cs" "drop 7 bs = certs_bytes ?cs" "length bs = ?n + 7"
    unfolding bs by (simp_all add: drop_Cons' del: be_enc.simps length_concat)
  have "unmarshal_certificate bs = Some \<lparr>cm_raw = Some bs, cm_certificates = ?cs\<rparr>"
    unfolding unmarshal_certificate_def d using l c
    by (simp add: be_dec_enc count_certs_bytes cut_certs_bytes del: be_enc.simps length_concat)
  then show ?thesis unfolding m' by simp
qed

section \<open>Certificate of TLS 1.3\<close>

abbreviation (input) "LE \<equiv> certificate_extension plain_reader"

definition leaf_entries :: "Certificate \<Rightarrow> entry list" where
  "leaf_entries c = [
     (crt_OCSPStaple c \<noteq> None, extensionStatusRequest,
       cat (Some (be_enc 1 (unat statusTypeOCSP))) (lpb 3 (Some (the (crt_OCSPStaple c))))),
     (crt_SCTs c \<noteq> None, extensionSCT, lpb 2 (cats (\<lambda>x. lpb 2 (Some x)) (the (crt_SCTs c))))]"

definition certificate_entry :: "Certificate \<Rightarrow> nat \<times> bytes \<Rightarrow> bytes option" where
  "certificate_entry c x = cat (lpb 3 (Some (snd x))) (lpb 2 (if fst x > 0 then Some [] else block_bytes (leaf_entries c)))"

lemma leaf_extensions_guarded:
  "leaf_extensions B c = [
     guarded (crt_OCSPStaple c \<noteq> None) (steps [
       b_uint B 2 (unat extensionStatusRequest),
       lp B 2 (steps [b_uint B 1 (unat statusTypeOCSP), lp B 3 (b_bytes B (the (crt_OCSPStaple c)))])]),
     guarded (crt_SCTs c \<noteq> None) (steps [
       b_uint B 2 (unat extensionSCT),
       lp B 2 (lp B 2 (steps (map (\<lambda>sct. lp B 2 (b_bytes B sct)) (the (crt_SCTs c)))))])]"
  by (cases "crt_OCSPStaple c"; cases "crt_SCTs c") (simp_all add: leaf_extensions_def guarded_def fun_eq_iff)

lemma writes_marshalCertificate:
  assumes B: "builder_ok B"
  shows "writes B (marshalCertificate B c) (lpb 3 (cats (certificate_entry c) (enumerate 0 (crt_Certificate c))))"
proof -
  have e: "writes B (steps (leaf_extensions B c)) (block_bytes (leaf_entries c))"
    unfolding leaf_extensions_guarded leaf_entries_def
    by (rule writes_block, simp only: list_all2_Cons list.rel_inject(1) simp_thms, intro conjI)
      (intro writes_entry writes_two writes_cats writes_lp writes_bytes writes_uint B)+
  have "writes B ((\<lambda>(i, cert). steps [lp B 3 (b_bytes B cert),
      lp B 2 (if i > 0 then steps [] else steps (leaf_extensions B c))]) x) (certificate_entry c x)" for x :: "nat \<times> bytes"
  proof -
    have "writes B (if fst x > 0 then steps [] else steps (leaf_extensions B c))
        (if fst x > 0 then Some [] else block_bytes (leaf_entries c))"
      using e by (simp add: writes_steps_Nil)
    from writes_two [OF writes_lp [OF B writes_bytes [OF B, of "snd x"], of 3] writes_lp [OF B this, of 2]]
    show ?thesis by (cases x) (simp add: certificate_entry_def)
  qed
  then show ?thesis unfolding marshalCertificate_def by (intro writes_lp writes_cats B)
qed

definition certificateTLS13_ok :: "certificateMsgTLS13 \<Rightarrow> bool" where
  "certificateTLS13_ok m \<longleftrightarrow>
     (let c = c13_certificate m
      in (c13_ocspStapling m \<longleftrightarrow> crt_OCSPStaple c \<noteq> None) \<and> (c13_scts m \<longleftrightarrow> crt_SCTs c \<noteq> None) \<and>
         crt_OCSPStaple c \<noteq> Some [] \<and> crt_SCTs c \<noteq> Some [] \<and>
         (\<forall>scts. crt_SCTs c = Some scts \<longrightarrow> (\<forall>sct \<in> set scts. sct \<noteq> [])) \<and>
         (crt_Certificate c = [] \<longrightarrow> crt_OCSPStaple c = None \<and> crt_SCTs c = None))"

lemma run_leaf:
  assumes "block_bytes (leaf_entries c) = Some z" and "crt_OCSPStaple c \<noteq> Some []" and "crt_SCTs c \<noteq> Some []"
    and "\<forall>scts. crt_SCTs c = Some scts \<longrightarrow> (\<forall>sct \<in> set scts. sct \<noteq> [])" and "length certs \<le> 1"
  shows "run_block LE (leaf_entries c) \<lparr>crt_Certificate = certs, crt_OCSPStaple = None, crt_SCTs = None\<rparr> =
    Some \<lparr>crt_Certificate = certs, crt_OCSPStaple = crt_OCSPStaple c, crt_SCTs = crt_SCTs c\<rparr>"
proof -
  have ok: "list_all entry_ok (leaf_entries c)" using block_bytes_ok [OF assms(1)] .
  let ?b = "\<lparr>crt_Certificate = certs, crt_OCSPStaple = crt_OCSPStaple c, crt_SCTs = None\<rparr>"
  let ?c = "\<lparr>crt_Certificate = certs, crt_OCSPStaple = crt_OCSPStaple c, crt_SCTs = crt_SCTs c\<rparr>"
  let ?e = "(crt_SCTs c \<noteq> None, extensionSCT, lpb 2 (cats (\<lambda>x. lpb 2 (Some x)) (the (crt_SCTs c))))"
  have "run_block LE (leaf_entries c) \<lparr>crt_Certificate = certs, crt_OCSPStaple = None, crt_SCTs = None\<rparr> = run_block LE [?e] ?b"
    unfolding leaf_entries_def
  proof (rule run_entry)
    assume "crt_OCSPStaple c \<noteq> None"
    with ok assms(2) obtain s where s: "crt_OCSPStaple c = Some s" "s \<noteq> []" "length s < 256 ^ 3"
      by (auto simp: leaf_entries_def entry_ok_def cat_eq_Some lpb_eq_Some)
    then have y: "cat (Some (be_enc 1 (unat statusTypeOCSP))) (lpb 3 (Some (the (crt_OCSPStaple c)))) = Some (statusTypeOCSP # lps 3 s)"
      by (simp add: lpb_def lps_def)
    show "LE extensionStatusRequest (the (cat (Some (be_enc 1 (unat statusTypeOCSP))) (lpb 3 (Some (the (crt_OCSPStaple c))))))
        (the (block_bytes [?e])) \<lparr>crt_Certificate = certs, crt_OCSPStaple = None, crt_SCTs = None\<rparr> = Some (?b, [])"
      unfolding y using s assms(5) by (simp add: certificate_extension_def extension_defs)
  qed simp
  also have "\<dots> = run_block LE [] ?c"
  proof (cases "crt_SCTs c")
    case (Some scts)
    show ?thesis
    proof (rule run_strings)
      show "entry_ok ?e" using ok by (simp add: leaf_entries_def)
      show "crt_SCTs c \<noteq> None \<longleftrightarrow> the (crt_SCTs c) \<noteq> []" "\<forall>y \<in> set (the (crt_SCTs c)). y \<noteq> []"
        using assms(3,4) Some by auto
      show "the (crt_SCTs c) = [] \<Longrightarrow> ?c = ?b" using assms(3) Some by simp
    qed (use Some assms(5) in \<open>simp add: certificate_extension_def extension_defs\<close>)
  qed simp
  finally show ?thesis by simp
qed

lemma consumes_read_certificate: "consumes (read_certificate plain_reader)"
  by (auto simp: consumes_def read_certificate_def bind_eq_Some_conv dest!: plain_lp_consumes)

lemma read_extensions_Nil [simp]: "read_extensions R ext [] m = Some m"
  by (simp add: read_extensions_def while_nonempty_def)

text \<open>The certificates after the first carry no extensions.\<close>

lemma read_rest:
  assumes "0 < i" and "cats (certificate_entry c) (enumerate i cs) = Some d"
  shows "while_nonempty (read_certificate plain_reader) d a = Some (a\<lparr>crt_Certificate := crt_Certificate a @ cs\<rparr>)"
  using assms
proof (induction cs arbitrary: i d a)
  case Nil
  then show ?case by (simp add: cats_def while_nonempty_def)
next
  case (Cons x cs)
  then obtain r where r: "cats (certificate_entry c) (enumerate (Suc i) cs) = Some r" "length x < 256 ^ 3"
    "d = lps 3 x @ lps 2 [] @ r"
    by (auto simp: cats_def certificate_entry_def cat_eq_Some lpb_eq_Some lps_def)
  have "d \<noteq> []" using r(3) by (simp add: lps_def)
  moreover have "read_certificate plain_reader d a = Some (a\<lparr>crt_Certificate := crt_Certificate a @ [x]\<rparr>, r)"
    using r(2) unfolding r(3) by (simp add: read_certificate_def)
  ultimately show ?case using Cons.IH [OF _ r(1)]
    by (simp add: while_nonempty_unfold [OF consumes_read_certificate, of d])
qed

lemma read_chain:
  assumes "cats (certificate_entry c) (enumerate 0 (crt_Certificate c)) = Some d"
    and "crt_OCSPStaple c \<noteq> Some []" and "crt_SCTs c \<noteq> Some []"
    and "\<forall>scts. crt_SCTs c = Some scts \<longrightarrow> (\<forall>sct \<in> set scts. sct \<noteq> [])"
    and "crt_Certificate c = [] \<longrightarrow> crt_OCSPStaple c = None \<and> crt_SCTs c = None"
  shows "while_nonempty (read_certificate plain_reader) d \<lparr>crt_Certificate = [], crt_OCSPStaple = None, crt_SCTs = None\<rparr> = Some c"
proof (cases "crt_Certificate c")
  case Nil
  with assms(1,5) show ?thesis by (cases c) (simp add: cats_def while_nonempty_def)
next
  case (Cons x cs)
  with assms(1) obtain z r where z: "block_bytes (leaf_entries c) = Some z" "length z < 65536" "length x < 256 ^ 3"
    and r: "cats (certificate_entry c) (enumerate (Suc 0) cs) = Some r" and d: "d = lps 3 x @ lps 2 z @ r"
    by (auto simp: cats_def certificate_entry_def cat_eq_Some lpb_eq_Some lps_def)
  let ?c = "\<lparr>crt_Certificate = [x], crt_OCSPStaple = crt_OCSPStaple c, crt_SCTs = crt_SCTs c\<rparr>"
  have "d \<noteq> []" using d by (simp add: lps_def)
  moreover have "read_certificate plain_reader d \<lparr>crt_Certificate = [], crt_OCSPStaple = None, crt_SCTs = None\<rparr> = Some (?c, r)"
    using z(2,3) run_leaf [OF z(1) assms(2-4), of "[x]"] unfolding d
    by (simp add: read_certificate_def read_extensions_block [OF z(1)])
  ultimately show ?thesis using read_rest [OF _ r, of ?c] Cons
    by (cases c) (simp add: while_nonempty_unfold [OF consumes_read_certificate, of d])
qed

lemma certificateTLS13_round_trip:
  assumes B: "builder_ok B" and "reader_ok R" and ok: "certificateTLS13_ok m" and raw: "c13_raw m = None"
    and ms: "marshal_certificateTLS13 B m = Some (bs, m')"
  shows "m' = m\<lparr>c13_raw := Some bs\<rparr> \<and> unmarshal_certificateTLS13 R bs = Some m'"
proof -
  have R: "R = plain_reader" using reader_unique [OF assms(2)] .
  let ?c = "c13_certificate m"
  note m = ok [unfolded certificateTLS13_ok_def Let_def]
  have "(if \<not> c13_ocspStapling m then ?c\<lparr>crt_OCSPStaple := None\<rparr> else ?c) = ?c" using m by (cases ?c) auto
  moreover have "(if \<not> c13_scts m then ?c\<lparr>crt_SCTs := None\<rparr> else ?c) = ?c" using m by (cases ?c) auto
  ultimately have b: "marshal_body B typeCertificate (steps [b_uint B 1 0, marshalCertificate B ?c]) = Some bs"
    and m': "m' = m\<lparr>c13_raw := Some bs\<rparr>" using ms raw by (auto simp: marshal_certificateTLS13_def Let_def)
  from marshal_body_Some [OF B writes_two [OF writes_uint [OF B] writes_marshalCertificate [OF B]] b] obtain d where
    "cat (Some (be_enc 1 0)) (lpb 3 (cats (certificate_entry ?c) (enumerate 0 (crt_Certificate ?c)))) = Some d"
    and bs: "bs = typeCertificate # lps 3 d" by blast
  then obtain z where z: "cats (certificate_entry ?c) (enumerate 0 (crt_Certificate ?c)) = Some z" "length z < 256 ^ 3"
    and d: "d = be_enc 1 0 @ lps 3 z" by (auto simp: cat_eq_Some lpb_eq_Some lps_def)
  have c: "while_nonempty (read_certificate plain_reader) z \<lparr>crt_Certificate = [], crt_OCSPStaple = None, crt_SCTs = None\<rparr> = Some ?c"
    using m by (intro read_chain [OF z(1)]) auto
  have "plain_lp 1 (be_enc 1 0 @ r) = Some ([], r)" for r using plain_lp_append [of "[]" 1 r] by simp
  then have "unmarshal_certificateTLS13 R bs = Some \<lparr>c13_raw = Some bs, c13_certificate = ?c,
      c13_ocspStapling = (crt_OCSPStaple ?c \<noteq> None), c13_scts = (crt_SCTs ?c \<noteq> None)\<rparr>"
    unfolding R unmarshal_certificateTLS13_def bs skip_header d
    using z(2) c by (simp add: unmarshalCertificate_def del: be_enc.simps)
  then show ?thesis unfolding m' using m by (cases m) auto
qed

section \<open>The messages without structure\<close>

lemma message_bytes_lps: "message_bytes t x = t # lps 3 x"
  by (simp add: message_bytes_def lps_def)

lemma serverKeyExchange_round_trip:
  "ske_raw m = None \<Longrightarrow> marshal_serverKeyExchange m = (bs, m') \<Longrightarrow>
   m' = m\<lparr>ske_raw := Some bs\<rparr> \<and> unmarshal_serverKeyExchange bs = Some m'"
  by (cases m) (auto simp: marshal_serverKeyExchange_def unmarshal_serverKeyExchange_def message_bytes_header Let_def)

lemma clientKeyExchange_round_trip:
  "cke_raw m = None \<Longrightarrow> length (cke_ciphertext m) < 16777216 \<Longrightarrow> marshal_clientKeyExchange m = (bs, m') \<Longrightarrow>
   m' = m\<lparr>cke_raw := Some bs\<rparr> \<and> unmarshal_clientKeyExchange bs = Some m'"
  by (cases m) (auto simp: marshal_clientKeyExchange_def unmarshal_clientKeyExchange_def be_dec_enc Let_def
      message_bytes_header message_bytes_header(1) [unfolded One_nat_def])

lemma certificateStatus_round_trip:
  assumes B: "builder_ok B" and "reader_ok R" and "cs_response m \<noteq> []" and raw: "cs_raw m = None"
    and ms: "marshal_certificateStatus B m = Some (bs, m')"
  shows "m' = m\<lparr>cs_raw := Some bs\<rparr> \<and> unmarshal_certificateStatus R bs = Some m'"
proof -
  have R: "R = plain_reader" using reader_unique [OF assms(2)] .
  from ms raw have b: "marshal_body B typeCertificateStatus
      (steps [b_uint B 1 (unat statusTypeOCSP), lp B 3 (b_bytes B (cs_response m))]) = Some bs"
    and m': "m' = m\<lparr>cs_raw := Some bs\<rparr>" by (auto simp: marshal_certificateStatus_def)
  from marshal_body_Some [OF B writes_two [OF writes_uint [OF B] writes_lp [OF B writes_bytes [OF B]]] b] obtain d where
    "cat (Some (be_enc 1 (unat statusTypeOCSP))) (lpb 3 (Some (cs_response m))) = Some d" and bs: "bs = typeCertificateStatus # lps 3 d"
    by blast
  then have d: "d = statusTypeOCSP # lps 3 (cs_response m)" and l: "length (cs_response m) < 256 ^ 3"
    by (auto simp: cat_eq_Some lpb_eq_Some lps_def)
  have "unmarshal_certificateStatus R bs = Some \<lparr>cs_raw = Some bs, cs_response = cs_response m\<rparr>"
    unfolding R unmarshal_certificateStatus_def bs skip_header d using l assms(3) by simp
  then show ?thesis unfolding m' by simp
qed

lemma finished_round_trip:
  assumes B: "builder_ok B" and "reader_ok R" and raw: "fin_raw m = None" and ms: "marshal_finished B m = Some (bs, m')"
  shows "m' = m\<lparr>fin_raw := Some bs\<rparr> \<and> unmarshal_finished R bs = Some m'"
proof -
  have R: "R = plain_reader" using reader_unique [OF assms(2)] .
  from ms raw have b: "marshal_body B typeFinished (b_bytes B (fin_verifyData m)) = Some bs"
    and m': "m' = m\<lparr>fin_raw := Some bs\<rparr>" by (auto simp: marshal_finished_def)
  from marshal_body_Some [OF B writes_bytes [OF B] b] have bs: "bs = typeFinished # lps 3 (fin_verifyData m)"
    and l: "length (fin_verifyData m) < 256 ^ 3" by (metis option.sel)+
  have "unmarshal_finished R bs = Some \<lparr>fin_raw = Some bs, fin_verifyData = fin_verifyData m\<rparr>"
    unfolding R unmarshal_finished_def bs using l by (simp add: split_at_def)
  then show ?thesis unfolding m' by simp
qed

lemma certificateVerify_round_trip:
  assumes B: "builder_ok B" and "reader_ok R" and raw: "cv_raw m = None"
    and alg: "\<not> cv_hasSignatureAlgorithm m \<longrightarrow> cv_signatureAlgorithm m = 0"
    and ms: "marshal_certificateVerify B m = Some (bs, m')"
  shows "m' = m\<lparr>cv_raw := Some bs\<rparr> \<and> unmarshal_certificateVerify R (cv_hasSignatureAlgorithm m) bs = Some m'"
proof -
  have R: "R = plain_reader" using reader_unique [OF assms(2)] .
  let ?a = "if cv_hasSignatureAlgorithm m then be_enc 2 (unat (cv_signatureAlgorithm m)) else []"
  from ms raw have b: "marshal_body B typeCertificateVerify (steps [
      guarded (cv_hasSignatureAlgorithm m) (b_uint B 2 (unat (cv_signatureAlgorithm m))), lp B 2 (b_bytes B (cv_signature m))]) = Some bs"
    and m': "m' = m\<lparr>cv_raw := Some bs\<rparr>" by (auto simp: marshal_certificateVerify_def)
  have w: "writes B (steps [guarded (cv_hasSignatureAlgorithm m) (b_uint B 2 (unat (cv_signatureAlgorithm m))),
      lp B 2 (b_bytes B (cv_signature m))]) (cat (Some ?a) (lpb 2 (Some (cv_signature m))))"
    using writes_two [OF writes_guarded [OF writes_uint [OF B]] writes_lp [OF B writes_bytes [OF B]]]
    by (simp add: if_distrib [where f = Some])
  from marshal_body_Some [OF B w b] obtain d where
    "cat (Some ?a) (lpb 2 (Some (cv_signature m))) = Some d" and bs: "bs = typeCertificateVerify # lps 3 d"
    by blast
  then have d: "d = ?a @ lps 2 (cv_signature m)" and l: "length (cv_signature m) < 256 ^ 2"
    by (auto simp: cat_eq_Some lpb_eq_Some lps_def)
  have "unmarshal_certificateVerify R (cv_hasSignatureAlgorithm m) bs = Some \<lparr>cv_raw = Some bs,
      cv_hasSignatureAlgorithm = cv_hasSignatureAlgorithm m, cv_signatureAlgorithm = cv_signatureAlgorithm m,
      cv_signature = cv_signature m\<rparr>"
    unfolding R unmarshal_certificateVerify_def bs skip_header d using l alg
    by (cases "cv_hasSignatureAlgorithm m") (simp_all del: be_enc.simps)
  then show ?thesis unfolding m' by simp
qed

end
