(* ===== verification/Handshake.thy ===== *)
theory Handshake
  imports MessageLemmas ConnIO
begin

text \<open>
  Handshake messages on a connection: the interface \<open>handshakeMessage\<close> as a datatype, its \<open>marshal\<close>,
  the dispatch on the message type, and \<open>readHandshake\<close> (\<open>conn.go\<close>, from line 1018).
\<close>

datatype handshakeMessage =
    HelloRequestMsg
  | ClientHelloMsg clientHelloMsg
  | ServerHelloMsg serverHelloMsg
  | NewSessionTicketMsgTLS13 newSessionTicketMsgTLS13
  | NewSessionTicketMsg newSessionTicketMsg
  | CertificateMsgTLS13 certificateMsgTLS13
  | CertificateMsg certificateMsg
  | CertificateRequestMsgTLS13 certificateRequestMsgTLS13
  | CertificateRequestMsg certificateRequestMsg
  | CertificateStatusMsg certificateStatusMsg
  | ServerKeyExchangeMsg serverKeyExchangeMsg
  | ServerHelloDoneMsg
  | ClientKeyExchangeMsg clientKeyExchangeMsg
  | CertificateVerifyMsg certificateVerifyMsg
  | FinishedMsg finishedMsg
  | EncryptedExtensionsMsg encryptedExtensionsMsg
  | EndOfEarlyDataMsg
  | KeyUpdateMsg keyUpdateMsg

text \<open>The method \<open>marshal\<close>: the bytes, and the message with its cache filled.\<close>

fun marshal_message :: "'b builder \<Rightarrow> handshakeMessage \<Rightarrow> (bytes \<times> handshakeMessage) option" where
  "marshal_message B HelloRequestMsg = Some (marshal_helloRequest, HelloRequestMsg)"
| "marshal_message B (ClientHelloMsg m) = map_option (map_prod id ClientHelloMsg) (marshal_clientHello B m)"
| "marshal_message B (ServerHelloMsg m) = map_option (map_prod id ServerHelloMsg) (marshal_serverHello B m)"
| "marshal_message B (NewSessionTicketMsgTLS13 m) =
     map_option (map_prod id NewSessionTicketMsgTLS13) (marshal_newSessionTicketTLS13 B m)"
| "marshal_message B (NewSessionTicketMsg m) = Some (map_prod id NewSessionTicketMsg (marshal_newSessionTicket m))"
| "marshal_message B (CertificateMsgTLS13 m) = map_option (map_prod id CertificateMsgTLS13) (marshal_certificateTLS13 B m)"
| "marshal_message B (CertificateMsg m) = Some (map_prod id CertificateMsg (marshal_certificate m))"
| "marshal_message B (CertificateRequestMsgTLS13 m) =
     map_option (map_prod id CertificateRequestMsgTLS13) (marshal_certificateRequestTLS13 B m)"
| "marshal_message B (CertificateRequestMsg m) = Some (map_prod id CertificateRequestMsg (marshal_certificateRequest m))"
| "marshal_message B (CertificateStatusMsg m) = map_option (map_prod id CertificateStatusMsg) (marshal_certificateStatus B m)"
| "marshal_message B (ServerKeyExchangeMsg m) = Some (map_prod id ServerKeyExchangeMsg (marshal_serverKeyExchange m))"
| "marshal_message B ServerHelloDoneMsg = Some (marshal_serverHelloDone, ServerHelloDoneMsg)"
| "marshal_message B (ClientKeyExchangeMsg m) = Some (map_prod id ClientKeyExchangeMsg (marshal_clientKeyExchange m))"
| "marshal_message B (CertificateVerifyMsg m) = map_option (map_prod id CertificateVerifyMsg) (marshal_certificateVerify B m)"
| "marshal_message B (FinishedMsg m) = map_option (map_prod id FinishedMsg) (marshal_finished B m)"
| "marshal_message B (EncryptedExtensionsMsg m) =
     map_option (map_prod id EncryptedExtensionsMsg) (marshal_encryptedExtensions B m)"
| "marshal_message B EndOfEarlyDataMsg = Some (marshal_endOfEarlyData, EndOfEarlyDataMsg)"
| "marshal_message B (KeyUpdateMsg m) = map_option (map_prod id KeyUpdateMsg) (marshal_keyUpdate B m)"

text \<open>
  The \<open>switch\<close> of \<open>readHandshake\<close> and the call of \<open>unmarshal\<close>; \<^term>\<open>None\<close> for an unknown type or a
  malformed message, which the code treats alike.
\<close>

definition unmarshal_message :: "reader \<Rightarrow> u16 \<Rightarrow> bytes \<Rightarrow> handshakeMessage option" where
  "unmarshal_message R vers data =
     (let t = data ! 0
      in if t = typeHelloRequest then if unmarshal_helloRequest data then Some HelloRequestMsg else None
         else if t = typeClientHello then map_option ClientHelloMsg (unmarshal_clientHello R data)
         else if t = typeServerHello then map_option ServerHelloMsg (unmarshal_serverHello R data)
         else if t = typeNewSessionTicket then
           (if vers = VersionTLS13 then map_option NewSessionTicketMsgTLS13 (unmarshal_newSessionTicketTLS13 R data)
            else map_option NewSessionTicketMsg (unmarshal_newSessionTicket data))
         else if t = typeCertificate then
           (if vers = VersionTLS13 then map_option CertificateMsgTLS13 (unmarshal_certificateTLS13 R data)
            else map_option CertificateMsg (unmarshal_certificate data))
         else if t = typeCertificateRequest then
           (if vers = VersionTLS13 then map_option CertificateRequestMsgTLS13 (unmarshal_certificateRequestTLS13 R data)
            else map_option CertificateRequestMsg (unmarshal_certificateRequest (vers \<ge> VersionTLS12) data))
         else if t = typeCertificateStatus then map_option CertificateStatusMsg (unmarshal_certificateStatus R data)
         else if t = typeServerKeyExchange then map_option ServerKeyExchangeMsg (unmarshal_serverKeyExchange data)
         else if t = typeServerHelloDone then if unmarshal_serverHelloDone data then Some ServerHelloDoneMsg else None
         else if t = typeClientKeyExchange then map_option ClientKeyExchangeMsg (unmarshal_clientKeyExchange data)
         else if t = typeCertificateVerify then
           map_option CertificateVerifyMsg (unmarshal_certificateVerify R (vers \<ge> VersionTLS12) data)
         else if t = typeFinished then map_option FinishedMsg (unmarshal_finished R data)
         else if t = typeEncryptedExtensions then map_option EncryptedExtensionsMsg (unmarshal_encryptedExtensions R data)
         else if t = typeEndOfEarlyData then if unmarshal_endOfEarlyData data then Some EndOfEarlyDataMsg else None
         else if t = typeKeyUpdate then map_option KeyUpdateMsg (unmarshal_keyUpdate R data)
         else None)"

definition readHandshake :: "reader \<Rightarrow> conn \<Rightarrow> ((conn_error option + handshakeMessage) \<times> conn) option" where
  "readHandshake R c =
     (case readHandshakeBytes c of
        None \<Rightarrow> None
      | Some (Inl e, c1) \<Rightarrow> Some (Inl e, c1)
      | Some (Inr data, c1) \<Rightarrow>
          (case unmarshal_message R (c_vers c1) data of
             Some m \<Rightarrow> Some (Inr m, c1)
           | None \<Rightarrow> map_option (\<lambda>(e, c2). (Inl e, c2)) (fail_alert alertUnexpectedMessage c1)))"

section \<open>Every message comes back\<close>

text \<open>The values a message of a given version can carry.\<close>

fun message_ok :: "u16 \<Rightarrow> handshakeMessage \<Rightarrow> bool" where
  "message_ok v (ClientHelloMsg m) \<longleftrightarrow> ch_raw m = None \<and> clientHello_ok m"
| "message_ok v (ServerHelloMsg m) \<longleftrightarrow> sh_raw m = None \<and> serverHello_ok m"
| "message_ok v (NewSessionTicketMsgTLS13 m) \<longleftrightarrow> v = VersionTLS13 \<and> nst_raw m = None"
| "message_ok v (NewSessionTicketMsg m) \<longleftrightarrow> v \<noteq> VersionTLS13 \<and> st_raw m = None \<and> length (st_ticket m) < 65536"
| "message_ok v (CertificateMsgTLS13 m) \<longleftrightarrow> v = VersionTLS13 \<and> c13_raw m = None \<and> certificateTLS13_ok m"
| "message_ok v (CertificateMsg m) \<longleftrightarrow> v \<noteq> VersionTLS13 \<and> cm_raw m = None \<and> certificate_ok m"
| "message_ok v (CertificateRequestMsgTLS13 m) \<longleftrightarrow> v = VersionTLS13 \<and> cr13_raw m = None \<and> certificateRequestTLS13_ok m"
| "message_ok v (CertificateRequestMsg m) \<longleftrightarrow>
     v \<noteq> VersionTLS13 \<and> cr_raw m = None \<and> certificateRequest_ok m \<and>
     cr_hasSignatureAlgorithm m = (v \<ge> VersionTLS12) \<and> length (certificateRequest_body m) < 16777216"
| "message_ok v (CertificateStatusMsg m) \<longleftrightarrow> cs_raw m = None \<and> cs_response m \<noteq> []"
| "message_ok v (ServerKeyExchangeMsg m) \<longleftrightarrow> ske_raw m = None"
| "message_ok v (ClientKeyExchangeMsg m) \<longleftrightarrow> cke_raw m = None \<and> length (cke_ciphertext m) < 16777216"
| "message_ok v (CertificateVerifyMsg m) \<longleftrightarrow>
     cv_raw m = None \<and> cv_hasSignatureAlgorithm m = (v \<ge> VersionTLS12) \<and>
     (\<not> cv_hasSignatureAlgorithm m \<longrightarrow> cv_signatureAlgorithm m = 0)"
| "message_ok v (FinishedMsg m) \<longleftrightarrow> fin_raw m = None"
| "message_ok v (EncryptedExtensionsMsg m) \<longleftrightarrow> ee_raw m = None"
| "message_ok v (KeyUpdateMsg m) \<longleftrightarrow> ku_raw m = None"
| "message_ok v _ \<longleftrightarrow> True"

text \<open>The first byte of what is written is the type of the message.\<close>

fun message_type :: "handshakeMessage \<Rightarrow> byte" where
  "message_type HelloRequestMsg = typeHelloRequest"
| "message_type (ClientHelloMsg m) = typeClientHello"
| "message_type (ServerHelloMsg m) = typeServerHello"
| "message_type (NewSessionTicketMsgTLS13 m) = typeNewSessionTicket"
| "message_type (NewSessionTicketMsg m) = typeNewSessionTicket"
| "message_type (CertificateMsgTLS13 m) = typeCertificate"
| "message_type (CertificateMsg m) = typeCertificate"
| "message_type (CertificateRequestMsgTLS13 m) = typeCertificateRequest"
| "message_type (CertificateRequestMsg m) = typeCertificateRequest"
| "message_type (CertificateStatusMsg m) = typeCertificateStatus"
| "message_type (ServerKeyExchangeMsg m) = typeServerKeyExchange"
| "message_type ServerHelloDoneMsg = typeServerHelloDone"
| "message_type (ClientKeyExchangeMsg m) = typeClientKeyExchange"
| "message_type (CertificateVerifyMsg m) = typeCertificateVerify"
| "message_type (FinishedMsg m) = typeFinished"
| "message_type (EncryptedExtensionsMsg m) = typeEncryptedExtensions"
| "message_type EndOfEarlyDataMsg = typeEndOfEarlyData"
| "message_type (KeyUpdateMsg m) = typeKeyUpdate"

text \<open>The layout every message has: type, 24-bit length, body.\<close>

definition framed :: "byte \<Rightarrow> bytes \<Rightarrow> bool" where
  "framed t bs \<longleftrightarrow> (\<exists>body. bs = t # lps 3 body)"

lemma framed_body: "builder_ok B \<Longrightarrow> writes B f y \<Longrightarrow> marshal_body B t f = Some bs \<Longrightarrow> framed t bs"
  by (erule (2) marshal_body_Some) (auto simp: framed_def)

lemma framed_bytes: "framed t (message_bytes t x)"
  by (auto simp: framed_def message_bytes_lps)

lemma framed_empty: "framed t [t, 0, 0, 0]"
proof -
  have "[t, 0, 0, 0] = t # lps 3 []" by (simp add: lps_def numeral_3_eq_3)
  then show ?thesis by (auto simp: framed_def)
qed

lemma framed_hello: "hello_bytes t y es = Some bs \<Longrightarrow> framed t bs"
  by (erule hello_bytes_Some) (auto simp: framed_def)

lemma marshal_certificate_framed: "cm_raw m = None \<Longrightarrow> framed typeCertificate (fst (marshal_certificate m))"
proof -
  assume raw: "cm_raw m = None"
  let ?i = "sum_list (map length (cm_certificates m))" and ?cs = "cm_certificates m"
  have "length (be_enc 3 (3 * length ?cs + ?i) @ certs_bytes ?cs) = 3 + 3 * length ?cs + ?i"
    using length_certs_bytes [of ?cs] by simp
  then have "fst (marshal_certificate m) = typeCertificate # lps 3 (be_enc 3 (3 * length ?cs + ?i) @ certs_bytes ?cs)"
    unfolding lps_def using raw by (simp add: marshal_certificate_def Let_def del: be_enc.simps length_concat length_append)
  then show ?thesis by (auto simp: framed_def)
qed

lemma message_framed:
  assumes B: "builder_ok B" and "message_ok v m" and "marshal_message B m = Some (bs, m')"
  shows "framed (message_type m) bs"
proof (cases m)
  case (ClientHelloMsg x)
  with assms show ?thesis by (auto simp: marshal_clientHello_bytes [OF B] intro: framed_hello)
next
  case (ServerHelloMsg x)
  with assms show ?thesis by (auto simp: marshal_serverHello_bytes [OF B] intro: framed_hello)
next
  case (CertificateMsg x)
  with assms show ?thesis using marshal_certificate_framed [of x] by (cases "marshal_certificate x") simp
next
  case (CertificateMsgTLS13 x)
  with assms show ?thesis
    by (auto simp: marshal_certificateTLS13_def Let_def
        intro!: framed_body [OF B writes_two [OF writes_uint [OF B] writes_marshalCertificate [OF B]]])
next
  case (CertificateRequestMsgTLS13 x)
  with assms show ?thesis
    by (auto simp: marshal_certificateRequestTLS13_def
        intro!: framed_body [OF B writes_two [OF writes_uint [OF B] writes_lp [OF B writes_certificateRequestTLS13 [OF B]]]])
next
  case (CertificateStatusMsg x)
  with assms show ?thesis
    by (auto simp: marshal_certificateStatus_def
        intro!: framed_body [OF B writes_two [OF writes_uint [OF B] writes_lp [OF B writes_bytes [OF B]]]])
next
  case (CertificateVerifyMsg x)
  with assms show ?thesis
    by (auto simp: marshal_certificateVerify_def
        intro!: framed_body [OF B writes_two [OF writes_guarded [OF writes_uint [OF B]] writes_lp [OF B writes_bytes [OF B]]]])
next
  case (FinishedMsg x)
  with assms show ?thesis by (auto simp: marshal_finished_def intro!: framed_body [OF B writes_bytes [OF B]])
next
  case (EncryptedExtensionsMsg x)
  with assms show ?thesis
    by (auto simp: marshal_encryptedExtensions_def intro!: framed_body [OF B writes_encryptedExtensions [OF B]])
next
  case (NewSessionTicketMsgTLS13 x)
  with assms show ?thesis
    by (auto simp: marshal_newSessionTicketTLS13_def intro!: framed_body [OF B writes_newSessionTicketTLS13 [OF B]])
next
  case (KeyUpdateMsg x)
  with assms show ?thesis
    by (auto simp: marshal_keyUpdate_def split: if_splits intro!: framed_body [OF B writes_uint [OF B]])
qed (use assms in \<open>auto simp: marshal_helloRequest_def marshal_serverHelloDone_def marshal_endOfEarlyData_def
    marshal_newSessionTicket_def marshal_certificateRequest_def marshal_serverKeyExchange_def
    marshal_clientKeyExchange_def Let_def intro: framed_bytes framed_empty\<close>)

lemma message_back:
  assumes B: "builder_ok B" and R: "reader_ok R" and ok: "message_ok v m" and ms: "marshal_message B m = Some (bs, m')"
  shows "unmarshal_message R v bs = Some m'"
proof -
  have t: "bs ! 0 = message_type m" using message_framed [OF B ok ms] by (auto simp: framed_def)
  show ?thesis
  proof (cases m)
    case (ClientHelloMsg x)
    with t ms ok show ?thesis using clientHello_round_trip [OF B R, of x]
      by (auto simp: unmarshal_message_def handshake_type_defs)
  next
    case (ServerHelloMsg x)
    with t ms ok show ?thesis using serverHello_round_trip [OF B R, of x]
      by (auto simp: unmarshal_message_def handshake_type_defs)
  next
    case (NewSessionTicketMsgTLS13 x)
    with t ms ok show ?thesis using newSessionTicketTLS13_round_trip [OF B R, of x]
      by (auto simp: unmarshal_message_def handshake_type_defs)
  next
    case (CertificateMsgTLS13 x)
    with t ms ok show ?thesis using certificateTLS13_round_trip [OF B R, of x]
      by (auto simp: unmarshal_message_def handshake_type_defs)
  next
    case (CertificateRequestMsgTLS13 x)
    with t ms ok show ?thesis using certificateRequestTLS13_round_trip [OF B R, of x]
      by (auto simp: unmarshal_message_def handshake_type_defs)
  next
    case (CertificateStatusMsg x)
    with t ms ok show ?thesis using certificateStatus_round_trip [OF B R, of x]
      by (auto simp: unmarshal_message_def handshake_type_defs)
  next
    case (CertificateVerifyMsg x)
    with t ms ok show ?thesis using certificateVerify_round_trip [OF B R, of x]
      by (auto simp: unmarshal_message_def handshake_type_defs)
  next
    case (FinishedMsg x)
    with t ms ok show ?thesis using finished_round_trip [OF B R, of x]
      by (auto simp: unmarshal_message_def handshake_type_defs)
  next
    case (EncryptedExtensionsMsg x)
    with t ms ok show ?thesis using encryptedExtensions_round_trip [OF B R, of x]
      by (auto simp: unmarshal_message_def handshake_type_defs)
  next
    case (KeyUpdateMsg x)
    with t ms ok show ?thesis using keyUpdate_round_trip [OF B R, of x]
      by (auto simp: unmarshal_message_def handshake_type_defs)
  next
    case (NewSessionTicketMsg x)
    with t ms ok show ?thesis using newSessionTicket_round_trip [of x]
      by (cases "marshal_newSessionTicket x"; auto simp: unmarshal_message_def handshake_type_defs)
  next
    case (CertificateMsg x)
    with t ms ok show ?thesis using certificate_round_trip [of x]
      by (cases "marshal_certificate x"; auto simp: unmarshal_message_def handshake_type_defs)
  next
    case (CertificateRequestMsg x)
    with t ms ok show ?thesis using certificateRequest_round_trip [of x]
      by (cases "marshal_certificateRequest x"; auto simp: unmarshal_message_def handshake_type_defs)
  next
    case (ServerKeyExchangeMsg x)
    with t ms ok show ?thesis using serverKeyExchange_round_trip [of x]
      by (cases "marshal_serverKeyExchange x"; auto simp: unmarshal_message_def handshake_type_defs)
  next
    case (ClientKeyExchangeMsg x)
    with t ms ok show ?thesis using clientKeyExchange_round_trip [of x]
      by (cases "marshal_clientKeyExchange x"; auto simp: unmarshal_message_def handshake_type_defs)
  qed (use t ms in \<open>auto simp: unmarshal_message_def handshake_type_defs marshal_helloRequest_def unmarshal_helloRequest_def
      marshal_serverHelloDone_def unmarshal_serverHelloDone_def marshal_endOfEarlyData_def unmarshal_endOfEarlyData_def\<close>)
qed

end
