(* ===== verification/HandshakeLemmas.thy ===== *)
theory HandshakeLemmas
  imports Handshake ConnReads
begin

text \<open>
  Handshake messages over the record layer. What a connection has still to read is one stream of
  bytes, however the network cuts it; records of handshake data taken from it fill the handshake
  buffer until a message is complete.
\<close>

section \<open>The input as a stream\<close>

definition stream :: "conn \<Rightarrow> bytes" where
  "stream c = c_rawInput c @ concat (nw_chunks (c_net c))"

lemma read_until_stream:
  "n \<le> length (raw @ concat chunks) \<Longrightarrow>
     \<exists>raw' chunks'. read_until n raw chunks e = (None, raw', chunks') \<and> raw' @ concat chunks' = raw @ concat chunks \<and> n \<le> length raw'"
proof (induction chunks arbitrary: raw)
  case Nil
  then show ?case by (simp add: read_until.simps)
next
  case (Cons ch chunks)
  show ?case
  proof (cases "n \<le> length raw")
    case False
    moreover have "n \<le> length ((raw @ ch) @ concat chunks)" using Cons.prems by simp
    ultimately show ?thesis using Cons.IH [of "raw @ ch"] by (simp add: read_until.simps [of n raw])
  qed (simp add: read_until.simps [of n raw])
qed

lemma readFromUntil_stream:
  assumes "n \<le> length (stream c)"
  obtains raw' chunks' where "readFromUntil n c = (None, c\<lparr>c_rawInput := raw', c_net := (c_net c)\<lparr>nw_chunks := chunks'\<rparr>\<rparr>)"
    and "raw' @ concat chunks' = stream c" and "n \<le> length raw'"
  using read_until_stream [of n "c_rawInput c" "nw_chunks (c_net c)" "nw_end (c_net c)"] assms that
  by (auto simp: stream_def readFromUntil_def)

text \<open>A connection that can read.\<close>

definition waiting :: "conn \<Rightarrow> bool" where
  "waiting c \<longleftrightarrow> hc_err (c_in c) = None \<and> c_input c = [] \<and> c_haveVers c \<and> c_vers c \<noteq> 0"

lemma unprotect_err: "unprotect hc c hdr payload = Some (r, hc') \<Longrightarrow> hc_err hc' = hc_err hc"
  by (cases c) (auto simp: unprotect_def open_aead_def open_cbc_def Let_def split: option.splits if_splits prod.splits)

lemma finish_record_err: "finish_record hc hdr t op = Some (r, hc') \<Longrightarrow> hc_err hc' = hc_err hc"
  by (auto simp: finish_record_def incSeq_def split: option.splits sum.splits)

lemma decrypt_err: "decrypt hc rec = Some (r, hc') \<Longrightarrow> hc_err hc' = hc_err hc"
  by (auto simp: decrypt_def Let_def split: if_splits option.splits sum.splits dest!: unprotect_err finish_record_err)

text \<open>One record of handshake data.\<close>

lemma readRecord_handshake:
  assumes c: "waiting c" and dec: "decrypt (c_in c) rec = Some (Inr (payload, recordTypeHandshake), inp')"
    and shape: "record_shape (record_version c) recordTypeHandshake rec" and len: "length rec \<le> recordHeaderLen + maxCiphertextTLS13"
    and payload: "payload \<noteq> []" "length payload \<le> maxPlaintext" and str: "stream c = rec @ extra"
  obtains raw' chunks' where "readRecord c = Some (None, c\<lparr>c_in := inp', c_rawInput := raw', c_hand := c_hand c @ payload,
      c_retryCount := 0, c_net := (c_net c)\<lparr>nw_chunks := chunks'\<rparr>\<rparr>)" and "raw' @ concat chunks' = extra"
proof -
  from shape obtain t body where rec: "rec = rec_header t (ucast (drop_bit 8 (record_version c))) (ucast (record_version c)) (length body) @ body"
    and t: "t = recordTypeHandshake \<or> t = recordTypeApplicationData"
    by (auto simp: record_shape_def)
  let ?n = "length body"
  have lr: "length rec = recordHeaderLen + ?n" using rec by (simp add: recordHeaderLen_def)
  then have small: "?n < 65536" "?n \<le> maxCiphertext" "?n \<le> maxCiphertextTLS13" using len by (simp_all add: size_defs)
  from readFromUntil_stream [of recordHeaderLen c] str lr obtain raw1 chunks1 where
    r1: "readFromUntil recordHeaderLen c = (None, c\<lparr>c_rawInput := raw1, c_net := (c_net c)\<lparr>nw_chunks := chunks1\<rparr>\<rparr>)"
    "raw1 @ concat chunks1 = rec @ extra" "recordHeaderLen \<le> length raw1" by (metis length_append trans_le_add1 le_add1)
  let ?c1 = "c\<lparr>c_rawInput := raw1, c_net := (c_net c)\<lparr>nw_chunks := chunks1\<rparr>\<rparr>"
  have "recordHeaderLen + ?n \<le> length (stream ?c1)"
    using arg_cong [OF r1(2), of length] lr by (simp add: stream_def)
  from readFromUntil_stream [OF this] obtain raw2 chunks2 where
    r2: "readFromUntil (recordHeaderLen + ?n) ?c1 = (None, ?c1\<lparr>c_rawInput := raw2, c_net := (c_net ?c1)\<lparr>nw_chunks := chunks2\<rparr>\<rparr>)"
    "raw2 @ concat chunks2 = stream ?c1" "recordHeaderLen + ?n \<le> length raw2" .
  have s: "raw2 @ concat chunks2 = rec @ extra" using r2(2) r1(2) by (simp add: stream_def)
  then have tk: "take (recordHeaderLen + ?n) raw2 = rec" "drop (recordHeaderLen + ?n) raw2 @ concat chunks2 = extra"
    using r2(3) lr by (metis append_eq_conv_conj take_append diff_is_0_eq take0 append_Nil2)
      (metis s r2(3) lr append_eq_conv_conj drop_append diff_is_0_eq drop0)
  have "take recordHeaderLen raw1 = take recordHeaderLen (rec @ extra)"
    using r1(2,3) by (metis append_eq_conv_conj take_append diff_is_0_eq take0 append_Nil2)
  then have h: "take recordHeaderLen raw1 = rec_header t (ucast (drop_bit 8 (record_version c))) (ucast (record_version c)) ?n"
    using rec by (simp add: recordHeaderLen_def)
  let ?hdr = "take recordHeaderLen raw1"
  have h0: "?hdr ! 0 = t" "?hdr ! 1 = ucast (drop_bit 8 (record_version c))" "?hdr ! 2 = ucast (record_version c)"
    "be_dec [?hdr ! 3, ?hdr ! 4] = ?n"
    using header_fields [OF small(1), where body = "[]"] unfolding h by (simp_all add: rec_header_def)
  let ?d = "c\<lparr>c_in := inp', c_rawInput := drop (recordHeaderLen + ?n) raw2, c_hand := c_hand c @ payload,
      c_retryCount := 0, c_net := (c_net c)\<lparr>nw_chunks := chunks2\<rparr>\<rparr>"
  have ne: "recordTypeHandshake \<noteq> recordTypeApplicationData" "recordTypeHandshake \<noteq> recordTypeAlert"
    "recordTypeHandshake \<noteq> recordTypeChangeCipherSpec" "t \<noteq> 0x80"
    using t by (auto simp: record_type_defs)
  have rp: "read_payload False ?n ?c1 = Some (Done None, ?d)"
    using dec payload ne by (simp add: read_payload_def r2(1) tk(1) Let_def process_record_def)
  have "read_body False ?c1 = Some (Done None, ?d)"
    using rp c small h0 ne(4)
    by (simp add: read_body_def Let_def version_field waiting_def record_version_def del: be_dec.simps)
  then have "read_one False c = Some (Done None, ?d)"
    using c r1(1) by (simp add: read_one_def waiting_def)
  then have "readRecord c = Some (None, ?d)" by (simp add: readRecord_def readRecordOrCCS.simps [of False c])
  with that tk(2) show ?thesis by blast
qed

section \<open>A message in pieces\<close>

text \<open>
  Records that decrypt to pieces of handshake data, in order, and fit the limits of the reader:
  what a connection will still get.
\<close>

definition will_read :: "conn \<Rightarrow> bytes list \<Rightarrow> bytes list \<Rightarrow> halfConn \<Rightarrow> bytes \<Rightarrow> bool" where
  "will_read c recs pieces inp extra \<longleftrightarrow>
     waiting c \<and> stream c = concat recs @ extra \<and>
     decrypt_all (c_in c) recs = Some (map (\<lambda>p. (p, recordTypeHandshake)) pieces, inp) \<and>
     (\<forall>p \<in> set pieces. p \<noteq> [] \<and> length p \<le> maxPlaintext) \<and>
     list_all (record_shape (record_version c) recordTypeHandshake) recs \<and>
     list_all (\<lambda>r. length r \<le> recordHeaderLen + maxCiphertextTLS13) recs"

lemma will_read_Cons:
  assumes "will_read c recs (p # pieces) inp extra"
  obtains d recs' where "readRecord c = Some (None, d)" and "c_hand d = c_hand c @ p" and "c_vers d = c_vers c"
    and "will_read d recs' pieces inp extra"
proof -
  note w = assms [unfolded will_read_def]
  from w obtain r rs where recs: "recs = r # rs" by (cases recs) auto
  from w recs obtain inp1 where d: "decrypt (c_in c) r = Some (Inr (p, recordTypeHandshake), inp1)"
    "decrypt_all inp1 rs = Some (map (\<lambda>p. (p, recordTypeHandshake)) pieces, inp)"
    by (auto split: option.splits sum.splits)
  have st: "stream c = r @ (concat rs @ extra)" using w recs by simp
  from w recs d st readRecord_handshake [of c r p inp1 "concat rs @ extra"] obtain raw' chunks' where
    rr: "readRecord c = Some (None, c\<lparr>c_in := inp1, c_rawInput := raw', c_hand := c_hand c @ p,
      c_retryCount := 0, c_net := (c_net c)\<lparr>nw_chunks := chunks'\<rparr>\<rparr>)" and s: "raw' @ concat chunks' = concat rs @ extra"
    by (metis list.pred_inject(2) list.set_intros(1))
  let ?d = "c\<lparr>c_in := inp1, c_rawInput := raw', c_hand := c_hand c @ p, c_retryCount := 0,
      c_net := (c_net c)\<lparr>nw_chunks := chunks'\<rparr>\<rparr>"
  have "hc_err inp1 = None" using decrypt_err [OF d(1)] w by (simp add: waiting_def)
  moreover have "record_version ?d = record_version c" by (simp add: record_version_def)
  ultimately have "will_read ?d rs pieces inp extra"
    using w recs d(2) s by (simp add: will_read_def waiting_def stream_def)
  with rr that show ?thesis by simp
qed

text \<open>Reading goes on until the buffer is long enough, and does not lose anything.\<close>

lemma read_hand_records:
  assumes "will_read c recs pieces inp extra" and "n \<le> length (c_hand c @ concat pieces)"
  shows "\<exists>d recs' pieces'. read_hand n c = Some (None, d) \<and> n \<le> length (c_hand d) \<and> c_vers d = c_vers c \<and>
    c_hand d @ concat pieces' = c_hand c @ concat pieces \<and> will_read d recs' pieces' inp extra"
  using assms
proof (induction pieces arbitrary: c recs)
  case Nil
  then show ?case by (intro exI [of _ c] exI [of _ recs] exI [of _ "[]"]) (simp add: read_hand.simps [of n c])
next
  case (Cons p pieces)
  show ?case
  proof (cases "n \<le> length (c_hand c)")
    case True
    with Cons.prems show ?thesis
      by (intro exI [of _ c] exI [of _ recs] exI [of _ "p # pieces"]) (simp add: read_hand.simps [of n c])
  next
    case False
    from will_read_Cons [OF Cons.prems(1)] obtain d recs' where
      d: "readRecord c = Some (None, d)" "c_hand d = c_hand c @ p" "c_vers d = c_vers c" "will_read d recs' pieces inp extra" .
    have "n \<le> length (c_hand d @ concat pieces)" using Cons.prems(2) d(2) by simp
    from Cons.IH [OF d(4) this] d(1-3) False show ?thesis by (simp add: read_hand.simps [of n c])
  qed
qed

lemma will_read_hand [simp]: "will_read (c\<lparr>c_hand := h\<rparr>) recs pieces inp extra = will_read c recs pieces inp extra"
  by (simp add: will_read_def waiting_def stream_def record_version_def)

lemma will_read_done: "will_read c recs [] inp extra \<Longrightarrow> c_in c = inp \<and> stream c = extra \<and> waiting c"
  by (cases recs) (auto simp: will_read_def split: option.splits sum.splits)

text \<open>A whole message is cut out of the buffer by its header.\<close>

lemma readHandshakeBytes_message:
  assumes "will_read c recs pieces inp extra" and "c_hand c @ concat pieces = bs" and "framed t bs"
    and "length bs \<le> 4 + maxHandshake"
  shows "\<exists>d. readHandshakeBytes c = Some (Inr bs, d) \<and> c_hand d = [] \<and> c_vers d = c_vers c \<and> c_in d = inp \<and>
    stream d = extra \<and> waiting d"
proof -
  from assms(3) obtain body where bs: "bs = t # be_enc 3 (length body) @ body" by (auto simp: framed_def lps_def)
  let ?n = "length body"
  have n: "?n \<le> maxHandshake" "?n < 256 ^ 3" using assms(4) by (simp_all add: bs size_defs)
  have "4 \<le> length (c_hand c @ concat pieces)" by (simp add: assms(2) bs)
  from read_hand_records [OF assms(1) this] obtain d1 recs1 pieces1 where
    d1: "read_hand 4 c = Some (None, d1)" "4 \<le> length (c_hand d1)" "c_vers d1 = c_vers c"
      "c_hand d1 @ concat pieces1 = bs" "will_read d1 recs1 pieces1 inp extra"
    by (auto simp: assms(2))
  have i: "c_hand d1 ! k = bs ! k" if "k < 4" for k using d1(2,4) that by (metis nth_append order_less_le_trans)
  have "[bs ! 1, bs ! 2, bs ! 3] = be_enc 3 ?n" by (simp add: bs be_enc_3)
  then have len: "be_dec [c_hand d1 ! 1, c_hand d1 ! 2, c_hand d1 ! 3] = ?n"
    using n(2) by (simp add: i be_dec_enc del: be_dec.simps)
  have "4 + ?n \<le> length (c_hand d1 @ concat pieces1)" by (simp add: d1(4) bs)
  from read_hand_records [OF d1(5) this] obtain d2 recs2 pieces2 where
    d2: "read_hand (4 + ?n) d1 = Some (None, d2)" "4 + ?n \<le> length (c_hand d2)" "c_vers d2 = c_vers c"
      "c_hand d2 @ concat pieces2 = bs" "will_read d2 recs2 pieces2 inp extra"
    by (auto simp: d1(3,4))
  have l: "length bs = 4 + ?n" by (simp add: bs)
  from arg_cong [OF d2(4), of length] have "length (c_hand d2) + length (concat pieces2) = length bs" by simp
  with d2(2) l have "length (concat pieces2) = 0" by linarith
  then have "concat pieces2 = []" by blast
  with d2(5) have "pieces2 = []" by (cases pieces2) (auto simp: will_read_def)
  with d2 l have h: "c_hand d2 = bs" and w: "will_read d2 recs2 [] inp extra" by simp_all
  have r: "readHandshakeBytes c = Some (Inr bs, d2\<lparr>c_hand := []\<rparr>)"
    using n(1) d2(1) l by (simp add: readHandshakeBytes_def d1(1) Let_def len [unfolded One_nat_def] h del: be_dec.simps)
  have "will_read (d2\<lparr>c_hand := []\<rparr>) recs2 [] inp extra" using w by simp
  from will_read_done [OF this] r d2(3) show ?thesis by simp
qed

lemma readHandshake_message:
  assumes w: "will_read c recs pieces inp extra" and h: "c_hand c @ concat pieces = bs" and l: "length bs \<le> 4 + maxHandshake"
    and B: "builder_ok B" and R: "reader_ok R" and ok: "message_ok (c_vers c) m" and ms: "marshal_message B m = Some (bs, m')"
  shows "\<exists>d. readHandshake R c = Some (Inr m', d) \<and> c_hand d = [] \<and> c_vers d = c_vers c \<and> c_in d = inp \<and>
    stream d = extra \<and> waiting d"
proof -
  from readHandshakeBytes_message [OF w h message_framed [OF B ok ms] l] obtain d where
    d: "readHandshakeBytes c = Some (Inr bs, d)" "c_hand d = []" "c_vers d = c_vers c" "c_in d = inp" "stream d = extra" "waiting d"
    by blast
  have "readHandshake R c = Some (Inr m', d)"
    using message_back [OF B R ok ms] d(1,3) by (simp add: readHandshake_def)
  with d show ?thesis by blast
qed

end
