(* ===== verification/BinderLemmas.thy ===== *)
theory BinderLemmas
  imports HelloLemmas
begin

text \<open>
  PSK binders: they are the last bytes of a ClientHello, so that everything before them can be
  hashed first and they can be filled in later.
\<close>

definition clientHello_front :: "clientHelloMsg \<Rightarrow> entry list" where
  "clientHello_front m = butlast (clientHello_entries m)"

definition psk_ids :: "clientHelloMsg \<Rightarrow> bytes option" where
  "psk_ids m = lpb 2 (cats (\<lambda>psk. cat (lpb 2 (Some (psk_label psk))) (Some (be_enc 4 (unat (psk_age psk))))) (ch_pskIdentities m))"

definition psk_entry :: "clientHelloMsg \<Rightarrow> entry" where
  "psk_entry m = (length (ch_pskIdentities m) > 0, extensionPreSharedKey,
     cat (psk_ids m) (lpb 2 (cats (\<lambda>x. lpb 1 (Some x)) (ch_pskBinders m))))"

lemma clientHello_entries_split: "clientHello_entries m = clientHello_front m @ [psk_entry m]"
  by (simp add: clientHello_front_def clientHello_entries_def psk_entry_def psk_ids_def)

lemma front_binders [simp]: "clientHello_front (m\<lparr>ch_pskBinders := bs\<rparr>) = clientHello_front m"
  "psk_ids (m\<lparr>ch_pskBinders := bs\<rparr>) = psk_ids m" "clientHello_body (m\<lparr>ch_pskBinders := bs\<rparr>) = clientHello_body m"
  by (simp_all add: clientHello_front_def clientHello_entries_def psk_ids_def clientHello_body_def)

lemma block_bytes_append: "block_bytes (xs @ ys) = cat (block_bytes xs) (block_bytes ys)"
  by (induction xs) (simp_all add: cat_assoc)

lemma length_cats_lpb:
  assumes "cats (\<lambda>x. lpb k (Some x)) xs = Some d" and "cats (\<lambda>x. lpb k (Some x)) ys = Some d'" and "map length xs = map length ys"
  shows "length d = length d'"
proof -
  have l: "length (concat (map (lps k) zs)) = sum_list (map (\<lambda>n. k + n) (map length zs))" for zs
    by (induction zs) (simp_all add: lps_def)
  from cats_lpb(1) [OF assms(1)] cats_lpb(1) [OF assms(2)] have "d = concat (map (lps k) xs)" "d' = concat (map (lps k) ys)" by simp_all
  with l [of xs] l [of ys] assms(3) show ?thesis by simp
qed

lemma hello_bytes_block:
  assumes "block_bytes es = Some z" and "z \<noteq> []" and "length z < 65536" and "length (b @ lps 2 z) < 256 ^ 3"
  shows "hello_bytes t (Some b) es = Some (t # lps 3 (b @ lps 2 z))"
proof -
  have "(case block_bytes es of Some [] \<Rightarrow> Some [] | y \<Rightarrow> lpb 2 y) = Some (lps 2 z)"
    using assms(1-3) by (cases z) (simp_all add: lpb_def lps_def)
  then show ?thesis using assms(4) by (simp add: hello_bytes_def lpb_def) (simp add: lps_def)
qed

text \<open>The bytes around the binders only depend on their lengths.\<close>

lemma clientHello_tail:
  assumes ids: "ch_pskIdentities m \<noteq> []" and h: "hello_bytes typeClientHello (clientHello_body m) (clientHello_entries m) = Some bs"
  obtains x d where "cats (\<lambda>x. lpb 1 (Some x)) (ch_pskBinders m) = Some d" and "length d < 65536" and "bs = x @ lps 2 d"
    and "\<And>binders d'. map length binders = map length (ch_pskBinders m) \<Longrightarrow> cats (\<lambda>x. lpb 1 (Some x)) binders = Some d' \<Longrightarrow>
      length d' = length d \<and>
      hello_bytes typeClientHello (clientHello_body m) (clientHello_entries (m\<lparr>ch_pskBinders := binders\<rparr>)) = Some (x @ lps 2 d')"
proof -
  from hello_bytes_Some [OF h] obtain b z where b: "clientHello_body m = Some b"
    and z: "block_bytes (clientHello_entries m) = Some z" "length z < 65536"
    and bs: "bs = typeClientHello # lps 3 (b @ (if z = [] then [] else lps 2 z))" by blast
  from z(1) ids obtain f i d where f: "block_bytes (clientHello_front m) = Some f" and i: "psk_ids m = Some i"
    and d: "cats (\<lambda>x. lpb 1 (Some x)) (ch_pskBinders m) = Some d" "length d < 65536"
    and li: "length (i @ lps 2 d) < 65536" and zd: "z = f @ be_enc 2 (unat extensionPreSharedKey) @ lps 2 (i @ lps 2 d)"
    by (auto simp: clientHello_entries_split block_bytes_append psk_entry_def cat_eq_Some lpb_eq_Some lps_def)
  have zne: "z \<noteq> []" using zd by (simp add: lps_def)
  have l3: "length (b @ lps 2 z) < 256 ^ 3"
    using h b z zne by (auto simp: hello_bytes_def cat_eq_Some lpb_eq_Some lps_def split: list.splits)
  define x where "x = typeClientHello # be_enc 3 (length (b @ lps 2 z)) @ b @ be_enc 2 (length z) @
      f @ be_enc 2 (unat extensionPreSharedKey) @ be_enc 2 (length (i @ lps 2 d)) @ i"
  have "bs = x @ lps 2 d" unfolding bs x_def using zne by (simp add: lps_def zd)
  moreover have "length d' = length d \<and>
      hello_bytes typeClientHello (clientHello_body m) (clientHello_entries (m\<lparr>ch_pskBinders := binders\<rparr>)) = Some (x @ lps 2 d')"
    if e: "map length binders = map length (ch_pskBinders m)" "cats (\<lambda>x. lpb 1 (Some x)) binders = Some d'" for binders d'
  proof -
    have l: "length d' = length d" by (rule length_cats_lpb [OF e(2) d(1) e(1)])
    let ?z = "f @ be_enc 2 (unat extensionPreSharedKey) @ lps 2 (i @ lps 2 d')"
    have lz: "length ?z = length z" by (simp add: zd lps_def l)
    have "block_bytes (clientHello_entries (m\<lparr>ch_pskBinders := binders\<rparr>)) = Some ?z"
      using ids f i e(2) li l d(2)
      by (simp add: clientHello_entries_split block_bytes_append psk_entry_def lpb_def lps_def)
    moreover have "?z \<noteq> []" by (simp add: lps_def)
    moreover have "length (b @ lps 2 ?z) = length (b @ lps 2 z)" using lz by (simp add: lps_def)
    ultimately have "hello_bytes typeClientHello (clientHello_body m) (clientHello_entries (m\<lparr>ch_pskBinders := binders\<rparr>)) =
        Some (typeClientHello # lps 3 (b @ lps 2 ?z))"
      using hello_bytes_block [of _ ?z b] b z(2) lz l3 by simp
    also have "typeClientHello # lps 3 (b @ lps 2 ?z) = x @ lps 2 d'"
      using lz l by (simp add: x_def lps_def)
    finally show ?thesis using l by simp
  qed
  ultimately show ?thesis using that d by blast
qed

lemma bindersLen_lps:
  "cats (\<lambda>x. lpb 1 (Some x)) binders = Some d \<Longrightarrow> bindersLen binders = length (lps 2 d)"
proof -
  assume "cats (\<lambda>x. lpb 1 (Some x)) binders = Some d"
  from cats_lpb(1) [OF this] have d: "d = concat (map (lps 1) binders)" .
  have "length (concat (map (lps 1) binders)) = sum_list (map (\<lambda>binder. 1 + length binder) binders)"
    by (induction binders) (simp_all add: lps_def)
  then show ?thesis by (simp add: bindersLen_def lps_def d)
qed

text \<open>
  \<open>updateBinders\<close> on a marshalled message gives the encoding of the message with the new binders, and
  does not change what comes before them.
\<close>

lemma updateBinders_marshal:
  assumes B: "builder_ok B" and raw: "ch_raw m = None" and ids: "ch_pskIdentities m \<noteq> []"
    and ms: "marshal_clientHello B m = Some (bs, m')" and len: "map length binders = map length (ch_pskBinders m)"
  shows "\<exists>bs' x. marshal_clientHello B (m\<lparr>ch_pskBinders := binders\<rparr>) = Some (bs', m'\<lparr>ch_pskBinders := binders, ch_raw := Some bs'\<rparr>) \<and>
    updateBinders B binders m' = Some (m'\<lparr>ch_pskBinders := binders, ch_raw := Some bs'\<rparr>) \<and>
    marshalWithoutBinders B m' = Some (x, m') \<and>
    marshalWithoutBinders B (m'\<lparr>ch_pskBinders := binders, ch_raw := Some bs'\<rparr>) =
      Some (x, m'\<lparr>ch_pskBinders := binders, ch_raw := Some bs'\<rparr>)"
proof -
  from ms have h: "hello_bytes typeClientHello (clientHello_body m) (clientHello_entries m) = Some bs"
    and m': "m' = m\<lparr>ch_raw := Some bs\<rparr>"
    unfolding marshal_clientHello_bytes [OF B raw] by auto
  from clientHello_tail [OF ids h] obtain x d where
    d: "cats (\<lambda>x. lpb 1 (Some x)) (ch_pskBinders m) = Some d" "length d < 65536" "bs = x @ lps 2 d" and
    new: "\<And>binders d'. map length binders = map length (ch_pskBinders m) \<Longrightarrow> cats (\<lambda>x. lpb 1 (Some x)) binders = Some d' \<Longrightarrow>
      length d' = length d \<and>
      hello_bytes typeClientHello (clientHello_body m) (clientHello_entries (m\<lparr>ch_pskBinders := binders\<rparr>)) = Some (x @ lps 2 d')"
    by blast
  have im: "length ` set binders = length ` set (ch_pskBinders m)" using arg_cong [OF len, of set] by simp
  have "\<forall>b \<in> set binders. length b < 256 ^ 1"
  proof
    fix b assume "b \<in> set binders"
    then have "length b \<in> length ` set (ch_pskBinders m)" using im by blast
    then show "length b < 256 ^ 1" using cats_lpb(2) [OF d(1)] by auto
  qed
  then have "cats (\<lambda>x. lpb 1 (Some x)) binders \<noteq> None"
    by (induction binders) (auto simp: cats_def cat_def lpb_def split: option.splits)
  then obtain d' where d': "cats (\<lambda>x. lpb 1 (Some x)) binders = Some d'" by blast
  let ?bs = "x @ lps 2 d'" and ?m = "m'\<lparr>ch_pskBinders := binders, ch_raw := Some (x @ lps 2 d')\<rparr>"
  have l: "length d' = length d" and hb: "hello_bytes typeClientHello (clientHello_body m)
      (clientHello_entries (m\<lparr>ch_pskBinders := binders\<rparr>)) = Some ?bs"
    using new [OF len d'] by auto
  have ms': "marshal_clientHello B (m\<lparr>ch_pskBinders := binders\<rparr>) = Some (?bs, ?m)"
    using hb raw by (simp add: marshal_clientHello_bytes [OF B] m')
  have w1: "marshalWithoutBinders B m' = Some (x, m')"
    using bindersLen_lps [OF d(1)] by (simp add: marshalWithoutBinders_def marshal_clientHello_def m' d(3))
  have w2: "marshalWithoutBinders B ?m = Some (x, ?m)"
    using bindersLen_lps [OF d'] by (simp add: marshalWithoutBinders_def marshal_clientHello_def)
  have w3: "marshalWithoutBinders B (m'\<lparr>ch_pskBinders := binders\<rparr>) = Some (x, m'\<lparr>ch_pskBinders := binders\<rparr>)"
    using bindersLen_lps [OF d'] l by (simp add: marshalWithoutBinders_def marshal_clientHello_def m' d(3) lps_def)
  have "writes B (steps (map (\<lambda>binder. lp B 1 (b_bytes B binder)) binders)) (Some d')"
    using writes_cats [of B "\<lambda>binder. lp B 1 (b_bytes B binder)" "\<lambda>x. lpb 1 (Some x)" binders] d'
      writes_lp [OF B writes_bytes [OF B]] by metis
  from writes_fixed [OF B writes_lp [OF B this, of 2], of x]
  have "b_result B (lp B 2 (steps (map (\<lambda>binder. lp B 1 (b_bytes B binder)) binders)) (b_fixed B x)) = Some ?bs"
    using d(2) l by (simp add: lpb_def lps_def)
  then have "updateBinders B binders m' = Some ?m"
    using len w3 l by (simp add: updateBinders_def m' d(3) Let_def lps_def)
  with ms' w1 w2 show ?thesis by blast
qed

end
