(* ===== verification/MessageProperties.thy ===== *)
theory MessageProperties
  imports HandshakeLemmas BinderLemmas RecordProperties
begin

text \<open>
  The properties of the handshake messages: every message comes back from its encoding, also through
  the record layer, and PSK binders can be filled in afterwards.
\<close>

section \<open>Sample messages\<close>

definition sample_hello :: clientHelloMsg where
  "sample_hello = empty_clientHello\<lparr>ch_vers := VersionTLS12, ch_random := replicate 32 7, ch_cipherSuites := [0x1301],
     ch_compressionMethods := [0], ch_serverName := str ''go.dev'', ch_supportedVersions := [VersionTLS13],
     ch_pskModes := [1], ch_pskIdentities := [\<lparr>psk_label = [1, 2], psk_age = 3\<rparr>], ch_pskBinders := [[0, 0]]\<rparr>"

definition sample_finished :: finishedMsg where
  "sample_finished = \<lparr>fin_raw = None, fin_verifyData = [1, 2, 3]\<rparr>"

lemma sample_hello_ok: "clientHello_ok sample_hello" "ch_raw sample_hello = None"
  by (simp_all add: clientHello_ok_def sample_hello_def empty_clientHello_def scsvRenegotiation_def str_def)

lemma sample_hello_marshals: "\<exists>bs. marshal_clientHello plain_builder sample_hello = Some (bs, sample_hello\<lparr>ch_raw := Some bs\<rparr>)"
  unfolding marshal_clientHello_bytes [OF plain_builder_ok sample_hello_ok(2)]
  by (simp add: hello_bytes_def clientHello_entries_def clientHello_body_def sample_hello_def empty_clientHello_def
      lpb_def cats_def str_def be_enc_2)

lemma sample_finished_marshals: "marshal_message plain_builder (FinishedMsg sample_finished) =
    Some ([20, 0, 0, 3, 1, 2, 3], FinishedMsg (sample_finished\<lparr>fin_raw := Some [20, 0, 0, 3, 1, 2, 3]\<rparr>))"
  by (simp add: marshal_finished_def sample_finished_def marshal_body_bytes [OF plain_builder_ok writes_bytes [OF plain_builder_ok]]
      lpb_def typeFinished_def be_enc_numeral)

section \<open>Encoding and decoding\<close>

text \<open>
  C28. For each of the eighteen handshake messages: what \<open>marshal\<close> writes, \<open>readHandshake\<close>'s dispatch
  on the message type and the negotiated version reads back as the same message, every field
  equal; \<open>message_ok\<close> excludes values the format has no place for.
\<close>

theorem message_round_trip:
  assumes "builder_ok B" and "reader_ok R" and "message_ok v m" and "marshal_message B m = Some (bs, m')"
  shows "unmarshal_message R v bs = Some m'"
  by (rule message_back [OF assms])

theorem message_round_trip_witness:
  "\<exists>bs m'. marshal_message plain_builder (ClientHelloMsg sample_hello) = Some (bs, m') \<and>
     unmarshal_message plain_reader VersionTLS12 bs = Some m'"
proof -
  obtain bs m' where "marshal_message plain_builder (ClientHelloMsg sample_hello) = Some (bs, m')"
    using sample_hello_marshals by auto
  moreover have "message_ok VersionTLS12 (ClientHelloMsg sample_hello)" using sample_hello_ok by simp
  ultimately show ?thesis using message_round_trip [OF plain_builder_ok plain_reader_ok] by blast
qed

text \<open>
  C29. End to end: a handshake message written with \<open>writeRecordLocked\<close> under any cipher is read by
  the peer's \<open>readHandshake\<close> as the same message, however the network cuts the stream and whatever
  follows it; nothing of the following input is lost and both ends stay in step. (The records must
  respect the reader's size limit, which bounds what the cipher may add.)
\<close>

theorem handshake_delivered:
  assumes B: "builder_ok B" and R: "reader_ok R" and ok: "message_ok (c_vers c) m" and ms: "marshal_message B m = Some (bs, m')"
    and len: "length bs \<le> 4 + maxHandshake"
    and step: "in_step (c_out c) inp" and buf: "\<not> c_buffering c" and net: "net_ok (c_net c)"
    and seq: "be_dec (hc_seq (c_out c)) + length bs < 2 ^ 64"
  shows "\<exists>recs c'. writeRecordLocked recordTypeHandshake bs c = Some ((length bs, None), c') \<and>
    nw_sent (c_net c') = nw_sent (c_net c) @ recs \<and>
    (\<forall>d more. c_in d = inp \<and> waiting d \<and> c_vers d = c_vers c \<and> c_hand d = [] \<and> stream d = concat recs @ more \<and>
       (\<forall>r \<in> set recs. length r \<le> recordHeaderLen + maxCiphertextTLS13) \<longrightarrow>
       (\<exists>d'. readHandshake R d = Some (Inr m', d') \<and> stream d' = more \<and> c_hand d' = [] \<and> in_step (c_out c') (c_in d')))"
proof -
  have t: "recordTypeHandshake \<noteq> 0" "recordTypeHandshake \<noteq> recordTypeApplicationData \<or> c_sizingDisabled c"
    by (simp_all add: record_type_defs)
  from write_records_delivers [OF step buf net t seq, of 0] obtain recs pieces c' inp' where
    w: "write_records recordTypeHandshake 0 bs c = Some ((length bs, None), c')" "nw_sent (c_net c') = nw_sent (c_net c) @ recs"
    and r: "decrypt_all inp recs = Some (map (\<lambda>p. (p, recordTypeHandshake)) pieces, inp')" "concat pieces = bs"
      "\<forall>p \<in> set pieces. p \<noteq> [] \<and> length p \<le> maxPlaintext" "in_step (c_out c') inp'"
      "list_all (record_shape (record_version c) recordTypeHandshake) recs"
    by auto
  from w have "writeRecordLocked recordTypeHandshake bs c = Some ((length bs, None), c')"
    by (simp add: writeRecordLocked_def record_type_defs)
  moreover have "\<exists>d'. readHandshake R d = Some (Inr m', d') \<and> stream d' = more \<and> c_hand d' = [] \<and> in_step (c_out c') (c_in d')"
    if d: "c_in d = inp" "waiting d" "c_vers d = c_vers c" "c_hand d = []" "stream d = concat recs @ more"
      "\<forall>r \<in> set recs. length r \<le> recordHeaderLen + maxCiphertextTLS13" for d more
  proof -
    have "record_version d = record_version c" using d(3) by (simp add: record_version_def)
    then have "will_read d recs pieces inp' more" using d r by (simp add: will_read_def list_all_iff)
    from readHandshake_message [OF this _ len B R _ ms] d r ok show ?thesis by auto
  qed
  ultimately show ?thesis using w(2) by blast
qed

lemma sample_finished_record:
  "\<exists>r c'. writeRecordLocked recordTypeHandshake [20, 0, 0, 3, 1, 2, 3] (sample_conn []) = Some ((7, None), c') \<and>
     nw_sent (c_net c') = [r] \<and> length r = 18"
proof -
  have "incSeq sample_half = Some (sample_half\<lparr>hc_seq := be_enc 8 1\<rparr>)"
    using incSeq_number [OF sample_seq(2)] sample_seq(1) by simp
  then show ?thesis
    by (simp add: writeRecordLocked_def write_records.simps maxPayloadSizeForWrite_def encrypt_out_def encrypt_def
        protect_def seal_aead_def explicitNonce_def explicitNonceLen_def record_header_def conn_write_def net_Write_def
        set_length_def additionalData_def sample_conn_def sample_net_def sample_half_def sample_aead_def sample_rand_def 
        record_type_defs version_defs size_defs Let_def)
qed

theorem handshake_delivered_witness:
  "\<exists>recs c' d'. writeRecordLocked recordTypeHandshake [20, 0, 0, 3, 1, 2, 3] (sample_conn []) = Some ((7, None), c') \<and>
    nw_sent (c_net c') = recs \<and>
    readHandshake plain_reader (sample_conn recs) =
      Some (Inr (FinishedMsg (sample_finished\<lparr>fin_raw := Some [20, 0, 0, 3, 1, 2, 3]\<rparr>)), d') \<and> stream d' = []"
proof -
  let ?bs = "[20, 0, 0, 3, 1, 2, 3] :: bytes"
  have ok: "message_ok (c_vers (sample_conn [])) (FinishedMsg sample_finished)" by (simp add: sample_finished_def)
  have l: "length ?bs \<le> 4 + maxHandshake" by (simp add: size_defs)
  have s: "in_step (c_out (sample_conn [])) sample_half" "\<not> c_buffering (sample_conn [])" "net_ok (c_net (sample_conn []))"
    "be_dec (hc_seq (c_out (sample_conn []))) + length ?bs < 2 ^ 64"
    using sample_in_step sample_net_ok sample_seq by (simp_all add: sample_conn_def)
  from handshake_delivered [OF plain_builder_ok plain_reader_ok ok sample_finished_marshals l s] obtain recs c' where
    w: "writeRecordLocked recordTypeHandshake ?bs (sample_conn []) = Some ((length ?bs, None), c')"
      "nw_sent (c_net c') = nw_sent (c_net (sample_conn [])) @ recs" and
    r: "\<And>d extra. c_in d = sample_half \<and> waiting d \<and> c_vers d = c_vers (sample_conn []) \<and> c_hand d = [] \<and>
       stream d = concat recs @ extra \<and> (\<forall>r \<in> set recs. length r \<le> recordHeaderLen + maxCiphertextTLS13) \<Longrightarrow>
       \<exists>d'. readHandshake plain_reader d = Some (Inr (FinishedMsg (sample_finished\<lparr>fin_raw := Some ?bs\<rparr>)), d') \<and> stream d' = extra"
    by blast
  have n: "nw_sent (c_net (sample_conn [])) = []" by (simp add: sample_conn_def sample_net_def)
  with sample_finished_record w obtain x where "recs = [x]" "length x = 18" by auto
  then have "c_in (sample_conn recs) = sample_half \<and> waiting (sample_conn recs) \<and> c_vers (sample_conn recs) = c_vers (sample_conn []) \<and>
      c_hand (sample_conn recs) = [] \<and> stream (sample_conn recs) = concat recs @ [] \<and>
      (\<forall>r \<in> set recs. length r \<le> recordHeaderLen + maxCiphertextTLS13)"
    by (simp add: sample_conn_def sample_net_def sample_half_def waiting_def stream_def version_defs size_defs)
  from r [OF this] obtain d' where
    "readHandshake plain_reader (sample_conn recs) = Some (Inr (FinishedMsg (sample_finished\<lparr>fin_raw := Some ?bs\<rparr>)), d')"
    "stream d' = []" by blast
  with w n show ?thesis by (intro exI [of _ recs] exI [of _ c'] exI [of _ d']) simp
qed

text \<open>
  C30. \<open>updateBinders\<close> on a marshalled ClientHello yields exactly the encoding of the message with the
  new binders, and the bytes \<open>marshalWithoutBinders\<close> gives to the transcript are the same before
  and after.
\<close>

theorem updateBinders_patches:
  assumes "builder_ok B" and "ch_raw m = None" and "ch_pskIdentities m \<noteq> []"
    and "marshal_clientHello B m = Some (bs, m')" and "map length binders = map length (ch_pskBinders m)"
  shows "\<exists>bs' x. let m2 = m'\<lparr>ch_pskBinders := binders, ch_raw := Some bs'\<rparr>
    in marshal_clientHello B (m\<lparr>ch_pskBinders := binders\<rparr>) = Some (bs', m2) \<and> updateBinders B binders m' = Some m2 \<and>
       marshalWithoutBinders B m' = Some (x, m') \<and> marshalWithoutBinders B m2 = Some (x, m2)"
  using updateBinders_marshal [OF assms] unfolding Let_def .

theorem updateBinders_patches_witness:
  "\<exists>bs m' bs' m2 x. marshal_clientHello plain_builder sample_hello = Some (bs, m') \<and>
     updateBinders plain_builder [[8, 9]] m' = Some m2 \<and> ch_raw m2 = Some bs' \<and>
     marshalWithoutBinders plain_builder m' = Some (x, m') \<and> marshalWithoutBinders plain_builder m2 = Some (x, m2)"
proof -
  obtain bs where ms: "marshal_clientHello plain_builder sample_hello = Some (bs, sample_hello\<lparr>ch_raw := Some bs\<rparr>)"
    using sample_hello_marshals by blast
  have "ch_pskIdentities sample_hello \<noteq> []" "map length [[8, 9 :: byte]] = map length (ch_pskBinders sample_hello)"
    by (simp_all add: sample_hello_def)
  from updateBinders_patches [OF plain_builder_ok sample_hello_ok(2) this(1) ms this(2)] ms show ?thesis
    unfolding Let_def by fastforce
qed

end
