(* ===== verification/Crypto.thy ===== *)
theory Crypto
  imports Ciphers
begin

text \<open>
  The primitives of Go's crypto packages and of \<open>golang.org/x/crypto\<close> that the protocol code calls, as
  one record of functions. Nothing is assumed of their secrecy; what the code relies on for
  communication to work (output lengths, decryption undoing encryption, Diffie-Hellman
  commuting) is \<open>crypto_ok\<close>.
\<close>

section \<open>Hash functions\<close>

text \<open>\<open>crypto.Hash\<close>; \<open>NoHash\<close> is \<open>crypto.Hash(0)\<close>, also called \<open>directSigning\<close>.\<close>

datatype hash_alg = NoHash | MD5 | SHA1 | SHA256 | SHA384 | SHA512 | MD5SHA1

fun hash_size :: "hash_alg \<Rightarrow> nat" where
  "hash_size NoHash = 0"
| "hash_size MD5 = 16"
| "hash_size SHA1 = 20"
| "hash_size SHA256 = 32"
| "hash_size SHA384 = 48"
| "hash_size SHA512 = 64"
| "hash_size MD5SHA1 = 36"

section \<open>The primitives\<close>

text \<open>
  \<open>hkdf_expand h secret info n\<close> are the first \<open>n\<close> bytes of the HKDF output, \<^term>\<open>None\<close> when it is shorter.
  A constructor that returns an error is \<^term>\<open>None\<close>. \<open>ctr_stream\<close> is the key stream of counter mode.
  Curve points are pairs; \<open>ec_unmarshal\<close> also checks that the point is on the curve.
\<close>

record crypto =
  hash_sum :: "hash_alg \<Rightarrow> bytes \<Rightarrow> bytes"
  hmac_sum :: "hash_alg \<Rightarrow> bytes \<Rightarrow> bytes \<Rightarrow> bytes"
  hkdf_extract :: "hash_alg \<Rightarrow> bytes \<Rightarrow> bytes \<Rightarrow> bytes"
  hkdf_expand :: "hash_alg \<Rightarrow> bytes \<Rightarrow> bytes \<Rightarrow> nat \<Rightarrow> bytes option"
  aes_cipher :: "bytes \<Rightarrow> block_prim option"
  des_cipher :: "bytes \<Rightarrow> block_prim option"
  rc4_cipher :: "bytes \<Rightarrow> (nat \<Rightarrow> byte) option"
  gcm_aead :: "block_prim \<Rightarrow> aead_prim option"
  chacha_aead :: "bytes \<Rightarrow> aead_prim option"
  ctr_stream :: "block_prim \<Rightarrow> bytes \<Rightarrow> nat \<Rightarrow> byte"
  x25519 :: "bytes \<Rightarrow> bytes \<Rightarrow> bytes option"
  x25519_base :: bytes
  ec_generate :: "u16 \<Rightarrow> (nat \<Rightarrow> bytes option) \<Rightarrow> (bytes \<times> nat \<times> nat) option"
  ec_marshal :: "u16 \<Rightarrow> nat \<times> nat \<Rightarrow> bytes"
  ec_unmarshal :: "u16 \<Rightarrow> bytes \<Rightarrow> (nat \<times> nat) option"
  ec_mult :: "u16 \<Rightarrow> nat \<times> nat \<Rightarrow> bytes \<Rightarrow> nat \<times> nat"
  ec_bits :: "u16 \<Rightarrow> nat"

text \<open>Output lengths; HKDF gives up to 255 blocks.\<close>

definition hashes_ok :: "crypto \<Rightarrow> bool" where
  "hashes_ok P \<longleftrightarrow>
     (\<forall>h m. length (hash_sum P h m) = hash_size h) \<and> (\<forall>h k m. length (hmac_sum P h k m) = hash_size h) \<and>
     (\<forall>h s c. length (hkdf_extract P h s c) = hash_size h) \<and>
     (\<forall>h s i n b. hkdf_expand P h s i n = Some b \<longrightarrow> length b = n) \<and>
     (\<forall>h s i n. n \<le> 255 * hash_size h \<longrightarrow> hkdf_expand P h s i n \<noteq> None)"

text \<open>
  The ciphers accept the key lengths of the suites (AES 16 and 32 bytes, triple DES 24,
  ChaCha20-Poly1305 32, RC4 16) and are the ciphers the record layer expects.
\<close>

definition ciphers_ok :: "crypto \<Rightarrow> bool" where
  "ciphers_ok P \<longleftrightarrow>
     (\<forall>k. length k = 16 \<or> length k = 32 \<longrightarrow>
        (\<exists>b. aes_cipher P k = Some b \<and> block_ok b \<and> block_size b = 16 \<and> (\<exists>a. gcm_aead P b = Some a \<and> aead_ok a))) \<and>
     (\<forall>k. length k = 24 \<longrightarrow> (\<exists>b. des_cipher P k = Some b \<and> block_ok b \<and> block_size b = 8)) \<and>
     (\<forall>k. length k = 16 \<longrightarrow> rc4_cipher P k \<noteq> None) \<and>
     (\<forall>k. length k = 32 \<longrightarrow> (\<exists>a. chacha_aead P k = Some a \<and> aead_ok a))"

text \<open>Diffie-Hellman: both sides compute the same point, and coordinates are field elements.\<close>

definition dh_ok :: "crypto \<Rightarrow> bool" where
  "dh_ok P \<longleftrightarrow>
     (\<forall>a b pa pb. x25519 P a (x25519_base P) = Some pa \<longrightarrow> x25519 P b (x25519_base P) = Some pb \<longrightarrow>
        x25519 P a pb = x25519 P b pa) \<and>
     (\<forall>c r s ka xa kb xb. ec_generate P c r = Some (ka, xa) \<longrightarrow> ec_generate P c s = Some (kb, xb) \<longrightarrow>
        ec_unmarshal P c (ec_marshal P c xa) = Some xa \<and> ec_mult P c xa kb = ec_mult P c xb ka) \<and>
     (\<forall>c p k. fst (ec_mult P c p k) < 2 ^ ec_bits P c)"

definition crypto_ok :: "crypto \<Rightarrow> bool" where
  "crypto_ok P \<longleftrightarrow> hashes_ok P \<and> ciphers_ok P \<and> dh_ok P"

section \<open>Running hashes\<close>

text \<open>A \<open>hash.Hash\<close> is what has been written to it.\<close>

record hash_state =
  hs_alg :: hash_alg
  hs_data :: bytes

definition hash_new :: "hash_alg \<Rightarrow> hash_state" where
  "hash_new h = \<lparr>hs_alg = h, hs_data = []\<rparr>"

definition hash_Write :: "bytes \<Rightarrow> hash_state \<Rightarrow> hash_state" where
  "hash_Write p s = s\<lparr>hs_data := hs_data s @ p\<rparr>"

definition hash_Sum :: "crypto \<Rightarrow> hash_state \<Rightarrow> bytes" where
  "hash_Sum P s = hash_sum P (hs_alg s) (hs_data s)"

section \<open>A toy instance\<close>

text \<open>
  Primitives without any secrecy that satisfy the laws: hashes are zeros of the right length, the
  block ciphers and stream ciphers are identities, an AEAD appends nothing, and Diffie-Hellman
  adds exponents.
\<close>

definition toy_block :: "nat \<Rightarrow> block_prim" where
  "toy_block n = \<lparr>block_size = n, block_enc = id, block_dec = id\<rparr>"

definition toy_aead :: aead_prim where
  "toy_aead = \<lparr>aead_seal = (\<lambda>n p ad. p), aead_open = (\<lambda>n c ad. Some c), aead_overhead = 0\<rparr>"

definition toy_crypto :: crypto where
  "toy_crypto = \<lparr>hash_sum = (\<lambda>h m. replicate (hash_size h) 0), hmac_sum = (\<lambda>h k m. replicate (hash_size h) (sum_list k)),
     hkdf_extract = (\<lambda>h s c. replicate (hash_size h) 0), hkdf_expand = (\<lambda>h s i n. Some (replicate n 0)),
     aes_cipher = (\<lambda>k. Some (toy_block 16)), des_cipher = (\<lambda>k. Some (toy_block 8)), rc4_cipher = (\<lambda>k. Some (\<lambda>_. 0)),
     gcm_aead = (\<lambda>b. Some toy_aead), chacha_aead = (\<lambda>k. Some toy_aead), ctr_stream = (\<lambda>b iv n. 0),
     x25519 = (\<lambda>a p. Some (be_enc 4 (be_dec a + be_dec p))), x25519_base = [],
     ec_generate = (\<lambda>c r. map_option (\<lambda>k. (k, be_dec k mod 256 ^ 4, 0)) (r 4)), ec_marshal = (\<lambda>c p. 4 # be_enc 4 (fst p)),
     ec_unmarshal = (\<lambda>c b. Some (be_dec (drop 1 b), 0)), ec_mult = (\<lambda>c p k. ((fst p + be_dec k) mod 256 ^ 4, 0)),
     ec_bits = (\<lambda>c. 32)\<rparr>"

lemma toy_hashes: "hashes_ok toy_crypto"
  by (simp add: hashes_ok_def toy_crypto_def)

lemma toy_ciphers: "ciphers_ok toy_crypto"
  by (simp add: ciphers_ok_def toy_crypto_def toy_block_def toy_aead_def block_ok_def aead_ok_def)

lemma toy_dh: "dh_ok toy_crypto"
proof -
  have "be_enc 4 (a + b mod 256 ^ 4) = be_enc 4 (b + a mod 256 ^ 4)" for a b :: nat
  proof -
    have "be_dec (be_enc 4 (a + b mod 256 ^ 4)) = be_dec (be_enc 4 (b + a mod 256 ^ 4))"
      unfolding be_dec_enc by (simp only: mod_add_right_eq add.commute [of a b])
    then show ?thesis
      using be_enc_dec [of "be_enc 4 (a + b mod 256 ^ 4)"] be_enc_dec [of "be_enc 4 (b + a mod 256 ^ 4)"] by simp
  qed
  moreover have "(a mod 256 ^ 4 + b) mod 256 ^ 4 = (b mod 256 ^ 4 + a) mod (256 ^ 4 :: nat)" for a b :: nat
    by (simp only: mod_add_left_eq add.commute [of a b])
  moreover have "x mod 256 ^ 4 < 2 ^ 32" for x :: nat by simp
  ultimately show ?thesis
    by (auto simp: dh_ok_def toy_crypto_def be_dec_enc simp del: be_enc.simps power_numeral)
qed

lemma toy_crypto_ok: "crypto_ok toy_crypto"
  using toy_hashes toy_ciphers toy_dh by (simp add: crypto_ok_def)

end
