(* ===== verification/Suites.thy ===== *)
theory Suites
  imports Crypto
begin

text \<open>
  Cipher suites (\<open>cipher_suites.go\<close>): the tables, the constructors of ciphers and MACs, and the
  selection functions. The hardware flags of \<open>internal/cpu\<close> are the constants of that package.
\<close>

section \<open>The public lists\<close>

record CipherSuite =
  suite_ID :: u16
  suite_Name :: string
  suite_SupportedVersions :: "u16 list"
  suite_Insecure :: bool

definition supportedUpToTLS12 :: "u16 list" where
  "supportedUpToTLS12 = [VersionTLS10, VersionTLS11, VersionTLS12]"

definition supportedOnlyTLS12 :: "u16 list" where
  "supportedOnlyTLS12 = [VersionTLS12]"

definition supportedOnlyTLS13 :: "u16 list" where
  "supportedOnlyTLS13 = [VersionTLS13]"

abbreviation suite_entry :: "u16 \<Rightarrow> string \<Rightarrow> u16 list \<Rightarrow> bool \<Rightarrow> CipherSuite" where
  "suite_entry i n v b \<equiv> \<lparr>suite_ID = i, suite_Name = n, suite_SupportedVersions = v, suite_Insecure = b\<rparr>"

definition CipherSuites :: "CipherSuite list" where
  "CipherSuites = [
     suite_entry TLS_RSA_WITH_AES_128_CBC_SHA ''TLS_RSA_WITH_AES_128_CBC_SHA'' supportedUpToTLS12 False,
     suite_entry TLS_RSA_WITH_AES_256_CBC_SHA ''TLS_RSA_WITH_AES_256_CBC_SHA'' supportedUpToTLS12 False,
     suite_entry TLS_RSA_WITH_AES_128_GCM_SHA256 ''TLS_RSA_WITH_AES_128_GCM_SHA256'' supportedOnlyTLS12 False,
     suite_entry TLS_RSA_WITH_AES_256_GCM_SHA384 ''TLS_RSA_WITH_AES_256_GCM_SHA384'' supportedOnlyTLS12 False,
     suite_entry TLS_AES_128_GCM_SHA256 ''TLS_AES_128_GCM_SHA256'' supportedOnlyTLS13 False,
     suite_entry TLS_AES_256_GCM_SHA384 ''TLS_AES_256_GCM_SHA384'' supportedOnlyTLS13 False,
     suite_entry TLS_CHACHA20_POLY1305_SHA256 ''TLS_CHACHA20_POLY1305_SHA256'' supportedOnlyTLS13 False,
     suite_entry TLS_ECDHE_ECDSA_WITH_AES_128_CBC_SHA ''TLS_ECDHE_ECDSA_WITH_AES_128_CBC_SHA'' supportedUpToTLS12 False,
     suite_entry TLS_ECDHE_ECDSA_WITH_AES_256_CBC_SHA ''TLS_ECDHE_ECDSA_WITH_AES_256_CBC_SHA'' supportedUpToTLS12 False,
     suite_entry TLS_ECDHE_RSA_WITH_AES_128_CBC_SHA ''TLS_ECDHE_RSA_WITH_AES_128_CBC_SHA'' supportedUpToTLS12 False,
     suite_entry TLS_ECDHE_RSA_WITH_AES_256_CBC_SHA ''TLS_ECDHE_RSA_WITH_AES_256_CBC_SHA'' supportedUpToTLS12 False,
     suite_entry TLS_ECDHE_ECDSA_WITH_AES_128_GCM_SHA256 ''TLS_ECDHE_ECDSA_WITH_AES_128_GCM_SHA256'' supportedOnlyTLS12 False,
     suite_entry TLS_ECDHE_ECDSA_WITH_AES_256_GCM_SHA384 ''TLS_ECDHE_ECDSA_WITH_AES_256_GCM_SHA384'' supportedOnlyTLS12 False,
     suite_entry TLS_ECDHE_RSA_WITH_AES_128_GCM_SHA256 ''TLS_ECDHE_RSA_WITH_AES_128_GCM_SHA256'' supportedOnlyTLS12 False,
     suite_entry TLS_ECDHE_RSA_WITH_AES_256_GCM_SHA384 ''TLS_ECDHE_RSA_WITH_AES_256_GCM_SHA384'' supportedOnlyTLS12 False,
     suite_entry TLS_ECDHE_RSA_WITH_CHACHA20_POLY1305_SHA256 ''TLS_ECDHE_RSA_WITH_CHACHA20_POLY1305_SHA256'' supportedOnlyTLS12 False,
     suite_entry TLS_ECDHE_ECDSA_WITH_CHACHA20_POLY1305_SHA256 ''TLS_ECDHE_ECDSA_WITH_CHACHA20_POLY1305_SHA256'' supportedOnlyTLS12 False]"

definition InsecureCipherSuites :: "CipherSuite list" where
  "InsecureCipherSuites = [
     suite_entry TLS_RSA_WITH_RC4_128_SHA ''TLS_RSA_WITH_RC4_128_SHA'' supportedUpToTLS12 True,
     suite_entry TLS_RSA_WITH_3DES_EDE_CBC_SHA ''TLS_RSA_WITH_3DES_EDE_CBC_SHA'' supportedUpToTLS12 True,
     suite_entry TLS_RSA_WITH_AES_128_CBC_SHA256 ''TLS_RSA_WITH_AES_128_CBC_SHA256'' supportedOnlyTLS12 True,
     suite_entry TLS_ECDHE_ECDSA_WITH_RC4_128_SHA ''TLS_ECDHE_ECDSA_WITH_RC4_128_SHA'' supportedUpToTLS12 True,
     suite_entry TLS_ECDHE_RSA_WITH_RC4_128_SHA ''TLS_ECDHE_RSA_WITH_RC4_128_SHA'' supportedUpToTLS12 True,
     suite_entry TLS_ECDHE_RSA_WITH_3DES_EDE_CBC_SHA ''TLS_ECDHE_RSA_WITH_3DES_EDE_CBC_SHA'' supportedUpToTLS12 True,
     suite_entry TLS_ECDHE_ECDSA_WITH_AES_128_CBC_SHA256 ''TLS_ECDHE_ECDSA_WITH_AES_128_CBC_SHA256'' supportedOnlyTLS12 True,
     suite_entry TLS_ECDHE_RSA_WITH_AES_128_CBC_SHA256 ''TLS_ECDHE_RSA_WITH_AES_128_CBC_SHA256'' supportedOnlyTLS12 True]"

text \<open>\<open>fmt.Sprintf("0x%04X", id)\<close>.\<close>

definition hex_digit :: "nat \<Rightarrow> char" where
  "hex_digit n = ''0123456789ABCDEF'' ! n"

definition hex4 :: "u16 \<Rightarrow> string" where
  "hex4 i = ''0x'' @ map (\<lambda>k. hex_digit (unat i div 16 ^ k mod 16)) [3, 2, 1, 0]"

definition CipherSuiteName :: "u16 \<Rightarrow> string" where
  "CipherSuiteName i =
     (case find (\<lambda>c. suite_ID c = i) CipherSuites of
        Some c \<Rightarrow> suite_Name c
      | None \<Rightarrow>
          (case find (\<lambda>c. suite_ID c = i) InsecureCipherSuites of
             Some c \<Rightarrow> suite_Name c
           | None \<Rightarrow> hex4 i))"

section \<open>Ciphers and MACs\<close>

text \<open>
  The result of a constructor; \<^term>\<open>None\<close> where it panics, or where Go goes on with a nil block cipher and
  panics at its first use.
\<close>

definition cbc_mode :: "block_prim option \<Rightarrow> bytes \<Rightarrow> bool \<Rightarrow> cipher_state option" where
  "cbc_mode block iv isRead =
     (case block of
        None \<Rightarrow> None
      | Some b \<Rightarrow>
          if length iv \<noteq> block_size b then None
          else Some (if isRead then CBCDecrypter b iv else CBCEncrypter b iv))"

definition cipherRC4 :: "crypto \<Rightarrow> bytes \<Rightarrow> bytes \<Rightarrow> bool \<Rightarrow> cipher_state option" where
  "cipherRC4 P key iv isRead = map_option (\<lambda>ks. StreamCipher ks 0) (rc4_cipher P key)"

definition cipher3DES :: "crypto \<Rightarrow> bytes \<Rightarrow> bytes \<Rightarrow> bool \<Rightarrow> cipher_state option" where
  "cipher3DES P key iv isRead = cbc_mode (des_cipher P key) iv isRead"

definition cipherAES :: "crypto \<Rightarrow> bytes \<Rightarrow> bytes \<Rightarrow> bool \<Rightarrow> cipher_state option" where
  "cipherAES P key iv isRead = cbc_mode (aes_cipher P key) iv isRead"

definition macSHA1 :: "crypto \<Rightarrow> bytes \<Rightarrow> mac_prim" where
  "macSHA1 P key = \<lparr>mac_size = hash_size SHA1, mac_sum = hmac_sum P SHA1 key\<rparr>"

definition macSHA256 :: "crypto \<Rightarrow> bytes \<Rightarrow> mac_prim" where
  "macSHA256 P key = \<lparr>mac_size = hash_size SHA256, mac_sum = hmac_sum P SHA256 key\<rparr>"

definition aeadAESGCM :: "crypto \<Rightarrow> bytes \<Rightarrow> bytes \<Rightarrow> cipher_state option" where
  "aeadAESGCM P key noncePrefix =
     (if length noncePrefix \<noteq> noncePrefixLength then None
      else do {
        aes \<leftarrow> aes_cipher P key;
        aead \<leftarrow> gcm_aead P aes;
        Some (PrefixNonceAEAD (go_copy (replicate aeadNonceLength 0) noncePrefix) aead)
      })"

definition aeadAESGCMTLS13 :: "crypto \<Rightarrow> bytes \<Rightarrow> bytes \<Rightarrow> cipher_state option" where
  "aeadAESGCMTLS13 P key nonceMask =
     (if length nonceMask \<noteq> aeadNonceLength then None
      else do {
        aes \<leftarrow> aes_cipher P key;
        aead \<leftarrow> gcm_aead P aes;
        Some (XorNonceAEAD (go_copy (replicate aeadNonceLength 0) nonceMask) aead)
      })"

definition aeadChaCha20Poly1305 :: "crypto \<Rightarrow> bytes \<Rightarrow> bytes \<Rightarrow> cipher_state option" where
  "aeadChaCha20Poly1305 P key nonceMask =
     (if length nonceMask \<noteq> aeadNonceLength then None
      else do {
        aead \<leftarrow> chacha_aead P key;
        Some (XorNonceAEAD (go_copy (replicate aeadNonceLength 0) nonceMask) aead)
      })"

section \<open>Key agreements and suites\<close>

text \<open>
  \<open>ecdheParameters\<close> with its two implementations, and \<open>keyAgreement\<close>: RSA, or ephemeral Diffie-Hellman
  with what has been computed so far. Their operations are in \<open>KeyAgreement\<close>.
\<close>

datatype ecdheParameters =
    X25519Parameters bytes bytes
  | NistParameters u16 bytes "nat \<times> nat"

record ecdheKeyAgreement =
  ka_version :: u16
  ka_isRSA :: bool
  ka_params :: "ecdheParameters option"
  ka_ckx :: "bytes option"
  ka_preMasterSecret :: bytes

datatype keyAgreement = RsaKeyAgreement | EcdheKeyAgreement ecdheKeyAgreement

definition rsaKA :: "u16 \<Rightarrow> keyAgreement" where
  "rsaKA version = RsaKeyAgreement"

definition ecdheECDSAKA :: "u16 \<Rightarrow> keyAgreement" where
  "ecdheECDSAKA version = EcdheKeyAgreement
     \<lparr>ka_version = version, ka_isRSA = False, ka_params = None, ka_ckx = None, ka_preMasterSecret = []\<rparr>"

definition ecdheRSAKA :: "u16 \<Rightarrow> keyAgreement" where
  "ecdheRSAKA version = EcdheKeyAgreement
     \<lparr>ka_version = version, ka_isRSA = True, ka_params = None, ka_ckx = None, ka_preMasterSecret = []\<rparr>"

definition suiteECDHE :: int where "suiteECDHE = 1"
definition suiteECSign :: int where "suiteECSign = 2"
definition suiteTLS12 :: int where "suiteTLS12 = 4"
definition suiteSHA384 :: int where "suiteSHA384 = 8"

lemmas suite_flag_defs = suiteECDHE_def suiteECSign_def suiteTLS12_def suiteSHA384_def

text \<open>A nil function is \<^term>\<open>None\<close>.\<close>

record cipherSuite =
  cs_id :: u16
  cs_keyLen :: nat
  cs_macLen :: nat
  cs_ivLen :: nat
  cs_ka :: "u16 \<Rightarrow> keyAgreement"
  cs_flags :: int
  cs_cipher :: "(bytes \<Rightarrow> bytes \<Rightarrow> bool \<Rightarrow> cipher_state option) option"
  cs_mac :: "(bytes \<Rightarrow> mac_prim) option"
  cs_aead :: "(bytes \<Rightarrow> bytes \<Rightarrow> cipher_state option) option"

abbreviation suite_row ::
  "u16 \<Rightarrow> nat \<Rightarrow> nat \<Rightarrow> nat \<Rightarrow> (u16 \<Rightarrow> keyAgreement) \<Rightarrow> int \<Rightarrow> (bytes \<Rightarrow> bytes \<Rightarrow> bool \<Rightarrow> cipher_state option) option \<Rightarrow>
     (bytes \<Rightarrow> mac_prim) option \<Rightarrow> (bytes \<Rightarrow> bytes \<Rightarrow> cipher_state option) option \<Rightarrow> cipherSuite" where
  "suite_row i k m v ka f c mac a \<equiv> \<lparr>cs_id = i, cs_keyLen = k, cs_macLen = m, cs_ivLen = v, cs_ka = ka, cs_flags = f,
     cs_cipher = c, cs_mac = mac, cs_aead = a\<rparr>"

definition cipherSuites :: "crypto \<Rightarrow> cipherSuite list" where
  "cipherSuites P = [
     suite_row TLS_ECDHE_RSA_WITH_CHACHA20_POLY1305 32 0 12 ecdheRSAKA (suiteECDHE OR suiteTLS12) None None (Some (aeadChaCha20Poly1305 P)),
     suite_row TLS_ECDHE_ECDSA_WITH_CHACHA20_POLY1305 32 0 12 ecdheECDSAKA (suiteECDHE OR suiteECSign OR suiteTLS12) None None (Some (aeadChaCha20Poly1305 P)),
     suite_row TLS_ECDHE_RSA_WITH_AES_128_GCM_SHA256 16 0 4 ecdheRSAKA (suiteECDHE OR suiteTLS12) None None (Some (aeadAESGCM P)),
     suite_row TLS_ECDHE_ECDSA_WITH_AES_128_GCM_SHA256 16 0 4 ecdheECDSAKA (suiteECDHE OR suiteECSign OR suiteTLS12) None None (Some (aeadAESGCM P)),
     suite_row TLS_ECDHE_RSA_WITH_AES_256_GCM_SHA384 32 0 4 ecdheRSAKA (suiteECDHE OR suiteTLS12 OR suiteSHA384) None None (Some (aeadAESGCM P)),
     suite_row TLS_ECDHE_ECDSA_WITH_AES_256_GCM_SHA384 32 0 4 ecdheECDSAKA (suiteECDHE OR suiteECSign OR suiteTLS12 OR suiteSHA384) None None (Some (aeadAESGCM P)),
     suite_row TLS_ECDHE_RSA_WITH_AES_128_CBC_SHA256 16 32 16 ecdheRSAKA (suiteECDHE OR suiteTLS12) (Some (cipherAES P)) (Some (macSHA256 P)) None,
     suite_row TLS_ECDHE_RSA_WITH_AES_128_CBC_SHA 16 20 16 ecdheRSAKA (suiteECDHE) (Some (cipherAES P)) (Some (macSHA1 P)) None,
     suite_row TLS_ECDHE_ECDSA_WITH_AES_128_CBC_SHA256 16 32 16 ecdheECDSAKA (suiteECDHE OR suiteECSign OR suiteTLS12) (Some (cipherAES P)) (Some (macSHA256 P)) None,
     suite_row TLS_ECDHE_ECDSA_WITH_AES_128_CBC_SHA 16 20 16 ecdheECDSAKA (suiteECDHE OR suiteECSign) (Some (cipherAES P)) (Some (macSHA1 P)) None,
     suite_row TLS_ECDHE_RSA_WITH_AES_256_CBC_SHA 32 20 16 ecdheRSAKA (suiteECDHE) (Some (cipherAES P)) (Some (macSHA1 P)) None,
     suite_row TLS_ECDHE_ECDSA_WITH_AES_256_CBC_SHA 32 20 16 ecdheECDSAKA (suiteECDHE OR suiteECSign) (Some (cipherAES P)) (Some (macSHA1 P)) None,
     suite_row TLS_RSA_WITH_AES_128_GCM_SHA256 16 0 4 rsaKA (suiteTLS12) None None (Some (aeadAESGCM P)),
     suite_row TLS_RSA_WITH_AES_256_GCM_SHA384 32 0 4 rsaKA (suiteTLS12 OR suiteSHA384) None None (Some (aeadAESGCM P)),
     suite_row TLS_RSA_WITH_AES_128_CBC_SHA256 16 32 16 rsaKA (suiteTLS12) (Some (cipherAES P)) (Some (macSHA256 P)) None,
     suite_row TLS_RSA_WITH_AES_128_CBC_SHA 16 20 16 rsaKA (0) (Some (cipherAES P)) (Some (macSHA1 P)) None,
     suite_row TLS_RSA_WITH_AES_256_CBC_SHA 32 20 16 rsaKA (0) (Some (cipherAES P)) (Some (macSHA1 P)) None,
     suite_row TLS_ECDHE_RSA_WITH_3DES_EDE_CBC_SHA 24 20 8 ecdheRSAKA (suiteECDHE) (Some (cipher3DES P)) (Some (macSHA1 P)) None,
     suite_row TLS_RSA_WITH_3DES_EDE_CBC_SHA 24 20 8 rsaKA (0) (Some (cipher3DES P)) (Some (macSHA1 P)) None,
     suite_row TLS_RSA_WITH_RC4_128_SHA 16 20 0 rsaKA (0) (Some (cipherRC4 P)) (Some (macSHA1 P)) None,
     suite_row TLS_ECDHE_RSA_WITH_RC4_128_SHA 16 20 0 ecdheRSAKA (suiteECDHE) (Some (cipherRC4 P)) (Some (macSHA1 P)) None,
     suite_row TLS_ECDHE_ECDSA_WITH_RC4_128_SHA 16 20 0 ecdheECDSAKA (suiteECDHE OR suiteECSign) (Some (cipherRC4 P)) (Some (macSHA1 P)) None]"

record cipherSuiteTLS13 =
  c13_id :: u16
  c13_keyLen :: nat
  c13_aead :: "bytes \<Rightarrow> bytes \<Rightarrow> cipher_state option"
  c13_hash :: hash_alg

definition cipherSuitesTLS13 :: "crypto \<Rightarrow> cipherSuiteTLS13 list" where
  "cipherSuitesTLS13 P = [
     \<lparr>c13_id = TLS_AES_128_GCM_SHA256, c13_keyLen = 16, c13_aead = aeadAESGCMTLS13 P, c13_hash = SHA256\<rparr>,
     \<lparr>c13_id = TLS_CHACHA20_POLY1305_SHA256, c13_keyLen = 32, c13_aead = aeadChaCha20Poly1305 P, c13_hash = SHA256\<rparr>,
     \<lparr>c13_id = TLS_AES_256_GCM_SHA384, c13_keyLen = 32, c13_aead = aeadAESGCMTLS13 P, c13_hash = SHA384\<rparr>]"

section \<open>Preference lists\<close>

definition cipherSuitesPreferenceOrder :: "u16 list" where
  "cipherSuitesPreferenceOrder = [
     TLS_ECDHE_ECDSA_WITH_AES_128_GCM_SHA256, TLS_ECDHE_RSA_WITH_AES_128_GCM_SHA256,
     TLS_ECDHE_ECDSA_WITH_AES_256_GCM_SHA384, TLS_ECDHE_RSA_WITH_AES_256_GCM_SHA384,
     TLS_ECDHE_ECDSA_WITH_CHACHA20_POLY1305, TLS_ECDHE_RSA_WITH_CHACHA20_POLY1305,
     TLS_ECDHE_ECDSA_WITH_AES_128_CBC_SHA, TLS_ECDHE_RSA_WITH_AES_128_CBC_SHA,
     TLS_ECDHE_ECDSA_WITH_AES_256_CBC_SHA, TLS_ECDHE_RSA_WITH_AES_256_CBC_SHA,
     TLS_RSA_WITH_AES_128_GCM_SHA256, TLS_RSA_WITH_AES_256_GCM_SHA384, TLS_RSA_WITH_AES_128_CBC_SHA,
     TLS_RSA_WITH_AES_256_CBC_SHA, TLS_ECDHE_RSA_WITH_3DES_EDE_CBC_SHA, TLS_RSA_WITH_3DES_EDE_CBC_SHA,
     TLS_ECDHE_ECDSA_WITH_AES_128_CBC_SHA256, TLS_ECDHE_RSA_WITH_AES_128_CBC_SHA256,
     TLS_RSA_WITH_AES_128_CBC_SHA256, TLS_ECDHE_ECDSA_WITH_RC4_128_SHA, TLS_ECDHE_RSA_WITH_RC4_128_SHA,
     TLS_RSA_WITH_RC4_128_SHA]"

definition cipherSuitesPreferenceOrderNoAES :: "u16 list" where
  "cipherSuitesPreferenceOrderNoAES = [
     TLS_ECDHE_ECDSA_WITH_CHACHA20_POLY1305, TLS_ECDHE_RSA_WITH_CHACHA20_POLY1305,
     TLS_ECDHE_ECDSA_WITH_AES_128_GCM_SHA256, TLS_ECDHE_RSA_WITH_AES_128_GCM_SHA256,
     TLS_ECDHE_ECDSA_WITH_AES_256_GCM_SHA384, TLS_ECDHE_RSA_WITH_AES_256_GCM_SHA384,
     TLS_ECDHE_ECDSA_WITH_AES_128_CBC_SHA, TLS_ECDHE_RSA_WITH_AES_128_CBC_SHA,
     TLS_ECDHE_ECDSA_WITH_AES_256_CBC_SHA, TLS_ECDHE_RSA_WITH_AES_256_CBC_SHA,
     TLS_RSA_WITH_AES_128_GCM_SHA256, TLS_RSA_WITH_AES_256_GCM_SHA384, TLS_RSA_WITH_AES_128_CBC_SHA,
     TLS_RSA_WITH_AES_256_CBC_SHA, TLS_ECDHE_RSA_WITH_3DES_EDE_CBC_SHA, TLS_RSA_WITH_3DES_EDE_CBC_SHA,
     TLS_ECDHE_ECDSA_WITH_AES_128_CBC_SHA256, TLS_ECDHE_RSA_WITH_AES_128_CBC_SHA256,
     TLS_RSA_WITH_AES_128_CBC_SHA256, TLS_ECDHE_ECDSA_WITH_RC4_128_SHA, TLS_ECDHE_RSA_WITH_RC4_128_SHA,
     TLS_RSA_WITH_RC4_128_SHA]"

definition disabledCipherSuites :: "u16 list" where
  "disabledCipherSuites = [
     TLS_ECDHE_ECDSA_WITH_AES_128_CBC_SHA256, TLS_ECDHE_RSA_WITH_AES_128_CBC_SHA256,
     TLS_RSA_WITH_AES_128_CBC_SHA256, TLS_ECDHE_ECDSA_WITH_RC4_128_SHA, TLS_ECDHE_RSA_WITH_RC4_128_SHA,
     TLS_RSA_WITH_RC4_128_SHA]"

definition defaultCipherSuitesLen :: nat where
  "defaultCipherSuitesLen = length cipherSuitesPreferenceOrder - length disabledCipherSuites"

definition defaultCipherSuites :: "u16 list" where
  "defaultCipherSuites = take defaultCipherSuitesLen cipherSuitesPreferenceOrder"

definition defaultCipherSuitesTLS13 :: "u16 list" where
  "defaultCipherSuitesTLS13 = [
     TLS_AES_128_GCM_SHA256, TLS_AES_256_GCM_SHA384, TLS_CHACHA20_POLY1305_SHA256]"

definition defaultCipherSuitesTLS13NoAES :: "u16 list" where
  "defaultCipherSuitesTLS13NoAES = [
     TLS_CHACHA20_POLY1305_SHA256, TLS_AES_128_GCM_SHA256, TLS_AES_256_GCM_SHA384]"

text \<open>The flags of \<open>internal/cpu\<close>, and what they make of the architecture \<open>runtime.GOARCH\<close>.\<close>

record x86 =
  x86_HasAES :: bool
  x86_HasPCLMULQDQ :: bool

record arm64 =
  arm64_HasAES :: bool
  arm64_HasPMULL :: bool

record s390x =
  s390x_HasAES :: bool
  s390x_HasAESCBC :: bool
  s390x_HasAESCTR :: bool
  s390x_HasGHASH :: bool
  s390x_HasAESGCM :: bool

definition cpu_X86 :: x86 where
  "cpu_X86 = \<lparr>x86_HasAES = False, x86_HasPCLMULQDQ = False\<rparr>"

definition cpu_ARM64 :: arm64 where
  "cpu_ARM64 = \<lparr>arm64_HasAES = False, arm64_HasPMULL = False\<rparr>"

definition cpu_S390X :: s390x where
  "cpu_S390X = \<lparr>s390x_HasAES = False, s390x_HasAESCBC = False, s390x_HasAESCTR = False, s390x_HasGHASH = False,
     s390x_HasAESGCM = False\<rparr>"

definition hasAESGCMHardwareSupport :: "string \<Rightarrow> bool" where
  "hasAESGCMHardwareSupport GOARCH =
     (let hasGCMAsmAMD64 = x86_HasAES cpu_X86 \<and> x86_HasPCLMULQDQ cpu_X86;
          hasGCMAsmARM64 = arm64_HasAES cpu_ARM64 \<and> arm64_HasPMULL cpu_ARM64;
          hasGCMAsmS390X = s390x_HasAES cpu_S390X \<and> s390x_HasAESCBC cpu_S390X \<and> s390x_HasAESCTR cpu_S390X \<and>
            (s390x_HasGHASH cpu_S390X \<or> s390x_HasAESGCM cpu_S390X)
      in GOARCH = ''amd64'' \<and> hasGCMAsmAMD64 \<or> GOARCH = ''arm64'' \<and> hasGCMAsmARM64 \<or>
         GOARCH = ''s390x'' \<and> hasGCMAsmS390X)"

definition aesgcmCiphers :: "u16 list" where
  "aesgcmCiphers = [
     TLS_ECDHE_RSA_WITH_AES_128_GCM_SHA256, TLS_ECDHE_RSA_WITH_AES_256_GCM_SHA384,
     TLS_ECDHE_ECDSA_WITH_AES_128_GCM_SHA256, TLS_ECDHE_ECDSA_WITH_AES_256_GCM_SHA384, TLS_AES_128_GCM_SHA256,
     TLS_AES_256_GCM_SHA384]"

definition nonAESGCMAEADCiphers :: "u16 list" where
  "nonAESGCMAEADCiphers = [
     TLS_ECDHE_RSA_WITH_CHACHA20_POLY1305, TLS_ECDHE_ECDSA_WITH_CHACHA20_POLY1305,
     TLS_CHACHA20_POLY1305_SHA256]"

section \<open>Selection\<close>

definition cipherSuiteByID :: "crypto \<Rightarrow> u16 \<Rightarrow> cipherSuite option" where
  "cipherSuiteByID P i = find (\<lambda>c. cs_id c = i) (cipherSuites P)"

definition cipherSuiteTLS13ByID :: "crypto \<Rightarrow> u16 \<Rightarrow> cipherSuiteTLS13 option" where
  "cipherSuiteTLS13ByID P i = find (\<lambda>c. c13_id c = i) (cipherSuitesTLS13 P)"

text \<open>Both loops stop at the first suite of \<open>have\<close> that is \<open>want\<close>.\<close>

fun mutualCipherSuite :: "crypto \<Rightarrow> u16 list \<Rightarrow> u16 \<Rightarrow> cipherSuite option" where
  "mutualCipherSuite P [] want = None"
| "mutualCipherSuite P (i # have') want = (if i = want then cipherSuiteByID P i else mutualCipherSuite P have' want)"

fun mutualCipherSuiteTLS13 :: "crypto \<Rightarrow> u16 list \<Rightarrow> u16 \<Rightarrow> cipherSuiteTLS13 option" where
  "mutualCipherSuiteTLS13 P [] want = None"
| "mutualCipherSuiteTLS13 P (i # have') want =
     (if i = want then cipherSuiteTLS13ByID P i else mutualCipherSuiteTLS13 P have' want)"

fun selectCipherSuite :: "crypto \<Rightarrow> u16 list \<Rightarrow> u16 list \<Rightarrow> (cipherSuite \<Rightarrow> bool) \<Rightarrow> cipherSuite option" where
  "selectCipherSuite P [] supportedIDs ok = None"
| "selectCipherSuite P (i # ids) supportedIDs ok =
     (case cipherSuiteByID P i of
        None \<Rightarrow> selectCipherSuite P ids supportedIDs ok
      | Some candidate \<Rightarrow>
          if \<not> ok candidate then selectCipherSuite P ids supportedIDs ok
          else if i \<in> set supportedIDs then Some candidate
          else selectCipherSuite P ids supportedIDs ok)"

fun aesgcmPreferred :: "crypto \<Rightarrow> u16 list \<Rightarrow> bool" where
  "aesgcmPreferred P [] = False"
| "aesgcmPreferred P (cID # ciphers) =
     (if cipherSuiteByID P cID \<noteq> None then cID \<in> set aesgcmCiphers
      else if cipherSuiteTLS13ByID P cID \<noteq> None then cID \<in> set aesgcmCiphers
      else aesgcmPreferred P ciphers)"

end
