(* ===== verification/Prf.thy ===== *)
theory Prf
  imports Suites
begin

text \<open>
  The pseudo-random functions of TLS 1.0 to 1.2 (\<open>prf.go\<close>), the secrets derived with them, and the
  running hash of the handshake. A function that fills a \<open>result\<close> slice takes its length and
  returns its new content. \<^term>\<open>None\<close> is a panic, or a loop that does not end.
\<close>

section \<open>Pseudo-random functions\<close>

definition splitPreMasterSecret :: "bytes \<Rightarrow> bytes \<times> bytes" where
  "splitPreMasterSecret secret = (take ((length secret + 1) div 2) secret, drop (length secret div 2) secret)"

text \<open>The loop of \<open>pHash\<close>; it would not end for a hash of no bytes.\<close>

partial_function (option) pHash_loop ::
  "crypto \<Rightarrow> hash_alg \<Rightarrow> bytes \<Rightarrow> bytes \<Rightarrow> bytes \<Rightarrow> nat \<Rightarrow> bytes \<Rightarrow> bytes option" where
  "pHash_loop P h secret seed a j result =
     (if j < length result then
        let b = hmac_sum P h secret (a @ seed)
        in Option.bind (copy_at j result b)
             (\<lambda>result'. pHash_loop P h secret seed (hmac_sum P h secret a) (j + length b) result')
      else Some result)"

definition pHash :: "crypto \<Rightarrow> hash_alg \<Rightarrow> nat \<Rightarrow> bytes \<Rightarrow> bytes \<Rightarrow> bytes option" where
  "pHash P h n secret seed = pHash_loop P h secret seed (hmac_sum P h secret seed) 0 (replicate n 0)"

type_synonym prf_fun = "nat \<Rightarrow> bytes \<Rightarrow> bytes \<Rightarrow> bytes \<Rightarrow> bytes option"

definition prf10 :: "crypto \<Rightarrow> prf_fun" where
  "prf10 P n secret label seed =
     (let labelAndSeed = label @ seed; (s1, s2) = splitPreMasterSecret secret
      in do {
        result \<leftarrow> pHash P MD5 n s1 labelAndSeed;
        result2 \<leftarrow> pHash P SHA1 n s2 labelAndSeed;
        Some (xor_bytes result result2)
      })"

definition prf12 :: "crypto \<Rightarrow> hash_alg \<Rightarrow> prf_fun" where
  "prf12 P h n secret label seed = pHash P h n secret (label @ seed)"

definition masterSecretLength :: nat where "masterSecretLength = 48"
definition finishedVerifyLength :: nat where "finishedVerifyLength = 12"

definition masterSecretLabel :: bytes where "masterSecretLabel = str ''master secret''"
definition keyExpansionLabel :: bytes where "keyExpansionLabel = str ''key expansion''"
definition clientFinishedLabel :: bytes where "clientFinishedLabel = str ''client finished''"
definition serverFinishedLabel :: bytes where "serverFinishedLabel = str ''server finished''"

definition prfAndHashForVersion :: "crypto \<Rightarrow> u16 \<Rightarrow> cipherSuite \<Rightarrow> (prf_fun \<times> hash_alg) option" where
  "prfAndHashForVersion P version suite =
     (if version = VersionTLS10 \<or> version = VersionTLS11 then Some (prf10 P, NoHash)
      else if version = VersionTLS12 then
        (if cs_flags suite AND suiteSHA384 \<noteq> 0 then Some (prf12 P SHA384, SHA384)
         else Some (prf12 P SHA256, SHA256))
      else None)"

definition prfForVersion :: "crypto \<Rightarrow> u16 \<Rightarrow> cipherSuite \<Rightarrow> prf_fun option" where
  "prfForVersion P version suite = map_option fst (prfAndHashForVersion P version suite)"

section \<open>Secrets\<close>

definition masterFromPreMasterSecret ::
  "crypto \<Rightarrow> u16 \<Rightarrow> cipherSuite \<Rightarrow> bytes \<Rightarrow> bytes \<Rightarrow> bytes \<Rightarrow> bytes option" where
  "masterFromPreMasterSecret P version suite preMasterSecret clientRandom serverRandom =
     do {
       prf \<leftarrow> prfForVersion P version suite;
       prf masterSecretLength preMasterSecret masterSecretLabel (clientRandom @ serverRandom)
     }"

text \<open>The key block: both MAC keys, both cipher keys, both IVs.\<close>

record keyBlock =
  kb_clientMAC :: bytes
  kb_serverMAC :: bytes
  kb_clientKey :: bytes
  kb_serverKey :: bytes
  kb_clientIV :: bytes
  kb_serverIV :: bytes

definition cutKeys :: "bytes \<Rightarrow> nat \<Rightarrow> nat \<Rightarrow> nat \<Rightarrow> keyBlock option" where
  "cutKeys keyMaterial macLen keyLen ivLen =
     do {
       clientMAC \<leftarrow> go_slice keyMaterial 0 macLen;
       keyMaterial \<leftarrow> go_slice keyMaterial macLen (length keyMaterial);
       serverMAC \<leftarrow> go_slice keyMaterial 0 macLen;
       keyMaterial \<leftarrow> go_slice keyMaterial macLen (length keyMaterial);
       clientKey \<leftarrow> go_slice keyMaterial 0 keyLen;
       keyMaterial \<leftarrow> go_slice keyMaterial keyLen (length keyMaterial);
       serverKey \<leftarrow> go_slice keyMaterial 0 keyLen;
       keyMaterial \<leftarrow> go_slice keyMaterial keyLen (length keyMaterial);
       clientIV \<leftarrow> go_slice keyMaterial 0 ivLen;
       keyMaterial \<leftarrow> go_slice keyMaterial ivLen (length keyMaterial);
       serverIV \<leftarrow> go_slice keyMaterial 0 ivLen;
       Some \<lparr>kb_clientMAC = clientMAC, kb_serverMAC = serverMAC, kb_clientKey = clientKey,
             kb_serverKey = serverKey, kb_clientIV = clientIV, kb_serverIV = serverIV\<rparr>
     }"

definition keysFromMasterSecret ::
  "crypto \<Rightarrow> u16 \<Rightarrow> cipherSuite \<Rightarrow> bytes \<Rightarrow> bytes \<Rightarrow> bytes \<Rightarrow> nat \<Rightarrow> nat \<Rightarrow> nat \<Rightarrow> keyBlock option" where
  "keysFromMasterSecret P version suite masterSecret clientRandom serverRandom macLen keyLen ivLen =
     do {
       prf \<leftarrow> prfForVersion P version suite;
       keyMaterial \<leftarrow> prf (2 * macLen + 2 * keyLen + 2 * ivLen) masterSecret keyExpansionLabel (serverRandom @ clientRandom);
       cutKeys keyMaterial macLen keyLen ivLen
     }"

section \<open>The hash of the handshake\<close>

record finishedHash =
  fh_client :: hash_state
  fh_server :: hash_state
  fh_clientMD5 :: "hash_state option"
  fh_serverMD5 :: "hash_state option"
  fh_buffer :: "bytes option"
  fh_version :: u16
  fh_prf :: prf_fun

definition newFinishedHash :: "crypto \<Rightarrow> u16 \<Rightarrow> cipherSuite \<Rightarrow> finishedHash option" where
  "newFinishedHash P version suite =
     (let buffer = (if version \<ge> VersionTLS12 then Some [] else None)
      in do {
        (prf, h) \<leftarrow> prfAndHashForVersion P version suite;
        Some (if h \<noteq> NoHash then
            \<lparr>fh_client = hash_new h, fh_server = hash_new h, fh_clientMD5 = None, fh_serverMD5 = None,
             fh_buffer = buffer, fh_version = version, fh_prf = prf\<rparr>
          else
            \<lparr>fh_client = hash_new SHA1, fh_server = hash_new SHA1, fh_clientMD5 = Some (hash_new MD5),
             fh_serverMD5 = Some (hash_new MD5), fh_buffer = buffer, fh_version = version, fh_prf = prf\<rparr>)
      })"

definition finishedHash_Write :: "bytes \<Rightarrow> finishedHash \<Rightarrow> finishedHash option" where
  "finishedHash_Write msg h =
     (let h1 = h\<lparr>fh_client := hash_Write msg (fh_client h), fh_server := hash_Write msg (fh_server h)\<rparr>
      in do {
        h2 \<leftarrow> (if fh_version h < VersionTLS12 then
                 do {
                   c \<leftarrow> fh_clientMD5 h;
                   s \<leftarrow> fh_serverMD5 h;
                   Some (h1\<lparr>fh_clientMD5 := Some (hash_Write msg c), fh_serverMD5 := Some (hash_Write msg s)\<rparr>)
                 }
               else Some h1);
        Some (h2\<lparr>fh_buffer := map_option (\<lambda>b. b @ msg) (fh_buffer h)\<rparr>)
      })"

definition finishedHash_Sum :: "crypto \<Rightarrow> finishedHash \<Rightarrow> bytes option" where
  "finishedHash_Sum P h =
     (if fh_version h \<ge> VersionTLS12 then Some (hash_Sum P (fh_client h))
      else map_option (\<lambda>m. hash_Sum P m @ hash_Sum P (fh_client h)) (fh_clientMD5 h))"

definition clientSum :: "crypto \<Rightarrow> finishedHash \<Rightarrow> bytes \<Rightarrow> bytes option" where
  "clientSum P h masterSecret =
     Option.bind (finishedHash_Sum P h) (\<lambda>s. fh_prf h finishedVerifyLength masterSecret clientFinishedLabel s)"

definition serverSum :: "crypto \<Rightarrow> finishedHash \<Rightarrow> bytes \<Rightarrow> bytes option" where
  "serverSum P h masterSecret =
     Option.bind (finishedHash_Sum P h) (\<lambda>s. fh_prf h finishedVerifyLength masterSecret serverFinishedLabel s)"

text \<open>\<^term>\<open>None\<close> is the explicit panic; \<open>crypto.Hash(0).New()\<close> panics as well.\<close>

definition hashForClientCertificate :: "crypto \<Rightarrow> finishedHash \<Rightarrow> byte \<Rightarrow> hash_alg \<Rightarrow> bytes option" where
  "hashForClientCertificate P h sigType hashAlg =
     (if (fh_version h \<ge> VersionTLS12 \<or> sigType = signatureEd25519) \<and> fh_buffer h = None then None
      else if sigType = signatureEd25519 then fh_buffer h
      else if fh_version h \<ge> VersionTLS12 then
        (if hashAlg = NoHash then None
         else map_option (\<lambda>b. hash_Sum P (hash_Write b (hash_new hashAlg))) (fh_buffer h))
      else if sigType = signatureECDSA then Some (hash_Sum P (fh_server h))
      else finishedHash_Sum P h)"

definition discardHandshakeBuffer :: "finishedHash \<Rightarrow> finishedHash" where
  "discardHandshakeBuffer h = h\<lparr>fh_buffer := None\<rparr>"

section \<open>Exported keying material\<close>

text \<open>\<open>ekm\<close> is the function type of \<open>ConnectionState.ekm\<close>: label, context (possibly nil) and length.\<close>

type_synonym ekm = "bytes \<Rightarrow> bytes option \<Rightarrow> nat \<Rightarrow> (string + bytes) option"

definition noExportedKeyingMaterial :: ekm where
  "noExportedKeyingMaterial label context n =
     Some (Inl ''crypto/tls: ExportKeyingMaterial is unavailable when renegotiation is enabled'')"

definition reservedLabels :: "bytes list" where
  "reservedLabels = [str ''client finished'', str ''server finished'', str ''master secret'', str ''key expansion'']"

definition ekmFromMasterSecret :: "crypto \<Rightarrow> u16 \<Rightarrow> cipherSuite \<Rightarrow> bytes \<Rightarrow> bytes \<Rightarrow> bytes \<Rightarrow> ekm" where
  "ekmFromMasterSecret P version suite masterSecret clientRandom serverRandom label context n =
     (if label \<in> set reservedLabels then
        Some (Inl (''crypto/tls: reserved ExportKeyingMaterial label: '' @ map (\<lambda>b. char_of (unat b)) label))
      else
        case context of
          None \<Rightarrow>
            do {
              prf \<leftarrow> prfForVersion P version suite;
              keyMaterial \<leftarrow> prf n masterSecret label (clientRandom @ serverRandom);
              Some (Inr keyMaterial)
            }
        | Some c \<Rightarrow>
            if length c \<ge> 2 ^ 16 then Some (Inl ''crypto/tls: ExportKeyingMaterial context too long'')
            else do {
              prf \<leftarrow> prfForVersion P version suite;
              keyMaterial \<leftarrow> prf n masterSecret label (clientRandom @ serverRandom @ be_enc 2 (length c) @ c);
              Some (Inr keyMaterial)
            })"

end
