(* ===== verification/KeySchedule.thy ===== *)
theory KeySchedule
  imports Prf HalfConn Cryptobyte
begin

text \<open>
  The key schedule of TLS 1.3 (\<open>key_schedule.go\<close>) and ephemeral Diffie-Hellman. \<open>B\<close> is the
  \<open>cryptobyte\<close> builder, \<open>P\<close> the primitives. \<^term>\<open>None\<close> is a panic, an error of a primitive
  \<^term>\<open>Inl\<close> of a \<^typ>\<open>conn_error\<close>.
\<close>

section \<open>Labels\<close>

definition resumptionBinderLabel :: bytes where "resumptionBinderLabel = str ''res binder''"
definition clientHandshakeTrafficLabel :: bytes where "clientHandshakeTrafficLabel = str ''c hs traffic''"
definition serverHandshakeTrafficLabel :: bytes where "serverHandshakeTrafficLabel = str ''s hs traffic''"
definition clientApplicationTrafficLabel :: bytes where "clientApplicationTrafficLabel = str ''c ap traffic''"
definition serverApplicationTrafficLabel :: bytes where "serverApplicationTrafficLabel = str ''s ap traffic''"
definition exporterLabel :: bytes where "exporterLabel = str ''exp master''"
definition resumptionLabel :: bytes where "resumptionLabel = str ''res master''"
definition trafficUpdateLabel :: bytes where "trafficUpdateLabel = str ''traffic upd''"

section \<open>The schedule\<close>

definition hkdfLabel :: "'b builder \<Rightarrow> bytes \<Rightarrow> bytes \<Rightarrow> nat \<Rightarrow> bytes option" where
  "hkdfLabel B label context n =
     b_result B (steps [
       b_uint B 2 n,
       lp B 1 (steps [b_bytes B (str ''tls13 ''), b_bytes B label]),
       lp B 1 (b_bytes B context)] (b_new B))"

definition expandLabel ::
  "crypto \<Rightarrow> 'b builder \<Rightarrow> cipherSuiteTLS13 \<Rightarrow> bytes \<Rightarrow> bytes \<Rightarrow> bytes \<Rightarrow> nat \<Rightarrow> bytes option" where
  "expandLabel P B c secret label context n =
     do {
       info \<leftarrow> hkdfLabel B label context n;
       hkdf_expand P (c13_hash c) secret info n
     }"

text \<open>A nil transcript is the empty one.\<close>

definition deriveSecret ::
  "crypto \<Rightarrow> 'b builder \<Rightarrow> cipherSuiteTLS13 \<Rightarrow> bytes \<Rightarrow> bytes \<Rightarrow> hash_state option \<Rightarrow> bytes option" where
  "deriveSecret P B c secret label transcript =
     (let t = (case transcript of None \<Rightarrow> hash_new (c13_hash c) | Some t \<Rightarrow> t)
      in expandLabel P B c secret label (hash_Sum P t) (hash_size (c13_hash c)))"

definition hkdfExtract :: "crypto \<Rightarrow> cipherSuiteTLS13 \<Rightarrow> bytes option \<Rightarrow> bytes \<Rightarrow> bytes" where
  "hkdfExtract P c newSecret currentSecret =
     hkdf_extract P (c13_hash c)
       (case newSecret of None \<Rightarrow> replicate (hash_size (c13_hash c)) 0 | Some s \<Rightarrow> s) currentSecret"

definition nextTrafficSecret :: "crypto \<Rightarrow> 'b builder \<Rightarrow> cipherSuiteTLS13 \<Rightarrow> bytes \<Rightarrow> bytes option" where
  "nextTrafficSecret P B c trafficSecret =
     expandLabel P B c trafficSecret trafficUpdateLabel [] (hash_size (c13_hash c))"

definition trafficKey :: "crypto \<Rightarrow> 'b builder \<Rightarrow> cipherSuiteTLS13 \<Rightarrow> bytes \<Rightarrow> (bytes \<times> bytes) option" where
  "trafficKey P B c trafficSecret =
     do {
       key \<leftarrow> expandLabel P B c trafficSecret (str ''key'') [] (c13_keyLen c);
       iv \<leftarrow> expandLabel P B c trafficSecret (str ''iv'') [] aeadNonceLength;
       Some (key, iv)
     }"

definition finishedHash13 ::
  "crypto \<Rightarrow> 'b builder \<Rightarrow> cipherSuiteTLS13 \<Rightarrow> bytes \<Rightarrow> hash_state \<Rightarrow> bytes option" where
  "finishedHash13 P B c baseKey transcript =
     do {
       finishedKey \<leftarrow> expandLabel P B c baseKey (str ''finished'') [] (hash_size (c13_hash c));
       Some (hmac_sum P (c13_hash c) finishedKey (hash_Sum P transcript))
     }"

text \<open>The first panic is that of \<open>exportKeyingMaterial\<close>, the second that of the function it returns.\<close>

definition exportKeyingMaterial ::
  "crypto \<Rightarrow> 'b builder \<Rightarrow> cipherSuiteTLS13 \<Rightarrow> bytes \<Rightarrow> hash_state \<Rightarrow> ekm option" where
  "exportKeyingMaterial P B c masterSecret transcript =
     map_option
       (\<lambda>expMasterSecret label context n.
          do {
            secret \<leftarrow> deriveSecret P B c expMasterSecret label None;
            h \<leftarrow> Some (hash_Write (case context of None \<Rightarrow> [] | Some x \<Rightarrow> x) (hash_new (c13_hash c)));
            out \<leftarrow> expandLabel P B c secret (str ''exporter'') (hash_Sum P h) n;
            Some (Inr out)
          })
       (deriveSecret P B c masterSecret exporterLabel (Some transcript))"

text \<open>\<open>setTrafficSecret\<close> of \<open>conn.go\<close>: \<open>seq\<close> is cleared byte by byte.\<close>

definition setTrafficSecret ::
  "crypto \<Rightarrow> 'b builder \<Rightarrow> cipherSuiteTLS13 \<Rightarrow> bytes \<Rightarrow> halfConn \<Rightarrow> halfConn option" where
  "setTrafficSecret P B suite secret hc =
     do {
       (key, iv) \<leftarrow> trafficKey P B suite secret;
       cip \<leftarrow> c13_aead suite key iv;
       Some (hc\<lparr>hc_trafficSecret := secret, hc_cipher := Some cip, hc_seq := seq_zero\<rparr>)
     }"

section \<open>Ephemeral Diffie-Hellman\<close>

text \<open>\<open>curveForCurveID\<close>: the curves are those with a group number of the primitives.\<close>

definition curveForCurveID :: "u16 \<Rightarrow> u16 option" where
  "curveForCurveID i =
     (if i = CurveP256 then Some CurveP256
      else if i = CurveP384 then Some CurveP384
      else if i = CurveP521 then Some CurveP521
      else None)"

definition generateECDHEParameters ::
  "crypto \<Rightarrow> rand_source \<Rightarrow> u16 \<Rightarrow> conn_error + ecdheParameters" where
  "generateECDHEParameters P rnd curveID =
     (if curveID = X25519 then
        (case rnd 32 of
           None \<Rightarrow> Inl RandError
         | Some privateKey \<Rightarrow>
             (case x25519 P privateKey (x25519_base P) of
                None \<Rightarrow> Inl (OtherError ''curve25519'')
              | Some publicKey \<Rightarrow> Inr (X25519Parameters privateKey publicKey)))
      else
        (case curveForCurveID curveID of
           None \<Rightarrow> Inl (OtherError ''tls: internal error: unsupported curve'')
         | Some curve \<Rightarrow>
             (case ec_generate P curve rnd of
                None \<Rightarrow> Inl RandError
              | Some (privateKey, x, y) \<Rightarrow> Inr (NistParameters curveID privateKey (x, y)))))"

fun CurveID :: "ecdheParameters \<Rightarrow> u16" where
  "CurveID (X25519Parameters privateKey publicKey) = X25519"
| "CurveID (NistParameters curveID privateKey xy) = curveID"

text \<open>A nil curve panics.\<close>

fun PublicKey :: "crypto \<Rightarrow> ecdheParameters \<Rightarrow> bytes option" where
  "PublicKey P (X25519Parameters privateKey publicKey) = Some publicKey"
| "PublicKey P (NistParameters curveID privateKey xy) =
     map_option (\<lambda>curve. ec_marshal P curve xy) (curveForCurveID curveID)"

text \<open>The nil result is the inner \<^term>\<open>None\<close>; \<open>FillBytes\<close> panics when the number does not fit.\<close>

fun SharedKey :: "crypto \<Rightarrow> ecdheParameters \<Rightarrow> bytes \<Rightarrow> bytes option option" where
  "SharedKey P (X25519Parameters privateKey publicKey) peerPublicKey = Some (x25519 P privateKey peerPublicKey)"
| "SharedKey P (NistParameters curveID privateKey xy) peerPublicKey =
     do {
       curve \<leftarrow> curveForCurveID curveID;
       case ec_unmarshal P curve peerPublicKey of
         None \<Rightarrow> Some None
       | Some p \<Rightarrow>
           (let xShared = fst (ec_mult P curve p privateKey); n = (ec_bits P curve + 7) div 8
            in if xShared < 256 ^ n then Some (Some (be_enc n xShared)) else None)
     }"

end
