(* ===== verification/PrfLemmas.thy ===== *)
theory PrfLemmas
  imports Prf
begin

text \<open>
  \<open>pHash\<close> computes the \<open>P_hash\<close> of RFC 4346: its loop ends, and its result is a prefix of the
  concatenated blocks. The lengths of everything derived with it follow.
\<close>

section \<open>\<open>P_hash\<close>\<close>

text \<open>\<open>A(i)\<close> and the first \<open>k\<close> blocks of the RFC.\<close>

primrec A_hash :: "crypto \<Rightarrow> hash_alg \<Rightarrow> bytes \<Rightarrow> bytes \<Rightarrow> nat \<Rightarrow> bytes" where
  "A_hash P h secret seed 0 = seed"
| "A_hash P h secret seed (Suc i) = hmac_sum P h secret (A_hash P h secret seed i)"

definition P_hash :: "crypto \<Rightarrow> hash_alg \<Rightarrow> bytes \<Rightarrow> bytes \<Rightarrow> nat \<Rightarrow> bytes" where
  "P_hash P h secret seed k = concat (map (\<lambda>i. hmac_sum P h secret (A_hash P h secret seed i @ seed)) [1..<Suc k])"

lemma length_P_hash:
  assumes "hashes_ok P"
  shows "length (P_hash P h secret seed k) = k * hash_size h"
proof -
  have "length (hmac_sum P h s m) = hash_size h" for s m using assms by (simp add: hashes_ok_def)
  then show ?thesis by (induction k) (simp_all add: P_hash_def)
qed

lemma pHash_loop_blocks:
  assumes "hashes_ok P" and "0 < hash_size h" and "length result \<le> j + k * hash_size h"
  shows "pHash_loop P h secret seed (A_hash P h secret seed (Suc i)) j result =
    Some (take j result @
      take (length result - j) (concat (map (\<lambda>i. hmac_sum P h secret (A_hash P h secret seed i @ seed)) [Suc i..<Suc i + k])))"
  using assms(3)
proof (induction k arbitrary: i j result)
  case 0
  then show ?case by (simp add: pHash_loop.simps)
next
  case (Suc k)
  let ?b = "hmac_sum P h secret (A_hash P h secret seed (Suc i) @ seed)"
  have b: "length ?b = hash_size h" using assms(1) by (simp add: hashes_ok_def)
  show ?case
  proof (cases "j < length result")
    case True
    define result' where "result' = take j result @ go_copy (drop j result) ?b"
    have l: "length result' = length result" using True by (simp add: result'_def)
    have "pHash_loop P h secret seed (A_hash P h secret seed (Suc i)) j result =
        pHash_loop P h secret seed (A_hash P h secret seed (Suc (Suc i))) (j + hash_size h) result'"
      using True b by (subst pHash_loop.simps) (simp add: copy_at_def result'_def Let_def)
    also have "\<dots> = Some (take (j + hash_size h) result' @ take (length result' - (j + hash_size h))
        (concat (map (\<lambda>i. hmac_sum P h secret (A_hash P h secret seed i @ seed)) [Suc (Suc i)..<Suc (Suc i) + k])))"
      using Suc.prems l by (intro Suc.IH) simp
    also have "take (j + hash_size h) result' = take j result @ take (length result - j) ?b"
      using True b by (simp add: result'_def go_copy_def min_def gr_implies_not0 [OF assms(2)])
    finally show ?thesis using b l by (simp add: upt_conv_Cons [of "Suc i"] del: upt_Suc)
  next
    case False
    then show ?thesis by (simp add: pHash_loop.simps)
  qed
qed

lemma pHash_eq:
  assumes "hashes_ok P" and "0 < hash_size h" and "n \<le> k * hash_size h"
  shows "pHash P h n secret seed = Some (take n (P_hash P h secret seed k))"
  using pHash_loop_blocks [OF assms(1,2), of "replicate n 0" 0 k secret seed 0] assms(3)
  by (simp add: pHash_def P_hash_def del: upt_Suc)

lemma pHash_total:
  assumes "hashes_ok P" and "0 < hash_size h"
  obtains r where "pHash P h n secret seed = Some r" and "length r = n"
proof
  show "pHash P h n secret seed = Some (take n (P_hash P h secret seed n))"
    using assms by (intro pHash_eq) simp_all
  have "n * 1 \<le> n * hash_size h" using assms(2) by (intro mult_le_mono2) simp
  then show "length (take n (P_hash P h secret seed n)) = n"
    by (simp add: length_P_hash [OF assms(1)] min_absorb2 min_absorb1)
qed

section \<open>Derived secrets\<close>

definition prf_ok :: "prf_fun \<Rightarrow> bool" where
  "prf_ok f \<longleftrightarrow> (\<forall>n secret label seed. \<exists>r. f n secret label seed = Some r \<and> length r = n)"

lemma prf12_ok: "hashes_ok P \<Longrightarrow> 0 < hash_size h \<Longrightarrow> prf_ok (prf12 P h)"
  by (auto simp: prf_ok_def prf12_def elim: pHash_total)

lemma prf10_ok:
  assumes "hashes_ok P"
  shows "prf_ok (prf10 P)"
proof -
  have "\<exists>r. prf10 P n secret label seed = Some r \<and> length r = n" for n secret label seed
  proof -
    obtain s1 s2 where s: "splitPreMasterSecret secret = (s1, s2)" by fastforce
    obtain r where r: "pHash P MD5 n s1 (label @ seed) = Some r" "length r = n"
      using pHash_total [OF assms] by (metis hash_size.simps(2) zero_less_numeral)
    obtain q where q: "pHash P SHA1 n s2 (label @ seed) = Some q" "length q = n"
      using pHash_total [OF assms] by (metis hash_size.simps(3) zero_less_numeral)
    from s r q show ?thesis by (simp add: prf10_def)
  qed
  then show ?thesis by (simp add: prf_ok_def)
qed

abbreviation known_version :: "u16 \<Rightarrow> bool" where
  "known_version v \<equiv> v \<in> {VersionTLS10, VersionTLS11, VersionTLS12}"

lemma prfForVersion_ok:
  assumes "hashes_ok P" and "known_version v"
  obtains f where "prfForVersion P v suite = Some f" and "prf_ok f"
proof -
  have p: "prf_ok (prf12 P SHA384)" "prf_ok (prf12 P SHA256)" "prf_ok (prf10 P)"
    using assms(1) by (auto intro!: prf12_ok prf10_ok)
  have "\<exists>f. prfForVersion P v suite = Some f \<and> f \<in> {prf10 P, prf12 P SHA384, prf12 P SHA256}"
    using assms(2) by (auto simp: prfForVersion_def prfAndHashForVersion_def)
  with p that show ?thesis by blast
qed

lemma masterFromPreMasterSecret_length:
  assumes "hashes_ok P" and "known_version v"
  shows "\<exists>m. masterFromPreMasterSecret P v suite pre cr sr = Some m \<and> length m = 48"
proof -
  from prfForVersion_ok [OF assms, of suite] obtain f where "prfForVersion P v suite = Some f" "prf_ok f" .
  then show ?thesis by (auto simp: masterFromPreMasterSecret_def prf_ok_def masterSecretLength_def)
qed

lemma cutKeys_Some:
  assumes "length km = 2 * m + 2 * k + 2 * v"
  shows "\<exists>kb. cutKeys km m k v = Some kb \<and>
    length (kb_clientMAC kb) = m \<and> length (kb_serverMAC kb) = m \<and> length (kb_clientKey kb) = k \<and>
    length (kb_serverKey kb) = k \<and> length (kb_clientIV kb) = v \<and> length (kb_serverIV kb) = v \<and>
    kb_clientMAC kb @ kb_serverMAC kb @ kb_clientKey kb @ kb_serverKey kb @ kb_clientIV kb @ kb_serverIV kb = km"
proof -
  let ?kb = "\<lparr>kb_clientMAC = take m km, kb_serverMAC = take m (drop m km), kb_clientKey = take k (drop (2 * m) km),
    kb_serverKey = take k (drop (2 * m + k) km), kb_clientIV = take v (drop (2 * m + 2 * k) km),
    kb_serverIV = take v (drop (2 * m + 2 * k + v) km)\<rparr>"
  have e: "m + m = 2 * m" "2 * m + k + k = 2 * m + 2 * k" by simp_all
  have c: "cutKeys km m k v = Some ?kb"
    using assms by (simp add: cutKeys_def go_slice_def add.commute mult_2 add.left_commute)
  have "take v (drop (2 * m + 2 * k + v) km) = drop (2 * m + 2 * k + v) km" using assms by simp
  moreover have "take i (drop j km) @ drop (j + i) km = drop j km" for i j
    by (metis append_take_drop_id drop_drop add.commute)
  moreover have "take m km @ drop m km = km" by simp
  ultimately have "take m km @ take m (drop m km) @ take k (drop (2 * m) km) @ take k (drop (2 * m + k) km) @
      take v (drop (2 * m + 2 * k) km) @ take v (drop (2 * m + 2 * k + v) km) = km"
    by (metis e)
  with c assms show ?thesis by simp
qed

lemma keysFromMasterSecret_Some:
  assumes "hashes_ok P" and "known_version ver"
  shows "\<exists>kb. keysFromMasterSecret P ver suite ms cr sr m k v = Some kb \<and>
    length (kb_clientMAC kb) = m \<and> length (kb_serverMAC kb) = m \<and> length (kb_clientKey kb) = k \<and>
    length (kb_serverKey kb) = k \<and> length (kb_clientIV kb) = v \<and> length (kb_serverIV kb) = v"
proof -
  from prfForVersion_ok [OF assms, of suite] obtain f where f: "prfForVersion P ver suite = Some f" "prf_ok f" .
  from f(2) obtain km where km: "f (2 * m + 2 * k + 2 * v) ms keyExpansionLabel (sr @ cr) = Some km"
      "length km = 2 * m + 2 * k + 2 * v" unfolding prf_ok_def by metis
  from cutKeys_Some [OF km(2)] show ?thesis using f(1) km(1) by (auto simp: keysFromMasterSecret_def)
qed

end
