(* ===== verification/KeyScheduleLemmas.thy ===== *)
theory KeyScheduleLemmas
  imports KeySchedule PrfLemmas RecordChannel SuiteLemmas
begin

text \<open>
  The schedule never panics on the labels of the package, and two half connections that take the
  same traffic secret are in step. Both ends of a Diffie-Hellman exchange get the same secret.
\<close>

section \<open>Labels and lengths\<close>

lemma hkdfLabel_Some:
  assumes "builder_ok B" and "length label \<le> 249" and "length context \<le> 255"
  shows "hkdfLabel B label context n =
    Some (be_enc 2 n @ be_enc 1 (6 + length label) @ str ''tls13 '' @ label @ be_enc 1 (length context) @ context)"
proof -
  have "writes B (steps [b_uint B 2 n, lp B 1 (steps [b_bytes B (str ''tls13 ''), b_bytes B label]), lp B 1 (b_bytes B context)])
     (cat (Some (be_enc 2 n)) (cat (lpb 1 (cat (Some (str ''tls13 '')) (cat (Some label) (Some []))))
        (cat (lpb 1 (Some context)) (Some []))))"
    using assms(1) by (intro writes_rules)
  note w = writes_new [OF assms(1) this]
  have lp: "lpb 1 (Some x) = Some (be_enc 1 (length x) @ x)" if "length x \<le> 255" for x
    using that by (simp add: lpb_def)
  have l: "length (str ''tls13 '' @ label) = 6 + length label" by simp
  have 1: "length (str ''tls13 '' @ label) \<le> 255" using assms by simp
  have "hkdfLabel B label context n = cat (Some (be_enc 2 n)) (cat (lpb 1 (Some (str ''tls13 '' @ label))) (lpb 1 (Some context)))"
    unfolding hkdfLabel_def w by (simp only: cat_simps cat_Nil append_Nil2)
  also have "\<dots> = cat (Some (be_enc 2 n)) (cat (Some (be_enc 1 (6 + length label) @ str ''tls13 '' @ label)) (Some (be_enc 1 (length context) @ context)))"
    by (simp only: lp [OF 1] lp [OF assms(3)] l)
  finally show ?thesis by (simp only: cat_simps append_assoc)
qed

lemma expandLabel_Some:
  assumes "hashes_ok P" and "builder_ok B" and "length label \<le> 249" and "length context \<le> 255"
    and "n \<le> 255 * hash_size (c13_hash c)"
  shows "\<exists>r. expandLabel P B c secret label context n = Some r \<and> length r = n"
proof -
  let ?info = "be_enc 2 n @ be_enc 1 (6 + length label) @ str ''tls13 '' @ label @ be_enc 1 (length context) @ context"
  have "hkdf_expand P (c13_hash c) secret ?info n \<noteq> None" using assms(1,5) unfolding hashes_ok_def by blast
  then obtain r where r: "hkdf_expand P (c13_hash c) secret ?info n = Some r" by blast
  moreover have "length r = n" using assms(1) r unfolding hashes_ok_def by blast
  ultimately have "\<exists>r. hkdf_expand P (c13_hash c) secret ?info n = Some r \<and> length r = n" by blast
  then show ?thesis by (simp only: expandLabel_def hkdfLabel_Some [OF assms(2,3,4)] Option.bind.simps)
qed

definition suite13_ok :: "cipherSuiteTLS13 \<Rightarrow> bool" where
  "suite13_ok c \<longleftrightarrow> c13_hash c \<in> {SHA256, SHA384} \<and> c13_keyLen c \<le> 32 \<and>
     (\<forall>key iv. length key = c13_keyLen c \<longrightarrow> length iv = aeadNonceLength \<longrightarrow>
        (\<exists>msk a. c13_aead c key iv = Some (XorNonceAEAD msk a) \<and> aead_ok a))"

lemma aeads_ok:
  assumes "ciphers_ok P" and "length iv = 12"
  shows "length key = 16 \<or> length key = 32 \<Longrightarrow> \<exists>msk a. aeadAESGCMTLS13 P key iv = Some (XorNonceAEAD msk a) \<and> aead_ok a"
    and "length key = 32 \<Longrightarrow> \<exists>msk a. aeadChaCha20Poly1305 P key iv = Some (XorNonceAEAD msk a) \<and> aead_ok a"
proof -
  assume "length key = 16 \<or> length key = 32"
  then obtain b a where "aes_cipher P key = Some b" "gcm_aead P b = Some a" "aead_ok a"
    using assms(1) unfolding ciphers_ok_def by metis
  then show "\<exists>msk a. aeadAESGCMTLS13 P key iv = Some (XorNonceAEAD msk a) \<and> aead_ok a"
    using assms(2) by (simp add: aeadAESGCMTLS13_def aeadNonceLength_def)
next
  assume "length key = 32"
  then obtain a where "chacha_aead P key = Some a" "aead_ok a"
    using assms(1) unfolding ciphers_ok_def by metis
  then show "\<exists>msk a. aeadChaCha20Poly1305 P key iv = Some (XorNonceAEAD msk a) \<and> aead_ok a"
    using assms(2) by (simp add: aeadChaCha20Poly1305_def aeadNonceLength_def)
qed

lemma suites13_ok:
  assumes "ciphers_ok P" and "c \<in> set (cipherSuitesTLS13 P)"
  shows "suite13_ok c"
  using assms(2) aeads_ok [OF assms(1)] by (auto simp: cipherSuitesTLS13_def suite13_ok_def aeadNonceLength_def)

lemma suiteByID13_ok: "ciphers_ok P \<Longrightarrow> cipherSuiteTLS13ByID P i = Some c \<Longrightarrow> suite13_ok c"
  by (auto simp: cipherSuiteTLS13ByID_def find_Some_iff intro!: suites13_ok)

lemma length_of_label [simp]:
  "length trafficUpdateLabel = 11" "length resumptionBinderLabel = 10" "length clientHandshakeTrafficLabel = 12"
  "length serverHandshakeTrafficLabel = 12" "length clientApplicationTrafficLabel = 12"
  "length serverApplicationTrafficLabel = 12" "length exporterLabel = 10" "length resumptionLabel = 10"
  by (simp_all add: trafficUpdateLabel_def resumptionBinderLabel_def clientHandshakeTrafficLabel_def
      serverHandshakeTrafficLabel_def clientApplicationTrafficLabel_def serverApplicationTrafficLabel_def
      exporterLabel_def resumptionLabel_def)

lemma hash13: "suite13_ok c \<Longrightarrow> hash_size (c13_hash c) = 32 \<or> hash_size (c13_hash c) = 48"
  by (auto simp: suite13_ok_def)

lemma nextTrafficSecret_Some:
  assumes P: "hashes_ok P" and B: "builder_ok B" and c: "suite13_ok c"
  shows "\<exists>s. nextTrafficSecret P B c secret = Some s \<and> length s = hash_size (c13_hash c)"
  unfolding nextTrafficSecret_def using hash13 [OF c] by (intro expandLabel_Some [OF P B]) auto

lemma deriveSecret_Some:
  assumes P: "hashes_ok P" and B: "builder_ok B" and c: "suite13_ok c"
    and "length label \<le> 249"
  shows "\<exists>s. deriveSecret P B c secret label None = Some s \<and> length s = hash_size (c13_hash c)"
  unfolding deriveSecret_def Let_def using assms hash13 [OF c]
  by (intro expandLabel_Some [OF P B]) (auto simp: hashes_ok_def hash_Sum_def hash_new_def)

lemma trafficKey_Some:
  assumes P: "hashes_ok P" and B: "builder_ok B" and c: "suite13_ok c"
  shows "\<exists>key iv. trafficKey P B c secret = Some (key, iv) \<and> length key = c13_keyLen c \<and> length iv = aeadNonceLength"
proof -
  have k: "c13_keyLen c \<le> 32" using c by (simp add: suite13_ok_def)
  obtain key where "expandLabel P B c secret (str ''key'') [] (c13_keyLen c) = Some key" "length key = c13_keyLen c"
    using expandLabel_Some [OF P B, of "str ''key''" "[]" "c13_keyLen c" c secret] k hash13 [OF c] by auto
  moreover obtain iv where "expandLabel P B c secret (str ''iv'') [] aeadNonceLength = Some iv" "length iv = aeadNonceLength"
    using expandLabel_Some [OF P B, of "str ''iv''" "[]" aeadNonceLength c secret] hash13 [OF c]
    by (auto simp: aeadNonceLength_def)
  ultimately show ?thesis by (simp add: trafficKey_def)
qed

text \<open>The cipher depends on the secret only.\<close>

lemma setTrafficSecret_Some:
  assumes P: "hashes_ok P" and B: "builder_ok B" and c: "suite13_ok c"
  obtains msk a where "aead_ok a" and "\<And>hc. setTrafficSecret P B c secret hc =
    Some (hc\<lparr>hc_trafficSecret := secret, hc_cipher := Some (XorNonceAEAD msk a), hc_seq := seq_zero\<rparr>)"
proof -
  from trafficKey_Some [OF P B c, of secret] obtain key iv where
    k: "trafficKey P B c secret = Some (key, iv)" "length key = c13_keyLen c" "length iv = aeadNonceLength" by blast
  with c obtain msk a where "c13_aead c key iv = Some (XorNonceAEAD msk a)" "aead_ok a"
    unfolding suite13_ok_def by blast
  with k(1) that [of a msk] show ?thesis by (simp add: setTrafficSecret_def)
qed

lemma setTrafficSecret_in_step:
  assumes P: "hashes_ok P" and B: "builder_ok B" and c: "suite13_ok c"
    and "hc_version ou = hc_version inp" and "hc_mac ou = None" and "hc_mac inp = None"
  shows "\<exists>ou' inp'. setTrafficSecret P B c secret ou = Some ou' \<and> setTrafficSecret P B c secret inp = Some inp' \<and>
    in_step ou' inp' \<and> hc_trafficSecret ou' = secret \<and> hc_trafficSecret inp' = secret \<and>
    ou' = ou\<lparr>hc_trafficSecret := secret, hc_cipher := hc_cipher ou', hc_seq := seq_zero\<rparr> \<and>
    inp' = inp\<lparr>hc_trafficSecret := secret, hc_cipher := hc_cipher inp', hc_seq := seq_zero\<rparr>"
proof -
  from setTrafficSecret_Some [OF P B c, of secret] obtain msk a where
    "aead_ok a" "\<And>hc. setTrafficSecret P B c secret hc =
      Some (hc\<lparr>hc_trafficSecret := secret, hc_cipher := Some (XorNonceAEAD msk a), hc_seq := seq_zero\<rparr>)" by blast
  then show ?thesis using assms(4-) by (simp add: in_step_def seq_zero_def)
qed

section \<open>Diffie-Hellman\<close>

lemma generateECDHE_curve:
  assumes "generateECDHEParameters P r i = Inr p"
  shows "CurveID p = i" and "\<exists>k. PublicKey P p = Some k" and "i = X25519 \<or> curveForCurveID i = Some i"
  using assms by (auto simp: generateECDHEParameters_def curveForCurveID_def split: if_splits option.splits)

text \<open>Each side's shared key with the other's public key is the same, and neither side panics.\<close>

lemma sharedKey_agrees:
  assumes P: "dh_ok P" and a: "generateECDHEParameters P r i = Inr a" and b: "generateECDHEParameters P s i = Inr b"
  shows "\<exists>pa pb k. PublicKey P a = Some pa \<and> PublicKey P b = Some pb \<and>
    SharedKey P a pb = Some k \<and> SharedKey P b pa = Some k"
proof (cases "i = X25519")
  case True
  with a obtain ka pa where a': "x25519 P ka (x25519_base P) = Some pa" "a = X25519Parameters ka pa"
    by (auto simp: generateECDHEParameters_def split: option.splits)
  from True b obtain kb pb where b': "x25519 P kb (x25519_base P) = Some pb" "b = X25519Parameters kb pb"
    by (auto simp: generateECDHEParameters_def split: option.splits)
  from P a'(1) b'(1) have "x25519 P ka pb = x25519 P kb pa" unfolding dh_ok_def by blast
  with a'(2) b'(2) show ?thesis by simp
next
  case False
  with a obtain ka xa where a': "ec_generate P i r = Some (ka, xa)" "a = NistParameters i ka xa" and i: "curveForCurveID i = Some i"
    by (auto simp: generateECDHEParameters_def curveForCurveID_def split: option.splits if_splits)
  from False b i obtain kb xb where b': "ec_generate P i s = Some (kb, xb)" "b = NistParameters i kb xb"
    by (auto simp: generateECDHEParameters_def split: option.splits)
  let ?n = "(ec_bits P i + 7) div 8"
  have "fst (ec_mult P i p k) < 256 ^ ?n" for p k
  proof -
    have "fst (ec_mult P i p k) < 2 ^ ec_bits P i" using P unfolding dh_ok_def by blast
    also have "(2::nat) ^ ec_bits P i \<le> 2 ^ (8 * ?n)" by (rule power_increasing) auto
    finally show ?thesis by (simp add: power_mult)
  qed
  moreover have "ec_unmarshal P i (ec_marshal P i xa) = Some xa" "ec_unmarshal P i (ec_marshal P i xb) = Some xb"
    "ec_mult P i xa kb = ec_mult P i xb ka" using P a'(1) b'(1) unfolding dh_ok_def by blast+
  ultimately show ?thesis using a'(2) b'(2) i by (simp add: Let_def)
qed

end
