(* ===== verification/Keys.thy ===== *)
theory Keys
  imports Conn KeyScheduleLemmas
begin

text \<open>
  Switching on the keys of a TLS 1.0 to 1.2 connection (\<open>establishKeys\<close> of \<open>handshake_client.go\<close> and
  \<open>handshake_server.go\<close>), and the proof that the two ends then have half connections in step, for
  every suite of the table.
\<close>

section \<open>\<open>establishKeys\<close>\<close>

definition establishKeys_client ::
  "crypto \<Rightarrow> cipherSuite \<Rightarrow> bytes \<Rightarrow> bytes \<Rightarrow> bytes \<Rightarrow> conn \<Rightarrow> conn option" where
  "establishKeys_client P suite masterSecret clientRandom serverRandom c =
     do {
       kb \<leftarrow> keysFromMasterSecret P (c_vers c) suite masterSecret clientRandom serverRandom
         (cs_macLen suite) (cs_keyLen suite) (cs_ivLen suite);
       (clientCipher, clientHash, serverCipher, serverHash) \<leftarrow>
         (case cs_cipher suite of
            Some cip \<Rightarrow>
              do {
                clientCipher \<leftarrow> cip (kb_clientKey kb) (kb_clientIV kb) False;
                mac \<leftarrow> cs_mac suite;
                serverCipher \<leftarrow> cip (kb_serverKey kb) (kb_serverIV kb) True;
                Some (clientCipher, Some (mac (kb_clientMAC kb)), serverCipher, Some (mac (kb_serverMAC kb)))
              }
          | None \<Rightarrow>
              do {
                aead \<leftarrow> cs_aead suite;
                clientCipher \<leftarrow> aead (kb_clientKey kb) (kb_clientIV kb);
                serverCipher \<leftarrow> aead (kb_serverKey kb) (kb_serverIV kb);
                Some (clientCipher, None, serverCipher, None)
              });
       Some (c\<lparr>c_in := prepareCipherSpec (c_vers c) serverCipher serverHash (c_in c),
               c_out := prepareCipherSpec (c_vers c) clientCipher clientHash (c_out c)\<rparr>)
     }"

definition establishKeys_server ::
  "crypto \<Rightarrow> cipherSuite \<Rightarrow> bytes \<Rightarrow> bytes \<Rightarrow> bytes \<Rightarrow> conn \<Rightarrow> conn option" where
  "establishKeys_server P suite masterSecret clientRandom serverRandom c =
     do {
       kb \<leftarrow> keysFromMasterSecret P (c_vers c) suite masterSecret clientRandom serverRandom
         (cs_macLen suite) (cs_keyLen suite) (cs_ivLen suite);
       (clientCipher, clientHash, serverCipher, serverHash) \<leftarrow>
         (case cs_aead suite of
            None \<Rightarrow>
              do {
                cip \<leftarrow> cs_cipher suite;
                clientCipher \<leftarrow> cip (kb_clientKey kb) (kb_clientIV kb) True;
                mac \<leftarrow> cs_mac suite;
                serverCipher \<leftarrow> cip (kb_serverKey kb) (kb_serverIV kb) False;
                Some (clientCipher, Some (mac (kb_clientMAC kb)), serverCipher, Some (mac (kb_serverMAC kb)))
              }
          | Some aead \<Rightarrow>
              do {
                clientCipher \<leftarrow> aead (kb_clientKey kb) (kb_clientIV kb);
                serverCipher \<leftarrow> aead (kb_serverKey kb) (kb_serverIV kb);
                Some (clientCipher, None, serverCipher, None)
              });
       Some (c\<lparr>c_in := prepareCipherSpec (c_vers c) clientCipher clientHash (c_in c),
               c_out := prepareCipherSpec (c_vers c) serverCipher serverHash (c_out c)\<rparr>)
     }"

section \<open>Suites whose two directions fit\<close>

text \<open>For keys of the suite's lengths the constructors give a matching pair of ciphers.\<close>

definition mac_suite_ok :: "cipherSuite \<Rightarrow> bool" where
  "mac_suite_ok s \<longleftrightarrow> cs_aead s = None \<and> (\<exists>cip mac. cs_cipher s = Some cip \<and> cs_mac s = Some mac \<and>
     (\<forall>key iv mkey v. length key = cs_keyLen s \<longrightarrow> length iv = cs_ivLen s \<longrightarrow> v \<noteq> VersionTLS13 \<longrightarrow>
        (\<exists>e d. cip key iv False = Some e \<and> cip key iv True = Some d \<and> cipher_pair v (Some (mac mkey)) e d)))"

definition aead_suite_ok :: "cipherSuite \<Rightarrow> bool" where
  "aead_suite_ok s \<longleftrightarrow> cs_cipher s = None \<and> (\<exists>aead. cs_aead s = Some aead \<and>
     (\<forall>key iv v. length key = cs_keyLen s \<longrightarrow> length iv = cs_ivLen s \<longrightarrow> v \<noteq> VersionTLS13 \<longrightarrow>
        (\<exists>c. aead key iv = Some c \<and> cipher_pair v None c c)))"

lemma macs_ok:
  assumes "hashes_ok P"
  shows "mac_ok (macSHA1 P k)" and "mac_ok (macSHA256 P k)"
  using assms by (simp_all add: mac_ok_def macSHA1_def macSHA256_def hashes_ok_def)

lemma aes_pair:
  assumes "crypto_ok P" and "length key = 16 \<or> length key = 32" and "length iv = 16" and "v \<noteq> VersionTLS13" and "mac_ok m"
  shows "\<exists>e d. cipherAES P key iv False = Some e \<and> cipherAES P key iv True = Some d \<and> cipher_pair v (Some m) e d"
proof -
  from assms(1,2) obtain b where "aes_cipher P key = Some b" "block_ok b" "block_size b = 16"
    unfolding crypto_ok_def ciphers_ok_def by metis
  with assms show ?thesis by (simp add: cipherAES_def cbc_mode_def)
qed

lemma des_pair:
  assumes "crypto_ok P" and "length key = 24" and "length iv = 8" and "v \<noteq> VersionTLS13" and "mac_ok m"
  shows "\<exists>e d. cipher3DES P key iv False = Some e \<and> cipher3DES P key iv True = Some d \<and> cipher_pair v (Some m) e d"
proof -
  from assms(1,2) obtain b where "des_cipher P key = Some b" "block_ok b" "block_size b = 8"
    unfolding crypto_ok_def ciphers_ok_def by metis
  with assms show ?thesis by (simp add: cipher3DES_def cbc_mode_def)
qed

lemma rc4_pair:
  assumes "crypto_ok P" and "length key = 16" and "v \<noteq> VersionTLS13" and "mac_ok m"
  shows "\<exists>e d. cipherRC4 P key iv False = Some e \<and> cipherRC4 P key iv True = Some d \<and> cipher_pair v (Some m) e d"
proof -
  from assms(1,2) have "rc4_cipher P key \<noteq> None" unfolding crypto_ok_def ciphers_ok_def by blast
  with assms show ?thesis by (auto simp: cipherRC4_def)
qed

lemma gcm_pair:
  assumes "crypto_ok P" and "length key = 16 \<or> length key = 32" and "length iv = 4" and "v \<noteq> VersionTLS13"
  shows "\<exists>c. aeadAESGCM P key iv = Some c \<and> cipher_pair v None c c"
proof -
  from assms(1,2) obtain b a where "aes_cipher P key = Some b" "gcm_aead P b = Some a" "aead_ok a"
    unfolding crypto_ok_def ciphers_ok_def by metis
  with assms show ?thesis by (simp add: aeadAESGCM_def noncePrefixLength_def aeadNonceLength_def)
qed

lemma chacha_pair:
  assumes "crypto_ok P" and "length key = 32" and "length iv = 12"
  shows "\<exists>c. aeadChaCha20Poly1305 P key iv = Some c \<and> cipher_pair v None c c"
  using aeads_ok(2) [of P iv key] assms by (fastforce simp: crypto_ok_def)

lemma suites_ok:
  assumes "crypto_ok P" and "s \<in> set (cipherSuites P)"
  shows "mac_suite_ok s \<or> aead_suite_ok s"
proof -
  have "mac_ok (macSHA1 P k)" "mac_ok (macSHA256 P k)" for k
    using macs_ok assms(1) by (simp_all add: crypto_ok_def)
  note p = aes_pair [OF assms(1)] des_pair [OF assms(1)] rc4_pair [OF assms(1)] gcm_pair [OF assms(1)]
    chacha_pair [OF assms(1)] this
  have "list_all (\<lambda>s. mac_suite_ok s \<or> aead_suite_ok s) (cipherSuites P)"
    unfolding cipherSuites_def list.pred_inject mac_suite_ok_def aead_suite_ok_def cipherSuite.select_convs option.inject
    by (simp add: p [simplified ex_simps])
  then show ?thesis using assms(2) by (simp add: list_all_iff)
qed

section \<open>Both ends in step\<close>

lemma prepared_in_step:
  assumes "cipher_pair v mac e d" and "v \<noteq> VersionTLS13"
  shows "\<exists>ou' inp'. changeCipherSpec (prepareCipherSpec v e mac ou) = Inr ou' \<and>
    changeCipherSpec (prepareCipherSpec v d mac inp) = Inr inp' \<and> in_step ou' inp'"
  using assms by (simp add: changeCipherSpec_def prepareCipherSpec_def in_step_def seq_zero_def)

definition agree :: "conn \<Rightarrow> conn \<Rightarrow> bool" where
  "agree a b \<longleftrightarrow> (\<exists>ou inp. changeCipherSpec (c_out a) = Inr ou \<and> changeCipherSpec (c_in b) = Inr inp \<and> in_step ou inp)"

lemma establishKeys_agree:
  assumes P: "crypto_ok P" and s: "s \<in> set (cipherSuites P)" and v: "known_version (c_vers cl)" "c_vers srv = c_vers cl"
  shows "\<exists>cl' srv'. establishKeys_client P s ms cr sr cl = Some cl' \<and> establishKeys_server P s ms cr sr srv = Some srv' \<and>
    agree cl' srv' \<and> agree srv' cl'"
proof -
  let ?v = "c_vers cl"
  have v13: "?v \<noteq> VersionTLS13" using v(1) by (auto simp: VersionTLS10_def VersionTLS11_def VersionTLS12_def VersionTLS13_def)
  have "hashes_ok P" using P by (simp add: crypto_ok_def)
  from keysFromMasterSecret_Some [OF this v(1)] obtain kb where
    kb: "keysFromMasterSecret P ?v s ms cr sr (cs_macLen s) (cs_keyLen s) (cs_ivLen s) = Some kb"
    and l: "length (kb_clientKey kb) = cs_keyLen s" "length (kb_serverKey kb) = cs_keyLen s"
      "length (kb_clientIV kb) = cs_ivLen s" "length (kb_serverIV kb) = cs_ivLen s" by blast
  from suites_ok [OF P s] show ?thesis
  proof
    assume "mac_suite_ok s"
    then obtain cip mac where m: "cs_aead s = None" "cs_cipher s = Some cip" "cs_mac s = Some mac"
      and pr: "\<And>key iv mkey v. length key = cs_keyLen s \<Longrightarrow> length iv = cs_ivLen s \<Longrightarrow> v \<noteq> VersionTLS13 \<Longrightarrow>
        \<exists>e d. cip key iv False = Some e \<and> cip key iv True = Some d \<and> cipher_pair v (Some (mac mkey)) e d"
      unfolding mac_suite_ok_def by metis
    obtain ce cd where c: "cip (kb_clientKey kb) (kb_clientIV kb) False = Some ce" "cip (kb_clientKey kb) (kb_clientIV kb) True = Some cd"
      "cipher_pair ?v (Some (mac (kb_clientMAC kb))) ce cd" using pr l v13 by metis
    obtain se sd where e: "cip (kb_serverKey kb) (kb_serverIV kb) False = Some se" "cip (kb_serverKey kb) (kb_serverIV kb) True = Some sd"
      "cipher_pair ?v (Some (mac (kb_serverMAC kb))) se sd" using pr l v13 by metis
    show ?thesis
      using prepared_in_step [OF c(3) v13, of "c_out cl" "c_in srv"] prepared_in_step [OF e(3) v13, of "c_out srv" "c_in cl"]
      by (simp add: establishKeys_client_def establishKeys_server_def v(2) kb m c(1,2) e(1,2) agree_def)
  next
    assume "aead_suite_ok s"
    then obtain aead where m: "cs_cipher s = None" "cs_aead s = Some aead"
      and pr: "\<And>key iv v. length key = cs_keyLen s \<Longrightarrow> length iv = cs_ivLen s \<Longrightarrow> v \<noteq> VersionTLS13 \<Longrightarrow>
        \<exists>c. aead key iv = Some c \<and> cipher_pair v None c c"
      unfolding aead_suite_ok_def by metis
    obtain c where c: "aead (kb_clientKey kb) (kb_clientIV kb) = Some c" "cipher_pair ?v None c c"
      using pr l v13 by metis
    obtain d where d: "aead (kb_serverKey kb) (kb_serverIV kb) = Some d" "cipher_pair ?v None d d"
      using pr l v13 by metis
    show ?thesis
      using prepared_in_step [OF c(2) v13, of "c_out cl" "c_in srv"] prepared_in_step [OF d(2) v13, of "c_out srv" "c_in cl"]
      by (simp add: establishKeys_client_def establishKeys_server_def v(2) kb m c(1) d(1) agree_def)
  qed
qed

end
