(* ===== verification/PostHandshake.thy ===== *)
theory PostHandshake
  imports HandshakeLemmas Keys
begin

text \<open>
  Messages after the handshake (\<open>conn.go\<close>, lines 1106 to 1206): renegotiation and key updates. The
  client handshake, \<open>handleNewSessionTicket\<close> and \<open>config.Renegotiation\<close> are arguments.
\<close>

section \<open>Operations\<close>

text \<open>\<open>c.sendAlert(a)\<close> followed by returning another error.\<close>

definition alert_return :: "byte \<Rightarrow> conn_error \<Rightarrow> conn \<Rightarrow> (conn_error option \<times> conn) option" where
  "alert_return a e c = map_option (\<lambda>(_, c'). (Some e, c')) (sendAlertLocked a c)"

definition unexpectedMessageError :: conn_error where
  "unexpectedMessageError = OtherError ''tls: received unexpected handshake message''"

definition RenegotiateNever :: int where "RenegotiateNever = 0"
definition RenegotiateOnceAsClient :: int where "RenegotiateOnceAsClient = 1"
definition RenegotiateFreelyAsClient :: int where "RenegotiateFreelyAsClient = 2"

definition handleRenegotiation ::
  "reader \<Rightarrow> int \<Rightarrow> (conn \<Rightarrow> (conn_error option \<times> conn) option) \<Rightarrow> conn \<Rightarrow> (conn_error option \<times> conn) option" where
  "handleRenegotiation R renegotiation clientHandshake c =
     (if c_vers c = VersionTLS13 then Some (Some (OtherError ''tls: internal error: unexpected renegotiation''), c)
      else case readHandshake R c of
        None \<Rightarrow> None
      | Some (Inl err, c1) \<Rightarrow> Some (err, c1)
      | Some (Inr msg, c1) \<Rightarrow>
          if msg \<noteq> HelloRequestMsg then alert_return alertUnexpectedMessage unexpectedMessageError c1
          else if \<not> c_isClient c1 then sendAlertLocked alertNoRenegotiation c1
          else if renegotiation = RenegotiateNever then sendAlertLocked alertNoRenegotiation c1
          else if renegotiation = RenegotiateOnceAsClient \<and> c_handshakes c1 > 1 then sendAlertLocked alertNoRenegotiation c1
          else if renegotiation \<noteq> RenegotiateOnceAsClient \<and> renegotiation \<noteq> RenegotiateFreelyAsClient then
            alert_return alertInternalError (OtherError ''tls: unknown Renegotiation value'') c1
          else
            (case clientHandshake (c1\<lparr>c_complete := False\<rparr>) of
               None \<Rightarrow> None
             | Some (None, c2) \<Rightarrow> Some (None, c2\<lparr>c_handshakeErr := None, c_handshakes := Suc (c_handshakes c2)\<rparr>)
             | Some (Some e, c2) \<Rightarrow> Some (Some e, c2\<lparr>c_handshakeErr := Some e\<rparr>)))"

definition handleKeyUpdate ::
  "crypto \<Rightarrow> 'b builder \<Rightarrow> keyUpdateMsg \<Rightarrow> conn \<Rightarrow> (conn_error option \<times> conn) option" where
  "handleKeyUpdate P B keyUpdate c =
     (case cipherSuiteTLS13ByID P (c_cipherSuite c) of
        None \<Rightarrow> map_option (\<lambda>(e, c1). (e, c1\<lparr>c_in := (c_in c1)\<lparr>hc_err := e\<rparr>\<rparr>)) (sendAlertLocked alertInternalError c)
      | Some cipherSuite \<Rightarrow>
          do {
            newSecret \<leftarrow> nextTrafficSecret P B cipherSuite (hc_trafficSecret (c_in c));
            inp \<leftarrow> setTrafficSecret P B cipherSuite newSecret (c_in c);
            let c1 = c\<lparr>c_in := inp\<rparr>;
            if ku_updateRequested keyUpdate then
              do {
                (data, msg) \<leftarrow> marshal_keyUpdate B \<lparr>ku_raw = None, ku_updateRequested = False\<rparr>;
                ((n, err), c2) \<leftarrow> writeRecordLocked recordTypeHandshake data c1;
                (case err of
                   Some e \<Rightarrow> Some (None, set_out_err e c2)
                 | None \<Rightarrow>
                     do {
                       newSecret \<leftarrow> nextTrafficSecret P B cipherSuite (hc_trafficSecret (c_out c2));
                       out \<leftarrow> setTrafficSecret P B cipherSuite newSecret (c_out c2);
                       Some (None, c2\<lparr>c_out := out\<rparr>)
                     })
              }
            else Some (None, c1)
          })"

definition handlePostHandshakeMessage ::
  "crypto \<Rightarrow> 'b builder \<Rightarrow> reader \<Rightarrow> int \<Rightarrow> (conn \<Rightarrow> (conn_error option \<times> conn) option) \<Rightarrow>
     (newSessionTicketMsgTLS13 \<Rightarrow> conn \<Rightarrow> (conn_error option \<times> conn) option) \<Rightarrow> conn \<Rightarrow>
     (conn_error option \<times> conn) option" where
  "handlePostHandshakeMessage P B R renegotiation clientHandshake handleNewSessionTicket c =
     (if c_vers c \<noteq> VersionTLS13 then handleRenegotiation R renegotiation clientHandshake c
      else case readHandshake R c of
        None \<Rightarrow> None
      | Some (Inl err, c1) \<Rightarrow> Some (err, c1)
      | Some (Inr msg, c1) \<Rightarrow>
          (let c2 = c1\<lparr>c_retryCount := Suc (c_retryCount c1)\<rparr>
           in if c_retryCount c2 > maxUselessRecords then
                alert_then_fail alertUnexpectedMessage (OtherError ''tls: too many non-advancing records'') c2
              else case msg of
                NewSessionTicketMsgTLS13 m \<Rightarrow> handleNewSessionTicket m c2
              | KeyUpdateMsg m \<Rightarrow> handleKeyUpdate P B m c2
              | _ \<Rightarrow> alert_return alertUnexpectedMessage unexpectedMessageError c2))"

section \<open>What writing leaves alone\<close>

definition fixed_parts :: "conn \<Rightarrow> halfConn \<times> u16 \<times> u16 \<times> bytes \<times> mac_prim option \<times> u16" where
  "fixed_parts c = (c_in c, c_cipherSuite c, hc_version (c_out c), hc_trafficSecret (c_out c), hc_mac (c_out c), c_vers c)"

lemma encrypt_keeps:
  assumes "encrypt hc rec payload rnd = Some (r, hc')"
  shows "hc_version hc' = hc_version hc \<and> hc_trafficSecret hc' = hc_trafficSecret hc \<and> hc_mac hc' = hc_mac hc"
  using assms by (auto simp: encrypt_def incSeq_def split: option.splits prod.splits)

lemma encrypt_out_keeps: "encrypt_out rec payload c = Some (r, c') \<Longrightarrow> fixed_parts c' = fixed_parts c"
  by (auto simp: encrypt_out_def Let_def fixed_parts_def dest: encrypt_keeps)

lemma conn_write_keeps: "conn_write data c = (r, c') \<Longrightarrow> fixed_parts c' = fixed_parts c"
  by (auto simp: conn_write_def fixed_parts_def split: if_splits prod.splits)

lemma maxPayload_keeps: "maxPayloadSizeForWrite t c = Some (n, c') \<Longrightarrow> fixed_parts c' = fixed_parts c"
  by (auto simp: maxPayloadSizeForWrite_def Let_def fixed_parts_def split: if_splits option.splits)

lemma write_records_keeps: "write_records t n data c = Some (r, c') \<Longrightarrow> fixed_parts c' = fixed_parts c"
proof (induction t n data c arbitrary: r c' rule: write_records.induct)
  case (1 t n data c)
  show ?case
  proof (cases "data = []")
    case False
    with "1.prems" obtain maxPayload c1 where mp: "maxPayloadSizeForWrite t c = Some (maxPayload, c1)"
      by (subst (asm) write_records.simps) (auto split: option.splits)
    define m where "m = (if int (length data) > maxPayload then maxPayload else int (length data))"
    from "1.prems" False mp obtain r2 c2 where
      e: "encrypt_out (record_header t (record_version c1) (nat m)) (take (nat m) data) c1 = Some (r2, c2)" and m: "\<not> m \<le> 0"
      by (subst (asm) write_records.simps) (auto simp: m_def Let_def split: option.splits if_splits)
    have f: "fixed_parts c2 = fixed_parts c" using encrypt_out_keeps [OF e] maxPayload_keeps [OF mp] by simp
    show ?thesis
    proof (cases r2)
      case (Inl x)
      with "1.prems" False mp e m f show ?thesis
        by (subst (asm) write_records.simps) (auto simp: m_def Let_def)
    next
      case (Inr outBuf)
      obtain k w c3 where w: "conn_write outBuf c2 = ((k, w), c3)" by (metis prod.collapse)
      note f3 = conn_write_keeps [OF w]
      show ?thesis
      proof (cases w)
        case None
        have "write_records t (n + nat m) (drop (nat m) data) c3 = Some (r, c')"
          using "1.prems" False mp e m Inr w None by (subst (asm) write_records.simps) (simp add: m_def Let_def)
        from "1.IH" [OF False mp refl m_def m e refl Inr w [symmetric] refl None this] f f3 show ?thesis by simp
      next
        case (Some x)
        with "1.prems" False mp e m Inr w f f3 show ?thesis
          by (subst (asm) write_records.simps) (auto simp: m_def Let_def)
      qed
    qed
  qed (use "1.prems" in \<open>simp add: write_records.simps\<close>)
qed

lemma writeRecord_keeps:
  "writeRecordLocked t data c = Some (r, c') \<Longrightarrow> t \<noteq> recordTypeChangeCipherSpec \<Longrightarrow> fixed_parts c' = fixed_parts c"
  by (auto simp: writeRecordLocked_def split: option.splits prod.splits dest: write_records_keeps)

section \<open>Key updates\<close>

lemma in_step13_mac:
  assumes "in_step ou inp" and "hc_version ou = VersionTLS13"
  shows "hc_mac ou = None" and "hc_mac inp = None" and "hc_version inp = VersionTLS13"
proof -
  from assms(1) obtain c d where "hc_cipher ou = Some c" "hc_cipher inp = Some d" by (auto simp: in_step_def split: option.splits)
  with in_stepD [OF assms(1)] have "cipher_pair VersionTLS13 (hc_mac ou) c d" using assms(2) by simp
  then show "hc_mac ou = None" by (cases c; cases d) simp_all
  then show "hc_mac inp = None" "hc_version inp = VersionTLS13" using in_stepD [OF assms(1)] assms(2) by simp_all
qed

lemma keyUpdate_bytes:
  assumes "builder_ok B"
  shows "marshal_keyUpdate B \<lparr>ku_raw = None, ku_updateRequested = False\<rparr> =
    Some ([24, 0, 0, 1, 0], \<lparr>ku_raw = Some [24, 0, 0, 1, 0], ku_updateRequested = False\<rparr>)"
proof -
  have "marshal_body B typeKeyUpdate (b_uint B 1 0) = Some [24, 0, 0, 1, 0]"
    unfolding marshal_body_bytes [OF assms writes_uint [OF assms]] by (simp add: lpb_def be_enc_3 typeKeyUpdate_def)
  then show ?thesis by (simp add: marshal_keyUpdate_def)
qed

end
