(* ===== verification/KeyProperties.thy ===== *)
theory KeyProperties
  imports PostHandshake RecordProperties MessageProperties
begin

text \<open>
  The properties of key derivation: \<open>pHash\<close> is the function of the RFC, both ends of a TLS 1.0 to 1.2
  connection switch on matching ciphers, and a TLS 1.3 key update keeps the two ends in step.
\<close>

section \<open>Samples\<close>

definition toy_conn :: "u16 \<Rightarrow> conn" where
  "toy_conn v = (sample_conn [])\<lparr>c_vers := v\<rparr>"

text \<open>A TLS 1.3 direction under the toy primitives, all of whose secrets are zeros.\<close>

definition toy_half :: halfConn where
  "toy_half = sample_half\<lparr>hc_trafficSecret := replicate 32 0, hc_cipher := Some (XorNonceAEAD (replicate 12 0) toy_aead)\<rparr>"

definition toy_conn13 :: conn where
  "toy_conn13 = (sample_conn [])\<lparr>c_in := toy_half, c_out := toy_half\<rparr>"

lemma toy_in_step: "in_step toy_half toy_half"
  by (simp add: in_step_def toy_half_def sample_half_def seq_zero_def toy_aead_def aead_ok_def)

lemma toy_suite: "cipherSuiteTLS13ByID P (c_cipherSuite toy_conn13) =
    Some \<lparr>c13_id = TLS_AES_128_GCM_SHA256, c13_keyLen = 16, c13_aead = aeadAESGCMTLS13 P, c13_hash = SHA256\<rparr>"
  by (simp add: cipherSuiteTLS13ByID_def cipherSuitesTLS13_def toy_conn13_def sample_conn_def TLS_AES_128_GCM_SHA256_def)

section \<open>Derivation\<close>

text \<open>
  C31. \<open>pHash\<close> ends and fills its result with the first \<open>n\<close> bytes of \<open>P_hash(secret, seed)\<close> of RFC 4346,
  section 5: the concatenation of \<open>HMAC(secret, A(i) + seed)\<close>, however many blocks of it are written out.
\<close>

theorem pHash_is_P_hash:
  assumes "hashes_ok P" and "0 < hash_size h" and "n \<le> k * hash_size h"
  shows "pHash P h n secret seed = Some (take n (P_hash P h secret seed k))"
  using assms by (rule pHash_eq)

theorem pHash_is_P_hash_witness:
  "pHash toy_crypto SHA1 45 [1, 2] [5] = Some (replicate 45 3)"
proof -
  have h: "hmac_sum toy_crypto SHA1 [1, 2] m = replicate 20 3" for m by (simp add: toy_crypto_def)
  have u: "[1..<Suc 3] = [1, 2, 3 :: nat]" by (simp add: upt_rec)
  have "P_hash toy_crypto SHA1 [1, 2] [5] 3 = replicate 20 3 @ replicate 20 3 @ replicate 20 3"
    unfolding P_hash_def u by (simp only: list.map concat.simps h append_Nil2)
  also have "\<dots> = replicate 60 3" by (simp only: replicate_add [symmetric]) simp
  finally have "P_hash toy_crypto SHA1 [1, 2] [5] 3 = replicate 60 3" .
  then show ?thesis using pHash_is_P_hash [OF toy_hashes, of SHA1 45 3 "[1, 2]" "[5]"] by simp
qed

text \<open>
  C32. For every suite of the table and TLS 1.0, 1.1 or 1.2, the client and the server that hold the same
  master secret and randoms both succeed in \<open>establishKeys\<close>, and after the change of cipher spec each
  one's writing direction is in step with the other's reading direction: what one encrypts, the
  other decrypts.
\<close>

theorem establishKeys_in_step:
  assumes "crypto_ok P" and "s \<in> set (cipherSuites P)"
    and "c_vers cl \<in> {VersionTLS10, VersionTLS11, VersionTLS12}" and "c_vers srv = c_vers cl"
  shows "\<exists>cl' srv' clo cli sro sri.
    establishKeys_client P s masterSecret clientRandom serverRandom cl = Some cl' \<and>
    establishKeys_server P s masterSecret clientRandom serverRandom srv = Some srv' \<and>
    changeCipherSpec (c_out cl') = Inr clo \<and> changeCipherSpec (c_in srv') = Inr sri \<and> in_step clo sri \<and>
    changeCipherSpec (c_out srv') = Inr sro \<and> changeCipherSpec (c_in cl') = Inr cli \<and> in_step sro cli"
  using establishKeys_agree [OF assms(1,2,3,4)] unfolding agree_def by metis

theorem establishKeys_in_step_witness:
  "\<exists>cl' srv'. establishKeys_client toy_crypto (hd (cipherSuites toy_crypto)) [1] [2] [3] (toy_conn VersionTLS12) = Some cl' \<and>
     establishKeys_server toy_crypto (hd (cipherSuites toy_crypto)) [1] [2] [3] (toy_conn VersionTLS12) = Some srv' \<and>
     (\<exists>clo sri. changeCipherSpec (c_out cl') = Inr clo \<and> changeCipherSpec (c_in srv') = Inr sri \<and> in_step clo sri)"
proof -
  have "hd (cipherSuites toy_crypto) \<in> set (cipherSuites toy_crypto)" by (simp add: cipherSuites_def)
  from establishKeys_in_step [OF toy_crypto_ok this, of "toy_conn VersionTLS12" "toy_conn VersionTLS12" "[1]" "[2]" "[3]"]
  show ?thesis by (simp add: toy_conn_def) metis
qed

section \<open>Key update\<close>

text \<open>
  C33. The peer \<open>b\<close> of a TLS 1.3 connection \<open>a\<close> updates its sending keys and asks for an update. \<open>a\<close>
  handles the message without error: its reading keys match \<open>b\<close>'s new sending keys, and it sends a
  \<open>KeyUpdate\<close> under its old keys, which \<open>b\<close> decrypts; when \<open>b\<close> then updates its reading keys the second
  direction is in step as well, and both ends hold the same new secrets.
\<close>

theorem keyUpdate_in_step:
  assumes P: "crypto_ok P" and B: "builder_ok B" and s: "cipherSuiteTLS13ByID P (c_cipherSuite a) = Some s"
    and ba: "in_step (c_out b) (c_in a)" "hc_version (c_out b) = VersionTLS13" "hc_trafficSecret (c_in a) = hc_trafficSecret (c_out b)"
    and ab: "in_step (c_out a) (c_in b)" "hc_version (c_out a) = VersionTLS13" "hc_trafficSecret (c_in b) = hc_trafficSecret (c_out a)"
    and net: "\<not> c_buffering a" "net_ok (c_net a)" "be_dec (hc_seq (c_out a)) + 5 < 2 ^ 64"
    and b: "nextTrafficSecret P B s (hc_trafficSecret (c_out b)) = Some nb" "setTrafficSecret P B s nb (c_out b) = Some out_b"
  shows "\<exists>a' recs ps inp na inp'. handleKeyUpdate P B \<lparr>ku_raw = raw, ku_updateRequested = True\<rparr> a = Some (None, a') \<and>
    in_step out_b (c_in a') \<and> hc_trafficSecret (c_in a') = hc_trafficSecret out_b \<and>
    nw_sent (c_net a') = nw_sent (c_net a) @ recs \<and>
    decrypt_all (c_in b) recs = Some (ps, inp) \<and> concat (map fst ps) = [24, 0, 0, 1, 0] \<and>
    nextTrafficSecret P B s (hc_trafficSecret (c_in b)) = Some na \<and> setTrafficSecret P B s na inp = Some inp' \<and>
    in_step (c_out a') inp' \<and> hc_trafficSecret (c_out a') = hc_trafficSecret inp'"
proof -
  have H: "hashes_ok P" and S: "suite13_ok s" using P suiteByID13_ok [OF _ s] by (simp_all add: crypto_ok_def)
  note ma = in_step13_mac [OF ba(1,2)] and mb = in_step13_mac [OF ab(1,2)]
  have "hc_version (c_out b) = hc_version (c_in a)" using ma ba(2) by simp
  from setTrafficSecret_in_step [OF H B S this ma(1,2), of nb] b(2) obtain in_a where
    a1: "setTrafficSecret P B s nb (c_in a) = Some in_a" "in_step out_b in_a"
      "hc_trafficSecret in_a = nb" "hc_trafficSecret out_b = nb" by auto
  define c1 where "c1 = a\<lparr>c_in := in_a\<rparr>"
  have "in_step (c_out c1) (c_in b)" "\<not> c_buffering c1" "net_ok (c_net c1)" "recordTypeHandshake \<noteq> 0"
    "recordTypeHandshake \<noteq> recordTypeApplicationData \<or> c_sizingDisabled c1"
    "be_dec (hc_seq (c_out c1)) + length [24, 0, 0, 1, 0 :: byte] < 2 ^ 64"
    using ab net by (simp_all add: c1_def recordTypeHandshake_def recordTypeApplicationData_def)
  from write_records_delivers [OF this, of 0] obtain recs pieces c2 inp where
    wr: "write_records recordTypeHandshake 0 [24, 0, 0, 1, 0] c1 = Some ((5, None), c2)"
    and d: "nw_sent (c_net c2) = nw_sent (c_net c1) @ recs"
      "decrypt_all (c_in b) recs = Some (map (\<lambda>p. (p, recordTypeHandshake)) pieces, inp)"
      "concat pieces = [24, 0, 0, 1, 0]" and st: "in_step (c_out c2) inp" by auto
  have w: "writeRecordLocked recordTypeHandshake [24, 0, 0, 1, 0] c1 = Some ((5, None), c2)"
    using wr by (simp add: writeRecordLocked_def recordTypeHandshake_def recordTypeChangeCipherSpec_def)
  have f: "c_in c2 = in_a" "hc_version (c_out c2) = VersionTLS13" "hc_trafficSecret (c_out c2) = hc_trafficSecret (c_out a)"
    using write_records_keeps [OF wr] ab(2) by (simp_all add: fixed_parts_def c1_def)
  obtain na where na: "nextTrafficSecret P B s (hc_trafficSecret (c_out a)) = Some na"
    using nextTrafficSecret_Some [OF H B S, of "hc_trafficSecret (c_out a)"] by blast
  note mc = in_step13_mac [OF st f(2)]
  have "hc_version (c_out c2) = hc_version inp" using mc f(2) by simp
  from setTrafficSecret_in_step [OF H B S this mc(1,2), of na] obtain ou' inp' where
    o: "setTrafficSecret P B s na (c_out c2) = Some ou'" "setTrafficSecret P B s na inp = Some inp'" "in_step ou' inp'"
      "hc_trafficSecret ou' = na" "hc_trafficSecret inp' = na" by auto
  have "handleKeyUpdate P B \<lparr>ku_raw = raw, ku_updateRequested = True\<rparr> a = Some (None, c2\<lparr>c_out := ou'\<rparr>)"
    using s ba(3) b(1) a1(1) w na o(1) f(3) keyUpdate_bytes [OF B] by (simp add: handleKeyUpdate_def c1_def [symmetric])
  then show ?thesis using a1 f(1) d o na ab(3) by (auto simp: c1_def comp_def)
qed

theorem keyUpdate_in_step_witness:
  "\<exists>a' recs ps inp. handleKeyUpdate toy_crypto plain_builder \<lparr>ku_raw = None, ku_updateRequested = True\<rparr> toy_conn13 = Some (None, a') \<and>
    nw_sent (c_net a') = recs \<and> decrypt_all toy_half recs = Some (ps, inp) \<and> concat (map fst ps) = [24, 0, 0, 1, 0]"
proof -
  let ?s = "\<lparr>c13_id = TLS_AES_128_GCM_SHA256, c13_keyLen = 16, c13_aead = aeadAESGCMTLS13 toy_crypto, c13_hash = SHA256\<rparr>"
  have S: "suite13_ok ?s" using suiteByID13_ok [OF _ toy_suite] toy_ciphers by blast
  obtain nb where nb: "nextTrafficSecret toy_crypto plain_builder ?s (hc_trafficSecret (c_out toy_conn13)) = Some nb"
    using nextTrafficSecret_Some [OF toy_hashes plain_builder_ok S] by blast
  obtain ob where ob: "setTrafficSecret toy_crypto plain_builder ?s nb (c_out toy_conn13) = Some ob"
    using setTrafficSecret_Some [OF toy_hashes plain_builder_ok S] by metis
  have h: "in_step (c_out toy_conn13) (c_in toy_conn13)" "hc_version (c_out toy_conn13) = VersionTLS13"
    "hc_trafficSecret (c_in toy_conn13) = hc_trafficSecret (c_out toy_conn13)" "\<not> c_buffering toy_conn13"
    "net_ok (c_net toy_conn13)" "be_dec (hc_seq (c_out toy_conn13)) + 5 < 2 ^ 64" "c_in toy_conn13 = toy_half"
    "nw_sent (c_net toy_conn13) = []"
    using toy_in_step sample_net_ok [of "[]"]
    by (simp_all add: toy_conn13_def sample_conn_def toy_half_def sample_half_def seq_zero_def sample_net_def)
  from keyUpdate_in_step [OF toy_crypto_ok plain_builder_ok toy_suite h(1-3) h(1-3) h(4-6) nb ob, of None]
  show ?thesis unfolding h(7,8) append_Nil by metis
qed

end
