(* ===== verification/Auth.thy ===== *)
theory Auth
  imports Messages KeySchedule
begin

text \<open>
  Signatures of the handshake (\<open>auth.go\<close>): signature schemes, keys and certificates, the choice of a
  scheme and the bytes that are signed. X.509 and the signature primitives are the parameters of
  \<open>pki\<close>; \<open>pki_ok\<close> says that a signature made with a private key verifies under its public key.
\<close>

section \<open>Signature schemes (\<open>common.go\<close>)\<close>

definition PKCS1WithSHA256 :: u16 where "PKCS1WithSHA256 = 0x0401"
definition PKCS1WithSHA384 :: u16 where "PKCS1WithSHA384 = 0x0501"
definition PKCS1WithSHA512 :: u16 where "PKCS1WithSHA512 = 0x0601"
definition PSSWithSHA256 :: u16 where "PSSWithSHA256 = 0x0804"
definition PSSWithSHA384 :: u16 where "PSSWithSHA384 = 0x0805"
definition PSSWithSHA512 :: u16 where "PSSWithSHA512 = 0x0806"
definition ECDSAWithP256AndSHA256 :: u16 where "ECDSAWithP256AndSHA256 = 0x0403"
definition ECDSAWithP384AndSHA384 :: u16 where "ECDSAWithP384AndSHA384 = 0x0503"
definition ECDSAWithP521AndSHA512 :: u16 where "ECDSAWithP521AndSHA512 = 0x0603"
definition Ed25519 :: u16 where "Ed25519 = 0x0807"
definition PKCS1WithSHA1 :: u16 where "PKCS1WithSHA1 = 0x0201"
definition ECDSAWithSHA1 :: u16 where "ECDSAWithSHA1 = 0x0203"

lemmas scheme_defs = PKCS1WithSHA256_def PKCS1WithSHA384_def PKCS1WithSHA512_def PSSWithSHA256_def PSSWithSHA384_def
  PSSWithSHA512_def ECDSAWithP256AndSHA256_def ECDSAWithP384AndSHA384_def ECDSAWithP521AndSHA512_def Ed25519_def
  PKCS1WithSHA1_def ECDSAWithSHA1_def

definition supportedSignatureAlgorithms :: "u16 list" where
  "supportedSignatureAlgorithms = [
     PSSWithSHA256, ECDSAWithP256AndSHA256, Ed25519, PSSWithSHA384, PSSWithSHA512, PKCS1WithSHA256,
     PKCS1WithSHA384, PKCS1WithSHA512, ECDSAWithP384AndSHA384, ECDSAWithP521AndSHA512, PKCS1WithSHA1,
     ECDSAWithSHA1]"

fun isSupportedSignatureAlgorithm :: "u16 \<Rightarrow> u16 list \<Rightarrow> bool" where
  "isSupportedSignatureAlgorithm sigAlg [] = False"
| "isSupportedSignatureAlgorithm sigAlg (s # ss) = (if s = sigAlg then True else isSupportedSignatureAlgorithm sigAlg ss)"

lemma isSupported_iff [simp]: "isSupportedSignatureAlgorithm a ss \<longleftrightarrow> a \<in> set ss"
  by (induction ss) auto

section \<open>Keys and certificates\<close>

text \<open>
  The public keys the code tells apart; an RSA key has the bit length of its modulus, an ECDSA key a curve (0 for
  one without a group number), any other key its Go type.
\<close>

datatype publicKey =
    RSAKey nat bytes
  | ECDSAKey u16 bytes
  | Ed25519Key bytes
  | OtherKey string

record x509 =
  x_Raw :: bytes
  x_RawIssuer :: bytes
  x_PublicKey :: publicKey
  x_CommonName :: bytes
  x_DNSNames :: "bytes list"
  x_NotAfter :: int

text \<open>
  \<open>crypto.PrivateKey\<close>: its Go type, whether that type is one of the three that are refused by
  name, its public key when it is a \<open>Signer\<close> or a \<open>Decrypter\<close>, and the two operations. The options
  of \<open>Sign\<close> are the hash and whether PSS is asked for.
\<close>

datatype keyForm = ByValue | Ed25519Pointer | Usual

record privateKey =
  pk_type :: string
  pk_form :: keyForm
  pk_signer :: "publicKey option"
  pk_decrypter :: "publicKey option"
  pk_Sign :: "rand_source \<Rightarrow> bytes \<Rightarrow> hash_alg \<Rightarrow> bool \<Rightarrow> bytes option"
  pk_Decrypt :: "rand_source \<Rightarrow> bytes \<Rightarrow> nat \<Rightarrow> bytes option"

text \<open>A \<open>Certificate\<close> with its private key, an optional restriction of schemes and the parsed leaf.\<close>

record tlsCertificate = Certificate +
  tc_PrivateKey :: privateKey
  tc_SupportedSignatureAlgorithms :: "u16 list option"
  tc_Leaf :: "x509 option"

record verifyOptions =
  vo_Roots :: "bytes list option"
  vo_CurrentTime :: int
  vo_DNSName :: bytes
  vo_Intermediates :: "x509 list"
  vo_ClientAuth :: bool

record pki =
  ParseCertificate :: "bytes \<Rightarrow> x509 option"
  x509_Verify :: "x509 \<Rightarrow> verifyOptions \<Rightarrow> x509 list list option"
  VerifyHostname :: "x509 \<Rightarrow> bytes \<Rightarrow> bool"
  ecdsa_VerifyASN1 :: "publicKey \<Rightarrow> bytes \<Rightarrow> bytes \<Rightarrow> bool"
  ed25519_Verify :: "publicKey \<Rightarrow> bytes \<Rightarrow> bytes \<Rightarrow> bool"
  rsa_VerifyPKCS1v15 :: "publicKey \<Rightarrow> hash_alg \<Rightarrow> bytes \<Rightarrow> bytes \<Rightarrow> bool"
  rsa_VerifyPSS :: "publicKey \<Rightarrow> hash_alg \<Rightarrow> bytes \<Rightarrow> bytes \<Rightarrow> bool"
  rsa_EncryptPKCS1v15 :: "rand_source \<Rightarrow> publicKey \<Rightarrow> bytes \<Rightarrow> bytes option"
  ParseIP :: "bytes \<Rightarrow> bool"

text \<open>
  What is relied on: what a key signs verifies under its public key, and what is encrypted to a
  \<open>Decrypter\<close> is decrypted by it.
\<close>

definition signs :: "privateKey \<Rightarrow> bytes \<Rightarrow> hash_alg \<Rightarrow> bool \<Rightarrow> bytes \<Rightarrow> bool" where
  "signs k msg h pss sig \<longleftrightarrow> (\<exists>rnd. pk_Sign k rnd msg h pss = Some sig)"

definition pki_ok :: "pki \<Rightarrow> privateKey \<Rightarrow> bool" where
  "pki_ok X k \<longleftrightarrow>
     (\<forall>pub h msg sig. pk_signer k = Some pub \<longrightarrow>
        (case pub of
           RSAKey _ _ \<Rightarrow> (signs k msg h False sig \<longrightarrow> rsa_VerifyPKCS1v15 X pub h msg sig) \<and>
                        (signs k msg h True sig \<longrightarrow> rsa_VerifyPSS X pub h msg sig)
         | ECDSAKey _ _ \<Rightarrow> signs k msg h False sig \<longrightarrow> ecdsa_VerifyASN1 X pub msg sig
         | Ed25519Key _ \<Rightarrow> signs k msg h False sig \<longrightarrow> ed25519_Verify X pub msg sig
         | OtherKey _ \<Rightarrow> True)) \<and>
     (\<forall>pub rnd rnd' msg c n. pk_decrypter k = Some pub \<longrightarrow> rsa_EncryptPKCS1v15 X rnd pub msg = Some c \<longrightarrow>
        length msg = n \<longrightarrow> pk_Decrypt k rnd' c n = Some msg)"

text \<open>\<open>leaf\<close>; indexing an empty chain panics.\<close>

definition cert_leaf :: "pki \<Rightarrow> tlsCertificate \<Rightarrow> (conn_error + x509) option" where
  "cert_leaf X c =
     (case tc_Leaf c of
        Some l \<Rightarrow> Some (Inr l)
      | None \<Rightarrow>
          (case crt_Certificate c of
             [] \<Rightarrow> None
           | d # _ \<Rightarrow> (case ParseCertificate X d of None \<Rightarrow> Some (Inl (OtherError ''x509'')) | Some l \<Rightarrow> Some (Inr l))))"

section \<open>Verifying\<close>

definition verifyHandshakeSignature ::
  "pki \<Rightarrow> byte \<Rightarrow> publicKey \<Rightarrow> hash_alg \<Rightarrow> bytes \<Rightarrow> bytes \<Rightarrow> conn_error option" where
  "verifyHandshakeSignature X sigType pubkey hashFunc msg sig =
     (if sigType = signatureECDSA then
        (case pubkey of
           ECDSAKey _ _ \<Rightarrow> if ecdsa_VerifyASN1 X pubkey msg sig then None else Some (OtherError ''ECDSA verification failure'')
         | _ \<Rightarrow> Some (OtherError ''expected an ECDSA public key''))
      else if sigType = signatureEd25519 then
        (case pubkey of
           Ed25519Key _ \<Rightarrow> if ed25519_Verify X pubkey msg sig then None else Some (OtherError ''Ed25519 verification failure'')
         | _ \<Rightarrow> Some (OtherError ''expected an Ed25519 public key''))
      else if sigType = signaturePKCS1v15 then
        (case pubkey of
           RSAKey _ _ \<Rightarrow> if rsa_VerifyPKCS1v15 X pubkey hashFunc msg sig then None else Some (OtherError ''crypto/rsa: verification error'')
         | _ \<Rightarrow> Some (OtherError ''expected an RSA public key''))
      else if sigType = signatureRSAPSS then
        (case pubkey of
           RSAKey _ _ \<Rightarrow> if rsa_VerifyPSS X pubkey hashFunc msg sig then None else Some (OtherError ''crypto/rsa: verification error'')
         | _ \<Rightarrow> Some (OtherError ''expected an RSA public key''))
      else Some (OtherError ''internal error: unknown signature type''))"

definition serverSignatureContext :: bytes where
  "serverSignatureContext = str ''TLS 1.3, server CertificateVerify'' @ [0]"

definition clientSignatureContext :: bytes where
  "clientSignatureContext = str ''TLS 1.3, client CertificateVerify'' @ [0]"

definition signaturePadding :: bytes where
  "signaturePadding = replicate 64 0x20"

definition signedMessage :: "crypto \<Rightarrow> hash_alg \<Rightarrow> bytes \<Rightarrow> hash_state \<Rightarrow> bytes" where
  "signedMessage P sigHash context transcript =
     (let b = signaturePadding @ context @ hash_Sum P transcript
      in if sigHash = NoHash then b else hash_Sum P (hash_Write b (hash_new sigHash)))"

section \<open>Schemes\<close>

definition typeAndHashFromSignatureScheme :: "u16 \<Rightarrow> conn_error + byte \<times> hash_alg" where
  "typeAndHashFromSignatureScheme a =
     (let err = OtherError ''unsupported signature algorithm''
      in case (if a \<in> {PKCS1WithSHA1, PKCS1WithSHA256, PKCS1WithSHA384, PKCS1WithSHA512} then Some signaturePKCS1v15
               else if a \<in> {PSSWithSHA256, PSSWithSHA384, PSSWithSHA512} then Some signatureRSAPSS
               else if a \<in> {ECDSAWithSHA1, ECDSAWithP256AndSHA256, ECDSAWithP384AndSHA384, ECDSAWithP521AndSHA512}
                    then Some signatureECDSA
               else if a = Ed25519 then Some signatureEd25519
               else None) of
           None \<Rightarrow> Inl err
         | Some sigType \<Rightarrow>
             (if a \<in> {PKCS1WithSHA1, ECDSAWithSHA1} then Inr (sigType, SHA1)
              else if a \<in> {PKCS1WithSHA256, PSSWithSHA256, ECDSAWithP256AndSHA256} then Inr (sigType, SHA256)
              else if a \<in> {PKCS1WithSHA384, PSSWithSHA384, ECDSAWithP384AndSHA384} then Inr (sigType, SHA384)
              else if a \<in> {PKCS1WithSHA512, PSSWithSHA512, ECDSAWithP521AndSHA512} then Inr (sigType, SHA512)
              else if a = Ed25519 then Inr (sigType, NoHash)
              else Inl err))"

definition legacyTypeAndHashFromPublicKey :: "publicKey \<Rightarrow> conn_error + byte \<times> hash_alg" where
  "legacyTypeAndHashFromPublicKey pub =
     (case pub of
        RSAKey _ _ \<Rightarrow> Inr (signaturePKCS1v15, MD5SHA1)
      | ECDSAKey _ _ \<Rightarrow> Inr (signatureECDSA, SHA1)
      | Ed25519Key _ \<Rightarrow> Inl (OtherError ''tls: Ed25519 public keys are not supported before TLS 1.2'')
      | OtherKey t \<Rightarrow> Inl (OtherError (''tls: unsupported public key: '' @ t)))"

text \<open>Scheme, least size of the modulus in bytes, last version.\<close>

definition rsaSignatureSchemes :: "(u16 \<times> nat \<times> u16) list" where
  "rsaSignatureSchemes = [
     (PSSWithSHA256, hash_size SHA256 * 2 + 2, VersionTLS13),
     (PSSWithSHA384, hash_size SHA384 * 2 + 2, VersionTLS13),
     (PSSWithSHA512, hash_size SHA512 * 2 + 2, VersionTLS13),
     (PKCS1WithSHA256, 19 + hash_size SHA256 + 11, VersionTLS12),
     (PKCS1WithSHA384, 19 + hash_size SHA384 + 11, VersionTLS12),
     (PKCS1WithSHA512, 19 + hash_size SHA512 + 11, VersionTLS12),
     (PKCS1WithSHA1, 15 + hash_size SHA1 + 11, VersionTLS12)]"

definition schemes_for_key :: "u16 \<Rightarrow> publicKey \<Rightarrow> u16 list option" where
  "schemes_for_key version pub =
     (case pub of
        ECDSAKey curve _ \<Rightarrow>
          if version \<noteq> VersionTLS13 then
            Some [ECDSAWithP256AndSHA256, ECDSAWithP384AndSHA384, ECDSAWithP521AndSHA512, ECDSAWithSHA1]
          else if curve = CurveP256 then Some [ECDSAWithP256AndSHA256]
          else if curve = CurveP384 then Some [ECDSAWithP384AndSHA384]
          else if curve = CurveP521 then Some [ECDSAWithP521AndSHA512]
          else None
      | RSAKey bits _ \<Rightarrow>
          Some (map fst (filter (\<lambda>(scheme, minModulusBytes, maxVersion). (bits + 7) div 8 \<ge> minModulusBytes \<and> version \<le> maxVersion)
            rsaSignatureSchemes))
      | Ed25519Key _ \<Rightarrow> Some [Ed25519]
      | OtherKey _ \<Rightarrow> None)"

text \<open>nil and the empty list are the same to every caller.\<close>

definition signatureSchemesForCertificate :: "u16 \<Rightarrow> tlsCertificate \<Rightarrow> u16 list" where
  "signatureSchemesForCertificate version cert =
     (case pk_signer (tc_PrivateKey cert) of
        None \<Rightarrow> []
      | Some pub \<Rightarrow>
          (case schemes_for_key version pub of
             None \<Rightarrow> []
           | Some sigAlgs \<Rightarrow>
               (case tc_SupportedSignatureAlgorithms cert of
                  None \<Rightarrow> sigAlgs
                | Some supported \<Rightarrow> filter (\<lambda>sigAlg. isSupportedSignatureAlgorithm sigAlg supported) sigAlgs)))"

definition unsupportedCertificateError :: "tlsCertificate \<Rightarrow> conn_error" where
  "unsupportedCertificateError cert =
     OtherError
       (let key = tc_PrivateKey cert
        in case pk_form key of
             ByValue \<Rightarrow> ''tls: unsupported certificate: private key is '' @ pk_type key @ '', expected *'' @ pk_type key
           | Ed25519Pointer \<Rightarrow> ''tls: unsupported certificate: private key is *ed25519.PrivateKey, expected ed25519.PrivateKey''
           | Usual \<Rightarrow>
               (case pk_signer key of
                  None \<Rightarrow> ''tls: certificate private key ('' @ pk_type key @ '') does not implement crypto.Signer''
                | Some pub \<Rightarrow>
                    (let rest = (if tc_SupportedSignatureAlgorithms cert \<noteq> None
                                 then ''tls: peer doesn't support the certificate custom signature algorithms''
                                 else ''tls: internal error: unsupported key ('' @ pk_type key @ '')'')
                     in case pub of
                          ECDSAKey curve _ \<Rightarrow>
                            if curve \<in> {CurveP256, CurveP384, CurveP521} then rest else ''tls: unsupported certificate curve''
                        | RSAKey _ _ \<Rightarrow> ''tls: certificate RSA key size too small for supported signature algorithms''
                        | Ed25519Key _ \<Rightarrow> rest
                        | OtherKey t \<Rightarrow> ''tls: unsupported certificate key ('' @ t @ '')'')))"

fun first_supported :: "u16 list \<Rightarrow> u16 list \<Rightarrow> u16 option" where
  "first_supported supportedAlgs [] = None"
| "first_supported supportedAlgs (preferredAlg # algs) =
     (if isSupportedSignatureAlgorithm preferredAlg supportedAlgs then Some preferredAlg
      else first_supported supportedAlgs algs)"

definition selectSignatureScheme :: "u16 \<Rightarrow> tlsCertificate \<Rightarrow> u16 list \<Rightarrow> conn_error + u16" where
  "selectSignatureScheme vers c peerAlgs =
     (let supportedAlgs = signatureSchemesForCertificate vers c
      in if supportedAlgs = [] then Inl (unsupportedCertificateError c)
         else
           let peerAlgs' = (if peerAlgs = [] \<and> vers = VersionTLS12 then [PKCS1WithSHA1, ECDSAWithSHA1] else peerAlgs)
           in case first_supported supportedAlgs peerAlgs' of
                Some a \<Rightarrow> Inr a
              | None \<Rightarrow> Inl (OtherError ''tls: peer doesn't support any of the certificate's signature algorithms''))"

section \<open>A scheme that is chosen fits the key\<close>

text \<open>The signature type of a public key; an RSA key has two.\<close>

fun key_fits :: "byte \<Rightarrow> publicKey \<Rightarrow> bool" where
  "key_fits t (RSAKey _ _) \<longleftrightarrow> t = signaturePKCS1v15 \<or> t = signatureRSAPSS"
| "key_fits t (ECDSAKey _ _) \<longleftrightarrow> t = signatureECDSA"
| "key_fits t (Ed25519Key _) \<longleftrightarrow> t = signatureEd25519"
| "key_fits t (OtherKey _) \<longleftrightarrow> False"

lemma first_supported_Some: "first_supported s as = Some a \<Longrightarrow> a \<in> set s \<and> a \<in> set as"
  by (induction as) (auto split: if_splits)

lemma schemes_for_key_fit:
  assumes "schemes_for_key v pub = Some as" and "a \<in> set as"
  shows "\<exists>t h. typeAndHashFromSignatureScheme a = Inr (t, h) \<and> key_fits t pub \<and> (v = VersionTLS13 \<longrightarrow> t \<noteq> signaturePKCS1v15)"
proof (cases pub)
  case (RSAKey n k)
  with assms have "a \<in> {PSSWithSHA256, PSSWithSHA384, PSSWithSHA512} \<or>
      v \<le> VersionTLS12 \<and> a \<in> {PKCS1WithSHA256, PKCS1WithSHA384, PKCS1WithSHA512, PKCS1WithSHA1}"
    by (auto simp: schemes_for_key_def rsaSignatureSchemes_def split: if_splits)
  then show ?thesis
    by (auto simp: typeAndHashFromSignatureScheme_def scheme_defs RSAKey version_defs registry_defs)
qed (use assms in \<open>auto simp: schemes_for_key_def typeAndHashFromSignatureScheme_def scheme_defs registry_defs
    split: if_splits\<close>)

lemma signatureSchemes_fit:
  assumes "a \<in> set (signatureSchemesForCertificate v cert)"
  obtains pub t h where "pk_signer (tc_PrivateKey cert) = Some pub" and "typeAndHashFromSignatureScheme a = Inr (t, h)"
    and "key_fits t pub" and "v = VersionTLS13 \<longrightarrow> t \<noteq> signaturePKCS1v15"
proof -
  obtain pub where pub: "pk_signer (tc_PrivateKey cert) = Some pub"
    using assms by (cases "pk_signer (tc_PrivateKey cert)") (auto simp: signatureSchemesForCertificate_def)
  then obtain sigAlgs where "schemes_for_key v pub = Some sigAlgs"
    using assms by (cases "schemes_for_key v pub") (auto simp: signatureSchemesForCertificate_def)
  moreover from this pub assms have "a \<in> set sigAlgs"
    by (auto simp: signatureSchemesForCertificate_def split: option.splits)
  ultimately show ?thesis using schemes_for_key_fit [of v pub sigAlgs a] pub that by blast
qed

text \<open>A signature of a fitting key verifies.\<close>

lemma signature_verifies:
  assumes "pki_ok X k" and "pk_signer k = Some pub" and "key_fits t pub"
    and "pk_Sign k rnd msg h (t = signatureRSAPSS) = Some sig"
  shows "verifyHandshakeSignature X t pub h msg sig = None"
proof -
  have "signs k msg h (t = signatureRSAPSS) sig" using assms(4) by (auto simp: signs_def)
  moreover have "case pub of
           RSAKey _ _ \<Rightarrow> (signs k msg h False sig \<longrightarrow> rsa_VerifyPKCS1v15 X pub h msg sig) \<and>
                        (signs k msg h True sig \<longrightarrow> rsa_VerifyPSS X pub h msg sig)
         | ECDSAKey _ _ \<Rightarrow> signs k msg h False sig \<longrightarrow> ecdsa_VerifyASN1 X pub msg sig
         | Ed25519Key _ \<Rightarrow> signs k msg h False sig \<longrightarrow> ed25519_Verify X pub msg sig
         | OtherKey _ \<Rightarrow> True"
    using assms(1,2) by (simp add: pki_ok_def)
  ultimately show ?thesis
    using assms(3) by (cases pub) (auto simp: verifyHandshakeSignature_def registry_defs)
qed

end
