(* ===== verification/Config.thy ===== *)
theory Config
  imports Auth Manager
begin

text \<open>
  The configuration (\<open>common.go\<close>, type \<open>Config\<close>): protocol versions, curves and suites, the choice of a
  certificate, session ticket keys with their lock, and the key log; \<open>ClientHelloInfo\<close> and the other
  types it is used with. A callback that may be nil is an option. \<open>GetConfigForClient\<close> yields another
  configuration and is therefore kept beside the configuration, as are the clock, the random source
  and the key log (\<open>host\<close>). The configuration that \<open>ClientHelloInfo\<close> embeds is a separate argument.
\<close>

section \<open>Types\<close>

definition NoClientCert :: int where "NoClientCert = 0"
definition RequestClientCert :: int where "RequestClientCert = 1"
definition RequireAnyClientCert :: int where "RequireAnyClientCert = 2"
definition VerifyClientCertIfGiven :: int where "VerifyClientCertIfGiven = 3"
definition RequireAndVerifyClientCert :: int where "RequireAndVerifyClientCert = 4"

lemmas client_auth_defs = NoClientCert_def RequestClientCert_def RequireAnyClientCert_def
  VerifyClientCertIfGiven_def RequireAndVerifyClientCert_def

definition requiresClientCert :: "int \<Rightarrow> bool" where
  "requiresClientCert c \<longleftrightarrow> c = RequireAnyClientCert \<or> c = RequireAndVerifyClientCert"

record ConnectionState =
  cst_Version :: u16
  cst_HandshakeComplete :: bool
  cst_DidResume :: bool
  cst_CipherSuite :: u16
  cst_NegotiatedProtocol :: bytes
  cst_NegotiatedProtocolIsMutual :: bool
  cst_ServerName :: bytes
  cst_PeerCertificates :: "x509 list"
  cst_VerifiedChains :: "x509 list list"
  cst_SignedCertificateTimestamps :: "bytes list"
  cst_OCSPResponse :: bytes
  cst_TLSUnique :: bytes
  cst_ekm :: "ekm option"

text \<open>Calling a nil function panics.\<close>

definition ExportKeyingMaterial :: "ConnectionState \<Rightarrow> bytes \<Rightarrow> bytes option \<Rightarrow> nat \<Rightarrow> (string + bytes) option" where
  "ExportKeyingMaterial cs label context n = Option.bind (cst_ekm cs) (\<lambda>ekm. ekm label context n)"

record ClientSessionState =
  css_sessionTicket :: bytes
  css_vers :: u16
  css_cipherSuite :: u16
  css_masterSecret :: bytes
  css_serverCertificates :: "x509 list"
  css_verifiedChains :: "x509 list list"
  css_receivedAt :: int
  css_ocspResponse :: bytes
  css_scts :: "bytes list"
  css_nonce :: bytes
  css_useBy :: int
  css_ageAdd :: u32

record ClientHelloInfo =
  chi_CipherSuites :: "u16 list"
  chi_ServerName :: bytes
  chi_SupportedCurves :: "u16 list"
  chi_SupportedPoints :: bytes
  chi_SignatureSchemes :: "u16 list"
  chi_SupportedProtos :: "bytes list"
  chi_SupportedVersions :: "u16 list"

record CertificateRequestInfo =
  cri_AcceptableCAs :: "bytes list"
  cri_SignatureSchemes :: "u16 list"
  cri_Version :: u16

text \<open>The times are nanoseconds.\<close>

definition nanoseconds :: "int \<Rightarrow> int" where "nanoseconds s = s * 1000000000"

definition ticketKeyNameLen :: nat where "ticketKeyNameLen = 16"
definition ticketKeyLifetime :: int where "ticketKeyLifetime = nanoseconds (7 * 24 * 3600)"
definition ticketKeyRotation :: int where "ticketKeyRotation = nanoseconds (24 * 3600)"
definition maxSessionTicketLifetime :: int where "maxSessionTicketLifetime = nanoseconds (7 * 24 * 3600)"

record ticketKey =
  tk_keyName :: bytes
  tk_aesKey :: bytes
  tk_hmacKey :: bytes
  tk_created :: int

text \<open>
  \<open>mutex\<close> is an \<open>RWMutex\<close>: a writer never keeps it beyond a call, so its state is the number of read
  locks held. \<open>ClientSessionCache\<close>, like the random source and the clock, is kept outside; the
  field says whether there is one.
\<close>

record Config =
  cfg_Certificates :: "tlsCertificate list"
  cfg_NameToCertificate :: "(bytes \<rightharpoonup> tlsCertificate) option"
  cfg_GetCertificate :: "(ClientHelloInfo \<Rightarrow> tlsCertificate option \<times> conn_error option) option"
  cfg_GetClientCertificate :: "(CertificateRequestInfo \<Rightarrow> tlsCertificate option \<times> conn_error option) option"
  cfg_VerifyPeerCertificate :: "(bytes list \<Rightarrow> x509 list list \<Rightarrow> conn_error option) option"
  cfg_VerifyConnection :: "(ConnectionState \<Rightarrow> conn_error option) option"
  cfg_RootCAs :: "bytes list option"
  cfg_NextProtos :: "bytes list"
  cfg_ServerName :: bytes
  cfg_ClientAuth :: int
  cfg_ClientCAs :: "bytes list option"
  cfg_InsecureSkipVerify :: bool
  cfg_CipherSuites :: "u16 list option"
  cfg_PreferServerCipherSuites :: bool
  cfg_SessionTicketsDisabled :: bool
  cfg_SessionTicketKey :: bytes
  cfg_ClientSessionCache :: bool
  cfg_MinVersion :: u16
  cfg_MaxVersion :: u16
  cfg_CurvePreferences :: "u16 list"
  cfg_DynamicRecordSizingDisabled :: bool
  cfg_Renegotiation :: int
  cfg_KeyLogWriter :: "(nat \<Rightarrow> conn_error option) option"
  cfg_readers :: nat
  cfg_sessionTicketKeys :: "ticketKey list"
  cfg_autoSessionTicketKeys :: "ticketKey list"

definition emptyConfig :: Config where
  "emptyConfig = \<lparr>cfg_Certificates = [], cfg_NameToCertificate = None, cfg_GetCertificate = None,
     cfg_GetClientCertificate = None, cfg_VerifyPeerCertificate = None, cfg_VerifyConnection = None,
     cfg_RootCAs = None, cfg_NextProtos = [], cfg_ServerName = [], cfg_ClientAuth = 0, cfg_ClientCAs = None,
     cfg_InsecureSkipVerify = False, cfg_CipherSuites = None, cfg_PreferServerCipherSuites = False,
     cfg_SessionTicketsDisabled = False, cfg_SessionTicketKey = replicate 32 0, cfg_ClientSessionCache = False,
     cfg_MinVersion = 0, cfg_MaxVersion = 0, cfg_CurvePreferences = [], cfg_DynamicRecordSizingDisabled = False,
     cfg_Renegotiation = 0, cfg_KeyLogWriter = None, cfg_readers = 0, cfg_sessionTicketKeys = [],
     cfg_autoSessionTicketKeys = []\<rparr>"

definition defaultConfig :: Config where
  "defaultConfig = emptyConfig"

text \<open>\<open>Rand\<close>, \<open>Time\<close> and the lines written to \<open>KeyLogWriter\<close>.\<close>

record host =
  h_rand :: "nat \<Rightarrow> rand_source"
  h_draws :: nat
  h_time :: "nat \<Rightarrow> int"
  h_ticks :: nat
  h_keyLog :: "bytes list"

definition host_ReadFull :: "nat \<Rightarrow> host \<Rightarrow> bytes option \<times> host" where
  "host_ReadFull n h = (h_rand h (h_draws h) n, h\<lparr>h_draws := Suc (h_draws h)\<rparr>)"

text \<open>The random source handed to a function of another package; it counts as one draw.\<close>

definition host_source :: "host \<Rightarrow> rand_source \<times> host" where
  "host_source h = (h_rand h (h_draws h), h\<lparr>h_draws := Suc (h_draws h)\<rparr>)"

definition host_time :: "host \<Rightarrow> int \<times> host" where
  "host_time h = (h_time h (h_ticks h), h\<lparr>h_ticks := Suc (h_ticks h)\<rparr>)"

section \<open>Versions, suites, curves\<close>

text \<open>\<open>godebug.Get\<close>: the value of the first entry \<open>name=value\<close> of the variable \<open>GODEBUG\<close>.\<close>

fun split_on :: "byte \<Rightarrow> bytes \<Rightarrow> bytes list" where
  "split_on sep [] = [[]]"
| "split_on sep (b # bs) =
     (if b = sep then [] # split_on sep bs else (case split_on sep bs of [] \<Rightarrow> [[b]] | x # xs \<Rightarrow> (b # x) # xs))"

definition key_value :: "bytes \<Rightarrow> bytes \<times> bytes" where
  "key_value e = (takeWhile (\<lambda>b. b \<noteq> 61) e, drop 1 (dropWhile (\<lambda>b. b \<noteq> 61) e))"

fun godebug_find :: "bytes \<Rightarrow> bytes list \<Rightarrow> bytes" where
  "godebug_find name [] = []"
| "godebug_find name (e # es) = (if fst (key_value e) = name then snd (key_value e) else godebug_find name es)"

definition godebug_Get :: "bytes \<Rightarrow> bytes \<Rightarrow> bytes" where
  "godebug_Get GODEBUG name =
     (let es = split_on 44 GODEBUG
      in godebug_find name (if last es = [] then butlast es else es))"

definition debugEnableTLS10 :: "bytes \<Rightarrow> bool" where
  "debugEnableTLS10 GODEBUG \<longleftrightarrow> godebug_Get GODEBUG (str ''tls10default'') = str ''1''"

definition supportedVersions :: "u16 list" where
  "supportedVersions = [VersionTLS13, VersionTLS12, VersionTLS11, VersionTLS10]"

definition roleClient :: bool where "roleClient = True"
definition roleServer :: bool where "roleServer = False"

text \<open>\<open>D\<close> is \<open>debugEnableTLS10\<close>; a nil configuration is \<^term>\<open>None\<close>.\<close>

definition version_skipped :: "bool \<Rightarrow> Config option \<Rightarrow> bool \<Rightarrow> u16 \<Rightarrow> bool" where
  "version_skipped D co isClient v \<longleftrightarrow>
     (case co of None \<Rightarrow> True | Some c \<Rightarrow> cfg_MinVersion c = 0) \<and> \<not> D \<and> isClient \<and> v < VersionTLS12 \<or>
     (case co of None \<Rightarrow> False | Some c \<Rightarrow> cfg_MinVersion c \<noteq> 0 \<and> v < cfg_MinVersion c) \<or>
     (case co of None \<Rightarrow> False | Some c \<Rightarrow> cfg_MaxVersion c \<noteq> 0 \<and> v > cfg_MaxVersion c)"

definition config_supportedVersions :: "bool \<Rightarrow> Config option \<Rightarrow> bool \<Rightarrow> u16 list" where
  "config_supportedVersions D co isClient = filter (\<lambda>v. \<not> version_skipped D co isClient v) supportedVersions"

definition maxSupportedVersion :: "bool \<Rightarrow> Config option \<Rightarrow> bool \<Rightarrow> u16" where
  "maxSupportedVersion D co isClient =
     (case config_supportedVersions D co isClient of [] \<Rightarrow> 0 | v # _ \<Rightarrow> v)"

definition supportedVersionsFromMax :: "u16 \<Rightarrow> u16 list" where
  "supportedVersionsFromMax maxVersion = filter (\<lambda>v. \<not> v > maxVersion) supportedVersions"

fun first_mutual :: "u16 list \<Rightarrow> u16 list \<Rightarrow> u16 option" where
  "first_mutual supported [] = None"
| "first_mutual supported (peerVersion # vs) =
     (case find (\<lambda>v. v = peerVersion) supported of Some v \<Rightarrow> Some v | None \<Rightarrow> first_mutual supported vs)"

definition mutualVersion :: "bool \<Rightarrow> Config option \<Rightarrow> bool \<Rightarrow> u16 list \<Rightarrow> u16 option" where
  "mutualVersion D co isClient peerVersions = first_mutual (config_supportedVersions D co isClient) peerVersions"

definition config_cipherSuites :: "Config \<Rightarrow> u16 list" where
  "config_cipherSuites c = (case cfg_CipherSuites c of Some l \<Rightarrow> l | None \<Rightarrow> defaultCipherSuites)"

definition defaultCurvePreferences :: "u16 list" where
  "defaultCurvePreferences = [X25519, CurveP256, CurveP384, CurveP521]"

definition curvePreferences :: "Config option \<Rightarrow> u16 list" where
  "curvePreferences co =
     (case co of None \<Rightarrow> defaultCurvePreferences
      | Some c \<Rightarrow> if length (cfg_CurvePreferences c) = 0 then defaultCurvePreferences else cfg_CurvePreferences c)"

definition supportsCurve :: "Config option \<Rightarrow> u16 \<Rightarrow> bool" where
  "supportsCurve co curve = list_ex (\<lambda>cc. cc = curve) (curvePreferences co)"

definition supportsECDHE :: "Config option \<Rightarrow> u16 list \<Rightarrow> bytes \<Rightarrow> bool" where
  "supportsECDHE co supportedCurves supportedPoints \<longleftrightarrow>
     list_ex (supportsCurve co) supportedCurves \<and>
     (list_ex (\<lambda>pointFormat. pointFormat = pointFormatUncompressed) supportedPoints \<or> length supportedPoints = 0)"

definition helloRetryRequestRandom :: bytes where
  "helloRetryRequestRandom = [
     0xCF, 0x21, 0xAD, 0x74, 0xE5, 0x9A, 0x61, 0x11, 0xBE, 0x1D, 0x8C, 0x02, 0x1E, 0x65, 0xB8, 0x91,
     0xC2, 0xA2, 0x11, 0x16, 0x7A, 0xBB, 0x8C, 0x5E, 0x07, 0x9E, 0x09, 0xE2, 0xC8, 0xA8, 0x33, 0x9C]"

definition downgradeCanaryTLS12 :: bytes where "downgradeCanaryTLS12 = str ''DOWNGRD'' @ [1]"
definition downgradeCanaryTLS11 :: bytes where "downgradeCanaryTLS11 = str ''DOWNGRD'' @ [0]"
definition testingOnlyForceDowngradeCanary :: bool where "testingOnlyForceDowngradeCanary = False"

section \<open>Certificates\<close>

text \<open>
  \<open>ClientHelloInfo.SupportsCertificate\<close>: \<^term>\<open>Some None\<close> when the certificate is supported. The static RSA
  key exchange is tried whenever the signed one is not possible.
\<close>

definition rsa_suite_ok :: "u16 \<Rightarrow> cipherSuite \<Rightarrow> bool" where
  "rsa_suite_ok vers c \<longleftrightarrow>
     (if cs_flags c AND suiteECDHE \<noteq> 0 then False
      else if vers < VersionTLS12 \<and> cs_flags c AND suiteTLS12 \<noteq> 0 then False else True)"

definition supportsRSAFallback ::
  "crypto \<Rightarrow> Config \<Rightarrow> u16 \<Rightarrow> ClientHelloInfo \<Rightarrow> tlsCertificate \<Rightarrow> conn_error \<Rightarrow> conn_error option" where
  "supportsRSAFallback P config vers chi c unsupported =
     (if vers = VersionTLS13 then Some unsupported
      else case pk_decrypter (tc_PrivateKey c) of
        Some (RSAKey _ _) \<Rightarrow>
          (case selectCipherSuite P (chi_CipherSuites chi) (config_cipherSuites config) (rsa_suite_ok vers) of
             None \<Rightarrow> Some unsupported
           | Some _ \<Rightarrow> None)
      | _ \<Rightarrow> Some unsupported)"

definition signing_suite_ok :: "u16 \<Rightarrow> bool \<Rightarrow> cipherSuite \<Rightarrow> bool" where
  "signing_suite_ok vers ecdsaCipherSuite c \<longleftrightarrow>
     (if cs_flags c AND suiteECDHE = 0 then False
      else if (cs_flags c AND suiteECSign \<noteq> 0) \<noteq> ecdsaCipherSuite then False
      else if vers < VersionTLS12 \<and> cs_flags c AND suiteTLS12 \<noteq> 0 then False
      else True)"

text \<open>The test of the public key: the kind of suite, an error, or the fallback.\<close>

datatype key_check = UseSuite bool | KeyError conn_error | Fallback

definition check_public_key :: "Config \<Rightarrow> u16 \<Rightarrow> ClientHelloInfo \<Rightarrow> tlsCertificate \<Rightarrow> key_check" where
  "check_public_key config vers chi c =
     (case pk_signer (tc_PrivateKey c) of
        None \<Rightarrow> Fallback
      | Some (ECDSAKey curve _) \<Rightarrow>
          if curve \<notin> {CurveP256, CurveP384, CurveP521} then Fallback
          else if list_ex (\<lambda>c. c = curve \<and> supportsCurve (Some config) c) (chi_SupportedCurves chi) then UseSuite True
          else KeyError (OtherError ''client doesn't support certificate curve'')
      | Some (Ed25519Key _) \<Rightarrow>
          if vers < VersionTLS12 \<or> length (chi_SignatureSchemes chi) = 0
          then KeyError (OtherError ''connection doesn't support Ed25519'') else UseSuite True
      | Some (RSAKey _ _) \<Rightarrow> UseSuite False
      | Some (OtherKey _) \<Rightarrow> Fallback)"

definition check_server_name :: "pki \<Rightarrow> bytes \<Rightarrow> tlsCertificate \<Rightarrow> conn_error option option" where
  "check_server_name X name c =
     (if name \<noteq> [] then
        (case cert_leaf X c of
           None \<Rightarrow> None
         | Some (Inl e) \<Rightarrow> Some (Some (OtherError ''failed to parse certificate''))
         | Some (Inr x509Cert) \<Rightarrow>
             Some (if VerifyHostname X x509Cert name then None
                   else Some (OtherError ''certificate is not valid for requested server name'')))
      else Some None)"

definition SupportsCertificate ::
  "crypto \<Rightarrow> pki \<Rightarrow> bool \<Rightarrow> Config option \<Rightarrow> ClientHelloInfo \<Rightarrow> tlsCertificate \<Rightarrow> conn_error option option" where
  "SupportsCertificate P X D co chi c =
     (let config = (case co of Some x \<Rightarrow> x | None \<Rightarrow> emptyConfig)
      in case mutualVersion D (Some config) roleServer (chi_SupportedVersions chi) of
           None \<Rightarrow> Some (Some (OtherError ''no mutually supported protocol versions''))
         | Some vers \<Rightarrow>
             (case check_server_name X (chi_ServerName chi) c of
                None \<Rightarrow> None
              | Some (Some e) \<Rightarrow> Some (Some e)
              | Some None \<Rightarrow>
                  let fallback = supportsRSAFallback P config vers chi c
                  in Some
                    (case (if length (chi_SignatureSchemes chi) > 0
                           then selectSignatureScheme vers c (chi_SignatureSchemes chi) else Inr 0) of
                       Inl err \<Rightarrow> fallback err
                     | Inr _ \<Rightarrow>
                         if vers = VersionTLS13 then None
                         else if \<not> supportsECDHE (Some config) (chi_SupportedCurves chi) (chi_SupportedPoints chi) then
                           fallback (OtherError ''client doesn't support ECDHE, can only use legacy RSA key exchange'')
                         else case check_public_key config vers chi c of
                           KeyError e \<Rightarrow> Some e
                         | Fallback \<Rightarrow> fallback (unsupportedCertificateError c)
                         | UseSuite ecdsaCipherSuite \<Rightarrow>
                             (case selectCipherSuite P (chi_CipherSuites chi) (config_cipherSuites config)
                                     (signing_suite_ok vers ecdsaCipherSuite) of
                                None \<Rightarrow> fallback (OtherError ''client doesn't support any cipher suites compatible with the certificate'')
                              | Some _ \<Rightarrow> None))))"

text \<open>\<open>CertificateRequestInfo.SupportsCertificate\<close>: some certificate of the chain was issued by an acceptable authority.\<close>

fun issued_by :: "pki \<Rightarrow> bytes list \<Rightarrow> nat \<Rightarrow> x509 option \<Rightarrow> bytes list \<Rightarrow> conn_error option" where
  "issued_by X cas j leaf [] = Some (OtherError ''chain is not signed by an acceptable CA'')"
| "issued_by X cas j leaf (cert # certs) =
     (case (if j \<noteq> 0 \<or> leaf = None then ParseCertificate X cert else leaf) of
        None \<Rightarrow> Some (OtherError ''failed to parse certificate in the chain'')
      | Some x509Cert \<Rightarrow>
          if list_ex (\<lambda>ca. x_RawIssuer x509Cert = ca) cas then None else issued_by X cas (Suc j) leaf certs)"

definition SupportsCertificate_request :: "pki \<Rightarrow> CertificateRequestInfo \<Rightarrow> tlsCertificate \<Rightarrow> conn_error option" where
  "SupportsCertificate_request X cri c =
     (case selectSignatureScheme (cri_Version cri) c (cri_SignatureSchemes cri) of
        Inl err \<Rightarrow> Some err
      | Inr _ \<Rightarrow>
          if length (cri_AcceptableCAs cri) = 0 then None
          else issued_by X (cri_AcceptableCAs cri) 0 (tc_Leaf c) (crt_Certificate c))"

text \<open>\<open>strings.ToLower\<close> on an ASCII name; replacing the first label by a wild card.\<close>

definition to_lower :: "bytes \<Rightarrow> bytes" where
  "to_lower = map (\<lambda>b. if 65 \<le> b \<and> b \<le> 90 then b + 32 else b)"

fun join :: "bytes \<Rightarrow> bytes list \<Rightarrow> bytes" where
  "join sep [] = []"
| "join sep [x] = x"
| "join sep (x # y # xs) = x @ sep @ join sep (y # xs)"

definition wildcardName :: "bytes \<Rightarrow> bytes" where
  "wildcardName name = join (str ''.'') ((split_on 46 name)[0 := str ''*''])"

definition name_lookup :: "(bytes \<rightharpoonup> tlsCertificate) \<Rightarrow> bytes \<Rightarrow> tlsCertificate option" where
  "name_lookup m name =
     (case m name of
        Some cert \<Rightarrow> Some cert
      | None \<Rightarrow> if length name > 0 then m (wildcardName name) else None)"

fun first_certificate ::
  "(tlsCertificate \<Rightarrow> conn_error option option) \<Rightarrow> tlsCertificate list \<Rightarrow> tlsCertificate option option" where
  "first_certificate supports [] = Some None"
| "first_certificate supports (cert # certs) =
     (case supports cert of
        None \<Rightarrow> None
      | Some None \<Rightarrow> Some (Some cert)
      | Some (Some e) \<Rightarrow> first_certificate supports certs)"

definition errNoCertificates :: conn_error where
  "errNoCertificates = OtherError ''tls: no certificates configured''"

text \<open>\<open>getCertificate\<close>: the certificate and the error, either of which may be nil.\<close>

definition pick_certificate ::
  "crypto \<Rightarrow> pki \<Rightarrow> bool \<Rightarrow> Config \<Rightarrow> ClientHelloInfo \<Rightarrow> (tlsCertificate option \<times> conn_error option) option" where
  "pick_certificate P X D c clientHello =
     (case cfg_Certificates c of
        [] \<Rightarrow> Some (None, Some errNoCertificates)
      | [cert] \<Rightarrow> Some (Some cert, None)
      | cert # certs \<Rightarrow>
          (case Option.bind (cfg_NameToCertificate c) (\<lambda>m. name_lookup m (to_lower (chi_ServerName clientHello))) of
             Some found \<Rightarrow> Some (Some found, None)
           | None \<Rightarrow>
               (case first_certificate (SupportsCertificate P X D (Some c) clientHello) (cert # certs) of
                  None \<Rightarrow> None
                | Some (Some found) \<Rightarrow> Some (Some found, None)
                | Some None \<Rightarrow> Some (Some cert, None))))"

definition getCertificate ::
  "crypto \<Rightarrow> pki \<Rightarrow> bool \<Rightarrow> Config \<Rightarrow> ClientHelloInfo \<Rightarrow> (tlsCertificate option \<times> conn_error option) option" where
  "getCertificate P X D c clientHello =
     (case cfg_GetCertificate c of
        Some get \<Rightarrow>
          (if length (cfg_Certificates c) = 0 \<or> length (chi_ServerName clientHello) > 0 then
             (let (cert, err) = get clientHello
              in if cert \<noteq> None \<or> err \<noteq> None then Some (cert, err) else pick_certificate P X D c clientHello)
           else pick_certificate P X D c clientHello)
      | None \<Rightarrow> pick_certificate P X D c clientHello)"

fun add_names :: "bytes list \<Rightarrow> tlsCertificate \<Rightarrow> (bytes \<rightharpoonup> tlsCertificate) \<Rightarrow> (bytes \<rightharpoonup> tlsCertificate)" where
  "add_names [] cert m = m"
| "add_names (n # ns) cert m = add_names ns cert (m(n \<mapsto> cert))"

fun build_names :: "pki \<Rightarrow> tlsCertificate list \<Rightarrow> (bytes \<rightharpoonup> tlsCertificate) \<Rightarrow> (bytes \<rightharpoonup> tlsCertificate) option" where
  "build_names X [] m = Some m"
| "build_names X (cert # certs) m =
     (case cert_leaf X cert of
        None \<Rightarrow> None
      | Some (Inl e) \<Rightarrow> build_names X certs m
      | Some (Inr x509Cert) \<Rightarrow>
          let m1 = (if x_CommonName x509Cert \<noteq> [] \<and> length (x_DNSNames x509Cert) = 0
                    then m(x_CommonName x509Cert \<mapsto> cert) else m)
          in build_names X certs (add_names (x_DNSNames x509Cert) cert m1))"

definition BuildNameToCertificate :: "pki \<Rightarrow> Config \<Rightarrow> Config option" where
  "BuildNameToCertificate X c =
     map_option (\<lambda>m. c\<lparr>cfg_NameToCertificate := Some m\<rparr>) (build_names X (cfg_Certificates c) Map.empty)"

section \<open>The key log\<close>

definition keyLogLabelTLS12 :: bytes where "keyLogLabelTLS12 = str ''CLIENT_RANDOM''"
definition keyLogLabelClientHandshake :: bytes where "keyLogLabelClientHandshake = str ''CLIENT_HANDSHAKE_TRAFFIC_SECRET''"
definition keyLogLabelServerHandshake :: bytes where "keyLogLabelServerHandshake = str ''SERVER_HANDSHAKE_TRAFFIC_SECRET''"
definition keyLogLabelClientTraffic :: bytes where "keyLogLabelClientTraffic = str ''CLIENT_TRAFFIC_SECRET_0''"
definition keyLogLabelServerTraffic :: bytes where "keyLogLabelServerTraffic = str ''SERVER_TRAFFIC_SECRET_0''"

definition hex_digit :: "byte \<Rightarrow> byte" where
  "hex_digit d = (if d < 10 then 48 + d else 87 + d)"

definition hex :: "bytes \<Rightarrow> bytes" where
  "hex bs = concat (map (\<lambda>b. [hex_digit (drop_bit 4 b), hex_digit (b AND 15)]) bs)"

definition writeKeyLog :: "Config \<Rightarrow> bytes \<Rightarrow> bytes \<Rightarrow> bytes \<Rightarrow> host \<Rightarrow> conn_error option \<times> host" where
  "writeKeyLog c label clientRandom secret h =
     (case cfg_KeyLogWriter c of
        None \<Rightarrow> (None, h)
      | Some write \<Rightarrow>
          (let logLine = label @ str '' '' @ hex clientRandom @ str '' '' @ hex secret @ [10]
           in (write (length (h_keyLog h)), h\<lparr>h_keyLog := h_keyLog h @ [logLine]\<rparr>)))"

section \<open>Session ticket keys\<close>

definition ticketKeyFromBytes :: "crypto \<Rightarrow> bytes \<Rightarrow> host \<Rightarrow> ticketKey \<times> host" where
  "ticketKeyFromBytes P b h =
     (let hashed = hash_sum P SHA512 b; (now, h1) = host_time h
      in (\<lparr>tk_keyName = take ticketKeyNameLen hashed, tk_aesKey = take 16 (drop ticketKeyNameLen hashed),
           tk_hmacKey = take 16 (drop (ticketKeyNameLen + 16) hashed), tk_created = now\<rparr>, h1))"

text \<open>\<open>Clone\<close>: everything but the lock, which the copy has unlocked.\<close>

definition Clone :: "Config option \<Rightarrow> Config option" where
  "Clone co = map_option (\<lambda>c. c\<lparr>cfg_readers := 0\<rparr>) co"

definition deprecatedSessionTicketKey :: bytes where
  "deprecatedSessionTicketKey = str ''DEPRECATED''"

definition deprecated_key :: "bytes \<Rightarrow> bool" where
  "deprecated_key k \<longleftrightarrow> take (length deprecatedSessionTicketKey) k = deprecatedSessionTicketKey"

text \<open>\<open>mutex.Lock\<close> waits while a read lock is held.\<close>

definition RLock :: "Config \<Rightarrow> Config" where "RLock c = c\<lparr>cfg_readers := Suc (cfg_readers c)\<rparr>"
definition RUnlock :: "Config \<Rightarrow> Config" where "RUnlock c = c\<lparr>cfg_readers := cfg_readers c - 1\<rparr>"

definition initLegacySessionTicketKeyRLocked :: "crypto \<Rightarrow> Config \<times> host \<Rightarrow> (unit, Config \<times> host) outcome" where
  "initLegacySessionTicketKeyRLocked P s =
     (let (c, h) = s; key = cfg_SessionTicketKey c
      in if key \<noteq> replicate 32 0 \<and> (deprecated_key key \<or> length (cfg_sessionTicketKeys c) > 0) then Returned () (c, h)
         else
           let c1 = RUnlock c
           in if cfg_readers c1 > 0 then Blocked (c1, h)
              else if key = replicate 32 0 then
                (case host_ReadFull 32 h of
                   (None, h1) \<Rightarrow> Panicked
                 | (Some random, h1) \<Rightarrow>
                     Returned () (RLock (c1\<lparr>cfg_SessionTicketKey := go_copy random deprecatedSessionTicketKey\<rparr>), h1))
              else if \<not> deprecated_key key \<and> length (cfg_sessionTicketKeys c) = 0 then
                (let (k, h1) = ticketKeyFromBytes P key h
                 in Returned () (RLock (c1\<lparr>cfg_sessionTicketKeys := [k]\<rparr>), h1))
              else Returned () (RLock c1, h))"

text \<open>The keys that are still valid; the clock is read for each of them.\<close>

fun valid_keys :: "ticketKey list \<Rightarrow> host \<Rightarrow> ticketKey list \<times> host" where
  "valid_keys [] h = ([], h)"
| "valid_keys (k # ks) h =
     (let (now, h1) = host_time h; (valid, h2) = valid_keys ks h1
      in (if now - tk_created k < ticketKeyLifetime then k # valid else valid, h2))"

text \<open>The first key is missing, or has been in use for a day.\<close>

definition rotation_due :: "Config \<Rightarrow> host \<Rightarrow> bool \<times> host" where
  "rotation_due c h =
     (case cfg_autoSessionTicketKeys c of
        [] \<Rightarrow> (True, h)
      | k # _ \<Rightarrow> (let (now, h1) = host_time h in (\<not> now - tk_created k < ticketKeyRotation, h1)))"

definition rotate_keys :: "crypto \<Rightarrow> Config \<times> host \<Rightarrow> (Config \<times> host) option" where
  "rotate_keys P s =
     (let (c, h) = s
      in case host_ReadFull 32 h of
           (None, h1) \<Rightarrow> None
         | (Some newKey, h1) \<Rightarrow>
             (let (k, h2) = ticketKeyFromBytes P newKey h1; (valid, h3) = valid_keys (cfg_autoSessionTicketKeys c) h2
              in Some (c\<lparr>cfg_autoSessionTicketKeys := k # valid\<rparr>, h3)))"

text \<open>The part of \<open>ticketKeys\<close> for the configuration itself.\<close>

definition own_ticketKeys :: "crypto \<Rightarrow> Config \<times> host \<Rightarrow> (ticketKey list, Config \<times> host) outcome" where
  "own_ticketKeys P s =
     (let (c, h) = s
      in if cfg_SessionTicketsDisabled c then Returned [] (c, h)
         else
           (case initLegacySessionTicketKeyRLocked P (RLock c, h) of
              Panicked \<Rightarrow> Panicked
            | Blocked s1 \<Rightarrow> Blocked s1
            | Returned _ (c1, h1) \<Rightarrow>
                if length (cfg_sessionTicketKeys c1) \<noteq> 0 then Returned (cfg_sessionTicketKeys c1) (RUnlock c1, h1)
                else
                  (case rotation_due c1 h1 of
                     (False, h2) \<Rightarrow> Returned (cfg_autoSessionTicketKeys c1) (RUnlock c1, h2)
                   | (True, h2) \<Rightarrow>
                       let c2 = RUnlock c1
                       in if cfg_readers c2 > 0 then Blocked (c2, h2)
                          else
                            (case rotation_due c2 h2 of
                               (False, h3) \<Rightarrow> Returned (cfg_autoSessionTicketKeys c2) (c2, h3)
                             | (True, h3) \<Rightarrow>
                                 (case rotate_keys P (c2, h3) of
                                    None \<Rightarrow> Panicked
                                  | Some (c3, h4) \<Rightarrow> Returned (cfg_autoSessionTicketKeys c3) (c3, h4))))))"

text \<open>
  \<open>ticketKeys\<close>. A configuration for the client with tickets disabled ends the call without unlocking
  its mutex.
\<close>

definition ticketKeys ::
  "crypto \<Rightarrow> Config option \<times> Config \<times> host \<Rightarrow> (ticketKey list, Config option \<times> Config \<times> host) outcome" where
  "ticketKeys P s =
     (let (configForClient, c, h) = s;
          own = (\<lambda>cc h1. case own_ticketKeys P (c, h1) of
              Panicked \<Rightarrow> Panicked
            | Blocked (c2, h2) \<Rightarrow> Blocked (cc, c2, h2)
            | Returned keys (c2, h2) \<Rightarrow> Returned keys (cc, c2, h2))
      in case configForClient of
           None \<Rightarrow> own None h
         | Some cc \<Rightarrow>
             (let cc1 = RLock cc
              in if cfg_SessionTicketsDisabled cc1 then Returned [] (Some cc1, c, h)
                 else
                   (case initLegacySessionTicketKeyRLocked P (cc1, h) of
                      Panicked \<Rightarrow> Panicked
                    | Blocked (cc2, h2) \<Rightarrow> Blocked (Some cc2, c, h2)
                    | Returned _ (cc2, h2) \<Rightarrow>
                        if length (cfg_sessionTicketKeys cc2) \<noteq> 0
                        then Returned (cfg_sessionTicketKeys cc2) (Some (RUnlock cc2), c, h2)
                        else own (Some (RUnlock cc2)) h2)))"

fun keys_from_bytes :: "crypto \<Rightarrow> bytes list \<Rightarrow> host \<Rightarrow> ticketKey list \<times> host" where
  "keys_from_bytes P [] h = ([], h)"
| "keys_from_bytes P (b # bs) h =
     (let (k, h1) = ticketKeyFromBytes P b h; (ks, h2) = keys_from_bytes P bs h1 in (k # ks, h2))"

definition SetSessionTicketKeys :: "crypto \<Rightarrow> bytes list \<Rightarrow> Config \<times> host \<Rightarrow> (unit, Config \<times> host) outcome" where
  "SetSessionTicketKeys P keys s =
     (let (c, h) = s
      in if length keys = 0 then Panicked
         else
           let (newKeys, h1) = keys_from_bytes P keys h
           in if cfg_readers c > 0 then Blocked (c, h1) else Returned () (c\<lparr>cfg_sessionTicketKeys := newKeys\<rparr>, h1))"

end
