(* ===== verification/KeyAgreement.thy ===== *)
theory KeyAgreement
  imports Config KeyScheduleLemmas
begin

text \<open>
  The key agreements of TLS 1.0 to 1.2 (\<open>key_agreement.go\<close>): \<open>rsaKeyAgreement\<close> and \<open>ecdheKeyAgreement\<close>, each with
  the two operations of the server and the two of the client. A result \<^term>\<open>None\<close> is a panic; an error
  ends the handshake, so the new state of the key agreement is part of a success only.
\<close>

section \<open>Digests\<close>

definition errClientKeyExchange :: conn_error where
  "errClientKeyExchange = OtherError ''tls: invalid ClientKeyExchange message''"

definition errServerKeyExchange :: conn_error where
  "errServerKeyExchange = OtherError ''tls: invalid ServerKeyExchange message''"

definition hash_slices :: "crypto \<Rightarrow> hash_alg \<Rightarrow> bytes list \<Rightarrow> bytes" where
  "hash_slices P h slices = hash_Sum P (fold hash_Write slices (hash_new h))"

definition sha1Hash :: "crypto \<Rightarrow> bytes list \<Rightarrow> bytes" where
  "sha1Hash P slices = hash_slices P SHA1 slices"

definition md5SHA1Hash :: "crypto \<Rightarrow> bytes list \<Rightarrow> bytes option" where
  "md5SHA1Hash P slices =
     (let md5sha1 = go_copy (replicate (hash_size MD5 + hash_size SHA1) 0) (hash_slices P MD5 slices)
      in copy_at (hash_size MD5) md5sha1 (sha1Hash P slices))"

text \<open>\<open>crypto.Hash(0).New()\<close> panics.\<close>

definition hashForServerKeyExchange :: "crypto \<Rightarrow> byte \<Rightarrow> hash_alg \<Rightarrow> u16 \<Rightarrow> bytes list \<Rightarrow> bytes option" where
  "hashForServerKeyExchange P sigType hashFunc version slices =
     (if sigType = signatureEd25519 then Some (concat slices)
      else if version \<ge> VersionTLS12 then (if hashFunc = NoHash then None else Some (hash_slices P hashFunc slices))
      else if sigType = signatureECDSA then Some (sha1Hash P slices)
      else md5SHA1Hash P slices)"

section \<open>RSA\<close>

definition rsa_processClientKeyExchange ::
  "tlsCertificate \<Rightarrow> clientKeyExchangeMsg \<Rightarrow> host \<Rightarrow> (conn_error + bytes) \<times> host" where
  "rsa_processClientKeyExchange cert ckx h =
     (let c = cke_ciphertext ckx
      in if length c < 2 then (Inl errClientKeyExchange, h)
         else if be_dec (take 2 c) \<noteq> length c - 2 then (Inl errClientKeyExchange, h)
         else if pk_decrypter (tc_PrivateKey cert) = None then
           (Inl (OtherError ''tls: certificate private key does not implement crypto.Decrypter''), h)
         else
           let (rnd, h1) = host_source h
           in case pk_Decrypt (tc_PrivateKey cert) rnd (drop 2 c) 48 of
                None \<Rightarrow> (Inl (OtherError ''crypto/rsa: decryption error''), h1)
              | Some preMasterSecret \<Rightarrow> (Inr preMasterSecret, h1))"

definition rsa_generateClientKeyExchange ::
  "pki \<Rightarrow> clientHelloMsg \<Rightarrow> x509 \<Rightarrow> host \<Rightarrow> (conn_error + bytes \<times> clientKeyExchangeMsg) \<times> host" where
  "rsa_generateClientKeyExchange X clientHello cert h =
     (case host_ReadFull 46 h of
        (None, h1) \<Rightarrow> (Inl RandError, h1)
      | (Some random, h1) \<Rightarrow>
          (let preMasterSecret = be_enc 2 (unat (ch_vers clientHello)) @ random
           in case x_PublicKey cert of
                RSAKey n k \<Rightarrow>
                  (let (rnd, h2) = host_source h1
                   in case rsa_EncryptPKCS1v15 X rnd (x_PublicKey cert) preMasterSecret of
                        None \<Rightarrow> (Inl (OtherError ''crypto/rsa: message too long for RSA key size''), h2)
                      | Some encrypted \<Rightarrow>
                          (Inr (preMasterSecret,
                             \<lparr>cke_raw = None, cke_ciphertext = be_enc 2 (length encrypted) @ encrypted\<rparr>), h2))
              | _ \<Rightarrow> (Inl (OtherError ''tls: server certificate contains incorrect key type for selected ciphersuite''), h1)))"

section \<open>Ephemeral Diffie-Hellman\<close>

text \<open>The type of the signature and its hash, for a version with or without negotiation of schemes.\<close>

definition server_sigType ::
  "u16 \<Rightarrow> tlsCertificate \<Rightarrow> publicKey \<Rightarrow> u16 list \<Rightarrow> conn_error + u16 \<times> byte \<times> hash_alg" where
  "server_sigType version cert pub peerAlgs =
     (if version \<ge> VersionTLS12 then
        (case selectSignatureScheme version cert peerAlgs of
           Inl err \<Rightarrow> Inl err
         | Inr signatureAlgorithm \<Rightarrow>
             (case typeAndHashFromSignatureScheme signatureAlgorithm of
                Inl err \<Rightarrow> Inl err
              | Inr (sigType, sigHash) \<Rightarrow> Inr (signatureAlgorithm, sigType, sigHash)))
      else
        (case legacyTypeAndHashFromPublicKey pub of
           Inl err \<Rightarrow> Inl err
         | Inr (sigType, sigHash) \<Rightarrow> Inr (0, sigType, sigHash)))"

definition is_rsa_type :: "byte \<Rightarrow> bool" where
  "is_rsa_type sigType \<longleftrightarrow> sigType = signaturePKCS1v15 \<or> sigType = signatureRSAPSS"

definition ecdhe_params :: "u16 \<Rightarrow> bytes \<Rightarrow> bytes" where
  "ecdhe_params curveID ecdhePublic = [3] @ be_enc 2 (unat curveID) @ be_enc 1 (length ecdhePublic) @ ecdhePublic"

text \<open>The signature over the parameters and the message, after the key pair is made.\<close>

definition sign_params ::
  "crypto \<Rightarrow> ecdheKeyAgreement \<Rightarrow> tlsCertificate \<Rightarrow> clientHelloMsg \<Rightarrow> serverHelloMsg \<Rightarrow> bytes \<Rightarrow> host \<Rightarrow>
     ((conn_error + serverKeyExchangeMsg) \<times> host) option" where
  "sign_params P ka cert clientHello hello params h =
     (case pk_signer (tc_PrivateKey cert) of
        None \<Rightarrow> Some (Inl (OtherError ''tls: certificate private key does not implement crypto.Signer''), h)
      | Some pub \<Rightarrow>
          (case server_sigType (ka_version ka) cert pub (ch_supportedSignatureAlgorithms clientHello) of
             Inl err \<Rightarrow> Some (Inl err, h)
           | Inr (signatureAlgorithm, sigType, sigHash) \<Rightarrow>
               if is_rsa_type sigType \<noteq> ka_isRSA ka then
                 Some (Inl (OtherError ''tls: certificate cannot be used with the selected cipher suite''), h)
               else
                 do {
                   msg \<leftarrow> hashForServerKeyExchange P sigType sigHash (ka_version ka) [ch_random clientHello, sh_random hello, params];
                   let (rnd, h1) = host_source h;
                   (case pk_Sign (tc_PrivateKey cert) rnd msg sigHash (sigType = signatureRSAPSS) of
                      None \<Rightarrow> Some (Inl (OtherError ''tls: failed to sign ECDHE parameters''), h1)
                    | Some sig \<Rightarrow>
                        Some (Inr \<lparr>ske_raw = None,
                          ske_key = params @
                            (if ka_version ka \<ge> VersionTLS12 then be_enc 2 (unat signatureAlgorithm) else []) @
                            be_enc 2 (length sig) @ sig\<rparr>, h1))
                 }))"

definition ecdhe_generateServerKeyExchange ::
  "crypto \<Rightarrow> Config \<Rightarrow> ecdheKeyAgreement \<Rightarrow> tlsCertificate \<Rightarrow> clientHelloMsg \<Rightarrow> serverHelloMsg \<Rightarrow> host \<Rightarrow>
     ((conn_error + serverKeyExchangeMsg \<times> ecdheKeyAgreement) \<times> host) option" where
  "ecdhe_generateServerKeyExchange P config ka cert clientHello hello h =
     (let curveID = (case find (supportsCurve (Some config)) (ch_supportedCurves clientHello) of Some c \<Rightarrow> c | None \<Rightarrow> 0)
      in if curveID = 0 then Some (Inl (OtherError ''tls: no supported elliptic curves offered''), h)
         else if curveID \<noteq> X25519 \<and> curveForCurveID curveID = None then
           Some (Inl (OtherError ''tls: CurvePreferences includes unsupported curve''), h)
         else
           let (rnd, h1) = host_source h
           in case generateECDHEParameters P rnd curveID of
                Inl err \<Rightarrow> Some (Inl err, h1)
              | Inr params \<Rightarrow>
                  do {
                    ecdhePublic \<leftarrow> PublicKey P params;
                    (r, h2) \<leftarrow> sign_params P ka cert clientHello hello (ecdhe_params curveID ecdhePublic) h1;
                    Some (map_sum id (\<lambda>skx. (skx, ka\<lparr>ka_params := Some params\<rparr>)) r, h2)
                  })"

text \<open>A nil shared key is an error; \<open>ka.params\<close> must have been generated.\<close>

definition ecdhe_processClientKeyExchange ::
  "crypto \<Rightarrow> ecdheKeyAgreement \<Rightarrow> clientKeyExchangeMsg \<Rightarrow> (conn_error + bytes) option" where
  "ecdhe_processClientKeyExchange P ka ckx =
     (let c = cke_ciphertext ckx
      in if length c = 0 \<or> unat (c ! 0) \<noteq> length c - 1 then Some (Inl errClientKeyExchange)
         else
           do {
             params \<leftarrow> ka_params ka;
             key \<leftarrow> SharedKey P params (drop 1 c);
             Some (case key of None \<Rightarrow> Inl errClientKeyExchange | Some preMasterSecret \<Rightarrow> Inr preMasterSecret)
           })"

text \<open>The rest of \<open>processServerKeyExchange\<close>: the signature.\<close>

definition check_params_signature ::
  "crypto \<Rightarrow> pki \<Rightarrow> ecdheKeyAgreement \<Rightarrow> clientHelloMsg \<Rightarrow> serverHelloMsg \<Rightarrow> x509 \<Rightarrow> bytes \<Rightarrow> bytes \<Rightarrow>
     conn_error option option" where
  "check_params_signature P X ka clientHello serverHello cert params sig =
     (if ka_version ka \<ge> VersionTLS12 \<and> length (drop 2 sig) < 2 then Some (Some errServerKeyExchange)
      else
        let (rest, types) =
          (if ka_version ka \<ge> VersionTLS12 then
             let signatureAlgorithm = word_of_nat (be_dec (take 2 sig))
             in (drop 2 sig,
                 if \<not> isSupportedSignatureAlgorithm signatureAlgorithm (ch_supportedSignatureAlgorithms clientHello)
                 then Inl (OtherError ''tls: certificate used with invalid signature algorithm'')
                 else typeAndHashFromSignatureScheme signatureAlgorithm)
           else (sig, legacyTypeAndHashFromPublicKey (x_PublicKey cert)))
        in case types of
             Inl err \<Rightarrow> Some (Some err)
           | Inr (sigType, sigHash) \<Rightarrow>
               if is_rsa_type sigType \<noteq> ka_isRSA ka then Some (Some errServerKeyExchange)
               else if be_dec (take 2 rest) + 2 \<noteq> length rest then Some (Some errServerKeyExchange)
               else
                 do {
                   msg \<leftarrow> hashForServerKeyExchange P sigType sigHash (ka_version ka)
                            [ch_random clientHello, sh_random serverHello, params];
                   Some (map_option (\<lambda>_. OtherError ''tls: invalid signature by the server certificate'')
                     (verifyHandshakeSignature X sigType (x_PublicKey cert) sigHash msg (drop 2 rest)))
                 })"

definition ecdhe_processServerKeyExchange ::
  "crypto \<Rightarrow> pki \<Rightarrow> ecdheKeyAgreement \<Rightarrow> clientHelloMsg \<Rightarrow> serverHelloMsg \<Rightarrow> x509 \<Rightarrow> serverKeyExchangeMsg \<Rightarrow> host \<Rightarrow>
     ((conn_error + ecdheKeyAgreement) \<times> host) option" where
  "ecdhe_processServerKeyExchange P X ka clientHello serverHello cert skx h =
     (let key = ske_key skx
      in if length key < 4 then Some (Inl errServerKeyExchange, h)
         else if key ! 0 \<noteq> 3 then Some (Inl (OtherError ''tls: server selected unsupported curve''), h)
         else
           let curveID = word_of_nat (be_dec (take 2 (drop 1 key))); publicLen = unat (key ! 3)
           in if publicLen + 4 > length key then Some (Inl errServerKeyExchange, h)
              else
                let serverECDHEParams = take (4 + publicLen) key; publicKey = drop 4 serverECDHEParams;
                    sig = drop (4 + publicLen) key
                in if length sig < 2 then Some (Inl errServerKeyExchange, h)
                   else if curveID \<noteq> X25519 \<and> curveForCurveID curveID = None then
                     Some (Inl (OtherError ''tls: server selected unsupported curve''), h)
                   else
                     let (rnd, h1) = host_source h
                     in case generateECDHEParameters P rnd curveID of
                          Inl err \<Rightarrow> Some (Inl err, h1)
                        | Inr params \<Rightarrow>
                            (case SharedKey P params publicKey of
                               None \<Rightarrow> None
                             | Some None \<Rightarrow> Some (Inl errServerKeyExchange, h1)
                             | Some (Some preMasterSecret) \<Rightarrow>
                                 do {
                                   ourPublicKey \<leftarrow> PublicKey P params;
                                   err \<leftarrow> check_params_signature P X ka clientHello serverHello cert serverECDHEParams sig;
                                   Some (case err of
                                       Some e \<Rightarrow> Inl e
                                     | None \<Rightarrow> Inr (ka\<lparr>ka_params := Some params, ka_preMasterSecret := preMasterSecret,
                                         ka_ckx := Some (be_enc 1 (length ourPublicKey) @ ourPublicKey)\<rparr>), h1)
                                 }))"

definition ecdhe_generateClientKeyExchange :: "ecdheKeyAgreement \<Rightarrow> conn_error + bytes \<times> clientKeyExchangeMsg" where
  "ecdhe_generateClientKeyExchange ka =
     (case ka_ckx ka of
        None \<Rightarrow> Inl (OtherError ''tls: missing ServerKeyExchange message'')
      | Some ckx \<Rightarrow> Inr (ka_preMasterSecret ka, \<lparr>cke_raw = None, cke_ciphertext = ckx\<rparr>))"

section \<open>The interface\<close>

text \<open>A message that is not sent is \<^term>\<open>None\<close>.\<close>

definition generateServerKeyExchange ::
  "crypto \<Rightarrow> Config \<Rightarrow> keyAgreement \<Rightarrow> tlsCertificate \<Rightarrow> clientHelloMsg \<Rightarrow> serverHelloMsg \<Rightarrow> host \<Rightarrow>
     ((conn_error + serverKeyExchangeMsg option \<times> keyAgreement) \<times> host) option" where
  "generateServerKeyExchange P config ka cert clientHello hello h =
     (case ka of
        RsaKeyAgreement \<Rightarrow> Some (Inr (None, ka), h)
      | EcdheKeyAgreement e \<Rightarrow>
          map_option (\<lambda>(r, h1). (map_sum id (\<lambda>(skx, e1). (Some skx, EcdheKeyAgreement e1)) r, h1))
            (ecdhe_generateServerKeyExchange P config e cert clientHello hello h))"

definition processClientKeyExchange ::
  "crypto \<Rightarrow> keyAgreement \<Rightarrow> tlsCertificate \<Rightarrow> clientKeyExchangeMsg \<Rightarrow> host \<Rightarrow> ((conn_error + bytes) \<times> host) option" where
  "processClientKeyExchange P ka cert ckx h =
     (case ka of
        RsaKeyAgreement \<Rightarrow> Some (rsa_processClientKeyExchange cert ckx h)
      | EcdheKeyAgreement e \<Rightarrow> map_option (\<lambda>r. (r, h)) (ecdhe_processClientKeyExchange P e ckx))"

definition processServerKeyExchange ::
  "crypto \<Rightarrow> pki \<Rightarrow> keyAgreement \<Rightarrow> clientHelloMsg \<Rightarrow> serverHelloMsg \<Rightarrow> x509 \<Rightarrow> serverKeyExchangeMsg \<Rightarrow> host \<Rightarrow>
     ((conn_error + keyAgreement) \<times> host) option" where
  "processServerKeyExchange P X ka clientHello serverHello cert skx h =
     (case ka of
        RsaKeyAgreement \<Rightarrow> Some (Inl (OtherError ''tls: unexpected ServerKeyExchange''), h)
      | EcdheKeyAgreement e \<Rightarrow>
          map_option (\<lambda>(r, h1). (map_sum id EcdheKeyAgreement r, h1))
            (ecdhe_processServerKeyExchange P X e clientHello serverHello cert skx h))"

definition generateClientKeyExchange ::
  "pki \<Rightarrow> keyAgreement \<Rightarrow> clientHelloMsg \<Rightarrow> x509 \<Rightarrow> host \<Rightarrow> (conn_error + bytes \<times> clientKeyExchangeMsg) \<times> host" where
  "generateClientKeyExchange X ka clientHello cert h =
     (case ka of
        RsaKeyAgreement \<Rightarrow> rsa_generateClientKeyExchange X clientHello cert h
      | EcdheKeyAgreement e \<Rightarrow> (ecdhe_generateClientKeyExchange e, h))"

end
