(* ===== verification/SessionCache.thy ===== *)
theory SessionCache
  imports Config
begin

text \<open>
  The cache of client sessions (\<open>common.go\<close>, \<open>lruSessionCache\<close>). The queue holds list elements, here
  numbers, and the map leads from a session key to its element; the contents of the elements are a
  store, as the code changes them in place. The cache refines a list of keys and sessions, the most
  recently used first. What clients of \<open>ClientSessionCache\<close> rely on is the locale \<open>session_cache\<close>.
\<close>

section \<open>Operations\<close>

record lruSessionCacheEntry =
  le_sessionKey :: bytes
  le_state :: "ClientSessionState option"

record lruSessionCache =
  lru_m :: "bytes \<rightharpoonup> nat"
  lru_q :: "nat list"
  lru_capacity :: nat
  lru_entries :: "nat \<Rightarrow> lruSessionCacheEntry"
  lru_fresh :: nat

definition NewLRUClientSessionCache :: "int \<Rightarrow> lruSessionCache" where
  "NewLRUClientSessionCache capacity =
     \<lparr>lru_m = Map.empty, lru_q = [], lru_capacity = nat (if capacity < 1 then 64 else capacity),
      lru_entries = (\<lambda>_. \<lparr>le_sessionKey = [], le_state = None\<rparr>), lru_fresh = 0\<rparr>"

definition move_to_front :: "nat \<Rightarrow> nat list \<Rightarrow> nat list" where
  "move_to_front elem q = elem # remove1 elem q"

text \<open>\<^term>\<open>None\<close> is the panic of \<open>Back()\<close> on an empty queue, which a positive capacity excludes.\<close>

definition lru_Put :: "bytes \<Rightarrow> ClientSessionState option \<Rightarrow> lruSessionCache \<Rightarrow> lruSessionCache option" where
  "lru_Put sessionKey cs c =
     (case lru_m c sessionKey of
        Some elem \<Rightarrow>
          Some (if cs = None
                then c\<lparr>lru_q := remove1 elem (lru_q c), lru_m := (lru_m c)(sessionKey := None)\<rparr>
                else c\<lparr>lru_entries := (lru_entries c)(elem := (lru_entries c elem)\<lparr>le_state := cs\<rparr>),
                       lru_q := move_to_front elem (lru_q c)\<rparr>)
      | None \<Rightarrow>
          if length (lru_q c) < lru_capacity c then
            (let elem = lru_fresh c
             in Some (c\<lparr>lru_entries := (lru_entries c)(elem := \<lparr>le_sessionKey = sessionKey, le_state = cs\<rparr>),
                        lru_m := (lru_m c)(sessionKey \<mapsto> elem), lru_q := elem # lru_q c, lru_fresh := Suc elem\<rparr>))
          else if lru_q c = [] then None
          else
            (let elem = last (lru_q c); entry = lru_entries c elem
             in Some (c\<lparr>lru_m := ((lru_m c)(le_sessionKey entry := None))(sessionKey \<mapsto> elem),
                        lru_entries := (lru_entries c)(elem := \<lparr>le_sessionKey = sessionKey, le_state = cs\<rparr>),
                        lru_q := move_to_front elem (lru_q c)\<rparr>)))"

definition lru_Get :: "bytes \<Rightarrow> lruSessionCache \<Rightarrow> (ClientSessionState option \<times> bool) \<times> lruSessionCache" where
  "lru_Get sessionKey c =
     (case lru_m c sessionKey of
        Some elem \<Rightarrow> ((le_state (lru_entries c elem), True), c\<lparr>lru_q := move_to_front elem (lru_q c)\<rparr>)
      | None \<Rightarrow> ((None, False), c))"

section \<open>The list it refines\<close>

type_synonym sessions = "(bytes \<times> ClientSessionState option) list"

text \<open>
  What the comments of \<open>ClientSessionCache\<close> and of \<open>lruSessionCache.Put\<close> promise: a nil session removes the entry.
  The code keeps this promise for keys it knows.
\<close>

definition spec_Put :: "nat \<Rightarrow> bytes \<Rightarrow> ClientSessionState option \<Rightarrow> sessions \<Rightarrow> sessions" where
  "spec_Put capacity k cs l =
     (if cs = None then filter (\<lambda>e. fst e \<noteq> k) l
      else if k \<in> fst ` set l then (k, cs) # filter (\<lambda>e. fst e \<noteq> k) l
      else if length l < capacity then (k, cs) # l else (k, cs) # butlast l)"

definition spec_Get :: "bytes \<Rightarrow> sessions \<Rightarrow> (ClientSessionState option \<times> bool) \<times> sessions" where
  "spec_Get k l =
     (case map_of l k of
        Some st \<Rightarrow> ((st, True), (k, st) # filter (\<lambda>e. fst e \<noteq> k) l)
      | None \<Rightarrow> ((None, False), l))"

definition entry_pair :: "(nat \<Rightarrow> lruSessionCacheEntry) \<Rightarrow> nat \<Rightarrow> bytes \<times> ClientSessionState option" where
  "entry_pair f e = (le_sessionKey (f e), le_state (f e))"

definition lru_abs :: "lruSessionCache \<Rightarrow> sessions" where
  "lru_abs c = map (entry_pair (lru_entries c)) (lru_q c)"

text \<open>Map and queue describe the same elements.\<close>

definition lru_ok :: "lruSessionCache \<Rightarrow> bool" where
  "lru_ok c \<longleftrightarrow> distinct (lru_q c) \<and> length (lru_q c) \<le> lru_capacity c \<and> 0 < lru_capacity c \<and>
     (\<forall>e\<in>set (lru_q c). e < lru_fresh c \<and> lru_m c (le_sessionKey (lru_entries c e)) = Some e) \<and>
     (\<forall>k e. lru_m c k = Some e \<longrightarrow> e \<in> set (lru_q c) \<and> le_sessionKey (lru_entries c e) = k)"

lemma lru_okD:
  assumes "lru_ok c"
  shows "distinct (lru_q c)" "length (lru_q c) \<le> lru_capacity c" "0 < lru_capacity c"
    and "\<And>e. e \<in> set (lru_q c) \<Longrightarrow> e < lru_fresh c"
    and "\<And>e. e \<in> set (lru_q c) \<Longrightarrow> lru_m c (le_sessionKey (lru_entries c e)) = Some e"
    and "\<And>k e. lru_m c k = Some e \<Longrightarrow> e \<in> set (lru_q c)"
    and "\<And>k e. lru_m c k = Some e \<Longrightarrow> le_sessionKey (lru_entries c e) = k"
  using assms unfolding lru_ok_def by blast+

lemma lru_okI:
  assumes "distinct (lru_q c)" "length (lru_q c) \<le> lru_capacity c" "0 < lru_capacity c"
    and "\<And>e. e \<in> set (lru_q c) \<Longrightarrow> e < lru_fresh c"
    and "\<And>e. e \<in> set (lru_q c) \<Longrightarrow> lru_m c (le_sessionKey (lru_entries c e)) = Some e"
    and "\<And>k e. lru_m c k = Some e \<Longrightarrow> e \<in> set (lru_q c) \<and> le_sessionKey (lru_entries c e) = k"
  shows "lru_ok c"
  using assms unfolding lru_ok_def by blast

lemma lru_ok_New: "lru_ok (NewLRUClientSessionCache capacity)"
  by (simp add: lru_ok_def NewLRUClientSessionCache_def)

lemma lru_abs_New: "lru_abs (NewLRUClientSessionCache capacity) = []"
  by (simp add: lru_abs_def NewLRUClientSessionCache_def)

lemma lru_keys: "lru_ok c \<Longrightarrow> k \<in> fst ` set (lru_abs c) \<longleftrightarrow> lru_m c k \<noteq> None"
  using lru_okD(5,6,7) [of c] by (force simp: lru_abs_def entry_pair_def)

lemma lru_remove:
  assumes "lru_ok c" and "lru_m c k = Some e"
  shows "map (entry_pair (lru_entries c)) (remove1 e (lru_q c)) = filter (\<lambda>p. fst p \<noteq> k) (lru_abs c)"
proof -
  have "remove1 e (lru_q c) = filter (\<lambda>x. x \<noteq> e) (lru_q c)"
    using lru_okD(1) [OF assms(1)]
    by (simp add: distinct_remove1_removeAll removeAll_filter_not_eq) (rule filter_cong; blast)
  moreover have "x \<noteq> e \<longleftrightarrow> fst (entry_pair (lru_entries c) x) \<noteq> k" if "x \<in> set (lru_q c)" for x
    using lru_okD(5) [OF assms(1) that] lru_okD(7) [OF assms] assms(2) by (metis entry_pair_def fst_conv option.inject)
  then have "filter (\<lambda>x. x \<noteq> e) (lru_q c) = filter (\<lambda>x. fst (entry_pair (lru_entries c) x) \<noteq> k) (lru_q c)"
    by (rule filter_cong [OF refl])
  ultimately show ?thesis by (simp add: lru_abs_def filter_map o_def)
qed

lemma entry_upd: "e \<notin> set q \<Longrightarrow> map (entry_pair (f(e := x))) q = map (entry_pair f) q"
  by (auto simp: entry_pair_def)

lemma lru_distinct_keys: "lru_ok c \<Longrightarrow> distinct (map fst (lru_abs c))"
  using lru_okD(1,5) [of c]
  by (auto simp: lru_abs_def entry_pair_def distinct_map intro!: inj_onI) (metis option.inject)

lemma lru_map_of: "lru_ok c \<Longrightarrow> map_of (lru_abs c) k = map_option (\<lambda>e. le_state (lru_entries c e)) (lru_m c k)"
proof (cases "lru_m c k")
  case None
  assume "lru_ok c"
  with None show ?thesis using lru_keys [of c k] by (simp add: map_of_eq_None_iff)
next
  case (Some e)
  assume ok: "lru_ok c"
  with Some have "(k, le_state (lru_entries c e)) \<in> set (lru_abs c)"
    using lru_okD(6,7) [OF ok Some] by (force simp: lru_abs_def entry_pair_def)
  with Some lru_distinct_keys [OF ok] show ?thesis by simp
qed

section \<open>Refinement\<close>

lemma set_move: "e \<in> set q \<Longrightarrow> distinct q \<Longrightarrow> set (move_to_front e q) = set q"
  by (auto simp: move_to_front_def)

lemma lru_Get_refines:
  assumes ok: "lru_ok c"
  shows "lru_ok (snd (lru_Get k c)) \<and> spec_Get k (lru_abs c) = (fst (lru_Get k c), lru_abs (snd (lru_Get k c)))"
proof (cases "lru_m c k")
  case None
  with ok show ?thesis by (simp add: lru_Get_def spec_Get_def lru_map_of)
next
  case (Some e)
  note D = lru_okD [OF ok]
  let ?c = "c\<lparr>lru_q := move_to_front e (lru_q c)\<rparr>"
  from D(6) [OF Some] have e: "e \<in> set (lru_q c)" .
  have "lru_ok ?c"
    by (rule lru_okI)
      (use D set_move [OF e D(1)] e in \<open>auto simp: length_remove1 distinct_remove1 move_to_front_def length_pos_if_in_set\<close>)
  moreover have "lru_abs ?c = entry_pair (lru_entries c) e # map (entry_pair (lru_entries c)) (remove1 e (lru_q c))"
    by (simp add: lru_abs_def move_to_front_def entry_pair_def)
  moreover have "entry_pair (lru_entries c) e = (k, le_state (lru_entries c e))" using D(7) [OF Some] by (simp add: entry_pair_def)
  ultimately show ?thesis using Some ok lru_remove [OF ok Some]
    by (simp add: lru_Get_def spec_Get_def lru_map_of)
qed

lemma lru_Put_hit:
  assumes ok: "lru_ok c" and e: "lru_m c k = Some e"
  shows "\<exists>c'. lru_Put k cs c = Some c' \<and> lru_ok c' \<and> lru_abs c' = spec_Put (lru_capacity c) k cs (lru_abs c)
    \<and> lru_capacity c' = lru_capacity c"
proof -
  note D = lru_okD [OF ok]
  from D(6) [OF e] have q: "e \<in> set (lru_q c)" .
  have key: "le_sessionKey (lru_entries c e) = k" by (rule D(7) [OF e])
  have mem: "k \<in> fst ` set (lru_abs c)" using lru_keys [OF ok] e by simp
  have off: "e \<notin> set (remove1 e (lru_q c))" using D(1) by simp
  show ?thesis
  proof (cases cs)
    case None
    let ?c = "c\<lparr>lru_q := remove1 e (lru_q c), lru_m := (lru_m c)(k := None)\<rparr>"
    have "lru_ok ?c"
    proof (rule lru_okI)
      fix x
      assume "x \<in> set (lru_q ?c)"
      then have "x \<in> set (lru_q c)" "x \<noteq> e" using D(1) by auto
      with D(5) [of x] e show "lru_m ?c (le_sessionKey (lru_entries ?c x)) = Some x" by auto
    next
      fix j x
      assume "lru_m ?c j = Some x"
      then have "j \<noteq> k" "lru_m c j = Some x" by (auto split: if_splits)
      with D(6) [of j x] D(7) [of j x] key D(1)
      show "x \<in> set (lru_q ?c) \<and> le_sessionKey (lru_entries ?c x) = j" by auto
    qed (use D(1-4) in \<open>auto simp: length_remove1 distinct_remove1 dest: notin_set_remove1\<close>)
    moreover have "lru_abs ?c = filter (\<lambda>p. fst p \<noteq> k) (lru_abs c)"
      using lru_remove [OF ok e] by (simp add: lru_abs_def)
    ultimately show ?thesis using None e mem by (simp add: lru_Put_def spec_Put_def)
  next
    case (Some st)
    let ?f = "(lru_entries c)(e := (lru_entries c e)\<lparr>le_state := cs\<rparr>)"
    let ?c = "c\<lparr>lru_entries := ?f, lru_q := move_to_front e (lru_q c)\<rparr>"
    have "lru_ok ?c"
    proof (rule lru_okI)
      fix j x
      assume "lru_m ?c j = Some x"
      with D(6) [of j x] D(7) [of j x] set_move [OF q D(1)]
      show "x \<in> set (lru_q ?c) \<and> le_sessionKey (lru_entries ?c x) = j" by auto
    qed (use D(1-5) set_move [OF q D(1)] q in \<open>auto simp: length_remove1 distinct_remove1 move_to_front_def length_pos_if_in_set\<close>)
    moreover have "lru_abs ?c = (k, cs) # filter (\<lambda>p. fst p \<noteq> k) (lru_abs c)"
      using trans [OF entry_upd [OF off] lru_remove [OF ok e]] key
      by (simp add: lru_abs_def move_to_front_def entry_pair_def [of _ e] del: map_eq_conv)
    ultimately show ?thesis using Some e mem by (simp add: lru_Put_def spec_Put_def)
  qed
qed

lemma lru_Put_room:
  assumes ok: "lru_ok c" and k: "lru_m c k = None" and len: "length (lru_q c) < lru_capacity c"
  shows "\<exists>c'. lru_Put k cs c = Some c' \<and> lru_ok c' \<and> lru_abs c' = (k, cs) # lru_abs c
    \<and> lru_capacity c' = lru_capacity c"
proof -
  note D = lru_okD [OF ok]
  let ?e = "lru_fresh c"
  have off: "?e \<notin> set (lru_q c)" using D(4) by blast
  let ?c = "c\<lparr>lru_entries := (lru_entries c)(?e := \<lparr>le_sessionKey = k, le_state = cs\<rparr>),
    lru_m := (lru_m c)(k \<mapsto> ?e), lru_q := ?e # lru_q c, lru_fresh := Suc ?e\<rparr>"
  have "lru_ok ?c"
  proof (rule lru_okI)
    fix x
    assume "x \<in> set (lru_q ?c)"
    with D(5) [of x] off k show "lru_m ?c (le_sessionKey (lru_entries ?c x)) = Some x" by auto
  next
    fix j x
    assume "lru_m ?c j = Some x"
    with D(6) [of j x] D(7) [of j x] off
    show "x \<in> set (lru_q ?c) \<and> le_sessionKey (lru_entries ?c x) = j" by (auto split: if_splits)
  qed (use D(1-4) off len in \<open>auto simp: less_Suc_eq\<close>)
  moreover have "lru_abs ?c = (k, cs) # lru_abs c"
    using entry_upd [OF off] by (simp add: lru_abs_def entry_pair_def [of _ ?e])
  ultimately show ?thesis using k len by (simp add: lru_Put_def Let_def)
qed

lemma lru_Put_full:
  assumes ok: "lru_ok c" and k: "lru_m c k = None" and len: "\<not> length (lru_q c) < lru_capacity c"
  shows "\<exists>c'. lru_Put k cs c = Some c' \<and> lru_ok c' \<and> lru_abs c' = (k, cs) # butlast (lru_abs c)
    \<and> lru_capacity c' = lru_capacity c"
proof -
  note D = lru_okD [OF ok]
  from D(3) len obtain q e where q: "lru_q c = q @ [e]" by (cases "lru_q c" rule: rev_cases) auto
  have off: "e \<notin> set q" using D(1) q by simp
  let ?old = "le_sessionKey (lru_entries c e)"
  let ?c = "c\<lparr>lru_m := ((lru_m c)(?old := None))(k \<mapsto> e),
    lru_entries := (lru_entries c)(e := \<lparr>le_sessionKey = k, le_state = cs\<rparr>), lru_q := e # q\<rparr>"
  have old: "lru_m c ?old = Some e" using D(5) q by simp
  have ne: "?old \<noteq> k" using old k by auto
  have "lru_ok ?c"
  proof (rule lru_okI)
    fix x
    assume "x \<in> set (lru_q ?c)"
    then consider "x = e" | "x \<noteq> e" "x \<in> set (lru_q c)" using off q by auto
    then show "lru_m ?c (le_sessionKey (lru_entries ?c x)) = Some x"
      by cases (use D(5) [of x] old k in auto)
  next
    fix j x
    assume "lru_m ?c j = Some x"
    then consider "j = k" "x = e" | "j \<noteq> k" "j \<noteq> ?old" "lru_m c j = Some x" by (auto split: if_splits)
    then show "x \<in> set (lru_q ?c) \<and> le_sessionKey (lru_entries ?c x) = j"
      by cases (use D(6) [of j x] D(7) [of j x] q in auto)
  qed (use D(1-4) q in auto)
  moreover have "lru_abs ?c = (k, cs) # butlast (lru_abs c)"
    using entry_upd [OF off] by (simp add: lru_abs_def entry_pair_def [of _ e] q)
  moreover have "move_to_front e (lru_q c) = e # q" using off by (simp add: move_to_front_def q remove1_append)
  ultimately show ?thesis using k len q by (simp add: lru_Put_def Let_def)
qed

lemma lru_Put_refines:
  assumes ok: "lru_ok c" and "cs \<noteq> None \<or> lru_m c k \<noteq> None"
  shows "\<exists>c'. lru_Put k cs c = Some c' \<and> lru_ok c' \<and> lru_abs c' = spec_Put (lru_capacity c) k cs (lru_abs c)
    \<and> lru_capacity c' = lru_capacity c"
proof (cases "lru_m c k")
  case None
  then have "k \<notin> fst ` set (lru_abs c)" "cs \<noteq> None" using lru_keys [OF ok] assms(2) by simp_all
  then have "spec_Put (lru_capacity c) k cs (lru_abs c) =
      (k, cs) # (if length (lru_q c) < lru_capacity c then lru_abs c else butlast (lru_abs c))"
    by (auto simp: spec_Put_def lru_abs_def)
  then show ?thesis using lru_Put_room [OF ok None, of cs] lru_Put_full [OF ok None, of cs]
    by (cases "length (lru_q c) < lru_capacity c") simp_all
next
  case (Some e)
  then show ?thesis by (rule lru_Put_hit [OF ok])
qed

section \<open>What a client of the cache relies on\<close>

text \<open>
  \<open>Put\<close> makes its session the one that \<open>Get\<close> finds, a nil session included, and keeps the cache in
  shape; \<open>Get\<close> does not change what is found. \<open>found\<close> is the test of \<open>loadSession\<close>.
\<close>

definition found :: "(ClientSessionState option \<times> bool) \<times> 'c \<Rightarrow> ClientSessionState option" where
  "found r = (let ((session, ok), c) = r in if \<not> ok then None else session)"

locale session_cache =
  fixes get :: "bytes \<Rightarrow> 'c \<Rightarrow> (ClientSessionState option \<times> bool) \<times> 'c"
    and put :: "bytes \<Rightarrow> ClientSessionState option \<Rightarrow> 'c \<Rightarrow> 'c option"
    and shape :: "'c \<Rightarrow> bool"
  assumes put_total: "shape c \<Longrightarrow> \<exists>c'. put k cs c = Some c'"
    and put_found: "shape c \<Longrightarrow> put k cs c = Some c' \<Longrightarrow> shape c' \<and> found (get k c') = cs"
    and get_shape: "shape c \<Longrightarrow> shape (snd (get k c))"
    and get_found: "shape c \<Longrightarrow> found (get j (snd (get k c))) = found (get j c)"
begin

text \<open>Looking up any keys in between does not lose a session.\<close>

primrec gets :: "bytes list \<Rightarrow> 'c \<Rightarrow> 'c" where
  "gets [] c = c"
| "gets (k # ks) c = gets ks (snd (get k c))"

lemma gets_found: "shape c \<Longrightarrow> shape (gets ks c) \<and> found (get j (gets ks c)) = found (get j c)"
  by (induction ks arbitrary: c) (simp_all add: get_shape get_found)

lemma put_gets: "shape c \<Longrightarrow> put k cs c = Some c' \<Longrightarrow> found (get k (gets ks c')) = cs"
  using put_found [of c k cs c'] gets_found [of c' ks k] by simp

end

lemma found_Get: "lru_ok c \<Longrightarrow> found (lru_Get k c) = Option.bind (map_of (lru_abs c) k) id"
  by (cases "lru_m c k") (simp_all add: found_def lru_Get_def lru_map_of)

lemma map_of_filter_ne: "map_of (filter (\<lambda>e. fst e \<noteq> k) l) j = (if j = k then None else map_of l j)"
  by (induction l) auto

lemma found_spec_Put: "Option.bind (map_of (spec_Put n k cs l) k) id = cs"
  by (auto simp: spec_Put_def map_of_filter_ne)

text \<open>What holds of every \<open>Put\<close>, that of nil for an unknown key included.\<close>

lemma lru_Put_keeps:
  assumes ok: "lru_ok c"
  shows "\<exists>c'. lru_Put k cs c = Some c' \<and> lru_ok c' \<and> lru_capacity c' = lru_capacity c \<and> found (lru_Get k c') = cs"
proof (cases "lru_m c k")
  case None
  then show ?thesis using lru_Put_room [OF ok None, of cs] lru_Put_full [OF ok None, of cs]
    by (cases "length (lru_q c) < lru_capacity c") (auto simp: found_Get)
next
  case (Some e)
  with lru_Put_refines [OF ok, of cs k] show ?thesis by (auto simp: found_Get found_spec_Put)
qed

lemma map_of_spec_Get: "map_of (snd (spec_Get k l)) j = map_of l j"
  by (auto simp: spec_Get_def map_of_filter_ne split: option.splits)

interpretation lru: session_cache lru_Get lru_Put lru_ok
proof
  fix c :: lruSessionCache and k j cs c'
  assume ok: "lru_ok c"
  show "\<exists>c'. lru_Put k cs c = Some c'" using lru_Put_keeps [OF ok] by blast
  show g: "lru_ok (snd (lru_Get k c))" using lru_Get_refines [OF ok] by blast
  show "found (lru_Get j (snd (lru_Get k c))) = found (lru_Get j c)"
    using lru_Get_refines [OF ok, of k] map_of_spec_Get [of k "lru_abs c" j]
    by (simp add: found_Get [OF ok] found_Get [OF g])
  assume "lru_Put k cs c = Some c'"
  with lru_Put_keeps [OF ok, of k cs] show "lru_ok c' \<and> found (lru_Get k c') = cs" by auto
qed

end
