(* ===== verification/Tickets.thy ===== *)
theory Tickets
  imports SessionCache MessageLemmas
begin

text \<open>
  Session tickets (\<open>ticket.go\<close>): the state that a ticket carries, before TLS 1.3 and in TLS 1.3, and its
  encryption under the first of the ticket keys. The lemmas are the round trips.
\<close>

section \<open>Session states\<close>

record sessionState =
  ss_vers :: u16
  ss_cipherSuite :: u16
  ss_createdAt :: u64
  ss_masterSecret :: bytes
  ss_certificates :: "bytes list"
  ss_usedOldKey :: bool

definition marshal_sessionState :: "'b builder \<Rightarrow> sessionState \<Rightarrow> bytes option" where
  "marshal_sessionState B m =
     b_result B (steps [
       b_uint B 2 (unat (ss_vers m)),
       b_uint B 2 (unat (ss_cipherSuite m)),
       addUint64 B (ss_createdAt m),
       lp B 2 (b_bytes B (ss_masterSecret m)),
       lp B 3 (steps (map (\<lambda>cert. lp B 3 (b_bytes B cert)) (ss_certificates m)))] (b_new B))"

definition unmarshal_sessionState :: "reader \<Rightarrow> bool \<Rightarrow> bytes \<Rightarrow> sessionState option" where
  "unmarshal_sessionState R usedOldKey data =
     do {
       (vers, s) \<leftarrow> read_u16 R data;
       (suite, s) \<leftarrow> read_u16 R s;
       (createdAt, s) \<leftarrow> readUint64 R s;
       (masterSecret, s) \<leftarrow> readUintLengthPrefixed R 2 s;
       check (length masterSecret \<noteq> 0);
       (certList, s) \<leftarrow> r_lp R 3 s;
       certificates \<leftarrow> read_many (readUintLengthPrefixed R 3) certList [];
       check (s = []);
       Some \<lparr>ss_vers = vers, ss_cipherSuite = suite, ss_createdAt = createdAt, ss_masterSecret = masterSecret,
             ss_certificates = certificates, ss_usedOldKey = usedOldKey\<rparr>
     }"

record sessionStateTLS13 =
  s13_cipherSuite :: u16
  s13_createdAt :: u64
  s13_resumptionSecret :: bytes
  s13_certificate :: Certificate

definition marshal_sessionStateTLS13 :: "'b builder \<Rightarrow> sessionStateTLS13 \<Rightarrow> bytes option" where
  "marshal_sessionStateTLS13 B m =
     b_result B (steps [
       b_uint B 2 (unat VersionTLS13),
       b_uint B 1 0,
       b_uint B 2 (unat (s13_cipherSuite m)),
       addUint64 B (s13_createdAt m),
       lp B 1 (b_bytes B (s13_resumptionSecret m)),
       marshalCertificate B (s13_certificate m)] (b_new B))"

definition unmarshal_sessionStateTLS13 :: "reader \<Rightarrow> bytes \<Rightarrow> sessionStateTLS13 option" where
  "unmarshal_sessionStateTLS13 R data =
     do {
       (version, s) \<leftarrow> read_u16 R data;
       check (version = VersionTLS13);
       (revision, s) \<leftarrow> read_u8 R s;
       check (revision = 0);
       (suite, s) \<leftarrow> read_u16 R s;
       (createdAt, s) \<leftarrow> readUint64 R s;
       (resumptionSecret, s) \<leftarrow> readUintLengthPrefixed R 1 s;
       check (length resumptionSecret \<noteq> 0);
       (certificate, s) \<leftarrow> unmarshalCertificate R s;
       check (s = []);
       Some \<lparr>s13_cipherSuite = suite, s13_createdAt = createdAt, s13_resumptionSecret = resumptionSecret,
             s13_certificate = certificate\<rparr>
     }"

section \<open>Encryption\<close>

definition ctr_XORKeyStream :: "crypto \<Rightarrow> block_prim \<Rightarrow> bytes \<Rightarrow> bytes \<Rightarrow> bytes" where
  "ctr_XORKeyStream P block iv src = map (\<lambda>(i, x). x XOR ctr_stream P block iv i) (enumerate 0 src)"

definition aes_BlockSize :: nat where "aes_BlockSize = 16"

text \<open>\<open>rnd\<close> is what \<open>config.rand()\<close> gives; a cipher that cannot be made is an error.\<close>

definition encryptTicket :: "crypto \<Rightarrow> ticketKey list \<Rightarrow> rand_source \<Rightarrow> bytes \<Rightarrow> conn_error + bytes" where
  "encryptTicket P tks rnd state =
     (case tks of
        [] \<Rightarrow> Inl (OtherError ''tls: internal error: session ticket keys unavailable'')
      | key # _ \<Rightarrow>
          (case rnd aes_BlockSize of
             None \<Rightarrow> Inl RandError
           | Some iv \<Rightarrow>
               (case aes_cipher P (tk_aesKey key) of
                  None \<Rightarrow> Inl (OtherError ''tls: failed to create cipher while encrypting ticket'')
                | Some block \<Rightarrow>
                    let encrypted = tk_keyName key @ iv @ ctr_XORKeyStream P block iv state
                    in Inr (encrypted @ hmac_sum P SHA256 (tk_hmacKey key) encrypted))))"

fun key_index :: "bytes \<Rightarrow> nat \<Rightarrow> ticketKey list \<Rightarrow> (nat \<times> ticketKey) option" where
  "key_index keyName i [] = None"
| "key_index keyName i (candidateKey # ks) =
     (if keyName = tk_keyName candidateKey then Some (i, candidateKey) else key_index keyName (Suc i) ks)"

definition decryptTicket :: "crypto \<Rightarrow> ticketKey list \<Rightarrow> bytes \<Rightarrow> bytes option \<times> bool" where
  "decryptTicket P tks encrypted =
     (if length encrypted < ticketKeyNameLen + aes_BlockSize + hash_size SHA256 then (None, False)
      else
        let n = length encrypted - hash_size SHA256; keyName = take ticketKeyNameLen encrypted;
            iv = take aes_BlockSize (drop ticketKeyNameLen encrypted); macBytes = drop n encrypted;
            ciphertext = drop (ticketKeyNameLen + aes_BlockSize) (take n encrypted)
        in case key_index keyName 0 tks of
             None \<Rightarrow> (None, False)
           | Some (keyIndex, key) \<Rightarrow>
               if macBytes \<noteq> hmac_sum P SHA256 (tk_hmacKey key) (take n encrypted) then (None, False)
               else
                 (case aes_cipher P (tk_aesKey key) of
                    None \<Rightarrow> (None, False)
                  | Some block \<Rightarrow> (Some (ctr_XORKeyStream P block iv ciphertext), keyIndex > 0)))"

section \<open>Encryption is undone\<close>

lemma length_ctr [simp]: "length (ctr_XORKeyStream P b iv src) = length src"
  by (simp add: ctr_XORKeyStream_def)

lemma ctr_twice [simp]: "ctr_XORKeyStream P b iv (ctr_XORKeyStream P b iv src) = src"
  by (rule nth_equalityI) (simp_all add: ctr_XORKeyStream_def nth_enumerate_eq xor.assoc)

text \<open>The keys that \<open>ticketKeyFromBytes\<close> makes.\<close>

definition ticketKey_ok :: "ticketKey \<Rightarrow> bool" where
  "ticketKey_ok k \<longleftrightarrow> length (tk_keyName k) = 16 \<and> length (tk_aesKey k) = 16 \<and> length (tk_hmacKey k) = 16"

lemma ticketKeyFromBytes_ok: "hashes_ok P \<Longrightarrow> ticketKey_ok (fst (ticketKeyFromBytes P b h))"
  by (simp add: ticketKeyFromBytes_def Let_def ticketKey_ok_def hashes_ok_def ticketKeyNameLen_def split: prod.splits)

lemma encryptTicket_Inr:
  assumes "encryptTicket P (key # ks) rnd state = Inr t"
  obtains iv block where "rnd 16 = Some iv" and "aes_cipher P (tk_aesKey key) = Some block"
    and "t = tk_keyName key @ iv @ ctr_XORKeyStream P block iv state @
        hmac_sum P SHA256 (tk_hmacKey key) (tk_keyName key @ iv @ ctr_XORKeyStream P block iv state)"
  using assms by (auto simp: encryptTicket_def aes_BlockSize_def Let_def split: option.splits)

lemma decryptTicket_encryptTicket:
  assumes P: "hashes_ok P" and k: "ticketKey_ok key" and rnd: "\<And>n x. rnd n = Some x \<Longrightarrow> length x = n"
    and enc: "encryptTicket P (key # ks) rnd state = Inr t" and i: "key_index (tk_keyName key) 0 keys = Some (i, key)"
  shows "decryptTicket P keys t = (Some state, i > 0)"
proof -
  from enc obtain iv block where iv: "rnd 16 = Some iv" and b: "aes_cipher P (tk_aesKey key) = Some block"
    and t: "t = tk_keyName key @ iv @ ctr_XORKeyStream P block iv state @
        hmac_sum P SHA256 (tk_hmacKey key) (tk_keyName key @ iv @ ctr_XORKeyStream P block iv state)"
    by (rule encryptTicket_Inr)
  have l: "length (tk_keyName key) = 16" "length iv = 16" "length (hmac_sum P SHA256 h m) = 32" for h m
    using k rnd [OF iv] P by (simp_all add: ticketKey_ok_def hashes_ok_def)
  show ?thesis
    using b i by (simp add: decryptTicket_def Let_def t l ticketKeyNameLen_def aes_BlockSize_def)
qed

lemma key_index_Some: "key_index n j ks = Some (i, k) \<Longrightarrow> k \<in> set ks \<and> tk_keyName k = n"
  by (induction ks arbitrary: j) (auto split: if_splits)

text \<open>Only a ticket with a valid MAC under one of the keys is accepted.\<close>

lemma decryptTicket_authentic:
  assumes "decryptTicket P keys t = (Some state, old)"
  shows "\<exists>k body. k \<in> set keys \<and> t = body @ hmac_sum P SHA256 (tk_hmacKey k) body \<and>
    take ticketKeyNameLen t = tk_keyName k"
proof -
  from assms obtain i k where "key_index (take ticketKeyNameLen t) 0 keys = Some (i, k)"
    and "drop (length t - hash_size SHA256) t = hmac_sum P SHA256 (tk_hmacKey k) (take (length t - hash_size SHA256) t)"
    by (auto simp: decryptTicket_def Let_def split: if_splits option.splits)
  moreover from this have "t = take (length t - hash_size SHA256) t @ hmac_sum P SHA256 (tk_hmacKey k) (take (length t - hash_size SHA256) t)"
    by (metis append_take_drop_id)
  ultimately show ?thesis using key_index_Some by metis
qed

section \<open>States come back\<close>

interpretation certs24: codec "readUintLengthPrefixed plain_reader 3" "lps 3" "\<lambda>x. length x < 256 ^ 3"
  by unfold_locales (auto simp: readUintLengthPrefixed_def plain_reader_def lps_def dest: plain_lp_consumes)

definition u64_bytes :: "u64 \<Rightarrow> bytes" where
  "u64_bytes v = be_enc 4 (unat (ucast (drop_bit 32 v) :: u32)) @ be_enc 4 (unat (ucast v :: u32))"

lemma writes_Uint64: "builder_ok B \<Longrightarrow> writes B (addUint64 B v) (Some (u64_bytes v))"
  using writes_uint [of B 4] by (simp add: writes_def addUint64_def u64_bytes_def cat_assoc)

lemma u64_halves: "push_bit 32 (ucast (ucast (drop_bit 32 v) :: u32)) OR ucast (ucast v :: u32) = (v :: u64)"
  by (rule bit_word_eqI) (auto simp: bit_simps)

lemma readUint64_enc [simp]: "readUint64 plain_reader (u64_bytes v @ r) = Some (v, r)"
proof -
  have w: "word_of_nat (unat (x :: u32)) = (ucast x :: u64)" for x by (simp add: unsigned_ucast_eq)
  have u: "plain_uint 4 (be_enc 4 (unat (x :: u32)) @ r) = Some (unat x, r)" for x r
    by (rule plain_uint_append) (use unsigned_less [where ?'a = nat, of x] in simp)
  show ?thesis
    unfolding readUint64_def u64_bytes_def append_assoc
    by (simp add: plain_reader_def u w u64_halves del: be_enc.simps)
qed

text \<open>The states that are ever stored: a secret, and chains that fit.\<close>

lemma sessionState_round_trip:
  assumes B: "builder_ok B" and "reader_ok R" and ne: "ss_masterSecret m \<noteq> []"
    and ms: "marshal_sessionState B m = Some bs"
  shows "unmarshal_sessionState R (ss_usedOldKey m) bs = Some m"
proof -
  have R: "R = plain_reader" using reader_unique [OF assms(2)] .
  have "writes B (steps (map (\<lambda>cert. lp B 3 (b_bytes B cert)) (ss_certificates m))) (cats (\<lambda>c. lpb 3 (Some c)) (ss_certificates m))"
    by (intro writes_cats writes_lp writes_bytes B)
  note w = writes_new [OF B writes_steps_Cons [OF writes_uint [OF B] writes_steps_Cons [OF writes_uint [OF B]
    writes_steps_Cons [OF writes_Uint64 [OF B] writes_steps_Cons [OF writes_lp [OF B writes_bytes [OF B]]
    writes_steps_Cons [OF writes_lp [OF B this] writes_steps_Nil]]]]]]
  from ms obtain z where z: "cats (\<lambda>c. lpb 3 (Some c)) (ss_certificates m) = Some z" "length z < 256 ^ 3"
    and l: "length (ss_masterSecret m) < 256 ^ 2"
    and bs: "bs = be_enc 2 (unat (ss_vers m)) @ be_enc 2 (unat (ss_cipherSuite m)) @ u64_bytes (ss_createdAt m) @
      lps 2 (ss_masterSecret m) @ lps 3 z"
    by (auto simp: marshal_sessionState_def w cat_eq_Some lpb_eq_Some lps_def simp del: be_enc.simps)
  from cats_lpb [OF z(1)] have z2: "z = concat (map (lps 3) (ss_certificates m))"
    and "list_all (\<lambda>x. length x < 256 ^ 3) (ss_certificates m)" by (simp_all add: list_all_iff)
  from certs24.read_many_enc [OF this(2), of "[]"]
  show ?thesis
    using z(2) l ne unfolding R unmarshal_sessionState_def bs
    by (simp add: readUintLengthPrefixed_def z2 del: be_enc.simps)
qed

text \<open>The flag is not part of the bytes.\<close>

lemma sessionState_comes_back:
  assumes "builder_ok B" and "reader_ok R" and "ss_masterSecret m \<noteq> []" and "marshal_sessionState B m = Some bs"
  shows "unmarshal_sessionState R old bs = Some (m\<lparr>ss_usedOldKey := old\<rparr>)"
  using sessionState_round_trip [OF assms(1,2), of "m\<lparr>ss_usedOldKey := old\<rparr>" bs] assms(3,4)
  by (simp add: marshal_sessionState_def)

definition sessionCertificate_ok :: "Certificate \<Rightarrow> bool" where
  "sessionCertificate_ok c \<longleftrightarrow> crt_OCSPStaple c \<noteq> Some [] \<and> crt_SCTs c \<noteq> Some [] \<and>
     (\<forall>scts. crt_SCTs c = Some scts \<longrightarrow> (\<forall>sct \<in> set scts. sct \<noteq> [])) \<and>
     (crt_Certificate c = [] \<longrightarrow> crt_OCSPStaple c = None \<and> crt_SCTs c = None)"

lemma sessionStateTLS13_round_trip:
  assumes B: "builder_ok B" and "reader_ok R" and ne: "s13_resumptionSecret m \<noteq> []"
    and c: "sessionCertificate_ok (s13_certificate m)" and ms: "marshal_sessionStateTLS13 B m = Some bs"
  shows "unmarshal_sessionStateTLS13 R bs = Some m"
proof -
  have R: "R = plain_reader" using reader_unique [OF assms(2)] .
  let ?c = "s13_certificate m"
  note w = writes_new [OF B writes_steps_Cons [OF writes_uint [OF B] writes_steps_Cons [OF writes_uint [OF B]
    writes_steps_Cons [OF writes_uint [OF B] writes_steps_Cons [OF writes_Uint64 [OF B]
    writes_steps_Cons [OF writes_lp [OF B writes_bytes [OF B]]
    writes_steps_Cons [OF writes_marshalCertificate [OF B] writes_steps_Nil]]]]]]]
  from ms obtain z where z: "cats (certificate_entry ?c) (enumerate 0 (crt_Certificate ?c)) = Some z" "length z < 256 ^ 3"
    and l: "length (s13_resumptionSecret m) < 256 ^ 1"
    and bs: "bs = be_enc 2 (unat VersionTLS13) @ be_enc 1 0 @ be_enc 2 (unat (s13_cipherSuite m)) @ u64_bytes (s13_createdAt m) @
      lps 1 (s13_resumptionSecret m) @ lps 3 z"
    by (auto simp: marshal_sessionStateTLS13_def w cat_eq_Some lpb_eq_Some lps_def simp del: be_enc.simps)
  have "while_nonempty (read_certificate plain_reader) z \<lparr>crt_Certificate = [], crt_OCSPStaple = None, crt_SCTs = None\<rparr> = Some ?c"
    using c by (intro read_chain [OF z(1)]) (auto simp: sessionCertificate_ok_def)
  then show ?thesis
    using z(2) l ne unfolding R unmarshal_sessionStateTLS13_def bs be_enc_1
    by (simp add: readUintLengthPrefixed_def unmarshalCertificate_def del: be_enc.simps)
qed

end
