(* ===== verification/TlsConn.thy ===== *)
theory TlsConn
  imports KeyAgreement Tickets PostHandshake
begin

text \<open>
  The connection as the handshakes see it (\<open>conn.go\<close>, type \<open>Conn\<close>): the record layer of \<open>Conn\<close>, the
  configuration, and the fields that record the outcome of a handshake. A step of a handshake is a
  function of this state that returns an error or a value (\<open>act\<close>); \<^term>\<open>None\<close> is a panic, or a lock that
  is never released. \<open>after m f\<close> is \<open>if err := m; err != nil { return err }; f\<close>.
\<close>

section \<open>State\<close>

text \<open>
  What is outside of the package: the primitives, \<open>cryptobyte\<close>, X.509, the subjects of a certificate
  pool, the environment variable and the architecture.
\<close>

record 'b env =
  e_P :: crypto
  e_B :: "'b builder"
  e_R :: reader
  e_X :: pki
  e_Subjects :: "bytes list \<Rightarrow> bytes list"
  e_D :: bool
  e_GOARCH :: string

record tlsConn =
  t_conn :: conn
  t_config :: Config
  t_GetConfigForClient :: "(ClientHelloInfo \<Rightarrow> Config option \<times> conn_error option) option"
  t_originalConfig :: Config
  t_sessionCache :: lruSessionCache
  t_time :: "nat \<Rightarrow> int"
  t_ticks :: nat
  t_keyLog :: "bytes list"
  t_remoteAddr :: bytes
  t_didResume :: bool
  t_ocspResponse :: bytes
  t_scts :: "bytes list"
  t_peerCertificates :: "x509 list"
  t_verifiedChains :: "x509 list list"
  t_serverName :: bytes
  t_secureRenegotiation :: bool
  t_ekm :: "ekm option"
  t_resumptionSecret :: bytes
  t_ticketKeys :: "ticketKey list"
  t_clientFinishedIsFirst :: bool
  t_clientFinished :: bytes
  t_serverFinished :: bytes
  t_clientProtocol :: bytes

definition host_of :: "tlsConn \<Rightarrow> host" where
  "host_of t = \<lparr>h_rand = nw_rand (c_net (t_conn t)), h_draws = nw_draws (c_net (t_conn t)), h_time = t_time t,
     h_ticks = t_ticks t, h_keyLog = t_keyLog t\<rparr>"

definition put_host :: "host \<Rightarrow> tlsConn \<Rightarrow> tlsConn" where
  "put_host h t = t\<lparr>t_conn := (t_conn t)\<lparr>c_net := (c_net (t_conn t))\<lparr>nw_draws := h_draws h\<rparr>\<rparr>,
     t_ticks := h_ticks h, t_keyLog := h_keyLog h\<rparr>"

abbreviation t_vers :: "tlsConn \<Rightarrow> u16" where "t_vers t \<equiv> c_vers (t_conn t)"

text \<open>\<open>connectionStateLocked\<close>.\<close>

definition connectionStateLocked :: "tlsConn \<Rightarrow> ConnectionState" where
  "connectionStateLocked t =
     \<lparr>cst_Version = t_vers t, cst_HandshakeComplete = c_complete (t_conn t), cst_DidResume = t_didResume t,
      cst_CipherSuite = c_cipherSuite (t_conn t), cst_NegotiatedProtocol = t_clientProtocol t,
      cst_NegotiatedProtocolIsMutual = True, cst_ServerName = t_serverName t,
      cst_PeerCertificates = t_peerCertificates t, cst_VerifiedChains = t_verifiedChains t,
      cst_SignedCertificateTimestamps = t_scts t, cst_OCSPResponse = t_ocspResponse t,
      cst_TLSUnique = (if \<not> t_didResume t \<and> t_vers t \<noteq> VersionTLS13
        then (if t_clientFinishedIsFirst t then t_clientFinished t else t_serverFinished t) else []),
      cst_ekm = (if cfg_Renegotiation (t_config t) \<noteq> RenegotiateNever then Some noExportedKeyingMaterial else t_ekm t)\<rparr>"

definition OCSPResponse :: "tlsConn \<Rightarrow> bytes" where
  "OCSPResponse t = t_ocspResponse t"

definition Conn_VerifyHostname :: "pki \<Rightarrow> bytes \<Rightarrow> tlsConn \<Rightarrow> conn_error option option" where
  "Conn_VerifyHostname X hostname t =
     (if \<not> c_isClient (t_conn t) then Some (Some (OtherError ''tls: VerifyHostname called on TLS server connection''))
      else if \<not> c_complete (t_conn t) then Some (Some (OtherError ''tls: handshake has not yet been performed''))
      else if length (t_verifiedChains t) = 0 then
        Some (Some (OtherError ''tls: handshake did not verify certificate chain''))
      else case t_peerCertificates t of
        [] \<Rightarrow> None
      | cert # _ \<Rightarrow> Some (if VerifyHostname X cert hostname then None else Some (OtherError ''x509: hostname'')))"

section \<open>Steps\<close>

type_synonym 'a act = "tlsConn \<Rightarrow> ((conn_error + 'a) \<times> tlsConn) option"

definition ret :: "'a \<Rightarrow> 'a act" where
  "ret x t = Some (Inr x, t)"

definition fail :: "conn_error \<Rightarrow> 'a act" where
  "fail e t = Some (Inl e, t)"

definition after :: "'a act \<Rightarrow> ('a \<Rightarrow> 'b act) \<Rightarrow> 'b act" where
  "after m f t =
     (case m t of
        None \<Rightarrow> None
      | Some (Inl e, t1) \<Rightarrow> Some (Inl e, t1)
      | Some (Inr x, t1) \<Rightarrow> f x t1)"

definition total :: "'a option \<Rightarrow> 'a act" where
  "total x t = map_option (\<lambda>y. (Inr y, t)) x"

definition the_state :: "tlsConn act" where
  "the_state t = Some (Inr t, t)"

definition change :: "(tlsConn \<Rightarrow> tlsConn) \<Rightarrow> unit act" where
  "change f t = Some (Inr (), f t)"

definition change_conn :: "(conn \<Rightarrow> conn) \<Rightarrow> unit act" where
  "change_conn f = change (\<lambda>t. t\<lparr>t_conn := f (t_conn t)\<rparr>)"

definition with_host :: "(host \<Rightarrow> 'a \<times> host) \<Rightarrow> 'a act" where
  "with_host f t = (let (x, h) = f (host_of t) in Some (Inr x, put_host h t))"

definition of_result :: "conn_error + 'a \<Rightarrow> 'a act" where
  "of_result r t = Some (r, t)"

definition of_error :: "conn_error option \<Rightarrow> unit act" where
  "of_error e = (case e of None \<Rightarrow> ret () | Some err \<Rightarrow> fail err)"

text \<open>\<open>c.sendAlert(a)\<close> with its error dropped, and followed by \<open>return err\<close>.\<close>

definition alert :: "byte \<Rightarrow> unit act" where
  "alert a t = map_option (\<lambda>(_, c). (Inr (), t\<lparr>t_conn := c\<rparr>)) (sendAlertLocked a (t_conn t))"

definition alert_fail :: "byte \<Rightarrow> conn_error \<Rightarrow> 'a act" where
  "alert_fail a e = after (alert a) (\<lambda>_. fail e)"

text \<open>\<open>if !ok { c.sendAlert(a); return errors.New(e) }\<close>\<close>

definition ensure :: "bool \<Rightarrow> byte \<Rightarrow> string \<Rightarrow> unit act" where
  "ensure ok a e = (if ok then ret () else alert_fail a (OtherError e))"

definition on_error :: "(conn_error \<Rightarrow> 'a act) \<Rightarrow> conn_error + 'a \<Rightarrow> 'a act" where
  "on_error handler r = (case r of Inl e \<Rightarrow> handler e | Inr x \<Rightarrow> ret x)"

definition of_conn :: "(conn \<Rightarrow> (conn_error option \<times> conn) option) \<Rightarrow> unit act" where
  "of_conn f t =
     map_option (\<lambda>(e, c). (case e of None \<Rightarrow> Inr () | Some err \<Rightarrow> Inl err, t\<lparr>t_conn := c\<rparr>)) (f (t_conn t))"

definition writeRecord :: "byte \<Rightarrow> bytes \<Rightarrow> unit act" where
  "writeRecord typ data = of_conn (\<lambda>c. map_option (\<lambda>((n, e), c1). (e, c1)) (writeRecordLocked typ data c))"

definition flush_records :: "unit act" where
  "flush_records = of_conn (\<lambda>c. let ((n, e), c1) = flush c in Some (e, c1))"

definition set_buffering :: "unit act" where
  "set_buffering = change_conn (\<lambda>c. c\<lparr>c_buffering := True\<rparr>)"

text \<open>A nil message, which an error that is nil would leave, is no message of any kind.\<close>

definition readMessage :: "'b env \<Rightarrow> handshakeMessage option act" where
  "readMessage E t =
     (case readHandshake (e_R E) (t_conn t) of
        None \<Rightarrow> None
      | Some (Inl (Some e), c) \<Rightarrow> Some (Inl e, t\<lparr>t_conn := c\<rparr>)
      | Some (Inl None, c) \<Rightarrow> Some (Inr None, t\<lparr>t_conn := c\<rparr>)
      | Some (Inr m, c) \<Rightarrow> Some (Inr (Some m), t\<lparr>t_conn := c\<rparr>))"

text \<open>The type assertion on a message.\<close>

definition expect :: "(handshakeMessage \<Rightarrow> 'a option) \<Rightarrow> handshakeMessage option \<Rightarrow> 'a act" where
  "expect sel msg =
     (case Option.bind msg sel of
        Some m \<Rightarrow> ret m
      | None \<Rightarrow> alert_fail alertUnexpectedMessage unexpectedMessageError)"

definition readExpected :: "'b env \<Rightarrow> (handshakeMessage \<Rightarrow> 'a option) \<Rightarrow> 'a act" where
  "readExpected E sel = after (readMessage E) (expect sel)"

fun clientHello_of where "clientHello_of (ClientHelloMsg m) = Some m" | "clientHello_of _ = None"
fun serverHello_of where "serverHello_of (ServerHelloMsg m) = Some m" | "serverHello_of _ = None"
fun certificate_of where "certificate_of (CertificateMsg m) = Some m" | "certificate_of _ = None"
fun certificate13_of where "certificate13_of (CertificateMsgTLS13 m) = Some m" | "certificate13_of _ = None"
fun certRequest_of where "certRequest_of (CertificateRequestMsg m) = Some m" | "certRequest_of _ = None"
fun certRequest13_of where "certRequest13_of (CertificateRequestMsgTLS13 m) = Some m" | "certRequest13_of _ = None"
fun certStatus_of where "certStatus_of (CertificateStatusMsg m) = Some m" | "certStatus_of _ = None"
fun serverKeyExchange_of where "serverKeyExchange_of (ServerKeyExchangeMsg m) = Some m" | "serverKeyExchange_of _ = None"
fun serverHelloDone_of where "serverHelloDone_of ServerHelloDoneMsg = Some ()" | "serverHelloDone_of _ = None"
fun clientKeyExchange_of where "clientKeyExchange_of (ClientKeyExchangeMsg m) = Some m" | "clientKeyExchange_of _ = None"
fun certVerify_of where "certVerify_of (CertificateVerifyMsg m) = Some m" | "certVerify_of _ = None"
fun finished_of where "finished_of (FinishedMsg m) = Some m" | "finished_of _ = None"
fun newSessionTicket_of where "newSessionTicket_of (NewSessionTicketMsg m) = Some m" | "newSessionTicket_of _ = None"
fun encryptedExtensions_of where "encryptedExtensions_of (EncryptedExtensionsMsg m) = Some m" | "encryptedExtensions_of _ = None"

section \<open>Rules\<close>

text \<open>A step that succeeds does so in every part.\<close>

lemma after_Inr: "after m f t = Some (Inr y, t') \<longleftrightarrow> (\<exists>x t1. m t = Some (Inr x, t1) \<and> f x t1 = Some (Inr y, t'))"
  by (auto simp: after_def split: option.splits sum.splits)

lemma after_InrE:
  assumes "after m f t = Some (Inr y, t')"
  obtains x t1 where "m t = Some (Inr x, t1)" and "f x t1 = Some (Inr y, t')"
  using assms by (auto simp: after_Inr)

lemma ret_Inr [simp]: "ret x t = Some (r, t') \<longleftrightarrow> r = Inr x \<and> t' = t"
  by (auto simp: ret_def)

lemma fail_Inr [simp]: "fail e t = Some (r, t') \<longleftrightarrow> r = Inl e \<and> t' = t"
  by (auto simp: fail_def)

lemma total_Inr [simp]: "total x t = Some (r, t') \<longleftrightarrow> (\<exists>y. x = Some y \<and> r = Inr y) \<and> t' = t"
  by (auto simp: total_def)

lemma the_state_Inr [simp]: "the_state t = Some (r, t') \<longleftrightarrow> r = Inr t \<and> t' = t"
  by (auto simp: the_state_def)

lemma change_Inr [simp]: "change f t = Some (r, t') \<longleftrightarrow> r = Inr () \<and> t' = f t"
  by (auto simp: change_def)

lemma of_result_Inr [simp]: "of_result r t = Some (r', t') \<longleftrightarrow> r' = r \<and> t' = t"
  by (auto simp: of_result_def)

lemma alert_fail_Inr [simp]: "alert_fail a e t \<noteq> Some (Inr x, t')"
  by (simp add: alert_fail_def after_Inr)

lemma ensure_Inr [simp]: "ensure ok a e t = Some (Inr x, t') \<longleftrightarrow> ok \<and> t' = t"
  by (auto simp: ensure_def)

lemma of_error_Inr [simp]: "of_error e t = Some (Inr x, t') \<longleftrightarrow> e = None \<and> t' = t"
  by (auto simp: of_error_def split: option.splits)

lemma expect_Inr [simp]: "expect sel msg t = Some (Inr x, t') \<longleftrightarrow> (\<exists>m. msg = Some m \<and> sel m = Some x) \<and> t' = t"
  by (cases msg) (auto simp: expect_def split: option.splits)

lemma on_error_Inr:
  "(\<And>e x t'. h e t \<noteq> Some (Inr x, t')) \<Longrightarrow> on_error h r t = Some (Inr x, t') \<longleftrightarrow> r = Inr x \<and> t' = t"
  by (auto simp: on_error_def split: sum.splits)

end
