(* ===== verification/Server12.thy ===== *)
theory Server12
  imports TlsConn
begin

text \<open>
  The server handshake up to TLS 1.2 (\<open>handshake_server.go\<close>), step by step. The handshake state \<open>hs\<close> is
  passed from step to step; \<open>hs.c\<close> is the state of the steps.
\<close>

section \<open>State\<close>

record serverHandshakeState =
  shs_clientHello :: clientHelloMsg
  shs_hello :: serverHelloMsg
  shs_suite :: "cipherSuite option"
  shs_ecdheOk :: bool
  shs_ecSignOk :: bool
  shs_rsaDecryptOk :: bool
  shs_rsaSignOk :: bool
  shs_sessionState :: "sessionState option"
  shs_finishedHash :: "finishedHash option"
  shs_masterSecret :: bytes
  shs_cert :: "tlsCertificate option"

definition new_serverHello :: serverHelloMsg where
  "new_serverHello = \<lparr>sh_raw = None, sh_vers = 0, sh_random = [], sh_sessionId = [], sh_cipherSuite = 0,
     sh_compressionMethod = 0, sh_ocspStapling = False, sh_ticketSupported = False,
     sh_secureRenegotiationSupported = False, sh_secureRenegotiation = [], sh_alpnProtocol = [], sh_scts = [],
     sh_supportedVersion = 0, sh_serverShare = \<lparr>ks_group = 0, ks_data = []\<rparr>, sh_selectedIdentityPresent = False,
     sh_selectedIdentity = 0, sh_supportedPoints = [], sh_cookie = [], sh_selectedGroup = 0\<rparr>"

definition new_serverHandshake :: "clientHelloMsg \<Rightarrow> serverHandshakeState" where
  "new_serverHandshake clientHello = \<lparr>shs_clientHello = clientHello, shs_hello = new_serverHello, shs_suite = None,
     shs_ecdheOk = False, shs_ecSignOk = False, shs_rsaDecryptOk = False, shs_rsaSignOk = False,
     shs_sessionState = None, shs_finishedHash = None, shs_masterSecret = [], shs_cert = None\<rparr>"

section \<open>ClientHello\<close>

definition clientHelloInfo :: "clientHelloMsg \<Rightarrow> ClientHelloInfo" where
  "clientHelloInfo ch =
     \<lparr>chi_CipherSuites = ch_cipherSuites ch, chi_ServerName = ch_serverName ch,
      chi_SupportedCurves = ch_supportedCurves ch, chi_SupportedPoints = ch_supportedPoints ch,
      chi_SignatureSchemes = ch_supportedSignatureAlgorithms ch, chi_SupportedProtos = ch_alpnProtocols ch,
      chi_SupportedVersions = (if length (ch_supportedVersions ch) = 0
        then supportedVersionsFromMax (ch_vers ch) else ch_supportedVersions ch)\<rparr>"

text \<open>The callback, and \<open>c.config = configForClient\<close>.\<close>

definition choose_config :: "clientHelloMsg \<Rightarrow> Config option act" where
  "choose_config ch = after the_state (\<lambda>t.
     case t_GetConfigForClient t of
       None \<Rightarrow> ret None
     | Some get \<Rightarrow>
         (case get (clientHelloInfo ch) of
            (_, Some err) \<Rightarrow> alert_fail alertInternalError err
          | (None, None) \<Rightarrow> ret None
          | (Some cc, None) \<Rightarrow> after (change (\<lambda>t. t\<lparr>t_config := cc,
              t_conn := (t_conn t)\<lparr>c_sizingDisabled := cfg_DynamicRecordSizingDisabled cc\<rparr>\<rparr>)) (\<lambda>_. ret (Some cc))))"

text \<open>\<open>c.ticketKeys = originalConfig.ticketKeys(configForClient)\<close>; both configurations may change.\<close>

definition load_ticketKeys :: "crypto \<Rightarrow> Config \<Rightarrow> Config option \<Rightarrow> unit act" where
  "load_ticketKeys P original cc t =
     (case ticketKeys P (cc, original, host_of t) of
        Returned keys (cc', original', h) \<Rightarrow>
          Some (Inr (), put_host h (t\<lparr>t_ticketKeys := keys, t_originalConfig := original',
            t_config := (case cc' of Some c \<Rightarrow> c | None \<Rightarrow> original')\<rparr>))
      | _ \<Rightarrow> None)"

definition readClientHello :: "'b env \<Rightarrow> clientHelloMsg act" where
  "readClientHello E =
     after (readExpected E clientHello_of) (\<lambda>clientHello.
     after the_state (\<lambda>t0.
     after (choose_config clientHello) (\<lambda>configForClient.
     after (load_ticketKeys (e_P E) (t_config t0) configForClient) (\<lambda>_.
     after the_state (\<lambda>t.
       let clientVersions = (if length (ch_supportedVersions clientHello) = 0
             then supportedVersionsFromMax (ch_vers clientHello) else ch_supportedVersions clientHello)
       in case mutualVersion (e_D E) (Some (t_config t)) roleServer clientVersions of
            None \<Rightarrow>
              after (change_conn (\<lambda>c. c\<lparr>c_vers := 0\<rparr>)) (\<lambda>_.
              alert_fail alertProtocolVersion (OtherError ''tls: client offered only unsupported versions''))
          | Some vers \<Rightarrow>
              after (change_conn (\<lambda>c. c\<lparr>c_vers := vers, c_haveVers := True,
                c_in := (c_in c)\<lparr>hc_version := vers\<rparr>, c_out := (c_out c)\<lparr>hc_version := vers\<rparr>\<rparr>)) (\<lambda>_.
              ret clientHello))))))"

text \<open>The first protocol of the server that the client knows.\<close>

definition negotiateALPN :: "bytes list \<Rightarrow> bytes list \<Rightarrow> conn_error + bytes" where
  "negotiateALPN serverProtos clientProtos =
     (if length serverProtos = 0 \<or> length clientProtos = 0 then Inr []
      else case find (\<lambda>s. list_ex (\<lambda>c. s = c) clientProtos) serverProtos of
        Some s \<Rightarrow> Inr s
      | None \<Rightarrow>
          if list_ex (\<lambda>s. list_ex (\<lambda>c. s = str ''h2'' \<and> c = str ''http/1.1'') clientProtos) serverProtos then Inr []
          else Inl (OtherError ''tls: client requested unsupported application protocols''))"

text \<open>The server random: 32 bytes, the last eight a canary when a higher version would be possible.\<close>

definition downgrade_canary :: "bool \<Rightarrow> tlsConn \<Rightarrow> bytes" where
  "downgrade_canary D t =
     (let maxVers = maxSupportedVersion D (Some (t_config t)) roleServer
      in if maxVers \<ge> VersionTLS12 \<and> t_vers t < maxVers \<or> testingOnlyForceDowngradeCanary
         then (if t_vers t = VersionTLS12 then downgradeCanaryTLS12 else downgradeCanaryTLS11) else [])"

definition make_serverRandom :: "'b env \<Rightarrow> bytes act" where
  "make_serverRandom E = after the_state (\<lambda>t.
     let canary = downgrade_canary (e_D E) t
     in after (with_host (host_ReadFull (32 - length canary))) (\<lambda>random.
        case random of
          None \<Rightarrow> alert_fail alertInternalError RandError
        | Some r \<Rightarrow> ret (r @ canary)))"

definition get_certificate :: "'b env \<Rightarrow> clientHelloMsg \<Rightarrow> tlsCertificate act" where
  "get_certificate E ch = after the_state (\<lambda>t.
     after (total (getCertificate (e_P E) (e_X E) (e_D E) (t_config t) (clientHelloInfo ch))) (\<lambda>(cert, err).
     case err of
       Some e \<Rightarrow> alert_fail (if e = errNoCertificates then alertUnrecognizedName else alertInternalError) e
     | None \<Rightarrow> total cert))"

text \<open>What the private key can be used for; an unknown type of key is an error.\<close>

definition check_server_key :: "tlsCertificate \<Rightarrow> serverHandshakeState \<Rightarrow> serverHandshakeState act" where
  "check_server_key cert hs =
     (let key = tc_PrivateKey cert
      in after (case pk_signer key of
                  Some (ECDSAKey _ _) \<Rightarrow> ret (hs\<lparr>shs_ecSignOk := True\<rparr>)
                | Some (Ed25519Key _) \<Rightarrow> ret (hs\<lparr>shs_ecSignOk := True\<rparr>)
                | Some (RSAKey _ _) \<Rightarrow> ret (hs\<lparr>shs_rsaSignOk := True\<rparr>)
                | Some (OtherKey _) \<Rightarrow> alert_fail alertInternalError (OtherError ''tls: unsupported signing key type'')
                | None \<Rightarrow> ret hs) (\<lambda>hs.
         case pk_decrypter key of
           Some (RSAKey _ _) \<Rightarrow> ret (hs\<lparr>shs_rsaDecryptOk := True\<rparr>)
         | Some _ \<Rightarrow> alert_fail alertInternalError (OtherError ''tls: unsupported decryption key type'')
         | None \<Rightarrow> ret hs))"

definition processClientHello :: "'b env \<Rightarrow> serverHandshakeState \<Rightarrow> serverHandshakeState act" where
  "processClientHello E hs =
     (let ch = shs_clientHello hs
      in after (ensure (list_ex (\<lambda>compression. compression = compressionNone) (ch_compressionMethods ch))
             alertHandshakeFailure ''tls: client does not support uncompressed connections'') (\<lambda>_.
         after (make_serverRandom E) (\<lambda>random.
         after (ensure (length (ch_secureRenegotiation ch) = 0) alertHandshakeFailure
             ''tls: initial handshake had non-empty renegotiation extension'') (\<lambda>_.
         after (change (\<lambda>t. if length (ch_serverName ch) > 0 then t\<lparr>t_serverName := ch_serverName ch\<rparr> else t)) (\<lambda>_.
         after the_state (\<lambda>t.
         after (on_error (alert_fail alertNoApplicationProtocol)
             (negotiateALPN (cfg_NextProtos (t_config t)) (ch_alpnProtocols ch))) (\<lambda>selectedProto.
         after (change (\<lambda>t. t\<lparr>t_clientProtocol := selectedProto\<rparr>)) (\<lambda>_.
         after (get_certificate E ch) (\<lambda>cert.
           let ecdheOk = supportsECDHE (Some (t_config t)) (ch_supportedCurves ch) (ch_supportedPoints ch);
               hello = new_serverHello\<lparr>sh_vers := t_vers t, sh_random := random,
                 sh_secureRenegotiationSupported := ch_secureRenegotiationSupported ch,
                 sh_compressionMethod := compressionNone, sh_alpnProtocol := selectedProto,
                 sh_scts := (if ch_scts ch then (case crt_SCTs cert of Some l \<Rightarrow> l | None \<Rightarrow> []) else []),
                 sh_supportedPoints := (if ecdheOk \<and> length (ch_supportedPoints ch) > 0 then [pointFormatUncompressed] else [])\<rparr>
           in check_server_key cert (hs\<lparr>shs_hello := hello, shs_cert := Some cert, shs_ecdheOk := ecdheOk\<rparr>))))))))))"

section \<open>Cipher suite\<close>

definition cipherSuiteOk :: "u16 \<Rightarrow> serverHandshakeState \<Rightarrow> cipherSuite \<Rightarrow> bool" where
  "cipherSuiteOk vers hs c \<longleftrightarrow>
     (if cs_flags c AND suiteECDHE \<noteq> 0 then
        shs_ecdheOk hs \<and> (if cs_flags c AND suiteECSign \<noteq> 0 then shs_ecSignOk hs else shs_rsaSignOk hs)
      else shs_rsaDecryptOk hs) \<and>
     \<not> (vers < VersionTLS12 \<and> cs_flags c AND suiteTLS12 \<noteq> 0)"

definition preference_order :: "'b env \<Rightarrow> u16 list \<Rightarrow> u16 list" where
  "preference_order E suites =
     (if \<not> hasAESGCMHardwareSupport (e_GOARCH E) \<or> \<not> aesgcmPreferred (e_P E) suites
      then cipherSuitesPreferenceOrderNoAES else cipherSuitesPreferenceOrder)"

definition pickCipherSuite :: "'b env \<Rightarrow> serverHandshakeState \<Rightarrow> serverHandshakeState act" where
  "pickCipherSuite E hs = after the_state (\<lambda>t.
     let suites = ch_cipherSuites (shs_clientHello hs);
         configCipherSuites = config_cipherSuites (t_config t);
         preferenceList = filter (\<lambda>suiteID. list_ex (\<lambda>i. i = suiteID) configCipherSuites) (preference_order E suites)
     in case selectCipherSuite (e_P E) preferenceList suites (cipherSuiteOk (t_vers t) hs) of
          None \<Rightarrow> alert_fail alertHandshakeFailure (OtherError ''tls: no cipher suite supported by both client and server'')
        | Some suite \<Rightarrow>
            after (change_conn (\<lambda>c. c\<lparr>c_cipherSuite := cs_id suite\<rparr>)) (\<lambda>_.
            after (ensure (\<not> (list_ex (\<lambda>i. i = TLS_FALLBACK_SCSV) suites \<and>
                ch_vers (shs_clientHello hs) < maxSupportedVersion (e_D E) (Some (t_config t)) roleServer))
              alertInappropriateFallback ''tls: client using inappropriate protocol fallback'') (\<lambda>_.
            ret (hs\<lparr>shs_suite := Some suite\<rparr>))))"

section \<open>Resumption\<close>

text \<open>The fields that \<open>unmarshal\<close> has set when it fails; only the time is used after that.\<close>

definition partial_sessionState :: "reader \<Rightarrow> bool \<Rightarrow> bytes \<Rightarrow> sessionState" where
  "partial_sessionState R usedOldKey data =
     (let createdAt = (case do { (v, s) \<leftarrow> read_u16 R data; (i, s) \<leftarrow> read_u16 R s; readUint64 R s } of
          Some (x, s) \<Rightarrow> x | None \<Rightarrow> 0)
      in \<lparr>ss_vers = 0, ss_cipherSuite = 0, ss_createdAt = createdAt, ss_masterSecret = [], ss_certificates = [],
          ss_usedOldKey = usedOldKey\<rparr>)"

definition resumption_suite ::
  "'b env \<Rightarrow> tlsConn \<Rightarrow> serverHandshakeState \<Rightarrow> sessionState \<Rightarrow> int \<Rightarrow> cipherSuite option" where
  "resumption_suite E t hs s now =
     (if now - nanoseconds (sint (ss_createdAt s)) > maxSessionTicketLifetime then None
      else if t_vers t \<noteq> ss_vers s then None
      else if \<not> list_ex (\<lambda>i. i = ss_cipherSuite s) (ch_cipherSuites (shs_clientHello hs)) then None
      else case selectCipherSuite (e_P E) [ss_cipherSuite s] (config_cipherSuites (t_config t)) (cipherSuiteOk (t_vers t) hs) of
        None \<Rightarrow> None
      | Some suite \<Rightarrow>
          let sessionHasClientCerts = length (ss_certificates s) \<noteq> 0;
              needClientCerts = requiresClientCert (cfg_ClientAuth (t_config t))
          in if needClientCerts \<and> \<not> sessionHasClientCerts then None
             else if sessionHasClientCerts \<and> cfg_ClientAuth (t_config t) = NoClientCert then None
             else Some suite)"

definition checkForResumption :: "'b env \<Rightarrow> serverHandshakeState \<Rightarrow> (bool \<times> serverHandshakeState) act" where
  "checkForResumption E hs = after the_state (\<lambda>t.
     if cfg_SessionTicketsDisabled (t_config t) then ret (False, hs)
     else case decryptTicket (e_P E) (t_ticketKeys t) (ch_sessionTicket (shs_clientHello hs)) of
       (None, _) \<Rightarrow> ret (False, hs)
     | (Some plaintext, usedOldKey) \<Rightarrow>
         (case unmarshal_sessionState (e_R E) usedOldKey plaintext of
            None \<Rightarrow> ret (False, hs\<lparr>shs_sessionState := Some (partial_sessionState (e_R E) usedOldKey plaintext)\<rparr>)
          | Some s \<Rightarrow>
              after (with_host host_time) (\<lambda>now.
                let hs1 = hs\<lparr>shs_sessionState := Some s\<rparr>
                in case resumption_suite E t hs s now of
                     None \<Rightarrow> ret (False, hs1)
                   | Some suite \<Rightarrow> ret (True, hs1\<lparr>shs_suite := Some suite\<rparr>))))"

section \<open>Client certificates\<close>

fun parse_certificates :: "pki \<Rightarrow> bytes list \<Rightarrow> x509 list option" where
  "parse_certificates X [] = Some []"
| "parse_certificates X (d # ds) =
     (case ParseCertificate X d of
        None \<Rightarrow> None
      | Some c \<Rightarrow> map_option (\<lambda>cs. c # cs) (parse_certificates X ds))"

definition verify_client_chain :: "'b env \<Rightarrow> x509 list \<Rightarrow> unit act" where
  "verify_client_chain E certs = after the_state (\<lambda>t.
     if cfg_ClientAuth (t_config t) \<ge> VerifyClientCertIfGiven \<and> length certs > 0 then
       after (with_host host_time) (\<lambda>now.
         let opts = \<lparr>vo_Roots = cfg_ClientCAs (t_config t), vo_CurrentTime = now, vo_DNSName = [],
               vo_Intermediates = tl certs, vo_ClientAuth = True\<rparr>
         in case x509_Verify (e_X E) (hd certs) opts of
              None \<Rightarrow> alert_fail alertBadCertificate (OtherError ''tls: failed to verify client certificate'')
            | Some built \<Rightarrow> change (\<lambda>t. t\<lparr>t_verifiedChains := built\<rparr>))
     else ret ())"

fun known_key :: "publicKey \<Rightarrow> bool" where
  "known_key (OtherKey _) = False"
| "known_key _ = True"

definition verify_callback :: "bytes list \<Rightarrow> unit act" where
  "verify_callback rawCerts = after the_state (\<lambda>t.
     case cfg_VerifyPeerCertificate (t_config t) of
       None \<Rightarrow> ret ()
     | Some verify \<Rightarrow>
         (case verify rawCerts (t_verifiedChains t) of
            None \<Rightarrow> ret ()
          | Some err \<Rightarrow> alert_fail alertBadCertificate err))"

definition processCertsFromClient :: "'b env \<Rightarrow> Certificate \<Rightarrow> unit act" where
  "processCertsFromClient E certificate =
     (let certificates = crt_Certificate certificate
      in case parse_certificates (e_X E) certificates of
           None \<Rightarrow> alert_fail alertBadCertificate (OtherError ''tls: failed to parse client certificate'')
         | Some certs \<Rightarrow>
             after the_state (\<lambda>t.
             after (ensure (\<not> (length certs = 0 \<and> requiresClientCert (cfg_ClientAuth (t_config t))))
               alertBadCertificate ''tls: client didn't provide a certificate'') (\<lambda>_.
             after (verify_client_chain E certs) (\<lambda>_.
             after (change (\<lambda>t. t\<lparr>t_peerCertificates := certs,
               t_ocspResponse := (case crt_OCSPStaple certificate of Some x \<Rightarrow> x | None \<Rightarrow> []),
               t_scts := (case crt_SCTs certificate of Some x \<Rightarrow> x | None \<Rightarrow> [])\<rparr>)) (\<lambda>_.
             after (ensure (length certs > 0 \<longrightarrow> known_key (x_PublicKey (hd certs))) alertUnsupportedCertificate
               ''tls: client certificate contains an unsupported public key'') (\<lambda>_.
             verify_callback certificates))))))"

definition verify_connection :: "unit act" where
  "verify_connection = after the_state (\<lambda>t.
     case cfg_VerifyConnection (t_config t) of
       None \<Rightarrow> ret ()
     | Some verify \<Rightarrow>
         (case verify (connectionStateLocked t) of
            None \<Rightarrow> ret ()
          | Some err \<Rightarrow> alert_fail alertBadCertificate err))"

section \<open>The handshake messages\<close>

definition write_transcript :: "bytes \<Rightarrow> finishedHash \<Rightarrow> finishedHash act" where
  "write_transcript msg fh = total (finishedHash_Write msg fh)"

text \<open>\<open>hs.finishedHash.Write(m.marshal()); c.writeRecord(recordTypeHandshake, m.marshal())\<close>.\<close>

definition send_message :: "bytes \<Rightarrow> finishedHash \<Rightarrow> finishedHash act" where
  "send_message msg fh =
     after (write_transcript msg fh) (\<lambda>fh1.
     after (writeRecord recordTypeHandshake msg) (\<lambda>_.
     ret fh1))"

definition doResumeHandshake :: "'b env \<Rightarrow> serverHandshakeState \<Rightarrow> serverHandshakeState act" where
  "doResumeHandshake E hs =
     after (total (shs_suite hs)) (\<lambda>suite.
     after (total (shs_sessionState hs)) (\<lambda>session.
     after (change_conn (\<lambda>c. c\<lparr>c_cipherSuite := cs_id suite\<rparr>)) (\<lambda>_.
     after the_state (\<lambda>t.
       let hello = (shs_hello hs)\<lparr>sh_cipherSuite := cs_id suite, sh_sessionId := ch_sessionId (shs_clientHello hs),
             sh_ticketSupported := ss_usedOldKey session\<rparr>
       in after (total (newFinishedHash (e_P E) (t_vers t) suite)) (\<lambda>fh0.
          after (total (marshal_clientHello (e_B E) (shs_clientHello hs))) (\<lambda>(ch, clientHello).
          after (write_transcript ch (discardHandshakeBuffer fh0)) (\<lambda>fh1.
          after (total (marshal_serverHello (e_B E) hello)) (\<lambda>(sh, hello1).
          after (send_message sh fh1) (\<lambda>fh2.
          after (processCertsFromClient E \<lparr>crt_Certificate = ss_certificates session, crt_OCSPStaple = None, crt_SCTs = None\<rparr>) (\<lambda>_.
          after verify_connection (\<lambda>_.
          ret (hs\<lparr>shs_hello := hello1, shs_finishedHash := Some fh2, shs_masterSecret := ss_masterSecret session\<rparr>))))))))))))"

text \<open>The messages of the server in a full handshake, up to ServerHelloDone.\<close>

definition send_certStatus :: "'b env \<Rightarrow> tlsCertificate \<Rightarrow> serverHelloMsg \<Rightarrow> finishedHash \<Rightarrow> finishedHash act" where
  "send_certStatus E cert hello fh =
     (if sh_ocspStapling hello then
        after (total (marshal_certificateStatus (e_B E)
          \<lparr>cs_raw = None, cs_response = (case crt_OCSPStaple cert of Some x \<Rightarrow> x | None \<Rightarrow> [])\<rparr>)) (\<lambda>(m, _).
        send_message m fh)
      else ret fh)"

definition send_serverKeyExchange ::
  "'b env \<Rightarrow> serverHandshakeState \<Rightarrow> tlsCertificate \<Rightarrow> serverHelloMsg \<Rightarrow> keyAgreement \<Rightarrow> finishedHash \<Rightarrow>
     (finishedHash \<times> keyAgreement) act" where
  "send_serverKeyExchange E hs cert hello ka fh = after the_state (\<lambda>t.
     case generateServerKeyExchange (e_P E) (t_config t) ka cert (shs_clientHello hs) hello (host_of t) of
       None \<Rightarrow> total None
     | Some (r, h) \<Rightarrow>
         after (change (put_host h)) (\<lambda>_.
         after (on_error (alert_fail alertHandshakeFailure) r) (\<lambda>(skx, ka1).
         case skx of
           None \<Rightarrow> ret (fh, ka1)
         | Some m \<Rightarrow> after (send_message (fst (marshal_serverKeyExchange m)) fh) (\<lambda>fh1. ret (fh1, ka1)))))"

definition make_certRequest :: "'b env \<Rightarrow> tlsConn \<Rightarrow> certificateRequestMsg" where
  "make_certRequest E t =
     \<lparr>cr_raw = None, cr_hasSignatureAlgorithm = (t_vers t \<ge> VersionTLS12),
      cr_certificateTypes = [certTypeRSASign, certTypeECDSASign],
      cr_supportedSignatureAlgorithms = (if t_vers t \<ge> VersionTLS12 then supportedSignatureAlgorithms else []),
      cr_certificateAuthorities = (case cfg_ClientCAs (t_config t) of None \<Rightarrow> [] | Some pool \<Rightarrow> e_Subjects E pool)\<rparr>"

definition send_certRequest :: "'b env \<Rightarrow> finishedHash \<Rightarrow> (finishedHash \<times> certificateRequestMsg option) act" where
  "send_certRequest E fh = after the_state (\<lambda>t.
     if cfg_ClientAuth (t_config t) \<ge> RequestClientCert then
       let (m, certReq) = marshal_certificateRequest (make_certRequest E t)
       in after (send_message m fh) (\<lambda>fh1. ret (fh1, Some certReq))
     else ret (fh, None))"

definition send_server_flight ::
  "'b env \<Rightarrow> serverHandshakeState \<Rightarrow> cipherSuite \<Rightarrow> tlsCertificate \<Rightarrow>
     (serverHandshakeState \<times> finishedHash \<times> keyAgreement \<times> certificateRequestMsg option) act" where
  "send_server_flight E hs suite cert = after the_state (\<lambda>t.
     let hello = (shs_hello hs)\<lparr>
           sh_ocspStapling := (ch_ocspStapling (shs_clientHello hs) \<and>
             length (case crt_OCSPStaple cert of Some x \<Rightarrow> x | None \<Rightarrow> []) > 0),
           sh_ticketSupported := (ch_ticketSupported (shs_clientHello hs) \<and> \<not> cfg_SessionTicketsDisabled (t_config t)),
           sh_cipherSuite := cs_id suite\<rparr>
     in after (total (newFinishedHash (e_P E) (t_vers t) suite)) (\<lambda>fh0.
        after (total (marshal_clientHello (e_B E) (shs_clientHello hs))) (\<lambda>(ch, clientHello).
        after (write_transcript ch
          (if cfg_ClientAuth (t_config t) = NoClientCert then discardHandshakeBuffer fh0 else fh0)) (\<lambda>fh1.
        after (total (marshal_serverHello (e_B E) hello)) (\<lambda>(sh, hello1).
        after (send_message sh fh1) (\<lambda>fh2.
        after (send_message (fst (marshal_certificate \<lparr>cm_raw = None, cm_certificates = crt_Certificate cert\<rparr>)) fh2) (\<lambda>fh3.
        after (send_certStatus E cert hello1 fh3) (\<lambda>fh4.
        after (send_serverKeyExchange E hs cert hello1 (cs_ka suite (t_vers t)) fh4) (\<lambda>(fh5, ka).
        after (send_certRequest E fh5) (\<lambda>(fh6, certReq).
        after (send_message marshal_serverHelloDone fh6) (\<lambda>fh7.
        after flush_records (\<lambda>_.
        ret (hs\<lparr>shs_hello := hello1\<rparr>, fh7, ka, certReq)))))))))))))"

text \<open>The certificate of the client: the next message, and its public key if there is one.\<close>

definition read_client_certificate ::
  "'b env \<Rightarrow> finishedHash \<Rightarrow> handshakeMessage option \<Rightarrow> (finishedHash \<times> publicKey option \<times> handshakeMessage option) act" where
  "read_client_certificate E fh msg = after the_state (\<lambda>t.
     if cfg_ClientAuth (t_config t) \<ge> RequestClientCert then
       after (expect certificate_of msg) (\<lambda>certMsg.
       after (write_transcript (fst (marshal_certificate certMsg)) fh) (\<lambda>fh1.
       after (processCertsFromClient E \<lparr>crt_Certificate = cm_certificates certMsg, crt_OCSPStaple = None, crt_SCTs = None\<rparr>) (\<lambda>_.
       after the_state (\<lambda>t1.
       after (if length (cm_certificates certMsg) \<noteq> 0 then
                after (total (case t_peerCertificates t1 of [] \<Rightarrow> None | c # _ \<Rightarrow> Some (x_PublicKey c))) (\<lambda>pub. ret (Some pub))
              else ret None) (\<lambda>pub.
       after (readMessage E) (\<lambda>msg1.
       ret (fh1, pub, msg1)))))))
     else ret (fh, None, msg))"

definition process_clientKeyExchange ::
  "'b env \<Rightarrow> serverHandshakeState \<Rightarrow> cipherSuite \<Rightarrow> tlsCertificate \<Rightarrow> keyAgreement \<Rightarrow> clientKeyExchangeMsg \<Rightarrow> bytes act" where
  "process_clientKeyExchange E hs suite cert ka ckx = after the_state (\<lambda>t.
     case processClientKeyExchange (e_P E) ka cert ckx (host_of t) of
       None \<Rightarrow> total None
     | Some (r, h) \<Rightarrow>
         after (change (put_host h)) (\<lambda>_.
         after (on_error (alert_fail alertHandshakeFailure) r) (\<lambda>preMasterSecret.
         after (total (masterFromPreMasterSecret (e_P E) (t_vers t) suite preMasterSecret
             (ch_random (shs_clientHello hs)) (sh_random (shs_hello hs)))) (\<lambda>masterSecret.
         after (with_host (writeKeyLog (t_config t) keyLogLabelTLS12 (ch_random (shs_clientHello hs)) masterSecret)) (\<lambda>err.
         case err of
           Some e \<Rightarrow> alert_fail alertInternalError e
         | None \<Rightarrow> ret masterSecret)))))"

text \<open>CertificateVerify. \<open>pub\<close> is nil when the client sent no certificate although some are known.\<close>

definition client_sigType ::
  "u16 \<Rightarrow> certificateRequestMsg option \<Rightarrow> publicKey option \<Rightarrow> certificateVerifyMsg \<Rightarrow> (byte \<times> hash_alg) act" where
  "client_sigType vers certReq pub certVerify =
     (if vers \<ge> VersionTLS12 then
        after (total certReq) (\<lambda>req.
        after (ensure (isSupportedSignatureAlgorithm (cv_signatureAlgorithm certVerify) (cr_supportedSignatureAlgorithms req))
          alertIllegalParameter ''tls: client certificate used with invalid signature algorithm'') (\<lambda>_.
        on_error (\<lambda>_. alert_fail alertInternalError (LocalError alertInternalError))
          (typeAndHashFromSignatureScheme (cv_signatureAlgorithm certVerify))))
      else
        on_error (alert_fail alertIllegalParameter)
          (case pub of
             None \<Rightarrow> Inl (OtherError ''tls: unsupported public key: <nil>'')
           | Some k \<Rightarrow> legacyTypeAndHashFromPublicKey k))"

definition verify_client_signature ::
  "'b env \<Rightarrow> finishedHash \<Rightarrow> certificateRequestMsg option \<Rightarrow> publicKey option \<Rightarrow> finishedHash act" where
  "verify_client_signature E fh certReq pub = after the_state (\<lambda>t.
     if length (t_peerCertificates t) > 0 then
       after (readExpected E certVerify_of) (\<lambda>certVerify.
       after (client_sigType (t_vers t) certReq pub certVerify) (\<lambda>(sigType, sigHash).
       after (total (hashForClientCertificate (e_P E) fh sigType sigHash)) (\<lambda>msg.
       after (case pub of
                None \<Rightarrow> alert_fail alertDecryptError (OtherError ''tls: invalid signature by the client certificate'')
              | Some k \<Rightarrow> ensure (verifyHandshakeSignature (e_X E) sigType k sigHash msg (cv_signature certVerify) = None)
                  alertDecryptError ''tls: invalid signature by the client certificate'') (\<lambda>_.
       after (total (marshal_certificateVerify (e_B E) certVerify)) (\<lambda>(m, _).
       write_transcript m fh)))))
     else ret fh)"

definition server_doFullHandshake :: "'b env \<Rightarrow> serverHandshakeState \<Rightarrow> serverHandshakeState act" where
  "server_doFullHandshake E hs0 =
     after (total (shs_suite hs0)) (\<lambda>suite.
     after (total (shs_cert hs0)) (\<lambda>cert.
     after (send_server_flight E hs0 suite cert) (\<lambda>(hs, fh, ka, certReq).
     after (readMessage E) (\<lambda>msg.
     after (read_client_certificate E fh msg) (\<lambda>(fh1, pub, msg1).
     after verify_connection (\<lambda>_.
     after (expect clientKeyExchange_of msg1) (\<lambda>ckx.
     after (write_transcript (fst (marshal_clientKeyExchange ckx)) fh1) (\<lambda>fh2.
     after (process_clientKeyExchange E hs suite cert ka ckx) (\<lambda>masterSecret.
     after (verify_client_signature E fh2 certReq pub) (\<lambda>fh3.
     ret (hs\<lparr>shs_finishedHash := Some (discardHandshakeBuffer fh3), shs_masterSecret := masterSecret\<rparr>)))))))))))"

section \<open>Finished\<close>

definition server_establishKeys :: "'b env \<Rightarrow> serverHandshakeState \<Rightarrow> unit act" where
  "server_establishKeys E hs t =
     do {
       suite \<leftarrow> shs_suite hs;
       c \<leftarrow> establishKeys_server (e_P E) suite (shs_masterSecret hs) (ch_random (shs_clientHello hs))
              (sh_random (shs_hello hs)) (t_conn t);
       Some (Inr (), t\<lparr>t_conn := c\<rparr>)
     }"

text \<open>The verify data is copied to \<open>out\<close> unless that is nil.\<close>

definition server_readFinished ::
  "'b env \<Rightarrow> (bytes \<Rightarrow> tlsConn \<Rightarrow> tlsConn) \<Rightarrow> serverHandshakeState \<Rightarrow> serverHandshakeState act" where
  "server_readFinished E out hs =
     after (of_conn readChangeCipherSpec) (\<lambda>_.
     after (readExpected E finished_of) (\<lambda>clientFinished.
     after (total (shs_finishedHash hs)) (\<lambda>fh.
     after (total (clientSum (e_P E) fh (shs_masterSecret hs))) (\<lambda>verify.
     after (ensure (verify = fin_verifyData clientFinished) alertHandshakeFailure
       ''tls: client's Finished message is incorrect'') (\<lambda>_.
     after (total (marshal_finished (e_B E) clientFinished)) (\<lambda>(m, _).
     after (write_transcript m fh) (\<lambda>fh1.
     after (change (out verify)) (\<lambda>_.
     ret (hs\<lparr>shs_finishedHash := Some fh1\<rparr>)))))))))"

definition ticket_state :: "tlsConn \<Rightarrow> serverHandshakeState \<Rightarrow> u16 \<Rightarrow> int \<Rightarrow> sessionState" where
  "ticket_state t hs suiteID now =
     \<lparr>ss_vers = t_vers t, ss_cipherSuite = suiteID,
      ss_createdAt = (case shs_sessionState hs of
        None \<Rightarrow> word_of_int (now div 1000000000) | Some s \<Rightarrow> ss_createdAt s),
      ss_masterSecret = shs_masterSecret hs, ss_certificates = map x_Raw (t_peerCertificates t), ss_usedOldKey = False\<rparr>"

definition encrypt_ticket :: "'b env \<Rightarrow> bytes \<Rightarrow> bytes act" where
  "encrypt_ticket E state = after the_state (\<lambda>t.
     if t_ticketKeys t = [] then fail (OtherError ''tls: internal error: session ticket keys unavailable'')
     else after (with_host host_source) (\<lambda>rnd. of_result (encryptTicket (e_P E) (t_ticketKeys t) rnd state)))"

definition server_sendSessionTicket :: "'b env \<Rightarrow> serverHandshakeState \<Rightarrow> serverHandshakeState act" where
  "server_sendSessionTicket E hs =
     (if \<not> sh_ticketSupported (shs_hello hs) then ret hs
      else
        after (with_host host_time) (\<lambda>now.
        after the_state (\<lambda>t.
        after (total (shs_suite hs)) (\<lambda>suite.
        after (total (shs_finishedHash hs)) (\<lambda>fh.
        after (total (marshal_sessionState (e_B E) (ticket_state t hs (cs_id suite) now))) (\<lambda>state.
        after (encrypt_ticket E state) (\<lambda>ticket.
        after (send_message (fst (marshal_newSessionTicket \<lparr>st_raw = None, st_ticket = ticket\<rparr>)) fh) (\<lambda>fh1.
        ret (hs\<lparr>shs_finishedHash := Some fh1\<rparr>)))))))))"

definition server_sendFinished ::
  "'b env \<Rightarrow> (bytes \<Rightarrow> tlsConn \<Rightarrow> tlsConn) \<Rightarrow> serverHandshakeState \<Rightarrow> serverHandshakeState act" where
  "server_sendFinished E out hs =
     after (writeRecord recordTypeChangeCipherSpec [1]) (\<lambda>_.
     after (total (shs_finishedHash hs)) (\<lambda>fh.
     after (total (serverSum (e_P E) fh (shs_masterSecret hs))) (\<lambda>verifyData.
     after (total (marshal_finished (e_B E) \<lparr>fin_raw = None, fin_verifyData = verifyData\<rparr>)) (\<lambda>(m, _).
     after (send_message m fh) (\<lambda>fh1.
     after (change (out verifyData)) (\<lambda>_.
     ret (hs\<lparr>shs_finishedHash := Some fh1\<rparr>)))))))"

definition no_out :: "bytes \<Rightarrow> tlsConn \<Rightarrow> tlsConn" where "no_out v t = t"
definition out_client :: "bytes \<Rightarrow> tlsConn \<Rightarrow> tlsConn" where
  "out_client v t = t\<lparr>t_clientFinished := go_copy (t_clientFinished t) v\<rparr>"
definition out_server :: "bytes \<Rightarrow> tlsConn \<Rightarrow> tlsConn" where
  "out_server v t = t\<lparr>t_serverFinished := go_copy (t_serverFinished t) v\<rparr>"

section \<open>The handshake\<close>

definition server_finish :: "'b env \<Rightarrow> serverHandshakeState \<Rightarrow> unit act" where
  "server_finish E hs =
     after (total (shs_suite hs)) (\<lambda>suite.
     after (change (\<lambda>t. t\<lparr>t_ekm := Some (ekmFromMasterSecret (e_P E) (t_vers t) suite (shs_masterSecret hs)
         (ch_random (shs_clientHello hs)) (sh_random (shs_hello hs))),
       t_conn := (t_conn t)\<lparr>c_complete := True\<rparr>\<rparr>)) ret)"

definition server_handshake :: "'b env \<Rightarrow> serverHandshakeState \<Rightarrow> unit act" where
  "server_handshake E hs0 =
     after (processClientHello E hs0) (\<lambda>hs1.
     after set_buffering (\<lambda>_.
     after (checkForResumption E hs1) (\<lambda>(resume, hs2).
     after
       (if resume then
          after (change (\<lambda>t. t\<lparr>t_didResume := True\<rparr>)) (\<lambda>_.
          after (doResumeHandshake E hs2) (\<lambda>hs3.
          after (server_establishKeys E hs3) (\<lambda>_.
          after (server_sendSessionTicket E hs3) (\<lambda>hs4.
          after (server_sendFinished E out_server hs4) (\<lambda>hs5.
          after flush_records (\<lambda>_.
          after (change (\<lambda>t. t\<lparr>t_clientFinishedIsFirst := False\<rparr>)) (\<lambda>_.
          server_readFinished E no_out hs5)))))))
        else
          after (pickCipherSuite E hs2) (\<lambda>hs3.
          after (server_doFullHandshake E hs3) (\<lambda>hs4.
          after (server_establishKeys E hs4) (\<lambda>_.
          after (server_readFinished E out_client hs4) (\<lambda>hs5.
          after (change (\<lambda>t. t\<lparr>t_clientFinishedIsFirst := True\<rparr>)) (\<lambda>_.
          after set_buffering (\<lambda>_.
          after (server_sendSessionTicket E hs5) (\<lambda>hs6.
          after (server_sendFinished E no_out hs6) (\<lambda>hs7.
          after flush_records (\<lambda>_.
          ret hs7)))))))))) (\<lambda>hs.
     server_finish E hs))))"

end
