(* ===== verification/ConfigLemmas.thy ===== *)
theory ConfigLemmas
  imports Server12
begin

text \<open>
  The session ticket keys of a configuration: every operation keeps them well formed, the key that encrypts is
  recent, and the read lock of the configuration is released except in one case.
\<close>

definition config_wf :: "Config \<Rightarrow> bool" where
  "config_wf c \<longleftrightarrow> (\<forall>k \<in> set (cfg_sessionTicketKeys c) \<union> set (cfg_autoSessionTicketKeys c). ticketKey_ok k)"

text \<open>
  By a reading of the clock that was taken between the host states \<open>h\<close> and \<open>h'\<close>, the key that encrypts has been in
  use for less than a day.
\<close>

definition recent_key :: "host \<Rightarrow> host \<Rightarrow> ticketKey list \<Rightarrow> bool" where
  "recent_key h h' keys \<longleftrightarrow> keys \<noteq> [] \<and>
     (\<exists>n. h_ticks h \<le> n \<and> n < h_ticks h' \<and> h_time h n - tk_created (hd keys) < ticketKeyRotation)"

text \<open>What a configuration without a configuration for the client gives: the application's keys or managed ones.\<close>

definition own_keys :: "Config \<Rightarrow> host \<Rightarrow> ticketKey list \<Rightarrow> Config \<Rightarrow> host \<Rightarrow> bool" where
  "own_keys c h keys c' h' \<longleftrightarrow>
     (if cfg_SessionTicketsDisabled c then keys = []
      else if cfg_sessionTicketKeys c' \<noteq> [] then keys = cfg_sessionTicketKeys c'
      else keys = cfg_autoSessionTicketKeys c' \<and> recent_key h h' keys)"

text \<open>The clock goes on and is not exchanged.\<close>

definition later :: "host \<Rightarrow> host \<Rightarrow> bool" where
  "later h h' \<longleftrightarrow> h_time h' = h_time h \<and> h_ticks h \<le> h_ticks h'"

lemma later_refl [simp]: "later h h" and later_trans [trans]: "later h h1 \<Longrightarrow> later h1 h2 \<Longrightarrow> later h h2"
  by (simp_all add: later_def)

lemma recent_key_later:
  assumes "recent_key h1 h2 keys" and "later h h1" and "later h2 h3"
  shows "recent_key h h3 keys"
proof -
  obtain n where n: "h_ticks h1 \<le> n" "n < h_ticks h2" "h_time h1 n - tk_created (hd keys) < ticketKeyRotation" "keys \<noteq> []"
    using assms(1) by (auto simp: recent_key_def)
  then show ?thesis using assms(2,3) unfolding recent_key_def later_def by (metis le_trans less_le_trans)
qed

lemma config_wf_lock [simp]: "config_wf (RLock c) = config_wf c" "config_wf (RUnlock c) = config_wf c"
  by (simp_all add: config_wf_def RLock_def RUnlock_def)

lemma lock_simps [simp]:
  "cfg_readers (RLock c) = Suc (cfg_readers c)" "cfg_readers (RUnlock c) = cfg_readers c - 1"
  "cfg_sessionTicketKeys (RLock c) = cfg_sessionTicketKeys c" "cfg_sessionTicketKeys (RUnlock c) = cfg_sessionTicketKeys c"
  "cfg_autoSessionTicketKeys (RLock c) = cfg_autoSessionTicketKeys c"
  "cfg_autoSessionTicketKeys (RUnlock c) = cfg_autoSessionTicketKeys c"
  "cfg_SessionTicketsDisabled (RLock c) = cfg_SessionTicketsDisabled c"
  "cfg_SessionTicketsDisabled (RUnlock c) = cfg_SessionTicketsDisabled c"
  by (simp_all add: RLock_def RUnlock_def)

lemma ticketKeyFromBytes_made:
  assumes "hashes_ok P" and "ticketKeyFromBytes P b h = (k, h')"
  shows "ticketKey_ok k \<and> later h h' \<and> h_ticks h' = Suc (h_ticks h) \<and> tk_created k = h_time h (h_ticks h)"
  using ticketKeyFromBytes_ok [OF assms(1), of b h] assms(2)
  by (auto simp: ticketKeyFromBytes_def later_def Let_def host_time_def split: prod.splits)

lemma initLegacy_keeps:
  assumes "hashes_ok P" and "config_wf c" and "cfg_readers c > 0"
    and "initLegacySessionTicketKeyRLocked P (c, h) = Returned u (c', h')"
  shows "config_wf c' \<and> cfg_readers c' = cfg_readers c \<and> later h h' \<and>
    cfg_SessionTicketsDisabled c' = cfg_SessionTicketsDisabled c"
  using assms ticketKeyFromBytes_made [OF assms(1), of "cfg_SessionTicketKey c" h]
  by (auto simp: initLegacySessionTicketKeyRLocked_def Let_def host_ReadFull_def config_wf_def RLock_def RUnlock_def
      later_def split: if_splits option.splits prod.splits)

lemma valid_keys_subset: "valid_keys ks h = (valid, h') \<Longrightarrow> set valid \<subseteq> set ks \<and> later h h'"
  by (induction ks arbitrary: h valid h')
    (fastforce simp: host_time_def later_def Let_def split: prod.splits if_splits)+

lemma rotation_due_later: "rotation_due c h = (b, h') \<Longrightarrow> later h h'"
  by (auto simp: rotation_due_def host_time_def later_def Let_def split: list.splits)

lemma rotation_not_due: "rotation_due c h = (False, h') \<Longrightarrow> recent_key h h' (cfg_autoSessionTicketKeys c)"
  by (auto simp: rotation_due_def recent_key_def host_time_def split: list.splits)

lemma rotate_keys_keeps:
  assumes P: "hashes_ok P" and wf: "config_wf c" and r: "rotate_keys P (c, h) = Some (c', h')"
  shows "config_wf c' \<and> cfg_readers c' = cfg_readers c \<and> later h h' \<and>
    cfg_sessionTicketKeys c' = cfg_sessionTicketKeys c \<and> recent_key h h' (cfg_autoSessionTicketKeys c')"
proof -
  from r obtain new h1 k h2 valid h3 where "host_ReadFull 32 h = (Some new, h1)" and k: "ticketKeyFromBytes P new h1 = (k, h2)"
    and v: "valid_keys (cfg_autoSessionTicketKeys c) h2 = (valid, h3)"
    and c': "c' = c\<lparr>cfg_autoSessionTicketKeys := k # valid\<rparr>" "h' = h3"
    by (auto simp: rotate_keys_def Let_def split: prod.splits option.splits)
  then have t: "later h h1" by (auto simp: host_ReadFull_def later_def)
  note K = ticketKeyFromBytes_made [OF P k] and V = valid_keys_subset [OF v]
  have "ticketKeyRotation > 0" by (simp add: ticketKeyRotation_def nanoseconds_def)
  then have "recent_key h1 h2 (k # valid)" unfolding recent_key_def using K by auto
  then have "recent_key h h' (k # valid)" using recent_key_later t V c' by blast
  moreover have "later h h'" using t K V c' later_trans by blast
  ultimately show ?thesis using K V wf c' by (auto simp: config_wf_def)
qed

lemma own_ticketKeys_keeps:
  assumes P: "hashes_ok P" and wf: "config_wf c" and r: "own_ticketKeys P (c, h) = Returned keys (c', h')"
  shows "config_wf c' \<and> cfg_readers c' = cfg_readers c \<and> later h h' \<and> own_keys c h keys c' h'"
proof (cases "cfg_SessionTicketsDisabled c")
  case True
  then show ?thesis using r wf by (simp add: own_ticketKeys_def own_keys_def)
next
  case False
  with r obtain u c1 h1 where i: "initLegacySessionTicketKeyRLocked P (RLock c, h) = Returned u (c1, h1)"
    by (auto simp: own_ticketKeys_def split: outcome.splits)
  have I: "config_wf c1" "cfg_readers c1 = Suc (cfg_readers c)" "later h h1"
    using initLegacy_keeps [OF P _ _ i] wf by simp_all
  show ?thesis
  proof (cases "cfg_sessionTicketKeys c1 = []")
    case False
    with \<open>\<not> cfg_SessionTicketsDisabled c\<close> r i have "keys = cfg_sessionTicketKeys c1" "c' = RUnlock c1" "h' = h1"
      by (simp_all add: own_ticketKeys_def)
    then show ?thesis using I False \<open>\<not> cfg_SessionTicketsDisabled c\<close> by (simp add: own_keys_def)
  next
    case True
    obtain b2 h2 where d: "rotation_due c1 h1 = (b2, h2)" by fastforce
    obtain b3 h3 where d': "rotation_due (RUnlock c1) h2 = (b3, h3)" by fastforce
    note T = rotation_due_later [OF d] rotation_due_later [OF d']
    have own: ?thesis if "keys = cfg_autoSessionTicketKeys c'" "recent_key hx h' keys" "later h hx" "later h h'" "config_wf c'"
      "cfg_readers c' = cfg_readers c" "cfg_sessionTicketKeys c' = []" for hx
      using that recent_key_later [of hx h' keys h h'] \<open>\<not> cfg_SessionTicketsDisabled c\<close> by (simp add: own_keys_def)
    show ?thesis
    proof (cases "b2 \<and> b3")
      case False
      with True \<open>\<not> cfg_SessionTicketsDisabled c\<close> r i d d' have k: "keys = cfg_autoSessionTicketKeys c1" "c' = RUnlock c1"
          "h' = (if b2 then h3 else h2)"
        by (auto simp: own_ticketKeys_def Let_def split: if_splits bool.splits)
      have "recent_key (if b2 then h2 else h1) h' keys"
        using False rotation_not_due [of c1 h1 h2] rotation_not_due [of "RUnlock c1" h2 h3] d d' k by (cases b2) simp_all
      moreover have "later h (if b2 then h2 else h1)" "later h h'" using I(3) T k(3) later_trans by (metis (full_types))+
      ultimately show ?thesis using own k I True by simp
    next
      case due: True
      with True \<open>\<not> cfg_SessionTicketsDisabled c\<close> r i d d' have
        rot: "rotate_keys P (RUnlock c1, h3) = Some (c', h')" and k: "keys = cfg_autoSessionTicketKeys c'"
        by (auto simp: own_ticketKeys_def Let_def split: if_splits option.splits)
      have "later h h3" using I(3) T later_trans by blast
      then show ?thesis using own [OF k, of h3] rotate_keys_keeps [OF P _ rot] I True k later_trans by auto
    qed
  qed
qed

lemma own_keys_ok: "own_keys c h keys c' h' \<Longrightarrow> config_wf c' \<Longrightarrow> \<forall>k\<in>set keys. ticketKey_ok k"
  by (auto simp: own_keys_def config_wf_def split: if_splits)

lemma own_keys_later: "own_keys c h1 keys c' h' \<Longrightarrow> later h h1 \<Longrightarrow> own_keys c h keys c' h'"
  by (auto simp: own_keys_def dest: recent_key_later [OF _ _ later_refl] split: if_splits)

text \<open>With a configuration for the client: its keys come first, and its lock is leaked when it has tickets disabled.\<close>

lemma ticketKeys_keeps:
  assumes P: "hashes_ok P" and wf: "config_wf c" and wfo: "pred_option config_wf co"
    and r: "ticketKeys P (co, c, h) = Returned keys (co', c', h')"
  shows "(\<forall>k\<in>set keys. ticketKey_ok k) \<and> config_wf c' \<and> cfg_readers c' = cfg_readers c \<and> pred_option config_wf co' \<and>
    map_option cfg_readers co' = map_option (\<lambda>cc. cfg_readers cc + of_bool (cfg_SessionTicketsDisabled cc)) co \<and>
    (case co' of
       None \<Rightarrow> own_keys c h keys c' h'
     | Some cc \<Rightarrow>
         if cfg_SessionTicketsDisabled cc then keys = []
         else if cfg_sessionTicketKeys cc \<noteq> [] then keys = cfg_sessionTicketKeys cc
         else own_keys c h keys c' h')"
proof (cases co)
  case None
  with r have "co' = None \<and> own_ticketKeys P (c, h) = Returned keys (c', h')"
    by (auto simp: ticketKeys_def split: outcome.splits)
  with None own_ticketKeys_keeps [OF P wf, of h keys c' h'] own_keys_ok [of c h keys c' h'] show ?thesis by simp
next
  case (Some cc)
  with wfo have wcc: "config_wf cc" by simp
  show ?thesis
  proof (cases "cfg_SessionTicketsDisabled cc")
    case True
    with r Some wcc wf show ?thesis by (auto simp: ticketKeys_def)
  next
    case False
    with r Some obtain u cc2 h2 where i: "initLegacySessionTicketKeyRLocked P (RLock cc, h) = Returned u (cc2, h2)"
      by (auto simp: ticketKeys_def Let_def split: outcome.splits)
    have I: "config_wf cc2" "cfg_readers cc2 = Suc (cfg_readers cc)" "later h h2" "\<not> cfg_SessionTicketsDisabled cc2"
      using initLegacy_keeps [OF P _ _ i] wcc False by simp_all
    show ?thesis
    proof (cases "cfg_sessionTicketKeys cc2 = []")
      case False
      with r Some \<open>\<not> cfg_SessionTicketsDisabled cc\<close> i have
        "keys = cfg_sessionTicketKeys cc2" "co' = Some (RUnlock cc2)" "c' = c" "h' = h2"
        by (simp_all add: ticketKeys_def)
      then show ?thesis using I Some False \<open>\<not> cfg_SessionTicketsDisabled cc\<close> wf by (auto simp: config_wf_def [of cc2])
    next
      case True
      with r Some \<open>\<not> cfg_SessionTicketsDisabled cc\<close> i have
        "co' = Some (RUnlock cc2) \<and> own_ticketKeys P (c, h2) = Returned keys (c', h')"
        by (auto simp: ticketKeys_def split: outcome.splits)
      then show ?thesis
        using own_ticketKeys_keeps [OF P wf, of h2 keys c' h'] own_keys_ok own_keys_later [OF _ I(3)] I Some True
          \<open>\<not> cfg_SessionTicketsDisabled cc\<close> by auto
    qed
  qed
qed

lemma keys_from_bytes_ok: "hashes_ok P \<Longrightarrow> keys_from_bytes P bs h = (ks, h') \<Longrightarrow> \<forall>k\<in>set ks. ticketKey_ok k"
  by (induction bs arbitrary: h ks h') (fastforce simp: Let_def dest: ticketKeyFromBytes_made split: prod.splits)+

lemma keys_from_bytes_length: "keys_from_bytes P bs h = (ks, h') \<Longrightarrow> length ks = length bs"
  by (induction bs arbitrary: h ks h') (fastforce simp: Let_def split: prod.splits)+

lemma SetSessionTicketKeys_keeps:
  assumes "hashes_ok P" and "config_wf c" and "SetSessionTicketKeys P bs (c, h) = Returned () (c', h')"
  shows "config_wf c' \<and> cfg_readers c' = cfg_readers c \<and> length (cfg_sessionTicketKeys c') = length bs \<and> bs \<noteq> []"
  using assms keys_from_bytes_ok [OF assms(1), of bs h] keys_from_bytes_length [of P bs h]
  by (auto simp: SetSessionTicketKeys_def config_wf_def Let_def split: if_splits prod.splits)

lemma Clone_keeps:
  "config_wf c \<Longrightarrow> Clone (Some c) = Some c' \<Longrightarrow>
     config_wf c' \<and> cfg_readers c' = 0 \<and> cfg_sessionTicketKeys c' = cfg_sessionTicketKeys c \<and>
     cfg_autoSessionTicketKeys c' = cfg_autoSessionTicketKeys c"
  by (auto simp: Clone_def config_wf_def)

text \<open>With tickets disabled in the configuration for the client, its read lock is never released.\<close>

lemma ticketKeys_leaks_lock:
  assumes "cfg_SessionTicketsDisabled cc" and "bs \<noteq> []"
  shows "ticketKeys P (Some cc, c, h) = Returned [] (Some (RLock cc), c, h)"
    and "\<exists>h'. SetSessionTicketKeys P bs (RLock cc, h) = Blocked (RLock cc, h')"
  using assms by (auto simp: ticketKeys_def SetSessionTicketKeys_def Let_def split: prod.splits)

text \<open>A ticket that is issued after an expired one was refused is expired as well.\<close>

lemma new_ticket_expired:
  assumes "shs_sessionState hs = Some s" and "now - nanoseconds (sint (ss_createdAt s)) > maxSessionTicketLifetime"
  shows "resumption_suite E t' hs' (ticket_state t hs suiteID now) now = None"
  using assms by (simp add: resumption_suite_def ticket_state_def)

end
