(* ===== verification/KeyAgreementLemmas.thy ===== *)
theory KeyAgreementLemmas
  imports KeyAgreement
begin

text \<open>
  Client and server compute the same premaster secret, and the signature of an honest server is
  accepted; the common contract of the two key agreements is the locale \<open>key_agreement\<close>.
\<close>

section \<open>Layout of the messages\<close>

text \<open>Public keys fit a length byte, signatures and RSA ciphertexts two.\<close>

definition short_keys :: "crypto \<Rightarrow> bool" where
  "short_keys P \<longleftrightarrow> (\<forall>rnd i a pub. generateECDHEParameters P rnd i = Inr a \<longrightarrow> PublicKey P a = Some pub \<longrightarrow> length pub < 256)"

definition short_signatures :: "privateKey \<Rightarrow> bool" where
  "short_signatures k \<longleftrightarrow> (\<forall>msg h pss sig. signs k msg h pss sig \<longrightarrow> length sig < 65536)"

lemma generate_CurveID: "generateECDHEParameters P rnd i = Inr a \<Longrightarrow> CurveID a = i"
  by (auto simp: generateECDHEParameters_def split: if_splits option.splits)

lemma params_layout:
  assumes "length pub < 256" and "key = ecdhe_params i pub @ sig"
  shows "length key = 4 + length pub + length sig" and "key ! 0 = 3"
    and "word_of_nat (be_dec (take 2 (drop 1 key))) = i" and "unat (key ! 3) = length pub"
    and "take (4 + length pub) key = ecdhe_params i pub" and "drop (4 + length pub) key = sig"
    and "drop 4 (ecdhe_params i pub) = pub"
proof -
  have k: "key = 3 # be_enc 2 (unat i) @ word_of_nat (length pub) # pub @ sig"
    by (simp add: assms(2) ecdhe_params_def)
  have t: "take 2 (drop 1 key) = be_enc 2 (unat i)" unfolding k by simp
  show "word_of_nat (be_dec (take 2 (drop 1 key))) = i" unfolding t by (simp del: be_dec.simps be_enc.simps)
  have "key ! 3 = word_of_nat (length pub)" unfolding k be_enc_2 by simp
  then show "unat (key ! 3) = length pub" using assms(1) by simp
  have "length (ecdhe_params i pub) = 4 + length pub" by (simp add: ecdhe_params_def)
  then show "length key = 4 + length pub + length sig" "take (4 + length pub) key = ecdhe_params i pub"
    "drop (4 + length pub) key = sig" by (simp_all add: assms(2))
qed (simp_all add: assms(2) ecdhe_params_def)

lemma take_be_enc_u16: "word_of_nat (be_dec (take 2 (be_enc 2 (unat (a :: u16)) @ r))) = a"
  by (simp del: be_enc.simps be_dec.simps)

section \<open>The signature\<close>

lemma selectSignatureScheme_Inr:
  assumes "selectSignatureScheme v cert algs = Inr a"
  shows "a \<in> set (signatureSchemesForCertificate v cert)" and "algs \<noteq> [] \<Longrightarrow> a \<in> set algs"
  using assms by (auto simp: selectSignatureScheme_def Let_def split: if_splits option.splits dest!: first_supported_Some)

lemma server_sigType_fits:
  assumes "server_sigType v cert pub algs = Inr (a, t, h)" and "pk_signer (tc_PrivateKey cert) = Some pub"
  shows "key_fits t pub" and "v \<ge> VersionTLS12 \<Longrightarrow> typeAndHashFromSignatureScheme a = Inr (t, h)"
    and "v \<ge> VersionTLS12 \<Longrightarrow> algs \<noteq> [] \<Longrightarrow> a \<in> set algs"
    and "\<not> v \<ge> VersionTLS12 \<Longrightarrow> legacyTypeAndHashFromPublicKey pub = Inr (t, h)"
proof -
  show "key_fits t pub"
  proof (cases "v \<ge> VersionTLS12")
    case True
    with assms(1) have "selectSignatureScheme v cert algs = Inr a" "typeAndHashFromSignatureScheme a = Inr (t, h)"
      by (auto simp: server_sigType_def split: sum.splits)
    from signatureSchemes_fit [OF selectSignatureScheme_Inr(1) [OF this(1)]] this(2) assms(2) show ?thesis by auto
  next
    case False
    with assms(1) show ?thesis
      by (cases pub) (auto simp: server_sigType_def legacyTypeAndHashFromPublicKey_def)
  qed
qed (use assms(1) in \<open>auto simp: server_sigType_def split: sum.splits dest: selectSignatureScheme_Inr(2)\<close>)

lemma sign_params_Inr:
  assumes "sign_params P ka cert ch sh params h = Some (Inr skx, h')"
  obtains pub a t al msg rnd sig where "pk_signer (tc_PrivateKey cert) = Some pub"
    and "server_sigType (ka_version ka) cert pub (ch_supportedSignatureAlgorithms ch) = Inr (a, t, al)"
    and "is_rsa_type t = ka_isRSA ka"
    and "hashForServerKeyExchange P t al (ka_version ka) [ch_random ch, sh_random sh, params] = Some msg"
    and "pk_Sign (tc_PrivateKey cert) rnd msg al (t = signatureRSAPSS) = Some sig"
    and "ske_key skx = params @ (if ka_version ka \<ge> VersionTLS12 then be_enc 2 (unat a) else []) @ be_enc 2 (length sig) @ sig"
  using assms
  by (auto simp: sign_params_def host_source_def Let_def bind_eq_Some_conv split: option.splits sum.splits if_splits prod.splits)

lemma signature_accepted:
  assumes X: "pki_ok X (tc_PrivateKey cert)" and short: "short_signatures (tc_PrivateKey cert)"
    and pub: "pk_signer (tc_PrivateKey cert) = Some (x_PublicKey x)"
    and s: "sign_params P ka cert ch sh params h = Some (Inr skx, h')"
    and v: "ka_version kc = ka_version ka" "ka_isRSA kc = ka_isRSA ka"
    and algs: "ch_supportedSignatureAlgorithms ch \<noteq> []"
  shows "\<exists>sig. ske_key skx = params @ sig \<and> 2 \<le> length sig \<and> check_params_signature P X kc ch sh x params sig = Some None"
proof -
  from s obtain a t al msg rnd sig where
    ty: "server_sigType (ka_version ka) cert (x_PublicKey x) (ch_supportedSignatureAlgorithms ch) = Inr (a, t, al)"
    and r: "is_rsa_type t = ka_isRSA ka"
    and m: "hashForServerKeyExchange P t al (ka_version ka) [ch_random ch, sh_random sh, params] = Some msg"
    and sg: "pk_Sign (tc_PrivateKey cert) rnd msg al (t = signatureRSAPSS) = Some sig"
    and k: "ske_key skx = params @ (if ka_version ka \<ge> VersionTLS12 then be_enc 2 (unat a) else []) @ be_enc 2 (length sig) @ sig"
    using pub by (auto elim: sign_params_Inr)
  note fit = server_sigType_fits [OF ty pub]
  have ok: "verifyHandshakeSignature X t (x_PublicKey x) al msg sig = None"
    by (rule signature_verifies [OF X pub fit(1) sg])
  have len: "length sig < 65536" using short sg unfolding short_signatures_def signs_def by blast
  let ?s = "(if ka_version ka \<ge> VersionTLS12 then be_enc 2 (unat a) else []) @ be_enc 2 (length sig) @ sig"
  have d: "be_dec (be_enc 2 (length sig)) = length sig" using len by (simp add: be_dec_enc)
  have "check_params_signature P X kc ch sh x params ?s = Some None"
  proof (cases "ka_version ka \<ge> VersionTLS12")
    case True
    then show ?thesis using fit(2,3) algs r m ok d v
      by (simp add: check_params_signature_def take_be_enc_u16 del: be_enc.simps be_dec.simps)
  next
    case False
    then show ?thesis using fit(4) r m ok d v
      by (simp add: check_params_signature_def del: be_enc.simps be_dec.simps)
  qed
  moreover have "2 \<le> length ?s" by simp
  ultimately show ?thesis using k by blast
qed

section \<open>Diffie-Hellman\<close>

lemma generateSKX_Inr:
  assumes "ecdhe_generateServerKeyExchange P config ka cert ch sh h = Some (Inr (skx, ka'), h')"
  obtains i rnd sp spub h1 where "i = X25519 \<or> curveForCurveID i \<noteq> None" and "generateECDHEParameters P rnd i = Inr sp"
    and "PublicKey P sp = Some spub" and "sign_params P ka cert ch sh (ecdhe_params i spub) h1 = Some (Inr skx, h')"
    and "ka' = ka\<lparr>ka_params := Some sp\<rparr>" and "i \<in> set (ch_supportedCurves ch)" and "supportsCurve (Some config) i"
proof -
  define i where "i = (case find (supportsCurve (Some config)) (ch_supportedCurves ch) of Some c \<Rightarrow> c | None \<Rightarrow> 0)"
  from assms obtain sp spub h1 r where g: "i \<noteq> 0" "i = X25519 \<or> curveForCurveID i \<noteq> None"
      "generateECDHEParameters P (fst (host_source h)) i = Inr sp" "PublicKey P sp = Some spub"
      "sign_params P ka cert ch sh (ecdhe_params i spub) (snd (host_source h)) = Some (r, h')"
      "map_sum id (\<lambda>skx. (skx, ka\<lparr>ka_params := Some sp\<rparr>)) r = Inr (skx, ka')"
    unfolding ecdhe_generateServerKeyExchange_def i_def [symmetric] Let_def
    by (auto simp: case_prod_unfold bind_eq_Some_conv split: if_splits sum.splits)
  from g(1) have "find (supportsCurve (Some config)) (ch_supportedCurves ch) = Some i"
    by (auto simp: i_def split: option.splits)
  then have "i \<in> set (ch_supportedCurves ch)" "supportsCurve (Some config) i" by (auto simp: find_Some_iff)
  with g show ?thesis by (cases r) (auto intro: that)
qed

lemma ecdhe_agree:
  assumes P: "dh_ok P" and short: "short_keys P" "short_signatures (tc_PrivateKey cert)"
    and X: "pki_ok X (tc_PrivateKey cert)" and pub: "pk_signer (tc_PrivateKey cert) = Some (x_PublicKey x)"
    and srv: "ecdhe_generateServerKeyExchange P config ka cert ch sh hs = Some (Inr (skx, ka'), hs')"
    and v: "ka_version kc = ka_version ka" "ka_isRSA kc = ka_isRSA ka" and algs: "ch_supportedSignatureAlgorithms ch \<noteq> []"
    and sp: "ka_params ka' = Some sp" "PublicKey P sp = Some spub"
    and cp: "generateECDHEParameters P (h_rand hc (h_draws hc)) (CurveID sp) = Inr cp" "SharedKey P cp spub = Some (Some pms)"
  shows "\<exists>kc' ckx. ecdhe_processServerKeyExchange P X kc ch sh x skx hc = Some (Inr kc', hc\<lparr>h_draws := Suc (h_draws hc)\<rparr>) \<and>
    ecdhe_generateClientKeyExchange kc' = Inr (pms, ckx) \<and> ecdhe_processClientKeyExchange P ka' ckx = Some (Inr pms)"
proof -
  obtain i rnd sp' spub' h1 where i: "i = X25519 \<or> curveForCurveID i \<noteq> None"
    and g': "generateECDHEParameters P rnd i = Inr sp'" "PublicKey P sp' = Some spub'"
    and sg': "sign_params P ka cert ch sh (ecdhe_params i spub') h1 = Some (Inr skx, hs')"
    and ka': "ka' = ka\<lparr>ka_params := Some sp'\<rparr>"
    using srv by (rule generateSKX_Inr)
  have eq: "sp' = sp" "spub' = spub" using ka' sp g' by auto
  note g = g'(1) [unfolded eq] and sg = sg' [unfolded eq]
  note [simp] = generate_CurveID [OF g]
  have ls: "length spub < 256" using short(1) g sp(2) by (auto simp: short_keys_def)
  from sharedKey_agrees [OF P g cp(1) [simplified]] sp(2) cp(2) obtain cpub where
    c: "PublicKey P cp = Some cpub" "SharedKey P sp cpub = Some (Some pms)" by auto
  have lc: "length cpub < 256" using short(1) cp(1) c(1) by (auto simp: short_keys_def)
  from signature_accepted [OF X short(2) pub sg v algs] obtain sig where
    k: "ske_key skx = ecdhe_params i spub @ sig" "2 \<le> length sig"
    and ok: "check_params_signature P X kc ch sh x (ecdhe_params i spub) sig = Some None" by blast
  note L = params_layout [OF ls k(1)]
  let ?kc = "kc\<lparr>ka_params := Some cp, ka_preMasterSecret := pms, ka_ckx := Some (be_enc 1 (length cpub) @ cpub)\<rparr>"
  have "ecdhe_processServerKeyExchange P X kc ch sh x skx hc = Some (Inr ?kc, hc\<lparr>h_draws := Suc (h_draws hc)\<rparr>)"
    using i cp c ok k(2) unfolding ecdhe_processServerKeyExchange_def Let_def L(1-4) add.commute [of "length spub" 4] L(5-7)
    by (auto simp: host_source_def simp del: be_enc.simps)
  moreover have "ecdhe_processClientKeyExchange P ka' \<lparr>cke_raw = None, cke_ciphertext = be_enc 1 (length cpub) @ cpub\<rparr> = Some (Inr pms)"
    using lc c by (simp add: ecdhe_processClientKeyExchange_def ka' eq)
  ultimately show ?thesis by (simp add: ecdhe_generateClientKeyExchange_def)
qed

section \<open>RSA\<close>

lemma rsa_agree:
  assumes X: "pki_ok X (tc_PrivateKey cert)" and pub: "pk_decrypter (tc_PrivateKey cert) = Some (x_PublicKey x)"
    and rnd: "\<And>i n b. h_rand hc i n = Some b \<Longrightarrow> length b = n"
    and c: "rsa_generateClientKeyExchange X ch x hc = (Inr (pms, ckx), hc')" and len: "length (cke_ciphertext ckx) < 65536"
  shows "fst (rsa_processClientKeyExchange cert ckx hs) = Inr pms" and "length pms = 48"
proof -
  from c obtain random enc r where g: "h_rand hc (h_draws hc) 46 = Some random"
      "rsa_EncryptPKCS1v15 X r (x_PublicKey x) pms = Some enc" "pms = be_enc 2 (unat (ch_vers ch)) @ random"
      "ckx = \<lparr>cke_raw = None, cke_ciphertext = be_enc 2 (length enc) @ enc\<rparr>"
    by (auto simp: rsa_generateClientKeyExchange_def host_ReadFull_def host_source_def Let_def
        split: option.splits publicKey.splits)
  show l: "length pms = 48" using rnd [OF g(1)] g(3) by simp
  have "pk_Decrypt (tc_PrivateKey cert) (h_rand hs (h_draws hs)) enc 48 = Some pms"
    using X pub g(2) l unfolding pki_ok_def by blast
  moreover have "be_dec (be_enc 2 (length enc)) = length enc" using len g(4) by (simp add: be_dec_enc)
  ultimately show "fst (rsa_processClientKeyExchange cert ckx hs) = Inr pms"
    using g(4) pub by (simp add: rsa_processClientKeyExchange_def host_source_def del: be_enc.simps be_dec.simps)
qed

section \<open>The contract of the interface\<close>

text \<open>
  What the handshakes rely on: a client that is able to (its random source and its primitives do not fail) answers
  the server's message with a reply, and from the reply the server computes the client's premaster secret.
\<close>

locale key_agreement =
  fixes server_hello :: "'s \<Rightarrow> ('m \<times> 's) option"
    and client_reply :: "'c \<Rightarrow> 'm \<Rightarrow> (bytes \<times> 'x) option"
    and server_secret :: "'s \<Rightarrow> 'x \<Rightarrow> bytes option"
    and meet :: "'s \<Rightarrow> 'c \<Rightarrow> bool"
    and able :: "'s \<Rightarrow> 'c \<Rightarrow> bool"
  assumes replies: "meet s c \<Longrightarrow> server_hello s = Some (m, s') \<Longrightarrow> able s' c \<Longrightarrow> \<exists>r. client_reply c m = Some r"
    and agree: "meet s c \<Longrightarrow> server_hello s = Some (m, s') \<Longrightarrow> client_reply c m = Some (pms, x) \<Longrightarrow>
    server_secret s' x = Some pms"
begin

lemma replies_agree:
  assumes "meet s c" and "server_hello s = Some (m, s')" and "able s' c"
  shows "\<exists>pms x. client_reply c m = Some (pms, x) \<and> server_secret s' x = Some pms"
  using replies [OF assms] agree [OF assms(1,2)] by force

text \<open>Hence both derive the same master secret and the same keys.\<close>

lemma same_master:
  assumes "meet s c" and "server_hello s = Some (m, s')" and "client_reply c m = Some (pms, x)"
  shows "Option.bind (server_secret s' x) (\<lambda>k. masterFromPreMasterSecret P v suite k cr sr) =
    masterFromPreMasterSecret P v suite pms cr sr"
  using agree [OF assms] by simp

end

text \<open>The two ends: configuration, key agreement, certificate and random source.\<close>

record server_end =
  se_config :: Config
  se_ka :: keyAgreement
  se_cert :: tlsCertificate
  se_host :: host

record client_end =
  ce_ka :: keyAgreement
  ce_cert :: x509
  ce_host :: host

definition server_hello_step ::
  "crypto \<Rightarrow> clientHelloMsg \<Rightarrow> serverHelloMsg \<Rightarrow> server_end \<Rightarrow> (serverKeyExchangeMsg option \<times> server_end) option" where
  "server_hello_step P ch sh s =
     (case generateServerKeyExchange P (se_config s) (se_ka s) (se_cert s) ch sh (se_host s) of
        Some (Inr (skx, ka), h) \<Rightarrow> Some (skx, s\<lparr>se_ka := ka, se_host := h\<rparr>)
      | _ \<Rightarrow> None)"

definition client_reply_step ::
  "crypto \<Rightarrow> pki \<Rightarrow> clientHelloMsg \<Rightarrow> serverHelloMsg \<Rightarrow> client_end \<Rightarrow> serverKeyExchangeMsg option \<Rightarrow>
     (bytes \<times> clientKeyExchangeMsg) option" where
  "client_reply_step P X ch sh c skx =
     (case (case skx of None \<Rightarrow> Some (Inr (ce_ka c), ce_host c)
            | Some m \<Rightarrow> processServerKeyExchange P X (ce_ka c) ch sh (ce_cert c) m (ce_host c)) of
        Some (Inr ka, h) \<Rightarrow> (case generateClientKeyExchange X ka ch (ce_cert c) h of (Inr r, _) \<Rightarrow> Some r | _ \<Rightarrow> None)
      | _ \<Rightarrow> None)"

definition server_secret_step :: "crypto \<Rightarrow> server_end \<Rightarrow> clientKeyExchangeMsg \<Rightarrow> bytes option" where
  "server_secret_step P s ckx =
     (case processClientKeyExchange P (se_ka s) (se_cert s) ckx (se_host s) of Some (Inr pms, _) \<Rightarrow> Some pms | _ \<Rightarrow> None)"

text \<open>
  The ends fit: the same suite, a certificate for the server's private key, primitives that do what
  they promise, and a client that offers signature algorithms.
\<close>

definition ends_meet :: "crypto \<Rightarrow> pki \<Rightarrow> clientHelloMsg \<Rightarrow> server_end \<Rightarrow> client_end \<Rightarrow> bool" where
  "ends_meet P X ch s c \<longleftrightarrow>
     (let key = tc_PrivateKey (se_cert s); pub = x_PublicKey (ce_cert c)
      in dh_ok P \<and> short_keys P \<and> pki_ok X key \<and> short_signatures key \<and> ce_ka c = se_ka s \<and>
         ch_supportedSignatureAlgorithms ch \<noteq> [] \<and> (\<forall>i n b. h_rand (ce_host c) i n = Some b \<longrightarrow> length b = n) \<and>
         (\<forall>r m e. rsa_EncryptPKCS1v15 X r pub m = Some e \<longrightarrow> length e + 2 < 65536) \<and>
         (case se_ka s of
            RsaKeyAgreement \<Rightarrow> pk_decrypter key = Some pub
          | EcdheKeyAgreement e \<Rightarrow> pk_signer key = Some pub \<and> ka_ckx e = None))"

text \<open>The client's own steps succeed: for RSA its random bytes and the encryption, for ECDHE its key pair and the shared key.\<close>

definition client_able :: "crypto \<Rightarrow> pki \<Rightarrow> clientHelloMsg \<Rightarrow> server_end \<Rightarrow> client_end \<Rightarrow> bool" where
  "client_able P X ch s c \<longleftrightarrow>
     (let h = ce_host c; pub = x_PublicKey (ce_cert c)
      in case se_ka s of
           RsaKeyAgreement \<Rightarrow>
             (\<exists>random n k. h_rand h (h_draws h) 46 = Some random \<and> pub = RSAKey n k \<and>
                rsa_EncryptPKCS1v15 X (h_rand h (Suc (h_draws h))) pub (be_enc 2 (unat (ch_vers ch)) @ random) \<noteq> None)
         | EcdheKeyAgreement e \<Rightarrow>
             (\<exists>sp spub cp pms. ka_params e = Some sp \<and> PublicKey P sp = Some spub \<and>
                generateECDHEParameters P (h_rand h (h_draws h)) (CurveID sp) = Inr cp \<and>
                SharedKey P cp spub = Some (Some pms)))"

lemma ecdhe_client_success:
  assumes "ecdhe_processServerKeyExchange P X kc ch sh x skx hc = Some (Inr kc', hc')"
    and "ske_key skx = ecdhe_params i spub @ sig" and "length spub < 256"
  obtains cp pms where "generateECDHEParameters P (h_rand hc (h_draws hc)) i = Inr cp"
    and "SharedKey P cp spub = Some (Some pms)"
proof -
  note L = params_layout [OF assms(3,2)]
  from assms(1) obtain cp where "generateECDHEParameters P (h_rand hc (h_draws hc)) i = Inr cp"
      "SharedKey P cp spub \<noteq> None" "SharedKey P cp spub \<noteq> Some None"
    unfolding ecdhe_processServerKeyExchange_def Let_def L(1-4) add.commute [of "length spub" 4] L(5-7)
    by (auto simp: host_source_def bind_eq_Some_conv split: if_splits sum.splits option.splits)
  moreover from this obtain pms where "SharedKey P cp spub = Some (Some pms)" by auto
  ultimately show ?thesis using that by blast
qed

lemma map_sum_Inr: "map_sum f g x = Inr y \<longleftrightarrow> (\<exists>z. x = Inr z \<and> y = g z)"
  by (cases x) auto

lemma ends_agree:
  assumes m: "ends_meet P X ch s c" and s: "server_hello_step P ch sh s = Some (skx, s')"
    and c: "client_reply_step P X ch sh c skx = Some (pms, ckx)"
  shows "server_secret_step P s' ckx = Some pms"
proof (cases "se_ka s")
  case RsaKeyAgreement
  from s RsaKeyAgreement have s': "skx = None" "s' = s"
    by (auto simp: server_hello_step_def generateServerKeyExchange_def)
  note D = m [unfolded ends_meet_def Let_def RsaKeyAgreement]
  from c s' RsaKeyAgreement D obtain h where
    g: "rsa_generateClientKeyExchange X ch (ce_cert c) (ce_host c) = (Inr (pms, ckx), h)"
    by (auto simp: client_reply_step_def generateClientKeyExchange_def split: prod.splits sum.splits)
  then have "length (cke_ciphertext ckx) < 65536" using D
    by (auto simp: rsa_generateClientKeyExchange_def Let_def split: option.splits publicKey.splits prod.splits)
  from rsa_agree(1) [OF _ _ _ g this, of "se_cert s" "se_host s"] D
  have "fst (rsa_processClientKeyExchange (se_cert s) ckx (se_host s)) = Inr pms" by simp
  then show ?thesis using RsaKeyAgreement s'
    by (cases "rsa_processClientKeyExchange (se_cert s) ckx (se_host s)")
      (simp add: server_secret_step_def processClientKeyExchange_def)
next
  case (EcdheKeyAgreement e)
  note D = m [unfolded ends_meet_def Let_def EcdheKeyAgreement]
  from s EcdheKeyAgreement obtain sk e' h where
    g: "ecdhe_generateServerKeyExchange P (se_config s) e (se_cert s) ch sh (se_host s) = Some (Inr (sk, e'), h)"
    and s': "skx = Some sk" "s' = s\<lparr>se_ka := EcdheKeyAgreement e', se_host := h\<rparr>"
    by (auto simp: server_hello_step_def generateServerKeyExchange_def map_sum_Inr split: option.splits prod.splits sum.splits)
  obtain i rnd sp spub h1 where sp: "generateECDHEParameters P rnd i = Inr sp" "PublicKey P sp = Some spub"
      "sign_params P e (se_cert s) ch sh (ecdhe_params i spub) h1 = Some (Inr sk, h)" "e' = e\<lparr>ka_params := Some sp\<rparr>"
    using g by (rule generateSKX_Inr)
  have ls: "length spub < 256" using D sp(1,2) by (auto simp: short_keys_def)
  from sp(3) obtain sig where k: "ske_key sk = ecdhe_params i spub @ sig" by (auto elim: sign_params_Inr)
  from c s'(1) D obtain kc' hc' where
    p: "ecdhe_processServerKeyExchange P X e ch sh (ce_cert c) sk (ce_host c) = Some (Inr kc', hc')"
    and ck: "ecdhe_generateClientKeyExchange kc' = Inr (pms, ckx)"
    by (auto simp: client_reply_step_def processServerKeyExchange_def generateClientKeyExchange_def map_sum_Inr
        split: option.splits prod.splits sum.splits)
  from ecdhe_client_success [OF p k ls] obtain cp pms' where
    cp: "generateECDHEParameters P (h_rand (ce_host c) (h_draws (ce_host c))) (CurveID sp) = Inr cp" "SharedKey P cp spub = Some (Some pms')"
    using generate_CurveID [OF sp(1)] by auto
  have "dh_ok P" "short_keys P" "short_signatures (tc_PrivateKey (se_cert s))" "pki_ok X (tc_PrivateKey (se_cert s))"
    "pk_signer (tc_PrivateKey (se_cert s)) = Some (x_PublicKey (ce_cert c))" "ch_supportedSignatureAlgorithms ch \<noteq> []"
    using D by simp_all
  from ecdhe_agree [OF this(1-5) g refl refl this(6) _ sp(2) cp] p ck sp(4)
  have "ecdhe_processClientKeyExchange P e' ckx = Some (Inr pms)" by auto
  then show ?thesis by (simp add: server_secret_step_def processClientKeyExchange_def s'(2))
qed

lemma ends_reply:
  assumes m: "ends_meet P X ch s c" and s: "server_hello_step P ch sh s = Some (skx, s')" and a: "client_able P X ch s' c"
  shows "\<exists>r. client_reply_step P X ch sh c skx = Some r"
proof (cases "se_ka s")
  case RsaKeyAgreement
  with s have s': "skx = None" "s' = s" by (auto simp: server_hello_step_def generateServerKeyExchange_def)
  with a m RsaKeyAgreement show ?thesis
    by (auto simp: client_able_def ends_meet_def client_reply_step_def generateClientKeyExchange_def Let_def
        rsa_generateClientKeyExchange_def host_ReadFull_def host_source_def simp del: be_enc.simps)
next
  case (EcdheKeyAgreement e)
  note D = m [unfolded ends_meet_def Let_def EcdheKeyAgreement]
  from s EcdheKeyAgreement obtain sk e' h where
    g: "ecdhe_generateServerKeyExchange P (se_config s) e (se_cert s) ch sh (se_host s) = Some (Inr (sk, e'), h)"
    and s': "skx = Some sk" "s' = s\<lparr>se_ka := EcdheKeyAgreement e', se_host := h\<rparr>"
    by (auto simp: server_hello_step_def generateServerKeyExchange_def map_sum_Inr split: option.splits prod.splits sum.splits)
  from a s'(2) obtain sp spub cp pms where sp: "ka_params e' = Some sp" "PublicKey P sp = Some spub"
    and cp: "generateECDHEParameters P (h_rand (ce_host c) (h_draws (ce_host c))) (CurveID sp) = Inr cp" "SharedKey P cp spub = Some (Some pms)"
    by (auto simp: client_able_def Let_def)
  have "dh_ok P" "short_keys P" "short_signatures (tc_PrivateKey (se_cert s))" "pki_ok X (tc_PrivateKey (se_cert s))"
    "pk_signer (tc_PrivateKey (se_cert s)) = Some (x_PublicKey (ce_cert c))" "ch_supportedSignatureAlgorithms ch \<noteq> []"
    "ce_ka c = EcdheKeyAgreement e"
    using D EcdheKeyAgreement by simp_all
  from ecdhe_agree [OF this(1-5) g refl refl this(6) sp cp] this(7) s'(1) show ?thesis
    by (auto simp: client_reply_step_def processServerKeyExchange_def generateClientKeyExchange_def)
qed

interpretation agreement: key_agreement "server_hello_step P ch sh" "client_reply_step P X ch sh" "server_secret_step P"
  "ends_meet P X ch" "client_able P X ch" for P X ch sh
  by unfold_locales (rule ends_reply, assumption+, rule ends_agree)

end
