(* ===== verification/Client12.thy ===== *)
theory Client12
  imports Server12
begin

text \<open>
  The client handshake up to TLS 1.2 (\<open>handshake_client.go\<close>), and what both versions of the client share:
  ClientHello, the session to resume, and the verification of the server's certificate.
\<close>

section \<open>ClientHello\<close>

definition trim_zone :: "bytes \<Rightarrow> bytes" where
  "trim_zone host =
     (let n = length (takeWhile (\<lambda>b. b \<noteq> 37) (rev host))
      in if n < length host \<and> length host - Suc n > 0 then take (length host - Suc n) host else host)"

definition hostnameInSNI :: "pki \<Rightarrow> bytes \<Rightarrow> bytes" where
  "hostnameInSNI X name =
     (let host = (if length name > 0 \<and> hd name = 91 \<and> last name = 93 then butlast (tl name) else name)
      in if ParseIP X (trim_zone host) then [] else rev (dropWhile (\<lambda>b. b = 46) (rev name)))"

text \<open>The suites of the preference order that are configured, without those of TLS 1.2 for older versions.\<close>

definition hello_cipherSuites :: "'b env \<Rightarrow> Config \<Rightarrow> u16 \<Rightarrow> u16 list" where
  "hello_cipherSuites E config vers =
     filter (\<lambda>suiteId. case mutualCipherSuite (e_P E) (config_cipherSuites config) suiteId of
         None \<Rightarrow> False
       | Some suite \<Rightarrow> \<not> (vers < VersionTLS12 \<and> cs_flags suite AND suiteTLS12 \<noteq> 0))
       (if \<not> hasAESGCMHardwareSupport (e_GOARCH E) then cipherSuitesPreferenceOrderNoAES else cipherSuitesPreferenceOrder)"

definition new_clientHello :: "'b env \<Rightarrow> tlsConn \<Rightarrow> clientHelloMsg" where
  "new_clientHello E t =
     (let config = t_config t; v = maxSupportedVersion (e_D E) (Some config) roleClient;
          clientHelloVersion = (if v > VersionTLS12 then VersionTLS12 else v)
      in \<lparr>ch_raw = None, ch_vers = clientHelloVersion, ch_random = [], ch_sessionId = [],
          ch_cipherSuites = hello_cipherSuites E config clientHelloVersion,
          ch_compressionMethods = [compressionNone], ch_serverName = hostnameInSNI (e_X E) (cfg_ServerName config),
          ch_ocspStapling = True, ch_supportedCurves = curvePreferences (Some config),
          ch_supportedPoints = [pointFormatUncompressed], ch_ticketSupported = False, ch_sessionTicket = [],
          ch_supportedSignatureAlgorithms = (if clientHelloVersion \<ge> VersionTLS12 then supportedSignatureAlgorithms else []),
          ch_supportedSignatureAlgorithmsCert = [], ch_secureRenegotiationSupported = True,
          ch_secureRenegotiation = (if c_handshakes (t_conn t) > 0 then t_clientFinished t else []),
          ch_alpnProtocols = cfg_NextProtos config, ch_scts = True,
          ch_supportedVersions = config_supportedVersions (e_D E) (Some config) roleClient,
          ch_cookie = [], ch_keyShares = [], ch_earlyData = False, ch_pskModes = [], ch_pskIdentities = [],
          ch_pskBinders = []\<rparr>)"

definition add_tls13 :: "'b env \<Rightarrow> tlsConn \<Rightarrow> clientHelloMsg \<Rightarrow> (clientHelloMsg \<times> ecdheParameters option) act" where
  "add_tls13 E t hello =
     (case ch_supportedVersions hello of
        [] \<Rightarrow> total None
      | v # _ \<Rightarrow>
          if v = VersionTLS13 then
            let suites = (if hasAESGCMHardwareSupport (e_GOARCH E) then defaultCipherSuitesTLS13 else defaultCipherSuitesTLS13NoAES)
            in after (total (case curvePreferences (Some (t_config t)) of [] \<Rightarrow> None | c # _ \<Rightarrow> Some c)) (\<lambda>curveID.
               if curveID \<noteq> X25519 \<and> curveForCurveID curveID = None then
                 fail (OtherError ''tls: CurvePreferences includes unsupported curve'')
               else
                 after (with_host host_source) (\<lambda>rnd.
                 after (of_result (generateECDHEParameters (e_P E) rnd curveID)) (\<lambda>params.
                 after (total (PublicKey (e_P E) params)) (\<lambda>pub.
                 ret (hello\<lparr>ch_cipherSuites := ch_cipherSuites hello @ suites,
                       ch_keyShares := [\<lparr>ks_group = curveID, ks_data = pub\<rparr>]\<rparr>, Some params)))))
          else ret (hello, None))"

definition makeClientHello :: "'b env \<Rightarrow> (clientHelloMsg \<times> ecdheParameters option) act" where
  "makeClientHello E = after the_state (\<lambda>t.
     let config = t_config t; protos = cfg_NextProtos config
     in if length (cfg_ServerName config) = 0 \<and> \<not> cfg_InsecureSkipVerify config then
          fail (OtherError ''tls: either ServerName or InsecureSkipVerify must be specified in the tls.Config'')
        else if list_ex (\<lambda>proto. length proto = 0 \<or> length proto > 255) protos then
          fail (OtherError ''tls: invalid NextProtos value'')
        else if sum_list (map (\<lambda>proto. 1 + length proto) protos) > 0xffff then
          fail (OtherError ''tls: NextProtos values too large'')
        else if length (config_supportedVersions (e_D E) (Some config) roleClient) = 0 then
          fail (OtherError ''tls: no supported versions satisfy MinVersion and MaxVersion'')
        else
          after (with_host (host_ReadFull 32)) (\<lambda>random.
          after (with_host (\<lambda>h. if random = None then (None, h) else host_ReadFull 32 h)) (\<lambda>sessionId.
          case (random, sessionId) of
            (Some r, Some i) \<Rightarrow> add_tls13 E t ((new_clientHello E t)\<lparr>ch_random := r, ch_sessionId := i\<rparr>)
          | _ \<Rightarrow> fail (OtherError ''tls: short read from Rand''))))"

section \<open>Sessions\<close>

definition clientSessionCacheKey :: "tlsConn \<Rightarrow> bytes" where
  "clientSessionCacheKey t =
     (if length (cfg_ServerName (t_config t)) > 0 then cfg_ServerName (t_config t) else t_remoteAddr t)"

definition cache_Get :: "bytes \<Rightarrow> ClientSessionState option act" where
  "cache_Get key t =
     (let r = lru_Get key (t_sessionCache t) in Some (Inr (found r), t\<lparr>t_sessionCache := snd r\<rparr>))"

definition cache_Put :: "bytes \<Rightarrow> ClientSessionState option \<Rightarrow> unit act" where
  "cache_Put key cs t =
     map_option (\<lambda>c. (Inr (), t\<lparr>t_sessionCache := c\<rparr>)) (lru_Put key cs (t_sessionCache t))"

text \<open>The result of \<open>loadSession\<close>: the changed message, the key (empty for none), the session and its secrets.\<close>

record loadedSession =
  ld_hello :: clientHelloMsg
  ld_cacheKey :: bytes
  ld_session :: "ClientSessionState option"
  ld_earlySecret :: bytes
  ld_binderKey :: bytes

definition no_session :: "clientHelloMsg \<Rightarrow> bytes \<Rightarrow> loadedSession" where
  "no_session hello key = \<lparr>ld_hello = hello, ld_cacheKey = key, ld_session = None, ld_earlySecret = [], ld_binderKey = []\<rparr>"

text \<open>The session is known to have been verified, for the name wanted now, by a certificate still valid.\<close>

datatype session_check = Usable | Unusable | Expired

definition check_session :: "'b env \<Rightarrow> ClientSessionState \<Rightarrow> session_check act" where
  "check_session E session = after the_state (\<lambda>t.
     if cfg_InsecureSkipVerify (t_config t) then ret Usable
     else if length (css_verifiedChains session) = 0 then ret Unusable
     else
       after (total (case css_serverCertificates session of [] \<Rightarrow> None | c # _ \<Rightarrow> Some c)) (\<lambda>serverCert.
       after (with_host host_time) (\<lambda>now.
       ret (if now > x_NotAfter serverCert then Expired
            else if \<not> VerifyHostname (e_X E) serverCert (cfg_ServerName (t_config t)) then Unusable
            else Usable))))"

text \<open>The TLS 1.3 part: the pre-shared key and its binder.\<close>

definition psk_offer ::
  "'b env \<Rightarrow> clientHelloMsg \<Rightarrow> bytes \<Rightarrow> ClientSessionState \<Rightarrow> cipherSuiteTLS13 \<Rightarrow> int \<Rightarrow> loadedSession option" where
  "psk_offer E hello key session suite now =
     (let ticketAge = word_of_int (go_quot (now - css_receivedAt session) 1000000) :: u32;
          n = hash_size (c13_hash suite);
          hello1 = hello\<lparr>ch_pskIdentities := [\<lparr>psk_label = css_sessionTicket session,
              psk_age = ticketAge + css_ageAdd session\<rparr>], ch_pskBinders := [replicate n 0]\<rparr>
      in do {
        psk \<leftarrow> expandLabel (e_P E) (e_B E) suite (css_masterSecret session) (str ''resumption'') (css_nonce session) n;
        let earlySecret = hkdfExtract (e_P E) suite (Some psk) [];
        binderKey \<leftarrow> deriveSecret (e_P E) (e_B E) suite earlySecret resumptionBinderLabel None;
        (msg, hello2) \<leftarrow> marshalWithoutBinders (e_B E) hello1;
        binder \<leftarrow> finishedHash13 (e_P E) (e_B E) suite binderKey (hash_Write msg (hash_new (c13_hash suite)));
        hello3 \<leftarrow> updateBinders (e_B E) [binder] hello2;
        Some \<lparr>ld_hello = hello3, ld_cacheKey = key, ld_session = Some session, ld_earlySecret = earlySecret,
              ld_binderKey = binderKey\<rparr>
      })"

definition load_session13 :: "'b env \<Rightarrow> clientHelloMsg \<Rightarrow> bytes \<Rightarrow> ClientSessionState \<Rightarrow> loadedSession act" where
  "load_session13 E hello key session =
     after (with_host host_time) (\<lambda>now.
     if now > css_useBy session then after (cache_Put key None) (\<lambda>_. ret (no_session hello key))
     else case cipherSuiteTLS13ByID (e_P E) (css_cipherSuite session) of
       None \<Rightarrow> ret (no_session hello key)
     | Some suite \<Rightarrow>
         if \<not> list_ex (\<lambda>offeredID. case cipherSuiteTLS13ByID (e_P E) offeredID of
               None \<Rightarrow> False | Some offered \<Rightarrow> c13_hash offered = c13_hash suite) (ch_cipherSuites hello)
         then ret (no_session hello key)
         else after (with_host host_time) (\<lambda>now1. total (psk_offer E hello key session suite now1)))"

definition loadSession :: "'b env \<Rightarrow> clientHelloMsg \<Rightarrow> loadedSession act" where
  "loadSession E hello0 = after the_state (\<lambda>t.
     if cfg_SessionTicketsDisabled (t_config t) \<or> \<not> cfg_ClientSessionCache (t_config t) then ret (no_session hello0 [])
     else
       after (total (case ch_supportedVersions hello0 of [] \<Rightarrow> None | v # _ \<Rightarrow> Some v)) (\<lambda>v.
       let hello = hello0\<lparr>ch_ticketSupported := True, ch_pskModes := (if v = VersionTLS13 then [pskModeDHE] else ch_pskModes hello0)\<rparr>;
           key = clientSessionCacheKey t
       in if c_handshakes (t_conn t) \<noteq> 0 then ret (no_session hello [])
          else
            after (cache_Get key) (\<lambda>cached.
            case cached of
              None \<Rightarrow> ret (no_session hello key)
            | Some session \<Rightarrow>
                if \<not> list_ex (\<lambda>v. v = css_vers session) (ch_supportedVersions hello) then ret (no_session hello key)
                else
                  after (check_session E session) (\<lambda>chk.
                  case chk of
                    Expired \<Rightarrow> after (cache_Put key None) (\<lambda>_. ret (no_session hello key))
                  | Unusable \<Rightarrow> ret (no_session hello key)
                  | Usable \<Rightarrow>
                      if css_vers session \<noteq> VersionTLS13 then
                        ret (case mutualCipherSuite (e_P E) (ch_cipherSuites hello) (css_cipherSuite session) of
                          None \<Rightarrow> no_session hello key
                        | Some _ \<Rightarrow> (no_session (hello\<lparr>ch_sessionTicket := css_sessionTicket session\<rparr>) key)
                            \<lparr>ld_session := Some session\<rparr>)
                      else load_session13 E hello key session))))"

definition pickTLSVersion :: "'b env \<Rightarrow> serverHelloMsg \<Rightarrow> unit act" where
  "pickTLSVersion E serverHello = after the_state (\<lambda>t.
     let peerVersion = (if sh_supportedVersion serverHello \<noteq> 0 then sh_supportedVersion serverHello else sh_vers serverHello)
     in case mutualVersion (e_D E) (Some (t_config t)) roleClient [peerVersion] of
          None \<Rightarrow> alert_fail alertProtocolVersion (OtherError ''tls: server selected unsupported protocol version'')
        | Some vers \<Rightarrow>
            change_conn (\<lambda>c. c\<lparr>c_vers := vers, c_haveVers := True,
              c_in := (c_in c)\<lparr>hc_version := vers\<rparr>, c_out := (c_out c)\<lparr>hc_version := vers\<rparr>\<rparr>))"

text \<open>The canary of a server that could have done better.\<close>

definition downgrade_detected :: "'b env \<Rightarrow> tlsConn \<Rightarrow> serverHelloMsg \<Rightarrow> bool" where
  "downgrade_detected E t serverHello \<longleftrightarrow>
     (let maxVers = maxSupportedVersion (e_D E) (Some (t_config t)) roleClient;
          tls12Downgrade = drop 24 (sh_random serverHello) = downgradeCanaryTLS12;
          tls11Downgrade = drop 24 (sh_random serverHello) = downgradeCanaryTLS11
      in maxVers = VersionTLS13 \<and> t_vers t \<le> VersionTLS12 \<and> (tls12Downgrade \<or> tls11Downgrade) \<or>
         maxVers = VersionTLS12 \<and> t_vers t \<le> VersionTLS11 \<and> tls11Downgrade)"

section \<open>The server's certificate\<close>

definition verify_server_chain :: "'b env \<Rightarrow> x509 list \<Rightarrow> unit act" where
  "verify_server_chain E certs = after the_state (\<lambda>t.
     if cfg_InsecureSkipVerify (t_config t) then ret ()
     else
       after (with_host host_time) (\<lambda>now.
       after (total (case certs of [] \<Rightarrow> None | c # cs \<Rightarrow> Some (c, cs))) (\<lambda>(leaf, rest).
         let opts = \<lparr>vo_Roots = cfg_RootCAs (t_config t), vo_CurrentTime = now,
               vo_DNSName = cfg_ServerName (t_config t), vo_Intermediates = rest, vo_ClientAuth = False\<rparr>
         in case x509_Verify (e_X E) leaf opts of
              None \<Rightarrow>
                after (change (\<lambda>t. t\<lparr>t_verifiedChains := []\<rparr>)) (\<lambda>_.
                alert_fail alertBadCertificate (OtherError ''x509: certificate verification failed''))
            | Some built \<Rightarrow> change (\<lambda>t. t\<lparr>t_verifiedChains := built\<rparr>))))"

definition verifyServerCertificate :: "'b env \<Rightarrow> bytes list \<Rightarrow> unit act" where
  "verifyServerCertificate E certificates =
     (case parse_certificates (e_X E) certificates of
        None \<Rightarrow> alert_fail alertBadCertificate (OtherError ''tls: failed to parse certificate from server'')
      | Some certs \<Rightarrow>
          after (verify_server_chain E certs) (\<lambda>_.
          after (total (case certs of [] \<Rightarrow> None | c # _ \<Rightarrow> Some c)) (\<lambda>leaf.
          after (ensure (known_key (x_PublicKey leaf)) alertUnsupportedCertificate
            ''tls: server's certificate contains an unsupported type of public key'') (\<lambda>_.
          after (change (\<lambda>t. t\<lparr>t_peerCertificates := certs\<rparr>)) (\<lambda>_.
          after (verify_callback certificates) (\<lambda>_.
          verify_connection))))))"

section \<open>ServerHello\<close>

record clientHandshakeState =
  chs_serverHello :: serverHelloMsg
  chs_hello :: clientHelloMsg
  chs_suite :: "cipherSuite option"
  chs_finishedHash :: "finishedHash option"
  chs_masterSecret :: bytes
  chs_session :: "ClientSessionState option"
  chs_newSession :: bool

definition client_pickCipherSuite :: "'b env \<Rightarrow> clientHandshakeState \<Rightarrow> clientHandshakeState act" where
  "client_pickCipherSuite E hs =
     (case mutualCipherSuite (e_P E) (ch_cipherSuites (chs_hello hs)) (sh_cipherSuite (chs_serverHello hs)) of
        None \<Rightarrow> alert_fail alertHandshakeFailure (OtherError ''tls: server chose an unconfigured cipher suite'')
      | Some suite \<Rightarrow>
          after (change_conn (\<lambda>c. c\<lparr>c_cipherSuite := cs_id suite\<rparr>)) (\<lambda>_.
          ret (hs\<lparr>chs_suite := Some suite\<rparr>)))"

definition checkALPN :: "bytes list \<Rightarrow> bytes \<Rightarrow> conn_error option" where
  "checkALPN clientProtos serverProto =
     (if serverProto = [] then None
      else if length clientProtos = 0 then Some (OtherError ''tls: server advertised unrequested ALPN extension'')
      else if list_ex (\<lambda>proto. proto = serverProto) clientProtos then None
      else Some (OtherError ''tls: server selected unadvertised ALPN protocol''))"

text \<open>The session id of a ClientHello is never nil.\<close>

definition serverResumedSession :: "clientHandshakeState \<Rightarrow> bool" where
  "serverResumedSession hs \<longleftrightarrow>
     chs_session hs \<noteq> None \<and> sh_sessionId (chs_serverHello hs) = ch_sessionId (chs_hello hs)"

definition check_renegotiation :: "clientHandshakeState \<Rightarrow> unit act" where
  "check_renegotiation hs = after the_state (\<lambda>t.
     let sh = chs_serverHello hs
     in after (if c_handshakes (t_conn t) = 0 \<and> sh_secureRenegotiationSupported sh then
                 after (change (\<lambda>t. t\<lparr>t_secureRenegotiation := True\<rparr>)) (\<lambda>_.
                 ensure (length (sh_secureRenegotiation sh) = 0) alertHandshakeFailure
                   ''tls: initial handshake had non-empty renegotiation extension'')
               else ret ()) (\<lambda>_.
        if c_handshakes (t_conn t) > 0 \<and> t_secureRenegotiation t then
          ensure (sh_secureRenegotiation sh = t_clientFinished t @ t_serverFinished t) alertHandshakeFailure
            ''tls: incorrect renegotiation extension contents''
        else ret ()))"

definition resume_session :: "clientHandshakeState \<Rightarrow> ClientSessionState \<Rightarrow> clientHandshakeState act" where
  "resume_session hs session = after the_state (\<lambda>t.
     after (ensure (css_vers session = t_vers t) alertHandshakeFailure
       ''tls: server resumed a session with a different version'') (\<lambda>_.
     after (ensure (Some (css_cipherSuite session) = map_option cs_id (chs_suite hs)) alertHandshakeFailure
       ''tls: server resumed a session with a different cipher suite'') (\<lambda>_.
     after (change (\<lambda>t. t\<lparr>t_peerCertificates := css_serverCertificates session,
       t_verifiedChains := css_verifiedChains session, t_ocspResponse := css_ocspResponse session,
       t_scts := (if length (t_scts t) = 0 \<and> length (css_scts session) \<noteq> 0 then css_scts session else t_scts t)\<rparr>)) (\<lambda>_.
     ret (hs\<lparr>chs_masterSecret := css_masterSecret session\<rparr>)))))"

definition processServerHello :: "'b env \<Rightarrow> clientHandshakeState \<Rightarrow> (bool \<times> clientHandshakeState) act" where
  "processServerHello E hs0 =
     after (client_pickCipherSuite E hs0) (\<lambda>hs.
     after (ensure (sh_compressionMethod (chs_serverHello hs) = compressionNone) alertUnexpectedMessage
       ''tls: server selected unsupported compression format'') (\<lambda>_.
     after (check_renegotiation hs) (\<lambda>_.
     after (case checkALPN (ch_alpnProtocols (chs_hello hs)) (sh_alpnProtocol (chs_serverHello hs)) of
              None \<Rightarrow> ret () | Some e \<Rightarrow> alert_fail alertUnsupportedExtension e) (\<lambda>_.
     after (change (\<lambda>t. t\<lparr>t_clientProtocol := sh_alpnProtocol (chs_serverHello hs),
       t_scts := sh_scts (chs_serverHello hs)\<rparr>)) (\<lambda>_.
     if \<not> serverResumedSession hs then ret (False, hs)
     else
       after (total (chs_session hs)) (\<lambda>session.
       after (resume_session hs session) (\<lambda>hs1.
       ret (True, hs1))))))))"

section \<open>Client certificate\<close>

definition certificateRequestInfoFromMsg :: "u16 \<Rightarrow> certificateRequestMsg \<Rightarrow> CertificateRequestInfo" where
  "certificateRequestInfoFromMsg vers certReq =
     (let rsaAvail = list_ex (\<lambda>x. x = certTypeRSASign) (cr_certificateTypes certReq);
          ecAvail = list_ex (\<lambda>x. x = certTypeECDSASign) (cr_certificateTypes certReq);
          ec = [ECDSAWithP256AndSHA256, ECDSAWithP384AndSHA384, ECDSAWithP521AndSHA512];
          rsa = [PKCS1WithSHA256, PKCS1WithSHA384, PKCS1WithSHA512, PKCS1WithSHA1];
          schemes = (if \<not> cr_hasSignatureAlgorithm certReq then (if ecAvail then ec else []) @ (if rsaAvail then rsa else [])
            else filter (\<lambda>sigScheme. case typeAndHashFromSignatureScheme sigScheme of
                Inl _ \<Rightarrow> False
              | Inr (sigType, _) \<Rightarrow>
                  if sigType = signatureECDSA \<or> sigType = signatureEd25519 then ecAvail
                  else if sigType = signatureRSAPSS \<or> sigType = signaturePKCS1v15 then rsaAvail
                  else False) (cr_supportedSignatureAlgorithms certReq))
      in \<lparr>cri_AcceptableCAs = cr_certificateAuthorities certReq, cri_SignatureSchemes = schemes, cri_Version = vers\<rparr>)"

definition new_Certificate :: tlsCertificate where
  "new_Certificate = \<lparr>crt_Certificate = [], crt_OCSPStaple = None, crt_SCTs = None,
     tc_PrivateKey = \<lparr>pk_type = ''<nil>'', pk_form = Usual, pk_signer = None, pk_decrypter = None,
       pk_Sign = (\<lambda>_ _ _ _. None), pk_Decrypt = (\<lambda>_ _ _. None)\<rparr>,
     tc_SupportedSignatureAlgorithms = None, tc_Leaf = None\<rparr>"

definition getClientCertificate :: "pki \<Rightarrow> Config \<Rightarrow> CertificateRequestInfo \<Rightarrow> tlsCertificate option \<times> conn_error option" where
  "getClientCertificate X c cri =
     (case cfg_GetClientCertificate c of
        Some get \<Rightarrow> get cri
      | None \<Rightarrow>
          (case find (\<lambda>chain. SupportsCertificate_request X cri chain = None) (cfg_Certificates c) of
             Some chain \<Rightarrow> (Some chain, None)
           | None \<Rightarrow> (Some new_Certificate, None)))"

definition choose_client_certificate :: "'b env \<Rightarrow> certificateRequestMsg \<Rightarrow> tlsCertificate option act" where
  "choose_client_certificate E certReq = after the_state (\<lambda>t.
     case getClientCertificate (e_X E) (t_config t) (certificateRequestInfoFromMsg (t_vers t) certReq) of
       (_, Some err) \<Rightarrow> alert_fail alertInternalError err
     | (chain, None) \<Rightarrow> ret chain)"

section \<open>The full handshake\<close>

definition read_certStatus ::
  "'b env \<Rightarrow> clientHandshakeState \<Rightarrow> finishedHash \<Rightarrow> handshakeMessage option \<Rightarrow> (finishedHash \<times> handshakeMessage option) act" where
  "read_certStatus E hs fh msg =
     (case Option.bind msg certStatus_of of
        None \<Rightarrow> ret (fh, msg)
      | Some cs \<Rightarrow>
          after (ensure (sh_ocspStapling (chs_serverHello hs)) alertUnexpectedMessage
            ''tls: received unexpected CertificateStatus message'') (\<lambda>_.
          after (total (marshal_certificateStatus (e_B E) cs)) (\<lambda>(m, _).
          after (write_transcript m fh) (\<lambda>fh1.
          after (change (\<lambda>t. t\<lparr>t_ocspResponse := cs_response cs\<rparr>)) (\<lambda>_.
          after (readMessage E) (\<lambda>msg1.
          ret (fh1, msg1)))))))"

definition check_server_identity :: "'b env \<Rightarrow> bytes list \<Rightarrow> unit act" where
  "check_server_identity E certificates = after the_state (\<lambda>t.
     if c_handshakes (t_conn t) = 0 then verifyServerCertificate E certificates
     else
       after (total (case t_peerCertificates t of [] \<Rightarrow> None | c # _ \<Rightarrow> Some c)) (\<lambda>leaf.
       after (total (case certificates of [] \<Rightarrow> None | d # _ \<Rightarrow> Some d)) (\<lambda>d.
       ensure (x_Raw leaf = d) alertBadCertificate ''tls: server's identity changed during renegotiation'')))"

definition peer_leaf :: "x509 act" where
  "peer_leaf = after the_state (\<lambda>t. total (case t_peerCertificates t of [] \<Rightarrow> None | c # _ \<Rightarrow> Some c))"

definition read_serverKeyExchange ::
  "'b env \<Rightarrow> clientHandshakeState \<Rightarrow> keyAgreement \<Rightarrow> finishedHash \<Rightarrow> handshakeMessage option \<Rightarrow>
     (finishedHash \<times> keyAgreement \<times> handshakeMessage option) act" where
  "read_serverKeyExchange E hs ka fh msg =
     (case Option.bind msg serverKeyExchange_of of
        None \<Rightarrow> ret (fh, ka, msg)
      | Some skx \<Rightarrow>
          after (write_transcript (fst (marshal_serverKeyExchange skx)) fh) (\<lambda>fh1.
          after peer_leaf (\<lambda>leaf.
          after the_state (\<lambda>t.
          after (total (processServerKeyExchange (e_P E) (e_X E) ka (chs_hello hs) (chs_serverHello hs) leaf skx (host_of t))) (\<lambda>(r, h).
          after (change (put_host h)) (\<lambda>_.
          after (on_error (alert_fail alertUnexpectedMessage) r) (\<lambda>ka1.
          after (readMessage E) (\<lambda>msg1.
          ret (fh1, ka1, msg1)))))))))"

text \<open>The request and the chain that answers it; a nil chain after a request makes the code panic later.\<close>

definition read_certRequest ::
  "'b env \<Rightarrow> finishedHash \<Rightarrow> handshakeMessage option \<Rightarrow>
     (finishedHash \<times> (certificateRequestMsg \<times> tlsCertificate option) option \<times> handshakeMessage option) act" where
  "read_certRequest E fh msg =
     (case Option.bind msg certRequest_of of
        None \<Rightarrow> ret (fh, None, msg)
      | Some certReq \<Rightarrow>
          after (write_transcript (fst (marshal_certificateRequest certReq)) fh) (\<lambda>fh1.
          after (choose_client_certificate E certReq) (\<lambda>chain.
          after (readMessage E) (\<lambda>msg1.
          ret (fh1, Some (certReq, chain), msg1)))))"

definition send_client_certificate ::
  "(certificateRequestMsg \<times> tlsCertificate option) option \<Rightarrow> finishedHash \<Rightarrow> finishedHash act" where
  "send_client_certificate req fh =
     (case req of
        None \<Rightarrow> ret fh
      | Some (certReq, chain) \<Rightarrow>
          after (total chain) (\<lambda>chainToSend.
          send_message (fst (marshal_certificate \<lparr>cm_raw = None, cm_certificates = crt_Certificate chainToSend\<rparr>)) fh))"

definition send_clientKeyExchange ::
  "'b env \<Rightarrow> clientHandshakeState \<Rightarrow> keyAgreement \<Rightarrow> finishedHash \<Rightarrow> (finishedHash \<times> bytes) act" where
  "send_clientKeyExchange E hs ka fh =
     after peer_leaf (\<lambda>leaf.
     after (with_host (generateClientKeyExchange (e_X E) ka (chs_hello hs) leaf)) (\<lambda>r.
     after (on_error (alert_fail alertInternalError) r) (\<lambda>(preMasterSecret, ckx).
     after (send_message (fst (marshal_clientKeyExchange ckx)) fh) (\<lambda>fh1.
     ret (fh1, preMasterSecret)))))"

definition certVerify_scheme ::
  "u16 \<Rightarrow> certificateRequestMsg \<Rightarrow> tlsCertificate \<Rightarrow> publicKey \<Rightarrow> (certificateVerifyMsg \<times> byte \<times> hash_alg) act" where
  "certVerify_scheme vers certReq chain pub =
     (let m = \<lparr>cv_raw = None, cv_hasSignatureAlgorithm = False, cv_signatureAlgorithm = 0, cv_signature = []\<rparr>
      in if vers \<ge> VersionTLS12 then
           after (on_error (alert_fail alertIllegalParameter)
             (selectSignatureScheme vers chain (cr_supportedSignatureAlgorithms certReq))) (\<lambda>signatureAlgorithm.
           after (on_error (\<lambda>_. alert_fail alertInternalError (LocalError alertInternalError))
             (typeAndHashFromSignatureScheme signatureAlgorithm)) (\<lambda>(sigType, sigHash).
           ret (m\<lparr>cv_hasSignatureAlgorithm := True, cv_signatureAlgorithm := signatureAlgorithm\<rparr>, sigType, sigHash)))
         else
           after (on_error (alert_fail alertIllegalParameter) (legacyTypeAndHashFromPublicKey pub)) (\<lambda>(sigType, sigHash).
           ret (m, sigType, sigHash)))"

definition send_certVerify ::
  "'b env \<Rightarrow> (certificateRequestMsg \<times> tlsCertificate option) option \<Rightarrow> finishedHash \<Rightarrow> finishedHash act" where
  "send_certVerify E req fh =
     (case req of
        Some (certReq, Some chain) \<Rightarrow>
          if length (crt_Certificate chain) = 0 then ret fh
          else (case pk_signer (tc_PrivateKey chain) of
              None \<Rightarrow> alert_fail alertInternalError (OtherError ''tls: client certificate private key does not implement crypto.Signer'')
            | Some pub \<Rightarrow>
                after the_state (\<lambda>t.
                after (certVerify_scheme (t_vers t) certReq chain pub) (\<lambda>(m, sigType, sigHash).
                after (total (hashForClientCertificate (e_P E) fh sigType sigHash)) (\<lambda>msg.
                after (with_host host_source) (\<lambda>rnd.
                case pk_Sign (tc_PrivateKey chain) rnd msg sigHash (sigType = signatureRSAPSS) of
                  None \<Rightarrow> alert_fail alertInternalError (OtherError ''crypto: signing failed'')
                | Some sig \<Rightarrow>
                    after (total (marshal_certificateVerify (e_B E) (m\<lparr>cv_signature := sig\<rparr>))) (\<lambda>(bs, _).
                    send_message bs fh))))))
      | _ \<Rightarrow> ret fh)"

definition client_masterSecret :: "'b env \<Rightarrow> clientHandshakeState \<Rightarrow> cipherSuite \<Rightarrow> bytes \<Rightarrow> bytes act" where
  "client_masterSecret E hs suite preMasterSecret = after the_state (\<lambda>t.
     after (total (masterFromPreMasterSecret (e_P E) (t_vers t) suite preMasterSecret
       (ch_random (chs_hello hs)) (sh_random (chs_serverHello hs)))) (\<lambda>masterSecret.
     after (with_host (writeKeyLog (t_config t) keyLogLabelTLS12 (ch_random (chs_hello hs)) masterSecret)) (\<lambda>err.
     case err of
       Some e \<Rightarrow> alert_fail alertInternalError (OtherError ''tls: failed to write to key log'')
     | None \<Rightarrow> ret masterSecret)))"

definition client_doFullHandshake :: "'b env \<Rightarrow> clientHandshakeState \<Rightarrow> clientHandshakeState act" where
  "client_doFullHandshake E hs =
     after (total (chs_suite hs)) (\<lambda>suite.
     after (total (chs_finishedHash hs)) (\<lambda>fh.
     after (readMessage E) (\<lambda>msg.
     after (expect (\<lambda>m. case certificate_of m of Some c \<Rightarrow> if length (cm_certificates c) = 0 then None else Some c | None \<Rightarrow> None) msg) (\<lambda>certMsg.
     after (write_transcript (fst (marshal_certificate certMsg)) fh) (\<lambda>fh1.
     after (readMessage E) (\<lambda>msg1.
     after (read_certStatus E hs fh1 msg1) (\<lambda>(fh2, msg2).
     after (check_server_identity E (cm_certificates certMsg)) (\<lambda>_.
     after the_state (\<lambda>t.
     after (read_serverKeyExchange E hs (cs_ka suite (t_vers t)) fh2 msg2) (\<lambda>(fh3, ka, msg3).
     after (read_certRequest E fh3 msg3) (\<lambda>(fh4, req, msg4).
     after (expect serverHelloDone_of msg4) (\<lambda>_.
     after (write_transcript marshal_serverHelloDone fh4) (\<lambda>fh5.
     after (send_client_certificate req fh5) (\<lambda>fh6.
     after (send_clientKeyExchange E hs ka fh6) (\<lambda>(fh7, preMasterSecret).
     after (send_certVerify E req fh7) (\<lambda>fh8.
     after (client_masterSecret E hs suite preMasterSecret) (\<lambda>masterSecret.
     ret (hs\<lparr>chs_finishedHash := Some (discardHandshakeBuffer fh8), chs_masterSecret := masterSecret\<rparr>))))))))))))))))))"

section \<open>Finished\<close>

definition client_establishKeys :: "'b env \<Rightarrow> clientHandshakeState \<Rightarrow> unit act" where
  "client_establishKeys E hs t =
     do {
       suite \<leftarrow> chs_suite hs;
       c \<leftarrow> establishKeys_client (e_P E) suite (chs_masterSecret hs) (ch_random (chs_hello hs))
              (sh_random (chs_serverHello hs)) (t_conn t);
       Some (Inr (), t\<lparr>t_conn := c\<rparr>)
     }"

definition client_readFinished :: "'b env \<Rightarrow> clientHandshakeState \<Rightarrow> clientHandshakeState act" where
  "client_readFinished E hs =
     after (of_conn readChangeCipherSpec) (\<lambda>_.
     after (readExpected E finished_of) (\<lambda>serverFinished.
     after (total (chs_finishedHash hs)) (\<lambda>fh.
     after (total (serverSum (e_P E) fh (chs_masterSecret hs))) (\<lambda>verify.
     after (ensure (verify = fin_verifyData serverFinished) alertHandshakeFailure
       ''tls: server's Finished message was incorrect'') (\<lambda>_.
     after (total (marshal_finished (e_B E) serverFinished)) (\<lambda>(m, _).
     after (write_transcript m fh) (\<lambda>fh1.
     after (change (out_server verify)) (\<lambda>_.
     ret (hs\<lparr>chs_finishedHash := Some fh1\<rparr>)))))))))"

definition client_readSessionTicket :: "'b env \<Rightarrow> clientHandshakeState \<Rightarrow> clientHandshakeState act" where
  "client_readSessionTicket E hs =
     (if \<not> sh_ticketSupported (chs_serverHello hs) then ret hs
      else
        after (readExpected E newSessionTicket_of) (\<lambda>m.
        after (total (chs_suite hs)) (\<lambda>suite.
        after (total (chs_finishedHash hs)) (\<lambda>fh.
        after (write_transcript (fst (marshal_newSessionTicket m)) fh) (\<lambda>fh1.
        after (with_host host_time) (\<lambda>now.
        after the_state (\<lambda>t.
        ret (hs\<lparr>chs_finishedHash := Some fh1, chs_newSession := True,
          chs_session := Some \<lparr>css_sessionTicket = st_ticket m, css_vers = t_vers t, css_cipherSuite = cs_id suite,
            css_masterSecret = chs_masterSecret hs, css_serverCertificates = t_peerCertificates t,
            css_verifiedChains = t_verifiedChains t, css_receivedAt = now, css_ocspResponse = t_ocspResponse t,
            css_scts = t_scts t, css_nonce = [], css_useBy = 0, css_ageAdd = 0\<rparr>\<rparr>))))))))"

definition client_sendFinished :: "'b env \<Rightarrow> clientHandshakeState \<Rightarrow> clientHandshakeState act" where
  "client_sendFinished E hs =
     after (writeRecord recordTypeChangeCipherSpec [1]) (\<lambda>_.
     after (total (chs_finishedHash hs)) (\<lambda>fh.
     after (total (clientSum (e_P E) fh (chs_masterSecret hs))) (\<lambda>verifyData.
     after (total (marshal_finished (e_B E) \<lparr>fin_raw = None, fin_verifyData = verifyData\<rparr>)) (\<lambda>(m, _).
     after (send_message m fh) (\<lambda>fh1.
     after (change (out_client verifyData)) (\<lambda>_.
     ret (hs\<lparr>chs_finishedHash := Some fh1\<rparr>)))))))"

section \<open>The handshake\<close>

definition client_transcript :: "'b env \<Rightarrow> bool \<Rightarrow> clientHandshakeState \<Rightarrow> clientHandshakeState act" where
  "client_transcript E isResume hs = after the_state (\<lambda>t.
     after (total (Option.bind (chs_suite hs) (newFinishedHash (e_P E) (t_vers t)))) (\<lambda>fh0.
     after (total (marshal_clientHello (e_B E) (chs_hello hs))) (\<lambda>(ch, hello).
     after (write_transcript ch
       (if isResume \<or> length (cfg_Certificates (t_config t)) = 0 \<and> cfg_GetClientCertificate (t_config t) = None
        then discardHandshakeBuffer fh0 else fh0)) (\<lambda>fh1.
     after (total (marshal_serverHello (e_B E) (chs_serverHello hs))) (\<lambda>(sh, _).
     after (write_transcript sh fh1) (\<lambda>fh2.
     ret (hs\<lparr>chs_finishedHash := Some fh2\<rparr>)))))))"

definition client_finish :: "'b env \<Rightarrow> clientHandshakeState \<Rightarrow> unit act" where
  "client_finish E hs =
     after (total (chs_suite hs)) (\<lambda>suite.
     change (\<lambda>t. t\<lparr>t_ekm := Some (ekmFromMasterSecret (e_P E) (t_vers t) suite (chs_masterSecret hs)
         (ch_random (chs_hello hs)) (sh_random (chs_serverHello hs))),
       t_conn := (t_conn t)\<lparr>c_complete := True\<rparr>\<rparr>))"

definition client_handshake :: "'b env \<Rightarrow> clientHandshakeState \<Rightarrow> clientHandshakeState act" where
  "client_handshake E hs0 =
     after (processServerHello E hs0) (\<lambda>(isResume, hs1).
     after (client_transcript E isResume hs1) (\<lambda>hs2.
     after set_buffering (\<lambda>_.
     after (change (\<lambda>t. t\<lparr>t_didResume := isResume\<rparr>)) (\<lambda>_.
     after
       (if isResume then
          after (client_establishKeys E hs2) (\<lambda>_.
          after (client_readSessionTicket E hs2) (\<lambda>hs3.
          after (client_readFinished E hs3) (\<lambda>hs4.
          after (change (\<lambda>t. t\<lparr>t_clientFinishedIsFirst := False\<rparr>)) (\<lambda>_.
          after verify_connection (\<lambda>_.
          after (client_sendFinished E hs4) (\<lambda>hs5.
          after flush_records (\<lambda>_.
          ret hs5)))))))
        else
          after (client_doFullHandshake E hs2) (\<lambda>hs3.
          after (client_establishKeys E hs3) (\<lambda>_.
          after (client_sendFinished E hs3) (\<lambda>hs4.
          after flush_records (\<lambda>_.
          after (change (\<lambda>t. t\<lparr>t_clientFinishedIsFirst := True\<rparr>)) (\<lambda>_.
          after (client_readSessionTicket E hs4) (\<lambda>hs5.
          client_readFinished E hs5))))))) (\<lambda>hs.
     after (client_finish E hs) (\<lambda>_.
     ret hs))))))"

end
