(* ===== verification/Server13.thy ===== *)
theory Server13
  imports Client12
begin

text \<open>
  The server handshake of TLS 1.3 (\<open>handshake_server_tls13.go\<close>). The transcript is a running hash; a hash
  of a suite can always be cloned.
\<close>

section \<open>State\<close>

definition maxClientPSKIdentities :: nat where "maxClientPSKIdentities = 5"

record serverHandshakeStateTLS13 =
  s3_clientHello :: clientHelloMsg
  s3_hello :: serverHelloMsg
  s3_sentDummyCCS :: bool
  s3_usingPSK :: bool
  s3_suite :: cipherSuiteTLS13
  s3_cert :: "tlsCertificate option"
  s3_sigAlg :: u16
  s3_earlySecret :: "bytes option"
  s3_sharedKey :: bytes
  s3_handshakeSecret :: bytes
  s3_masterSecret :: bytes
  s3_trafficSecret :: bytes
  s3_transcript :: hash_state
  s3_clientFinished :: bytes

definition cloneHash :: "hash_state \<Rightarrow> hash_state option" where
  "cloneHash h = Some h"

definition hash_Reset :: "hash_state \<Rightarrow> hash_state" where
  "hash_Reset h = h\<lparr>hs_data := []\<rparr>"

text \<open>Steps of the key schedule, on one direction of the record layer for \<open>set_in\<close> and \<open>set_out\<close>.\<close>

definition derive :: "'b env \<Rightarrow> cipherSuiteTLS13 \<Rightarrow> bytes \<Rightarrow> bytes \<Rightarrow> hash_state option \<Rightarrow> bytes act" where
  "derive E suite secret label transcript = total (deriveSecret (e_P E) (e_B E) suite secret label transcript)"

definition set_in :: "'b env \<Rightarrow> cipherSuiteTLS13 \<Rightarrow> bytes \<Rightarrow> unit act" where
  "set_in E suite secret t =
     map_option (\<lambda>hc. (Inr (), t\<lparr>t_conn := (t_conn t)\<lparr>c_in := hc\<rparr>\<rparr>))
       (setTrafficSecret (e_P E) (e_B E) suite secret (c_in (t_conn t)))"

definition set_out :: "'b env \<Rightarrow> cipherSuiteTLS13 \<Rightarrow> bytes \<Rightarrow> unit act" where
  "set_out E suite secret t =
     map_option (\<lambda>hc. (Inr (), t\<lparr>t_conn := (t_conn t)\<lparr>c_out := hc\<rparr>\<rparr>))
       (setTrafficSecret (e_P E) (e_B E) suite secret (c_out (t_conn t)))"

definition log_secret :: "bytes \<Rightarrow> bytes \<Rightarrow> bytes \<Rightarrow> unit act" where
  "log_secret label random secret = after the_state (\<lambda>t.
     after (with_host (writeKeyLog (t_config t) label random secret)) (\<lambda>err.
     case err of Some e \<Rightarrow> alert_fail alertInternalError e | None \<Rightarrow> ret ()))"

text \<open>
  \<open>hs.transcript.Write(m.marshal()); c.writeRecord(recordTypeHandshake, m.marshal())\<close>. When writing fails the handshake
  ends, and its transcript with it.
\<close>

definition send13 :: "bytes \<Rightarrow> hash_state \<Rightarrow> hash_state act" where
  "send13 msg transcript =
     (let transcript' = hash_Write msg transcript in after (writeRecord recordTypeHandshake msg) (\<lambda>_. ret transcript'))"

definition server_dummyCCS :: "serverHandshakeStateTLS13 \<Rightarrow> serverHandshakeStateTLS13 act" where
  "server_dummyCCS hs =
     (if s3_sentDummyCCS hs then ret hs
      else after (writeRecord recordTypeChangeCipherSpec [1]) (\<lambda>_. ret (hs\<lparr>s3_sentDummyCCS := True\<rparr>)))"

section \<open>ClientHello\<close>

definition illegalClientHelloChange :: "clientHelloMsg \<Rightarrow> clientHelloMsg \<Rightarrow> bool" where
  "illegalClientHelloChange ch ch1 \<longleftrightarrow>
     ch_supportedVersions ch \<noteq> ch_supportedVersions ch1 \<or> ch_cipherSuites ch \<noteq> ch_cipherSuites ch1 \<or>
     ch_supportedCurves ch \<noteq> ch_supportedCurves ch1 \<or>
     ch_supportedSignatureAlgorithms ch \<noteq> ch_supportedSignatureAlgorithms ch1 \<or>
     ch_supportedSignatureAlgorithmsCert ch \<noteq> ch_supportedSignatureAlgorithmsCert ch1 \<or>
     ch_alpnProtocols ch \<noteq> ch_alpnProtocols ch1 \<or> ch_vers ch \<noteq> ch_vers ch1 \<or> ch_random ch \<noteq> ch_random ch1 \<or>
     ch_sessionId ch \<noteq> ch_sessionId ch1 \<or> ch_compressionMethods ch \<noteq> ch_compressionMethods ch1 \<or>
     ch_serverName ch \<noteq> ch_serverName ch1 \<or> ch_ocspStapling ch \<noteq> ch_ocspStapling ch1 \<or>
     ch_supportedPoints ch \<noteq> ch_supportedPoints ch1 \<or> ch_ticketSupported ch \<noteq> ch_ticketSupported ch1 \<or>
     ch_sessionTicket ch \<noteq> ch_sessionTicket ch1 \<or>
     ch_secureRenegotiationSupported ch \<noteq> ch_secureRenegotiationSupported ch1 \<or>
     ch_secureRenegotiation ch \<noteq> ch_secureRenegotiation ch1 \<or> ch_scts ch \<noteq> ch_scts ch1 \<or>
     ch_cookie ch \<noteq> ch_cookie ch1 \<or> ch_pskModes ch \<noteq> ch_pskModes ch1"

definition check_hello13 :: "'b env \<Rightarrow> clientHelloMsg \<Rightarrow> unit act" where
  "check_hello13 E ch = after the_state (\<lambda>t.
     after (ensure (length (ch_supportedVersions ch) \<noteq> 0) alertIllegalParameter
       ''tls: client used the legacy version field to negotiate TLS 1.3'') (\<lambda>_.
     after (ensure (\<not> (list_ex (\<lambda>i. i = TLS_FALLBACK_SCSV) (ch_cipherSuites ch) \<and>
         t_vers t < maxSupportedVersion (e_D E) (Some (t_config t)) roleServer)) alertInappropriateFallback
       ''tls: client using inappropriate protocol fallback'') (\<lambda>_.
     ensure (length (ch_compressionMethods ch) = 1 \<and> ch_compressionMethods ch ! 0 = compressionNone) alertIllegalParameter
       ''tls: TLS 1.3 client supports illegal compression methods'')))"

fun first_suite13 :: "crypto \<Rightarrow> u16 list \<Rightarrow> u16 list \<Rightarrow> cipherSuiteTLS13 option" where
  "first_suite13 P offered [] = None"
| "first_suite13 P offered (suiteID # ids) =
     (case mutualCipherSuiteTLS13 P offered suiteID of Some s \<Rightarrow> Some s | None \<Rightarrow> first_suite13 P offered ids)"

text \<open>The first preferred group with a key share, otherwise the first one that the client supports.\<close>

definition select_group :: "u16 list \<Rightarrow> clientHelloMsg \<Rightarrow> u16 \<times> keyShare option" where
  "select_group preferences ch =
     (case find (\<lambda>g. list_ex (\<lambda>ks. ks_group ks = g) (ch_keyShares ch)) preferences of
        Some g \<Rightarrow> (g, find (\<lambda>ks. ks_group ks = g) (ch_keyShares ch))
      | None \<Rightarrow> (case find (\<lambda>g. list_ex (\<lambda>x. x = g) (ch_supportedCurves ch)) preferences of Some g \<Rightarrow> g | None \<Rightarrow> 0, None))"

definition helloRetryRequest :: "serverHelloMsg \<Rightarrow> u16 \<Rightarrow> serverHelloMsg" where
  "helloRetryRequest hello selectedGroup =
     new_serverHello\<lparr>sh_vers := sh_vers hello, sh_random := helloRetryRequestRandom, sh_sessionId := sh_sessionId hello,
       sh_cipherSuite := sh_cipherSuite hello, sh_compressionMethod := sh_compressionMethod hello,
       sh_supportedVersion := sh_supportedVersion hello, sh_selectedGroup := selectedGroup\<rparr>"

text \<open>The transcript starts anew with a message that holds the hash of the first ClientHello.\<close>

definition message_hash :: "crypto \<Rightarrow> hash_state \<Rightarrow> hash_state" where
  "message_hash P tr =
     (let chHash = hash_Sum P tr
      in hash_Write chHash (hash_Write [typeMessageHash, 0, 0, word_of_nat (length chHash)] (hash_Reset tr)))"

definition doHelloRetryRequest :: "'b env \<Rightarrow> u16 \<Rightarrow> serverHandshakeStateTLS13 \<Rightarrow> serverHandshakeStateTLS13 act" where
  "doHelloRetryRequest E selectedGroup hs =
     after (total (marshal_clientHello (e_B E) (s3_clientHello hs))) (\<lambda>(ch, _).
     let tr = message_hash (e_P E) (hash_Write ch (s3_transcript hs))
     in after (total (marshal_serverHello (e_B E) (helloRetryRequest (s3_hello hs) selectedGroup))) (\<lambda>(hrr, _).
        after (send13 hrr tr) (\<lambda>tr1.
        after (server_dummyCCS hs) (\<lambda>hs1.
        after (readExpected E clientHello_of) (\<lambda>clientHello.
        after (ensure (length (ch_keyShares clientHello) = 1 \<and> ks_group (ch_keyShares clientHello ! 0) = selectedGroup)
          alertIllegalParameter ''tls: client sent invalid key share in second ClientHello'') (\<lambda>_.
        after (ensure (\<not> ch_earlyData clientHello) alertIllegalParameter
          ''tls: client indicated early data in second ClientHello'') (\<lambda>_.
        after (ensure (\<not> illegalClientHelloChange clientHello (s3_clientHello hs)) alertIllegalParameter
          ''tls: client illegally modified second ClientHello'') (\<lambda>_.
        ret (hs1\<lparr>s3_transcript := tr1, s3_clientHello := clientHello\<rparr>)))))))))"

definition share_key :: "'b env \<Rightarrow> u16 \<Rightarrow> keyShare \<Rightarrow> serverHandshakeStateTLS13 \<Rightarrow> serverHandshakeStateTLS13 act" where
  "share_key E selectedGroup clientKeyShare hs =
     after (ensure (selectedGroup = X25519 \<or> curveForCurveID selectedGroup \<noteq> None) alertInternalError
       ''tls: CurvePreferences includes unsupported curve'') (\<lambda>_.
     after (with_host host_source) (\<lambda>rnd.
     after (on_error (alert_fail alertInternalError) (generateECDHEParameters (e_P E) rnd selectedGroup)) (\<lambda>params.
     after (total (PublicKey (e_P E) params)) (\<lambda>pub.
     after (total (SharedKey (e_P E) params (ks_data clientKeyShare))) (\<lambda>key.
     case key of
       None \<Rightarrow> alert_fail alertIllegalParameter (OtherError ''tls: invalid client key share'')
     | Some sharedKey \<Rightarrow>
         ret (hs\<lparr>s3_sharedKey := sharedKey,
           s3_hello := (s3_hello hs)\<lparr>sh_serverShare := \<lparr>ks_group = selectedGroup, ks_data = pub\<rparr>\<rparr>\<rparr>))))))"

definition choose_suite13 :: "'b env \<Rightarrow> clientHelloMsg \<Rightarrow> cipherSuiteTLS13 act" where
  "choose_suite13 E ch =
     (let preferenceList = (if \<not> hasAESGCMHardwareSupport (e_GOARCH E) \<or> \<not> aesgcmPreferred (e_P E) (ch_cipherSuites ch)
            then defaultCipherSuitesTLS13NoAES else defaultCipherSuitesTLS13)
      in case first_suite13 (e_P E) (ch_cipherSuites ch) preferenceList of
           None \<Rightarrow> alert_fail alertHandshakeFailure (OtherError ''tls: no cipher suite supported by both client and server'')
         | Some suite \<Rightarrow> after (change_conn (\<lambda>c. c\<lparr>c_cipherSuite := c13_id suite\<rparr>)) (\<lambda>_. ret suite))"

definition new_handshake13 :: "tlsConn \<Rightarrow> clientHelloMsg \<Rightarrow> bytes \<Rightarrow> cipherSuiteTLS13 \<Rightarrow> serverHandshakeStateTLS13" where
  "new_handshake13 t ch random suite =
     \<lparr>s3_clientHello = ch,
      s3_hello = new_serverHello\<lparr>sh_vers := VersionTLS12, sh_supportedVersion := t_vers t, sh_random := random,
        sh_sessionId := ch_sessionId ch, sh_compressionMethod := compressionNone, sh_cipherSuite := c13_id suite\<rparr>,
      s3_sentDummyCCS = False, s3_usingPSK = False, s3_suite = suite, s3_cert = None, s3_sigAlg = 0,
      s3_earlySecret = None, s3_sharedKey = [], s3_handshakeSecret = [], s3_masterSecret = [], s3_trafficSecret = [],
      s3_transcript = hash_new (c13_hash suite), s3_clientFinished = []\<rparr>"

definition processClientHello13 :: "'b env \<Rightarrow> clientHelloMsg \<Rightarrow> serverHandshakeStateTLS13 act" where
  "processClientHello13 E ch =
     after (check_hello13 E ch) (\<lambda>_.
     after (with_host (host_ReadFull 32)) (\<lambda>r.
     after (on_error (alert_fail alertInternalError) (case r of None \<Rightarrow> Inl RandError | Some x \<Rightarrow> Inr x)) (\<lambda>random.
     after (ensure (length (ch_secureRenegotiation ch) = 0) alertHandshakeFailure
       ''tls: initial handshake had non-empty renegotiation extension'') (\<lambda>_.
     after (ensure (\<not> ch_earlyData ch) alertUnsupportedExtension ''tls: client sent unexpected early data'') (\<lambda>_.
     after (choose_suite13 E ch) (\<lambda>suite.
     after the_state (\<lambda>t.
       let (selectedGroup, clientKeyShare) = select_group (curvePreferences (Some (t_config t))) ch;
           hs = new_handshake13 t ch random suite
       in after (ensure (selectedGroup \<noteq> 0) alertHandshakeFailure
            ''tls: no ECDHE curve supported by both client and server'') (\<lambda>_.
          after (case clientKeyShare of
                   Some ks \<Rightarrow> ret (hs, ks)
                 | None \<Rightarrow>
                     after (doHelloRetryRequest E selectedGroup hs) (\<lambda>hs1.
                     after (total (case ch_keyShares (s3_clientHello hs1) of [] \<Rightarrow> None | ks # _ \<Rightarrow> Some ks)) (\<lambda>ks.
                     ret (hs1, ks)))) (\<lambda>(hs1, ks).
          after (share_key E selectedGroup ks hs1) (\<lambda>hs2.
          after (change (\<lambda>t. t\<lparr>t_serverName := ch_serverName (s3_clientHello hs2)\<rparr>)) (\<lambda>_.
          ret hs2)))))))))))"

section \<open>Resumption\<close>

text \<open>A ticket that can be used: authentic, recent, of a suite with the same hash, with the certificates now wanted.\<close>

definition psk_session ::
  "'b env \<Rightarrow> serverHandshakeStateTLS13 \<Rightarrow> pskIdentity \<Rightarrow> sessionStateTLS13 option act" where
  "psk_session E hs identity = after the_state (\<lambda>t.
     case Option.bind (fst (decryptTicket (e_P E) (t_ticketKeys t) (psk_label identity))) (unmarshal_sessionStateTLS13 (e_R E)) of
       None \<Rightarrow> ret None
     | Some s \<Rightarrow>
         after (with_host host_time) (\<lambda>now.
           let sessionHasClientCerts = length (crt_Certificate (s13_certificate s)) \<noteq> 0;
               needClientCerts = requiresClientCert (cfg_ClientAuth (t_config t))
           in ret
             (if now - nanoseconds (sint (s13_createdAt s)) > maxSessionTicketLifetime then None
              else case cipherSuiteTLS13ByID (e_P E) (s13_cipherSuite s) of
                None \<Rightarrow> None
              | Some pskSuite \<Rightarrow>
                  if c13_hash pskSuite \<noteq> c13_hash (s3_suite hs) then None
                  else if needClientCerts \<and> \<not> sessionHasClientCerts then None
                  else if sessionHasClientCerts \<and> cfg_ClientAuth (t_config t) = NoClientCert then None
                  else Some s)))"

definition accept_psk :: "'b env \<Rightarrow> nat \<Rightarrow> sessionStateTLS13 \<Rightarrow> serverHandshakeStateTLS13 \<Rightarrow> serverHandshakeStateTLS13 act" where
  "accept_psk E i s hs =
     (let suite = s3_suite hs; P = e_P E; B = e_B E
      in after (total (expandLabel P B suite (s13_resumptionSecret s) (str ''resumption'') [] (hash_size (c13_hash suite)))) (\<lambda>psk.
         let earlySecret = hkdfExtract P suite (Some psk) []
         in after (derive E suite earlySecret resumptionBinderLabel None) (\<lambda>binderKey.
            case cloneHash (s3_transcript hs) of
              None \<Rightarrow> alert_fail alertInternalError (OtherError ''tls: internal error: failed to clone hash'')
            | Some tr \<Rightarrow>
                after (total (marshalWithoutBinders B (s3_clientHello hs))) (\<lambda>(msg, _).
                after (total (finishedHash13 P B suite binderKey (hash_Write msg tr))) (\<lambda>pskBinder.
                after (ensure (ch_pskBinders (s3_clientHello hs) ! i = pskBinder) alertDecryptError ''tls: invalid PSK binder'') (\<lambda>_.
                after (change (\<lambda>t. t\<lparr>t_didResume := True\<rparr>)) (\<lambda>_.
                after (processCertsFromClient E (s13_certificate s)) (\<lambda>_.
                ret (hs\<lparr>s3_earlySecret := Some earlySecret, s3_usingPSK := True,
                  s3_hello := (s3_hello hs)\<lparr>sh_selectedIdentityPresent := True, sh_selectedIdentity := word_of_nat i\<rparr>\<rparr>))))))))) "

fun try_identities ::
  "'b env \<Rightarrow> nat \<Rightarrow> pskIdentity list \<Rightarrow> serverHandshakeStateTLS13 \<Rightarrow> serverHandshakeStateTLS13 act" where
  "try_identities E i [] hs = ret hs"
| "try_identities E i (identity # ids) hs =
     (if i \<ge> maxClientPSKIdentities then ret hs
      else
        after (psk_session E hs identity) (\<lambda>session.
        case session of
          None \<Rightarrow> try_identities E (Suc i) ids hs
        | Some s \<Rightarrow> accept_psk E i s hs))"

definition checkForResumption13 :: "'b env \<Rightarrow> serverHandshakeStateTLS13 \<Rightarrow> serverHandshakeStateTLS13 act" where
  "checkForResumption13 E hs = after the_state (\<lambda>t.
     let ch = s3_clientHello hs
     in if cfg_SessionTicketsDisabled (t_config t) then ret hs
        else if \<not> list_ex (\<lambda>mode. mode = pskModeDHE) (ch_pskModes ch) then ret hs
        else
          after (ensure (length (ch_pskIdentities ch) = length (ch_pskBinders ch)) alertIllegalParameter
            ''tls: invalid or missing PSK binders'') (\<lambda>_.
          try_identities E 0 (ch_pskIdentities ch) hs))"

section \<open>The server's messages\<close>

definition pickCertificate :: "'b env \<Rightarrow> serverHandshakeStateTLS13 \<Rightarrow> serverHandshakeStateTLS13 act" where
  "pickCertificate E hs =
     (if s3_usingPSK hs then ret hs
      else if length (ch_supportedSignatureAlgorithms (s3_clientHello hs)) = 0 then
        alert_fail alertMissingExtension (LocalError alertMissingExtension)
      else
        after (get_certificate E (s3_clientHello hs)) (\<lambda>certificate.
        after the_state (\<lambda>t.
        after (on_error (alert_fail alertHandshakeFailure)
          (selectSignatureScheme (t_vers t) certificate (ch_supportedSignatureAlgorithms (s3_clientHello hs)))) (\<lambda>sigAlg.
        ret (hs\<lparr>s3_cert := Some certificate, s3_sigAlg := sigAlg\<rparr>)))))"

text \<open>The secrets of the handshake, from the key both sides share.\<close>

definition server_handshake_keys :: "'b env \<Rightarrow> serverHandshakeStateTLS13 \<Rightarrow> serverHandshakeStateTLS13 act" where
  "server_handshake_keys E hs =
     (let suite = s3_suite hs; P = e_P E;
          earlySecret = (case s3_earlySecret hs of Some s \<Rightarrow> s | None \<Rightarrow> hkdfExtract P suite None []);
          random = ch_random (s3_clientHello hs)
      in after (derive E suite earlySecret (str ''derived'') None) (\<lambda>derived.
         let handshakeSecret = hkdfExtract P suite (Some (s3_sharedKey hs)) derived
         in after (derive E suite handshakeSecret clientHandshakeTrafficLabel (Some (s3_transcript hs))) (\<lambda>clientSecret.
            after (set_in E suite clientSecret) (\<lambda>_.
            after (derive E suite handshakeSecret serverHandshakeTrafficLabel (Some (s3_transcript hs))) (\<lambda>serverSecret.
            after (set_out E suite serverSecret) (\<lambda>_.
            after (log_secret keyLogLabelClientHandshake random clientSecret) (\<lambda>_.
            after (log_secret keyLogLabelServerHandshake random serverSecret) (\<lambda>_.
            ret (hs\<lparr>s3_handshakeSecret := handshakeSecret\<rparr>)))))))))"

definition sendServerParameters :: "'b env \<Rightarrow> serverHandshakeStateTLS13 \<Rightarrow> serverHandshakeStateTLS13 act" where
  "sendServerParameters E hs0 =
     after (total (marshal_clientHello (e_B E) (s3_clientHello hs0))) (\<lambda>(ch, _).
     after (total (marshal_serverHello (e_B E) (s3_hello hs0))) (\<lambda>(sh, hello).
     after (send13 sh (hash_Write ch (s3_transcript hs0))) (\<lambda>tr.
     after (server_dummyCCS (hs0\<lparr>s3_hello := hello, s3_transcript := tr\<rparr>)) (\<lambda>hs1.
     after (server_handshake_keys E hs1) (\<lambda>hs.
     after the_state (\<lambda>t.
     after (on_error (alert_fail alertNoApplicationProtocol)
       (negotiateALPN (cfg_NextProtos (t_config t)) (ch_alpnProtocols (s3_clientHello hs)))) (\<lambda>selectedProto.
     after (change (\<lambda>t. t\<lparr>t_clientProtocol := selectedProto\<rparr>)) (\<lambda>_.
     after (total (marshal_encryptedExtensions (e_B E) \<lparr>ee_raw = None, ee_alpnProtocol = selectedProto\<rparr>)) (\<lambda>(ee, _).
     after (send13 ee (s3_transcript hs)) (\<lambda>tr1.
     ret (hs\<lparr>s3_transcript := tr1\<rparr>)))))))))))"

definition requestClientCert :: "tlsConn \<Rightarrow> serverHandshakeStateTLS13 \<Rightarrow> bool" where
  "requestClientCert t hs \<longleftrightarrow> cfg_ClientAuth (t_config t) \<ge> RequestClientCert \<and> \<not> s3_usingPSK hs"

definition send_certRequest13 :: "'b env \<Rightarrow> serverHandshakeStateTLS13 \<Rightarrow> hash_state act" where
  "send_certRequest13 E hs = after the_state (\<lambda>t.
     if requestClientCert t hs then
       after (total (marshal_certificateRequestTLS13 (e_B E)
         \<lparr>cr13_raw = None, cr13_ocspStapling = True, cr13_scts = True,
          cr13_supportedSignatureAlgorithms = supportedSignatureAlgorithms, cr13_supportedSignatureAlgorithmsCert = [],
          cr13_certificateAuthorities = (case cfg_ClientCAs (t_config t) of None \<Rightarrow> [] | Some pool \<Rightarrow> e_Subjects E pool)\<rparr>)) (\<lambda>(m, _).
       send13 m (s3_transcript hs))
     else ret (s3_transcript hs))"

definition certificate_part :: "tlsCertificate \<Rightarrow> Certificate" where
  "certificate_part c = \<lparr>crt_Certificate = crt_Certificate c, crt_OCSPStaple = crt_OCSPStaple c, crt_SCTs = crt_SCTs c\<rparr>"

definition option_length :: "'a list option \<Rightarrow> nat" where
  "option_length x = (case x of None \<Rightarrow> 0 | Some l \<Rightarrow> length l)"

text \<open>The alert when signing fails: the key may be too small for RSA-PSS.\<close>

definition sign_alert :: "byte \<Rightarrow> hash_alg \<Rightarrow> publicKey \<Rightarrow> byte" where
  "sign_alert sigType sigHash pub =
     (case pub of
        RSAKey bits _ \<Rightarrow> if sigType = signatureRSAPSS \<and> bits div 8 < hash_size sigHash * 2 + 2
                       then alertHandshakeFailure else alertInternalError
      | _ \<Rightarrow> alertInternalError)"

definition sign_transcript ::
  "'b env \<Rightarrow> u16 \<Rightarrow> privateKey \<Rightarrow> bytes \<Rightarrow> (byte \<Rightarrow> hash_alg \<Rightarrow> publicKey \<Rightarrow> byte) \<Rightarrow> hash_state \<Rightarrow> hash_state act" where
  "sign_transcript E sigAlg key context alrt tr =
     after (on_error (\<lambda>_. alert_fail alertInternalError (LocalError alertInternalError))
       (typeAndHashFromSignatureScheme sigAlg)) (\<lambda>(sigType, sigHash).
     after (total (pk_signer key)) (\<lambda>pub.
     after (with_host host_source) (\<lambda>rnd.
     case pk_Sign key rnd (signedMessage (e_P E) sigHash context tr) sigHash (sigType = signatureRSAPSS) of
       None \<Rightarrow> alert_fail (alrt sigType sigHash pub) (OtherError ''tls: failed to sign handshake'')
     | Some sig \<Rightarrow>
         after (total (marshal_certificateVerify (e_B E)
           \<lparr>cv_raw = None, cv_hasSignatureAlgorithm = True, cv_signatureAlgorithm = sigAlg, cv_signature = sig\<rparr>)) (\<lambda>(m, _).
         send13 m tr))))"

definition sendServerCertificate :: "'b env \<Rightarrow> serverHandshakeStateTLS13 \<Rightarrow> serverHandshakeStateTLS13 act" where
  "sendServerCertificate E hs =
     (if s3_usingPSK hs then ret hs
      else
        after (send_certRequest13 E hs) (\<lambda>tr.
        after (total (s3_cert hs)) (\<lambda>cert.
        after (total (marshal_certificateTLS13 (e_B E)
          \<lparr>c13_raw = None, c13_certificate = certificate_part cert,
           c13_ocspStapling = (ch_ocspStapling (s3_clientHello hs) \<and> option_length (crt_OCSPStaple cert) > 0),
           c13_scts = (ch_scts (s3_clientHello hs) \<and> option_length (crt_SCTs cert) > 0)\<rparr>)) (\<lambda>(m, _).
        after (send13 m tr) (\<lambda>tr1.
        after (sign_transcript E (s3_sigAlg hs) (tc_PrivateKey cert) serverSignatureContext sign_alert tr1) (\<lambda>tr2.
        ret (hs\<lparr>s3_transcript := tr2\<rparr>)))))))"

section \<open>Tickets and Finished\<close>

definition shouldSendSessionTickets :: "tlsConn \<Rightarrow> serverHandshakeStateTLS13 \<Rightarrow> bool" where
  "shouldSendSessionTickets t hs \<longleftrightarrow>
     \<not> cfg_SessionTicketsDisabled (t_config t) \<and> list_ex (\<lambda>pskMode. pskMode = pskModeDHE) (ch_pskModes (s3_clientHello hs))"

definition nil_if_empty :: "'a list \<Rightarrow> 'a list option" where
  "nil_if_empty l = (if l = [] then None else Some l)"

definition session_state13 :: "tlsConn \<Rightarrow> u16 \<Rightarrow> bytes \<Rightarrow> int \<Rightarrow> sessionStateTLS13" where
  "session_state13 t suiteID resumptionSecret now =
     \<lparr>s13_cipherSuite = suiteID, s13_createdAt = word_of_int (now div 1000000000),
      s13_resumptionSecret = resumptionSecret,
      s13_certificate = \<lparr>crt_Certificate = map x_Raw (t_peerCertificates t),
        crt_OCSPStaple = nil_if_empty (t_ocspResponse t), crt_SCTs = nil_if_empty (t_scts t)\<rparr>\<rparr>"

text \<open>The random source is taken to fill the four bytes it is asked for.\<close>

definition sendSessionTickets :: "'b env \<Rightarrow> serverHandshakeStateTLS13 \<Rightarrow> serverHandshakeStateTLS13 act" where
  "sendSessionTickets E hs0 = after the_state (\<lambda>t0.
     after (total (finishedHash13 (e_P E) (e_B E) (s3_suite hs0) (hc_trafficSecret (c_in (t_conn t0))) (s3_transcript hs0))) (\<lambda>clientFinished.
     after (total (marshal_finished (e_B E) \<lparr>fin_raw = None, fin_verifyData = clientFinished\<rparr>)) (\<lambda>(fin, _).
     let hs = hs0\<lparr>s3_clientFinished := clientFinished, s3_transcript := hash_Write fin (s3_transcript hs0)\<rparr>
     in if \<not> shouldSendSessionTickets t0 hs then ret hs
        else
          after (derive E (s3_suite hs) (s3_masterSecret hs) resumptionLabel (Some (s3_transcript hs))) (\<lambda>resumptionSecret.
          after (with_host host_time) (\<lambda>now.
          after the_state (\<lambda>t.
          after (total (marshal_sessionStateTLS13 (e_B E) (session_state13 t (c13_id (s3_suite hs)) resumptionSecret now))) (\<lambda>state.
          after (encrypt_ticket E state) (\<lambda>label.
          after (with_host (host_ReadFull 4)) (\<lambda>r.
          after (of_result (case r of None \<Rightarrow> Inl RandError | Some x \<Rightarrow> Inr x)) (\<lambda>ageAdd.
          after (total (marshal_newSessionTicketTLS13 (e_B E)
            \<lparr>nst_raw = None, nst_lifetime = word_of_int (maxSessionTicketLifetime div nanoseconds 1),
             nst_ageAdd = word_of_nat (be_dec (rev ageAdd)), nst_nonce = [], nst_label = label, nst_maxEarlyData = 0\<rparr>)) (\<lambda>(m, _).
          after (writeRecord recordTypeHandshake m) (\<lambda>_.
          ret hs))))))))))))"

definition sendServerFinished :: "'b env \<Rightarrow> serverHandshakeStateTLS13 \<Rightarrow> serverHandshakeStateTLS13 act" where
  "sendServerFinished E hs0 = after the_state (\<lambda>t0.
     let suite = s3_suite hs0; P = e_P E; B = e_B E; random = ch_random (s3_clientHello hs0)
     in after (total (finishedHash13 P B suite (hc_trafficSecret (c_out (t_conn t0))) (s3_transcript hs0))) (\<lambda>verifyData.
        after (total (marshal_finished B \<lparr>fin_raw = None, fin_verifyData = verifyData\<rparr>)) (\<lambda>(fin, _).
        after (send13 fin (s3_transcript hs0)) (\<lambda>tr.
        after (derive E suite (s3_handshakeSecret hs0) (str ''derived'') None) (\<lambda>derived.
        let masterSecret = hkdfExtract P suite None derived
        in after (derive E suite masterSecret clientApplicationTrafficLabel (Some tr)) (\<lambda>trafficSecret.
           after (derive E suite masterSecret serverApplicationTrafficLabel (Some tr)) (\<lambda>serverSecret.
           after (set_out E suite serverSecret) (\<lambda>_.
           after (log_secret keyLogLabelClientTraffic random trafficSecret) (\<lambda>_.
           after (log_secret keyLogLabelServerTraffic random serverSecret) (\<lambda>_.
           after (total (exportKeyingMaterial P B suite masterSecret tr)) (\<lambda>ekm.
           after (change (\<lambda>t. t\<lparr>t_ekm := Some ekm\<rparr>)) (\<lambda>_.
           let hs = hs0\<lparr>s3_transcript := tr, s3_masterSecret := masterSecret, s3_trafficSecret := trafficSecret\<rparr>
           in if \<not> requestClientCert t0 hs then sendSessionTickets E hs else ret hs))))))))))))"

section \<open>The client's messages\<close>

text \<open>CertificateVerify over the transcript: the signature type may not be PKCS 1 version 1.5, the hash not SHA-1.\<close>

definition check_certVerify13 ::
  "'b env \<Rightarrow> u16 list \<Rightarrow> bytes \<Rightarrow> string \<Rightarrow> string \<Rightarrow> certificateVerifyMsg \<Rightarrow> hash_state \<Rightarrow> unit act" where
  "check_certVerify13 E algs context bad_alg bad_sig certVerify tr =
     after (ensure (isSupportedSignatureAlgorithm (cv_signatureAlgorithm certVerify) algs) alertIllegalParameter bad_alg) (\<lambda>_.
     after (on_error (\<lambda>_. alert_fail alertInternalError (LocalError alertInternalError))
       (typeAndHashFromSignatureScheme (cv_signatureAlgorithm certVerify))) (\<lambda>(sigType, sigHash).
     after (ensure (\<not> (sigType = signaturePKCS1v15 \<or> sigHash = SHA1)) alertIllegalParameter bad_alg) (\<lambda>_.
     after peer_leaf (\<lambda>leaf.
     ensure (verifyHandshakeSignature (e_X E) sigType (x_PublicKey leaf) sigHash
         (signedMessage (e_P E) sigHash context tr) (cv_signature certVerify) = None) alertDecryptError bad_sig))))"

definition readClientCertificate :: "'b env \<Rightarrow> serverHandshakeStateTLS13 \<Rightarrow> serverHandshakeStateTLS13 act" where
  "readClientCertificate E hs = after the_state (\<lambda>t.
     if \<not> requestClientCert t hs then after verify_connection (\<lambda>_. ret hs)
     else
       after (readExpected E certificate13_of) (\<lambda>certMsg.
       after (total (marshal_certificateTLS13 (e_B E) certMsg)) (\<lambda>(m, _).
       let tr = hash_Write m (s3_transcript hs)
       in after (processCertsFromClient E (c13_certificate certMsg)) (\<lambda>_.
          after verify_connection (\<lambda>_.
          after
            (if length (crt_Certificate (c13_certificate certMsg)) \<noteq> 0 then
               after (readExpected E certVerify_of) (\<lambda>certVerify.
               after (check_certVerify13 E supportedSignatureAlgorithms clientSignatureContext
                 ''tls: client certificate used with invalid signature algorithm''
                 ''tls: invalid signature by the client certificate'' certVerify tr) (\<lambda>_.
               after (total (marshal_certificateVerify (e_B E) certVerify)) (\<lambda>(cv, _).
               ret (hash_Write cv tr))))
             else ret tr) (\<lambda>tr1.
          sendSessionTickets E (hs\<lparr>s3_transcript := tr1\<rparr>))))))) "

definition readClientFinished :: "'b env \<Rightarrow> serverHandshakeStateTLS13 \<Rightarrow> unit act" where
  "readClientFinished E hs =
     after (readExpected E finished_of) (\<lambda>finished.
     after (ensure (s3_clientFinished hs = fin_verifyData finished) alertDecryptError ''tls: invalid client finished hash'') (\<lambda>_.
     set_in E (s3_suite hs) (s3_trafficSecret hs)))"

section \<open>The handshake\<close>

definition set_complete :: "unit act" where
  "set_complete = change_conn (\<lambda>c. c\<lparr>c_complete := True\<rparr>)"

definition server_handshake13 :: "'b env \<Rightarrow> clientHelloMsg \<Rightarrow> unit act" where
  "server_handshake13 E clientHello =
     after (processClientHello13 E clientHello) (\<lambda>hs1.
     after (checkForResumption13 E hs1) (\<lambda>hs2.
     after (pickCertificate E hs2) (\<lambda>hs3.
     after set_buffering (\<lambda>_.
     after (sendServerParameters E hs3) (\<lambda>hs4.
     after (sendServerCertificate E hs4) (\<lambda>hs5.
     after (sendServerFinished E hs5) (\<lambda>hs6.
     after flush_records (\<lambda>_.
     after (readClientCertificate E hs6) (\<lambda>hs7.
     after (readClientFinished E hs7) (\<lambda>_.
     set_complete))))))))))"

text \<open>\<open>serverHandshake\<close>: the version decides.\<close>

definition serverHandshake :: "'b env \<Rightarrow> unit act" where
  "serverHandshake E =
     after (readClientHello E) (\<lambda>clientHello.
     after the_state (\<lambda>t.
     if t_vers t = VersionTLS13 then server_handshake13 E clientHello
     else server_handshake E (new_serverHandshake clientHello)))"

end
