(* ===== verification/Client13.thy ===== *)
theory Client13
  imports Server13
begin

text \<open>
  The client handshake of TLS 1.3 (\<open>handshake_client_tls13.go\<close>) and \<open>clientHandshake\<close>
  (\<open>handshake_client.go\<close>), which decides between the versions and looks after the session cache.
\<close>

section \<open>State\<close>

text \<open>The transcript has no meaning before \<open>handshake\<close> sets it.\<close>

record clientHandshakeStateTLS13 =
  c3_serverHello :: serverHelloMsg
  c3_hello :: clientHelloMsg
  c3_ecdheParams :: "ecdheParameters option"
  c3_session :: "ClientSessionState option"
  c3_earlySecret :: bytes
  c3_binderKey :: bytes
  c3_certReq :: "certificateRequestMsgTLS13 option"
  c3_usingPSK :: bool
  c3_sentDummyCCS :: bool
  c3_suite :: "cipherSuiteTLS13 option"
  c3_transcript :: hash_state
  c3_masterSecret :: bytes
  c3_trafficSecret :: bytes

definition new_clientHandshake13 ::
  "serverHelloMsg \<Rightarrow> clientHelloMsg \<Rightarrow> ecdheParameters option \<Rightarrow> loadedSession \<Rightarrow> clientHandshakeStateTLS13" where
  "new_clientHandshake13 serverHello hello params ld =
     \<lparr>c3_serverHello = serverHello, c3_hello = hello, c3_ecdheParams = params, c3_session = ld_session ld,
      c3_earlySecret = ld_earlySecret ld, c3_binderKey = ld_binderKey ld, c3_certReq = None, c3_usingPSK = False,
      c3_sentDummyCCS = False, c3_suite = None, c3_transcript = hash_new SHA256, c3_masterSecret = [],
      c3_trafficSecret = []\<rparr>"

text \<open>\<open>return c.sendAlert(alertInternalError)\<close>.\<close>

definition internal_error :: "'a act" where
  "internal_error = alert_fail alertInternalError (LocalError alertInternalError)"

section \<open>ServerHello\<close>

definition forbidden_extension :: "serverHelloMsg \<Rightarrow> bool" where
  "forbidden_extension sh \<longleftrightarrow>
     sh_ocspStapling sh \<or> sh_ticketSupported sh \<or> sh_secureRenegotiationSupported sh \<or>
     length (sh_secureRenegotiation sh) \<noteq> 0 \<or> length (sh_alpnProtocol sh) \<noteq> 0 \<or> length (sh_scts sh) \<noteq> 0"

text \<open>Two suites of the table are the same when their ids are.\<close>

definition choose_suite_client :: "'b env \<Rightarrow> clientHandshakeStateTLS13 \<Rightarrow> clientHandshakeStateTLS13 act" where
  "choose_suite_client E hs =
     (let selectedSuite = mutualCipherSuiteTLS13 (e_P E) (ch_cipherSuites (c3_hello hs)) (sh_cipherSuite (c3_serverHello hs))
      in after (ensure (c3_suite hs = None \<or> map_option c13_id selectedSuite = map_option c13_id (c3_suite hs)) alertIllegalParameter
           ''tls: server changed cipher suite after a HelloRetryRequest'') (\<lambda>_.
         case selectedSuite of
           None \<Rightarrow> alert_fail alertIllegalParameter (OtherError ''tls: server chose an unconfigured cipher suite'')
         | Some suite \<Rightarrow>
             after (change_conn (\<lambda>c. c\<lparr>c_cipherSuite := c13_id suite\<rparr>)) (\<lambda>_.
             ret (hs\<lparr>c3_suite := Some suite\<rparr>))))"

definition checkServerHelloOrHRR :: "'b env \<Rightarrow> clientHandshakeStateTLS13 \<Rightarrow> clientHandshakeStateTLS13 act" where
  "checkServerHelloOrHRR E hs =
     (let sh = c3_serverHello hs
      in after (ensure (sh_supportedVersion sh \<noteq> 0) alertMissingExtension
           ''tls: server selected TLS 1.3 using the legacy version field'') (\<lambda>_.
         after (ensure (sh_supportedVersion sh = VersionTLS13) alertIllegalParameter
           ''tls: server selected an invalid version after a HelloRetryRequest'') (\<lambda>_.
         after (ensure (sh_vers sh = VersionTLS12) alertIllegalParameter ''tls: server sent an incorrect legacy version'') (\<lambda>_.
         after (ensure (\<not> forbidden_extension sh) alertUnsupportedExtension
           ''tls: server sent a ServerHello extension forbidden in TLS 1.3'') (\<lambda>_.
         after (ensure (ch_sessionId (c3_hello hs) = sh_sessionId sh) alertIllegalParameter
           ''tls: server did not echo the legacy session ID'') (\<lambda>_.
         after (ensure (sh_compressionMethod sh = compressionNone) alertIllegalParameter
           ''tls: server selected unsupported compression format'') (\<lambda>_.
         choose_suite_client E hs)))))))"

definition client_dummyCCS :: "clientHandshakeStateTLS13 \<Rightarrow> clientHandshakeStateTLS13 act" where
  "client_dummyCCS hs =
     (if c3_sentDummyCCS hs then ret hs
      else after (writeRecord recordTypeChangeCipherSpec [1]) (\<lambda>_. ret (hs\<lparr>c3_sentDummyCCS := True\<rparr>)))"

section \<open>HelloRetryRequest\<close>

text \<open>The transcript that starts with the hash of the first ClientHello and the request.\<close>

definition retry_transcript :: "bytes \<Rightarrow> bytes \<Rightarrow> hash_state \<Rightarrow> hash_state" where
  "retry_transcript chHash hrr tr =
     hash_Write hrr (hash_Write chHash (hash_Write [typeMessageHash, 0, 0, word_of_nat (length chHash)] tr))"

text \<open>An empty cookie is refused when the message is read, so that \<open>[]\<close> stands for nil.\<close>

definition check_retryRequest :: "serverHelloMsg \<Rightarrow> clientHelloMsg \<Rightarrow> clientHelloMsg act" where
  "check_retryRequest sh hello =
     after (ensure (\<not> (sh_selectedGroup sh = 0 \<and> sh_cookie sh = [])) alertIllegalParameter
       ''tls: server sent an unnecessary HelloRetryRequest message'') (\<lambda>_.
     after (ensure (ks_group (sh_serverShare sh) = 0) alertDecodeError ''tls: received malformed key_share extension'') (\<lambda>_.
     ret (if sh_cookie sh \<noteq> [] then hello\<lparr>ch_cookie := sh_cookie sh\<rparr> else hello)))"

definition retry_share :: "'b env \<Rightarrow> clientHandshakeStateTLS13 \<Rightarrow> clientHandshakeStateTLS13 act" where
  "retry_share E hs =
     (let curveID = sh_selectedGroup (c3_serverHello hs)
      in if curveID = 0 then ret hs
         else
           after (ensure (list_ex (\<lambda>i. i = curveID) (ch_supportedCurves (c3_hello hs))) alertIllegalParameter
             ''tls: server selected unsupported group'') (\<lambda>_.
           after (total (c3_ecdheParams hs)) (\<lambda>old.
           after (ensure (CurveID old \<noteq> curveID) alertIllegalParameter
             ''tls: server sent an unnecessary HelloRetryRequest key_share'') (\<lambda>_.
           after (ensure (\<not> (curveID \<noteq> X25519 \<and> curveForCurveID curveID = None)) alertInternalError
             ''tls: CurvePreferences includes unsupported curve'') (\<lambda>_.
           after (with_host host_source) (\<lambda>rnd.
           after (on_error (alert_fail alertInternalError) (generateECDHEParameters (e_P E) rnd curveID)) (\<lambda>params.
           after (total (PublicKey (e_P E) params)) (\<lambda>pub.
           ret (hs\<lparr>c3_ecdheParams := Some params,
             c3_hello := (c3_hello hs)\<lparr>ch_keyShares := [\<lparr>ks_group = curveID, ks_data = pub\<rparr>]\<rparr>\<rparr>)))))))))"

text \<open>The binder over the new transcript, with the age of the ticket by now.\<close>

definition new_binder ::
  "'b env \<Rightarrow> bytes \<Rightarrow> bytes \<Rightarrow> cipherSuiteTLS13 \<Rightarrow> ClientSessionState \<Rightarrow> int \<Rightarrow> clientHandshakeStateTLS13 \<Rightarrow>
     clientHelloMsg option" where
  "new_binder E chHash hrr suite session now hs =
     (let ticketAge = word_of_int (go_quot (now - css_receivedAt session) 1000000) :: u32;
          hello = (c3_hello hs)\<lparr>ch_pskIdentities :=
            (case ch_pskIdentities (c3_hello hs) of
               [] \<Rightarrow> [] | p # ps \<Rightarrow> p\<lparr>psk_age := ticketAge + css_ageAdd session\<rparr> # ps)\<rparr>
      in do {
        (msg, hello1) \<leftarrow> marshalWithoutBinders (e_B E) hello;
        binder \<leftarrow> finishedHash13 (e_P E) (e_B E) suite (c3_binderKey hs)
          (hash_Write msg (retry_transcript chHash hrr (hash_new (c13_hash suite))));
        updateBinders (e_B E) [binder] hello1
      })"

definition retry_psk ::
  "'b env \<Rightarrow> bytes \<Rightarrow> bytes \<Rightarrow> cipherSuiteTLS13 \<Rightarrow> clientHandshakeStateTLS13 \<Rightarrow> clientHandshakeStateTLS13 act" where
  "retry_psk E chHash hrr suite hs =
     (if length (ch_pskIdentities (c3_hello hs)) > 0 then
        after (total (c3_session hs)) (\<lambda>session.
        case cipherSuiteTLS13ByID (e_P E) (css_cipherSuite session) of
          None \<Rightarrow> internal_error
        | Some pskSuite \<Rightarrow>
            if c13_hash pskSuite = c13_hash suite then
              after (with_host host_time) (\<lambda>now.
              after (total (new_binder E chHash hrr suite session now hs)) (\<lambda>hello.
              ret (hs\<lparr>c3_hello := hello\<rparr>)))
            else ret (hs\<lparr>c3_hello := (c3_hello hs)\<lparr>ch_pskIdentities := [], ch_pskBinders := []\<rparr>\<rparr>))
      else ret hs)"

definition processHelloRetryRequest :: "'b env \<Rightarrow> clientHandshakeStateTLS13 \<Rightarrow> clientHandshakeStateTLS13 act" where
  "processHelloRetryRequest E hs0 =
     (let chHash = hash_Sum (e_P E) (c3_transcript hs0)
      in after (total (c3_suite hs0)) (\<lambda>suite.
         after (total (marshal_serverHello (e_B E) (c3_serverHello hs0))) (\<lambda>(hrr, sh).
         let tr = retry_transcript chHash hrr (hash_Reset (c3_transcript hs0))
         in after (check_retryRequest sh (c3_hello hs0)) (\<lambda>hello.
            after (retry_share E (hs0\<lparr>c3_serverHello := sh, c3_hello := hello\<rparr>)) (\<lambda>hs1.
            after (retry_psk E chHash hrr suite (hs1\<lparr>c3_hello := (c3_hello hs1)\<lparr>ch_raw := None\<rparr>\<rparr>)) (\<lambda>hs2.
            after (total (marshal_clientHello (e_B E) (c3_hello hs2))) (\<lambda>(ch, hello2).
            after (send13 ch tr) (\<lambda>tr1.
            after (readExpected E serverHello_of) (\<lambda>serverHello.
            checkServerHelloOrHRR E
              (hs2\<lparr>c3_hello := hello2, c3_transcript := tr1, c3_serverHello := serverHello\<rparr>)))))))))) "

section \<open>Keys\<close>

definition accept_session :: "'b env \<Rightarrow> clientHandshakeStateTLS13 \<Rightarrow> clientHandshakeStateTLS13 act" where
  "accept_session E hs =
     (case (ch_pskIdentities (c3_hello hs), c3_session hs) of
        ([_], Some session) \<Rightarrow>
          after (total (c3_suite hs)) (\<lambda>suite.
          case cipherSuiteTLS13ByID (e_P E) (css_cipherSuite session) of
            None \<Rightarrow> internal_error
          | Some pskSuite \<Rightarrow>
              after (ensure (c13_hash pskSuite = c13_hash suite) alertIllegalParameter
                ''tls: server selected an invalid PSK and cipher suite pair'') (\<lambda>_.
              after (change (\<lambda>t. t\<lparr>t_didResume := True, t_peerCertificates := css_serverCertificates session,
                t_verifiedChains := css_verifiedChains session, t_ocspResponse := css_ocspResponse session,
                t_scts := css_scts session\<rparr>)) (\<lambda>_.
              ret (hs\<lparr>c3_usingPSK := True\<rparr>))))
      | _ \<Rightarrow> internal_error)"

definition client_processServerHello13 :: "'b env \<Rightarrow> clientHandshakeStateTLS13 \<Rightarrow> clientHandshakeStateTLS13 act" where
  "client_processServerHello13 E hs =
     (let sh = c3_serverHello hs
      in after (ensure (sh_random sh \<noteq> helloRetryRequestRandom) alertUnexpectedMessage
           ''tls: server sent two HelloRetryRequest messages'') (\<lambda>_.
         after (ensure (length (sh_cookie sh) = 0) alertUnsupportedExtension
           ''tls: server sent a cookie in a normal ServerHello'') (\<lambda>_.
         after (ensure (sh_selectedGroup sh = 0) alertDecodeError ''tls: malformed key_share extension'') (\<lambda>_.
         after (ensure (ks_group (sh_serverShare sh) \<noteq> 0) alertIllegalParameter ''tls: server did not send a key share'') (\<lambda>_.
         after (total (c3_ecdheParams hs)) (\<lambda>params.
         after (ensure (ks_group (sh_serverShare sh) = CurveID params) alertIllegalParameter
           ''tls: server selected unsupported group'') (\<lambda>_.
         if \<not> sh_selectedIdentityPresent sh then ret hs
         else
           after (ensure (unat (sh_selectedIdentity sh) < length (ch_pskIdentities (c3_hello hs))) alertIllegalParameter
             ''tls: server selected an invalid PSK'') (\<lambda>_.
           accept_session E hs))))))))"

definition establishHandshakeKeys :: "'b env \<Rightarrow> clientHandshakeStateTLS13 \<Rightarrow> clientHandshakeStateTLS13 act" where
  "establishHandshakeKeys E hs =
     (let P = e_P E; random = ch_random (c3_hello hs)
      in after (total (c3_suite hs)) (\<lambda>suite.
         after (total (c3_ecdheParams hs)) (\<lambda>params.
         after (total (SharedKey P params (ks_data (sh_serverShare (c3_serverHello hs))))) (\<lambda>key.
         case key of
           None \<Rightarrow> alert_fail alertIllegalParameter (OtherError ''tls: invalid server key share'')
         | Some sharedKey \<Rightarrow>
             let earlySecret = (if \<not> c3_usingPSK hs then hkdfExtract P suite None [] else c3_earlySecret hs)
             in after (derive E suite earlySecret (str ''derived'') None) (\<lambda>derived.
                let handshakeSecret = hkdfExtract P suite (Some sharedKey) derived
                in after (derive E suite handshakeSecret clientHandshakeTrafficLabel (Some (c3_transcript hs))) (\<lambda>clientSecret.
                   after (set_out E suite clientSecret) (\<lambda>_.
                   after (derive E suite handshakeSecret serverHandshakeTrafficLabel (Some (c3_transcript hs))) (\<lambda>serverSecret.
                   after (set_in E suite serverSecret) (\<lambda>_.
                   after (log_secret keyLogLabelClientHandshake random clientSecret) (\<lambda>_.
                   after (log_secret keyLogLabelServerHandshake random serverSecret) (\<lambda>_.
                   after (derive E suite handshakeSecret (str ''derived'') None) (\<lambda>derived2.
                   ret (hs\<lparr>c3_masterSecret := hkdfExtract P suite None derived2\<rparr>)))))))))))))"

section \<open>The server's messages\<close>

definition readServerParameters :: "'b env \<Rightarrow> clientHandshakeStateTLS13 \<Rightarrow> clientHandshakeStateTLS13 act" where
  "readServerParameters E hs =
     after (readExpected E encryptedExtensions_of) (\<lambda>ee.
     after (total (marshal_encryptedExtensions (e_B E) ee)) (\<lambda>(m, _).
     after (case checkALPN (ch_alpnProtocols (c3_hello hs)) (ee_alpnProtocol ee) of
              None \<Rightarrow> ret () | Some e \<Rightarrow> alert_fail alertUnsupportedExtension e) (\<lambda>_.
     after (change (\<lambda>t. t\<lparr>t_clientProtocol := ee_alpnProtocol ee\<rparr>)) (\<lambda>_.
     ret (hs\<lparr>c3_transcript := hash_Write m (c3_transcript hs)\<rparr>)))))"

definition read_certReq13 ::
  "'b env \<Rightarrow> handshakeMessage option \<Rightarrow> clientHandshakeStateTLS13 \<Rightarrow>
     (clientHandshakeStateTLS13 \<times> handshakeMessage option) act" where
  "read_certReq13 E msg hs =
     (case Option.bind msg certRequest13_of of
        None \<Rightarrow> ret (hs, msg)
      | Some certReq \<Rightarrow>
          after (total (marshal_certificateRequestTLS13 (e_B E) certReq)) (\<lambda>(m, certReq1).
          after (readMessage E) (\<lambda>msg1.
          ret (hs\<lparr>c3_transcript := hash_Write m (c3_transcript hs), c3_certReq := Some certReq1\<rparr>, msg1))))"

definition readServerCertificate :: "'b env \<Rightarrow> clientHandshakeStateTLS13 \<Rightarrow> clientHandshakeStateTLS13 act" where
  "readServerCertificate E hs0 =
     (if c3_usingPSK hs0 then after verify_connection (\<lambda>_. ret hs0)
      else
        after (readMessage E) (\<lambda>msg.
        after (read_certReq13 E msg hs0) (\<lambda>(hs, msg1).
        after (expect certificate13_of msg1) (\<lambda>certMsg.
        let certificate = c13_certificate certMsg
        in after (ensure (length (crt_Certificate certificate) \<noteq> 0) alertDecodeError
             ''tls: received empty certificates message'') (\<lambda>_.
           after (total (marshal_certificateTLS13 (e_B E) certMsg)) (\<lambda>(m, _).
           after (change (\<lambda>t. t\<lparr>t_scts := (case crt_SCTs certificate of Some x \<Rightarrow> x | None \<Rightarrow> []),
             t_ocspResponse := (case crt_OCSPStaple certificate of Some x \<Rightarrow> x | None \<Rightarrow> [])\<rparr>)) (\<lambda>_.
           after (verifyServerCertificate E (crt_Certificate certificate)) (\<lambda>_.
           after (readExpected E certVerify_of) (\<lambda>certVerify.
           let tr = hash_Write m (c3_transcript hs)
           in after (check_certVerify13 E supportedSignatureAlgorithms serverSignatureContext
                ''tls: certificate used with invalid signature algorithm''
                ''tls: invalid signature by the server certificate'' certVerify tr) (\<lambda>_.
              after (total (marshal_certificateVerify (e_B E) certVerify)) (\<lambda>(cv, _).
              ret (hs\<lparr>c3_transcript := hash_Write cv tr\<rparr>))))))))))))"

definition readServerFinished :: "'b env \<Rightarrow> clientHandshakeStateTLS13 \<Rightarrow> clientHandshakeStateTLS13 act" where
  "readServerFinished E hs =
     (let P = e_P E; B = e_B E; random = ch_random (c3_hello hs)
      in after (readExpected E finished_of) (\<lambda>finished.
         after (total (c3_suite hs)) (\<lambda>suite.
         after the_state (\<lambda>t.
         after (total (finishedHash13 P B suite (hc_trafficSecret (c_in (t_conn t))) (c3_transcript hs))) (\<lambda>expectedMAC.
         after (ensure (expectedMAC = fin_verifyData finished) alertDecryptError ''tls: invalid server finished hash'') (\<lambda>_.
         after (total (marshal_finished B finished)) (\<lambda>(m, _).
         let tr = hash_Write m (c3_transcript hs)
         in after (derive E suite (c3_masterSecret hs) clientApplicationTrafficLabel (Some tr)) (\<lambda>trafficSecret.
            after (derive E suite (c3_masterSecret hs) serverApplicationTrafficLabel (Some tr)) (\<lambda>serverSecret.
            after (set_in E suite serverSecret) (\<lambda>_.
            after (log_secret keyLogLabelClientTraffic random trafficSecret) (\<lambda>_.
            after (log_secret keyLogLabelServerTraffic random serverSecret) (\<lambda>_.
            after (total (exportKeyingMaterial P B suite (c3_masterSecret hs) tr)) (\<lambda>ekm.
            after (change (\<lambda>t. t\<lparr>t_ekm := Some ekm\<rparr>)) (\<lambda>_.
            ret (hs\<lparr>c3_transcript := tr, c3_trafficSecret := trafficSecret\<rparr>)))))))))))))) )"

section \<open>The client's messages\<close>

text \<open>The certificate of the configuration; a nil one makes the code panic.\<close>

definition choose_certificate13 :: "'b env \<Rightarrow> certificateRequestMsgTLS13 \<Rightarrow> tlsCertificate act" where
  "choose_certificate13 E certReq = after the_state (\<lambda>t.
     case getClientCertificate (e_X E) (t_config t)
         \<lparr>cri_AcceptableCAs = cr13_certificateAuthorities certReq,
          cri_SignatureSchemes = cr13_supportedSignatureAlgorithms certReq, cri_Version = t_vers t\<rparr> of
       (_, Some err) \<Rightarrow> fail err
     | (cert, None) \<Rightarrow> total cert)"

definition sendClientCertificate :: "'b env \<Rightarrow> clientHandshakeStateTLS13 \<Rightarrow> clientHandshakeStateTLS13 act" where
  "sendClientCertificate E hs =
     (case c3_certReq hs of
        None \<Rightarrow> ret hs
      | Some certReq \<Rightarrow>
          after (choose_certificate13 E certReq) (\<lambda>cert.
          after (total (marshal_certificateTLS13 (e_B E)
            \<lparr>c13_raw = None, c13_certificate = certificate_part cert,
             c13_ocspStapling = (cr13_ocspStapling certReq \<and> option_length (crt_OCSPStaple cert) > 0),
             c13_scts = (cr13_scts certReq \<and> option_length (crt_SCTs cert) > 0)\<rparr>)) (\<lambda>(m, _).
          after (send13 m (c3_transcript hs)) (\<lambda>tr.
          if length (crt_Certificate cert) = 0 then ret (hs\<lparr>c3_transcript := tr\<rparr>)
          else
            after the_state (\<lambda>t.
            after (on_error (alert_fail alertHandshakeFailure)
              (selectSignatureScheme (t_vers t) cert (cr13_supportedSignatureAlgorithms certReq))) (\<lambda>sigAlg.
            after (sign_transcript E sigAlg (tc_PrivateKey cert) clientSignatureContext
              (\<lambda>_ _ _. alertInternalError) tr) (\<lambda>tr1.
            ret (hs\<lparr>c3_transcript := tr1\<rparr>))))))))"

definition sendClientFinished :: "'b env \<Rightarrow> clientHandshakeStateTLS13 \<Rightarrow> clientHandshakeStateTLS13 act" where
  "sendClientFinished E hs =
     after (total (c3_suite hs)) (\<lambda>suite.
     after the_state (\<lambda>t.
     after (total (finishedHash13 (e_P E) (e_B E) suite (hc_trafficSecret (c_out (t_conn t))) (c3_transcript hs))) (\<lambda>verifyData.
     after (total (marshal_finished (e_B E) \<lparr>fin_raw = None, fin_verifyData = verifyData\<rparr>)) (\<lambda>(m, _).
     after (send13 m (c3_transcript hs)) (\<lambda>tr.
     after (set_out E suite (c3_trafficSecret hs)) (\<lambda>_.
     after (if \<not> cfg_SessionTicketsDisabled (t_config t) \<and> cfg_ClientSessionCache (t_config t) then
              after (derive E suite (c3_masterSecret hs) resumptionLabel (Some tr)) (\<lambda>secret.
              change (\<lambda>t. t\<lparr>t_resumptionSecret := secret\<rparr>))
            else ret ()) (\<lambda>_.
     ret (hs\<lparr>c3_transcript := tr\<rparr>))))))))"

section \<open>The handshake\<close>

definition client_handshake13 :: "'b env \<Rightarrow> clientHandshakeStateTLS13 \<Rightarrow> unit act" where
  "client_handshake13 E hs0 = after the_state (\<lambda>t.
     after (ensure (\<not> c_handshakes (t_conn t) > 0) alertProtocolVersion ''tls: server selected TLS 1.3 in a renegotiation'') (\<lambda>_.
     after (if c3_ecdheParams hs0 = None \<or> length (ch_keyShares (c3_hello hs0)) \<noteq> 1 then internal_error else ret ()) (\<lambda>_.
     after (checkServerHelloOrHRR E hs0) (\<lambda>hs1.
     after (total (c3_suite hs1)) (\<lambda>suite.
     after (total (marshal_clientHello (e_B E) (c3_hello hs1))) (\<lambda>(ch, hello).
     let hs2 = hs1\<lparr>c3_hello := hello, c3_transcript := hash_Write ch (hash_new (c13_hash suite))\<rparr>
     in after (if sh_random (c3_serverHello hs2) = helloRetryRequestRandom
               then after (client_dummyCCS hs2) (processHelloRetryRequest E) else ret hs2) (\<lambda>hs3.
        after (total (marshal_serverHello (e_B E) (c3_serverHello hs3))) (\<lambda>(sh, serverHello).
        after set_buffering (\<lambda>_.
        after (client_processServerHello13 E
          (hs3\<lparr>c3_serverHello := serverHello, c3_transcript := hash_Write sh (c3_transcript hs3)\<rparr>)) (\<lambda>hs4.
        after (client_dummyCCS hs4) (\<lambda>hs5.
        after (establishHandshakeKeys E hs5) (\<lambda>hs6.
        after (readServerParameters E hs6) (\<lambda>hs7.
        after (readServerCertificate E hs7) (\<lambda>hs8.
        after (readServerFinished E hs8) (\<lambda>hs9.
        after (sendClientCertificate E hs9) (\<lambda>hs10.
        after (sendClientFinished E hs10) (\<lambda>_.
        after flush_records (\<lambda>_.
        set_complete))))))))))))))))))"

text \<open>A ticket received after the handshake; an empty resumption secret stands for nil.\<close>

definition handleNewSessionTicket :: "'b env \<Rightarrow> newSessionTicketMsgTLS13 \<Rightarrow> unit act" where
  "handleNewSessionTicket E msg = after the_state (\<lambda>t.
     after (ensure (c_isClient (t_conn t)) alertUnexpectedMessage ''tls: received new session ticket from a client'') (\<lambda>_.
     if cfg_SessionTicketsDisabled (t_config t) \<or> \<not> cfg_ClientSessionCache (t_config t) then ret ()
     else if nst_lifetime msg = 0 then ret ()
     else
       let lifetime = nanoseconds (uint (nst_lifetime msg))
       in after (ensure (\<not> lifetime > maxSessionTicketLifetime) alertIllegalParameter
            ''tls: received a session ticket with invalid lifetime'') (\<lambda>_.
          if cipherSuiteTLS13ByID (e_P E) (c_cipherSuite (t_conn t)) = None \<or> t_resumptionSecret t = [] then internal_error
          else
            after (with_host host_time) (\<lambda>receivedAt.
            after (with_host host_time) (\<lambda>now.
            cache_Put (clientSessionCacheKey t) (Some
              \<lparr>css_sessionTicket = nst_label msg, css_vers = t_vers t, css_cipherSuite = c_cipherSuite (t_conn t),
               css_masterSecret = t_resumptionSecret t, css_serverCertificates = t_peerCertificates t,
               css_verifiedChains = t_verifiedChains t, css_receivedAt = receivedAt,
               css_ocspResponse = t_ocspResponse t, css_scts = t_scts t, css_nonce = nst_nonce msg,
               css_useBy = now + lifetime, css_ageAdd = nst_ageAdd msg\<rparr>))))))"

section \<open>clientHandshake\<close>

text \<open>A deferred step that is run when the handshake returns an error.\<close>

definition on_failure :: "unit act \<Rightarrow> 'a act \<Rightarrow> 'a act" where
  "on_failure cleanup m t =
     (case m t of
        None \<Rightarrow> None
      | Some (Inl e, t1) \<Rightarrow> map_option (\<lambda>(_, t2). (Inl e, t2)) (cleanup t1)
      | Some (Inr x, t1) \<Rightarrow> Some (Inr x, t1))"

definition run_client :: "'b env \<Rightarrow> ecdheParameters option \<Rightarrow> loadedSession \<Rightarrow> unit act" where
  "run_client E params ld =
     after (total (marshal_clientHello (e_B E) (ld_hello ld))) (\<lambda>(ch, hello).
     after (writeRecord recordTypeHandshake ch) (\<lambda>_.
     after (readExpected E serverHello_of) (\<lambda>serverHello.
     after (pickTLSVersion E serverHello) (\<lambda>_.
     after the_state (\<lambda>t.
     after (ensure (\<not> downgrade_detected E t serverHello) alertIllegalParameter
       ''tls: downgrade attempt detected, possibly due to a MitM attack or a broken middlebox'') (\<lambda>_.
     if t_vers t = VersionTLS13 then client_handshake13 E (new_clientHandshake13 serverHello hello params ld)
     else
       after (client_handshake E
         \<lparr>chs_serverHello = serverHello, chs_hello = hello, chs_suite = None, chs_finishedHash = None,
          chs_masterSecret = [], chs_session = ld_session ld, chs_newSession = False\<rparr>) (\<lambda>hs.
       if ld_cacheKey ld \<noteq> [] \<and> chs_session hs \<noteq> None \<and> chs_newSession hs
       then cache_Put (ld_cacheKey ld) (chs_session hs) else ret ())))))))"

definition clientHandshake :: "'b env \<Rightarrow> unit act" where
  "clientHandshake E =
     after (change (\<lambda>t. t\<lparr>t_didResume := False\<rparr>)) (\<lambda>_.
     after (makeClientHello E) (\<lambda>(hello, params).
     after (change (\<lambda>t. t\<lparr>t_serverName := ch_serverName hello\<rparr>)) (\<lambda>_.
     after (loadSession E hello) (\<lambda>ld.
     if ld_cacheKey ld \<noteq> [] \<and> ld_session ld \<noteq> None
     then on_failure (cache_Put (ld_cacheKey ld) None) (run_client E params ld)
     else run_client E params ld))))"

end
