(* ===== verification/Setup.thy ===== *)
theory Setup
  imports Client13 ConnIO
begin

text \<open>
  The entry points (\<open>tls.go\<close>, and \<open>Handshake\<close> and \<open>ConnectionState\<close> of \<open>conn.go\<close>): making a connection, the
  configuration a dialled one gets, running its handshake once, and reading a key pair. PEM, the X.509
  parsers and the numbers inside a public key are the parameters of \<open>key_files\<close>.
\<close>

section \<open>Connections\<close>

text \<open>What is outside of a connection: the network, the peer's address, the clock and the session cache.\<close>

record surroundings =
  su_net :: network
  su_addr :: bytes
  su_time :: "nat \<Rightarrow> int"
  su_cache :: lruSessionCache
  su_GetConfigForClient :: "(ClientHelloInfo \<Rightarrow> Config option \<times> conn_error option) option"

definition zero_halfConn :: halfConn where
  "zero_halfConn = \<lparr>hc_err = None, hc_version = 0, hc_cipher = None, hc_mac = None, hc_seq = seq_zero,
     hc_nextCipher = None, hc_nextMac = None, hc_trafficSecret = []\<rparr>"

definition zero_conn :: "bool \<Rightarrow> network \<Rightarrow> conn" where
  "zero_conn isClient nw =
     \<lparr>c_isClient = isClient, c_complete = False, c_handshakeErr = None, c_handshakes = 0, c_vers = 0,
      c_haveVers = False, c_sizingDisabled = False, c_cipherSuite = 0, c_in = zero_halfConn, c_out = zero_halfConn,
      c_rawInput = [], c_input = [], c_hand = [], c_buffering = False, c_sendBuf = [], c_bytesSent = 0,
      c_packetsSent = 0, c_retryCount = 0, c_closeNotifySent = False, c_closeNotifyErr = None, c_activeCall = 0,
      c_net = nw\<rparr>"

definition new_tlsConn :: "bool \<Rightarrow> surroundings \<Rightarrow> Config \<Rightarrow> tlsConn" where
  "new_tlsConn isClient su config =
     \<lparr>t_conn = (zero_conn isClient (su_net su))\<lparr>c_sizingDisabled := cfg_DynamicRecordSizingDisabled config\<rparr>,
      t_config = config, t_GetConfigForClient = su_GetConfigForClient su, t_originalConfig = config,
      t_sessionCache = su_cache su, t_time = su_time su, t_ticks = 0, t_keyLog = [], t_remoteAddr = su_addr su,
      t_didResume = False, t_ocspResponse = [], t_scts = [], t_peerCertificates = [], t_verifiedChains = [],
      t_serverName = [], t_secureRenegotiation = False, t_ekm = None, t_resumptionSecret = [], t_ticketKeys = [],
      t_clientFinishedIsFirst = False, t_clientFinished = replicate 12 0, t_serverFinished = replicate 12 0, t_clientProtocol = []\<rparr>"

text \<open>
  \<open>Server\<close> needs a configuration. \<open>Client\<close> leaves a nil one to \<open>clientHandshake\<close>, which takes the default.
\<close>

definition tls_Server :: "surroundings \<Rightarrow> Config \<Rightarrow> tlsConn" where
  "tls_Server su config = new_tlsConn False su config"

definition tls_Client :: "surroundings \<Rightarrow> Config option \<Rightarrow> tlsConn" where
  "tls_Client su config =
     new_tlsConn True su (case config of None \<Rightarrow> defaultConfig | Some c \<Rightarrow> c)"

definition Listen_check :: "(ClientHelloInfo \<Rightarrow> Config option \<times> conn_error option) option \<Rightarrow> Config option \<Rightarrow> conn_error option" where
  "Listen_check getConfigForClient config =
     (case config of
        None \<Rightarrow> Some (OtherError ''tls: neither Certificates, GetCertificate, nor GetConfigForClient set in Config'')
      | Some c \<Rightarrow>
          if length (cfg_Certificates c) = 0 \<and> cfg_GetCertificate c = None \<and> getConfigForClient = None
          then Some (OtherError ''tls: neither Certificates, GetCertificate, nor GetConfigForClient set in Config'')
          else None)"

text \<open>\<open>addr[:colonPos]\<close>, with the last colon or the end of the address.\<close>

definition dial_hostname :: "bytes \<Rightarrow> bytes" where
  "dial_hostname addr =
     (let n = length (takeWhile (\<lambda>b. b \<noteq> 58) (rev addr))
      in if n < length addr then take (length addr - Suc n) addr else addr)"

definition dial_config :: "bytes \<Rightarrow> Config option \<Rightarrow> Config" where
  "dial_config addr config =
     (let c = (case config of None \<Rightarrow> defaultConfig | Some c \<Rightarrow> c)
      in if cfg_ServerName c = [] then c\<lparr>cfg_readers := 0, cfg_ServerName := dial_hostname addr\<rparr> else c)"

section \<open>Handshake\<close>

text \<open>\<open>c.handshakeFn\<close>, set by \<open>Server\<close> and \<open>Client\<close>.\<close>

definition handshakeFn :: "'b env \<Rightarrow> unit act" where
  "handshakeFn E t = (if c_isClient (t_conn t) then clientHandshake E t else serverHandshake E t)"

definition result_error :: "conn_error + 'a \<Rightarrow> conn_error option" where
  "result_error r = (case r of Inl e \<Rightarrow> Some e | Inr _ \<Rightarrow> None)"

definition Handshake :: "'b env \<Rightarrow> tlsConn \<Rightarrow> (conn_error option \<times> tlsConn) option" where
  "Handshake E t =
     (if c_complete (t_conn t) then Some (None, t)
      else case c_handshakeErr (t_conn t) of
             Some e \<Rightarrow> Some (Some e, t)
           | None \<Rightarrow>
               (case handshakeFn E t of
                  None \<Rightarrow> None
                | Some (r, t1) \<Rightarrow>
                    (let c1 = t_conn t1;
                         c2 = (case result_error r of None \<Rightarrow> c1\<lparr>c_handshakes := c_handshakes c1 + 1\<rparr> | Some _ \<Rightarrow> snd (flush c1));
                         err = (if result_error r = None \<and> \<not> c_complete c2
                                then Some (OtherError ''handshake should have had a result'') else result_error r)
                     in if err \<noteq> None \<and> c_complete c2 then None
                        else Some (err, t1\<lparr>t_conn := c2\<lparr>c_handshakeErr := err\<rparr>\<rparr>))))"

definition ConnectionState_of :: "tlsConn \<Rightarrow> ConnectionState" where
  "ConnectionState_of t = connectionStateLocked t"

text \<open>The handshake as the record layer sees it: \<open>handshakeContext\<close> with this \<open>handshakeFn\<close>.\<close>

definition conn_handshake :: "'b env \<Rightarrow> tlsConn \<Rightarrow> conn \<Rightarrow> (conn_error option \<times> conn) option" where
  "conn_handshake E t c = map_option (\<lambda>(r, t1). (result_error r, t_conn t1)) (handshakeFn E (t\<lparr>t_conn := c\<rparr>))"

lemma Handshake_handshakeContext:
  "map_option (\<lambda>(e, t1). (e, t_conn t1)) (Handshake E t) = handshakeContext (conn_handshake E t) (t_conn t)"
  by (auto simp: Handshake_def handshakeContext_def conn_handshake_def Let_def split: option.splits)

section \<open>Key pairs\<close>

record key_files =
  pem_Decode :: "bytes \<Rightarrow> ((string \<times> bytes) \<times> bytes) option"
  ParsePKCS1PrivateKey :: "bytes \<Rightarrow> privateKey option"
  ParsePKCS8PrivateKey :: "bytes \<Rightarrow> privateKey option"
  ParseECPrivateKey :: "bytes \<Rightarrow> privateKey option"
  key_N :: "publicKey \<Rightarrow> nat"
  key_XY :: "publicKey \<Rightarrow> nat \<times> nat"

text \<open>The loops over the PEM blocks end when decoding a block leaves less input.\<close>

partial_function (option) read_blocks ::
  "key_files \<Rightarrow> bytes \<Rightarrow> bytes list \<Rightarrow> string list \<Rightarrow> (bytes list \<times> string list) option" where
  "read_blocks F block certs skipped =
     (case pem_Decode F block of
        None \<Rightarrow> Some (certs, skipped)
      | Some ((t, d), rest) \<Rightarrow>
          if t = ''CERTIFICATE'' then read_blocks F rest (certs @ [d]) skipped
          else read_blocks F rest certs (skipped @ [t]))"

definition has_suffix :: "string \<Rightarrow> string \<Rightarrow> bool" where
  "has_suffix s suf \<longleftrightarrow> length suf \<le> length s \<and> drop (length s - length suf) s = suf"

partial_function (option) read_key_block ::
  "key_files \<Rightarrow> bytes \<Rightarrow> string list \<Rightarrow> (string list + bytes) option" where
  "read_key_block F block skipped =
     (case pem_Decode F block of
        None \<Rightarrow> Some (Inl skipped)
      | Some ((t, d), rest) \<Rightarrow>
          if t = ''PRIVATE KEY'' \<or> has_suffix t '' PRIVATE KEY'' then Some (Inr d)
          else read_key_block F rest (skipped @ [t]))"

definition no_certificate_error :: "string list \<Rightarrow> conn_error" where
  "no_certificate_error skipped = OtherError
     (case skipped of
        [] \<Rightarrow> ''tls: failed to find any PEM data in certificate input''
      | [t] \<Rightarrow> if has_suffix t ''PRIVATE KEY''
               then ''tls: failed to find certificate PEM data in certificate input, but did find a private key; PEM inputs may have been switched''
               else ''tls: failed to find CERTIFICATE PEM block in certificate input''
      | _ \<Rightarrow> ''tls: failed to find CERTIFICATE PEM block in certificate input'')"

definition no_key_error :: "string list \<Rightarrow> conn_error" where
  "no_key_error skipped = OtherError
     (case skipped of
        [] \<Rightarrow> ''tls: failed to find any PEM data in key input''
      | [t] \<Rightarrow> if t = ''CERTIFICATE'' then ''tls: found a certificate rather than a key in the PEM for the private key''
               else ''tls: failed to find PEM block with type ending in PRIVATE KEY in key input''
      | _ \<Rightarrow> ''tls: failed to find PEM block with type ending in PRIVATE KEY in key input'')"

definition parsePrivateKey :: "key_files \<Rightarrow> bytes \<Rightarrow> conn_error + privateKey" where
  "parsePrivateKey F der =
     (case ParsePKCS1PrivateKey F der of
        Some key \<Rightarrow> Inr key
      | None \<Rightarrow>
          (case ParsePKCS8PrivateKey F der of
             Some key \<Rightarrow>
               if pk_type key \<in> {''*rsa.PrivateKey'', ''*ecdsa.PrivateKey'', ''ed25519.PrivateKey''} then Inr key
               else Inl (OtherError ''tls: found unknown private key type in PKCS#8 wrapping'')
           | None \<Rightarrow>
               (case ParseECPrivateKey F der of
                  Some key \<Rightarrow> Inr key
                | None \<Rightarrow> Inl (OtherError ''tls: failed to parse private key''))))"

text \<open>Modulus, point or key of both halves are the same; the public half of a private key is that of its signer.\<close>

definition match_keys :: "key_files \<Rightarrow> publicKey \<Rightarrow> privateKey \<Rightarrow> conn_error option" where
  "match_keys F pub key =
     (let wrong_type = Some (OtherError ''tls: private key type does not match public key type'');
          wrong_key = Some (OtherError ''tls: private key does not match public key'')
      in case pub of
           RSAKey _ _ \<Rightarrow>
             if pk_type key \<noteq> ''*rsa.PrivateKey'' then wrong_type
             else if map_option (key_N F) (pk_signer key) \<noteq> Some (key_N F pub) then wrong_key else None
         | ECDSAKey _ _ \<Rightarrow>
             if pk_type key \<noteq> ''*ecdsa.PrivateKey'' then wrong_type
             else if map_option (key_XY F) (pk_signer key) \<noteq> Some (key_XY F pub) then wrong_key else None
         | Ed25519Key _ \<Rightarrow>
             if pk_type key \<noteq> ''ed25519.PrivateKey'' then wrong_type
             else if pk_signer key \<noteq> Some pub then wrong_key else None
         | OtherKey _ \<Rightarrow> Some (OtherError ''tls: unknown public key algorithm''))"

definition X509KeyPair :: "pki \<Rightarrow> key_files \<Rightarrow> bytes \<Rightarrow> bytes \<Rightarrow> (conn_error + tlsCertificate) option" where
  "X509KeyPair X F certPEMBlock keyPEMBlock =
     (case read_blocks F certPEMBlock [] [] of
        None \<Rightarrow> None
      | Some ([], skipped) \<Rightarrow> Some (Inl (no_certificate_error skipped))
      | Some (d # ds, _) \<Rightarrow>
          (case read_key_block F keyPEMBlock [] of
             None \<Rightarrow> None
           | Some (Inl skipped) \<Rightarrow> Some (Inl (no_key_error skipped))
           | Some (Inr der) \<Rightarrow> Some
               (case ParseCertificate X d of
                  None \<Rightarrow> Inl (OtherError ''x509'')
                | Some x509Cert \<Rightarrow>
                    (case parsePrivateKey F der of
                       Inl err \<Rightarrow> Inl err
                     | Inr key \<Rightarrow>
                         (case match_keys F (x_PublicKey x509Cert) key of
                            Some err \<Rightarrow> Inl err
                          | None \<Rightarrow> Inr (new_Certificate\<lparr>crt_Certificate := d # ds, tc_PrivateKey := key\<rparr>))))))"

definition LoadX509KeyPair ::
  "pki \<Rightarrow> key_files \<Rightarrow> (bytes \<Rightarrow> conn_error + bytes) \<Rightarrow> bytes \<Rightarrow> bytes \<Rightarrow> (conn_error + tlsCertificate) option" where
  "LoadX509KeyPair X F readFile certFile keyFile =
     (case readFile certFile of
        Inl err \<Rightarrow> Some (Inl err)
      | Inr certPEMBlock \<Rightarrow>
          (case readFile keyFile of
             Inl err \<Rightarrow> Some (Inl err)
           | Inr keyPEMBlock \<Rightarrow> X509KeyPair X F certPEMBlock keyPEMBlock))"

section \<open>Lemmas\<close>

definition pem_shrinks :: "key_files \<Rightarrow> bool" where
  "pem_shrinks F \<longleftrightarrow> (\<forall>b r rest. pem_Decode F b = Some (r, rest) \<longrightarrow> length rest < length b)"

lemma read_blocks_ends: "pem_shrinks F \<Longrightarrow> \<exists>r. read_blocks F block certs skipped = Some r"
proof (induction "length block" arbitrary: block certs skipped rule: less_induct)
  case less
  then show ?case
    by (subst read_blocks.simps) (auto simp: pem_shrinks_def split: option.split)
qed

lemma read_key_block_ends: "pem_shrinks F \<Longrightarrow> \<exists>r. read_key_block F block skipped = Some r"
proof (induction "length block" arbitrary: block skipped rule: less_induct)
  case less
  then show ?case
    by (subst read_key_block.simps) (auto simp: pem_shrinks_def split: option.split)
qed

text \<open>A pair is read or refused, and the two halves of one that is read match.\<close>

lemma X509KeyPair_ends: "pem_shrinks F \<Longrightarrow> \<exists>r. X509KeyPair X F c k = Some r"
  using read_blocks_ends [of F c "[]" "[]"] read_key_block_ends [of F k "[]"]
  by (auto simp: X509KeyPair_def split: option.splits sum.splits list.splits)

lemma X509KeyPair_matches:
  assumes "X509KeyPair X F c k = Some (Inr cert)"
  obtains d ds leaf where "crt_Certificate cert = d # ds" and "ParseCertificate X d = Some leaf"
    and "match_keys F (x_PublicKey leaf) (tc_PrivateKey cert) = None"
  using assms by (auto simp: X509KeyPair_def split: option.splits sum.splits list.splits prod.splits)

end
