(* ===== verification/ToyRun.thy ===== *)
theory ToyRun
  imports Setup
begin

text \<open>
  Whole handshakes, evaluated: a client and a server of this package, with the toy primitives and with
  certificates on both sides, complete a TLS 1.2 and a TLS 1.3 handshake with each other. The rules unfold every
  definition that a handshake reaches, one step at a time, so that a run is a proof by the simplifier.
\<close>

section \<open>The ends\<close>

definition toy_net :: "bytes list \<Rightarrow> network" where
  "toy_net chunks =
     \<lparr>nw_chunks = chunks, nw_end = NetError 0, nw_temporary = (\<lambda>_. False), nw_sent = [], nw_writes = 0,
      nw_fail = (\<lambda>_. None), nw_rand = (\<lambda>_ n. Some (replicate n 0)), nw_draws = 0, nw_closed = 0, nw_close_err = None\<rparr>"

definition toy_key :: privateKey where
  "toy_key = \<lparr>pk_type = ''*rsa.PrivateKey'', pk_form = Usual, pk_signer = Some (RSAKey 2048 []),
     pk_decrypter = Some (RSAKey 2048 []), pk_Sign = (\<lambda>_ _ _ _. Some []), pk_Decrypt = (\<lambda>_ c n. Some (take n c))\<rparr>"

definition toy_x509 :: "bytes \<Rightarrow> x509" where
  "toy_x509 d = \<lparr>x_Raw = d, x_RawIssuer = [], x_PublicKey = RSAKey 2048 [], x_CommonName = [], x_DNSNames = [], x_NotAfter = 0\<rparr>"

definition toy_pki :: pki where
  "toy_pki = \<lparr>ParseCertificate = (\<lambda>d. Some (toy_x509 d)), x509_Verify = (\<lambda>c opts. Some [[c]]),
     VerifyHostname = (\<lambda>c n. True), ecdsa_VerifyASN1 = (\<lambda>_ _ _. True), ed25519_Verify = (\<lambda>_ _ _. True),
     rsa_VerifyPKCS1v15 = (\<lambda>_ _ _ _. True), rsa_VerifyPSS = (\<lambda>_ _ _ _. True),
     rsa_EncryptPKCS1v15 = (\<lambda>_ _ m. if length m \<le> 245 then Some m else None), ParseIP = (\<lambda>_. False)\<rparr>"

definition toy_env :: "bytes option env" where
  "toy_env = \<lparr>e_P = toy_crypto, e_B = plain_builder, e_R = plain_reader, e_X = toy_pki, e_Subjects = (\<lambda>_. []),
     e_D = False, e_GOARCH = []\<rparr>"

definition toy_certificate :: tlsCertificate where
  "toy_certificate = new_Certificate\<lparr>crt_Certificate := [[7]], tc_PrivateKey := toy_key\<rparr>"

definition toy_surroundings :: "bytes list \<Rightarrow> surroundings" where
  "toy_surroundings chunks = \<lparr>su_net = toy_net chunks, su_addr = [1], su_time = (\<lambda>_. 0),
     su_cache = NewLRUClientSessionCache 1, su_GetConfigForClient = None\<rparr>"

text \<open>Both ends present a certificate and have a \<open>VerifyConnection\<close>; the highest version is a parameter.\<close>

definition toy_config :: "u16 \<Rightarrow> Config" where
  "toy_config v = defaultConfig\<lparr>cfg_MaxVersion := v, cfg_CipherSuites := Some [TLS_RSA_WITH_RC4_128_SHA],
     cfg_SessionTicketsDisabled := True, cfg_Certificates := [toy_certificate], cfg_VerifyConnection := Some (\<lambda>_. None)\<rparr>"

definition toy_client :: "u16 \<Rightarrow> bytes list \<Rightarrow> tlsConn" where
  "toy_client v chunks = tls_Client (toy_surroundings chunks) (Some ((toy_config v)\<lparr>cfg_ServerName := [97]\<rparr>))"

definition toy_server :: "u16 \<Rightarrow> bytes list \<Rightarrow> tlsConn" where
  "toy_server v chunks = tls_Server (toy_surroundings chunks)
     ((toy_config v)\<lparr>cfg_ClientAuth := RequireAndVerifyClientCert\<rparr>)"

text \<open>What the ends send, in two flights of the client and one or two of the server.\<close>

definition client12_hello :: bytes where
  "client12_hello =
     [22, 3, 1, 0, 164, 1, 0, 0, 160, 3, 3, 0, 0, 0, 0, 0, 0, 0, 0, 0, 0, 0, 0, 0, 0, 0, 0, 0, 0, 0, 0, 0, 0, 0, 0,
     0, 0, 0, 0, 0, 0, 0, 0, 32, 0, 0, 0, 0, 0, 0, 0, 0, 0, 0, 0, 0, 0, 0, 0, 0, 0, 0, 0, 0, 0, 0, 0, 0, 0, 0,
     0, 0, 0, 0, 0, 0, 0, 2, 0, 5, 1, 0, 0, 85, 0, 0, 0, 6, 0, 4, 0, 0, 1, 97, 0, 5, 0, 5, 1, 0, 0, 0, 0, 0,
     10, 0, 10, 0, 8, 0, 29, 0, 23, 0, 24, 0, 25, 0, 11, 0, 2, 1, 0, 0, 13, 0, 26, 0, 24, 8, 4, 4, 3, 8, 7, 8,
     5, 8, 6, 4, 1, 5, 1, 6, 1, 5, 3, 6, 3, 2, 1, 2, 3, 255, 1, 0, 1, 0, 0, 18, 0, 0, 0, 43, 0, 3, 2, 3, 3]"

definition client12_finish :: bytes where
  "client12_finish =
     [22, 3, 3, 0, 11, 11, 0, 0, 7, 0, 0, 4, 0, 0, 1, 7, 22, 3, 3, 0, 54, 16, 0, 0, 50, 0, 48, 3, 3, 0, 0, 0, 0, 0,
     0, 0, 0, 0, 0, 0, 0, 0, 0, 0, 0, 0, 0, 0, 0, 0, 0, 0, 0, 0, 0, 0, 0, 0, 0, 0, 0, 0, 0, 0, 0, 0, 0, 0, 0,
     0, 0, 0, 0, 0, 0, 22, 3, 3, 0, 8, 15, 0, 0, 4, 8, 4, 0, 0, 20, 3, 3, 0, 1, 1, 22, 3, 3, 0, 36, 20, 0, 0,
     12, 32, 32, 32, 32, 32, 32, 32, 32, 32, 32, 32, 32, 128, 128, 128, 128, 128, 128, 128, 128, 128, 128,
     128, 128, 128, 128, 128, 128, 128, 128, 128, 128]"

definition server12_flight :: bytes where
  "server12_flight =
     [22, 3, 3, 0, 55, 2, 0, 0, 51, 3, 3, 0, 0, 0, 0, 0, 0, 0, 0, 0, 0, 0, 0, 0, 0, 0, 0, 0, 0, 0, 0, 0, 0, 0, 0,
     0, 0, 0, 0, 0, 0, 0, 0, 0, 0, 5, 0, 0, 11, 255, 1, 0, 1, 0, 0, 11, 0, 2, 1, 0, 22, 3, 3, 0, 11, 11, 0, 0,
     7, 0, 0, 4, 0, 0, 1, 7, 22, 3, 3, 0, 35, 13, 0, 0, 31, 2, 1, 64, 0, 24, 8, 4, 4, 3, 8, 7, 8, 5, 8, 6, 4,
     1, 5, 1, 6, 1, 5, 3, 6, 3, 2, 1, 2, 3, 0, 0, 22, 3, 3, 0, 4, 14, 0, 0, 0]"

definition server12_finish :: bytes where
  "server12_finish =
     [20, 3, 3, 0, 1, 1, 22, 3, 3, 0, 36, 20, 0, 0, 12, 32, 32, 32, 32, 32, 32, 32, 32, 32, 32, 32, 32, 128, 128,
     128, 128, 128, 128, 128, 128, 128, 128, 128, 128, 128, 128, 128, 128, 128, 128, 128, 128]"

definition client13_hello :: bytes where
  "client13_hello =
     [22, 3, 1, 0, 186, 1, 0, 0, 182, 3, 3, 0, 0, 0, 0, 0, 0, 0, 0, 0, 0, 0, 0, 0, 0, 0, 0, 0, 0, 0, 0, 0, 0, 0, 0,
     0, 0, 0, 0, 0, 0, 0, 0, 32, 0, 0, 0, 0, 0, 0, 0, 0, 0, 0, 0, 0, 0, 0, 0, 0, 0, 0, 0, 0, 0, 0, 0, 0, 0, 0,
     0, 0, 0, 0, 0, 0, 0, 8, 0, 5, 19, 3, 19, 1, 19, 2, 1, 0, 0, 101, 0, 0, 0, 6, 0, 4, 0, 0, 1, 97, 0, 5, 0,
     5, 1, 0, 0, 0, 0, 0, 10, 0, 10, 0, 8, 0, 29, 0, 23, 0, 24, 0, 25, 0, 11, 0, 2, 1, 0, 0, 13, 0, 26, 0, 24,
     8, 4, 4, 3, 8, 7, 8, 5, 8, 6, 4, 1, 5, 1, 6, 1, 5, 3, 6, 3, 2, 1, 2, 3, 255, 1, 0, 1, 0, 0, 18, 0, 0, 0,
     43, 0, 5, 4, 3, 4, 3, 3, 0, 51, 0, 10, 0, 8, 0, 29, 0, 4, 0, 0, 0, 0]"

definition client13_finish :: bytes where
  "client13_finish =
     [20, 3, 3, 0, 1, 1, 23, 3, 3, 0, 15, 11, 0, 0, 10, 0, 0, 0, 6, 0, 0, 1, 7, 0, 0, 22, 23, 3, 3, 0, 9, 15, 0, 0,
     4, 8, 4, 0, 0, 22, 23, 3, 3, 0, 37, 20, 0, 0, 32, 0, 0, 0, 0, 0, 0, 0, 0, 0, 0, 0, 0, 0, 0, 0, 0, 0, 0,
     0, 0, 0, 0, 0, 0, 0, 0, 0, 0, 0, 0, 0, 0, 22]"

definition server13_flight :: bytes where
  "server13_flight =
     [22, 3, 3, 0, 94, 2, 0, 0, 90, 3, 3, 0, 0, 0, 0, 0, 0, 0, 0, 0, 0, 0, 0, 0, 0, 0, 0, 0, 0, 0, 0, 0, 0, 0, 0,
     0, 0, 0, 0, 0, 0, 0, 0, 32, 0, 0, 0, 0, 0, 0, 0, 0, 0, 0, 0, 0, 0, 0, 0, 0, 0, 0, 0, 0, 0, 0, 0, 0, 0, 0,
     0, 0, 0, 0, 0, 0, 19, 3, 0, 0, 18, 0, 43, 0, 2, 3, 4, 0, 51, 0, 8, 0, 29, 0, 4, 0, 0, 0, 0, 20, 3, 3, 0,
     1, 1, 23, 3, 3, 0, 7, 8, 0, 0, 2, 0, 0, 22, 23, 3, 3, 0, 46, 13, 0, 0, 41, 0, 0, 38, 0, 5, 0, 0, 0, 18,
     0, 0, 0, 13, 0, 26, 0, 24, 8, 4, 4, 3, 8, 7, 8, 5, 8, 6, 4, 1, 5, 1, 6, 1, 5, 3, 6, 3, 2, 1, 2, 3, 22,
     23, 3, 3, 0, 15, 11, 0, 0, 10, 0, 0, 0, 6, 0, 0, 1, 7, 0, 0, 22, 23, 3, 3, 0, 9, 15, 0, 0, 4, 8, 4, 0, 0,
     22, 23, 3, 3, 0, 37, 20, 0, 0, 32, 0, 0, 0, 0, 0, 0, 0, 0, 0, 0, 0, 0, 0, 0, 0, 0, 0, 0, 0, 0, 0, 0, 0,
     0, 0, 0, 0, 0, 0, 0, 0, 0, 22]"

section \<open>Evaluation\<close>

text \<open>Continuations and other function arguments are left alone until they are applied.\<close>

lemma after_run: "t = t' \<Longrightarrow> after m f t = after m f t'"
  by simp

lemma bind_run: "x = x' \<Longrightarrow> Option.bind x f = Option.bind x' f"
  by simp

lemma map_option_run: "x = x' \<Longrightarrow> map_option f x = map_option f x'"
  by simp

lemma map_run: "x = x' \<Longrightarrow> map f x = map f x'"
  by simp

lemma filter_run: "x = x' \<Longrightarrow> filter f x = filter f x'"
  by simp

lemma find_run: "x = x' \<Longrightarrow> find f x = find f x'"
  by simp

lemma list_ex_run: "x = x' \<Longrightarrow> list_ex f x = list_ex f x'"
  by simp

lemma of_conn_run: "t = t' \<Longrightarrow> of_conn f t = of_conn f t'"
  by simp

lemma with_host_run: "t = t' \<Longrightarrow> with_host f t = with_host f t'"
  by simp

lemma change_run: "t = t' \<Longrightarrow> change f t = change f t'"
  by simp

lemma change_conn_run: "t = t' \<Longrightarrow> change_conn f t = change_conn f t'"
  by simp

lemma on_error_run: "r = r' \<Longrightarrow> on_error h r = on_error h r'"
  by simp

lemma ensure_run: "b = b' \<Longrightarrow> ensure b a e = ensure b' a e"
  by simp

lemma rounds_run: "n = n' \<Longrightarrow> s = s' \<Longrightarrow> a = a' \<Longrightarrow> rounds n f s a = rounds n' f s' a'"
  by simp

lemmas lazy_run = after_run bind_run map_option_run map_run filter_run find_run list_ex_run of_conn_run with_host_run
  change_run change_conn_run on_error_run ensure_run rounds_run let_weak_cong

lemmas numeral_run = incSeq_loop.simps(2) [where i = "pred_numeral k" for k, folded numeral_eq_Suc]
  content_type_loop.simps(2) [where i = "pred_numeral k" for k, folded numeral_eq_Suc]
  rounds.simps(2) [where n = "pred_numeral k" for k, folded numeral_eq_Suc]
  take_u16s.simps(2) [where n = "pred_numeral k" for k, folded numeral_eq_Suc]
  cut_certs.simps(2) [where n = "pred_numeral k" for k, folded numeral_eq_Suc]
  replicate.simps(2) [where n = "pred_numeral k" for k, folded numeral_eq_Suc]
  be_enc.simps(2) [where k = "pred_numeral k" for k, folded numeral_eq_Suc]

lemma toy_run:
  "hash_sum toy_crypto h m = replicate (hash_size h) 0" "hmac_sum toy_crypto h k m = replicate (hash_size h) (sum_list k)"
  "hkdf_extract toy_crypto h s c = replicate (hash_size h) 0" "hkdf_expand toy_crypto h s i n = Some (replicate n 0)"
  "rc4_cipher toy_crypto k = Some (\<lambda>_. 0)" "chacha_aead toy_crypto k = Some toy_aead"
  "x25519 toy_crypto a p = Some (be_enc 4 (be_dec a + be_dec p))" "x25519_base toy_crypto = []"
  by (simp_all add: toy_crypto_def)

lemma plain_builder_run:
  "b_new plain_builder = Some []" "b_fixed plain_builder x = Some x"
  "b_uint plain_builder k n b = map_option (\<lambda>y. y @ be_enc k n) b" "b_bytes plain_builder v b = map_option (\<lambda>y. y @ v) b"
  "b_open plain_builder k b = map_option (\<lambda>_. replicate k 0) b" "b_close plain_builder = close_prefix"
  "b_result plain_builder b = b"
  by (simp_all add: plain_builder_def)

lemma plain_reader_run:
  "r_skip plain_reader n s = map_option snd (split_at n s)" "r_uint plain_reader = plain_uint"
  "r_bytes plain_reader = split_at" "r_lp plain_reader = plain_lp"
  by (simp_all add: plain_reader_def)

text \<open>The definitions, by theory.\<close>

lemmas Prelude_run =
  Prelude.be_dec.simps Prelude.be_enc.simps Prelude.check_def Prelude.copy_at_def Prelude.go_copy_def
  Prelude.go_quot_def Prelude.go_slice_def Prelude.str_def

lemmas Common_run =
  Common.CurveP256_def Common.CurveP384_def Common.CurveP521_def Common.TLS_AES_128_GCM_SHA256_def
  Common.TLS_AES_256_GCM_SHA384_def Common.TLS_CHACHA20_POLY1305_SHA256_def
  Common.TLS_ECDHE_ECDSA_WITH_AES_128_CBC_SHA256_def Common.TLS_ECDHE_ECDSA_WITH_AES_128_CBC_SHA_def
  Common.TLS_ECDHE_ECDSA_WITH_AES_128_GCM_SHA256_def Common.TLS_ECDHE_ECDSA_WITH_AES_256_CBC_SHA_def
  Common.TLS_ECDHE_ECDSA_WITH_AES_256_GCM_SHA384_def Common.TLS_ECDHE_ECDSA_WITH_CHACHA20_POLY1305_SHA256_def
  Common.TLS_ECDHE_ECDSA_WITH_CHACHA20_POLY1305_def Common.TLS_ECDHE_ECDSA_WITH_RC4_128_SHA_def
  Common.TLS_ECDHE_RSA_WITH_3DES_EDE_CBC_SHA_def Common.TLS_ECDHE_RSA_WITH_AES_128_CBC_SHA256_def
  Common.TLS_ECDHE_RSA_WITH_AES_128_CBC_SHA_def Common.TLS_ECDHE_RSA_WITH_AES_128_GCM_SHA256_def
  Common.TLS_ECDHE_RSA_WITH_AES_256_CBC_SHA_def Common.TLS_ECDHE_RSA_WITH_AES_256_GCM_SHA384_def
  Common.TLS_ECDHE_RSA_WITH_CHACHA20_POLY1305_SHA256_def Common.TLS_ECDHE_RSA_WITH_CHACHA20_POLY1305_def
  Common.TLS_ECDHE_RSA_WITH_RC4_128_SHA_def Common.TLS_FALLBACK_SCSV_def
  Common.TLS_RSA_WITH_3DES_EDE_CBC_SHA_def Common.TLS_RSA_WITH_AES_128_CBC_SHA256_def
  Common.TLS_RSA_WITH_AES_128_CBC_SHA_def Common.TLS_RSA_WITH_AES_128_GCM_SHA256_def
  Common.TLS_RSA_WITH_AES_256_CBC_SHA_def Common.TLS_RSA_WITH_AES_256_GCM_SHA384_def
  Common.TLS_RSA_WITH_RC4_128_SHA_def Common.VersionTLS10_def Common.VersionTLS11_def Common.VersionTLS12_def
  Common.VersionTLS13_def Common.X25519_def Common.alertBadCertificate_def Common.alertBadRecordMAC_def
  Common.alertCloseNotify_def Common.alertDecodeError_def Common.alertDecryptError_def
  Common.alertHandshakeFailure_def Common.alertIllegalParameter_def Common.alertInappropriateFallback_def
  Common.alertInternalError_def Common.alertLevelError_def Common.alertLevelWarning_def
  Common.alertMissingExtension_def Common.alertNoApplicationProtocol_def Common.alertNoRenegotiation_def
  Common.alertProtocolVersion_def Common.alertRecordOverflow_def Common.alertUnexpectedMessage_def
  Common.alertUnrecognizedName_def Common.alertUnsupportedCertificate_def Common.alertUnsupportedExtension_def
  Common.certTypeECDSASign_def Common.certTypeRSASign_def Common.compressionNone_def Common.extensionALPN_def
  Common.extensionCertificateAuthorities_def Common.extensionCookie_def Common.extensionEarlyData_def
  Common.extensionKeyShare_def Common.extensionPSKModes_def Common.extensionPreSharedKey_def
  Common.extensionRenegotiationInfo_def Common.extensionSCT_def Common.extensionServerName_def
  Common.extensionSessionTicket_def Common.extensionSignatureAlgorithmsCert_def
  Common.extensionSignatureAlgorithms_def Common.extensionStatusRequest_def
  Common.extensionSupportedCurves_def Common.extensionSupportedPoints_def
  Common.extensionSupportedVersions_def Common.maxCiphertextTLS13_def Common.maxCiphertext_def
  Common.maxHandshake_def Common.maxPlaintext_def Common.maxUselessRecords_def
  Common.pointFormatUncompressed_def Common.pskModeDHE_def Common.recordHeaderLen_def
  Common.recordTypeAlert_def Common.recordTypeApplicationData_def Common.recordTypeChangeCipherSpec_def
  Common.recordTypeHandshake_def Common.signatureECDSA_def Common.signatureEd25519_def
  Common.signaturePKCS1v15_def Common.signatureRSAPSS_def Common.statusTypeOCSP_def
  Common.typeCertificateRequest_def Common.typeCertificateStatus_def Common.typeCertificateVerify_def
  Common.typeCertificate_def Common.typeClientHello_def Common.typeClientKeyExchange_def
  Common.typeEncryptedExtensions_def Common.typeEndOfEarlyData_def Common.typeFinished_def
  Common.typeHelloRequest_def Common.typeKeyUpdate_def Common.typeMessageHash_def
  Common.typeNewSessionTicket_def Common.typeServerHelloDone_def Common.typeServerHello_def
  Common.typeServerKeyExchange_def

lemmas Ciphers_run =
  Ciphers.XORKeyStream_def Ciphers.aeadNonceLength_def Ciphers.cbc_decrypt.simps Ciphers.cbc_encrypt.simps
  Ciphers.noncePrefixLength_def Ciphers.prefix_nonce_def Ciphers.xor_bytes_def Ciphers.xor_nonce_def

lemmas HalfConn_run =
  HalfConn.additionalData_def HalfConn.aead_nonce_def HalfConn.changeCipherSpec_def HalfConn.check_mac_def
  HalfConn.content_type_loop.simps HalfConn.decrypt_def HalfConn.encrypt_def HalfConn.explicitNonceLen_def
  HalfConn.explicitNonce_def HalfConn.extractPadding_def HalfConn.finish_record_def HalfConn.incSeq_def
  HalfConn.incSeq_loop.simps HalfConn.inner_type_def HalfConn.int_bytes_def HalfConn.is_CBC_def
  HalfConn.open_aead_def HalfConn.open_cbc_def HalfConn.padding_loop.simps HalfConn.prepareCipherSpec_def
  HalfConn.protect_def HalfConn.roundUp_def HalfConn.seal_aead_def HalfConn.seal_cbc_def HalfConn.seq_zero_def
  HalfConn.setErrorLocked_def HalfConn.set_length_def HalfConn.sign_mask_def HalfConn.tls10MAC_def
  HalfConn.unprotect_def

lemmas Conn_run =
  Conn.alert_level_def Conn.alert_then_fail_def Conn.conn_write_def Conn.encrypt_out_def Conn.fail_alert_def
  Conn.fail_with_def Conn.flush_def Conn.maxPayloadSizeForWrite_def Conn.net_Write_def Conn.payloadBytes_def
  Conn.process_alert_def Conn.process_ccs_def Conn.process_record_def Conn.readChangeCipherSpec_def
  Conn.readFromUntil_def Conn.readRecordOrCCS.simps Conn.readRecord_def Conn.read_body_def
  Conn.read_failed_def Conn.read_one_def Conn.read_payload_def Conn.read_until.simps
  Conn.recordSizeBoostThreshold_def Conn.record_header_def Conn.record_version_def Conn.sendAlertLocked_def
  Conn.set_in_err_def Conn.set_out_err_def Conn.tcpMSSEstimate_def Conn.temporary_def
  Conn.writeRecordLocked_def Conn.write_records.simps

lemmas ConnIO_run =
  ConnIO.readHandshakeBytes_def ConnIO.read_hand.simps

lemmas Cryptobyte_run =
  Cryptobyte.addBytesWithLength_def Cryptobyte.addUint64_def Cryptobyte.guarded_def Cryptobyte.lp_def
  Cryptobyte.readUint64_def Cryptobyte.readUintLengthPrefixed_def Cryptobyte.read_many_def
  Cryptobyte.read_u16_def Cryptobyte.read_u32_def Cryptobyte.read_u8_def Cryptobyte.rounds.simps
  Cryptobyte.steps_def Cryptobyte.while_nonempty_def

lemmas Hello_run =
  Hello.bindersLen_def Hello.clientHello_extension_def Hello.clientHello_extensions_def
  Hello.clientHello_fields_def Hello.empty_clientHello_def Hello.empty_serverHello_def
  Hello.marshalWithoutBinders_def Hello.marshal_clientHello_def Hello.marshal_hello_def
  Hello.marshal_serverHello_def Hello.omit_empty_def Hello.read_alpn_def Hello.read_extension_def
  Hello.read_extensions_def Hello.read_keyShare_def Hello.read_list16_def Hello.read_nonempty_def
  Hello.read_pskIdentity_def Hello.read_serverName_def Hello.read_strings_def Hello.scsvRenegotiation_def
  Hello.serverHello_extension_def Hello.serverHello_extensions_def Hello.serverHello_fields_def
  Hello.unmarshal_clientHello_def Hello.unmarshal_serverHello_def Hello.updateBinders_def Hello.write_u16s_def

lemmas Messages_run =
  Messages.certificateRequestTLS13_extension_def Messages.certificateRequestTLS13_extensions_def
  Messages.certificateRequest_body_def Messages.certificate_extension_def Messages.count_certs.simps
  Messages.cut_certs.simps Messages.encryptedExtensions_body_def Messages.encryptedExtensions_extension_def
  Messages.leaf_extensions_def Messages.marshalCertificate_def Messages.marshal_body_def
  Messages.marshal_certificateRequestTLS13_def Messages.marshal_certificateRequest_def
  Messages.marshal_certificateStatus_def Messages.marshal_certificateTLS13_def
  Messages.marshal_certificateVerify_def Messages.marshal_certificate_def
  Messages.marshal_clientKeyExchange_def Messages.marshal_encryptedExtensions_def
  Messages.marshal_finished_def Messages.marshal_newSessionTicketTLS13_def
  Messages.marshal_newSessionTicket_def Messages.marshal_serverHelloDone_def
  Messages.marshal_serverKeyExchange_def Messages.message_bytes_def Messages.newSessionTicketTLS13_body_def
  Messages.newSessionTicketTLS13_extension_def Messages.read_authorities.simps Messages.read_certificate_def
  Messages.read_sigAlgs_def Messages.take_u16s.simps Messages.unmarshalCertificate_def
  Messages.unmarshal_certificateRequestTLS13_def Messages.unmarshal_certificateRequest_def
  Messages.unmarshal_certificateStatus_def Messages.unmarshal_certificateTLS13_def
  Messages.unmarshal_certificateVerify_def Messages.unmarshal_certificate_def
  Messages.unmarshal_clientKeyExchange_def Messages.unmarshal_encryptedExtensions_def
  Messages.unmarshal_endOfEarlyData_def Messages.unmarshal_finished_def Messages.unmarshal_helloRequest_def
  Messages.unmarshal_keyUpdate_def Messages.unmarshal_newSessionTicketTLS13_def
  Messages.unmarshal_newSessionTicket_def Messages.unmarshal_serverHelloDone_def
  Messages.unmarshal_serverKeyExchange_def

lemmas Handshake_run =
  Handshake.readHandshake_def Handshake.unmarshal_message_def

lemmas Crypto_run =
  Crypto.hash_Sum_def Crypto.hash_Write_def Crypto.hash_new_def Crypto.hash_size.simps

lemmas Suites_run =
  Suites.aeadAESGCMTLS13_def Suites.aeadAESGCM_def Suites.aeadChaCha20Poly1305_def Suites.aesgcmCiphers_def
  Suites.aesgcmPreferred.simps Suites.cbc_mode_def Suites.cipher3DES_def Suites.cipherAES_def
  Suites.cipherRC4_def Suites.cipherSuiteByID_def Suites.cipherSuiteTLS13ByID_def
  Suites.cipherSuitesPreferenceOrderNoAES_def Suites.cipherSuitesPreferenceOrder_def
  Suites.cipherSuitesTLS13_def Suites.cipherSuites_def Suites.cpu_ARM64_def Suites.cpu_S390X_def
  Suites.cpu_X86_def Suites.defaultCipherSuitesLen_def Suites.defaultCipherSuitesTLS13NoAES_def
  Suites.defaultCipherSuitesTLS13_def Suites.defaultCipherSuites_def Suites.disabledCipherSuites_def
  Suites.ecdheECDSAKA_def Suites.ecdheRSAKA_def Suites.hasAESGCMHardwareSupport_def Suites.macSHA1_def
  Suites.macSHA256_def Suites.mutualCipherSuite.simps Suites.mutualCipherSuiteTLS13.simps Suites.rsaKA_def
  Suites.selectCipherSuite.simps Suites.suiteECDHE_def Suites.suiteECSign_def Suites.suiteSHA384_def
  Suites.suiteTLS12_def

lemmas Prf_run =
  Prf.clientFinishedLabel_def Prf.clientSum_def Prf.cutKeys_def Prf.discardHandshakeBuffer_def
  Prf.ekmFromMasterSecret_def Prf.finishedHash_Sum_def Prf.finishedHash_Write_def Prf.finishedVerifyLength_def
  Prf.hashForClientCertificate_def Prf.keyExpansionLabel_def Prf.keysFromMasterSecret_def
  Prf.masterFromPreMasterSecret_def Prf.masterSecretLabel_def Prf.masterSecretLength_def
  Prf.newFinishedHash_def Prf.noExportedKeyingMaterial_def Prf.pHash_def Prf.pHash_loop.simps Prf.prf10_def
  Prf.prf12_def Prf.prfAndHashForVersion_def Prf.prfForVersion_def Prf.reservedLabels_def
  Prf.serverFinishedLabel_def Prf.serverSum_def Prf.splitPreMasterSecret_def

lemmas KeySchedule_run =
  KeySchedule.CurveID.simps KeySchedule.PublicKey.simps KeySchedule.SharedKey.simps
  KeySchedule.clientApplicationTrafficLabel_def KeySchedule.clientHandshakeTrafficLabel_def
  KeySchedule.curveForCurveID_def KeySchedule.deriveSecret_def KeySchedule.expandLabel_def
  KeySchedule.exportKeyingMaterial_def KeySchedule.exporterLabel_def KeySchedule.finishedHash13_def
  KeySchedule.generateECDHEParameters_def KeySchedule.hkdfExtract_def KeySchedule.hkdfLabel_def
  KeySchedule.resumptionBinderLabel_def KeySchedule.resumptionLabel_def
  KeySchedule.serverApplicationTrafficLabel_def KeySchedule.serverHandshakeTrafficLabel_def
  KeySchedule.setTrafficSecret_def KeySchedule.trafficKey_def

lemmas Keys_run =
  Keys.establishKeys_client_def Keys.establishKeys_server_def

lemmas PostHandshake_run =
  PostHandshake.RenegotiateNever_def PostHandshake.unexpectedMessageError_def

lemmas Auth_run =
  Auth.ECDSAWithP256AndSHA256_def Auth.ECDSAWithP384AndSHA384_def Auth.ECDSAWithP521AndSHA512_def
  Auth.ECDSAWithSHA1_def Auth.Ed25519_def Auth.PKCS1WithSHA1_def Auth.PKCS1WithSHA256_def
  Auth.PKCS1WithSHA384_def Auth.PKCS1WithSHA512_def Auth.PSSWithSHA256_def Auth.PSSWithSHA384_def
  Auth.PSSWithSHA512_def Auth.cert_leaf_def Auth.clientSignatureContext_def Auth.first_supported.simps
  Auth.isSupportedSignatureAlgorithm.simps Auth.legacyTypeAndHashFromPublicKey_def
  Auth.rsaSignatureSchemes_def Auth.schemes_for_key_def Auth.selectSignatureScheme_def
  Auth.serverSignatureContext_def Auth.signaturePadding_def Auth.signatureSchemesForCertificate_def
  Auth.signedMessage_def Auth.supportedSignatureAlgorithms_def Auth.typeAndHashFromSignatureScheme_def
  Auth.unsupportedCertificateError_def Auth.verifyHandshakeSignature_def

lemmas Config_run =
  Config.NoClientCert_def Config.RLock_def Config.RUnlock_def Config.RequestClientCert_def
  Config.RequireAndVerifyClientCert_def Config.RequireAnyClientCert_def Config.SupportsCertificate_def
  Config.SupportsCertificate_request_def Config.VerifyClientCertIfGiven_def Config.check_public_key_def
  Config.check_server_name_def Config.config_cipherSuites_def Config.config_supportedVersions_def
  Config.curvePreferences_def Config.defaultCurvePreferences_def Config.deprecatedSessionTicketKey_def
  Config.deprecated_key_def Config.downgradeCanaryTLS11_def Config.downgradeCanaryTLS12_def
  Config.emptyConfig_def Config.errNoCertificates_def Config.first_certificate.simps Config.first_mutual.simps
  Config.getCertificate_def Config.helloRetryRequestRandom_def Config.hex_def Config.hex_digit_def
  Config.host_ReadFull_def Config.host_source_def Config.host_time_def
  Config.initLegacySessionTicketKeyRLocked_def Config.issued_by.simps Config.join.simps
  Config.keyLogLabelClientHandshake_def Config.keyLogLabelClientTraffic_def
  Config.keyLogLabelServerHandshake_def Config.keyLogLabelServerTraffic_def Config.keyLogLabelTLS12_def
  Config.maxSessionTicketLifetime_def Config.maxSupportedVersion_def Config.mutualVersion_def
  Config.name_lookup_def Config.nanoseconds_def Config.own_ticketKeys_def Config.pick_certificate_def
  Config.requiresClientCert_def Config.roleClient_def Config.roleServer_def Config.rotate_keys_def
  Config.rotation_due_def Config.rsa_suite_ok_def Config.signing_suite_ok_def Config.split_on.simps
  Config.supportedVersionsFromMax_def Config.supportedVersions_def Config.supportsCurve_def
  Config.supportsECDHE_def Config.supportsRSAFallback_def Config.testingOnlyForceDowngradeCanary_def
  Config.ticketKeyFromBytes_def Config.ticketKeyLifetime_def Config.ticketKeyNameLen_def
  Config.ticketKeyRotation_def Config.ticketKeys_def Config.to_lower_def Config.valid_keys.simps
  Config.version_skipped_def Config.wildcardName_def Config.writeKeyLog_def

lemmas SessionCache_run =
  SessionCache.found_def SessionCache.lru_Get_def SessionCache.lru_Put_def SessionCache.move_to_front_def

lemmas Tickets_run =
  Tickets.aes_BlockSize_def Tickets.ctr_XORKeyStream_def Tickets.decryptTicket_def Tickets.encryptTicket_def
  Tickets.key_index.simps Tickets.marshal_sessionStateTLS13_def Tickets.marshal_sessionState_def
  Tickets.unmarshal_sessionStateTLS13_def Tickets.unmarshal_sessionState_def

lemmas KeyAgreement_run =
  KeyAgreement.check_params_signature_def KeyAgreement.ecdhe_generateClientKeyExchange_def
  KeyAgreement.ecdhe_generateServerKeyExchange_def KeyAgreement.ecdhe_params_def
  KeyAgreement.ecdhe_processClientKeyExchange_def KeyAgreement.ecdhe_processServerKeyExchange_def
  KeyAgreement.errClientKeyExchange_def KeyAgreement.errServerKeyExchange_def
  KeyAgreement.generateClientKeyExchange_def KeyAgreement.generateServerKeyExchange_def
  KeyAgreement.hashForServerKeyExchange_def KeyAgreement.hash_slices_def KeyAgreement.is_rsa_type_def
  KeyAgreement.md5SHA1Hash_def KeyAgreement.processClientKeyExchange_def
  KeyAgreement.processServerKeyExchange_def KeyAgreement.rsa_generateClientKeyExchange_def
  KeyAgreement.rsa_processClientKeyExchange_def KeyAgreement.server_sigType_def KeyAgreement.sha1Hash_def
  KeyAgreement.sign_params_def

lemmas TlsConn_run =
  TlsConn.after_def TlsConn.alert_def TlsConn.alert_fail_def TlsConn.certRequest13_of.simps
  TlsConn.certRequest_of.simps TlsConn.certStatus_of.simps TlsConn.certVerify_of.simps
  TlsConn.certificate13_of.simps TlsConn.certificate_of.simps TlsConn.change_conn_def TlsConn.change_def
  TlsConn.clientHello_of.simps TlsConn.clientKeyExchange_of.simps TlsConn.connectionStateLocked_def
  TlsConn.encryptedExtensions_of.simps TlsConn.ensure_def TlsConn.expect_def TlsConn.fail_def
  TlsConn.finished_of.simps TlsConn.flush_records_def TlsConn.host_of_def TlsConn.newSessionTicket_of.simps
  TlsConn.of_conn_def TlsConn.of_result_def TlsConn.on_error_def TlsConn.put_host_def TlsConn.readExpected_def
  TlsConn.readMessage_def TlsConn.ret_def TlsConn.serverHelloDone_of.simps TlsConn.serverHello_of.simps
  TlsConn.serverKeyExchange_of.simps TlsConn.set_buffering_def TlsConn.the_state_def TlsConn.total_def
  TlsConn.with_host_def TlsConn.writeRecord_def

lemmas Server12_run =
  Server12.checkForResumption_def Server12.check_server_key_def Server12.choose_config_def
  Server12.cipherSuiteOk_def Server12.clientHelloInfo_def Server12.client_sigType_def
  Server12.doResumeHandshake_def Server12.downgrade_canary_def Server12.encrypt_ticket_def
  Server12.get_certificate_def Server12.known_key.simps Server12.load_ticketKeys_def
  Server12.make_certRequest_def Server12.make_serverRandom_def Server12.negotiateALPN_def
  Server12.new_serverHandshake_def Server12.new_serverHello_def Server12.no_out_def Server12.out_client_def
  Server12.out_server_def Server12.parse_certificates.simps Server12.partial_sessionState_def
  Server12.pickCipherSuite_def Server12.preference_order_def Server12.processCertsFromClient_def
  Server12.processClientHello_def Server12.process_clientKeyExchange_def Server12.readClientHello_def
  Server12.read_client_certificate_def Server12.resumption_suite_def Server12.send_certRequest_def
  Server12.send_certStatus_def Server12.send_message_def Server12.send_serverKeyExchange_def
  Server12.send_server_flight_def Server12.server_doFullHandshake_def Server12.server_establishKeys_def
  Server12.server_finish_def Server12.server_handshake_def Server12.server_readFinished_def
  Server12.server_sendFinished_def Server12.server_sendSessionTicket_def Server12.ticket_state_def
  Server12.verify_callback_def Server12.verify_client_chain_def Server12.verify_client_signature_def
  Server12.verify_connection_def Server12.write_transcript_def

lemmas Client12_run =
  Client12.add_tls13_def Client12.cache_Get_def Client12.cache_Put_def Client12.certVerify_scheme_def
  Client12.certificateRequestInfoFromMsg_def Client12.checkALPN_def Client12.check_renegotiation_def
  Client12.check_server_identity_def Client12.check_session_def Client12.choose_client_certificate_def
  Client12.clientSessionCacheKey_def Client12.client_doFullHandshake_def Client12.client_establishKeys_def
  Client12.client_finish_def Client12.client_handshake_def Client12.client_masterSecret_def
  Client12.client_pickCipherSuite_def Client12.client_readFinished_def Client12.client_readSessionTicket_def
  Client12.client_sendFinished_def Client12.client_transcript_def Client12.downgrade_detected_def
  Client12.getClientCertificate_def Client12.hello_cipherSuites_def Client12.hostnameInSNI_def
  Client12.loadSession_def Client12.load_session13_def Client12.makeClientHello_def
  Client12.new_Certificate_def Client12.new_clientHello_def Client12.no_session_def Client12.peer_leaf_def
  Client12.pickTLSVersion_def Client12.processServerHello_def Client12.psk_offer_def
  Client12.read_certRequest_def Client12.read_certStatus_def Client12.read_serverKeyExchange_def
  Client12.resume_session_def Client12.send_certVerify_def Client12.send_clientKeyExchange_def
  Client12.send_client_certificate_def Client12.serverResumedSession_def Client12.trim_zone_def
  Client12.verifyServerCertificate_def Client12.verify_server_chain_def

lemmas Server13_run =
  Server13.accept_psk_def Server13.certificate_part_def Server13.checkForResumption13_def
  Server13.check_certVerify13_def Server13.check_hello13_def Server13.choose_suite13_def
  Server13.cloneHash_def Server13.derive_def Server13.doHelloRetryRequest_def Server13.first_suite13.simps
  Server13.hash_Reset_def Server13.helloRetryRequest_def Server13.illegalClientHelloChange_def
  Server13.log_secret_def Server13.maxClientPSKIdentities_def Server13.message_hash_def
  Server13.new_handshake13_def Server13.nil_if_empty_def Server13.option_length_def
  Server13.pickCertificate_def Server13.processClientHello13_def Server13.psk_session_def
  Server13.readClientCertificate_def Server13.readClientFinished_def Server13.requestClientCert_def
  Server13.select_group_def Server13.send13_def Server13.sendServerCertificate_def
  Server13.sendServerFinished_def Server13.sendServerParameters_def Server13.sendSessionTickets_def
  Server13.send_certRequest13_def Server13.serverHandshake_def Server13.server_dummyCCS_def
  Server13.server_handshake13_def Server13.server_handshake_keys_def Server13.session_state13_def
  Server13.set_complete_def Server13.set_in_def Server13.set_out_def Server13.share_key_def
  Server13.shouldSendSessionTickets_def Server13.sign_alert_def Server13.sign_transcript_def
  Server13.try_identities.simps

lemmas Client13_run =
  Client13.accept_session_def Client13.checkServerHelloOrHRR_def Client13.check_retryRequest_def
  Client13.choose_certificate13_def Client13.choose_suite_client_def Client13.clientHandshake_def
  Client13.client_dummyCCS_def Client13.client_handshake13_def Client13.client_processServerHello13_def
  Client13.establishHandshakeKeys_def Client13.forbidden_extension_def Client13.internal_error_def
  Client13.new_binder_def Client13.new_clientHandshake13_def Client13.on_failure_def
  Client13.processHelloRetryRequest_def Client13.readServerCertificate_def Client13.readServerFinished_def
  Client13.readServerParameters_def Client13.read_certReq13_def Client13.retry_psk_def
  Client13.retry_share_def Client13.retry_transcript_def Client13.run_client_def
  Client13.sendClientCertificate_def Client13.sendClientFinished_def

lemmas setup_run = Let_def Handshake_def handshakeFn_def result_error_def split_at_def plain_uint_def plain_lp_def
  close_prefix_def toy_pki_def toy_x509_def toy_certificate_def toy_key_def toy_env_def toy_server_def toy_client_def
  toy_config_def toy_surroundings_def toy_net_def tls_Server_def tls_Client_def new_tlsConn_def zero_conn_def
  zero_halfConn_def defaultConfig_def emptyConfig_def toy_aead_def

lemmas run = Prelude_run Common_run Ciphers_run HalfConn_run Conn_run ConnIO_run Cryptobyte_run Hello_run Messages_run
  Handshake_run Crypto_run Suites_run Prf_run KeySchedule_run Keys_run PostHandshake_run Auth_run Config_run
  SessionCache_run Tickets_run KeyAgreement_run TlsConn_run Server12_run Client12_run Server13_run Client13_run
  setup_run numeral_run toy_run plain_builder_run plain_reader_run client12_hello_def client12_finish_def
  server12_flight_def server12_finish_def client13_hello_def client13_finish_def server13_flight_def

section \<open>The runs\<close>

lemma server12_runs:
  "\<exists>t. Handshake toy_env (toy_server VersionTLS12 [client12_hello, client12_finish]) = Some (None, t) \<and>
     concat (nw_sent (c_net (t_conn t))) = server12_flight @ server12_finish \<and> t_vers t = VersionTLS12 \<and>
     t_peerCertificates t = [toy_x509 [7]]"
  by (simp add: run cong: lazy_run split del: if_split)

lemma client12_runs:
  "\<exists>t. Handshake toy_env (toy_client VersionTLS12 [server12_flight, server12_finish]) = Some (None, t) \<and>
     concat (nw_sent (c_net (t_conn t))) = client12_hello @ client12_finish \<and> t_vers t = VersionTLS12 \<and>
     t_peerCertificates t = [toy_x509 [7]]"
  by (simp add: run cong: lazy_run split del: if_split)

lemma server13_runs:
  "\<exists>t. Handshake toy_env (toy_server VersionTLS13 [client13_hello, client13_finish]) = Some (None, t) \<and>
     concat (nw_sent (c_net (t_conn t))) = server13_flight \<and> t_vers t = VersionTLS13 \<and>
     t_peerCertificates t = [toy_x509 [7]]"
  by (simp add: run cong: lazy_run split del: if_split)

lemma client13_runs:
  "\<exists>t. Handshake toy_env (toy_client VersionTLS13 [server13_flight]) = Some (None, t) \<and>
     concat (nw_sent (c_net (t_conn t))) = client13_hello @ client13_finish \<and> t_vers t = VersionTLS13 \<and>
     t_peerCertificates t = [toy_x509 [7]]"
  by (simp add: run cong: lazy_run split del: if_split)

end
