(* ===== verification/SessionProperties.thy ===== *)
theory SessionProperties
  imports ConfigLemmas KeyAgreementLemmas ToyRun
begin

text \<open>Properties of sessions: the client's cache, the server's tickets and their keys, and the key agreement.\<close>

section \<open>The session cache\<close>

text \<open>
  C34. The session cache of a client, a map into a doubly linked list, behaves as a list of at most \<open>capacity\<close> pairs
  with the most recently used first: \<open>Put\<close> of a session replaces the pair of a known key and otherwise adds one,
  dropping the last when the list is full; \<open>Put\<close> of nil deletes the pair of a known key. (For an unknown key \<open>Put\<close> of
  nil is not the no-op that its comment promises; the refinement does not cover this call, and \<open>Put_nil_evicts\<close>
  shows what it does.) \<open>Get\<close> finds the session last put and moves it to the front. No call panics, and every one
  keeps map and list consistent.
\<close>

theorem session_cache_refines_list:
  assumes "lru_ok c"
  shows "(\<exists>c'. lru_Put k cs c = Some c' \<and> lru_ok c' \<and> lru_capacity c' = lru_capacity c \<and> found (lru_Get k c') = cs \<and>
      (cs \<noteq> None \<or> lru_m c k \<noteq> None \<longrightarrow> lru_abs c' = spec_Put (lru_capacity c) k cs (lru_abs c))) \<and>
    lru_ok (snd (lru_Get k c)) \<and> spec_Get k (lru_abs c) = (fst (lru_Get k c), lru_abs (snd (lru_Get k c)))"
  using lru_Put_keeps [OF assms, of k cs] lru_Put_refines [OF assms, of cs k] lru_Get_refines [OF assms, of k] by auto

definition toy_css :: ClientSessionState where
  "toy_css = \<lparr>css_sessionTicket = [1], css_vers = VersionTLS12, css_cipherSuite = 0, css_masterSecret = [],
     css_serverCertificates = [], css_verifiedChains = [], css_receivedAt = 0, css_ocspResponse = [], css_scts = [],
     css_nonce = [], css_useBy = 0, css_ageAdd = 0\<rparr>"

theorem session_cache_refines_list_witness:
  "\<exists>c1 c2. lru_Put [1] (Some toy_css) (NewLRUClientSessionCache 1) = Some c1 \<and> lru_abs c1 = [([1], Some toy_css)] \<and>
     lru_Put [2] (Some toy_css) c1 = Some c2 \<and> lru_abs c2 = [([2], Some toy_css)]"
proof -
  have cap: "lru_capacity (NewLRUClientSessionCache 1) = 1" by (simp add: NewLRUClientSessionCache_def)
  from session_cache_refines_list [OF lru_ok_New [of 1], of "[1]" "Some toy_css"] obtain c1 where
    c1: "lru_Put [1] (Some toy_css) (NewLRUClientSessionCache 1) = Some c1" "lru_ok c1" "lru_capacity c1 = 1"
      "lru_abs c1 = [([1], Some toy_css)]"
    unfolding lru_abs_New cap by (auto simp: spec_Put_def)
  from session_cache_refines_list [OF c1(2), of "[2]" "Some toy_css"] c1(1,3,4) show ?thesis
    by (auto simp: spec_Put_def)
qed

text \<open>\<open>Put\<close> of nil for an unknown key is not without effect: it takes the place of the oldest session.\<close>

lemma Put_nil_evicts:
  assumes "lru_ok c" and "lru_capacity c = 1" and "lru_abs c = [([1], Some s)]"
  shows "\<exists>c'. lru_Put [2] None c = Some c' \<and> lru_abs c' = [([2], None)]"
proof -
  have "lru_m c [2] = None" using lru_keys [OF assms(1), of "[2]"] assms(3) by auto
  moreover have "length (lru_q c) = 1" using arg_cong [OF assms(3), of length] by (simp add: lru_abs_def)
  ultimately show ?thesis using lru_Put_full [OF assms(1), of "[2]" None] assms(2,3) by auto
qed

section \<open>Tickets\<close>

text \<open>
  C35. A session that a server has encrypted with its first ticket key is recovered by any list of keys in which that
  key is the first of its name; the flag says whether the key is an old one. The bytes are read back as the session
  state of TLS 1.2 or 1.3 that they were written from, and whatever \<open>decryptTicket\<close> accepts carries a MAC under one
  of the keys.
\<close>

theorem ticket_round_trip:
  assumes "hashes_ok P" and "ticketKey_ok key" and "\<And>n x. rnd n = Some x \<Longrightarrow> length x = n"
    and "encryptTicket P (key # ks) rnd state = Inr ticket" and "key_index (tk_keyName key) 0 keys = Some (i, key)"
    and "builder_ok B" and "reader_ok R"
  shows "decryptTicket P keys ticket = (Some state, i > 0) \<and>
    (\<forall>m. marshal_sessionState B m = Some state \<longrightarrow> ss_masterSecret m \<noteq> [] \<longrightarrow>
       unmarshal_sessionState R (i > 0) state = Some (m\<lparr>ss_usedOldKey := i > 0\<rparr>)) \<and>
    (\<forall>m. marshal_sessionStateTLS13 B m = Some state \<longrightarrow> s13_resumptionSecret m \<noteq> [] \<longrightarrow>
       sessionCertificate_ok (s13_certificate m) \<longrightarrow> unmarshal_sessionStateTLS13 R state = Some m) \<and>
    (\<forall>forged x old. decryptTicket P keys forged = (Some x, old) \<longrightarrow>
       (\<exists>k body. k \<in> set keys \<and> forged = body @ hmac_sum P SHA256 (tk_hmacKey k) body))"
  using decryptTicket_encryptTicket [OF assms(1-5)] sessionState_comes_back [OF assms(6,7)]
    sessionStateTLS13_round_trip [OF assms(6,7)] decryptTicket_authentic
  by metis

definition toy_ticketKey :: ticketKey where
  "toy_ticketKey = \<lparr>tk_keyName = replicate 16 1, tk_aesKey = replicate 16 2, tk_hmacKey = replicate 16 3, tk_created = 0\<rparr>"

definition toy_session :: sessionState where
  "toy_session = \<lparr>ss_vers = VersionTLS12, ss_cipherSuite = 0, ss_createdAt = 0, ss_masterSecret = [5, 6],
     ss_certificates = [[7]], ss_usedOldKey = True\<rparr>"

theorem ticket_round_trip_witness:
  "\<exists>state ticket. marshal_sessionState plain_builder toy_session = Some state \<and>
     encryptTicket toy_crypto [toy_ticketKey] (\<lambda>n. Some (replicate n 0)) state = Inr ticket \<and>
     decryptTicket toy_crypto [toy_ticketKey] ticket = (Some state, False) \<and>
     unmarshal_sessionState plain_reader False state = Some (toy_session\<lparr>ss_usedOldKey := False\<rparr>)"
proof -
  obtain state where m: "marshal_sessionState plain_builder toy_session = Some state"
    by (simp add: marshal_sessionState_def toy_session_def plain_builder_run steps_def lp_def addUint64_def close_prefix_def
        VersionTLS12_def)
  have "\<exists>t. encryptTicket toy_crypto [toy_ticketKey] (\<lambda>n. Some (replicate n 0)) state = Inr t"
    by (simp add: encryptTicket_def toy_crypto_def)
  then obtain t where t: "encryptTicket toy_crypto [toy_ticketKey] (\<lambda>n. Some (replicate n 0)) state = Inr t" by blast
  have "ticketKey_ok toy_ticketKey" by (simp add: ticketKey_ok_def toy_ticketKey_def)
  from ticket_round_trip [OF toy_hashes this _ t _ plain_builder_ok plain_reader_ok, of "[toy_ticketKey]" 0] t m
  show ?thesis by (auto simp: toy_session_def)
qed

section \<open>Key agreement\<close>

text \<open>
  C36. When the ends fit (a certificate for the server's private key, primitives that do what they promise) and the
  client's random source does not fail, the client accepts the ServerKeyExchange of the server, signature included,
  and has a premaster secret and a reply from which the server computes the same secret: for RSA and for ECDHE with
  every signature scheme, in every version up to TLS 1.2.
\<close>

theorem key_agreement_agrees:
  assumes "ends_meet P X ch s c" and "server_hello_step P ch sh s = Some (skx, s')"
    and "client_able P X ch s' c"
  shows "\<exists>pms ckx. client_reply_step P X ch sh c skx = Some (pms, ckx) \<and> server_secret_step P s' ckx = Some pms"
  using assms by (rule agreement.replies_agree)

definition toy_server_end :: server_end where
  "toy_server_end = \<lparr>se_config = defaultConfig, se_ka = RsaKeyAgreement, se_cert = toy_certificate,
     se_host = \<lparr>h_rand = (\<lambda>_ n. Some (replicate n 0)), h_draws = 0, h_time = (\<lambda>_. 0), h_ticks = 0, h_keyLog = []\<rparr>\<rparr>"

definition toy_client_end :: client_end where
  "toy_client_end = \<lparr>ce_ka = RsaKeyAgreement, ce_cert = toy_x509 [7], ce_host = se_host toy_server_end\<rparr>"

definition toy_hello :: clientHelloMsg where
  "toy_hello = empty_clientHello\<lparr>ch_vers := VersionTLS12, ch_supportedSignatureAlgorithms := [PSSWithSHA256]\<rparr>"

lemma toy_short_keys: "short_keys toy_crypto"
  by (auto simp: short_keys_def toy_crypto_def generateECDHEParameters_def
      split: if_splits option.splits)

lemma toy_ends_meet: "ends_meet toy_crypto toy_pki toy_hello toy_server_end toy_client_end"
  using toy_dh toy_short_keys
  by (auto simp: ends_meet_def Let_def pki_ok_def short_signatures_def signs_def toy_server_end_def toy_client_end_def
      toy_certificate_def toy_key_def toy_pki_def toy_x509_def toy_hello_def empty_clientHello_def split: if_splits)

theorem key_agreement_agrees_witness:
  "\<exists>ckx. client_reply_step toy_crypto toy_pki toy_hello new_serverHello toy_client_end None = Some (be_enc 2 771 @ replicate 46 0, ckx) \<and>
     server_secret_step toy_crypto toy_server_end ckx = Some (be_enc 2 771 @ replicate 46 0)"
proof -
  note D = toy_client_end_def toy_server_end_def toy_hello_def toy_pki_def toy_x509_def host_ReadFull_def host_source_def
    VersionTLS12_def Let_def
  have s: "server_hello_step toy_crypto toy_hello new_serverHello toy_server_end = Some (None, toy_server_end)"
    by (simp add: server_hello_step_def generateServerKeyExchange_def toy_server_end_def)
  have a: "client_able toy_crypto toy_pki toy_hello toy_server_end toy_client_end"
    by (simp add: client_able_def D del: be_enc.simps)
  have "\<exists>ckx. client_reply_step toy_crypto toy_pki toy_hello new_serverHello toy_client_end None = Some (be_enc 2 771 @ replicate 46 0, ckx)"
    by (simp add: client_reply_step_def generateClientKeyExchange_def rsa_generateClientKeyExchange_def D del: be_enc.simps)
  then show ?thesis using key_agreement_agrees [OF toy_ends_meet s a] by auto
qed

section \<open>Ticket keys\<close>

text \<open>
  C37. The operations on ticket keys keep every configuration well formed (name, AES key and HMAC key of 16 bytes each):
  \<open>ticketKeys\<close>, with or without a configuration for the client, \<open>SetSessionTicketKeys\<close> and \<open>Clone\<close>. The keys that
  \<open>ticketKeys\<close> returns are well formed and come from the right place: those that were set for the client's
  configuration, else those of the server's own, else managed keys, and then the one that encrypts is less than a day
  old by a reading of the clock that this very call has made (it is new if the old one is not). No keys are returned
  when tickets are disabled. The read lock of the server's configuration is back where it was, that of the client's
  configuration too, except that disabling tickets there leaks one.
\<close>

theorem ticket_keys_well_formed:
  assumes "hashes_ok P" and "config_wf c" and "pred_option config_wf co"
  shows "(\<forall>keys co' c' h'. ticketKeys P (co, c, h) = Returned keys (co', c', h') \<longrightarrow>
      (\<forall>k\<in>set keys. ticketKey_ok k) \<and> config_wf c' \<and> cfg_readers c' = cfg_readers c \<and> pred_option config_wf co' \<and>
      map_option cfg_readers co' = map_option (\<lambda>cc. cfg_readers cc + of_bool (cfg_SessionTicketsDisabled cc)) co \<and>
      (case co' of
         None \<Rightarrow> own_keys c h keys c' h'
       | Some cc \<Rightarrow>
           if cfg_SessionTicketsDisabled cc then keys = []
           else if cfg_sessionTicketKeys cc \<noteq> [] then keys = cfg_sessionTicketKeys cc
           else own_keys c h keys c' h')) \<and>
    (\<forall>bs c' h'. SetSessionTicketKeys P bs (c, h) = Returned () (c', h') \<longrightarrow>
       config_wf c' \<and> cfg_readers c' = cfg_readers c \<and> length (cfg_sessionTicketKeys c') = length bs \<and> bs \<noteq> []) \<and>
    (\<forall>c'. Clone (Some c) = Some c' \<longrightarrow> config_wf c' \<and> cfg_readers c' = 0 \<and>
       cfg_sessionTicketKeys c' = cfg_sessionTicketKeys c \<and> cfg_autoSessionTicketKeys c' = cfg_autoSessionTicketKeys c)"
  by (rule conjI, intro allI impI, erule ticketKeys_keeps [OF assms], rule conjI, intro allI impI,
      erule SetSessionTicketKeys_keeps [OF assms(1,2)], intro allI impI, erule Clone_keeps [OF assms(2)])

text \<open>A managed key that is eight days old is replaced.\<close>

definition old_config :: Config where
  "old_config = defaultConfig\<lparr>cfg_autoSessionTicketKeys := [toy_ticketKey]\<rparr>"

definition late_host :: host where
  "late_host = (se_host toy_server_end)\<lparr>h_time := (\<lambda>_. nanoseconds (8 * 24 * 3600))\<rparr>"

theorem ticket_keys_well_formed_witness:
  "\<exists>k c' h'. ticketKeys toy_crypto (None, old_config, late_host) = Returned [k] (None, c', h') \<and>
     ticketKey_ok k \<and> config_wf c' \<and> recent_key late_host h' [k] \<and> k \<noteq> toy_ticketKey"
proof -
  note D = old_config_def defaultConfig_def emptyConfig_def late_host_def toy_server_end_def toy_ticketKey_def
  have wf: "config_wf old_config" by (simp add: config_wf_def D ticketKey_ok_def)
  have "\<exists>k c' h'. ticketKeys toy_crypto (None, old_config, late_host) = Returned [k] (None, c', h') \<and>
      cfg_sessionTicketKeys c' = []"
    by (simp add: ticketKeys_def own_ticketKeys_def D initLegacySessionTicketKeyRLocked_def RLock_def RUnlock_def
        host_ReadFull_def rotation_due_def rotate_keys_def ticketKeyFromBytes_def host_time_def toy_crypto_def
        ticketKeyRotation_def ticketKeyLifetime_def nanoseconds_def Let_def)
  then obtain k c' h' where r: "ticketKeys toy_crypto (None, old_config, late_host) = Returned [k] (None, c', h')"
    and e: "cfg_sessionTicketKeys c' = []" by blast
  have "own_keys old_config late_host [k] c' h' \<and> ticketKey_ok k \<and> config_wf c'"
    using ticket_keys_well_formed [OF toy_hashes wf, of None late_host] r by auto
  moreover from this have "recent_key late_host h' [k]" using e by (auto simp: own_keys_def split: if_splits)
  moreover from this have "k \<noteq> toy_ticketKey"
    by (auto simp: recent_key_def D ticketKeyRotation_def nanoseconds_def)
  ultimately show ?thesis using r by blast
qed

end
