(* ===== verification/HandshakeRules.thy ===== *)
theory HandshakeRules
  imports Setup
begin

text \<open>
  Reasoning about the steps of a handshake. \<open>triple P m Q\<close>: from a state with \<open>P\<close>, when \<open>m\<close> succeeds its value and
  state satisfy \<open>Q\<close>. \<open>keeps f m\<close>: a successful \<open>m\<close> leaves the value of \<open>f\<close> alone. The rules \<open>keeps\<close> show the latter for
  every step that neither authenticates the peer nor sets what the application sees of it.
\<close>

section \<open>Triples and frames\<close>

definition triple :: "(tlsConn \<Rightarrow> bool) \<Rightarrow> 'a act \<Rightarrow> ('a \<Rightarrow> tlsConn \<Rightarrow> bool) \<Rightarrow> bool" where
  "triple P m Q \<longleftrightarrow> (\<forall>t x t'. P t \<longrightarrow> m t = Some (Inr x, t') \<longrightarrow> Q x t')"

definition keeps :: "(tlsConn \<Rightarrow> 'c) \<Rightarrow> 'a act \<Rightarrow> bool" where
  "keeps f m \<longleftrightarrow> (\<forall>t x t'. m t = Some (Inr x, t') \<longrightarrow> f t' = f t)"

text \<open>The outcome as the application sees it; and the part of it that says who the peer is.\<close>

definition view :: "tlsConn \<Rightarrow> (Config \<times> (nat \<Rightarrow> int) \<times> x509 list \<times> x509 list list) \<times> bool \<times> bytes \<times> bytes" where
  "view t = ((t_config t, t_time t, t_peerCertificates t, t_verifiedChains t), t_didResume t, t_clientProtocol t, t_serverName t)"

definition stable :: "(tlsConn \<Rightarrow> 'c) \<Rightarrow> bool" where
  "stable f \<longleftrightarrow> (\<forall>t t'. view t' = view t \<longrightarrow> f t' = f t)"

definition auth_stable :: "(tlsConn \<Rightarrow> 'c) \<Rightarrow> bool" where
  "auth_stable f \<longleftrightarrow> (\<forall>t t'. fst (view t') = fst (view t) \<longrightarrow> f t' = f t)"

lemma auth_stable_stable: "auth_stable f \<Longrightarrow> stable f"
  unfolding auth_stable_def stable_def by metis

lemma tripleI: "(\<And>t x t'. P t \<Longrightarrow> m t = Some (Inr x, t') \<Longrightarrow> Q x t') \<Longrightarrow> triple P m Q"
  by (auto simp: triple_def)

lemma tripleD: "triple P m Q \<Longrightarrow> P t \<Longrightarrow> m t = Some (Inr x, t') \<Longrightarrow> Q x t'"
  by (auto simp: triple_def)

lemma keepsD: "keeps f m \<Longrightarrow> m t = Some (Inr x, t') \<Longrightarrow> f t' = f t"
  by (auto simp: keeps_def)

lemma triple_after: "triple P m R \<Longrightarrow> (\<And>x. triple (R x) (f x) Q) \<Longrightarrow> triple P (after m f) Q"
  unfolding triple_def after_Inr by blast

lemma triple_keeps: "keeps P m \<Longrightarrow> triple P m (\<lambda>_. P)"
  by (auto simp: triple_def keeps_def)

lemma triple_weaken: "triple P m Q \<Longrightarrow> (\<And>t. P' t \<Longrightarrow> P t) \<Longrightarrow> (\<And>x t. Q x t \<Longrightarrow> Q' x t) \<Longrightarrow> triple P' m Q'"
  unfolding triple_def by blast

lemma triple_assume: "(b \<Longrightarrow> triple P m Q) \<Longrightarrow> triple (\<lambda>t. b \<and> P t) m Q"
  by (auto simp: triple_def)

lemma triple_ret: "(\<And>t. P t \<Longrightarrow> Q x t) \<Longrightarrow> triple P (ret x) Q"
  by (auto simp: triple_def)

lemma triple_state: "(\<And>s. triple (\<lambda>t. t = s \<and> P s) (f s) Q) \<Longrightarrow> triple P (after the_state f) Q"
  by (auto simp: triple_def after_Inr)

lemma triple_change: "(\<And>t. P t \<Longrightarrow> Q () (g t)) \<Longrightarrow> triple P (change g) Q"
  by (auto simp: triple_def)

lemma triple_ensure: "triple P (ensure b a e) (\<lambda>_ t. b \<and> P t)"
  by (auto simp: triple_def)

lemma triple_if: "(b \<Longrightarrow> triple P m Q) \<Longrightarrow> (\<not> b \<Longrightarrow> triple P m' Q) \<Longrightarrow> triple P (if b then m else m') Q"
  by simp

lemma triple_alert_fail: "triple P (alert_fail a e) Q"
  by (auto simp: triple_def)

lemma triple_total: "(\<And>y t. x = Some y \<Longrightarrow> P t \<Longrightarrow> Q y t) \<Longrightarrow> triple P (total x) Q"
  by (auto simp: triple_def)

lemma triple_skip: "(\<And>x. triple (\<lambda>_. True) (f x) Q) \<Longrightarrow> triple (\<lambda>_. True) (after m f) Q"
  by (rule triple_after [where R = "\<lambda>_ _. True"]) (simp_all add: triple_def)

lemma triple_then_keeps: "triple P m (\<lambda>_. Q) \<Longrightarrow> (\<And>x. keeps Q (f x)) \<Longrightarrow> triple P (after m f) (\<lambda>_. Q)"
  by (rule triple_after) (auto intro: triple_keeps)

lemma keeps_then_triple: "keeps P m \<Longrightarrow> (\<And>x. triple P (f x) Q) \<Longrightarrow> triple P (after m f) Q"
  by (rule triple_after [OF triple_keeps])

lemma triple_Let: "triple P (g x) Q \<Longrightarrow> triple P (Let x g) Q"
  by simp

lemma triple_prod: "(\<And>a b. p = (a, b) \<Longrightarrow> triple P (g a b) Q) \<Longrightarrow> triple P (case p of (a, b) \<Rightarrow> g a b) Q"
  by (cases p) simp

lemma triple_option: "(y = None \<Longrightarrow> triple P m Q) \<Longrightarrow> (\<And>x. y = Some x \<Longrightarrow> triple P (g x) Q) \<Longrightarrow>
    triple P (case y of None \<Rightarrow> m | Some x \<Rightarrow> g x) Q"
  by (cases y) simp_all

section \<open>What steps return\<close>

definition returns :: "('a \<Rightarrow> bool) \<Rightarrow> 'a act \<Rightarrow> bool" where
  "returns Q m \<longleftrightarrow> (\<forall>t x t'. m t = Some (Inr x, t') \<longrightarrow> Q x)"

named_theorems returns

lemma returns_after [returns]: "(\<And>x. returns Q (f x)) \<Longrightarrow> returns Q (after m f)"
  unfolding returns_def after_Inr by blast

lemma returns_then: "returns R m \<Longrightarrow> (\<And>x. R x \<Longrightarrow> returns Q (f x)) \<Longrightarrow> returns Q (after m f)"
  unfolding returns_def after_Inr by blast

lemma returns_ret [returns]: "Q x \<Longrightarrow> returns Q (ret x)"
  and returns_fail [returns]: "returns Q (fail e)"
  and returns_alert_fail [returns]: "returns Q (alert_fail a e)"
  by (auto simp: returns_def)

lemma returns_internal [returns]: "returns Q internal_error"
  unfolding internal_error_def by (rule returns)

lemma returns_if [returns]: "returns Q m \<Longrightarrow> returns Q m' \<Longrightarrow> returns Q (if b then m else m')"
  by simp

lemma returns_option [returns]: "returns Q m \<Longrightarrow> (\<And>x. returns Q (g x)) \<Longrightarrow> returns Q (case y of None \<Rightarrow> m | Some x \<Rightarrow> g x)"
  by (cases y) simp_all

lemma returns_prod [returns]: "(\<And>a b. p = (a, b) \<Longrightarrow> returns Q (g a b)) \<Longrightarrow> returns Q (case p of (a, b) \<Rightarrow> g a b)"
  by (cases p) simp

lemma returns_list [returns]: "returns Q m \<Longrightarrow> (\<And>x xs. returns Q (g x xs)) \<Longrightarrow> returns Q (case l of [] \<Rightarrow> m | x # xs \<Rightarrow> g x xs)"
  by (cases l) simp_all

lemma returns_Let [returns]: "returns Q (g x) \<Longrightarrow> returns Q (Let x g)"
  by simp

lemma triple_returns: "keeps P m \<Longrightarrow> returns Q m \<Longrightarrow> triple P m (\<lambda>x t. Q x \<and> P t)"
  by (auto simp: triple_def keeps_def returns_def)

section \<open>What steps keep\<close>

named_theorems keeps

lemma keeps_after [keeps]: "keeps f m \<Longrightarrow> (\<And>x. keeps f (g x)) \<Longrightarrow> keeps f (after m g)"
  unfolding keeps_def after_Inr by metis

lemma keeps_if [keeps]: "keeps f m \<Longrightarrow> keeps f m' \<Longrightarrow> keeps f (if b then m else m')"
  by simp

lemma keeps_option [keeps]: "keeps f m \<Longrightarrow> (\<And>x. keeps f (g x)) \<Longrightarrow> keeps f (case y of None \<Rightarrow> m | Some x \<Rightarrow> g x)"
  by (cases y) simp_all

lemma keeps_sum [keeps]: "(\<And>x. keeps f (h x)) \<Longrightarrow> (\<And>x. keeps f (g x)) \<Longrightarrow> keeps f (case y of Inl x \<Rightarrow> h x | Inr x \<Rightarrow> g x)"
  by (cases y) simp_all

lemma keeps_prod [keeps]: "(\<And>a b. keeps f (g a b)) \<Longrightarrow> keeps f (case p of (a, b) \<Rightarrow> g a b)"
  by (cases p) simp

lemma keeps_list [keeps]: "keeps f m \<Longrightarrow> (\<And>x xs. keeps f (g x xs)) \<Longrightarrow> keeps f (case l of [] \<Rightarrow> m | x # xs \<Rightarrow> g x xs)"
  by (cases l) simp_all

lemma keeps_Let [keeps]: "keeps f (g x) \<Longrightarrow> keeps f (Let x g)"
  by simp

lemma keeps_publicKey [keeps]:
  "(\<And>x y. keeps f (a x y)) \<Longrightarrow> (\<And>x y. keeps f (b x y)) \<Longrightarrow> (\<And>x. keeps f (c x)) \<Longrightarrow> (\<And>x. keeps f (d x)) \<Longrightarrow>
     keeps f (case k of RSAKey x y \<Rightarrow> a x y | ECDSAKey x y \<Rightarrow> b x y | Ed25519Key x \<Rightarrow> c x | OtherKey x \<Rightarrow> d x)"
  by (cases k) simp_all

lemma keeps_session_check [keeps]:
  "keeps f a \<Longrightarrow> keeps f b \<Longrightarrow> keeps f c \<Longrightarrow> keeps f (case k of Usable \<Rightarrow> a | Unusable \<Rightarrow> b | Expired \<Rightarrow> c)"
  by (cases k) simp_all

lemma keeps_ret [keeps]: "keeps f (ret x)"
  and keeps_fail [keeps]: "keeps f (fail e)"
  and keeps_total [keeps]: "keeps f (total y)"
  and keeps_state [keeps]: "keeps f the_state"
  and keeps_of_result [keeps]: "keeps f (of_result r)"
  and keeps_of_error [keeps]: "keeps f (of_error e')"
  and keeps_ensure [keeps]: "keeps f (ensure b a s)"
  and keeps_alert_fail [keeps]: "keeps f (alert_fail a e)"
  and keeps_expect [keeps]: "keeps f (expect sel msg)"
  by (auto simp: keeps_def)

lemma keeps_on_error [keeps]: "(\<And>e. keeps f (h e)) \<Longrightarrow> keeps f (on_error h r)"
  by (auto simp: keeps_def on_error_def split: sum.splits)

lemma keeps_change: "(\<And>t. f (g t) = f t) \<Longrightarrow> keeps f (change g)"
  by (auto simp: keeps_def)

lemma stableD: "stable f \<Longrightarrow> view t' = view t \<Longrightarrow> f t' = f t"
  unfolding stable_def by blast

lemma keeps_change_view [keeps]: "stable f \<Longrightarrow> (\<And>t. view (g t) = view t) \<Longrightarrow> keeps f (change g)"
  by (rule keeps_change) (rule stableD)

lemma auth_stableD: "auth_stable f \<Longrightarrow> fst (view t') = fst (view t) \<Longrightarrow> f t' = f t"
  unfolding auth_stable_def by blast

lemma keeps_change_auth: "auth_stable f \<Longrightarrow> (\<And>t. fst (view (g t)) = fst (view t)) \<Longrightarrow> keeps f (change g)"
  by (rule keeps_change) (rule auth_stableD)

lemma view_put_host [simp]: "view (put_host h t) = view t"
  by (simp add: view_def put_host_def)

lemma view_conn [simp]: "view (t\<lparr>t_conn := c\<rparr>) = view t"
  by (simp add: view_def)

lemma keeps_change_conn [keeps]: "stable f \<Longrightarrow> keeps f (change_conn g)"
  unfolding change_conn_def by (intro keeps) simp_all

lemma keeps_with_host [keeps]: "stable f \<Longrightarrow> keeps f (with_host g)"
  by (clarsimp simp: keeps_def with_host_def split: prod.splits) (erule stableD, simp)

lemma keeps_of_conn [keeps]: "stable f \<Longrightarrow> keeps f (of_conn g)"
  by (clarsimp simp: keeps_def of_conn_def) (erule stableD, simp)

lemma keeps_writeRecord [keeps]: "stable f \<Longrightarrow> keeps f (writeRecord a b)"
  unfolding writeRecord_def by (intro keeps)

lemma keeps_flush [keeps]: "stable f \<Longrightarrow> keeps f flush_records"
  unfolding flush_records_def by (intro keeps)

lemma keeps_buffering [keeps]: "stable f \<Longrightarrow> keeps f set_buffering"
  unfolding set_buffering_def by (intro keeps)

lemma keeps_readMessage [keeps]: "stable f \<Longrightarrow> keeps f (readMessage E)"
proof -
  assume f: "stable f"
  have "f (t\<lparr>t_conn := c\<rparr>) = f t" for t c using f by (rule stableD) simp
  then show ?thesis by (auto simp: keeps_def readMessage_def split: option.splits sum.splits)
qed

lemma keeps_readExpected [keeps]: "stable f \<Longrightarrow> keeps f (readExpected E sel)"
  unfolding readExpected_def by (intro keeps)

lemma keeps_cache_Get [keeps]: "stable f \<Longrightarrow> keeps f (cache_Get key)"
  by (clarsimp simp: keeps_def cache_Get_def Let_def) (erule stableD, simp add: view_def)

lemma keeps_cache_Put [keeps]: "stable f \<Longrightarrow> keeps f (cache_Put key cs)"
  by (clarsimp simp: keeps_def cache_Put_def) (erule stableD, simp add: view_def)

lemma keeps_set_in [keeps]: "stable f \<Longrightarrow> keeps f (set_in E suite s)"
  by (clarsimp simp: keeps_def set_in_def) (erule stableD, simp)

lemma keeps_set_out [keeps]: "stable f \<Longrightarrow> keeps f (set_out E suite s)"
  by (clarsimp simp: keeps_def set_out_def) (erule stableD, simp)

lemma keeps_derive [keeps]: "keeps f (derive E suite s l tr)"
  unfolding derive_def by (intro keeps)

lemma keeps_log_secret [keeps]: "stable f \<Longrightarrow> keeps f (log_secret l r s)"
  unfolding log_secret_def by (intro keeps)

lemma keeps_send13 [keeps]: "stable f \<Longrightarrow> keeps f (send13 m tr)"
  unfolding send13_def Let_def by (intro keeps)

lemma keeps_complete [keeps]: "stable f \<Longrightarrow> keeps f set_complete"
  unfolding set_complete_def by (intro keeps)

lemma keeps_write_transcript [keeps]: "keeps f (write_transcript m fh)"
  unfolding write_transcript_def by (intro keeps)

lemma keeps_send_message [keeps]: "stable f \<Longrightarrow> keeps f (send_message m fh)"
  unfolding send_message_def by (intro keeps)

lemma keeps_verify_callback [keeps]: "keeps f (verify_callback raw)"
  unfolding verify_callback_def by (intro keeps)

lemma keeps_verify_connection [keeps]: "keeps f verify_connection"
  unfolding verify_connection_def by (intro keeps)

lemma keeps_peer_leaf [keeps]: "keeps f peer_leaf"
  unfolding peer_leaf_def by (intro keeps)

lemma keeps_internal_error [keeps]: "keeps f internal_error"
  unfolding internal_error_def by (intro keeps)

section \<open>VerifyConnection\<close>

text \<open>\<open>VerifyConnection\<close> has accepted a state that agrees with the final one on what it says of the peer.\<close>

definition hook_accepted :: "tlsConn \<Rightarrow> bool" where
  "hook_accepted t \<longleftrightarrow>
     (case cfg_VerifyConnection (t_config t) of
        None \<Rightarrow> True
      | Some verify \<Rightarrow> \<exists>s. verify s = None \<and> cst_PeerCertificates s = t_peerCertificates t \<and>
          cst_VerifiedChains s = t_verifiedChains t \<and> cst_DidResume s = t_didResume t \<and>
          cst_NegotiatedProtocol s = t_clientProtocol t \<and> cst_ServerName s = t_serverName t)"

lemma hook_accepted_stable: "stable hook_accepted"
  unfolding stable_def view_def hook_accepted_def by (simp cong: option.case_cong)

lemma verify_connection_hook: "triple P verify_connection (\<lambda>_ t. P t \<and> hook_accepted t)"
  by (rule tripleI)
    (auto simp: verify_connection_def after_Inr hook_accepted_def connectionStateLocked_def split: option.splits)

end
