(* ===== verification/ServerAuth.thy ===== *)
theory ServerAuth
  imports HandshakeRules
begin

text \<open>
  What a completed server handshake has established about the client, in every version and on every path,
  resumption included: the certificates that \<open>ClientAuth\<close> asks for, verified chains, and the consent of
  \<open>VerifyConnection\<close>.
\<close>

section \<open>The promise\<close>

definition client_options :: "tlsConn \<Rightarrow> x509 list \<Rightarrow> int \<Rightarrow> verifyOptions" where
  "client_options t rest now =
     \<lparr>vo_Roots = cfg_ClientCAs (t_config t), vo_CurrentTime = now, vo_DNSName = [], vo_Intermediates = rest,
      vo_ClientAuth = True\<rparr>"

definition client_verified :: "'b env \<Rightarrow> tlsConn \<Rightarrow> bool" where
  "client_verified E t \<longleftrightarrow>
     (requiresClientCert (cfg_ClientAuth (t_config t)) \<longrightarrow> t_peerCertificates t \<noteq> []) \<and>
     (cfg_ClientAuth (t_config t) \<ge> VerifyClientCertIfGiven \<and> t_peerCertificates t \<noteq> [] \<longrightarrow>
        (\<exists>k. x509_Verify (e_X E) (hd (t_peerCertificates t)) (client_options t (tl (t_peerCertificates t)) (t_time t k)) =
             Some (t_verifiedChains t)))"

lemma client_verified_stable: "auth_stable (client_verified E)"
  unfolding auth_stable_def view_def client_verified_def client_options_def by simp

lemma both_stable: "stable (\<lambda>t. client_verified E t \<and> hook_accepted t)"
  using auth_stable_stable [OF client_verified_stable [of E]] hook_accepted_stable unfolding stable_def by metis

lemma client_unasked: "cfg_ClientAuth (t_config t) < RequestClientCert \<Longrightarrow> client_verified E t"
  by (auto simp: client_verified_def requiresClientCert_def client_auth_defs)

lemma keeps_verify_client_chain: "keeps t_time (verify_client_chain E certs)" "keeps t_config (verify_client_chain E certs)"
  unfolding verify_client_chain_def
  by (auto intro!: keeps keeps_change simp: stable_def view_def)

lemma verify_client_chain_built:
  assumes "verify_client_chain E certs t = Some (Inr x, t')"
    and "cfg_ClientAuth (t_config t) \<ge> VerifyClientCertIfGiven" and "certs \<noteq> []"
  shows "\<exists>k. x509_Verify (e_X E) (hd certs) (client_options t (tl certs) (t_time t k)) = Some (t_verifiedChains t')"
  using assms
  by (auto simp: verify_client_chain_def after_Inr with_host_def host_time_def host_of_def client_options_def
      split: option.splits)

lemma processCertsFromClient_verifies: "triple (\<lambda>_. True) (processCertsFromClient E certificate) (\<lambda>_. client_verified E)"
proof (rule tripleI)
  fix t x t'
  assume "processCertsFromClient E certificate t = Some (Inr x, t')"
  then obtain certs t1 where "parse_certificates (e_X E) (crt_Certificate certificate) = Some certs"
    and c: "certs \<noteq> [] \<or> \<not> requiresClientCert (cfg_ClientAuth (t_config t))"
    and v: "verify_client_chain E certs t = Some (Inr (), t1)"
    and t2: "verify_callback (crt_Certificate certificate) (t1\<lparr>t_peerCertificates := certs,
      t_ocspResponse := (case crt_OCSPStaple certificate of Some x \<Rightarrow> x | None \<Rightarrow> []),
      t_scts := (case crt_SCTs certificate of Some x \<Rightarrow> x | None \<Rightarrow> [])\<rparr>) = Some (Inr x, t')"
    by (cases "parse_certificates (e_X E) (crt_Certificate certificate)") (auto simp: processCertsFromClient_def Let_def after_Inr)
  have "t' = t1\<lparr>t_peerCertificates := certs,
      t_ocspResponse := (case crt_OCSPStaple certificate of Some x \<Rightarrow> x | None \<Rightarrow> []),
      t_scts := (case crt_SCTs certificate of Some x \<Rightarrow> x | None \<Rightarrow> [])\<rparr>"
    using keepsD [OF keeps_verify_callback t2, where f = "\<lambda>t. t"] .
  then have v2: "t_config t' = t_config t1" "t_time t' = t_time t1" "t_peerCertificates t' = certs"
      "t_verifiedChains t' = t_verifiedChains t1" by simp_all
  note k = keepsD [OF keeps_verify_client_chain(1) v] keepsD [OF keeps_verify_client_chain(2) v]
  show "client_verified E t'"
    using c v2 k verify_client_chain_built [OF v] by (auto simp: client_verified_def client_options_def)
qed

section \<open>Up to TLS 1.2\<close>

lemma keeps_certificate_steps [keeps]:
  assumes "stable f"
  shows "keeps f (get_certificate E ch)" and "keeps f (pickCipherSuite E hs)" and "keeps f (send_certStatus E cert hello fh)"
    and "keeps f (send_serverKeyExchange E hs cert hello ka fh)" and "keeps f (send_certRequest E fh)"
  unfolding get_certificate_def pickCipherSuite_def send_certStatus_def send_serverKeyExchange_def send_certRequest_def
  using assms by (intro keeps; simp)+

lemma keeps_send_server_flight [keeps]: "stable f \<Longrightarrow> keeps f (send_server_flight E hs suite cert)"
  unfolding send_server_flight_def by (intro keeps)

lemma keeps_process_clientKeyExchange [keeps]: "stable f \<Longrightarrow> keeps f (process_clientKeyExchange E hs suite cert ka ckx)"
  unfolding process_clientKeyExchange_def by (intro keeps; simp)

lemma keeps_client_sigType [keeps]: "keeps f (client_sigType vers req pub cv)"
  unfolding client_sigType_def by (intro keeps)

lemma keeps_verify_client_signature [keeps]: "stable f \<Longrightarrow> keeps f (verify_client_signature E fh req pub)"
  unfolding verify_client_signature_def by (intro keeps)

lemma keeps_server_establishKeys [keeps]: "stable f \<Longrightarrow> keeps f (server_establishKeys E hs)"
  by (clarsimp simp: keeps_def server_establishKeys_def bind_eq_Some_conv) (erule stableD, simp)

lemma view_outs [simp]: "view (no_out v t) = view t" "view (out_client v t) = view t" "view (out_server v t) = view t"
  by (simp_all add: view_def no_out_def out_client_def out_server_def)

lemma keeps_server_readFinished [keeps]:
  "stable f \<Longrightarrow> (\<And>v t. view (out v t) = view t) \<Longrightarrow> keeps f (server_readFinished E out hs)"
  unfolding server_readFinished_def by (intro keeps)

lemma keeps_server_sendFinished [keeps]:
  "stable f \<Longrightarrow> (\<And>v t. view (out v t) = view t) \<Longrightarrow> keeps f (server_sendFinished E out hs)"
  unfolding server_sendFinished_def by (intro keeps)

lemma keeps_encrypt_ticket [keeps]: "stable f \<Longrightarrow> keeps f (encrypt_ticket E state)"
  unfolding encrypt_ticket_def by (intro keeps)

lemma keeps_server_sendSessionTicket [keeps]: "stable f \<Longrightarrow> keeps f (server_sendSessionTicket E hs)"
  unfolding server_sendSessionTicket_def by (intro keeps)

lemma keeps_server_finish [keeps]: "stable f \<Longrightarrow> keeps f (server_finish E hs)"
  unfolding server_finish_def by (intro keeps; simp add: view_def)

definition authenticated :: "'b env \<Rightarrow> tlsConn \<Rightarrow> bool" where
  "authenticated E t \<longleftrightarrow> client_verified E t \<and> hook_accepted t"

lemma authenticated_stable [simp]: "stable (authenticated E)"
  unfolding authenticated_def by (rule both_stable)

lemma verify_connection_authenticates: "triple (client_verified E) verify_connection (\<lambda>_. authenticated E)"
  unfolding authenticated_def by (rule verify_connection_hook)

lemma doResumeHandshake_authenticates: "triple (\<lambda>_. True) (doResumeHandshake E hs) (\<lambda>_. authenticated E)"
  unfolding doResumeHandshake_def Let_def
  by (intro triple_skip triple_prod triple_after [OF processCertsFromClient_verifies]
      triple_then_keeps [OF verify_connection_authenticates] keeps)

lemma client_verified_keeps [simp]: "stable (client_verified E)"
  by (rule auth_stable_stable [OF client_verified_stable])

lemma read_client_certificate_verifies:
  "triple (\<lambda>_. True) (read_client_certificate E fh msg) (\<lambda>_. client_verified E)"
  unfolding read_client_certificate_def
proof (intro triple_state triple_if)
  fix s
  show "triple (\<lambda>t. t = s \<and> True) (ret (fh, None, msg)) (\<lambda>_. client_verified E)"
    if "\<not> RequestClientCert \<le> cfg_ClientAuth (t_config s)"
    using that client_unasked [of s E] by (auto simp: triple_def)
qed (rule triple_weaken [where P = "\<lambda>_. True"], rule triple_skip, rule triple_skip,
  rule triple_then_keeps [OF processCertsFromClient_verifies], (intro keeps client_verified_keeps | simp)+)

lemma server_doFullHandshake_authenticates: "triple (\<lambda>_. True) (server_doFullHandshake E hs) (\<lambda>_. authenticated E)"
  unfolding server_doFullHandshake_def
  by (intro triple_skip triple_prod triple_after [OF read_client_certificate_verifies]
      triple_then_keeps [OF verify_connection_authenticates] keeps authenticated_stable)

lemma server_handshake_authenticates: "triple (\<lambda>_. True) (server_handshake E hs) (\<lambda>_. authenticated E)"
  unfolding server_handshake_def
proof (rule triple_skip, rule triple_skip, rule triple_skip, rule triple_prod, rule triple_then_keeps, rule triple_if)
qed ((rule triple_skip, rule triple_then_keeps [OF doResumeHandshake_authenticates]
       triple_then_keeps [OF server_doFullHandshake_authenticates])?,
     (intro keeps authenticated_stable view_outs; simp add: view_def))+

section \<open>TLS 1.3\<close>

lemma dummyCCS_returns: "returns (\<lambda>hs'. s3_usingPSK hs' = s3_usingPSK hs) (server_dummyCCS hs)"
  unfolding server_dummyCCS_def by (intro returns) simp_all

lemma processClientHello13_returns: "returns (\<lambda>hs. \<not> s3_usingPSK hs) (processClientHello13 E ch)"
proof -
  have hrr: "returns (\<lambda>hs'. s3_usingPSK hs' = s3_usingPSK hs) (doHelloRetryRequest E g hs)" for g hs
    unfolding doHelloRetryRequest_def Let_def
    by (intro returns_after returns_prod returns_then [OF dummyCCS_returns] returns_ret) simp
  have share: "returns (\<lambda>hs'. s3_usingPSK hs' = s3_usingPSK hs) (share_key E g ks hs)" for g ks hs
    unfolding share_key_def by (intro returns) simp_all
  have first: "\<not> s3_usingPSK (new_handshake13 t ch r suite)" for t r suite by (simp add: new_handshake13_def)
  have pick: "returns (\<lambda>(hs', ks). \<not> s3_usingPSK hs')
      (case k of Some ks \<Rightarrow> ret (hs, ks)
       | None \<Rightarrow> after (doHelloRetryRequest E g hs) (\<lambda>hs1.
           after (total (case ch_keyShares (s3_clientHello hs1) of [] \<Rightarrow> None | ks # _ \<Rightarrow> Some ks)) (\<lambda>ks. ret (hs1, ks))))"
    if "\<not> s3_usingPSK hs" for k g hs
    by (intro returns_option returns_then [OF hrr] returns_after returns_ret) (simp_all add: that)
  show ?thesis
    unfolding processClientHello13_def Let_def
    by (intro returns_after, rule returns_prod, rule returns_after, rule returns_then [OF pick [OF first]], rule returns_prod,
        rule returns_then [OF share], intro returns) auto
qed

text \<open>The handshake state says that a session is resumed only when its client has been verified anew.\<close>

definition psk_verified :: "'b env \<Rightarrow> bool \<Rightarrow> tlsConn \<Rightarrow> bool" where
  "psk_verified E using t \<longleftrightarrow> (using \<longrightarrow> client_verified E t)"

lemma psk_verified_stable: "auth_stable (psk_verified E b)"
  using client_verified_stable [of E] unfolding auth_stable_def psk_verified_def by blast

lemma psk_verified_keeps [simp]: "stable (psk_verified E b)"
  by (rule auth_stable_stable [OF psk_verified_stable])

lemma keeps_server_dummyCCS [keeps]: "stable f \<Longrightarrow> keeps f (server_dummyCCS hs)"
  unfolding server_dummyCCS_def by (intro keeps)

lemma keeps_psk_session [keeps]: "stable f \<Longrightarrow> keeps f (psk_session E hs identity)"
  unfolding psk_session_def by (intro keeps)

lemma accept_psk_verifies:
  "triple (\<lambda>_. True) (accept_psk E i s hs) (\<lambda>hs' t. psk_verified E (s3_usingPSK hs') t)"
proof -
  have v: "triple (\<lambda>_. True) (after (processCertsFromClient E c) (\<lambda>_. ret hs')) (\<lambda>hs' t. psk_verified E (s3_usingPSK hs') t)" for c hs'
    by (rule triple_after [OF processCertsFromClient_verifies]) (auto simp: psk_verified_def intro: triple_ret)
  show ?thesis
    unfolding accept_psk_def Let_def
    by (rule triple_skip, rule triple_skip, rule triple_option, rule triple_alert_fail, rule triple_skip, rule triple_prod,
        rule triple_skip, rule triple_skip, rule triple_skip, rule v)
qed

lemma try_identities_verifies:
  "\<not> s3_usingPSK hs \<Longrightarrow> triple (\<lambda>_. True) (try_identities E i ids hs) (\<lambda>hs' t. psk_verified E (s3_usingPSK hs') t)"
proof (induction ids arbitrary: i)
  case Nil
  then show ?case by (auto simp: psk_verified_def intro: triple_ret)
next
  case (Cons identity ids)
  show ?case
    unfolding try_identities.simps
    by (rule triple_if, rule triple_ret, simp add: psk_verified_def Cons.prems, rule triple_skip, rule triple_option,
        rule Cons.IH [OF Cons.prems], rule accept_psk_verifies)
qed

lemma checkForResumption13_verifies:
  "\<not> s3_usingPSK hs \<Longrightarrow> triple (\<lambda>_. True) (checkForResumption13 E hs) (\<lambda>hs' t. psk_verified E (s3_usingPSK hs') t)"
  unfolding checkForResumption13_def Let_def
  by (rule triple_skip, (rule triple_if, rule triple_ret, simp add: psk_verified_def)+, rule triple_skip,
      rule try_identities_verifies)

text \<open>The later steps leave the flag alone.\<close>

abbreviation same_psk :: "serverHandshakeStateTLS13 \<Rightarrow> serverHandshakeStateTLS13 \<Rightarrow> bool" where
  "same_psk hs hs' \<equiv> s3_usingPSK hs' = s3_usingPSK hs"

lemma pickCertificate_step: "returns (same_psk hs) (pickCertificate E hs)" "stable f \<Longrightarrow> keeps f (pickCertificate E hs)"
  unfolding pickCertificate_def by (intro returns; simp) (intro keeps)

lemma server_handshake_keys_step:
  "returns (same_psk hs) (server_handshake_keys E hs)" "stable f \<Longrightarrow> keeps f (server_handshake_keys E hs)"
  unfolding server_handshake_keys_def by (intro returns; simp) (intro keeps)

lemma sendServerParameters_step:
  "returns (same_psk hs) (sendServerParameters E hs)" "auth_stable f \<Longrightarrow> keeps f (sendServerParameters E hs)"
proof -
  show "returns (same_psk hs) (sendServerParameters E hs)"
    unfolding sendServerParameters_def
    by (intro returns_after returns_prod returns_then [OF dummyCCS_returns] returns_then [OF server_handshake_keys_step(1)]
        returns_ret) simp
  show "keeps f (sendServerParameters E hs)" if "auth_stable f"
    unfolding sendServerParameters_def using auth_stable_stable [OF that]
    by (intro keeps server_handshake_keys_step(2) keeps_change_auth [OF that]) (simp_all add: view_def)
qed

lemma sendServerCertificate_step:
  "returns (same_psk hs) (sendServerCertificate E hs)" "stable f \<Longrightarrow> keeps f (sendServerCertificate E hs)"
  unfolding sendServerCertificate_def send_certRequest13_def sign_transcript_def by (intro returns; simp) (intro keeps)

lemma sendSessionTickets_step:
  "s3_usingPSK hs = s3_usingPSK hs0 \<Longrightarrow> returns (same_psk hs0) (sendSessionTickets E hs)" "stable f \<Longrightarrow> keeps f (sendSessionTickets E hs)"
  unfolding sendSessionTickets_def by (intro returns; simp) (intro keeps)

lemma sendServerFinished_step:
  "returns (same_psk hs) (sendServerFinished E hs)" "stable f \<Longrightarrow> keeps f (sendServerFinished E hs)"
proof -
  show "returns (same_psk hs) (sendServerFinished E hs)"
    unfolding sendServerFinished_def Let_def
    by (intro returns_after returns_prod returns_if returns_ret sendSessionTickets_step(1)) simp_all
  show "keeps f (sendServerFinished E hs)" if "stable f"
    unfolding sendServerFinished_def using that
    by (intro keeps sendSessionTickets_step(2)) (simp_all add: view_def)
qed

lemma keeps_check_certVerify13 [keeps]: "keeps f (check_certVerify13 E algs context bad_alg bad_sig cv tr)"
  unfolding check_certVerify13_def by (intro keeps)

lemma readClientCertificate_authenticates:
  "triple (psk_verified E (s3_usingPSK hs)) (readClientCertificate E hs) (\<lambda>_. authenticated E)"
  unfolding readClientCertificate_def Let_def
proof (rule triple_state, rule triple_if)
  fix s
  assume "\<not> requestClientCert s hs"
  then have c: "psk_verified E (s3_usingPSK hs) s \<Longrightarrow> client_verified E s"
    using client_unasked [of s E] by (auto simp: requestClientCert_def psk_verified_def)
  show "triple (\<lambda>t. t = s \<and> psk_verified E (s3_usingPSK hs) s) (after verify_connection (\<lambda>_. ret hs)) (\<lambda>_. authenticated E)"
    by (rule triple_weaken, rule triple_then_keeps [OF verify_connection_authenticates]) (auto simp: c intro: keeps)
qed (rule triple_weaken [where P = "\<lambda>_. True"], rule triple_skip, rule triple_skip, rule triple_prod,
  rule triple_after [OF processCertsFromClient_verifies], rule triple_then_keeps [OF verify_connection_authenticates],
  (intro keeps sendSessionTickets_step(2) authenticated_stable | simp)+)

lemma psk_step:
  assumes "returns (same_psk hs) m" and "keeps (psk_verified E (s3_usingPSK hs)) m"
    and "\<And>hs'. triple (psk_verified E (s3_usingPSK hs')) (f hs') Q"
  shows "triple (psk_verified E (s3_usingPSK hs)) (after m f) Q"
  by (rule triple_after [OF triple_returns [OF assms(2, 1)]], rule triple_weaken [OF assms(3)]) auto

lemma server_handshake13_authenticates: "triple (\<lambda>_. True) (server_handshake13 E ch) (\<lambda>_. authenticated E)"
proof -
  have first: "triple (\<lambda>_. True) (processClientHello13 E ch) (\<lambda>hs _. \<not> s3_usingPSK hs \<and> True)"
    by (rule triple_returns [OF _ processClientHello13_returns]) (simp add: keeps_def)
  show ?thesis
    unfolding server_handshake13_def
    by (rule triple_after [OF first], rule triple_assume, rule triple_after, erule checkForResumption13_verifies,
        rule psk_step [OF pickCertificate_step], simp, rule keeps_then_triple, rule keeps_buffering, simp,
        rule psk_step [OF sendServerParameters_step], rule psk_verified_stable,
        rule psk_step [OF sendServerCertificate_step], simp, rule psk_step [OF sendServerFinished_step], simp,
        rule keeps_then_triple, rule keeps_flush, simp, rule triple_then_keeps [OF readClientCertificate_authenticates])
      (auto simp: readClientFinished_def intro!: keeps)
qed

text \<open>Every completed server handshake.\<close>

lemma serverHandshake_authenticates: "triple (\<lambda>_. True) (serverHandshake E) (\<lambda>_. authenticated E)"
  unfolding serverHandshake_def
  by (rule triple_skip, rule triple_skip, rule triple_if, rule server_handshake13_authenticates,
      rule server_handshake_authenticates)

end
