(* ===== verification/ClientAuth.thy ===== *)
theory ClientAuth
  imports HandshakeRules
begin

text \<open>
  What a completed first handshake of a client has established about the server, in every version: unless
  \<open>InsecureSkipVerify\<close> is set, its chain was built for the configured name, now or, for a resumed session,
  when the session began; and \<open>VerifyConnection\<close> has agreed.
\<close>

section \<open>The promise\<close>

definition server_options :: "tlsConn \<Rightarrow> x509 list \<Rightarrow> int \<Rightarrow> verifyOptions" where
  "server_options t rest now =
     \<lparr>vo_Roots = cfg_RootCAs (t_config t), vo_CurrentTime = now, vo_DNSName = cfg_ServerName (t_config t),
      vo_Intermediates = rest, vo_ClientAuth = False\<rparr>"

definition session_trusted :: "'b env \<Rightarrow> x509 list \<Rightarrow> x509 list list \<Rightarrow> tlsConn \<Rightarrow> bool" where
  "session_trusted E certs built t \<longleftrightarrow>
     cfg_InsecureSkipVerify (t_config t) \<or>
     built \<noteq> [] \<and> certs \<noteq> [] \<and> VerifyHostname (e_X E) (hd certs) (cfg_ServerName (t_config t)) \<and>
       (\<exists>k. t_time t k \<le> x_NotAfter (hd certs))"

definition server_verified :: "'b env \<Rightarrow> tlsConn \<Rightarrow> bool" where
  "server_verified E t \<longleftrightarrow>
     cfg_InsecureSkipVerify (t_config t) \<or>
     t_peerCertificates t \<noteq> [] \<and>
       (\<exists>k. x509_Verify (e_X E) (hd (t_peerCertificates t)) (server_options t (tl (t_peerCertificates t)) (t_time t k)) =
            Some (t_verifiedChains t)) \<or>
     t_didResume t \<and> session_trusted E (t_peerCertificates t) (t_verifiedChains t) t"

definition no_peers :: "tlsConn \<Rightarrow> bool" where
  "no_peers t \<longleftrightarrow> t_peerCertificates t = []"

definition trusted :: "'b env \<Rightarrow> ClientSessionState option \<Rightarrow> tlsConn \<Rightarrow> bool" where
  "trusted E so t \<longleftrightarrow> no_peers t \<and>
     (case so of None \<Rightarrow> True | Some s \<Rightarrow> session_trusted E (css_serverCertificates s) (css_verifiedChains s) t)"

definition server_known :: "'b env \<Rightarrow> tlsConn \<Rightarrow> bool" where
  "server_known E t \<longleftrightarrow> server_verified E t \<and> hook_accepted t"

lemma trusted_stable: "auth_stable (trusted E so)"
  unfolding auth_stable_def view_def trusted_def no_peers_def session_trusted_def by (simp cong: option.case_cong)

lemma no_peers_stable: "auth_stable no_peers"
  unfolding auth_stable_def view_def no_peers_def by simp

lemma server_verified_stable: "stable (server_verified E)"
  unfolding stable_def view_def server_verified_def server_options_def session_trusted_def by simp

lemmas trusted_keeps [simp] = auth_stable_stable [OF trusted_stable]
lemmas no_peers_keeps [simp] = auth_stable_stable [OF no_peers_stable]

lemma server_known_stable [simp]: "stable (server_known E)"
  using server_verified_stable [of E] hook_accepted_stable unfolding stable_def server_known_def by metis

lemma verify_connection_known: "triple (server_verified E) verify_connection (\<lambda>_. server_known E)"
  unfolding server_known_def by (rule verify_connection_hook)

section \<open>The server's certificate\<close>

lemma verify_server_chain_built:
  assumes "verify_server_chain E certs t = Some (Inr x, t')"
  shows "t_config t' = t_config t \<and> t_time t' = t_time t \<and>
    (cfg_InsecureSkipVerify (t_config t) \<or> certs \<noteq> [] \<and>
       (\<exists>k. x509_Verify (e_X E) (hd certs) (server_options t (tl certs) (t_time t k)) = Some (t_verifiedChains t')))"
  using assms
  by (auto simp: verify_server_chain_def after_Inr with_host_def host_time_def host_of_def server_options_def put_host_def
      split: option.splits list.splits if_splits)

lemma verifyServerCertificate_known: "triple (\<lambda>_. True) (verifyServerCertificate E certificates) (\<lambda>_. server_known E)"
proof (cases "parse_certificates (e_X E) certificates")
  case None
  then show ?thesis by (simp add: verifyServerCertificate_def triple_alert_fail)
next
  case (Some certs)
  let ?Q = "\<lambda>_ t. cfg_InsecureSkipVerify (t_config t) \<or> certs \<noteq> [] \<and>
       (\<exists>k. x509_Verify (e_X E) (hd certs) (server_options t (tl certs) (t_time t k)) = Some (t_verifiedChains t))"
  have chain: "triple (\<lambda>_. True) (verify_server_chain E certs) ?Q"
    by (rule tripleI, drule verify_server_chain_built) (simp add: server_options_def)
  have set: "triple (?Q ()) (change (\<lambda>t. t\<lparr>t_peerCertificates := certs\<rparr>)) (\<lambda>_. server_verified E)"
    by (rule triple_change) (auto simp: server_verified_def server_options_def)
  show ?thesis
    unfolding verifyServerCertificate_def Some option.case
    by (rule triple_after [OF chain], rule keeps_then_triple, rule keeps, rule keeps_then_triple, rule keeps,
        rule triple_after [OF set], rule keeps_then_triple, rule keeps, rule verify_connection_known)
qed

section \<open>Sessions\<close>

lemma check_session_trusted:
  assumes "check_session E session t = Some (Inr Usable, t')"
  shows "session_trusted E (css_serverCertificates session) (css_verifiedChains session) t'"
  using assms
  by (auto simp: check_session_def after_Inr with_host_def host_time_def host_of_def put_host_def session_trusted_def not_less
      split: if_splits list.splits)

lemma keeps_check_session [keeps]: "stable f \<Longrightarrow> keeps f (check_session E session)"
  unfolding check_session_def by (intro keeps)

lemma load_session13_returns:
  "returns (\<lambda>ld. ld_session ld = None \<or> ld_session ld = Some session) (load_session13 E hello key session)"
  unfolding load_session13_def
  by (intro returns; simp add: no_session_def)
    (auto simp: returns_def psk_offer_def Let_def bind_eq_Some_conv split: prod.splits)

lemma keeps_load_session13 [keeps]: "stable f \<Longrightarrow> keeps f (load_session13 E hello key session)"
  unfolding load_session13_def by (intro keeps)

lemma no_session_trusted: "triple no_peers (ret (no_session hello key)) (\<lambda>ld. trusted E (ld_session ld))"
  by (rule triple_ret) (simp add: no_session_def trusted_def)

lemma found_session_trusted:
  "triple no_peers
     (after (check_session E session) (\<lambda>chk.
        case chk of
          Expired \<Rightarrow> after (cache_Put key None) (\<lambda>_. ret (no_session hello key))
        | Unusable \<Rightarrow> ret (no_session hello key)
        | Usable \<Rightarrow>
            if css_vers session \<noteq> VersionTLS13 then
              ret (case mutualCipherSuite (e_P E) (ch_cipherSuites hello) (css_cipherSuite session) of
                None \<Rightarrow> no_session hello key
              | Some _ \<Rightarrow> (no_session (hello\<lparr>ch_sessionTicket := css_sessionTicket session\<rparr>) key)\<lparr>ld_session := Some session\<rparr>)
            else load_session13 E hello key session))
     (\<lambda>ld. trusted E (ld_session ld))"
proof (rule triple_after)
  have "triple no_peers (check_session E session) (\<lambda>_. no_peers)" by (rule triple_keeps) (simp add: keeps)
  then show "triple no_peers (check_session E session) (\<lambda>chk t. no_peers t \<and> (chk = Usable \<longrightarrow> trusted E (Some session) t))"
    unfolding triple_def trusted_def using check_session_trusted [of E session] by auto
  fix chk
  show "triple (\<lambda>t. no_peers t \<and> (chk = Usable \<longrightarrow> trusted E (Some session) t))
     (case chk of
          Expired \<Rightarrow> after (cache_Put key None) (\<lambda>_. ret (no_session hello key))
        | Unusable \<Rightarrow> ret (no_session hello key)
        | Usable \<Rightarrow>
            if css_vers session \<noteq> VersionTLS13 then
              ret (case mutualCipherSuite (e_P E) (ch_cipherSuites hello) (css_cipherSuite session) of
                None \<Rightarrow> no_session hello key
              | Some _ \<Rightarrow> (no_session (hello\<lparr>ch_sessionTicket := css_sessionTicket session\<rparr>) key)\<lparr>ld_session := Some session\<rparr>)
            else load_session13 E hello key session)
     (\<lambda>ld. trusted E (ld_session ld))"
  proof (cases chk)
    case Usable
    have "triple (trusted E (Some session)) (load_session13 E hello key session)
        (\<lambda>ld t. (ld_session ld = None \<or> ld_session ld = Some session) \<and> trusted E (Some session) t)"
      by (rule triple_returns [OF _ load_session13_returns]) (simp add: keeps)
    then have "triple (trusted E (Some session)) (load_session13 E hello key session) (\<lambda>ld. trusted E (ld_session ld))"
      by (rule triple_weaken) (auto simp: trusted_def)
    then show ?thesis
      by (auto simp: Usable triple_def no_session_def trusted_def split: option.splits)
  next
    case Unusable
    then show ?thesis using no_session_trusted [of hello key E] by simp
  next
    case Expired
    then show ?thesis by (simp, intro keeps_then_triple no_session_trusted keeps) simp
  qed
qed

lemma loadSession_trusted: "triple no_peers (loadSession E hello) (\<lambda>ld. trusted E (ld_session ld))"
  unfolding loadSession_def Let_def
  apply (rule keeps_then_triple, rule keeps, rule triple_if, rule no_session_trusted)
  apply (rule keeps_then_triple, rule keeps, rule triple_if, rule no_session_trusted)
  apply (rule keeps_then_triple, rule keeps, simp, rule triple_option, rule no_session_trusted)
  apply (rule triple_if, rule no_session_trusted)
  apply (rule found_session_trusted)
  done

section \<open>Up to TLS 1.2\<close>

lemma keeps_hello_steps [keeps]: "stable f \<Longrightarrow> keeps f (client_pickCipherSuite E hs)" "stable f \<Longrightarrow> keeps f (check_renegotiation hs)"
  "stable f \<Longrightarrow> keeps f (client_transcript E r hs)" "stable f \<Longrightarrow> keeps f (read_certStatus E hs fh msg)"
  unfolding client_pickCipherSuite_def check_renegotiation_def client_transcript_def read_certStatus_def
  by (intro keeps; simp add: view_def)+

lemma keeps_full_steps [keeps]: "stable f \<Longrightarrow> keeps f (read_serverKeyExchange E hs ka fh msg)"
  "stable f \<Longrightarrow> keeps f (read_certRequest E fh msg)" "stable f \<Longrightarrow> keeps f (send_client_certificate req fh)"
  "stable f \<Longrightarrow> keeps f (send_clientKeyExchange E hs ka fh)" "stable f \<Longrightarrow> keeps f (client_masterSecret E hs suite pms)"
  unfolding read_serverKeyExchange_def read_certRequest_def choose_client_certificate_def send_client_certificate_def
    send_clientKeyExchange_def client_masterSecret_def
  by (intro keeps; simp)+

lemma keeps_send_certVerify [keeps]: "stable f \<Longrightarrow> keeps f (send_certVerify E req fh)"
  unfolding send_certVerify_def certVerify_scheme_def Let_def by (intro keeps; simp)

lemma keeps_client_establishKeys [keeps]: "stable f \<Longrightarrow> keeps f (client_establishKeys E hs)"
  by (clarsimp simp: keeps_def client_establishKeys_def bind_eq_Some_conv) (erule stableD, simp)

lemma keeps_client_finished [keeps]: "stable f \<Longrightarrow> keeps f (client_readFinished E hs)"
  "stable f \<Longrightarrow> keeps f (client_sendFinished E hs)" "stable f \<Longrightarrow> keeps f (client_readSessionTicket E hs)"
  "stable f \<Longrightarrow> keeps f (client_finish E hs)"
  unfolding client_readFinished_def client_sendFinished_def client_readSessionTicket_def client_finish_def
  by (intro keeps; simp add: view_def out_client_def out_server_def)+

lemma check_server_identity_known: "triple no_peers (check_server_identity E certificates) (\<lambda>_. server_known E)"
proof -
  have "triple no_peers (verifyServerCertificate E certificates) (\<lambda>_. server_known E)"
    using verifyServerCertificate_known by (rule triple_weaken) simp_all
  then show ?thesis
    unfolding check_server_identity_def
    by (auto simp: triple_def after_Inr no_peers_def split: if_splits)
qed

lemma client_doFullHandshake_known: "triple no_peers (client_doFullHandshake E hs) (\<lambda>_. server_known E)"
  unfolding client_doFullHandshake_def
  by (rule keeps_then_triple, rule keeps, rule keeps_then_triple, rule keeps, rule keeps_then_triple, rule keeps, simp,
      rule keeps_then_triple, rule keeps, rule keeps_then_triple, rule keeps, rule keeps_then_triple, rule keeps, simp,
      rule keeps_then_triple, rule keeps, simp, rule triple_prod, rule triple_then_keeps [OF check_server_identity_known])
    (intro keeps server_known_stable)

lemma resume_session_trusted:
  "triple (trusted E (Some session)) (resume_session hs session)
     (\<lambda>_ t. session_trusted E (t_peerCertificates t) (t_verifiedChains t) t)"
  by (rule tripleI) (auto simp: resume_session_def after_Inr trusted_def session_trusted_def)

definition resumed_or_new :: "'b env \<Rightarrow> bool \<Rightarrow> tlsConn \<Rightarrow> bool" where
  "resumed_or_new E resumed t \<longleftrightarrow>
     (if resumed then session_trusted E (t_peerCertificates t) (t_verifiedChains t) t else no_peers t)"

lemma resumed_or_new_stable: "auth_stable (resumed_or_new E b)"
  unfolding auth_stable_def view_def resumed_or_new_def no_peers_def session_trusted_def by simp

lemmas resumed_or_new_keeps [simp] = auth_stable_stable [OF resumed_or_new_stable]

lemma pick_returns: "returns (\<lambda>hs'. chs_session hs' = chs_session hs) (client_pickCipherSuite E hs)"
  unfolding client_pickCipherSuite_def by (intro returns) simp_all

lemma processServerHello_trusted:
  "triple (trusted E (chs_session hs)) (processServerHello E hs) (\<lambda>(r, hs'). resumed_or_new E r)"
proof -
  have last: "triple (trusted E (chs_session hs1))
      (if \<not> serverResumedSession hs1 then ret (False, hs1)
       else after (total (chs_session hs1)) (\<lambda>session. after (resume_session hs1 session) (\<lambda>hs2. ret (True, hs2))))
      (\<lambda>(r, hs'). resumed_or_new E r)" for hs1
  proof (cases "chs_session hs1")
    case None
    then show ?thesis by (auto simp: triple_def serverResumedSession_def resumed_or_new_def trusted_def)
  next
    case (Some session)
    from resume_session_trusted [of E session hs1] show ?thesis
      unfolding Some by (auto simp: triple_def after_Inr resumed_or_new_def trusted_def split: if_splits)
  qed
  have pick: "triple (trusted E (chs_session hs)) (client_pickCipherSuite E hs) (\<lambda>hs' t. trusted E (chs_session hs') t)"
    by (rule triple_weaken [OF triple_returns [where P = "trusted E (chs_session hs)", OF _ pick_returns]]) (simp_all add: keeps)
  show ?thesis
    unfolding processServerHello_def
    by (rule triple_after [OF pick], rule keeps_then_triple, rule keeps, rule keeps_then_triple, rule keeps, simp,
        rule keeps_then_triple, intro keeps, rule keeps_then_triple, rule keeps_change_auth [OF trusted_stable],
        simp add: view_def, rule last)
qed

lemma set_didResume: "triple (resumed_or_new E r) (change (\<lambda>t. t\<lparr>t_didResume := r\<rparr>))
    (\<lambda>_ t. if r then server_verified E t else no_peers t)"
  by (rule triple_change) (auto simp: resumed_or_new_def server_verified_def session_trusted_def no_peers_def)

lemma client_handshake_known: "triple (trusted E (chs_session hs)) (client_handshake E hs) (\<lambda>_. server_known E)"
proof -
  have resume: "triple (server_verified E)
      (after (client_establishKeys E hs2) (\<lambda>_.
       after (client_readSessionTicket E hs2) (\<lambda>hs3.
       after (client_readFinished E hs3) (\<lambda>hs4.
       after (change (\<lambda>t. t\<lparr>t_clientFinishedIsFirst := False\<rparr>)) (\<lambda>_.
       after verify_connection (\<lambda>_.
       after (client_sendFinished E hs4) (\<lambda>hs5.
       after flush_records (\<lambda>_.
       ret hs5))))))))
      (\<lambda>_. server_known E)" for hs2
    by (rule keeps_then_triple, rule keeps, rule server_verified_stable, rule keeps_then_triple, rule keeps,
        rule server_verified_stable, rule keeps_then_triple, rule keeps, rule server_verified_stable, rule keeps_then_triple,
        rule keeps_change_view, rule server_verified_stable, simp add: view_def, rule triple_then_keeps [OF verify_connection_known]) (intro keeps server_known_stable)
  have full: "triple no_peers
      (after (client_doFullHandshake E hs2) (\<lambda>hs3.
       after (client_establishKeys E hs3) (\<lambda>_.
       after (client_sendFinished E hs3) (\<lambda>hs4.
       after flush_records (\<lambda>_.
       after (change (\<lambda>t. t\<lparr>t_clientFinishedIsFirst := True\<rparr>)) (\<lambda>_.
       after (client_readSessionTicket E hs4) (\<lambda>hs5.
       client_readFinished E hs5)))))))
      (\<lambda>_. server_known E)" for hs2
    by (rule triple_then_keeps [OF client_doFullHandshake_known]) (intro keeps server_known_stable; simp add: view_def)
  show ?thesis
    unfolding client_handshake_def
    apply (rule triple_after [OF processServerHello_trusted], rule triple_prod)
    apply (simp only: prod.case)
    apply (rule keeps_then_triple, rule keeps, simp, rule keeps_then_triple, rule keeps, simp)
    apply (rule triple_after [OF set_didResume], rule triple_then_keeps, rule triple_if)
    apply (simp only: if_True, rule resume)
    apply (simp only: if_False, rule full)
    apply (intro keeps server_known_stable)
    done
qed

section \<open>TLS 1.3\<close>

abbreviation same_session :: "clientHandshakeStateTLS13 \<Rightarrow> clientHandshakeStateTLS13 \<Rightarrow> bool" where
  "same_session hs hs' \<equiv> c3_session hs' = c3_session hs \<and> c3_usingPSK hs' = c3_usingPSK hs"

lemma client_dummyCCS_step:
  "returns (same_session hs) (client_dummyCCS hs)" "stable f \<Longrightarrow> keeps f (client_dummyCCS hs)"
  unfolding client_dummyCCS_def by (intro returns; simp) (intro keeps)

lemma checkServerHelloOrHRR_step:
  "same_session hs0 hs \<Longrightarrow> returns (same_session hs0) (checkServerHelloOrHRR E hs)"
  "stable f \<Longrightarrow> keeps f (checkServerHelloOrHRR E hs)"
  unfolding checkServerHelloOrHRR_def choose_suite_client_def by (intro returns; simp) (intro keeps)

lemma retry_steps:
  "returns (same_session hs) (retry_share E hs)" "returns (same_session hs) (retry_psk E chHash hrr suite hs)"
  "stable f \<Longrightarrow> keeps f (retry_share E hs)" "stable f \<Longrightarrow> keeps f (retry_psk E chHash hrr suite hs)"
  "keeps f (check_retryRequest sh hello)"
  unfolding retry_share_def retry_psk_def check_retryRequest_def
  by ((intro returns; simp), (intro returns; simp), (intro keeps; assumption)+)

lemma processHelloRetryRequest_step:
  "returns (same_session hs) (processHelloRetryRequest E hs)" "stable f \<Longrightarrow> keeps f (processHelloRetryRequest E hs)"
proof -
  show "returns (same_session hs) (processHelloRetryRequest E hs)"
    unfolding processHelloRetryRequest_def Let_def
    by (intro returns_after returns_prod returns_then [OF retry_steps(1)] returns_then [OF retry_steps(2)]
        checkServerHelloOrHRR_step(1)) simp
  show "keeps f (processHelloRetryRequest E hs)" if "stable f"
    unfolding processHelloRetryRequest_def using that by (intro keeps retry_steps checkServerHelloOrHRR_step(2))
qed

lemma retry_step:
  "returns (same_session hs) (if b then after (client_dummyCCS hs) (processHelloRetryRequest E) else ret hs)"
  "stable f \<Longrightarrow> keeps f (if b then after (client_dummyCCS hs) (processHelloRetryRequest E) else ret hs)"
proof -
  have "returns (same_session hs) (after (client_dummyCCS hs) (processHelloRetryRequest E))"
  proof (rule returns_then [OF client_dummyCCS_step(1)])
    fix hs' assume s: "same_session hs hs'"
    show "returns (same_session hs) (processHelloRetryRequest E hs')"
      using processHelloRetryRequest_step(1) [of hs' E] unfolding s [THEN conjunct1] s [THEN conjunct2] .
  qed
  then show "returns (same_session hs) (if b then after (client_dummyCCS hs) (processHelloRetryRequest E) else ret hs)"
    by (intro returns_if returns_ret) simp_all
  show "keeps f (if b then after (client_dummyCCS hs) (processHelloRetryRequest E) else ret hs)" if "stable f"
    using that by (intro keeps client_dummyCCS_step processHelloRetryRequest_step)
qed

text \<open>A session is used only when it is one to be trusted, and then its certificates are the peer's.\<close>

definition psk_known :: "'b env \<Rightarrow> bool \<Rightarrow> tlsConn \<Rightarrow> bool" where
  "psk_known E using t \<longleftrightarrow> (using \<longrightarrow> server_verified E t)"

lemma psk_known_keeps [simp]: "stable (psk_known E b)"
  using server_verified_stable [of E] unfolding stable_def psk_known_def by metis

lemma accept_session_known:
  assumes "\<not> c3_usingPSK hs"
  shows "triple (trusted E (c3_session hs)) (accept_session E hs) (\<lambda>hs' t. psk_known E (c3_usingPSK hs') t)"
  unfolding accept_session_def
  by (auto simp: triple_def after_Inr trusted_def psk_known_def server_verified_def session_trusted_def internal_error_def
      split: list.splits option.splits)

lemma client_processServerHello13_known:
  assumes "\<not> c3_usingPSK hs"
  shows "triple (trusted E (c3_session hs)) (client_processServerHello13 E hs) (\<lambda>hs' t. psk_known E (c3_usingPSK hs') t)"
  unfolding client_processServerHello13_def Let_def
  by (rule keeps_then_triple, rule keeps, rule keeps_then_triple, rule keeps, rule keeps_then_triple, rule keeps,
      rule keeps_then_triple, rule keeps, rule keeps_then_triple, rule keeps, rule keeps_then_triple, rule keeps, rule triple_if,
      rule triple_ret, simp add: psk_known_def assms, rule keeps_then_triple, rule keeps, rule accept_session_known [OF assms])

abbreviation same_using :: "clientHandshakeStateTLS13 \<Rightarrow> clientHandshakeStateTLS13 \<Rightarrow> bool" where
  "same_using hs hs' \<equiv> c3_usingPSK hs' = c3_usingPSK hs"

lemma establishHandshakeKeys_step:
  "returns (same_using hs) (establishHandshakeKeys E hs)" "stable f \<Longrightarrow> keeps f (establishHandshakeKeys E hs)"
  unfolding establishHandshakeKeys_def by (intro returns; simp) (intro keeps)

lemma server_verified_protocol: "view t' = (fst (view t), fst (snd (view t)), p) \<Longrightarrow> server_verified E t' = server_verified E t"
  unfolding view_def server_verified_def server_options_def session_trusted_def by simp

lemma readServerParameters_step:
  "returns (same_using hs) (readServerParameters E hs)" "keeps (psk_known E b) (readServerParameters E hs)"
proof -
  show "returns (same_using hs) (readServerParameters E hs)" unfolding readServerParameters_def by (intro returns) simp
  have p: "server_verified E (t\<lparr>t_clientProtocol := x\<rparr>) = server_verified E t" for t x
    by (rule server_verified_protocol) (simp add: view_def)
  show "keeps (psk_known E b) (readServerParameters E hs)"
    unfolding readServerParameters_def by (intro keeps keeps_change psk_known_keeps) (simp add: psk_known_def p)
qed

lemma read_certReq13_step: "stable f \<Longrightarrow> keeps f (read_certReq13 E msg hs)"
  unfolding read_certReq13_def by (intro keeps)

lemma keeps_client_certVerify13 [keeps]: "keeps f (check_certVerify13 E algs context bad_alg bad_sig cv tr)"
  unfolding check_certVerify13_def by (intro keeps)

lemma readServerCertificate_known:
  "triple (psk_known E (c3_usingPSK hs)) (readServerCertificate E hs) (\<lambda>_. server_known E)"
  unfolding readServerCertificate_def Let_def
proof (rule triple_if)
  assume "c3_usingPSK hs"
  then have "psk_known E (c3_usingPSK hs) = server_verified E" by (simp add: fun_eq_iff psk_known_def)
  then show "triple (psk_known E (c3_usingPSK hs)) (after verify_connection (\<lambda>_. ret hs)) (\<lambda>_. server_known E)"
    by (simp only:) (rule triple_then_keeps [OF verify_connection_known], rule keeps)
qed (rule triple_weaken [where P = "\<lambda>_. True"], rule triple_skip, rule triple_skip, rule triple_prod, rule triple_skip,
  rule triple_skip, rule triple_skip, rule triple_prod, rule triple_skip, rule triple_then_keeps [OF verifyServerCertificate_known],
  (intro keeps server_known_stable | simp)+)

lemma keeps_readServerFinished [keeps]: "stable f \<Longrightarrow> keeps f (readServerFinished E hs)"
  unfolding readServerFinished_def by (intro keeps; simp add: view_def)

lemma keeps_sendClient [keeps]: "stable f \<Longrightarrow> keeps f (sendClientCertificate E hs)"
  "stable f \<Longrightarrow> keeps f (sendClientFinished E hs)"
  unfolding sendClientCertificate_def choose_certificate13_def sign_transcript_def sendClientFinished_def
  by (intro keeps; simp add: view_def)+

lemma session_step:
  assumes "returns (same_session hs) m" and "keeps (trusted E (c3_session hs)) m"
    and "\<And>hs'. same_session hs hs' \<Longrightarrow> triple (trusted E (c3_session hs')) (f hs') Q"
  shows "triple (trusted E (c3_session hs)) (after m f) Q"
  by (rule triple_after [OF triple_returns [OF assms(2, 1)]], rule triple_assume, rule triple_weaken [OF assms(3)]) auto

lemma using_step:
  assumes "returns (same_using hs) m" and "keeps (psk_known E (c3_usingPSK hs)) m"
    and "\<And>hs'. triple (psk_known E (c3_usingPSK hs')) (f hs') Q"
  shows "triple (psk_known E (c3_usingPSK hs)) (after m f) Q"
  by (rule triple_after [OF triple_returns [OF assms(2, 1)]], rule triple_weaken [OF assms(3)]) auto

lemma dummyCCS_using: "returns (same_using hs) (client_dummyCCS hs)"
  using client_dummyCCS_step(1) [of hs] by (simp add: returns_def)

lemma client_handshake13_known:
  assumes "\<not> c3_usingPSK hs0"
  shows "triple (trusted E (c3_session hs0)) (client_handshake13 E hs0) (\<lambda>_. server_known E)"
proof -
  have retry: "returns (same_session hs) (if b then after (client_dummyCCS (hs\<lparr>c3_hello := h, c3_transcript := tr\<rparr>))
      (processHelloRetryRequest E) else ret (hs\<lparr>c3_hello := h, c3_transcript := tr\<rparr>))" for b hs h tr
    using retry_step(1) [of "hs\<lparr>c3_hello := h, c3_transcript := tr\<rparr>" b E]
    by (simp split del: if_split)
  have hello: "triple (trusted E (c3_session hs)) (client_processServerHello13 E (hs\<lparr>c3_serverHello := h, c3_transcript := tr\<rparr>))
      (\<lambda>hs' t. psk_known E (c3_usingPSK hs') t)" if "\<not> c3_usingPSK hs" for hs h tr
    using client_processServerHello13_known [of "hs\<lparr>c3_serverHello := h, c3_transcript := tr\<rparr>" E] that by simp
  have finish: "triple (psk_known E (c3_usingPSK hs4))
      (after (client_dummyCCS hs4) (\<lambda>hs5.
        after (establishHandshakeKeys E hs5) (\<lambda>hs6.
        after (readServerParameters E hs6) (\<lambda>hs7.
        after (readServerCertificate E hs7) (\<lambda>hs8.
        after (readServerFinished E hs8) (\<lambda>hs9.
        after (sendClientCertificate E hs9) (\<lambda>hs10.
        after (sendClientFinished E hs10) (\<lambda>_.
        after flush_records (\<lambda>_.
        set_complete)))))))))
      (\<lambda>_. server_known E)" for hs4
    by (rule using_step [OF dummyCCS_using client_dummyCCS_step(2)], simp,
        rule using_step [OF establishHandshakeKeys_step], simp, rule using_step [OF readServerParameters_step],
        rule triple_then_keeps [OF readServerCertificate_known], intro keeps server_known_stable)
  show ?thesis
    unfolding client_handshake13_def Let_def
    by (rule keeps_then_triple, rule keeps, rule keeps_then_triple, rule keeps, rule keeps_then_triple, intro keeps,
        rule session_step [OF checkServerHelloOrHRR_step], simp, simp, rule keeps_then_triple, rule keeps,
        rule keeps_then_triple, rule keeps, rule triple_prod, rule session_step [OF retry], rule retry_step(2), simp,
        rule keeps_then_triple, rule keeps, rule triple_prod, rule keeps_then_triple, rule keeps, simp,
        rule triple_after, rule hello, simp add: assms, rule finish)
qed

section \<open>clientHandshake\<close>

lemma keeps_makeClientHello [keeps]: "stable f \<Longrightarrow> keeps f (makeClientHello E)"
  unfolding makeClientHello_def add_tls13_def by (intro keeps; simp)

lemma keeps_pickTLSVersion [keeps]: "stable f \<Longrightarrow> keeps f (pickTLSVersion E sh)"
  unfolding pickTLSVersion_def by (intro keeps)

lemma triple_on_failure: "triple P m Q \<Longrightarrow> triple P (on_failure cleanup m) Q"
  by (auto simp: triple_def on_failure_def split: option.splits sum.splits)

lemma run_client_known: "triple (trusted E (ld_session ld)) (run_client E params ld) (\<lambda>_. server_known E)"
proof -
  have tls13: "triple (trusted E (ld_session ld)) (client_handshake13 E (new_clientHandshake13 sh hello params ld)) (\<lambda>_. server_known E)"
    for sh hello
    using client_handshake13_known [of "new_clientHandshake13 sh hello params ld" E] by (simp add: new_clientHandshake13_def)
  have tls12: "triple (trusted E (ld_session ld)) (client_handshake E \<lparr>chs_serverHello = sh, chs_hello = hello, chs_suite = None,
      chs_finishedHash = None, chs_masterSecret = [], chs_session = ld_session ld, chs_newSession = False\<rparr>) (\<lambda>_. server_known E)"
    for sh hello
    using client_handshake_known [of E "\<lparr>chs_serverHello = sh, chs_hello = hello, chs_suite = None,
      chs_finishedHash = None, chs_masterSecret = [], chs_session = ld_session ld, chs_newSession = False\<rparr>"] by simp
  show ?thesis
    unfolding run_client_def
    by (rule keeps_then_triple, rule keeps, rule triple_prod, rule keeps_then_triple, rule keeps, simp, rule keeps_then_triple,
        rule keeps, simp, rule keeps_then_triple, rule keeps, simp, rule keeps_then_triple, rule keeps, rule keeps_then_triple,
        rule keeps, rule triple_if, rule tls13, rule triple_then_keeps [OF tls12], intro keeps server_known_stable)
qed

text \<open>Every completed first handshake of a client.\<close>

lemma clientHandshake_known: "triple no_peers (clientHandshake E) (\<lambda>_. server_known E)"
  unfolding clientHandshake_def
  by (rule keeps_then_triple, rule keeps_change_auth [OF no_peers_stable], simp add: view_def, rule keeps_then_triple,
      rule keeps, simp, rule triple_prod, rule keeps_then_triple, rule keeps_change_auth [OF no_peers_stable],
      simp add: view_def, rule triple_after [OF loadSession_trusted], rule triple_if, rule triple_on_failure,
      rule run_client_known, rule run_client_known)

end
