(* ===== verification/HandshakeProperties.thy ===== *)
theory HandshakeProperties
  imports ServerAuth ClientAuth SessionProperties ReadTotal
begin

text \<open>What a completed handshake means, for a server and for a client, in every version and on every path.\<close>

lemma Handshake_success:
  assumes "Handshake E t = Some (None, t')" and "\<not> c_complete (t_conn t)"
  obtains t1 c where "handshakeFn E t = Some (Inr (), t1)" and "t' = t1\<lparr>t_conn := c\<rparr>" and "c_complete c"
  using assms
  by (auto simp: Handshake_def Let_def result_error_def split: option.splits sum.splits if_splits)

lemma Handshake_keeps:
  assumes "Handshake E t = Some (None, t')" and "\<not> c_complete (t_conn t)" and "P t" and "triple P (handshakeFn E) (\<lambda>_. Q)"
    and "stable Q"
  shows "c_complete (t_conn t') \<and> Q t'"
proof -
  obtain t1 c where r: "handshakeFn E t = Some (Inr (), t1)" and t': "t' = t1\<lparr>t_conn := c\<rparr>" "c_complete c"
    using assms(1,2) by (rule Handshake_success)
  have "Q t1" using tripleD [OF assms(4,3) r] .
  moreover have "Q t' = Q t1" unfolding t'(1) by (rule stableD [OF assms(5)]) simp
  ultimately show ?thesis using t' by simp
qed

section \<open>The server\<close>

text \<open>
  C38. When \<open>Handshake\<close> of a server returns no error, the handshake is complete and the client is what \<open>ClientAuth\<close>
  asks for: it has a certificate when one is required, and from \<open>VerifyClientCertIfGiven\<close> on its chain has been built
  with the roots of \<open>ClientCAs\<close>. \<open>VerifyConnection\<close> has accepted the certificates, chains, protocol, server name and
  resumption that the connection reports. This holds for TLS 1.0 to 1.3 and for resumed sessions, whose certificates
  are verified again.
\<close>

theorem server_handshake_authenticates_client:
  assumes "\<not> c_isClient (t_conn t)" and "\<not> c_complete (t_conn t)" and "Handshake E t = Some (None, t')"
  shows "c_complete (t_conn t') \<and>
    (requiresClientCert (cfg_ClientAuth (t_config t')) \<longrightarrow> t_peerCertificates t' \<noteq> []) \<and>
    (cfg_ClientAuth (t_config t') \<ge> VerifyClientCertIfGiven \<and> t_peerCertificates t' \<noteq> [] \<longrightarrow>
       (\<exists>k. x509_Verify (e_X E) (hd (t_peerCertificates t')) (client_options t' (tl (t_peerCertificates t')) (t_time t' k)) =
            Some (t_verifiedChains t'))) \<and>
    hook_accepted t'"
proof -
  have "triple (\<lambda>s. \<not> c_isClient (t_conn s)) (handshakeFn E) (\<lambda>_. authenticated E)"
    using serverHandshake_authenticates [of E] by (simp add: triple_def handshakeFn_def)
  from Handshake_keeps [OF assms(3,2) assms(1) this authenticated_stable] show ?thesis
    by (simp add: authenticated_def client_verified_def)
qed

theorem server_handshake_authenticates_client_witness:
  "\<exists>t. Handshake toy_env (toy_server VersionTLS12 [client12_hello, client12_finish]) = Some (None, t) \<and> c_complete (t_conn t) \<and>
     t_peerCertificates t = [toy_x509 [7]] \<and> hook_accepted t"
proof -
  let ?t = "toy_server VersionTLS12 [client12_hello, client12_finish]"
  have "\<not> c_isClient (t_conn ?t)" "\<not> c_complete (t_conn ?t)"
    by (simp_all add: toy_server_def tls_Server_def new_tlsConn_def zero_conn_def)
  with server12_runs server_handshake_authenticates_client [of ?t toy_env] show ?thesis by blast
qed

section \<open>The client\<close>

text \<open>
  C39. When the first \<open>Handshake\<close> of a client returns no error, the handshake is complete and, unless
  \<open>InsecureSkipVerify\<close> is set, the server is the one of \<open>ServerName\<close>: either its chain has been built for that name
  with the roots of \<open>RootCAs\<close>, or the session is resumed, its chain was verified before, and its certificate still
  fits the name and had not expired. \<open>VerifyConnection\<close> has accepted what the connection reports. This holds for TLS
  1.0 to 1.3, with pre-shared keys and after a HelloRetryRequest.
\<close>

theorem client_handshake_authenticates_server:
  assumes "c_isClient (t_conn t)" and "\<not> c_complete (t_conn t)" and "t_peerCertificates t = []"
    and "Handshake E t = Some (None, t')"
  shows "c_complete (t_conn t') \<and> hook_accepted t' \<and>
    (cfg_InsecureSkipVerify (t_config t') \<or>
     t_peerCertificates t' \<noteq> [] \<and>
       (\<exists>k. x509_Verify (e_X E) (hd (t_peerCertificates t')) (server_options t' (tl (t_peerCertificates t')) (t_time t' k)) =
            Some (t_verifiedChains t')) \<or>
     t_didResume t' \<and> t_verifiedChains t' \<noteq> [] \<and> t_peerCertificates t' \<noteq> [] \<and>
       VerifyHostname (e_X E) (hd (t_peerCertificates t')) (cfg_ServerName (t_config t')) \<and>
       (\<exists>k. t_time t' k \<le> x_NotAfter (hd (t_peerCertificates t'))))"
proof -
  have "triple (\<lambda>s. c_isClient (t_conn s) \<and> no_peers s) (handshakeFn E) (\<lambda>_. server_known E)"
    using clientHandshake_known [of E] by (auto simp: triple_def handshakeFn_def)
  from Handshake_keeps [OF assms(4,2) _ this server_known_stable] assms(1,3) show ?thesis
    by (auto simp: server_known_def server_verified_def session_trusted_def no_peers_def)
qed

theorem client_handshake_authenticates_server_witness:
  "\<exists>t. Handshake toy_env (toy_client VersionTLS13 [server13_flight]) = Some (None, t) \<and> c_complete (t_conn t) \<and>
     t_peerCertificates t = [toy_x509 [7]] \<and> t_vers t = VersionTLS13 \<and> hook_accepted t"
proof -
  let ?t = "toy_client VersionTLS13 [server13_flight]"
  have "c_isClient (t_conn ?t)" "\<not> c_complete (t_conn ?t)" "t_peerCertificates ?t = []"
    by (simp_all add: toy_client_def tls_Client_def new_tlsConn_def zero_conn_def)
  with client13_runs client_handshake_authenticates_server [of ?t toy_env] show ?thesis by blast
qed

section \<open>Downgrades\<close>

lemma filter_head: "filter P xs = x # ys \<Longrightarrow> x \<in> set xs"
  by (metis Cons_eq_filterD in_set_conv_decomp)

lemma supported_max:
  assumes "maxSupportedVersion D co isClient \<ge> VersionTLS12"
  shows "maxSupportedVersion D co isClient = VersionTLS12 \<or> maxSupportedVersion D co isClient = VersionTLS13"
proof -
  have "maxSupportedVersion D co isClient \<in> insert 0 (set supportedVersions)"
    by (auto simp: maxSupportedVersion_def config_supportedVersions_def dest!: filter_head split: list.split)
  then show ?thesis using assms
    by (auto simp: supportedVersions_def VersionTLS13_def VersionTLS12_def VersionTLS11_def VersionTLS10_def)
qed

lemma serverRandom_canary:
  assumes "make_serverRandom E t = Some (Inr random, t')" and "\<And>i n b. nw_rand (c_net (t_conn t)) i n = Some b \<Longrightarrow> length b = n"
    and "length (downgrade_canary (e_D E) t) = 8"
  shows "drop 24 random = downgrade_canary (e_D E) t"
proof -
  obtain r where "nw_rand (c_net (t_conn t)) (nw_draws (c_net (t_conn t))) 24 = Some r"
      "random = r @ downgrade_canary (e_D E) t"
    using assms(1,3)
    by (auto simp: make_serverRandom_def after_Inr with_host_def host_ReadFull_def host_of_def Let_def split: option.splits)
  then show ?thesis using assms(2) by auto
qed

lemma word_pred: "v < 772 \<Longrightarrow> v \<le> 771" "v < 771 \<Longrightarrow> v \<le> 770" for v :: u16
  using word_less_nat_alt word_le_nat_alt by (force simp: word_less_nat_alt word_le_nat_alt)+

text \<open>
  When both ends could do better than the version they have settled on, and each knows at least TLS 1.2, the
  canary that the server puts into its random makes the client see the downgrade.
\<close>

lemma downgrade_is_detected:
  assumes "make_serverRandom E ts = Some (Inr random, ts')" and "sh_random sh = random"
    and "\<And>i n b. nw_rand (c_net (t_conn ts)) i n = Some b \<Longrightarrow> length b = n" and "t_vers tc = t_vers ts"
    and "VersionTLS12 \<le> maxSupportedVersion (e_D E) (Some (t_config ts)) roleServer"
    and "t_vers ts < maxSupportedVersion (e_D E) (Some (t_config ts)) roleServer"
    and "VersionTLS12 \<le> maxSupportedVersion (e_D E') (Some (t_config tc)) roleClient"
    and "t_vers ts < maxSupportedVersion (e_D E') (Some (t_config tc)) roleClient"
  shows "downgrade_detected E' tc sh"
proof -
  have c: "downgrade_canary (e_D E) ts = (if t_vers ts = VersionTLS12 then downgradeCanaryTLS12 else downgradeCanaryTLS11)"
    using assms(5,6) by (simp add: downgrade_canary_def)
  then have "length (downgrade_canary (e_D E) ts) = 8"
    by (simp add: downgradeCanaryTLS12_def downgradeCanaryTLS11_def str_def)
  from serverRandom_canary [OF assms(1,3) this] have d: "drop 24 (sh_random sh) = downgrade_canary (e_D E) ts"
    using assms(2) by simp
  show ?thesis
    using supported_max [OF assms(7)] assms(4,8) word_pred [of "t_vers ts"] d c
    by (auto simp: downgrade_detected_def Let_def VersionTLS13_def VersionTLS12_def VersionTLS11_def split: if_splits)
qed

text \<open>
  The steps of \<open>clientHandshake\<close> up to the choice of the version: the client has sent its hello, has read the ServerHello
  and has settled on a version. \<open>clientHandshake_after_hello\<close> shows that they are the steps of \<open>clientHandshake\<close>.
\<close>

definition receive_serverHello :: "'b env \<Rightarrow> (ecdheParameters option \<times> loadedSession \<times> clientHelloMsg \<times> serverHelloMsg) act" where
  "receive_serverHello E =
     after (change (\<lambda>t. t\<lparr>t_didResume := False\<rparr>)) (\<lambda>_.
     after (makeClientHello E) (\<lambda>(hello, params).
     after (change (\<lambda>t. t\<lparr>t_serverName := ch_serverName hello\<rparr>)) (\<lambda>_.
     after (loadSession E hello) (\<lambda>ld.
     after (total (marshal_clientHello (e_B E) (ld_hello ld))) (\<lambda>(ch, sent).
     after (writeRecord recordTypeHandshake ch) (\<lambda>_.
     after (readExpected E serverHello_of) (\<lambda>serverHello.
     after (pickTLSVersion E serverHello) (\<lambda>_.
     ret (params, ld, sent, serverHello)))))))))"

lemma after_step: "m t = Some (Inr x, t1) \<Longrightarrow> after m f t = f x t1"
  by (simp add: after_def)

abbreviation downgrade_error :: conn_error where
  "downgrade_error \<equiv>
     OtherError ''tls: downgrade attempt detected, possibly due to a MitM attack or a broken middlebox''"

lemma run_client_downgrade:
  assumes "marshal_clientHello (e_B E) (ld_hello ld) = Some (ch, sent)"
    and "writeRecord recordTypeHandshake ch t0 = Some (Inr (), t1)"
    and "readExpected E serverHello_of t1 = Some (Inr sh, t2)" and "pickTLSVersion E sh t2 = Some (Inr (), t3)"
    and "downgrade_detected E t3 sh"
  shows "run_client E params ld t0 = alert_fail alertIllegalParameter downgrade_error t3"
proof -
  have f: "after (ensure (\<not> downgrade_detected E t3 sh) a e) g t3 = alert_fail a (OtherError e) t3" for a e and g :: "unit \<Rightarrow> unit act"
    using assms(5) by (simp add: after_def ensure_def alert_fail_def fail_def split: option.split sum.split)
  show ?thesis
    unfolding run_client_def total_def [abs_def]
    by (simp add: after_def [of _ _ t0] after_def [of _ _ t1] after_def [of _ _ t2] after_def [of the_state]
        assms(1-4) the_state_def f)
qed

lemma clientHandshake_after_hello:
  assumes "receive_serverHello E t = Some (Inr (params, ld, sent, sh), t1)" and "downgrade_detected E t1 sh"
  shows "clientHandshake E t =
    (let failed = (\<lambda>_. alert_fail alertIllegalParameter downgrade_error t1)
     in if ld_cacheKey ld \<noteq> [] \<and> ld_session ld \<noteq> None then on_failure (cache_Put (ld_cacheKey ld) None) failed t else failed t)"
proof -
  let ?t0 = "t\<lparr>t_didResume := False\<rparr>"
  from assms(1) obtain hello ta tb ch tc td where s:
    "makeClientHello E ?t0 = Some (Inr (hello, params), ta)"
    "loadSession E hello (ta\<lparr>t_serverName := ch_serverName hello\<rparr>) = Some (Inr ld, tb)"
    "marshal_clientHello (e_B E) (ld_hello ld) = Some (ch, sent)" "writeRecord recordTypeHandshake ch tb = Some (Inr (), tc)"
    "readExpected E serverHello_of tc = Some (Inr sh, td)" "pickTLSVersion E sh td = Some (Inr (), t1)"
    by (auto simp: receive_serverHello_def after_Inr split: prod.splits)
  note r = run_client_downgrade [OF s(3-6) assms(2)]
  have "clientHandshake E t =
    (if ld_cacheKey ld \<noteq> [] \<and> ld_session ld \<noteq> None
     then on_failure (cache_Put (ld_cacheKey ld) None) (run_client E params ld) else run_client E params ld) tb"
    by (simp add: clientHandshake_def after_def [of _ _ t] after_def [of _ _ ?t0] after_def [of _ _ ta]
        after_def [of _ _ "ta\<lparr>t_serverName := ch_serverName hello\<rparr>"] change_def s(1,2))
  then show ?thesis using r by (simp add: on_failure_def)
qed

text \<open>
  C40. A client that has sent its hello and has read a ServerHello whose random a server of this package has made gives
  the handshake up, with an illegal_parameter alert and the error that names the downgrade, when the version they have
  settled on is below what both ends could do (and each knows at least TLS 1.2): the canary in the random tells it,
  whoever has changed the ClientHello on its way. \<open>Handshake\<close> does not report success. (The client must be able to
  send an alert, and its session cache be consistent, or it does not get as far as returning the error.)
\<close>

theorem downgrade_is_refused:
  assumes "make_serverRandom E ts = Some (Inr random, ts')"
    and "\<And>i n b. nw_rand (c_net (t_conn ts)) i n = Some b \<Longrightarrow> length b = n"
    and "receive_serverHello E' tc = Some (Inr (params, ld, sent, sh), tc1)" and "sh_random sh = random"
    and "t_vers tc1 = t_vers ts"
    and "VersionTLS12 \<le> maxSupportedVersion (e_D E) (Some (t_config ts)) roleServer"
    and "t_vers ts < maxSupportedVersion (e_D E) (Some (t_config ts)) roleServer"
    and "VersionTLS12 \<le> maxSupportedVersion (e_D E') (Some (t_config tc1)) roleClient"
    and "t_vers ts < maxSupportedVersion (e_D E') (Some (t_config tc1)) roleClient"
    and "c_isClient (t_conn tc)" and "\<not> c_complete (t_conn tc)"
    and "writable (c_out (t_conn tc1))" and "lru_ok (t_sessionCache tc1)"
  shows "(\<exists>e c t. sendAlertLocked alertIllegalParameter (t_conn tc1) = Some (e, c) \<and> t_conn t = c \<and>
      clientHandshake E' tc = Some (Inl (OtherError
        ''tls: downgrade attempt detected, possibly due to a MitM attack or a broken middlebox''), t)) \<and>
    (\<forall>t. Handshake E' tc \<noteq> Some (None, t))"
proof -
  have d: "downgrade_detected E' tc1 sh"
    by (rule downgrade_is_detected [OF assms(1,4) _ assms(5-9)]) (rule assms(2))
  from sendAlert_total [OF assms(12)] obtain e c where al: "sendAlertLocked alertIllegalParameter (t_conn tc1) = Some (e, c)" by blast
  then have "alert_fail alertIllegalParameter downgrade_error tc1 = Some (Inl downgrade_error :: conn_error + unit, tc1\<lparr>t_conn := c\<rparr>)"
    by (simp add: alert_fail_def alert_def after_def fail_def)
  moreover obtain cache where "lru_Put (ld_cacheKey ld) None (t_sessionCache tc1) = Some cache"
    using lru_Put_keeps [OF assms(13)] by blast
  ultimately have ch: "\<exists>t. t_conn t = c \<and> clientHandshake E' tc = Some (Inl downgrade_error, t)"
    unfolding clientHandshake_after_hello [OF assms(3) d] by (simp add: on_failure_def cache_Put_def)
  have "Handshake E' tc \<noteq> Some (None, t)" for t
  proof
    assume "Handshake E' tc = Some (None, t)"
    then show False by (rule Handshake_success [OF _ assms(11)]) (use ch assms(10) in \<open>auto simp: handshakeFn_def\<close>)
  qed
  with al ch show ?thesis by blast
qed

text \<open>
  A TLS 1.3 server whose ClientHello said TLS 1.2, and a TLS 1.3 client that reads its answer. The server's configuration
  and the client's are the toy ones.
\<close>

definition downgraded_server :: tlsConn where
  "downgraded_server = (let t = toy_server VersionTLS13 [] in t\<lparr>t_conn := (t_conn t)\<lparr>c_vers := VersionTLS12\<rparr>\<rparr>)"

definition downgraded_random :: bytes where
  "downgraded_random = replicate 24 0 @ [68, 79, 87, 78, 71, 82, 68, 1]"

definition downgraded_flight :: bytes where
  "downgraded_flight = take 11 server12_flight @ downgraded_random @ drop 43 server12_flight"

lemma downgraded_server_random:
  "\<exists>t. make_serverRandom toy_env downgraded_server = Some (Inr downgraded_random, t)"
  by (simp add: run downgraded_server_def downgraded_random_def cong: lazy_run split del: if_split)

lemma downgraded_client_receives:
  "\<exists>params ld sent sh t. receive_serverHello toy_env (toy_client VersionTLS13 [downgraded_flight]) = Some (Inr (params, ld, sent, sh), t) \<and>
     sh_random sh = downgraded_random \<and> t_vers t = VersionTLS12 \<and> t_config t = t_config (toy_client VersionTLS13 []) \<and>
     hc_cipher (c_out (t_conn t)) = None \<and> t_sessionCache t = NewLRUClientSessionCache 1"
  by (simp add: run receive_serverHello_def downgraded_flight_def downgraded_random_def cong: lazy_run split del: if_split)

theorem downgrade_is_refused_witness:
  "\<exists>t. clientHandshake toy_env (toy_client VersionTLS13 [downgraded_flight]) = Some (Inl (OtherError
      ''tls: downgrade attempt detected, possibly due to a MitM attack or a broken middlebox''), t)"
proof -
  let ?tc = "toy_client VersionTLS13 [downgraded_flight]"
  note D = toy_client_def toy_server_def tls_Client_def tls_Server_def new_tlsConn_def zero_conn_def toy_config_def
    defaultConfig_def emptyConfig_def toy_surroundings_def toy_net_def toy_env_def downgraded_server_def Let_def
    maxSupportedVersion_def config_supportedVersions_def supportedVersions_def version_skipped_def VersionTLS13_def
    VersionTLS12_def VersionTLS11_def VersionTLS10_def roleServer_def roleClient_def
  obtain ts' where r: "make_serverRandom toy_env downgraded_server = Some (Inr downgraded_random, ts')"
    using downgraded_server_random by blast
  obtain params ld sent sh tc1 where c: "receive_serverHello toy_env ?tc = Some (Inr (params, ld, sent, sh), tc1)"
    "sh_random sh = downgraded_random" "t_vers tc1 = VersionTLS12" "t_config tc1 = t_config (toy_client VersionTLS13 [])"
    "hc_cipher (c_out (t_conn tc1)) = None" "t_sessionCache tc1 = NewLRUClientSessionCache 1"
    using downgraded_client_receives by blast
  have "t_vers tc1 = t_vers downgraded_server" using c(3) by (simp add: downgraded_server_def Let_def)
  moreover have "writable (c_out (t_conn tc1))" "lru_ok (t_sessionCache tc1)"
    using c(5,6) lru_ok_New by (simp_all add: writable_def)
  ultimately show ?thesis
    using downgrade_is_refused [OF r _ c(1,2), unfolded c(4)] by (auto simp: D)
qed

end
