(* ===== verification/Names.thy ===== *)
theory Names
  imports Auth Config
begin

text \<open>
  The names of signature schemes, groups and client authentication types (\<open>common_string.go\<close>): slices of
  one string between two indices of a table.
\<close>

text \<open>\<open>strconv.FormatInt\<close> in base ten.\<close>

definition FormatInt :: "int \<Rightarrow> string" where
  "FormatInt i = (if i < 0 then ''-'' else '''') @ rev (itoa_rev (nat \<bar>i\<bar>))"

definition name_slice :: "string \<Rightarrow> nat list \<Rightarrow> nat \<Rightarrow> string" where
  "name_slice name table i = take (table ! Suc i - table ! i) (drop (table ! i) name)"

definition SignatureScheme_name_8 :: string where
  "SignatureScheme_name_8 = ''PSSWithSHA256PSSWithSHA384PSSWithSHA512Ed25519''"

definition SignatureScheme_index_8 :: "nat list" where
  "SignatureScheme_index_8 = [0, 13, 26, 39, 46]"

definition SignatureScheme_String :: "u16 \<Rightarrow> string" where
  "SignatureScheme_String i =
     (if i = 513 then ''PKCS1WithSHA1''
      else if i = 515 then ''ECDSAWithSHA1''
      else if i = 1025 then ''PKCS1WithSHA256''
      else if i = 1027 then ''ECDSAWithP256AndSHA256''
      else if i = 1281 then ''PKCS1WithSHA384''
      else if i = 1283 then ''ECDSAWithP384AndSHA384''
      else if i = 1537 then ''PKCS1WithSHA512''
      else if i = 1539 then ''ECDSAWithP521AndSHA512''
      else if 2052 \<le> i \<and> i \<le> 2055 then name_slice SignatureScheme_name_8 SignatureScheme_index_8 (unat (i - 2052))
      else ''SignatureScheme('' @ FormatInt (uint i) @ '')'')"

definition CurveID_name_0 :: string where "CurveID_name_0 = ''CurveP256CurveP384CurveP521''"

definition CurveID_index_0 :: "nat list" where "CurveID_index_0 = [0, 9, 18, 27]"

definition CurveID_String :: "u16 \<Rightarrow> string" where
  "CurveID_String i =
     (if 23 \<le> i \<and> i \<le> 25 then name_slice CurveID_name_0 CurveID_index_0 (unat (i - 23))
      else if i = 29 then ''X25519''
      else ''CurveID('' @ FormatInt (uint i) @ '')'')"

definition ClientAuthType_name :: string where
  "ClientAuthType_name =
     ''NoClientCertRequestClientCertRequireAnyClientCertVerifyClientCertIfGivenRequireAndVerifyClientCert''"

definition ClientAuthType_index :: "nat list" where "ClientAuthType_index = [0, 12, 29, 49, 72, 98]"

definition ClientAuthType_String :: "int \<Rightarrow> string" where
  "ClientAuthType_String i =
     (if i < 0 \<or> i \<ge> int (length ClientAuthType_index - 1) then ''ClientAuthType('' @ FormatInt i @ '')''
      else name_slice ClientAuthType_name ClientAuthType_index (nat i))"

lemma supported_scheme_names:
  "map SignatureScheme_String supportedSignatureAlgorithms =
     [''PSSWithSHA256'', ''ECDSAWithP256AndSHA256'', ''Ed25519'', ''PSSWithSHA384'', ''PSSWithSHA512'',
      ''PKCS1WithSHA256'', ''PKCS1WithSHA384'', ''PKCS1WithSHA512'', ''ECDSAWithP384AndSHA384'',
      ''ECDSAWithP521AndSHA512'', ''PKCS1WithSHA1'', ''ECDSAWithSHA1'']"
  by (simp add: supportedSignatureAlgorithms_def scheme_defs SignatureScheme_String_def name_slice_def
      SignatureScheme_name_8_def SignatureScheme_index_8_def)

end
