(* ===== verification/ConnOps.thy ===== *)
theory ConnOps
  imports Setup
begin

text \<open>
  The operations of a connection that run a handshake or act on it, over its whole state (\<open>conn.go\<close>):
  \<open>HandshakeContext\<close> with a context that may be cancelled, renegotiation, and messages after the handshake.
  The lemmas say that on the record layer they are the operations of \<open>PostHandshake\<close>, with
  \<open>clientHandshake\<close> and \<open>handleNewSessionTicket\<close> for their arguments.
\<close>

section \<open>Cancelling\<close>

text \<open>
  \<open>interrupted\<close> is what the goroutine that watches the context sends: nil, or the error of the context after it
  has closed the network connection. What a closed connection does to the reads and writes of the handshake is
  part of the network that the handshake is given.
\<close>

definition HandshakeContext ::
  "'b env \<Rightarrow> conn_error option \<Rightarrow> tlsConn \<Rightarrow> (conn_error option \<times> tlsConn) option" where
  "HandshakeContext E interrupted t =
     (if c_complete (t_conn t) then Some (None, t)
      else case Handshake E t of
        None \<Rightarrow> None
      | Some (err, t1) \<Rightarrow>
          (case interrupted of
             None \<Rightarrow> Some (err, t1)
           | Some ctxErr \<Rightarrow> Some (Some ctxErr, t1\<lparr>t_conn := snd (net_Close (t_conn t1))\<rparr>)))"

lemma HandshakeContext_background: "HandshakeContext E None t = Handshake E t"
  by (auto simp: HandshakeContext_def Handshake_def split: option.split)

lemma HandshakeContext_interrupted:
  assumes "HandshakeContext E (Some ctxErr) t = Some (err, t')" and "\<not> c_complete (t_conn t)"
  shows "err = Some ctxErr \<and> nw_closed (c_net (t_conn t')) > 0"
  using assms by (auto simp: HandshakeContext_def net_Close_def split: option.splits)

section \<open>After the handshake\<close>

definition on_conn :: "(conn \<Rightarrow> (conn_error option \<times> conn) option) \<Rightarrow> tlsConn \<Rightarrow> (conn_error option \<times> tlsConn) option" where
  "on_conn f t = map_option (\<lambda>(e, c). (e, t\<lparr>t_conn := c\<rparr>)) (f (t_conn t))"

definition tls_handleRenegotiation :: "'b env \<Rightarrow> tlsConn \<Rightarrow> (conn_error option \<times> tlsConn) option" where
  "tls_handleRenegotiation E t =
     (if t_vers t = VersionTLS13 then Some (Some (OtherError ''tls: internal error: unexpected renegotiation''), t)
      else case readHandshake (e_R E) (t_conn t) of
        None \<Rightarrow> None
      | Some (Inl err, c1) \<Rightarrow> Some (err, t\<lparr>t_conn := c1\<rparr>)
      | Some (Inr msg, c1) \<Rightarrow>
          (let t1 = t\<lparr>t_conn := c1\<rparr>; renegotiation = cfg_Renegotiation (t_config t)
           in if msg \<noteq> HelloRequestMsg then on_conn (alert_return alertUnexpectedMessage unexpectedMessageError) t1
              else if \<not> c_isClient c1 then on_conn (sendAlertLocked alertNoRenegotiation) t1
              else if renegotiation = RenegotiateNever then on_conn (sendAlertLocked alertNoRenegotiation) t1
              else if renegotiation = RenegotiateOnceAsClient \<and> c_handshakes c1 > 1 then
                on_conn (sendAlertLocked alertNoRenegotiation) t1
              else if renegotiation \<noteq> RenegotiateOnceAsClient \<and> renegotiation \<noteq> RenegotiateFreelyAsClient then
                on_conn (alert_return alertInternalError (OtherError ''tls: unknown Renegotiation value'')) t1
              else
                (case clientHandshake E (t\<lparr>t_conn := c1\<lparr>c_complete := False\<rparr>\<rparr>) of
                   None \<Rightarrow> None
                 | Some (Inr _, t2) \<Rightarrow> Some (None, t2\<lparr>t_conn := (t_conn t2)
                     \<lparr>c_handshakeErr := None, c_handshakes := Suc (c_handshakes (t_conn t2))\<rparr>\<rparr>)
                 | Some (Inl e, t2) \<Rightarrow> Some (Some e, t2\<lparr>t_conn := (t_conn t2)\<lparr>c_handshakeErr := Some e\<rparr>\<rparr>))))"

definition tls_handlePostHandshakeMessage :: "'b env \<Rightarrow> tlsConn \<Rightarrow> (conn_error option \<times> tlsConn) option" where
  "tls_handlePostHandshakeMessage E t =
     (if t_vers t \<noteq> VersionTLS13 then tls_handleRenegotiation E t
      else case readHandshake (e_R E) (t_conn t) of
        None \<Rightarrow> None
      | Some (Inl err, c1) \<Rightarrow> Some (err, t\<lparr>t_conn := c1\<rparr>)
      | Some (Inr msg, c1) \<Rightarrow>
          (let t2 = t\<lparr>t_conn := c1\<lparr>c_retryCount := Suc (c_retryCount c1)\<rparr>\<rparr>
           in if c_retryCount (t_conn t2) > maxUselessRecords then
                on_conn (alert_then_fail alertUnexpectedMessage (OtherError ''tls: too many non-advancing records'')) t2
              else case msg of
                NewSessionTicketMsgTLS13 m \<Rightarrow>
                  map_option (\<lambda>(r, t3). (result_error r, t3)) (handleNewSessionTicket E m t2)
              | KeyUpdateMsg m \<Rightarrow> on_conn (handleKeyUpdate (e_P E) (e_B E) m) t2
              | _ \<Rightarrow> on_conn (alert_return alertUnexpectedMessage unexpectedMessageError) t2))"

section \<open>On the record layer\<close>

definition record_layer :: "(conn_error option \<times> tlsConn) option \<Rightarrow> (conn_error option \<times> conn) option" where
  "record_layer = map_option (\<lambda>(e, t). (e, t_conn t))"

text \<open>A step of the whole connection as a function of the record layer.\<close>

definition conn_step :: "unit act \<Rightarrow> tlsConn \<Rightarrow> conn \<Rightarrow> (conn_error option \<times> conn) option" where
  "conn_step m t c = map_option (\<lambda>(r, t1). (result_error r, t_conn t1)) (m (t\<lparr>t_conn := c\<rparr>))"

lemma record_layer_simps [simp]:
  "record_layer None = None"
  "record_layer (Some (e, t)) = Some (e, t_conn t)"
  "record_layer (on_conn f t) = f (t_conn t)"
  "record_layer (map_option (\<lambda>(r, t1). (result_error r, t1)) (m t)) = conn_step m t (t_conn t)"
  by (auto simp: record_layer_def on_conn_def conn_step_def map_option_case split: option.split)

lemma conn_step_cases:
  "conn_step m t c =
     (case m (t\<lparr>t_conn := c\<rparr>) of None \<Rightarrow> None
      | Some (Inr _, t1) \<Rightarrow> Some (None, t_conn t1) | Some (Inl e, t1) \<Rightarrow> Some (Some e, t_conn t1))"
  by (auto simp: conn_step_def result_error_def split: option.split sum.split)

lemma tls_handleRenegotiation_record_layer:
  "record_layer (tls_handleRenegotiation E t) =
     handleRenegotiation (e_R E) (cfg_Renegotiation (t_config t)) (conn_step (clientHandshake E) t) (t_conn t)"
  by (auto simp: tls_handleRenegotiation_def handleRenegotiation_def conn_step_cases Let_def split: option.split sum.split)

lemma tls_handlePostHandshakeMessage_record_layer:
  "record_layer (tls_handlePostHandshakeMessage E t) =
     handlePostHandshakeMessage (e_P E) (e_B E) (e_R E) (cfg_Renegotiation (t_config t))
       (conn_step (clientHandshake E) t) (\<lambda>m. conn_step (handleNewSessionTicket E m) t) (t_conn t)"
  by (auto simp: tls_handlePostHandshakeMessage_def handlePostHandshakeMessage_def tls_handleRenegotiation_record_layer
      conn_step_def Let_def
      split: option.split sum.split handshakeMessage.split)

end
