(* ===== verification/Dialing.thy ===== *)
theory Dialing
  imports ConnOps
begin

text \<open>
  Listening and dialling (\<open>tls.go\<close>). The sockets of package \<open>net\<close> are arguments: what a listener accepts, and
  what dialling an address gives. A timeout or deadline of the dialer ends the context of the handshake, so it is
  part of \<open>interrupted\<close> (theory ConnOps). The result of dialling is what the caller sees, and beside it the
  connection, if one was made: after an error only the network has it.
\<close>

section \<open>Listening\<close>

text \<open>The inner listener: the result of each \<open>Accept\<close>, and how many there have been.\<close>

record inner_listener =
  in_Accept :: "nat \<Rightarrow> conn_error + surroundings"
  in_accepted :: nat

record listener =
  ls_Listener :: inner_listener
  ls_config :: Config
  ls_GetConfigForClient :: "(ClientHelloInfo \<Rightarrow> Config option \<times> conn_error option) option"

definition Accept :: "listener \<Rightarrow> (conn_error + tlsConn) \<times> listener" where
  "Accept l =
     (let inner = ls_Listener l; l1 = l\<lparr>ls_Listener := inner\<lparr>in_accepted := Suc (in_accepted inner)\<rparr>\<rparr>
      in case in_Accept inner (in_accepted inner) of
           Inl err \<Rightarrow> (Inl err, l1)
         | Inr su \<Rightarrow> (Inr (tls_Server (su\<lparr>su_GetConfigForClient := ls_GetConfigForClient l\<rparr>) (ls_config l)), l1))"

definition NewListener ::
  "inner_listener \<Rightarrow> (ClientHelloInfo \<Rightarrow> Config option \<times> conn_error option) option \<Rightarrow> Config \<Rightarrow> listener" where
  "NewListener inner getConfigForClient config =
     \<lparr>ls_Listener = inner, ls_config = config, ls_GetConfigForClient = getConfigForClient\<rparr>"

definition Listen ::
  "(bytes \<Rightarrow> bytes \<Rightarrow> conn_error + inner_listener) \<Rightarrow> bytes \<Rightarrow> bytes \<Rightarrow>
     (ClientHelloInfo \<Rightarrow> Config option \<times> conn_error option) option \<Rightarrow> Config option \<Rightarrow> conn_error + listener" where
  "Listen net_Listen network laddr getConfigForClient config =
     (case (Listen_check getConfigForClient config, config) of
        (None, Some c) \<Rightarrow>
          (case net_Listen network laddr of
             Inl err \<Rightarrow> Inl err
           | Inr l \<Rightarrow> Inr (NewListener l getConfigForClient c))
      | (Some err, _) \<Rightarrow> Inl err
      | (None, None) \<Rightarrow> Inl (OtherError ''tls: neither Certificates, GetCertificate, nor GetConfigForClient set in Config''))"

section \<open>Dialling\<close>

type_synonym net_dialer = "bytes \<Rightarrow> bytes \<Rightarrow> conn_error + surroundings"

definition dial ::
  "'b env \<Rightarrow> conn_error option \<Rightarrow> net_dialer \<Rightarrow> bytes \<Rightarrow> bytes \<Rightarrow> Config option \<Rightarrow>
     ((conn_error + tlsConn) \<times> tlsConn option) option" where
  "dial E interrupted netDialer network addr config =
     (case netDialer network addr of
        Inl err \<Rightarrow> Some (Inl err, None)
      | Inr rawConn \<Rightarrow>
          (case HandshakeContext E interrupted (tls_Client rawConn (Some (dial_config addr config))) of
             None \<Rightarrow> None
           | Some (Some err, t) \<Rightarrow> Some (Inl err, Some (t\<lparr>t_conn := snd (net_Close (t_conn t))\<rparr>))
           | Some (None, t) \<Rightarrow> Some (Inr t, Some t)))"

definition DialWithDialer ::
  "'b env \<Rightarrow> conn_error option \<Rightarrow> net_dialer \<Rightarrow> bytes \<Rightarrow> bytes \<Rightarrow> Config option \<Rightarrow>
     ((conn_error + tlsConn) \<times> tlsConn option) option" where
  "DialWithDialer E interrupted dialer network addr config = dial E interrupted dialer network addr config"

text \<open>\<open>Dialer\<close>: \<open>new(net.Dialer)\<close> is the default dialer, an argument as well.\<close>

record Dialer =
  dl_NetDialer :: "net_dialer option"
  dl_Config :: "Config option"

definition netDialer :: "net_dialer \<Rightarrow> Dialer \<Rightarrow> net_dialer" where
  "netDialer new_net_Dialer d = (case dl_NetDialer d of Some n \<Rightarrow> n | None \<Rightarrow> new_net_Dialer)"

definition DialContext ::
  "'b env \<Rightarrow> net_dialer \<Rightarrow> conn_error option \<Rightarrow> Dialer \<Rightarrow> bytes \<Rightarrow> bytes \<Rightarrow>
     ((conn_error + tlsConn) \<times> tlsConn option) option" where
  "DialContext E new_net_Dialer interrupted d network addr =
     dial E interrupted (netDialer new_net_Dialer d) network addr (dl_Config d)"

section \<open>What dialling gives\<close>

lemma Handshake_completes: "Handshake E t = Some (None, t') \<Longrightarrow> c_complete (t_conn t')"
  by (auto simp: Handshake_def Let_def result_error_def split: option.splits sum.splits if_splits)

text \<open>A connection that is returned has completed its handshake and knows the name it was dialled by.\<close>

lemma dial_config_name:
  "cfg_ServerName (dial_config addr config) =
     (if cfg_ServerName (case config of None \<Rightarrow> defaultConfig | Some c \<Rightarrow> c) = [] then dial_hostname addr
      else cfg_ServerName (case config of None \<Rightarrow> defaultConfig | Some c \<Rightarrow> c))"
  by (simp add: dial_config_def Let_def)

lemma fresh_incomplete [simp]: "\<not> c_complete (t_conn (tls_Client su config))" "\<not> c_complete (t_conn (tls_Server su c))"
  by (simp_all add: tls_Client_def tls_Server_def new_tlsConn_def zero_conn_def)

lemma dial_completes:
  assumes "dial E interrupted dialer network addr config = Some (Inr t, r)"
  shows "c_complete (t_conn t) \<and> interrupted = None"
  using assms
  by (auto simp: dial_def HandshakeContext_def dest: Handshake_completes split: sum.splits option.splits if_splits)

text \<open>After an error the network connection, if there was one, is closed.\<close>

lemma dial_error_closes:
  assumes "dial E interrupted dialer network addr config = Some (Inl err, Some t)"
  shows "nw_closed (c_net (t_conn t)) > 0"
  using assms by (auto simp: dial_def net_Close_def split: sum.splits option.splits)

text \<open>The default configuration cannot be listened with.\<close>

lemma Listen_needs_certificate:
  "Listen net_Listen network laddr None None = Inl e \<and> Listen net_Listen network laddr None (Some emptyConfig) = Inl e \<longleftrightarrow>
     e = OtherError ''tls: neither Certificates, GetCertificate, nor GetConfigForClient set in Config''"
  by (auto simp: Listen_def Listen_check_def emptyConfig_def)

end
