(* ===== verification/Spec2Isabelle.thy ===== *)
theory Spec2Isabelle
  imports DisguiseProperties RecordProperties MessageProperties SuiteLemmas KeyProperties SessionProperties HandshakeProperties
    Names Dialing
begin

text \<open>
  Disguise: a fork of Go's \<open>crypto/tls\<close> whose application data goes through a traffic-shaping layer. This
  development models the Go code of the repository, without its certificate generator, and proves what makes its
  parts correct. Paths below are relative to \<open>src/\<close>.

  \<^bold>\<open>The program.\<close> \<open>Server\<close>, \<open>Client\<close>, \<open>Dial\<close> and \<open>Listen\<close> (\<open>tls.go\<close>) make a \<open>Conn\<close> (\<open>conn.go\<close>) over a network
  connection and a \<open>Config\<close> (\<open>common.go\<close>). Its handshake runs once, by the files \<open>handshake_client.go\<close> and
  \<open>handshake_server.go\<close> up to TLS 1.2 and \<open>handshake_client_tls13.go\<close> and \<open>handshake_server_tls13.go\<close> in TLS 1.3. They
  exchange the messages of \<open>handshake_messages.go\<close>, choose a suite of \<open>cipher_suites.go\<close>, agree on a secret
  (\<open>key_agreement.go\<close>, \<open>key_schedule.go\<close>), derive keys (\<open>prf.go\<close>, \<open>key_schedule.go\<close>), sign and verify (\<open>auth.go\<close>) and
  keep sessions in tickets (\<open>ticket.go\<close>) and in the client's cache (\<open>common.go\<close>). The keys are switched on in the two
  \<open>halfConn\<close>s that protect records. Application data does not go into records directly: \<open>Write\<close> hands it to the
  Disguise manager (\<open>disguise/manager.go\<close>), which cuts it into cells (\<open>disguise/framing\<close>) of the sizes that a traffic
  profile draws (\<open>disguise/profile\<close>), guesses the kind of traffic (\<open>disguise/classifier.go\<close>) and lets a scheduler
  (\<open>disguise/scheduler\<close>) decide when a cell leaves; \<open>Read\<close> puts the cells together again.

  \<^bold>\<open>How the code is translated.\<close> A struct is a record, a tagged interface a datatype, a sized integer a word, a byte
  slice a list of 8-bit words. A function that may panic returns an option (\<open>None\<close> is the panic); an \<open>error\<close> is a
  value of \<open>conn_error\<close>, on the left of a sum or in an option beside other results. A method on a pointer returns the
  new state. What the code takes from elsewhere is an argument: random numbers, clock, network and key log are
  sequences of answers with a counter (\<open>network\<close>, \<open>host\<close>, \<open>world\<close>); the primitives of Go's crypto packages are
  \<open>crypto\<close> (theory Crypto), X.509 and signatures \<open>pki\<close> (Auth), \<open>cryptobyte\<close> a \<open>reader\<close> and a \<open>builder\<close>
  (Cryptobyte), PEM and key parsers \<open>key_files\<close> (Setup). \<open>float64\<close> is an ordered field (Profile); what the classifier
  stores is rounded after every operation by the function of theory Float64, while the draws of a profile and the scores
  that \<open>Predict\<close> compares are exact. The documented laws of the external code
  (\<open>hashes_ok\<close>, \<open>dh_ok\<close>, \<open>crypto_ok\<close>, \<open>pki_ok\<close>, \<open>reader_ok\<close>, \<open>builder_ok\<close>) are named hypotheses, each met by an
  executable instance in the same theory or in ToyRun. Nothing is assumed about secrecy.

  \<^bold>\<open>The theories.\<close>
  \<^item> Prelude: byte strings, big-endian numbers, slices, \<open>copy\<close>, division. Common: the constants of the protocol.
  \<^item> Disguise: Profile (\<open>disguise/profile/profile.go\<close>), Framing and FramingLemmas (\<open>disguise/framing/framing.go\<close>),
    Reassembler (\<open>disguise/framing/reassembler.go\<close>), Heap and Scheduler (\<open>disguise/scheduler/scheduler.go\<close>), Float64
    (rounding to 53 bits: monotone, exact on integers below \<open>2^53\<close>, with the relative error of one operation),
    Classifier (\<open>disguise/classifier.go\<close>), Manager and ManagerLemmas (\<open>disguise/manager.go\<close>). The loops of the manager
    and its callers are the step relation of ManagerLemmas; its mutex is a flag, and a step is one critical section.
    DisguiseProperties: fragments are reassembled, cells leave in order of their time and not early, the classifier
    finds a most likely path and learns exactly the counts of what it observes, the manager keeps its
    invariant and deadlocks where it locks its mutex twice.
  \<^item> Records: Ciphers, HalfConn and HalfConnLemmas (\<open>halfConn\<close>), Conn and ConnIO (\<open>Conn\<close>: reading, writing, alerts,
    closing, \<open>handshakeContext\<close>, the \<open>Read\<close> and \<open>Write\<close> of the Disguise layer), RecordChannel (the contract of two
    half connections in step), ConnLemmas, ConnReads, ReadTotal (reading a record and sending an alert do not panic).
    RecordProperties: the sequence number never wraps, padding is checked as specified, a receiver in step decrypts
    what was encrypted, record after record; reading returns a result, and a key switch takes the prepared keys;
    errors stick; and what \<open>Read\<close> and \<open>Write\<close> do wrong around records.
  \<^item> Messages: Cryptobyte, Hello, Messages and Handshake (\<open>handshake_messages.go\<close>, \<open>readHandshake\<close>) with
    ExtensionLemmas, HelloLemmas, MessageLemmas, BinderLemmas, HandshakeLemmas. MessageProperties: every message is
    read back as it was written, also cut into records by the network, and binders can be filled in afterwards.
  \<^item> Keys: Crypto, Suites and SuiteLemmas (\<open>cipher_suites.go\<close>, \<open>internal/cpu\<close>), Prf and PrfLemmas (\<open>prf.go\<close>),
    KeySchedule and KeyScheduleLemmas (\<open>key_schedule.go\<close>), Keys (\<open>establishKeys\<close>), PostHandshake (key updates and
    renegotiation on the record layer). KeyProperties: \<open>pHash\<close> is the function of the RFC, and the two ends of a
    connection are in step after \<open>establishKeys\<close> and after a key update.
  \<^item> Handshakes: Auth (\<open>auth.go\<close>), Config and ConfigLemmas (\<open>common.go\<close>, \<open>internal/godebug\<close>), SessionCache
    (\<open>lruSessionCache\<close>), Tickets (\<open>ticket.go\<close>), KeyAgreement and KeyAgreementLemmas (\<open>key_agreement.go\<close>), TlsConn (all
    of \<open>Conn\<close>, and the steps of a handshake), Server12, Client12, Server13, Client13 (the four handshake files; the
    functions have the names of the source, with the side or the version added where two files use the same name),
    Setup, ConnOps and Dialing (\<open>tls.go\<close>; \<open>Handshake\<close>, cancelling it, renegotiation and messages after it), Names
    (\<open>common_string.go\<close>). A step is a value of type \<open>act\<close>; \<open>after\<close> is the sequence with the early return of an error,
    \<open>alert_fail\<close> and \<open>ensure\<close> the alert that goes with it.
    SessionProperties: the session cache is a bounded list (but for \<open>Put\<close> of nil with an unknown key), tickets
    round-trip, both ends of a key agreement get the same secret, ticket keys stay well formed and recent.
    HandshakeRules has a Hoare logic for steps (\<open>triple\<close>, \<open>keeps\<close>), with
    which ServerAuth and ClientAuth follow the proof of the peer's identity through every path of the four files.
    HandshakeProperties: what a completed handshake means for the server and for the client, and that a client
    refuses a handshake that was downgraded.
  \<^item> ToyRun: a TLS 1.2 and a TLS 1.3 handshake with certificates on both sides, evaluated from the first message to
    the last for the client and the server, byte for byte what the other side sent. They are the instances of the
    properties above and show that no step of the model gets stuck on an honest peer.

  The interfaces between parts are locales: \<open>codec\<close> (the elements of a list in a message), \<open>record_channel\<close> (two half
  connections), \<open>priority_queue\<close> (what the scheduler asks of its heap), \<open>session_cache\<close> and \<open>key_agreement\<close>. Each
  is interpreted on the definitions of the part that provides it, and the properties rest on these interpretations.

  \<^bold>\<open>Loops.\<close> A loop over a slice is structural recursion, or filter and map where it only selects. The loops that read
  from the network, unprotect records, fragment a message, write records, and fill \<open>pHash\<close> are functions with a
  termination proof by what is left (input, data, bytes of the result), or \<open>partial_function (option)\<close> with a lemma
  that the result is there (\<open>read_blocks_ends\<close> for PEM, the totality of \<open>readRecordOrCCS\<close> and \<open>pHash\<close> among the
  properties). The loops \<open>for !s.Empty()\<close> over a \<open>cryptobyte\<close> string are \<open>while_nonempty\<close> (Cryptobyte): as many rounds
  as the string has bytes, which \<open>rounds_more\<close> shows to be enough, since every round that goes on reads at least one.

  \<^bold>\<open>Not modelled.\<close>
  \<^item> The certificate generator \<open>generate_cert.go\<close>: a program of its own that draws a key and writes two files.
  \<^item> Concurrency within a connection: one call runs at a time. The mutexes of \<open>Conn\<close> order its calls; the atomic
    \<open>activeCall\<close> is a field. The goroutine that cancels a handshake is its outcome (\<open>interrupted\<close> in ConnOps).
    The read lock of a \<open>Config\<close> is counted, because \<open>ticketKeys\<close> leaks it.
  \<^item> Contexts, deadlines, sockets and reading files are arguments; \<open>LocalAddr\<close>, \<open>RemoteAddr\<close>, \<open>NetConn\<close> and the
    deadline setters of \<open>Conn\<close> only pass a call on.
  \<^item> \<open>GetConfigForClient\<close> may return any configuration; it is kept beside the record of the configuration, whose type
    it would otherwise contain. A configuration that several connections share is a value here: its ticket keys come
    back in \<open>t_config\<close> and \<open>t_originalConfig\<close>. When the callback returns the original configuration itself, the
    model has two copies of it.
  \<^item> Every request to the random source is either filled or fails; a short read without an error (\<open>Read\<close> in
    \<open>sendSessionTickets\<close>) is not distinguished. \<open>strings.ToLower\<close> lowers ASCII only.
  \<^item> Texts of errors are kept up to the values formatted into them. Timing (constant-time comparison) has no model.
\<close>

end
